(* ===== verification/Prelude.thy ===== *)
theory Prelude
  imports Main "HOL-Library.List_Lexorder" "HOL-Library.Char_ord" "HOL-Library.Product_Lexorder"
begin

text \<open>
  Shared vocabulary of the FutureDiff model.  Go functions that return \<open>(T, error)\<close> return a
  value of a sum type here (\<open>Inl\<close> the error, \<open>Inr\<close> the value).  A SQL table is the list of its
  rows in rowid order; this theory holds the row operations the ledger statements use
  (look up by key, insert, update where, delete where) with the lemmas every component needs,
  the interface of a keyed table as a locale, and the few string functions of the Go standard
  library the sources call (\<open>strconv.FormatInt\<close>, \<open>strings.Join\<close>, \<open>strings.Split\<close>,
  \<open>strings.TrimSpace\<close>, \<open>sort.Strings\<close>).
\<close>

named_theorems table_simps \<open>rewrite rules for table operations\<close>

subsection \<open>Results\<close>

fun is_ok :: "'e + 'a \<Rightarrow> bool" where
  "is_ok (Inl _) = False"
| "is_ok (Inr _) = True"

definition try_bind :: "'e + 'a \<Rightarrow> ('a \<Rightarrow> 'e + 'b) \<Rightarrow> 'e + 'b" where
  "try_bind m f = (case m of Inl e \<Rightarrow> Inl e | Inr x \<Rightarrow> f x)"

lemma try_bind_simps [simp]:
  "try_bind (Inl e) f = Inl e"
  "try_bind (Inr x) f = f x"
  by (simp_all add: try_bind_def)

lemma try_bind_Inr: "try_bind m f = Inr y \<longleftrightarrow> (\<exists>x. m = Inr x \<and> f x = Inr y)"
  by (cases m) auto

lemma is_ok_iff: "is_ok r \<longleftrightarrow> (\<exists>x. r = Inr x)"
  by (cases r) auto

subsection \<open>Tables as row lists\<close>

definition find_row :: "('r \<Rightarrow> 'k) \<Rightarrow> 'k \<Rightarrow> 'r list \<Rightarrow> 'r option" where
  "find_row key k rows = find (\<lambda>r. key r = k) rows"

definition has_key :: "('r \<Rightarrow> 'k) \<Rightarrow> 'k \<Rightarrow> 'r list \<Rightarrow> bool" where
  "has_key key k rows = list_ex (\<lambda>r. key r = k) rows"

definition update_where :: "('r \<Rightarrow> bool) \<Rightarrow> ('r \<Rightarrow> 'r) \<Rightarrow> 'r list \<Rightarrow> 'r list" where
  "update_where P f rows = map (\<lambda>r. if P r then f r else r) rows"

definition changes :: "('r \<Rightarrow> bool) \<Rightarrow> 'r list \<Rightarrow> nat" where
  "changes P rows = length (filter P rows)"

definition unique_key :: "('r \<Rightarrow> 'k) \<Rightarrow> 'r list \<Rightarrow> bool" where
  "unique_key key rows = distinct (map key rows)"

lemma find_row_Nil [table_simps]: "find_row key k [] = None"
  by (simp add: find_row_def)

lemma find_row_Cons [table_simps]:
  "find_row key k (r # rows) = (if key r = k then Some r else find_row key k rows)"
  by (simp add: find_row_def)

lemma find_row_append [table_simps]:
  "find_row key k (xs @ ys) = (case find_row key k xs of None \<Rightarrow> find_row key k ys | Some r \<Rightarrow> Some r)"
  by (induction xs) (auto simp: table_simps)

lemma find_row_SomeD: "find_row key k rows = Some r \<Longrightarrow> r \<in> set rows \<and> key r = k"
  by (induction rows) (auto simp: table_simps split: if_splits)

lemma find_row_None: "find_row key k rows = None \<longleftrightarrow> (\<forall>r \<in> set rows. key r \<noteq> k)"
  by (induction rows) (auto simp: table_simps)

lemma has_key_iff: "has_key key k rows \<longleftrightarrow> (\<exists>r \<in> set rows. key r = k)"
  by (simp add: has_key_def list_ex_iff)

lemma has_key_find: "has_key key k rows \<longleftrightarrow> find_row key k rows \<noteq> None"
  by (auto simp: has_key_iff find_row_None)

lemma find_row_unique:
  "unique_key key rows \<Longrightarrow> r \<in> set rows \<Longrightarrow> find_row key (key r) rows = Some r"
proof (induction rows)
  case (Cons a rows)
  then show ?case by (cases "r = a") (simp_all add: unique_key_def table_simps, metis image_eqI)
qed simp

lemma find_row_update_where:
  assumes "\<And>r. P r \<Longrightarrow> key (f r) = key r"
  shows "find_row key k (update_where P f rows)
           = map_option (\<lambda>r. if P r then f r else r) (find_row key k rows)"
  using assms by (induction rows) (auto simp: table_simps update_where_def)

lemma update_where_keys:
  assumes "\<And>r. P r \<Longrightarrow> key (f r) = key r"
  shows "map key (update_where P f rows) = map key rows"
  using assms by (induction rows) (auto simp: update_where_def)

lemma unique_key_update_where:
  assumes "\<And>r. P r \<Longrightarrow> key (f r) = key r" and "unique_key key rows"
  shows "unique_key key (update_where P f rows)"
  using assms by (simp add: unique_key_def update_where_keys)

lemma unique_key_append:
  "unique_key key (rows @ [r]) \<longleftrightarrow> unique_key key rows \<and> \<not> has_key key (key r) rows"
  by (auto simp: unique_key_def has_key_iff image_def)

lemma has_key_update_where:
  assumes "\<And>r. P r \<Longrightarrow> key (f r) = key r"
  shows "has_key key k (update_where P f rows) = has_key key k rows"
  using assms by (induction rows) (auto simp: has_key_iff update_where_def)

lemma set_update_where: "set (update_where P f rows) = (\<lambda>r. if P r then f r else r) ` set rows"
  by (simp add: update_where_def)

lemma length_update_where [simp]: "length (update_where P f rows) = length rows"
  by (simp add: update_where_def)

lemma update_where_Nil [table_simps]: "update_where P f [] = []"
  by (simp add: update_where_def)

lemma update_where_Cons [table_simps]:
  "update_where P f (r # rows) = (if P r then f r else r) # update_where P f rows"
  by (simp add: update_where_def)

lemma update_where_append [table_simps]:
  "update_where P f (xs @ ys) = update_where P f xs @ update_where P f ys"
  by (simp add: update_where_def)

lemma update_where_none: "(\<And>r. r \<in> set rows \<Longrightarrow> \<not> P r) \<Longrightarrow> update_where P f rows = rows"
  unfolding update_where_def by (induction rows) auto

lemma filter_update_where_id:
  assumes "\<And>r. P r \<Longrightarrow> Q (f r) = Q r" and "\<And>r. P r \<Longrightarrow> \<not> Q r"
  shows "filter Q (update_where P f rows) = filter Q rows"
  using assms by (induction rows) (auto simp: update_where_def)

lemma changes_code [table_simps]:
  "changes P [] = 0"
  "changes P (r # rows) = (if P r then Suc (changes P rows) else changes P rows)"
  by (simp_all add: changes_def)

lemma changes_unique_key:
  assumes "unique_key key rows" and "find_row key k rows = Some r" and "Q r"
  shows "changes (\<lambda>r. key r = k \<and> Q r) rows = 1"
  using assms
proof (induction rows)
  case Nil
  then show ?case by (simp add: table_simps)
next
  case (Cons a rows)
  show ?case
  proof (cases "key a = k")
    case True
    with Cons.prems have "k \<notin> key ` set rows" and "Q a"
      by (auto simp: unique_key_def table_simps)
    then have "filter (\<lambda>r. key r = k \<and> Q r) rows = []"
      by (auto simp: filter_empty_conv)
    with True \<open>Q a\<close> show ?thesis by (simp add: changes_def)
  next
    case False
    with Cons show ?thesis by (simp add: unique_key_def table_simps)
  qed
qed

subsection \<open>The interface of a keyed table\<close>

text \<open>
  What every client of a table relies on: a row is found by its key after it was inserted,
  updates of one row do not disturb the others, and the key stays unique.
\<close>

locale keyed_table =
  fixes key :: "'r \<Rightarrow> 'k"
    and lookup :: "'k \<Rightarrow> 'r list \<Rightarrow> 'r option"
    and modify :: "'k \<Rightarrow> ('r \<Rightarrow> 'r) \<Rightarrow> 'r list \<Rightarrow> 'r list"
    and wf :: "'r list \<Rightarrow> bool"
  assumes wf_empty: "wf []"
    and wf_insert: "wf rows \<Longrightarrow> lookup (key r) rows = None \<Longrightarrow> wf (rows @ [r])"
    and wf_modify: "wf rows \<Longrightarrow> (\<And>r. key (f r) = key r) \<Longrightarrow> wf (modify k f rows)"
    and lookup_empty: "lookup k [] = None"
    and lookup_insert: "lookup (key r) rows = None \<Longrightarrow>
          lookup k (rows @ [r]) = (if k = key r then Some r else lookup k rows)"
    and lookup_modify: "(\<And>r. key (f r) = key r) \<Longrightarrow>
          lookup k (modify k' f rows) = (if k = k' then map_option f (lookup k rows) else lookup k rows)"
    and lookup_key: "lookup k rows = Some r \<Longrightarrow> key r = k"
begin

lemma lookup_modify_same:
  "(\<And>r. key (f r) = key r) \<Longrightarrow> lookup k rows = Some r \<Longrightarrow> lookup k (modify k f rows) = Some (f r)"
  by (simp add: lookup_modify)

lemma lookup_modify_other:
  "(\<And>r. key (f r) = key r) \<Longrightarrow> k \<noteq> k' \<Longrightarrow> lookup k (modify k' f rows) = lookup k rows"
  by (simp add: lookup_modify)

lemma modify_defined:
  "(\<And>r. key (f r) = key r) \<Longrightarrow> lookup k (modify k' f rows) = None \<longleftrightarrow> lookup k rows = None"
  by (simp add: lookup_modify)

lemma lookup_insert_stable:
  "lookup (key r) rows = None \<Longrightarrow> lookup k rows = Some r' \<Longrightarrow> lookup k (rows @ [r]) = Some r'"
  by (auto simp: lookup_insert)

end

definition modify_row :: "('r \<Rightarrow> 'k) \<Rightarrow> 'k \<Rightarrow> ('r \<Rightarrow> 'r) \<Rightarrow> 'r list \<Rightarrow> 'r list" where
  "modify_row key k f rows = update_where (\<lambda>r. key r = k) f rows"

lemma find_row_modify_row:
  assumes "\<And>r. key (f r) = key r"
  shows "find_row key k (modify_row key k' f rows)
           = (if k = k' then map_option f (find_row key k rows) else find_row key k rows)"
  using assms by (induction rows) (auto simp: modify_row_def table_simps)

lemma keyed_table_rows:
  "keyed_table key (find_row key) (modify_row key) (unique_key key)"
proof
  show "unique_key key []" by (simp add: unique_key_def)
  show "unique_key key (modify_row key k f rows)"
    if "unique_key key rows" "\<And>r. key (f r) = key r" for rows k f
    using that by (simp add: modify_row_def unique_key_update_where)
qed (auto simp: unique_key_append has_key_find find_row_modify_row table_simps
       dest: find_row_SomeD split: option.splits)

subsection \<open>Guards and lookups as values\<close>

definition require :: "bool \<Rightarrow> 'e \<Rightarrow> 'e + unit" where
  "require c e = (if c then Inr () else Inl e)"

definition fetch :: "'a option \<Rightarrow> 'e \<Rightarrow> 'e + 'a" where
  "fetch x e = (case x of None \<Rightarrow> Inl e | Some v \<Rightarrow> Inr v)"

lemma require_Inr [simp]: "require c e = Inr u \<longleftrightarrow> c"
  by (simp add: require_def)

lemma fetch_Inr [simp]: "fetch x e = Inr v \<longleftrightarrow> x = Some v"
  by (cases x) (auto simp: fetch_def)

lemma require_simps: "require True e = Inr ()" "require False e = Inl e"
  by (simp_all add: require_def)

lemma fetch_simps: "fetch None e = Inl e" "fetch (Some v) e = Inr v"
  by (simp_all add: fetch_def)

subsection \<open>Go string functions\<close>

fun show_nat :: "nat \<Rightarrow> string" where
  "show_nat n = (if n < 10 then [char_of (48 + n)] else show_nat (n div 10) @ [char_of (48 + n mod 10)])"

declare show_nat.simps [simp del]

definition show_int :: "int \<Rightarrow> string" where
  "show_int i = (if i < 0 then CHR ''-'' # show_nat (nat (- i)) else show_nat (nat i))"

fun join :: "string \<Rightarrow> string list \<Rightarrow> string" where
  "join sep [] = []"
| "join sep [x] = x"
| "join sep (x # y # ys) = x @ sep @ join sep (y # ys)"

text \<open>\<open>strings.Split\<close> on a one-character separator; an empty input gives one empty piece.\<close>

fun split_on :: "char \<Rightarrow> string \<Rightarrow> string list" where
  "split_on c [] = [[]]"
| "split_on c (x # xs) =
     (if x = c then [] # split_on c xs
      else case split_on c xs of [] \<Rightarrow> [[x]] | p # ps \<Rightarrow> (x # p) # ps)"

lemma split_on_not_Nil [simp]: "split_on c s \<noteq> []"
  by (induction s) (auto split: list.splits)

lemma split_on_join:
  "ps \<noteq> [] \<Longrightarrow> \<forall>p \<in> set ps. c \<notin> set p \<Longrightarrow> split_on c (join [c] ps) = ps"
proof (induction "[c]" ps rule: join.induct)
  case (2 x)
  then show ?case
    by (induction x) (auto split: list.splits)
next
  case (3 x y ys)
  have "split_on c (join [c] (y # ys)) = y # ys" using 3 by simp
  then have "c \<notin> set x \<Longrightarrow> split_on c (x @ c # join [c] (y # ys)) = x # y # ys"
    by (induction x) (auto split: list.splits)
  then show ?case using 3 by simp
qed simp

text \<open>ASCII white space, the characters \<open>strings.TrimSpace\<close> removes from ASCII text.\<close>

definition is_space :: "char \<Rightarrow> bool" where
  "is_space c = (c \<in> {CHR '' '', CHR 0x09, CHR 0x0A, CHR 0x0B, CHR 0x0C, CHR 0x0D})"

definition trim_space :: "string \<Rightarrow> string" where
  "trim_space s = rev (dropWhile is_space (rev (dropWhile is_space s)))"

definition has_prefix :: "string \<Rightarrow> string \<Rightarrow> bool" where
  "has_prefix s p = (take (length p) s = p)"

definition nub_sorted :: "string list \<Rightarrow> bool" where
  "nub_sorted xs = (sorted xs \<and> distinct xs)"

subsection \<open>Go string functions\<close>

definition has_suffix :: "string \<Rightarrow> string \<Rightarrow> bool" where
  "has_suffix s p = has_prefix (rev s) (rev p)"

text \<open>\<open>strings.Contains\<close>.\<close>

fun contains :: "string \<Rightarrow> string \<Rightarrow> bool" where
  "contains [] m = (m = [])"
| "contains (c # cs) m = (has_prefix (c # cs) m \<or> contains cs m)"

text \<open>
  \<open>strings.ToLower\<close>, as far as a search for an ASCII text can tell: besides the ASCII letters, the
  Kelvin sign and the dotted capital I become ASCII letters.
\<close>

definition lower_char :: "char \<Rightarrow> char" where
  "lower_char c = (if (65::nat) \<le> of_char c \<and> of_char c \<le> (90::nat) then char_of (of_char c + 32 :: nat) else c)"

fun to_lower :: "string \<Rightarrow> string" where
  "to_lower [] = []"
| "to_lower (c # cs) =
     (if take 3 (c # cs) = [CHR 0xE2, CHR 0x84, CHR 0xAA] then CHR ''k'' # to_lower (drop 2 cs)
      else if take 2 (c # cs) = [CHR 0xC4, CHR 0xB0] then CHR ''i'' # to_lower (drop 1 cs)
      else lower_char c # to_lower cs)"

text \<open>\<open>strings.ToUpper\<close> on ASCII text (an HTTP method is a token).\<close>

definition to_upper :: "string \<Rightarrow> string" where
  "to_upper s = map (\<lambda>c. if (97::nat) \<le> of_char c \<and> of_char c \<le> (122::nat) then char_of (of_char c - 32 :: nat) else c) s"

end
