(* ===== verification/Sha256.thy ===== *)
theory Sha256
  imports Prelude "HOL-Library.Word"
begin

unbundle bit_operations_syntax

text \<open>
  The SHA-256 function of \<open>crypto/sha256\<close> on byte strings (a \<open>char\<close> is a byte) and its
  lower-case hexadecimal rendering, which is all the sources use of it
  (\<open>domain.SHA256Bytes\<close> and the digest helpers).  Every digest of the model is this function;
  theorems never assume that it has no collisions, they name the two inputs that would collide.
\<close>

type_synonym u32 = "32 word"

text \<open>The constants are the first 32 bits of the fractional parts of roots of the first primes.\<close>

definition small_primes :: "nat list" where
  "small_primes = filter (\<lambda>n. list_all (\<lambda>d. n mod d \<noteq> 0) [2..<n]) [2..<312]"

definition root_floor :: "nat \<Rightarrow> nat \<Rightarrow> nat" where
  "root_floor k n = foldr (\<lambda>b r. if (r + 2 ^ b) ^ k \<le> n then r + 2 ^ b else r) [0..<37] 0"

definition root_bits :: "nat \<Rightarrow> nat \<Rightarrow> u32" where
  "root_bits k p = word_of_nat (root_floor k (p * 2 ^ (32 * k)))"

definition sha_k :: "u32 list" where
  "sha_k = map (root_bits 3) small_primes"

record sha_state =
  sa :: u32
  sb :: u32
  sc :: u32
  sd :: u32
  se :: u32
  sf :: u32
  sg :: u32
  sh :: u32

definition sha_init :: sha_state where
  "sha_init = \<lparr>sa = root_bits 2 2, sb = root_bits 2 3, sc = root_bits 2 5, sd = root_bits 2 7,
     se = root_bits 2 11, sf = root_bits 2 13, sg = root_bits 2 17, sh = root_bits 2 19\<rparr>"

definition rotr :: "nat \<Rightarrow> u32 \<Rightarrow> u32" where
  "rotr n x = drop_bit n x OR push_bit (32 - n) x"

definition sha_step :: "u32 \<times> u32 \<Rightarrow> sha_state \<Rightarrow> sha_state" where
  "sha_step kw s =
     (let s1 = rotr 6 (se s) XOR rotr 11 (se s) XOR rotr 25 (se s);
          ch = (se s AND sf s) XOR (NOT (se s) AND sg s);
          t1 = sh s + s1 + ch + fst kw + snd kw;
          s0 = rotr 2 (sa s) XOR rotr 13 (sa s) XOR rotr 22 (sa s);
          maj = (sa s AND sb s) XOR (sa s AND sc s) XOR (sb s AND sc s);
          t2 = s0 + maj
      in \<lparr>sa = t1 + t2, sb = sa s, sc = sb s, sd = sc s, se = sd s + t1, sf = se s, sg = sf s, sh = sg s\<rparr>)"

primrec sha_extend :: "nat \<Rightarrow> u32 list \<Rightarrow> u32 list" where
  "sha_extend 0 ws = ws"
| "sha_extend (Suc n) ws =
     (let l = length ws; w15 = ws ! (l - 15); w2 = ws ! (l - 2);
          s0 = rotr 7 w15 XOR rotr 18 w15 XOR drop_bit 3 w15;
          s1 = rotr 17 w2 XOR rotr 19 w2 XOR drop_bit 10 w2
      in sha_extend n (ws @ [ws ! (l - 16) + s0 + ws ! (l - 7) + s1]))"

definition sha_block :: "sha_state \<Rightarrow> u32 list \<Rightarrow> sha_state" where
  "sha_block h ws =
     (let r = fold sha_step (zip sha_k (sha_extend 48 ws)) h
      in \<lparr>sa = sa h + sa r, sb = sb h + sb r, sc = sc h + sc r, sd = sd h + sd r,
          se = se h + se r, sf = sf h + sf r, sg = sg h + sg r, sh = sh h + sh r\<rparr>)"

definition be_word :: "nat \<Rightarrow> nat \<Rightarrow> nat \<Rightarrow> nat \<Rightarrow> u32" where
  "be_word a b c d = word_of_nat (((a * 256 + b) * 256 + c) * 256 + d)"

fun be_words :: "nat list \<Rightarrow> u32 list" where
  "be_words (a # b # c # d # rest) = be_word a b c d # be_words rest"
| "be_words _ = []"

fun sha_blocks :: "u32 list \<Rightarrow> sha_state \<Rightarrow> sha_state" where
  "sha_blocks ws h = (if ws = [] then h else sha_blocks (drop 16 ws) (sha_block h (take 16 ws)))"

declare sha_blocks.simps [simp del]

definition be_bytes8 :: "nat \<Rightarrow> nat list" where
  "be_bytes8 n = map (\<lambda>i. n div 256 ^ (7 - i) mod 256) [0..<8]"

definition sha_pad :: "nat list \<Rightarrow> nat list" where
  "sha_pad bs = bs @ [128] @ replicate ((119 - length bs mod 64) mod 64) 0 @ be_bytes8 (8 * length bs)"

definition sha256 :: "string \<Rightarrow> sha_state" where
  "sha256 s = sha_blocks (be_words (sha_pad (map of_char s))) sha_init"

definition hex_digit :: "nat \<Rightarrow> char" where
  "hex_digit n = char_of (if n < 10 then 48 + n else 87 + n)"

definition hex_word :: "u32 \<Rightarrow> string" where
  "hex_word w = map (\<lambda>i. hex_digit (unat w div 16 ^ (7 - i) mod 16)) [0..<8]"

definition sha256_hex :: "string \<Rightarrow> string" where
  "sha256_hex s = (let h = sha256 s in
     concat (map hex_word [sa h, sb h, sc h, sd h, se h, sf h, sg h, sh h]))"

lemma length_hex_word [simp]: "length (hex_word w) = 8"
  by (simp add: hex_word_def)

lemma length_sha256_hex [simp]: "length (sha256_hex s) = 64"
  by (simp add: sha256_hex_def Let_def)

lemma sha256_hex_not_Nil [simp]: "sha256_hex s \<noteq> []" "[] \<noteq> sha256_hex s"
  using length_sha256_hex [of s] by (auto simp del: length_sha256_hex)

lemma hex_digit_nonzero: "n < 16 \<Longrightarrow> of_char (hex_digit n) \<noteq> (0::nat)"
  by (auto simp: hex_digit_def)

end
