(* ===== verification/Json.thy ===== *)
theory Json
  imports Prelude
begin

text \<open>
  The part of \<open>encoding/json\<close> the sources use to build digests: \<open>json.Marshal\<close> of strings,
  integers, booleans, arrays and objects.  A Go struct is an object with its fields in
  declaration order, a Go map is an object with its keys sorted; \<open>omitempty\<close> fields are left
  out when they are empty.  Strings are byte strings: they are escaped as \<open>json.Marshal\<close> escapes
  them (HTML-safe, ill-formed UTF-8 replaced).
\<close>

datatype json =
    JNull
  | JBool bool
  | JInt int
  | JStr string
  | JArr "json list"
  | JObj "(string \<times> json) list"

definition in_range :: "nat \<Rightarrow> nat \<Rightarrow> nat \<Rightarrow> bool" where
  "in_range lo hi b = (lo \<le> b \<and> b \<le> hi)"

text \<open>Length of the well-formed UTF-8 sequence at the front of the input; 0 when ill-formed.\<close>

fun utf8_size :: "nat list \<Rightarrow> nat" where
  "utf8_size (b0 # b1 # b2 # b3 # _) =
     (if in_range 0xC2 0xDF b0 \<and> in_range 0x80 0xBF b1 then 2
      else if ((b0 = 0xE0 \<and> in_range 0xA0 0xBF b1)
            \<or> (in_range 0xE1 0xEC b0 \<and> in_range 0x80 0xBF b1)
            \<or> (b0 = 0xED \<and> in_range 0x80 0x9F b1)
            \<or> (in_range 0xEE 0xEF b0 \<and> in_range 0x80 0xBF b1)) \<and> in_range 0x80 0xBF b2 then 3
      else if ((b0 = 0xF0 \<and> in_range 0x90 0xBF b1)
            \<or> (in_range 0xF1 0xF3 b0 \<and> in_range 0x80 0xBF b1)
            \<or> (b0 = 0xF4 \<and> in_range 0x80 0x8F b1)) \<and> in_range 0x80 0xBF b2 \<and> in_range 0x80 0xBF b3 then 4
      else 0)"
| "utf8_size [b0, b1, b2] =
     (if in_range 0xC2 0xDF b0 \<and> in_range 0x80 0xBF b1 then 2
      else if ((b0 = 0xE0 \<and> in_range 0xA0 0xBF b1)
            \<or> (in_range 0xE1 0xEC b0 \<and> in_range 0x80 0xBF b1)
            \<or> (b0 = 0xED \<and> in_range 0x80 0x9F b1)
            \<or> (in_range 0xEE 0xEF b0 \<and> in_range 0x80 0xBF b1)) \<and> in_range 0x80 0xBF b2 then 3
      else 0)"
| "utf8_size [b0, b1] = (if in_range 0xC2 0xDF b0 \<and> in_range 0x80 0xBF b1 then 2 else 0)"
| "utf8_size _ = 0"

abbreviation backslash :: char where "backslash \<equiv> CHR 0x5C"

definition hex_nibble :: "nat \<Rightarrow> char" where
  "hex_nibble n = char_of (if n < 10 then 48 + n else 87 + n)"

definition escape_ascii :: "char \<Rightarrow> string" where
  "escape_ascii c =
     (if c = CHR 0x22 \<or> c = backslash then [backslash, c]
      else if c = CHR 0x08 then [backslash, CHR ''b'']
      else if c = CHR 0x0C then [backslash, CHR ''f'']
      else if c = CHR 0x0A then [backslash, CHR ''n'']
      else if c = CHR 0x0D then [backslash, CHR ''r'']
      else if c = CHR 0x09 then [backslash, CHR ''t'']
      else if of_char c < (32::nat) \<or> c \<in> {CHR ''<'', CHR ''>'', CHR ''&''}
        then [backslash, CHR ''u'', CHR ''0'', CHR ''0'', hex_nibble (of_char c div 16), hex_nibble (of_char c mod 16)]
      else [c])"

fun escape :: "string \<Rightarrow> string" where
  "escape [] = []"
| "escape (c # cs) =
     (if of_char c < (128::nat) then escape_ascii c @ escape cs
      else (let n = utf8_size (map of_char (c # cs))
            in if n = 0 then [backslash, CHR ''u'', CHR ''f'', CHR ''f'', CHR ''f'', CHR ''d''] @ escape cs
               else if map of_char (take 3 (c # cs)) = [0xE2, 0x80, 0xA8::nat]
                 then [backslash, CHR ''u'', CHR ''2'', CHR ''0'', CHR ''2'', CHR ''8''] @ escape (drop 2 cs)
               else if map of_char (take 3 (c # cs)) = [0xE2, 0x80, 0xA9::nat]
                 then [backslash, CHR ''u'', CHR ''2'', CHR ''0'', CHR ''2'', CHR ''9''] @ escape (drop 2 cs)
               else take n (c # cs) @ escape (drop (n - 1) cs)))"

declare escape.simps(2) [simp del]

definition quote :: "string \<Rightarrow> string" where
  "quote s = CHR 0x22 # escape s @ [CHR 0x22]"

fun marshal :: "json \<Rightarrow> string" where
  "marshal JNull = ''null''"
| "marshal (JBool b) = (if b then ''true'' else ''false'')"
| "marshal (JInt i) = show_int i"
| "marshal (JStr s) = quote s"
| "marshal (JArr xs) = ''['' @ join '','' (map marshal xs) @ '']''"
| "marshal (JObj kvs) = ''{'' @ join '','' (map (\<lambda>kv. quote (fst kv) @ '':'' @ marshal (snd kv)) kvs) @ ''}''"

text \<open>Struct fields with and without \<open>omitempty\<close>, maps from strings to strings, slices.\<close>

definition str_field :: "string \<Rightarrow> string \<Rightarrow> (string \<times> json) list" where
  "str_field k s = [(k, JStr s)]"

definition opt_field :: "string \<Rightarrow> string \<Rightarrow> (string \<times> json) list" where
  "opt_field k s = (if s = [] then [] else [(k, JStr s)])"

definition json_map :: "(string \<times> json) list \<Rightarrow> json" where
  "json_map kvs = JObj (sort_key fst kvs)"

definition json_strs :: "string list \<Rightarrow> json" where
  "json_strs xs = JArr (map JStr xs)"

subsection \<open>Marshalling is injective on ASCII documents\<close>

text \<open>
  A digest of a JSON document binds the document: two different ASCII documents have different
  renderings.  The proof reads a rendering from the front: the first character tells the kind of
  value, a string ends at its first unescaped quote, a number at the first non-digit.
\<close>

definition ascii :: "string \<Rightarrow> bool" where
  "ascii s = list_all (\<lambda>c. of_char c < (128::nat)) s"

fun json_ascii :: "json \<Rightarrow> bool" where
  "json_ascii (JStr s) = ascii s"
| "json_ascii (JArr xs) = list_all json_ascii xs"
| "json_ascii (JObj kvs) = list_all (\<lambda>kv. ascii (fst kv) \<and> json_ascii (snd kv)) kvs"
| "json_ascii _ = True"

definition nibble_value :: "char \<Rightarrow> nat" where
  "nibble_value c = (let n = of_char c in if n < 58 then n - 48 else n - 87)"

fun unescape1 :: "string \<Rightarrow> (char \<times> string) option" where
  "unescape1 [] = None"
| "unescape1 (c # cs) =
     (if c \<noteq> backslash then Some (c, cs)
      else case cs of
             [] \<Rightarrow> None
           | d # ds \<Rightarrow>
               if d = CHR ''b'' then Some (CHR 0x08, ds)
               else if d = CHR ''f'' then Some (CHR 0x0C, ds)
               else if d = CHR ''n'' then Some (CHR 0x0A, ds)
               else if d = CHR ''r'' then Some (CHR 0x0D, ds)
               else if d = CHR ''t'' then Some (CHR 0x09, ds)
               else if d = CHR ''u''
                 then (case ds of _ # _ # h # k # rest \<Rightarrow> Some (char_of (16 * nibble_value h + nibble_value k), rest) | _ \<Rightarrow> None)
               else Some (d, ds))"

lemma nibble_value_hex [simp]: "n < 16 \<Longrightarrow> nibble_value (hex_nibble n) = n"
  by (auto simp: nibble_value_def hex_nibble_def)

lemma char_of_split: "char_of (16 * (of_char c div 16 :: nat) + of_char c mod 16) = c"
  by simp

lemma unescape1_escape: "of_char c < (128::nat) \<Longrightarrow> unescape1 (escape_ascii c @ r) = Some (c, r)"
  by (auto simp: escape_ascii_def)

lemma escape_ascii_hd: "\<exists>d ds. escape_ascii c = d # ds \<and> d \<noteq> CHR 0x22"
  by (auto simp: escape_ascii_def)

lemma escape_ascii_Cons: "of_char c < (128::nat) \<Longrightarrow> escape (c # cs) = escape_ascii c @ escape cs"
  by (simp add: escape.simps)

lemma quote_inj:
  "ascii s \<Longrightarrow> ascii t \<Longrightarrow> escape s @ CHR 0x22 # r = escape t @ CHR 0x22 # r' \<Longrightarrow> s = t \<and> r = r'"
proof (induction s arbitrary: t)
  case Nil
  show ?case
  proof (cases t)
    case (Cons d t')
    obtain x ds where "escape_ascii d = x # ds" "x \<noteq> CHR 0x22" using escape_ascii_hd by blast
    with Cons Nil show ?thesis by (simp add: ascii_def escape_ascii_Cons)
  qed (use Nil in simp)
next
  case (Cons c s)
  show ?case
  proof (cases t)
    case Nil
    obtain d ds where "escape_ascii c = d # ds" "d \<noteq> CHR 0x22" using escape_ascii_hd by blast
    with Nil Cons.prems show ?thesis by (simp add: ascii_def escape_ascii_Cons)
  next
    case (Cons d t')
    with Cons.prems have "of_char c < (128::nat)" "of_char d < (128::nat)" "ascii s" "ascii t'"
      and eq: "escape_ascii c @ (escape s @ CHR 0x22 # r) = escape_ascii d @ (escape t' @ CHR 0x22 # r')"
      by (auto simp: ascii_def escape_ascii_Cons)
    from eq have "unescape1 (escape_ascii c @ (escape s @ CHR 0x22 # r)) = unescape1 (escape_ascii d @ (escape t' @ CHR 0x22 # r'))"
      by simp
    with \<open>of_char c < 128\<close> \<open>of_char d < 128\<close> have "c = d" "escape s @ CHR 0x22 # r = escape t' @ CHR 0x22 # r'"
      by (simp_all add: unescape1_escape)
    with Cons.IH [OF \<open>ascii s\<close> \<open>ascii t'\<close>] Cons show ?thesis by simp
  qed
qed

definition is_digit :: "char \<Rightarrow> bool" where
  "is_digit c = ((of_char c :: nat) \<in> {48..57})"

definition digits_value :: "string \<Rightarrow> nat" where
  "digits_value s = foldl (\<lambda>v c. 10 * v + (of_char c - 48)) 0 s"

lemma show_nat_digits: "\<forall>c \<in> set (show_nat n). is_digit c"
proof (induction n rule: show_nat.induct)
  case (1 n)
  then show ?case by (subst show_nat.simps) (auto simp: is_digit_def)
qed

lemma digits_value_show_nat: "digits_value (show_nat n) = n"
proof (induction n rule: show_nat.induct)
  case (1 n)
  show ?case
  proof (cases "n < 10")
    case True
    then show ?thesis by (subst show_nat.simps) (simp add: digits_value_def)
  next
    case False
    then have "digits_value (show_nat n) = 10 * digits_value (show_nat (n div 10)) + n mod 10"
      by (subst show_nat.simps) (simp add: digits_value_def)
    with 1 False show ?thesis by simp
  qed
qed

lemma show_nat_not_Nil: "show_nat n \<noteq> []"
  by (subst show_nat.simps) simp

definition number_end :: "string \<Rightarrow> bool" where
  "number_end r = (r = [] \<or> \<not> is_digit (hd r))"

lemma show_nat_inj:
  assumes "show_nat m @ r = show_nat n @ r'" and "number_end r" and "number_end r'"
  shows "m = n \<and> r = r'"
proof -
  have tw: "takeWhile is_digit (show_nat k @ q) = show_nat k" if "number_end q" for k q
    using that show_nat_digits [of k] by (cases q) (auto simp: number_end_def)
  have "show_nat m = show_nat n" using assms tw by metis
  then show ?thesis using assms(1) by (metis append_same_eq digits_value_show_nat same_append_eq)
qed

lemma show_int_inj:
  assumes "show_int i @ r = show_int j @ r'" and "number_end r" and "number_end r'"
  shows "i = j \<and> r = r'"
proof -
  have hd_nat: "show_nat n @ q \<noteq> CHR ''-'' # q'" for n q q'
    using show_nat_digits [of n] show_nat_not_Nil [of n] by (cases "show_nat n") (auto simp: is_digit_def)
  have sym: "CHR ''-'' # q' \<noteq> show_nat n @ q" for n q q' using hd_nat by metis
  have inj: "show_nat m @ r = show_nat n @ r' \<Longrightarrow> m = n \<and> r = r'" for m n
    by (rule show_nat_inj [OF _ assms(2,3)])
  have neg: "show_int k = CHR ''-'' # show_nat (nat (- k))" if "k < 0" for k
    using that by (simp add: show_int_def)
  have pos: "show_int k = show_nat (nat k)" if "\<not> k < 0" for k
    using that by (simp add: show_int_def)
  consider "i < 0" "j < 0" | "i < 0" "\<not> j < 0" | "\<not> i < 0" "j < 0" | "\<not> i < 0" "\<not> j < 0" by blast
  then show ?thesis
  proof cases
    case 1
    then have "show_nat (nat (- i)) @ r = show_nat (nat (- j)) @ r'" using assms(1) neg [of i] neg [of j] by simp
    from inj [OF this] 1 show ?thesis by linarith
  next
    case 2
    then have "CHR ''-'' # (show_nat (nat (- i)) @ r) = show_nat (nat j) @ r'"
      using assms(1) neg [of i] pos [of j] by simp
    then show ?thesis using sym by blast
  next
    case 3
    then have "show_nat (nat i) @ r = CHR ''-'' # (show_nat (nat (- j)) @ r')"
      using assms(1) pos [of i] neg [of j] by simp
    then show ?thesis using hd_nat by blast
  next
    case 4
    then have "show_nat (nat i) @ r = show_nat (nat j) @ r'" using assms(1) pos [of i] pos [of j] by simp
    from inj [OF this] 4 show ?thesis by linarith
  qed
qed

text \<open>Sequences of values separated by commas, up to a closing character.\<close>

lemma join_inj:
  assumes enc: "\<And>x y r r'. x \<in> set xs \<Longrightarrow> P y \<Longrightarrow> number_end r \<Longrightarrow> number_end r' \<Longrightarrow>
      enc x @ r = enc y @ r' \<Longrightarrow> x = y \<and> r = r'"
    and first: "\<And>x q. enc x @ q \<noteq> [] \<and> hd (enc x @ q) \<noteq> close"
    and close: "close \<noteq> CHR '',''" "\<not> is_digit close"
    and "list_all P ys"
    and "join '','' (map enc xs) @ close # r = join '','' (map enc ys) @ close # r'"
  shows "xs = ys \<and> r = r'"
  using assms
proof (induction xs arbitrary: ys)
  case Nil
  then show ?case
  proof (cases ys)
    case (Cons y ys')
    have "join '','' (map enc (y # ys')) @ close # r' = enc y @ (case ys' of [] \<Rightarrow> close # r' | _ \<Rightarrow> '','' @ join '','' (map enc ys') @ close # r')"
      by (cases ys') auto
    with Nil.prems(6) Nil.prems(2) [of y] Cons show ?thesis
      by (metis list.sel(1) list.simps(8) self_append_conv2 join.simps(1))
  qed simp
next
  case (Cons x xs)
  define rest where "rest zs q = (case zs of [] \<Rightarrow> close # q | _ \<Rightarrow> '','' @ join '','' (map enc zs) @ close # q)" for zs q
  have split: "join '','' (map enc (z # zs)) @ close # q = enc z @ rest zs q" for z zs q
    by (cases zs) (auto simp: rest_def)
  have endr: "number_end (rest zs q)" for zs q
    using close by (cases zs) (auto simp: rest_def number_end_def is_digit_def)
  show ?case
  proof (cases ys)
    case Nil
    with Cons.prems(2) [of x] Cons.prems(6) show ?thesis
      by (metis split list.sel(1) list.simps(8) self_append_conv2 join.simps(1))
  next
    case (Cons y ys')
    with Cons.prems(6) have "enc x @ rest xs r = enc y @ rest ys' r'" by (simp only: split)
    with Cons.prems(1) [of x y] Cons.prems(5) Cons endr have "x = y" and rest: "rest xs r = rest ys' r'" by auto
    show ?thesis
    proof (cases xs)
      case Nil
      with rest close have "ys' = [] \<and> r = r'" by (cases ys') (auto simp: rest_def)
      with Nil \<open>x = y\<close> Cons show ?thesis by simp
    next
      case (Cons x' xs')
      with rest close have "ys' \<noteq> []" by (cases ys') (auto simp: rest_def)
      with rest Cons have "join '','' (map enc xs) @ close # r = join '','' (map enc ys') @ close # r'"
        by (cases ys') (auto simp: rest_def)
      with Cons.IH [of ys'] Cons.prems \<open>ys = y # ys'\<close> \<open>x = y\<close> show ?thesis by auto
    qed
  qed
qed


fun json_kind :: "json \<Rightarrow> nat" where
  "json_kind JNull = 0"
| "json_kind (JBool b) = (if b then 1 else 2)"
| "json_kind (JStr _) = 3"
| "json_kind (JArr _) = 4"
| "json_kind (JObj _) = 5"
| "json_kind (JInt _) = 6"

definition json_lead :: "char \<Rightarrow> nat" where
  "json_lead c = (if c = CHR ''n'' then 0 else if c = CHR ''t'' then 1 else if c = CHR ''f'' then 2
     else if c = CHR 0x22 then 3 else if c = CHR ''['' then 4 else if c = CHR ''{'' then 5
     else if is_digit c \<or> c = CHR ''-'' then 6 else 7)"

lemma show_int_head: "\<exists>c cs. show_int i = c # cs \<and> (is_digit c \<or> c = CHR ''-'')"
proof -
  have "\<exists>c cs. show_nat n = c # cs \<and> is_digit c" for n
    using show_nat_digits [of n] show_nat_not_Nil [of n] by (cases "show_nat n") auto
  from this [of "nat i"] show ?thesis by (auto simp: show_int_def)
qed

lemma json_lead_digit: "is_digit c \<or> c = CHR ''-'' \<Longrightarrow> json_lead c = 6"
  by (auto simp: json_lead_def is_digit_def)

lemma marshal_head: "\<exists>c cs. marshal v = c # cs \<and> json_lead c = json_kind v"
proof (cases v)
  case (JInt i)
  with show_int_head [of i] json_lead_digit show ?thesis by auto
qed (auto simp: json_lead_def quote_def)

lemma marshal_kind: "marshal v @ r = marshal w @ r' \<Longrightarrow> json_kind v = json_kind w"
  using marshal_head [of v] marshal_head [of w] by auto

lemma marshal_close: "marshal v @ q \<noteq> [] \<and> hd (marshal v @ q) \<noteq> CHR '']''"
  using marshal_head [of v] by (cases v) (auto simp: json_lead_def is_digit_def)

definition field_text :: "string \<times> json \<Rightarrow> string" where
  "field_text kv = quote (fst kv) @ '':'' @ marshal (snd kv)"

lemma marshal_prefix:
  "json_ascii v \<Longrightarrow> json_ascii w \<Longrightarrow> number_end r \<Longrightarrow> number_end r' \<Longrightarrow>
     marshal v @ r = marshal w @ r' \<Longrightarrow> v = w \<and> r = r'"
proof (induction v arbitrary: w r r' rule: marshal.induct)
  case 1
  then show ?case using marshal_kind [OF 1(5)] by (cases w) (auto split: if_splits)
next
  case (2 b)
  then show ?case using marshal_kind [OF 2(5)] by (cases w) (auto split: if_splits)
next
  case (3 i)
  obtain j where w: "w = JInt j" using marshal_kind [OF 3(5)] by (cases w) (auto split: if_splits)
  with 3(5) have "show_int i @ r = show_int j @ r'" by simp
  from show_int_inj [OF this 3(3,4)] w show ?case by simp
next
  case (4 s)
  obtain t where w: "w = JStr t" using marshal_kind [OF 4(5)] by (cases w) (auto split: if_splits)
  with 4 have "escape s @ CHR 0x22 # r = escape t @ CHR 0x22 # r'" "ascii s" "ascii t"
    by (simp_all add: quote_def)
  from quote_inj [OF this(2,3,1)] w show ?case by simp
next
  case (5 xs)
  obtain ys where w: "w = JArr ys" using marshal_kind [OF 5(6)] by (cases w) (auto split: if_splits)
  have "xs = ys \<and> r = r'"
  proof (rule join_inj [where P = json_ascii and close = "CHR '']''" and enc = marshal])
    show "x = y \<and> q = q'"
      if "x \<in> set xs" "json_ascii y" "number_end q" "number_end q'" "marshal x @ q = marshal y @ q'" for x y q q'
      using that 5(1) [of x y q q'] 5(2) by (auto simp: list_all_iff)
    show "CHR '']'' \<noteq> CHR '',''" "\<not> is_digit CHR '']''" by (simp_all add: is_digit_def)
    show "join '','' (map marshal xs) @ CHR '']'' # r = join '','' (map marshal ys) @ CHR '']'' # r'"
      using 5(6) w by simp
  qed (use 5(3) w marshal_close in simp_all)
  with w show ?case by simp
next
  case (6 kvs)
  obtain kvs' where w: "w = JObj kvs'" using marshal_kind [OF 6(6)] by (cases w) (auto split: if_splits)
  have "kvs = kvs' \<and> r = r'"
  proof (rule join_inj [where P = "\<lambda>kv. ascii (fst kv) \<and> json_ascii (snd kv)" and close = "CHR ''}''" and enc = field_text])
    show "x = y \<and> q = q'"
      if "x \<in> set kvs" "ascii (fst y) \<and> json_ascii (snd y)" "number_end q" "number_end q'"
        "field_text x @ q = field_text y @ q'" for x y q q'
    proof -
      from that(5) have e: "escape (fst x) @ CHR 0x22 # ('':'' @ marshal (snd x) @ q) = escape (fst y) @ CHR 0x22 # ('':'' @ marshal (snd y) @ q')"
        by (simp add: field_text_def quote_def)
      have ax: "ascii (fst x)" "json_ascii (snd x)" using 6(2) that(1) by (auto simp: list_all_iff)
      have "fst x = fst y" and m: "marshal (snd x) @ q = marshal (snd y) @ q'"
        using quote_inj [OF ax(1) _ e] that(2) by simp_all
      with 6(1) [OF that(1) ax(2) _ that(3,4) m] that(2) show ?thesis by (simp add: prod_eq_iff)
    qed
    show "field_text x @ q \<noteq> [] \<and> hd (field_text x @ q) \<noteq> CHR ''}''" for x q
      by (simp add: field_text_def quote_def)
    show "CHR ''}'' \<noteq> CHR '',''" "\<not> is_digit CHR ''}''" by (simp_all add: is_digit_def)
    show "list_all (\<lambda>kv. ascii (fst kv) \<and> json_ascii (snd kv)) kvs'" using 6(3) w by simp
    show "join '','' (map field_text kvs) @ CHR ''}'' # r = join '','' (map field_text kvs') @ CHR ''}'' # r'"
      using 6(6) w by (simp add: field_text_def [abs_def])
  qed
  with w show ?case by simp
qed

lemma marshal_inj: "json_ascii v \<Longrightarrow> json_ascii w \<Longrightarrow> marshal v = marshal w \<Longrightarrow> v = w"
  using marshal_prefix [of v w "[]" "[]"] by (simp add: number_end_def)

subsection \<open>Documents that end with a time and an optional digest\<close>

lemma ascii_append [simp]: "ascii (s @ t) \<longleftrightarrow> ascii s \<and> ascii t"
  by (simp add: ascii_def)

lemma escape_append: "ascii s \<Longrightarrow> escape (s @ t) = escape s @ escape t"
  by (induction s) (auto simp: ascii_def escape_ascii_Cons)

lemma join_snoc: "join sep (xs @ [y]) = (if xs = [] then y else join sep xs @ sep @ y)"
proof (induction xs rule: induct_list012)
  case (3 x z zs)
  then show ?case by (cases zs) auto
qed auto

lemma ascii_digits: "\<forall>c \<in> set s. is_digit c \<Longrightarrow> ascii s"
  by (auto simp: ascii_def is_digit_def list_all_iff)

lemma ascii_show_int: "ascii (show_int i)"
  using show_nat_digits ascii_digits by (auto simp: show_int_def ascii_def)

lemma marshal_snoc: "\<exists>pre. marshal (JObj (xs @ [(k, JStr v)])) = pre @ escape v @ [CHR 0x22, CHR ''}'']"
  by (simp add: join_snoc quote_def)

text \<open>Two documents that differ in one field differ.\<close>

lemma join_middle: "\<exists>pre post. \<forall>a. join s (xs @ a # ys) = pre @ a @ post"
proof -
  have first: "\<exists>post. \<forall>a. join s (a # ys) = a @ post" by (cases ys) auto
  show ?thesis
  proof (induction xs)
    case Nil
    from first show ?case by (metis append_Nil)
  next
    case (Cons x xs)
    then obtain pre post where "join s (xs @ a # ys) = pre @ a @ post" for a by blast
    moreover have "join s ((x # xs) @ a # ys) = x @ s @ join s (xs @ a # ys)" for a by (cases xs) auto
    ultimately have "join s ((x # xs) @ a # ys) = (x @ s @ pre) @ a @ post" for a by simp
    then show ?case by blast
  qed
qed

lemma marshal_middle: "marshal v \<noteq> marshal w \<Longrightarrow> marshal (JObj (xs @ (k, v) # ys)) \<noteq> marshal (JObj (xs @ (k, w) # ys))"
proof -
  assume "marshal v \<noteq> marshal w"
  let ?f = "\<lambda>kv. quote (fst kv) @ '':'' @ marshal (snd kv)"
  obtain pre post where "\<forall>a. join '','' (map ?f xs @ a # map ?f ys) = pre @ a @ post" using join_middle by blast
  then have "marshal (JObj (xs @ (k, u) # ys)) = ''{'' @ (pre @ ?f (k, u) @ post) @ ''}''" for u
    by (simp only: marshal.simps map_append list.map)
  then show ?thesis using \<open>marshal v \<noteq> marshal w\<close> by (simp only: append_same_eq same_append_eq fst_conv snd_conv not_False_eq_True)
qed

end
