(* ===== verification/GoTime.thy ===== *)
theory GoTime
  imports Prelude
begin

text \<open>
  Time values.  A \<open>time.Time\<close> in UTC is the number of nanoseconds since 1970-01-01T00:00:00Z
  (the ledger normalises every time with \<open>.UTC()\<close>); \<open>zero_time\<close> is Go's zero value, which
  \<open>IsZero\<close> tests.  \<open>ts\<close> is \<open>t.UTC().Format(time.RFC3339Nano)\<close>, the text the ledger stores:
  the fraction loses its trailing zeros, so the text order of two instants of the same second is
  not always their order in time.
\<close>

type_synonym gotime = int

definition zero_time :: gotime where
  "zero_time = - 62135596800 * 1000000000"

definition is_zero :: "gotime \<Rightarrow> bool" where
  "is_zero t = (t = zero_time)"

definition second :: int where "second = 1000000000"
definition minute :: int where "minute = 60 * second"
definition hour :: int where "hour = 60 * minute"

text \<open>Gregorian date of a day number counted from 1970-01-01.\<close>

definition civil :: "int \<Rightarrow> int \<times> int \<times> int" where
  "civil d =
     (let z = d + 719468; era = z div 146097; doe = z mod 146097;
          yoe = (doe - doe div 1460 + doe div 36524 - doe div 146096) div 365;
          doy = doe - (365 * yoe + yoe div 4 - yoe div 100);
          mp = (5 * doy + 2) div 153;
          day = doy - (153 * mp + 2) div 5 + 1;
          month = (if mp < 10 then mp + 3 else mp - 9)
      in (yoe + era * 400 + (if month \<le> 2 then 1 else 0), month, day))"

definition pad :: "nat \<Rightarrow> int \<Rightarrow> string" where
  "pad w i = (let s = show_int i in replicate (w - length s) CHR ''0'' @ s)"

definition strip_zeros :: "string \<Rightarrow> string" where
  "strip_zeros s = rev (dropWhile (\<lambda>c. c = CHR ''0'') (rev s))"

definition fraction :: "int \<Rightarrow> string" where
  "fraction ns = (if ns = 0 then [] else CHR ''.'' # strip_zeros (pad 9 ns))"

definition ts :: "gotime \<Rightarrow> string" where
  "ts t =
     (let secs = t div second; ns = t mod second; days = secs div 86400; sod = secs mod 86400
      in case civil days of (y, m, d) \<Rightarrow>
           pad 4 y @ ''-'' @ pad 2 m @ ''-'' @ pad 2 d @ ''T'' @
           pad 2 (sod div 3600) @ '':'' @ pad 2 (sod mod 3600 div 60) @ '':'' @ pad 2 (sod mod 60) @
           fraction ns @ ''Z'')"

definition unix_milli :: "gotime \<Rightarrow> int" where
  "unix_milli t = t div 1000000"

text \<open>\<open>Truncate(time.Second)\<close>.\<close>

definition truncate_second :: "gotime \<Rightarrow> gotime" where
  "truncate_second t = t - t mod second"

lemma truncate_second_le: "truncate_second t \<le> t" "t - second < truncate_second t"
  using pos_mod_bound [of second t] by (simp_all add: truncate_second_def second_def)

text \<open>The time an operation records: the caller's, or the clock when the caller left it zero.\<close>

definition or_now :: "gotime \<Rightarrow> gotime \<Rightarrow> gotime" where
  "or_now now t = (if is_zero t then now else t)"

subsection \<open>Evaluating times\<close>

lemma show_nat_small: "n < 10 \<Longrightarrow> show_nat n = [char_of (48 + n)]"
  by (simp add: show_nat.simps)

lemma show_nat_big: "\<not> n < 10 \<Longrightarrow> show_nat n = show_nat (n div 10) @ [char_of (48 + n mod 10)]"
  by (subst show_nat.simps) simp

lemma digit_chars:
  "char_of (48::nat) = CHR ''0''" "char_of (49::nat) = CHR ''1''" "char_of (50::nat) = CHR ''2''" "char_of (51::nat) = CHR ''3''"
  "char_of (52::nat) = CHR ''4''" "char_of (53::nat) = CHR ''5''" "char_of (54::nat) = CHR ''6''" "char_of (55::nat) = CHR ''7''"
  "char_of (56::nat) = CHR ''8''" "char_of (57::nat) = CHR ''9''" by code_simp+

lemmas show_eval = show_nat_small show_nat_big show_int_def digit_chars

lemma civil_epoch: "civil 0 = (1970, 1, 1)"
  unfolding civil_def Let_def by simp

lemma pad_examples: "pad 4 1970 = ''1970''" "pad 2 1 = ''01''" "pad 2 0 = ''00''" "pad 9 500000000 = ''500000000''"
  by (simp_all add: pad_def show_eval)

lemma ts_examples: "ts 1000000000 = ''1970-01-01T00:00:01Z''" "ts 1500000000 = ''1970-01-01T00:00:01.5Z''"
  by (simp_all add: ts_def Let_def second_def civil_epoch pad_examples fraction_def strip_zeros_def)

end
