(* ===== verification/Domain.thy ===== *)
theory Domain
  imports Prelude Sha256 Json GoTime
begin

text \<open>
  The data model of \<open>internal/domain\<close>: transaction and effect states with the transition table
  (\<open>state.go\<close>), the durable records (\<open>model.go\<close>, \<open>effect.go\<close>) and the digest helpers
  (\<open>digest.go\<close>).  The Go state types are strings; only the declared constants are ever stored,
  so they are datatypes here with their text given by \<open>state_text\<close> and \<open>effect_text\<close>; the empty
  string, the zero value of a Go string type, is \<open>StateUnset\<close>, \<open>EffectUnset\<close>.  A nil slice and an
  empty slice are both the empty list.
\<close>

subsection \<open>States\<close>

datatype tx_state =
    StateUnset | StateCreated | StateActive | StateSealed | StateVerifying | StateFailedVerification
  | StateReady | StateStale | StateCommitting | StateAborting | StateAborted | StateCompensating
  | StateCompensated | StateNeedsReconciliation | StateCommitted | StateManualIntervention

fun state_text :: "tx_state \<Rightarrow> string" where
  "state_text StateUnset = ''''"
| "state_text StateCreated = ''created''"
| "state_text StateActive = ''active''"
| "state_text StateSealed = ''sealed''"
| "state_text StateVerifying = ''verifying''"
| "state_text StateFailedVerification = ''failed_verification''"
| "state_text StateReady = ''ready''"
| "state_text StateStale = ''stale''"
| "state_text StateCommitting = ''committing''"
| "state_text StateAborting = ''aborting''"
| "state_text StateAborted = ''aborted''"
| "state_text StateCompensating = ''compensating''"
| "state_text StateCompensated = ''compensated''"
| "state_text StateNeedsReconciliation = ''needs_reconciliation''"
| "state_text StateCommitted = ''committed''"
| "state_text StateManualIntervention = ''manual_intervention''"

fun transactionTransitions :: "tx_state \<Rightarrow> tx_state list" where
  "transactionTransitions StateCreated = [StateActive, StateAborting]"
| "transactionTransitions StateActive = [StateSealed, StateAborting]"
| "transactionTransitions StateSealed = [StateVerifying, StateAborting]"
| "transactionTransitions StateVerifying = [StateFailedVerification, StateReady, StateStale]"
| "transactionTransitions StateFailedVerification = [StateActive, StateAborting]"
| "transactionTransitions StateReady = [StateCommitting, StateStale, StateAborting]"
| "transactionTransitions StateStale = [StateVerifying, StateAborting]"
| "transactionTransitions StateCommitting = [StateCommitted, StateCompensating, StateNeedsReconciliation]"
| "transactionTransitions StateCompensating = [StateCompensated, StateNeedsReconciliation]"
| "transactionTransitions StateAborting = [StateAborted]"
| "transactionTransitions StateNeedsReconciliation =
     [StateReady, StateStale, StateCommitted, StateCompensated, StateManualIntervention]"
| "transactionTransitions _ = []"

definition CanTransition :: "tx_state \<Rightarrow> tx_state \<Rightarrow> bool" where
  "CanTransition from to = (to \<in> set (transactionTransitions from))"

datatype effect_state =
    EffectUnset | EffectDiscovered | EffectPreparing | EffectPrepared | EffectVerified
  | EffectCommitting | EffectCommitted | EffectUnknown | EffectAborting | EffectAborted
  | EffectCompensating | EffectCompensated | EffectFailed | EffectManual | EffectSuperseded

fun effect_text :: "effect_state \<Rightarrow> string" where
  "effect_text EffectUnset = ''''"
| "effect_text EffectDiscovered = ''discovered''"
| "effect_text EffectPreparing = ''preparing''"
| "effect_text EffectPrepared = ''prepared''"
| "effect_text EffectVerified = ''verified''"
| "effect_text EffectCommitting = ''committing''"
| "effect_text EffectCommitted = ''committed''"
| "effect_text EffectUnknown = ''unknown''"
| "effect_text EffectAborting = ''aborting''"
| "effect_text EffectAborted = ''aborted''"
| "effect_text EffectCompensating = ''compensating''"
| "effect_text EffectCompensated = ''compensated''"
| "effect_text EffectFailed = ''failed''"
| "effect_text EffectManual = ''manual''"
| "effect_text EffectSuperseded = ''superseded''"

lemma state_text_inj: "state_text a = state_text b \<longleftrightarrow> a = b"
  by (cases a; cases b; simp)

lemma effect_text_inj: "effect_text a = effect_text b \<longleftrightarrow> a = b"
  by (cases a; cases b; simp)

subsection \<open>Durable records\<close>

text \<open>
  \<open>tx_approval\<close> keeps the difference between SQL NULL (\<open>None\<close>) and a stored empty text, because
  the audit tests \<open>IS NOT NULL\<close>; the Go field reads both as the empty string
  (\<open>approval_text\<close>).
\<close>

record transaction =
  tx_id :: string
  tx_owner :: string
  tx_protocol :: string
  tx_mode :: string
  tx_agent_adapter :: string
  tx_agent_session :: string
  tx_workspace_identity :: string
  tx_base_revision :: string
  tx_status :: tx_state
  tx_policy :: string
  tx_revision :: int
  tx_material :: int
  tx_approval :: "string option"
  tx_created :: gotime
  tx_sealed :: "gotime option"
  tx_updated :: gotime

definition approval_text :: "transaction \<Rightarrow> string" where
  "approval_text t = (case tx_approval t of None \<Rightarrow> [] | Some d \<Rightarrow> d)"

record workspace =
  ws_tx :: string
  ws_root :: string
  ws_git_dir :: string
  ws_head_ref :: string
  ws_base_oid :: string
  ws_object_format :: string
  ws_path :: string
  ws_artifacts :: string
  ws_dirty_policy :: string
  ws_status_digest :: string
  ws_created :: gotime

record patch =
  pa_tx :: string
  pa_path :: string
  pa_sha :: string
  pa_size :: int
  pa_tree :: string
  pa_changed :: "string list"
  pa_material :: string
  pa_generated :: gotime

record check_result =
  ck_id :: string
  ck_required :: bool
  ck_status :: string
  ck_spec :: string
  ck_cache :: string
  ck_evidence :: string
  ck_message :: string

record verification_report =
  vr_id :: string
  vr_tx :: string
  vr_contract :: string
  vr_contract_digest :: string
  vr_material :: string
  vr_outcome :: string
  vr_results :: "check_result list"
  vr_digest :: string
  vr_policy :: string
  vr_created :: gotime

record materialized_ref =
  mr_tx :: string
  mr_ref :: string
  mr_commit :: string
  mr_tree :: string
  mr_at :: gotime

record runtime_execution =
  rx_id :: string
  rx_tx :: string
  rx_purpose :: string
  rx_command :: string
  rx_environment :: string
  rx_policy :: string
  rx_image :: string
  rx_image_digest :: string
  rx_kind :: string
  rx_version :: string
  rx_exit :: int
  rx_reason :: string
  rx_stdout :: string
  rx_stderr :: string
  rx_evidence :: string
  rx_synced :: bool
  rx_started :: gotime
  rx_finished :: gotime

record external_effect =
  ef_id :: string
  ef_tx :: string
  ef_tool :: string
  ef_adapter :: string
  ef_class :: string
  ef_risk :: string
  ef_credential :: string
  ef_operation :: string
  ef_destination :: string
  ef_input_json :: string
  ef_input_digest :: string
  ef_prepared_json :: string
  ef_prepared_digest :: string
  ef_preview_json :: string
  ef_preview_digest :: string
  ef_resources :: "(string \<times> string) list option"
  ef_idem :: string
  ef_commit_request :: string
  ef_commit_fence :: int
  ef_status :: effect_state
  ef_reversibility :: string
  ef_rank :: int
  ef_support :: string
  ef_depends :: "string list"
  ef_revision :: int
  ef_created :: gotime
  ef_updated :: gotime

record effect_receipt =
  rc_id :: string
  rc_effect :: string
  rc_operation :: string
  rc_resource :: string
  rc_request :: string
  rc_response :: string
  rc_status_ref :: string
  rc_fence :: int
  rc_committed :: gotime
  rc_created :: gotime

record effect_attempt =
  at_id :: string
  at_effect :: string
  at_tx :: string
  at_phase :: string
  at_request :: string
  at_fence :: int
  at_outcome :: string
  at_http :: int
  at_response :: string
  at_class :: string
  at_message :: string
  at_started :: gotime
  at_finished :: "gotime option"

subsection \<open>Digests and JSON renderings\<close>

definition SHA256Bytes :: "string \<Rightarrow> string" where
  "SHA256Bytes b = sha256_hex b"

definition Digest :: "json \<Rightarrow> string" where
  "Digest v = SHA256Bytes (marshal v)"

lemma Digest_not_Nil [simp]: "Digest v \<noteq> []" "SHA256Bytes b \<noteq> []"
  by (simp_all add: Digest_def SHA256Bytes_def)

definition json_time :: "gotime \<Rightarrow> json" where
  "json_time t = JStr (ts t)"

definition json_resources :: "(string \<times> string) list option \<Rightarrow> json" where
  "json_resources r = (case r of None \<Rightarrow> JNull | Some kvs \<Rightarrow> json_map (map (\<lambda>(k, v). (k, JStr v)) kvs))"

definition patch_json :: "patch \<Rightarrow> json" where
  "patch_json p = JObj
     [(''transaction_id'', JStr (pa_tx p)), (''patch_path'', JStr (pa_path p)),
      (''patch_sha256'', JStr (pa_sha p)), (''patch_size_bytes'', JInt (pa_size p)),
      (''staged_tree_oid'', JStr (pa_tree p)), (''changed_paths'', json_strs (pa_changed p)),
      (''approval_material_digest'', JStr (pa_material p)), (''generated_at'', json_time (pa_generated p))]"

definition check_json :: "check_result \<Rightarrow> json" where
  "check_json c = JObj
     ([(''check_id'', JStr (ck_id c)), (''required'', JBool (ck_required c)),
       (''status'', JStr (ck_status c)), (''check_spec_digest'', JStr (ck_spec c)),
       (''cache_key'', JStr (ck_cache c)), (''evidence_digest'', JStr (ck_evidence c))]
      @ opt_field ''message'' (ck_message c))"

definition report_json :: "verification_report \<Rightarrow> json" where
  "report_json r = JObj
     [(''verification_id'', JStr (vr_id r)), (''transaction_id'', JStr (vr_tx r)),
      (''contract_id'', JStr (vr_contract r)), (''contract_digest'', JStr (vr_contract_digest r)),
      (''material_digest'', JStr (vr_material r)), (''outcome'', JStr (vr_outcome r)),
      (''results'', JArr (map check_json (vr_results r))),
      (''verification_digest'', JStr (vr_digest r)), (''policy_version'', JStr (vr_policy r)),
      (''created_at'', json_time (vr_created r))]"

definition ref_json :: "materialized_ref \<Rightarrow> json" where
  "ref_json r = JObj
     [(''transaction_id'', JStr (mr_tx r)), (''ref_name'', JStr (mr_ref r)),
      (''commit_oid'', JStr (mr_commit r)), (''resulting_tree_oid'', JStr (mr_tree r)),
      (''materialized_at'', json_time (mr_at r))]"

definition execution_json :: "runtime_execution \<Rightarrow> json" where
  "execution_json r = JObj
     ([(''execution_id'', JStr (rx_id r)), (''transaction_id'', JStr (rx_tx r)),
       (''purpose'', JStr (rx_purpose r)), (''command_digest'', JStr (rx_command r)),
       (''environment_digest'', JStr (rx_environment r)), (''policy_digest'', JStr (rx_policy r)),
       (''image'', JStr (rx_image r)), (''image_digest'', JStr (rx_image_digest r)),
       (''runtime_kind'', JStr (rx_kind r)), (''runtime_version'', JStr (rx_version r)),
       (''exit_code'', JInt (rx_exit r)), (''termination_reason'', JStr (rx_reason r))]
      @ opt_field ''stdout_path'' (rx_stdout r) @ opt_field ''stderr_path'' (rx_stderr r)
      @ [(''evidence_path'', JStr (rx_evidence r)), (''workspace_synchronized'', JBool (rx_synced r)),
         (''started_at'', json_time (rx_started r)), (''finished_at'', json_time (rx_finished r))])"

definition receipt_json :: "effect_receipt \<Rightarrow> json" where
  "receipt_json r = JObj
     ([(''receipt_id'', JStr (rc_id r)), (''effect_id'', JStr (rc_effect r))]
      @ opt_field ''provider_operation_id'' (rc_operation r)
      @ opt_field ''provider_resource_id'' (rc_resource r)
      @ [(''request_digest'', JStr (rc_request r))]
      @ opt_field ''response_digest'' (rc_response r)
      @ opt_field ''status_query_ref'' (rc_status_ref r)
      @ [(''fencing_token'', JInt (rc_fence r)), (''committed_at'', json_time (rc_committed r)),
         (''created_at'', json_time (rc_created r))])"

subsection \<open>Properties of the transition table\<close>

definition terminal :: "tx_state \<Rightarrow> bool" where
  "terminal s = (s \<in> {StateAborted, StateCompensated, StateCommitted, StateManualIntervention})"

lemma CanTransition_simps [simp]:
  "CanTransition a StateReady \<longleftrightarrow> a \<in> {StateVerifying, StateNeedsReconciliation}"
  "CanTransition a StateCommitting \<longleftrightarrow> a = StateReady"
  "CanTransition a StateCommitted \<longleftrightarrow> a \<in> {StateCommitting, StateNeedsReconciliation}"
  "CanTransition a StateSealed \<longleftrightarrow> a = StateActive"
  by (cases a; simp add: CanTransition_def)+

lemma terminal_no_transition: "terminal a \<Longrightarrow> \<not> CanTransition a b"
  by (cases a) (auto simp: terminal_def CanTransition_def)

lemma CanTransition_neq: "CanTransition a b \<Longrightarrow> a \<noteq> b"
  by (cases a) (auto simp: CanTransition_def)

end
