(* ===== verification/LedgerDb.thy ===== *)
theory LedgerDb
  imports Domain
begin

text \<open>
  The durable state of \<open>internal/ledger\<close>: the tables of \<open>migrations/*.sql\<close> the transaction
  kernel works on, the transaction wrapper \<open>DB.WithTx\<close> of \<open>sqlite.go\<close>, and the two appenders
  every ledger operation calls (\<open>appendChainedEvent\<close> of \<open>event_chain.go\<close>,
  \<open>appendTransactionAccessEvent\<close> of \<open>tenant.go\<close>).

  A table is the list of its rows in rowid order, so \<open>ORDER BY sequence\<close> of a table whose primary
  key is the integer \<open>sequence\<close> is list order.  The tables \<open>effects\<close> and \<open>effect_documents\<close> are
  written together, one row each, and read through their join; they are one row type here.
  Columns bound with \<open>nullString\<close> read back as the empty string and are plain strings.  Failing
  PRIMARY KEY, UNIQUE, CHECK and foreign key constraints are errors of the statement.
\<close>

subsection \<open>Errors and environment\<close>

datatype ledger_error =
    ErrNotFound
  | SqlFault string
  | SqlConstraint string
  | IllegalTransition tx_state tx_state
  | StateConflict tx_state tx_state
  | UnexpectedState tx_state
  | ConcurrentUpdate
  | OutcomeMismatch string string
  | PatchRequired
  | VerificationRequired
  | DigestMismatch
  | ApprovalRequired
  | EffectNotReady string effect_state
  | EffectState effect_state
  | MissingField
  | BadDependency
  | ForeignDependency
  | SupersededDependency
  | BadLease
  | LeaseHeld
  | StaleToken
  | LeaseExpired
  | BadPhase
  | ReceiptConflict
  | RefConflict
  | RefRequired
  | EffectsPending string effect_state
  | MissingEventHash
  | OwnerMismatch
  | SelfGrant
  | NotPermitted
  | ChainBroken int
  | EventChainInvalid
  | CapabilityUsed
  | ReservationInactive
  | ResponseTooLarge
  | RecordChanged
  | AdapterChanged
  | SourceChanged
  | InvalidDecision

text \<open>
  One call's inputs from outside: the clock (\<open>en_check\<close> is its later reading in
  \<open>validateFencing\<close>), the random identifiers \<open>NewID\<close> draws, and the failures the storage may report when a write transaction begins (or one of its statements
  fails, which rolls back in the same way), when it commits, and when the committed row is read
  back.
\<close>

record env =
  en_now :: gotime
  en_check :: gotime
  en_ids :: "nat \<Rightarrow> string"
  en_begin :: "string option"
  en_commit :: "string option"
  en_read :: "string option"

definition NewID :: "env \<Rightarrow> nat \<Rightarrow> string \<Rightarrow> string" where
  "NewID en i prefix = prefix @ ''_'' @ en_ids en i"

subsection \<open>Tables\<close>

record verification_run =
  vn_id :: string
  vn_tx :: string
  vn_contract :: string
  vn_contract_digest :: string
  vn_material :: string
  vn_material_rev :: int
  vn_outcome :: string
  vn_digest :: string
  vn_policy :: string
  vn_created :: gotime

record check_row =
  cr_run :: string
  cr_ordinal :: nat
  cr_result :: check_result

record approval_row =
  ap_id :: string
  ap_tx :: string
  ap_digest :: string
  ap_material :: int
  ap_approver :: string
  ap_signature :: string
  ap_created :: gotime
  ap_expires :: "gotime option"

record lease =
  le_name :: string
  le_owner :: string
  le_token :: int
  le_acquired :: int
  le_expires :: int

record event_row =
  ev_seq :: int
  ev_id :: string
  ev_tx :: string
  ev_effect :: string
  ev_type :: string
  ev_payload :: json
  ev_payload_digest :: string
  ev_fence :: int
  ev_created :: string
  ev_prev :: string
  ev_hash :: string

record grant =
  gr_tx :: string
  gr_principal :: string
  gr_permission :: string
  gr_by :: string
  gr_created :: gotime
  gr_updated :: gotime

record access_event =
  ae_seq :: int
  ae_id :: string
  ae_tx :: string
  ae_actor :: string
  ae_subject :: string
  ae_action :: string
  ae_permission :: string
  ae_request :: string
  ae_created :: gotime
  ae_prev :: string
  ae_digest :: string

record ledger =
  transactions :: "transaction list"
  workspaces :: "workspace list"
  patches :: "patch list"
  runs :: "verification_run list"
  checks :: "check_row list"
  approvals :: "approval_row list"
  effects :: "external_effect list"
  dependencies :: "(string \<times> string) list"
  attempts :: "effect_attempt list"
  receipts :: "effect_receipt list"
  refs :: "materialized_ref list"
  leases :: "lease list"
  events :: "event_row list"
  executions :: "runtime_execution list"
  grants :: "grant list"
  access_events :: "access_event list"

definition empty_ledger :: ledger where
  "empty_ledger = \<lparr>transactions = [], workspaces = [], patches = [], runs = [], checks = [],
     approvals = [], effects = [], dependencies = [], attempts = [], receipts = [], refs = [],
     leases = [], events = [], executions = [], grants = [], access_events = []\<rparr>"

subsection \<open>Statements\<close>

definition get_tx :: "string \<Rightarrow> ledger \<Rightarrow> transaction option" where
  "get_tx tid l = find_row tx_id tid (transactions l)"

definition get_effect :: "string \<Rightarrow> ledger \<Rightarrow> external_effect option" where
  "get_effect eid l = find_row ef_id eid (effects l)"

definition get_patch :: "string \<Rightarrow> ledger \<Rightarrow> patch option" where
  "get_patch tid l = find_row pa_tx tid (patches l)"

text \<open>\<open>UPDATE transactions SET \<dots> WHERE transaction_id=? AND revision=?\<close>, one row or an error.\<close>

definition update_tx :: "string \<Rightarrow> int \<Rightarrow> (transaction \<Rightarrow> transaction) \<Rightarrow> ledger \<Rightarrow> ledger_error + ledger" where
  "update_tx tid revision f l =
     (let P = (\<lambda>t. tx_id t = tid \<and> tx_revision t = revision)
      in if changes P (transactions l) \<noteq> 1 then Inl ConcurrentUpdate
         else Inr (l\<lparr>transactions := update_where P f (transactions l)\<rparr>))"

definition update_effect :: "string \<Rightarrow> (external_effect \<Rightarrow> external_effect) \<Rightarrow> ledger \<Rightarrow> ledger" where
  "update_effect eid f l = l\<lparr>effects := modify_row ef_id eid f (effects l)\<rparr>"

subsection \<open>The per-transaction event chain: append\<close>

definition computeEventHash ::
  "string \<Rightarrow> string \<Rightarrow> string \<Rightarrow> string \<Rightarrow> string \<Rightarrow> string \<Rightarrow> string \<Rightarrow> int \<Rightarrow> string" where
  "computeEventHash previous eventID transactionID effectID eventType payloadDigest createdAt fence =
     sha256_hex (join [CHR 0x00]
       [''futurediff-event-chain-v1'', previous, eventID, transactionID, effectID, eventType,
        payloadDigest, createdAt, show_int fence])"

definition tx_events :: "string \<Rightarrow> ledger \<Rightarrow> event_row list" where
  "tx_events tid l = filter (\<lambda>e. ev_tx e = tid) (events l)"

definition next_seq :: "('r \<Rightarrow> int) \<Rightarrow> 'r list \<Rightarrow> int" where
  "next_seq seq rows = fold (\<lambda>r m. max (seq r) m) rows 0 + 1"

definition last_hash :: "event_row list \<Rightarrow> string" where
  "last_hash es = (if es = [] then [] else ev_hash (last es))"

definition chained_row ::
  "string \<Rightarrow> string \<Rightarrow> string \<Rightarrow> string \<Rightarrow> json \<Rightarrow> int \<Rightarrow> gotime \<Rightarrow> event_row list \<Rightarrow> event_row" where
  "chained_row eventID transactionID effectID eventType payload fence at rows =
     (let previous = last_hash (filter (\<lambda>e. ev_tx e = transactionID) rows);
          digest = SHA256Bytes (marshal payload)
      in \<lparr>ev_seq = next_seq ev_seq rows, ev_id = eventID, ev_tx = transactionID, ev_effect = effectID,
          ev_type = eventType, ev_payload = payload, ev_payload_digest = digest,
          ev_fence = (if fence > 0 then fence else 0), ev_created = ts at, ev_prev = previous,
          ev_hash = computeEventHash previous eventID transactionID effectID eventType digest (ts at) fence\<rparr>)"

definition appendChainedEvent ::
  "string \<Rightarrow> string \<Rightarrow> string \<Rightarrow> string \<Rightarrow> json \<Rightarrow> int \<Rightarrow> gotime \<Rightarrow> ledger \<Rightarrow> ledger_error + ledger" where
  "appendChainedEvent eventID transactionID effectID eventType payload fence at l =
     (let row = chained_row eventID transactionID effectID eventType payload fence at (events l)
      in try_bind (require (tx_events transactionID l \<noteq> [] \<longrightarrow> ev_prev row \<noteq> []) MissingEventHash) (\<lambda>_.
         try_bind (require (\<not> has_key ev_id eventID (events l)) (SqlConstraint ''events.event_id'')) (\<lambda>_.
         try_bind (require (\<not> has_key ev_hash (ev_hash row) (events l)) (SqlConstraint ''events.event_hash'')) (\<lambda>_.
         try_bind (require (get_tx transactionID l \<noteq> None) (SqlConstraint ''events.transaction_id'')) (\<lambda>_.
         try_bind (require (effectID \<noteq> [] \<longrightarrow> get_effect effectID l \<noteq> None) (SqlConstraint ''events.effect_id'')) (\<lambda>_.
         Inr (l\<lparr>events := events l @ [row]\<rparr>)))))))"

definition appendEvent ::
  "string \<Rightarrow> string \<Rightarrow> string \<Rightarrow> json \<Rightarrow> gotime \<Rightarrow> ledger \<Rightarrow> ledger_error + ledger" where
  "appendEvent eventID tid kind payload at l = appendChainedEvent eventID tid [] kind payload 0 at l"

definition appendEffectEvent ::
  "string \<Rightarrow> string \<Rightarrow> string \<Rightarrow> string \<Rightarrow> json \<Rightarrow> int \<Rightarrow> gotime \<Rightarrow> ledger \<Rightarrow> ledger_error + ledger" where
  "appendEffectEvent eventID transactionID effectID kind payload fence at l =
     appendChainedEvent eventID transactionID effectID kind payload fence at l"

subsection \<open>The access-event chain: append\<close>

definition access_material :: "access_event \<Rightarrow> json" where
  "access_material e = JObj
     ([(''sequence'', JInt (ae_seq e)), (''event_id'', JStr (ae_id e)),
       (''transaction_id'', JStr (ae_tx e)), (''actor_principal_id'', JStr (ae_actor e)),
       (''subject_principal_id'', JStr (ae_subject e)), (''action'', JStr (ae_action e))]
      @ opt_field ''permission'' (ae_permission e) @ opt_field ''request_id'' (ae_request e)
      @ [(''created_at'', json_time (ae_created e))]
      @ opt_field ''previous_digest'' (ae_prev e))"

definition accessDigest :: "access_event \<Rightarrow> string" where
  "accessDigest e = sha256_hex (marshal (access_material e))"

definition last_access_digest :: "access_event list \<Rightarrow> string" where
  "last_access_digest es = (if es = [] then [] else ae_digest (last es))"

definition appendTransactionAccessEvent ::
  "string \<Rightarrow> string \<Rightarrow> string \<Rightarrow> string \<Rightarrow> string \<Rightarrow> string \<Rightarrow> string \<Rightarrow> gotime \<Rightarrow> ledger \<Rightarrow> ledger_error + ledger" where
  "appendTransactionAccessEvent eventID transactionID actor subject action permission requestID now l =
     (let e = \<lparr>ae_seq = next_seq ae_seq (access_events l), ae_id = eventID, ae_tx = transactionID,
               ae_actor = actor, ae_subject = subject, ae_action = action, ae_permission = permission,
               ae_request = requestID, ae_created = now,
               ae_prev = last_access_digest (access_events l), ae_digest = []\<rparr>;
          digest = accessDigest e
      in try_bind (require (transactionID \<noteq> [] \<and> actor \<noteq> [] \<and> subject \<noteq> []) MissingField) (\<lambda>_.
         try_bind (require (\<not> has_key ae_id eventID (access_events l)) (SqlConstraint ''transaction_access_events.event_id'')) (\<lambda>_.
         try_bind (require (\<not> has_key ae_digest digest (access_events l)) (SqlConstraint ''transaction_access_events.event_digest'')) (\<lambda>_.
         try_bind (require (get_tx transactionID l \<noteq> None) (SqlConstraint ''transaction_access_events.transaction_id'')) (\<lambda>_.
         Inr (l\<lparr>access_events := access_events l @ [e\<lparr>ae_digest := digest\<rparr>]\<rparr>))))))"

subsection \<open>Write transactions\<close>

text \<open>
  \<open>WithTx\<close> runs the body on the tables and keeps its result only when the body and the commit
  succeed; every other outcome rolls back.  A statement outside a write transaction is its own
  transaction (SQLite's autocommit), so it is a \<open>WithTx\<close> of one statement.  \<open>then_read\<close> is the read-back after a write.
\<close>

definition WithTx :: "env \<Rightarrow> ('t \<Rightarrow> ledger_error + 't) \<Rightarrow> 't \<Rightarrow> (ledger_error + unit) \<times> 't" where
  "WithTx en body l =
     (case en_begin en of
        Some f \<Rightarrow> (Inl (SqlFault f), l)
      | None \<Rightarrow>
          (case body l of
             Inl e \<Rightarrow> (Inl e, l)
           | Inr l' \<Rightarrow>
               (case en_commit en of
                  Some f \<Rightarrow> (Inl (SqlFault f), l)
                | None \<Rightarrow> (Inr (), l'))))"

definition then_read ::
  "env \<Rightarrow> ('t \<Rightarrow> ledger_error + 'a) \<Rightarrow> (ledger_error + unit) \<times> 't \<Rightarrow> (ledger_error + 'a) \<times> 't" where
  "then_read en read r =
     (case r of
        (Inl e, l) \<Rightarrow> (Inl e, l)
      | (Inr _, l) \<Rightarrow> (case en_read en of Some f \<Rightarrow> (Inl (SqlFault f), l) | None \<Rightarrow> (read l, l)))"

definition calm :: "env \<Rightarrow> bool" where
  "calm en = (en_begin en = None \<and> en_commit en = None \<and> en_read en = None)"

subsection \<open>What a successful statement did\<close>

named_theorems body_simps \<open>unfold a successful body to the guards that held and the tables it wrote\<close>

lemma appendChainedEvent_Inr [body_simps]:
  "appendChainedEvent eid tid eff kind payload fence at l = Inr l' \<longleftrightarrow>
     (tx_events tid l \<noteq> [] \<longrightarrow> last_hash (tx_events tid l) \<noteq> []) \<and> \<not> has_key ev_id eid (events l)
     \<and> \<not> has_key ev_hash (ev_hash (chained_row eid tid eff kind payload fence at (events l))) (events l)
     \<and> get_tx tid l \<noteq> None \<and> (eff \<noteq> [] \<longrightarrow> get_effect eff l \<noteq> None)
     \<and> l' = l\<lparr>events := events l @ [chained_row eid tid eff kind payload fence at (events l)]\<rparr>"
  by (auto simp: appendChainedEvent_def try_bind_Inr Let_def chained_row_def tx_events_def)

lemma appendEvent_Inr [body_simps]:
  "appendEvent eid tid kind payload at l = Inr l' \<longleftrightarrow>
     appendChainedEvent eid tid [] kind payload 0 at l = Inr l'"
  by (simp add: appendEvent_def)

lemma appendEffectEvent_Inr [body_simps]:
  "appendEffectEvent eid tid eff kind payload fence at l = Inr l' \<longleftrightarrow>
     appendChainedEvent eid tid eff kind payload fence at l = Inr l'"
  by (simp add: appendEffectEvent_def)

lemma update_tx_Inr [body_simps]:
  "update_tx tid r f l = Inr l' \<longleftrightarrow>
     changes (\<lambda>t. tx_id t = tid \<and> tx_revision t = r) (transactions l) = 1
     \<and> l' = l\<lparr>transactions := update_where (\<lambda>t. tx_id t = tid \<and> tx_revision t = r) f (transactions l)\<rparr>"
  by (auto simp: update_tx_def Let_def)

lemma get_tx_update:
  assumes "get_tx tid l = Some cur" and "\<And>t. tx_id (f t) = tx_id t"
  shows "find_row tx_id x (update_where (\<lambda>t. tx_id t = tid \<and> tx_revision t = tx_revision cur) f (transactions l))
           = (if x = tid then Some (f cur) else get_tx x l)"
proof -
  have *: "find_row tx_id x (update_where (\<lambda>t. tx_id t = tid \<and> tx_revision t = tx_revision cur) f (transactions l))
      = map_option (\<lambda>t. if tx_id t = tid \<and> tx_revision t = tx_revision cur then f t else t) (get_tx x l)"
    unfolding get_tx_def by (rule find_row_update_where) (simp add: assms(2))
  have "tx_id cur = tid" using assms(1) by (auto simp: get_tx_def dest: find_row_SomeD)
  show ?thesis
  proof (cases "x = tid")
    case True
    with * assms(1) \<open>tx_id cur = tid\<close> show ?thesis by simp
  next
    case False
    with * show ?thesis
      by (cases "get_tx x l") (auto simp: get_tx_def dest: find_row_SomeD)
  qed
qed

lemma WithTx_cases:
  assumes "WithTx en body l = (r, l')"
  obtains (failed) e where "r = Inl e" "l' = l"
    | (kept) "r = Inr ()" "body l = Inr l'"
  using assms by (auto simp: WithTx_def split: option.splits sum.splits)

lemma WithTx_error: "WithTx en body l = (Inl e, l') \<Longrightarrow> l' = l"
  by (auto simp: WithTx_def split: option.splits sum.splits)

lemma WithTx_ok: "WithTx en body l = (Inr u, l') \<Longrightarrow> body l = Inr l'"
  by (auto simp: WithTx_def split: option.splits sum.splits)

lemma WithTx_snd: "snd (WithTx en body l) = l \<or> body l = Inr (snd (WithTx en body l))"
  by (auto simp: WithTx_def split: option.splits sum.splits)

lemma then_read_snd [simp]: "snd (then_read en read r) = snd r"
  by (auto simp: then_read_def split: prod.splits sum.splits option.splits)

lemma then_read_WithTx_ok:
  "then_read en read (WithTx en body l) = (Inr x, l') \<Longrightarrow> body l = Inr l' \<and> read l' = Inr x"
  by (auto simp: then_read_def split: prod.splits sum.splits option.splits dest: WithTx_ok)

lemma then_read_WithTx_snd:
  "snd (then_read en read (WithTx en body l)) = l \<or> body l = Inr (snd (then_read en read (WithTx en body l)))"
  by (simp add: WithTx_snd)

lemma WithTx_calm: "calm en \<Longrightarrow> body l = Inr l' \<Longrightarrow> WithTx en body l = (Inr (), l')"
  by (simp add: WithTx_def calm_def)

lemma then_read_calm: "calm en \<Longrightarrow> then_read en read (Inr u, l) = (read l, l)"
  by (simp add: then_read_def calm_def)

end
