(* ===== verification/LedgerRepository.thy ===== *)
theory LedgerRepository
  imports LedgerDb
begin

text \<open>
  The transaction kernel of \<open>internal/ledger/repository.go\<close>: creation, guarded transitions,
  sealing a patch, recording a verification, the approval material and its approval, the start
  of a commit, reconciliation marks and runtime executions.  For an operation \<open>Op\<close> the body that
  runs inside \<open>WithTx\<close> is \<open>Op_tx\<close>, a function from tables to tables or an error.
\<close>

subsection \<open>Create\<close>

definition create_row :: "env \<Rightarrow> transaction \<Rightarrow> transaction" where
  "create_row en t0 =
     (let now = or_now (en_now en) (tx_created t0)
      in t0\<lparr>tx_created := now, tx_updated := now,
            tx_owner := (if tx_owner t0 = [] then ''local:operator'' else tx_owner t0),
            tx_protocol := ''0.1'', tx_status := StateActive, tx_revision := 1\<rparr>)"

definition Create_tx :: "env \<Rightarrow> transaction \<Rightarrow> workspace \<Rightarrow> ledger \<Rightarrow> ledger_error + ledger" where
  "Create_tx en t0 w l =
     (let t = create_row en t0; now = tx_created t;
          row = t\<lparr>tx_workspace_identity := ws_path w, tx_base_revision := ws_base_oid w,
                  tx_approval := None, tx_sealed := None\<rparr>
      in try_bind (require (\<not> has_key tx_id (tx_id t) (transactions l) \<and> tx_material t \<ge> 0)
           (SqlConstraint ''transactions'')) (\<lambda>_.
         try_bind (require (\<not> has_key ws_tx (tx_id t) (workspaces l) \<and> \<not> has_key ws_path (ws_path w) (workspaces l)
             \<and> \<not> has_key ws_artifacts (ws_artifacts w) (workspaces l))
           (SqlConstraint ''transaction_workspaces'')) (\<lambda>_.
         try_bind (appendEvent (NewID en 0 ''event'') (tx_id t) ''transaction.created''
             (JObj [(''mode'', JStr (tx_mode t)), (''owner_principal_id'', JStr (tx_owner t)),
                    (''state'', JStr ''created'')]) now
             (l\<lparr>transactions := transactions l @ [row],
                workspaces := workspaces l @ [w\<lparr>ws_tx := tx_id t, ws_created := now\<rparr>]\<rparr>)) (\<lambda>l1.
         try_bind (appendTransactionAccessEvent (NewID en 1 ''access'') (tx_id t) (tx_owner t) (tx_owner t)
             ''created'' ''admin'' [] now l1) (\<lambda>l2.
         appendEvent (NewID en 2 ''event'') (tx_id t) ''transaction.activated''
             (JObj [(''from'', JStr ''created''), (''revision'', JInt 1), (''to'', JStr ''active'')]) now l2)))))"

definition Create :: "env \<Rightarrow> transaction \<Rightarrow> workspace \<Rightarrow> ledger \<Rightarrow> (ledger_error + transaction) \<times> ledger" where
  "Create en t0 w l =
     (case WithTx en (Create_tx en t0 w) l of
        (Inl e, l') \<Rightarrow> (Inl e, l')
      | (Inr _, l') \<Rightarrow> (Inr (create_row en t0), l'))"

subsection \<open>Reads\<close>

definition Get :: "string \<Rightarrow> ledger \<Rightarrow> ledger_error + transaction" where
  "Get tid l = fetch (get_tx tid l) ErrNotFound"

definition Workspace :: "string \<Rightarrow> ledger \<Rightarrow> ledger_error + workspace" where
  "Workspace tid l = fetch (find_row ws_tx tid (workspaces l)) ErrNotFound"

definition Patch :: "string \<Rightarrow> ledger \<Rightarrow> ledger_error + patch" where
  "Patch tid l = fetch (get_patch tid l) ErrNotFound"

text \<open>
  The columns the SELECT of \<open>Events\<close> returns; a column that is not among them (the transaction,
  the effect, the fencing token) reads as its zero value from the row.
\<close>

definition Events :: "string \<Rightarrow> ledger \<Rightarrow> event_row list" where
  "Events tid l = map (\<lambda>e. e\<lparr>ev_tx := [], ev_effect := [], ev_fence := 0\<rparr>) (tx_events tid l)"

subsection \<open>Transition\<close>

definition ValidateTransition :: "tx_state \<Rightarrow> tx_state \<Rightarrow> ledger_error + unit" where
  "ValidateTransition from to = require (CanTransition from to) (IllegalTransition from to)"

definition Transition_tx ::
  "env \<Rightarrow> string \<Rightarrow> tx_state \<Rightarrow> tx_state \<Rightarrow> string \<Rightarrow> string \<Rightarrow> bool \<Rightarrow> bool \<Rightarrow> ledger \<Rightarrow> ledger_error + ledger" where
  "Transition_tx en tid expected next actor reason materialChanged invalidateApproval l =
     try_bind (fetch (get_tx tid l) ErrNotFound) (\<lambda>cur.
     try_bind (require (tx_status cur = expected) (StateConflict expected (tx_status cur))) (\<lambda>_.
     try_bind (update_tx tid (tx_revision cur)
         (\<lambda>t. t\<lparr>tx_status := next, tx_revision := tx_revision t + 1,
                tx_material := tx_material t + (if materialChanged then 1 else 0),
                tx_approval := (if invalidateApproval then None else Some (approval_text cur)),
                tx_sealed := (if next = StateSealed then Some (en_now en) else tx_sealed t),
                tx_updated := en_now en\<rparr>) l) (\<lambda>l1.
     appendEvent (NewID en 0 ''event'') tid (''transaction.'' @ state_text next)
       (JObj [(''actor'', JStr actor), (''from'', JStr (state_text expected)),
              (''material_changed'', JBool materialChanged), (''reason'', JStr reason),
              (''to'', JStr (state_text next))]) (en_now en) l1)))"

definition Transition ::
  "env \<Rightarrow> string \<Rightarrow> tx_state \<Rightarrow> tx_state \<Rightarrow> string \<Rightarrow> string \<Rightarrow> bool \<Rightarrow> bool \<Rightarrow> ledger
     \<Rightarrow> (ledger_error + transaction) \<times> ledger" where
  "Transition en tid expected next actor reason materialChanged invalidateApproval l =
     (case ValidateTransition expected next of
        Inl e \<Rightarrow> (Inl e, l)
      | Inr _ \<Rightarrow> then_read en (Get tid)
          (WithTx en (Transition_tx en tid expected next actor reason materialChanged invalidateApproval) l))"

subsection \<open>RecordPatch\<close>

definition RecordPatch_tx :: "env \<Rightarrow> string \<Rightarrow> patch \<Rightarrow> ledger \<Rightarrow> ledger_error + ledger" where
  "RecordPatch_tx en tid p0 l =
     (let now = or_now (en_now en) (pa_generated p0); p = p0\<lparr>pa_generated := now\<rparr>
      in try_bind (fetch (get_tx tid l) ErrNotFound) (\<lambda>cur.
         try_bind (require (tx_status cur = StateActive) (UnexpectedState (tx_status cur))) (\<lambda>_.
         try_bind (require (\<not> has_key pa_tx tid (patches l) \<and> \<not> has_key pa_path (pa_path p) (patches l) \<and> pa_size p \<ge> 0)
           (SqlConstraint ''staged_patches'')) (\<lambda>_.
         try_bind (update_tx tid (tx_revision cur)
             (\<lambda>t. t\<lparr>tx_status := StateSealed, tx_revision := tx_revision t + 1, tx_material := tx_material t + 1,
                    tx_approval := None, tx_sealed := Some now, tx_updated := now\<rparr>)
             (l\<lparr>patches := patches l @ [p\<lparr>pa_tx := tid\<rparr>]\<rparr>)) (\<lambda>l1.
         appendEvent (NewID en 0 ''event'') tid ''repository.patch_sealed'' (patch_json p) now l1)))))"

definition RecordPatch :: "env \<Rightarrow> string \<Rightarrow> patch \<Rightarrow> ledger \<Rightarrow> (ledger_error + transaction) \<times> ledger" where
  "RecordPatch en tid p l = then_read en (Get tid) (WithTx en (RecordPatch_tx en tid p) l)"

subsection \<open>RecordVerification\<close>

fun outcome_loop :: "check_result list \<Rightarrow> nat \<Rightarrow> bool \<Rightarrow> string" where
  "outcome_loop [] required all =
     (if required = 0 then ''error'' else if all then ''pass'' else ''fail'')"
| "outcome_loop (r # rs) required all =
     (if \<not> ck_required r then outcome_loop rs required all
      else if ck_status r = ''error'' \<or> ck_status r = ''cancelled'' then ''error''
      else outcome_loop rs (required + 1) (all \<and> ck_status r = ''pass''))"

definition verificationOutcome :: "check_result list \<Rightarrow> string" where
  "verificationOutcome results = outcome_loop results 0 True"

definition check_statuses :: "string list" where
  "check_statuses = [''pass'', ''fail'', ''error'', ''timeout'', ''blocked'', ''cancelled'']"

fun insert_checks :: "string \<Rightarrow> nat \<Rightarrow> check_result list \<Rightarrow> check_row list \<Rightarrow> ledger_error + check_row list" where
  "insert_checks vid i [] rows = Inr rows"
| "insert_checks vid i (r # rs) rows =
     (if has_key (\<lambda>c. (cr_run c, ck_id (cr_result c))) (vid, ck_id r) rows \<or> ck_status r \<notin> set check_statuses
      then Inl (SqlConstraint ''verification_check_results'')
      else insert_checks vid (i + 1) rs (rows @ [\<lparr>cr_run = vid, cr_ordinal = i, cr_result = r\<rparr>]))"

definition RecordVerification_tx :: "env \<Rightarrow> string \<Rightarrow> verification_report \<Rightarrow> ledger \<Rightarrow> ledger_error + ledger" where
  "RecordVerification_tx en tid report l =
     (let now = or_now (en_now en) (vr_created report)
      in try_bind (fetch (get_tx tid l) ErrNotFound) (\<lambda>cur.
         try_bind (require (tx_status cur = StateSealed \<or> tx_status cur = StateStale) (UnexpectedState (tx_status cur))) (\<lambda>_.
         try_bind (require (verificationOutcome (vr_results report) = vr_outcome report)
           (OutcomeMismatch (vr_outcome report) (verificationOutcome (vr_results report)))) (\<lambda>_.
         try_bind (require (\<not> has_key vn_id (vr_id report) (runs l)
             \<and> \<not> has_key (\<lambda>v. (vn_tx v, vn_digest v)) (tid, vr_digest report) (runs l))
           (SqlConstraint ''verification_runs'')) (\<lambda>_.
         try_bind (insert_checks (vr_id report) 0 (vr_results report) (checks l)) (\<lambda>cs.
         try_bind (update_tx tid (tx_revision cur)
             (\<lambda>t. t\<lparr>tx_status := (if vr_outcome report = ''pass'' then StateReady else StateFailedVerification),
                    tx_revision := tx_revision t + 1, tx_approval := None, tx_updated := now\<rparr>)
             (l\<lparr>runs := runs l @ [\<lparr>vn_id = vr_id report, vn_tx = tid, vn_contract = vr_contract report,
                  vn_contract_digest = vr_contract_digest report, vn_material = vr_material report,
                  vn_material_rev = tx_material cur, vn_outcome = vr_outcome report,
                  vn_digest = vr_digest report, vn_policy = vr_policy report, vn_created = now\<rparr>],
                checks := cs\<rparr>)) (\<lambda>l1.
         appendEvent (NewID en 0 ''event'') tid ''verification.completed'' (report_json report) now l1)))))))"

definition RecordVerification ::
  "env \<Rightarrow> string \<Rightarrow> verification_report \<Rightarrow> ledger \<Rightarrow> (ledger_error + transaction) \<times> ledger" where
  "RecordVerification en tid report l = then_read en (Get tid) (WithTx en (RecordVerification_tx en tid report) l)"

subsection \<open>Approval material and approval\<close>

text \<open>\<open>ORDER BY created_at DESC LIMIT 1\<close> compares the stored text of the times.\<close>

definition newer :: "verification_run \<Rightarrow> verification_run \<Rightarrow> bool" where
  "newer a b = (ts (vn_created b) < ts (vn_created a)
     \<or> (ts (vn_created b) = ts (vn_created a) \<and> vn_id b < vn_id a))"

definition latest_run :: "string \<Rightarrow> ledger \<Rightarrow> verification_run option" where
  "latest_run tid l =
     (case filter (\<lambda>v. vn_tx v = tid) (runs l) of
        [] \<Rightarrow> None
      | v # vs \<Rightarrow> Some (fold (\<lambda>x best. if newer x best then x else best) vs v))"

definition live_effects :: "string \<Rightarrow> ledger \<Rightarrow> external_effect list" where
  "live_effects tid l =
     sort_key (\<lambda>e. (ef_rank e, ef_id e)) (filter (\<lambda>e. ef_tx e = tid \<and> ef_status e \<noteq> EffectSuperseded) (effects l))"

definition effect_material :: "external_effect \<Rightarrow> json" where
  "effect_material e = JObj
     [(''adapter_identity'', JStr (ef_adapter e)), (''commit_rank'', JInt (ef_rank e)),
      (''credential_id'', JStr (ef_credential e)), (''destination'', JStr (ef_destination e)),
      (''effect_id'', JStr (ef_id e)), (''idempotency_key'', JStr (ef_idem e)),
      (''input_digest'', JStr (ef_input_digest e)), (''operation'', JStr (ef_operation e)),
      (''prepared_digest'', JStr (ef_prepared_digest e)), (''preview_digest'', JStr (ef_preview_digest e)),
      (''resource_versions'', json_resources (ef_resources e)),
      (''reversibility'', JStr (ef_reversibility e)), (''status'', JStr (effect_text (ef_status e))),
      (''support_level'', JStr (ef_support e)), (''tool_identity'', JStr (ef_tool e))]"

fun effect_materials :: "external_effect list \<Rightarrow> ledger_error + json list" where
  "effect_materials [] = Inr []"
| "effect_materials (e # es) =
     (if ef_status e \<noteq> EffectVerified \<and> ef_status e \<noteq> EffectCommitted
      then Inl (EffectNotReady (ef_id e) (ef_status e))
      else try_bind (effect_materials es) (\<lambda>ms. Inr (effect_material e # ms)))"

definition material_json :: "string \<Rightarrow> transaction \<Rightarrow> patch \<Rightarrow> verification_run \<Rightarrow> json list \<Rightarrow> json" where
  "material_json tid cur p v ms = JObj
     [(''approval_material_digest'', JStr (pa_material p)), (''base_revision'', JStr (tx_base_revision cur)),
      (''contract_digest'', JStr (vn_contract_digest v)), (''external_effects'', JArr ms),
      (''format_version'', JStr ''0.2''), (''material_digest'', JStr (vn_material v)),
      (''material_revision'', JInt (tx_material cur)), (''outcome'', JStr (vn_outcome v)),
      (''patch_sha256'', JStr (pa_sha p)), (''policy_version'', JStr (vn_policy v)),
      (''staged_tree_oid'', JStr (pa_tree p)), (''transaction_id'', JStr tid),
      (''verification_digest'', JStr (vn_digest v))]"

definition approvalMaterialWith :: "string \<Rightarrow> transaction \<Rightarrow> ledger \<Rightarrow> ledger_error + string" where
  "approvalMaterialWith tid cur l =
     try_bind (fetch (get_patch tid l) PatchRequired) (\<lambda>p.
     try_bind (fetch (latest_run tid l) VerificationRequired) (\<lambda>v.
     try_bind (effect_materials (live_effects tid l)) (\<lambda>ms.
     Inr (Digest (material_json tid cur p v ms)))))"

definition ApprovalMaterial :: "string \<Rightarrow> ledger \<Rightarrow> ledger_error + string" where
  "ApprovalMaterial tid l = try_bind (Get tid l) (\<lambda>cur. approvalMaterialWith tid cur l)"

definition ApproveWithEvidence_tx ::
  "env \<Rightarrow> string \<Rightarrow> string \<Rightarrow> string \<Rightarrow> string \<Rightarrow> gotime option \<Rightarrow> ledger \<Rightarrow> ledger_error + ledger" where
  "ApproveWithEvidence_tx en tid digest approver signatureRef expiresAt l =
     try_bind (fetch (get_tx tid l) ErrNotFound) (\<lambda>cur.
     try_bind (require (tx_status cur = StateReady) (UnexpectedState (tx_status cur))) (\<lambda>_.
     try_bind (approvalMaterialWith tid cur l) (\<lambda>expected.
     try_bind (require (digest = expected) DigestMismatch) (\<lambda>_.
     try_bind (require (\<not> has_key ap_id (NewID en 0 ''approval'') (approvals l)) (SqlConstraint ''approvals'')) (\<lambda>_.
     try_bind (update_tx tid (tx_revision cur)
         (\<lambda>t. t\<lparr>tx_approval := Some digest, tx_revision := tx_revision t + 1, tx_updated := en_now en\<rparr>)
         (l\<lparr>approvals := approvals l @ [\<lparr>ap_id = NewID en 0 ''approval'', ap_tx = tid, ap_digest = digest,
              ap_material = tx_material cur, ap_approver = approver, ap_signature = signatureRef,
              ap_created = en_now en, ap_expires = expiresAt\<rparr>]\<rparr>)) (\<lambda>l1.
     appendEvent (NewID en 1 ''event'') tid ''transaction.approved''
       (JObj [(''approver'', JStr approver), (''digest'', JStr digest),
              (''expires_at'', (case expiresAt of None \<Rightarrow> JNull | Some t \<Rightarrow> json_time t)),
              (''signature_ref'', JStr signatureRef)]) (en_now en) l1))))))"

definition ApproveWithEvidence ::
  "env \<Rightarrow> string \<Rightarrow> string \<Rightarrow> string \<Rightarrow> string \<Rightarrow> gotime option \<Rightarrow> ledger \<Rightarrow> (ledger_error + transaction) \<times> ledger" where
  "ApproveWithEvidence en tid digest approver signatureRef expiresAt l =
     then_read en (Get tid) (WithTx en (ApproveWithEvidence_tx en tid digest approver signatureRef expiresAt) l)"

definition Approve :: "env \<Rightarrow> string \<Rightarrow> string \<Rightarrow> string \<Rightarrow> ledger \<Rightarrow> (ledger_error + transaction) \<times> ledger" where
  "Approve en tid digest approver l = ApproveWithEvidence en tid digest approver [] None l"

subsection \<open>BeginCommit and reconciliation marks\<close>

definition BeginCommit_tx :: "env \<Rightarrow> string \<Rightarrow> string \<Rightarrow> ledger \<Rightarrow> ledger_error + ledger" where
  "BeginCommit_tx en tid digest l =
     try_bind (fetch (get_tx tid l) ErrNotFound) (\<lambda>cur.
     try_bind (require (tx_status cur = StateReady) (UnexpectedState (tx_status cur))) (\<lambda>_.
     try_bind (require (approval_text cur \<noteq> [] \<and> approval_text cur = digest) ApprovalRequired) (\<lambda>_.
     try_bind (case filter (\<lambda>e. ef_tx e = tid \<and> ef_status e \<noteq> EffectSuperseded
                       \<and> ef_status e \<notin> {EffectVerified, EffectCommitted}) (effects l) of
                 [] \<Rightarrow> Inr () | e # _ \<Rightarrow> Inl (EffectNotReady (ef_id e) (ef_status e))) (\<lambda>_.
     try_bind (update_tx tid (tx_revision cur)
         (\<lambda>t. t\<lparr>tx_status := StateCommitting, tx_revision := tx_revision t + 1, tx_updated := en_now en\<rparr>) l) (\<lambda>l1.
     appendEvent (NewID en 0 ''event'') tid ''transaction.committing''
       (JObj [(''approval_digest'', JStr digest)]) (en_now en) l1)))))"

definition BeginCommit :: "env \<Rightarrow> string \<Rightarrow> string \<Rightarrow> ledger \<Rightarrow> (ledger_error + transaction) \<times> ledger" where
  "BeginCommit en tid digest l = then_read en (Get tid) (WithTx en (BeginCommit_tx en tid digest) l)"

definition MarkNeedsReconciliation :: "env \<Rightarrow> string \<Rightarrow> string \<Rightarrow> ledger \<Rightarrow> (ledger_error + transaction) \<times> ledger" where
  "MarkNeedsReconciliation en tid reason l =
     (case Get tid l of
        Inl e \<Rightarrow> (Inl e, l)
      | Inr cur \<Rightarrow> Transition en tid (tx_status cur) StateNeedsReconciliation ''daemon'' reason False False l)"

subsection \<open>Runtime executions\<close>

definition RecordRuntimeExecution_tx :: "env \<Rightarrow> runtime_execution \<Rightarrow> ledger \<Rightarrow> ledger_error + ledger" where
  "RecordRuntimeExecution_tx en r l =
     try_bind (fetch (get_tx (rx_tx r) l) ErrNotFound) (\<lambda>_.
     try_bind (require (\<not> has_key rx_id (rx_id r) (executions l) \<and> \<not> has_key rx_evidence (rx_evidence r) (executions l))
       (SqlConstraint ''runtime_executions'')) (\<lambda>_.
     appendEvent (NewID en 0 ''event'') (rx_tx r) ''runtime.execution'' (execution_json r) (rx_finished r)
       (l\<lparr>executions := executions l @ [r]\<rparr>)))"

definition RecordRuntimeExecution :: "env \<Rightarrow> runtime_execution \<Rightarrow> ledger \<Rightarrow> (ledger_error + unit) \<times> ledger" where
  "RecordRuntimeExecution en r l =
     (if rx_id r = [] \<or> rx_tx r = [] \<or> rx_evidence r = [] then (Inl MissingField, l)
      else WithTx en (RecordRuntimeExecution_tx en r) l)"

definition RuntimeExecutions :: "string \<Rightarrow> ledger \<Rightarrow> runtime_execution list" where
  "RuntimeExecutions tid l =
     sort_key (\<lambda>r. (ts (rx_started r), rx_id r)) (filter (\<lambda>r. rx_tx r = tid) (executions l))"

end
