(* ===== verification/LedgerEffects.thy ===== *)
theory LedgerEffects
  imports LedgerRepository
begin

text \<open>
  External effects of \<open>internal/ledger/external_effects.go\<close>: preparing and refreshing an effect,
  coordinator leases with fencing tokens, write-ahead attempts, outcomes (committed with receipt,
  unknown, definite failure, rearmed), the repository reference, the final commit and the abort of
  prepared effects.  The test-only durable-write injector fires before the write transaction
  begins, so its failures are the \<open>en_begin\<close> failures of the environment.
\<close>

subsection \<open>Reads\<close>

definition effectDependencies :: "string \<Rightarrow> ledger \<Rightarrow> string list" where
  "effectDependencies eid l = sort (map snd (filter (\<lambda>d. fst d = eid) (dependencies l)))"

definition ExternalEffect :: "string \<Rightarrow> ledger \<Rightarrow> ledger_error + external_effect" where
  "ExternalEffect eid l =
     (case get_effect eid l of None \<Rightarrow> Inl ErrNotFound
      | Some e \<Rightarrow> Inr (e\<lparr>ef_depends := effectDependencies eid l\<rparr>))"

definition ExternalEffects :: "string \<Rightarrow> ledger \<Rightarrow> external_effect list" where
  "ExternalEffects tid l = map (\<lambda>e. e\<lparr>ef_depends := effectDependencies (ef_id e) l\<rparr>) (live_effects tid l)"

definition EffectReceipt :: "string \<Rightarrow> ledger \<Rightarrow> ledger_error + effect_receipt" where
  "EffectReceipt eid l = fetch (find_row rc_effect eid (receipts l)) ErrNotFound"

definition MaterializedRef :: "string \<Rightarrow> ledger \<Rightarrow> ledger_error + materialized_ref" where
  "MaterializedRef tid l = fetch (find_row mr_tx tid (refs l)) ErrNotFound"

subsection \<open>Preparing an effect\<close>

fun insert_dependencies ::
  "string \<Rightarrow> string \<Rightarrow> string list \<Rightarrow> string list \<Rightarrow> external_effect list \<Rightarrow> (string \<times> string) list
     \<Rightarrow> ledger_error + (string \<times> string) list" where
  "insert_dependencies eid tid [] seen rows deps = Inr deps"
| "insert_dependencies eid tid (d # ds) seen rows deps =
     (if d = [] \<or> d = eid \<or> d \<in> set seen then Inl BadDependency
      else case find_row ef_id d rows of
             None \<Rightarrow> Inl ErrNotFound
           | Some dep \<Rightarrow>
               if ef_tx dep \<noteq> tid then Inl ForeignDependency
               else if ef_status dep = EffectSuperseded then Inl SupersededDependency
               else if (eid, d) \<in> set deps then Inl (SqlConstraint ''effect_dependencies'')
               else insert_dependencies eid tid ds (d # seen) rows (deps @ [(eid, d)]))"

definition effect_required :: "external_effect \<Rightarrow> bool" where
  "effect_required e = (ef_id e \<noteq> [] \<and> ef_tx e \<noteq> [] \<and> ef_adapter e \<noteq> [] \<and> ef_tool e \<noteq> [] \<and> ef_credential e \<noteq> []
     \<and> ef_operation e \<noteq> [] \<and> ef_destination e \<noteq> [] \<and> ef_input_digest e \<noteq> [] \<and> ef_prepared_digest e \<noteq> []
     \<and> ef_preview_digest e \<noteq> [] \<and> ef_idem e \<noteq> [])"

definition CreateExternalEffect_tx :: "env \<Rightarrow> external_effect \<Rightarrow> ledger \<Rightarrow> ledger_error + ledger" where
  "CreateExternalEffect_tx en e l =
     try_bind (fetch (get_tx (ef_tx e) l) ErrNotFound) (\<lambda>cur.
     try_bind (require (tx_status cur = StateActive \<or> tx_status cur = StateSealed) (UnexpectedState (tx_status cur))) (\<lambda>_.
     try_bind (require (\<not> has_key ef_id (ef_id e) (effects l)
         \<and> \<not> has_key (\<lambda>r. (ef_adapter r, ef_idem r)) (ef_adapter e, ef_idem e) (effects l))
       (SqlConstraint ''effects'')) (\<lambda>_.
     let rows = effects l @ [e\<lparr>ef_commit_request := [], ef_commit_fence := 0, ef_depends := []\<rparr>]
     in try_bind (insert_dependencies (ef_id e) (ef_tx e) (ef_depends e) [] rows (dependencies l)) (\<lambda>deps.
        try_bind (update_tx (ef_tx e) (tx_revision cur)
            (\<lambda>t. t\<lparr>tx_revision := tx_revision t + 1, tx_material := tx_material t + 1,
                   tx_approval := None, tx_updated := en_now en\<rparr>)
            (l\<lparr>effects := rows, dependencies := deps\<rparr>)) (\<lambda>l1.
        appendEffectEvent (NewID en 0 ''event'') (ef_tx e) (ef_id e) ''effect.prepared''
          (JObj [(''adapter'', JStr (ef_adapter e)), (''destination'', JStr (ef_destination e)),
                 (''idempotency_key'', JStr (ef_idem e)), (''input_digest'', JStr (ef_input_digest e)),
                 (''prepared_digest'', JStr (ef_prepared_digest e)), (''preview_digest'', JStr (ef_preview_digest e)),
                 (''resource_versions'', json_resources (ef_resources e)), (''tool'', JStr (ef_tool e))])
          0 (en_now en) l1)))))"

definition CreateExternalEffect ::
  "env \<Rightarrow> external_effect \<Rightarrow> ledger \<Rightarrow> (ledger_error + external_effect) \<times> ledger" where
  "CreateExternalEffect en e0 l =
     (if \<not> effect_required e0 then (Inl MissingField, l)
      else let st = (if ef_status e0 = EffectUnset then EffectVerified else ef_status e0)
           in if st \<noteq> EffectVerified then (Inl (EffectState st), l)
              else let e = e0\<lparr>ef_status := st, ef_rank := (if ef_rank e0 = 0 then 100 else ef_rank e0),
                              ef_created := en_now en, ef_updated := en_now en, ef_revision := 1\<rparr>
                   in then_read en (ExternalEffect (ef_id e)) (WithTx en (CreateExternalEffect_tx en e) l))"

definition RefreshExternalEffect_tx ::
  "env \<Rightarrow> string \<Rightarrow> string \<Rightarrow> string \<Rightarrow> string \<Rightarrow> string \<Rightarrow> (string \<times> string) list option \<Rightarrow> ledger
     \<Rightarrow> ledger_error + ledger" where
  "RefreshExternalEffect_tx en eid preparedJSON preparedDigest previewJSON previewDigest resources l =
     try_bind (fetch (get_effect eid l) ErrNotFound) (\<lambda>e.
     try_bind (fetch (get_tx (ef_tx e) l) ErrNotFound) (\<lambda>cur.
     try_bind (require (tx_status cur = StateActive \<or> tx_status cur = StateStale) (UnexpectedState (tx_status cur))) (\<lambda>_.
     try_bind (require (ef_status e \<in> {EffectVerified, EffectPrepared, EffectUnknown}) (EffectState (ef_status e))) (\<lambda>_.
     try_bind (update_tx (ef_tx e) (tx_revision cur)
         (\<lambda>t. t\<lparr>tx_revision := tx_revision t + 1, tx_material := tx_material t + 1,
                tx_approval := None, tx_updated := en_now en\<rparr>)
         (update_effect eid
            (\<lambda>r. r\<lparr>ef_prepared_json := preparedJSON, ef_prepared_digest := preparedDigest,
                   ef_preview_json := previewJSON, ef_preview_digest := previewDigest, ef_resources := resources,
                   ef_status := EffectVerified, ef_commit_request := [], ef_commit_fence := 0,
                   ef_revision := ef_revision r + 1, ef_updated := en_now en\<rparr>) l)) (\<lambda>l1.
     appendEffectEvent (NewID en 0 ''event'') (ef_tx e) eid ''effect.refreshed''
       (JObj [(''prepared_digest'', JStr preparedDigest), (''preview_digest'', JStr previewDigest),
              (''resource_versions'', json_resources resources)]) 0 (en_now en) l1)))))"

definition RefreshExternalEffect ::
  "env \<Rightarrow> string \<Rightarrow> string \<Rightarrow> string \<Rightarrow> string \<Rightarrow> string \<Rightarrow> (string \<times> string) list option \<Rightarrow> ledger
     \<Rightarrow> (ledger_error + external_effect) \<times> ledger" where
  "RefreshExternalEffect en eid preparedJSON preparedDigest previewJSON previewDigest resources l =
     (if preparedDigest = [] \<or> previewDigest = [] then (Inl MissingField, l)
      else then_read en (ExternalEffect eid)
        (WithTx en (RefreshExternalEffect_tx en eid preparedJSON preparedDigest previewJSON previewDigest resources) l))"

subsection \<open>Leases and fencing\<close>

definition next_token :: "string \<Rightarrow> ledger \<Rightarrow> int" where
  "next_token name l = (case find_row le_name name (leases l) of None \<Rightarrow> 1 | Some r \<Rightarrow> le_token r + 1)"

definition AcquireLease_tx :: "env \<Rightarrow> string \<Rightarrow> string \<Rightarrow> int \<Rightarrow> ledger \<Rightarrow> ledger_error + ledger" where
  "AcquireLease_tx en name lowner ttl l =
     (let nowMS = unix_milli (en_now en); expires = unix_milli (en_now en + ttl)
      in case find_row le_name name (leases l) of
           None \<Rightarrow> Inr (l\<lparr>leases := leases l @ [\<lparr>le_name = name, le_owner = lowner, le_token = 1,
                            le_acquired = nowMS, le_expires = expires\<rparr>]\<rparr>)
         | Some r \<Rightarrow>
             if le_owner r \<noteq> lowner \<and> le_expires r > nowMS then Inl LeaseHeld
             else let P = (\<lambda>x. le_name x = name \<and> le_token x = le_token r)
                  in if changes P (leases l) \<noteq> 1 then Inl ConcurrentUpdate
                     else Inr (l\<lparr>leases := update_where P
                            (\<lambda>x. x\<lparr>le_owner := lowner, le_token := le_token r + 1,
                                   le_acquired := nowMS, le_expires := expires\<rparr>) (leases l)\<rparr>))"

definition AcquireLease :: "env \<Rightarrow> string \<Rightarrow> string \<Rightarrow> int \<Rightarrow> ledger \<Rightarrow> (ledger_error + int) \<times> ledger" where
  "AcquireLease en name lowner ttl l =
     (if name = [] \<or> lowner = [] \<or> ttl \<le> 0 then (Inl BadLease, l)
      else case WithTx en (AcquireLease_tx en name lowner ttl) l of
             (Inl e, l') \<Rightarrow> (Inl e, l')
           | (Inr _, l') \<Rightarrow> (Inr (next_token name l), l'))"

definition lease_name :: "string \<Rightarrow> string" where
  "lease_name tid = ''transaction:'' @ tid"

definition validateFencing :: "env \<Rightarrow> string \<Rightarrow> int \<Rightarrow> ledger \<Rightarrow> ledger_error + unit" where
  "validateFencing en tid token l =
     (case find_row le_name (lease_name tid) (leases l) of
        None \<Rightarrow> Inl ErrNotFound
      | Some r \<Rightarrow>
          if le_token r \<noteq> token then Inl StaleToken
          else if le_expires r \<le> unix_milli (en_check en) then Inl LeaseExpired
          else Inr ())"

subsection \<open>Attempts\<close>

definition attempt_phases :: "string list" where
  "attempt_phases = [''commit'', ''status'', ''abort'', ''compensate'']"

definition new_attempt :: "env \<Rightarrow> string \<Rightarrow> string \<Rightarrow> string \<Rightarrow> string \<Rightarrow> int \<Rightarrow> effect_attempt" where
  "new_attempt en tid eid phase requestDigest token =
     \<lparr>at_id = NewID en 0 ''attempt'', at_effect = eid, at_tx = tid, at_phase = phase, at_request = requestDigest,
      at_fence = token, at_outcome = ''intent'', at_http = 0, at_response = [], at_class = [], at_message = [],
      at_started = en_now en, at_finished = None\<rparr>"

definition BeginEffectAttempt_tx :: "env \<Rightarrow> string \<Rightarrow> string \<Rightarrow> string \<Rightarrow> int \<Rightarrow> ledger \<Rightarrow> ledger_error + ledger" where
  "BeginEffectAttempt_tx en eid phase requestDigest token l =
     try_bind (fetch (get_effect eid l) ErrNotFound) (\<lambda>e.
     try_bind (validateFencing en (ef_tx e) token l) (\<lambda>_.
     try_bind (fetch (get_tx (ef_tx e) l) ErrNotFound) (\<lambda>cur.
     try_bind (require (tx_status cur = StateCommitting \<or> tx_status cur = StateNeedsReconciliation)
       (UnexpectedState (tx_status cur))) (\<lambda>_.
     try_bind (require (phase = ''commit'' \<longrightarrow> ef_status e = EffectVerified \<or> ef_status e = EffectPrepared)
       (EffectState (ef_status e))) (\<lambda>_.
     try_bind (require (phase = ''status'' \<longrightarrow> ef_status e = EffectUnknown \<or> ef_status e = EffectCommitting)
       (EffectState (ef_status e))) (\<lambda>_.
     let a = new_attempt en (ef_tx e) eid phase requestDigest token
     in try_bind (require (\<not> has_key at_id (at_id a) (attempts l)) (SqlConstraint ''effect_attempts'')) (\<lambda>_.
        try_bind (require (phase = ''commit'' \<longrightarrow>
              changes (\<lambda>r. ef_id r = eid \<and> ef_revision r = ef_revision e) (effects l) = 1) ConcurrentUpdate) (\<lambda>_.
        let l1 = l\<lparr>attempts := attempts l @ [a]\<rparr>;
            l2 = (if phase = ''commit''
                  then update_effect eid
                    (\<lambda>r. r\<lparr>ef_status := EffectCommitting, ef_commit_request := requestDigest, ef_commit_fence := token,
                           ef_revision := ef_revision r + 1, ef_updated := en_now en\<rparr>) l1
                  else l1)
        in appendEffectEvent (NewID en 1 ''event'') (ef_tx e) eid (''effect.'' @ phase @ ''.intent'')
             (JObj [(''attempt_id'', JStr (at_id a)), (''request_digest'', JStr requestDigest)])
             token (en_now en) l2))))))))"

definition BeginEffectAttempt ::
  "env \<Rightarrow> string \<Rightarrow> string \<Rightarrow> string \<Rightarrow> int \<Rightarrow> ledger \<Rightarrow> (ledger_error + effect_attempt) \<times> ledger" where
  "BeginEffectAttempt en eid phase requestDigest token l =
     (if phase \<notin> set attempt_phases then (Inl BadPhase, l)
      else if requestDigest = [] \<or> token \<le> 0 then (Inl MissingField, l)
      else case WithTx en (BeginEffectAttempt_tx en eid phase requestDigest token) l of
             (Inl err, l') \<Rightarrow> (Inl err, l')
           | (Inr _, l') \<Rightarrow>
               (Inr (new_attempt en (case get_effect eid l of Some e \<Rightarrow> ef_tx e | None \<Rightarrow> []) eid phase requestDigest token), l'))"

text \<open>\<open>UPDATE effect_attempts SET \<dots> WHERE attempt_id=? AND outcome='intent'\<close>.\<close>

definition close_attempt :: "string \<Rightarrow> (effect_attempt \<Rightarrow> effect_attempt) \<Rightarrow> ledger \<Rightarrow> ledger" where
  "close_attempt aid f l =
     l\<lparr>attempts := update_where (\<lambda>a. at_id a = aid \<and> at_outcome a = ''intent'') f (attempts l)\<rparr>"

definition set_effect_status :: "gotime \<Rightarrow> string \<Rightarrow> effect_state \<Rightarrow> ledger \<Rightarrow> ledger" where
  "set_effect_status now eid st l =
     update_effect eid (\<lambda>r. r\<lparr>ef_status := st, ef_revision := ef_revision r + 1, ef_updated := now\<rparr>) l"

definition MarkEffectUnknown_tx :: "env \<Rightarrow> effect_attempt \<Rightarrow> string \<Rightarrow> string \<Rightarrow> ledger \<Rightarrow> ledger_error + ledger" where
  "MarkEffectUnknown_tx en a cls message l =
     try_bind (validateFencing en (at_tx a) (at_fence a) l) (\<lambda>_.
     appendEffectEvent (NewID en 0 ''event'') (at_tx a) (at_effect a) ''effect.unknown''
       (JObj [(''attempt_id'', JStr (at_id a)), (''error_class'', JStr cls), (''message'', JStr message)])
       (at_fence a) (en_now en)
       (set_effect_status (en_now en) (at_effect a) EffectUnknown
         (close_attempt (at_id a)
            (\<lambda>x. x\<lparr>at_outcome := ''unknown'', at_class := cls, at_message := message, at_finished := Some (en_now en)\<rparr>) l)))"

definition MarkEffectUnknown ::
  "env \<Rightarrow> effect_attempt \<Rightarrow> string \<Rightarrow> string \<Rightarrow> ledger \<Rightarrow> (ledger_error + external_effect) \<times> ledger" where
  "MarkEffectUnknown en a cls message l =
     then_read en (ExternalEffect (at_effect a)) (WithTx en (MarkEffectUnknown_tx en a cls message) l)"

definition MarkEffectDefiniteFailure_tx ::
  "env \<Rightarrow> effect_attempt \<Rightarrow> int \<Rightarrow> string \<Rightarrow> string \<Rightarrow> ledger \<Rightarrow> ledger_error + ledger" where
  "MarkEffectDefiniteFailure_tx en a http cls message l =
     try_bind (validateFencing en (at_tx a) (at_fence a) l) (\<lambda>_.
     appendEffectEvent (NewID en 0 ''event'') (at_tx a) (at_effect a) ''effect.commit.rejected''
       (JObj [(''attempt_id'', JStr (at_id a)), (''error_class'', JStr cls), (''http_status'', JInt http),
              (''message'', JStr message)])
       (at_fence a) (en_now en)
       (set_effect_status (en_now en) (at_effect a) EffectVerified
         (close_attempt (at_id a)
            (\<lambda>x. x\<lparr>at_outcome := ''definite_failure'', at_http := http, at_class := cls, at_message := message,
                   at_finished := Some (en_now en)\<rparr>) l)))"

definition MarkEffectDefiniteFailure ::
  "env \<Rightarrow> effect_attempt \<Rightarrow> int \<Rightarrow> string \<Rightarrow> string \<Rightarrow> ledger \<Rightarrow> (ledger_error + external_effect) \<times> ledger" where
  "MarkEffectDefiniteFailure en a http cls message l =
     then_read en (ExternalEffect (at_effect a)) (WithTx en (MarkEffectDefiniteFailure_tx en a http cls message) l)"

definition complete_receipt :: "env \<Rightarrow> effect_attempt \<Rightarrow> effect_receipt \<Rightarrow> effect_receipt" where
  "complete_receipt en a r =
     r\<lparr>rc_id := (if rc_id r = [] then NewID en 0 ''receipt'' else rc_id r), rc_effect := at_effect a,
       rc_fence := at_fence a, rc_created := or_now (en_now en) (rc_committed r)\<rparr>"

definition RecordEffectCommitted_tx ::
  "env \<Rightarrow> effect_attempt \<Rightarrow> effect_receipt \<Rightarrow> ledger \<Rightarrow> ledger_error + ledger" where
  "RecordEffectCommitted_tx en a r l =
     (let now = rc_created r
      in try_bind (validateFencing en (at_tx a) (at_fence a) l) (\<lambda>_.
         let l1 = close_attempt (at_id a)
               (\<lambda>x. x\<lparr>at_outcome := ''success'', at_response := rc_response r, at_finished := Some now\<rparr>) l;
             ignored = (has_key rc_id (rc_id r) (receipts l) \<or> has_key rc_effect (rc_effect r) (receipts l) \<or> rc_fence r \<le> 0);
             l2 = (if ignored then l1 else l1\<lparr>receipts := receipts l @ [r\<lparr>rc_committed := now\<rparr>]\<rparr>)
         in try_bind (require (ignored \<or> get_effect (rc_effect r) l \<noteq> None) (SqlConstraint ''receipts.effect_id'')) (\<lambda>_.
            try_bind (fetch (find_row rc_effect (rc_effect r) (receipts l2)) ErrNotFound) (\<lambda>row.
            try_bind (require (rc_request row = rc_request r \<and> rc_resource row = rc_resource r) ReceiptConflict) (\<lambda>_.
            appendEffectEvent (NewID en 1 ''event'') (at_tx a) (rc_effect r) ''effect.committed'' (receipt_json r)
              (at_fence a) now (set_effect_status now (rc_effect r) EffectCommitted l2))))))"

definition RecordEffectCommitted ::
  "env \<Rightarrow> effect_attempt \<Rightarrow> effect_receipt \<Rightarrow> ledger \<Rightarrow> (ledger_error + external_effect) \<times> ledger" where
  "RecordEffectCommitted en a r0 l =
     (let r = complete_receipt en a r0
      in then_read en (ExternalEffect (rc_effect r)) (WithTx en (RecordEffectCommitted_tx en a r) l))"

definition RearmEffect_tx ::
  "env \<Rightarrow> string \<Rightarrow> effect_attempt option \<Rightarrow> string \<Rightarrow> ledger \<Rightarrow> ledger_error + ledger" where
  "RearmEffect_tx en eid attempt reason l =
     try_bind (fetch (get_effect eid l) ErrNotFound) (\<lambda>e.
     try_bind (case attempt of None \<Rightarrow> Inr l
         | Some a \<Rightarrow> try_bind (validateFencing en (ef_tx e) (at_fence a) l) (\<lambda>_.
             Inr (close_attempt (at_id a)
               (\<lambda>x. x\<lparr>at_outcome := ''not_found'', at_message := reason, at_finished := Some (en_now en)\<rparr>) l))) (\<lambda>l1.
     appendEffectEvent (NewID en 0 ''event'') (ef_tx e) eid ''effect.rearmed''
       (JObj [(''reason'', JStr reason)]) 0 (en_now en)
       (set_effect_status (en_now en) eid EffectVerified l1)))"

definition RearmEffect ::
  "env \<Rightarrow> string \<Rightarrow> effect_attempt option \<Rightarrow> string \<Rightarrow> ledger \<Rightarrow> (ledger_error + external_effect) \<times> ledger" where
  "RearmEffect en eid attempt reason l =
     then_read en (ExternalEffect eid) (WithTx en (RearmEffect_tx en eid attempt reason) l)"

subsection \<open>Repository reference, final commit, abort\<close>

definition RecordMaterializedRef_tx :: "env \<Rightarrow> string \<Rightarrow> materialized_ref \<Rightarrow> ledger \<Rightarrow> ledger_error + ledger" where
  "RecordMaterializedRef_tx en tid r l =
     (let now = or_now (en_now en) (mr_at r)
      in try_bind (fetch (get_tx tid l) ErrNotFound) (\<lambda>cur.
         try_bind (require (tx_status cur = StateCommitting \<or> tx_status cur = StateNeedsReconciliation)
           (UnexpectedState (tx_status cur))) (\<lambda>_.
         let ignored = (has_key mr_tx tid (refs l) \<or> has_key mr_ref (mr_ref r) (refs l));
             l1 = (if ignored then l else l\<lparr>refs := refs l @ [r\<lparr>mr_tx := tid, mr_at := now\<rparr>]\<rparr>)
         in try_bind (fetch (find_row mr_tx tid (refs l1)) ErrNotFound) (\<lambda>row.
            try_bind (require (mr_ref row = mr_ref r \<and> mr_commit row = mr_commit r \<and> mr_tree row = mr_tree r) RefConflict) (\<lambda>_.
            appendEvent (NewID en 0 ''event'') tid ''repository.materialized'' (ref_json r) now l1)))))"

definition RecordMaterializedRef :: "env \<Rightarrow> string \<Rightarrow> materialized_ref \<Rightarrow> ledger \<Rightarrow> (ledger_error + unit) \<times> ledger" where
  "RecordMaterializedRef en tid r l = WithTx en (RecordMaterializedRef_tx en tid r) l"

definition FinalizeTransactionCommit_tx :: "env \<Rightarrow> string \<Rightarrow> ledger \<Rightarrow> ledger_error + ledger" where
  "FinalizeTransactionCommit_tx en tid l =
     try_bind (fetch (get_tx tid l) ErrNotFound) (\<lambda>cur.
     try_bind (require (tx_status cur = StateCommitting \<or> tx_status cur = StateNeedsReconciliation)
       (UnexpectedState (tx_status cur))) (\<lambda>_.
     try_bind (require (has_key mr_tx tid (refs l)) RefRequired) (\<lambda>_.
     try_bind (case filter (\<lambda>e. ef_tx e = tid \<and> ef_status e \<noteq> EffectSuperseded \<and> ef_status e \<noteq> EffectCommitted) (effects l) of
                 [] \<Rightarrow> Inr () | e # _ \<Rightarrow> Inl (EffectsPending (ef_id e) (ef_status e))) (\<lambda>_.
     try_bind (update_tx tid (tx_revision cur)
         (\<lambda>t. t\<lparr>tx_status := StateCommitted, tx_revision := tx_revision t + 1, tx_updated := en_now en\<rparr>) l) (\<lambda>l1.
     appendEvent (NewID en 0 ''event'') tid ''transaction.committed''
       (JObj [(''external_effects_complete'', JBool True)]) (en_now en) l1)))))"

definition FinalizeTransactionCommit :: "env \<Rightarrow> string \<Rightarrow> ledger \<Rightarrow> (ledger_error + transaction) \<times> ledger" where
  "FinalizeTransactionCommit en tid l = then_read en (Get tid) (WithTx en (FinalizeTransactionCommit_tx en tid) l)"

definition FinishCommit :: "env \<Rightarrow> env \<Rightarrow> string \<Rightarrow> materialized_ref \<Rightarrow> ledger \<Rightarrow> (ledger_error + transaction) \<times> ledger" where
  "FinishCommit en1 en2 tid r l =
     (case RecordMaterializedRef en1 tid r l of
        (Inl e, l1) \<Rightarrow> (Inl e, l1)
      | (Inr _, l1) \<Rightarrow> FinalizeTransactionCommit en2 tid l1)"

fun abort_loop :: "env \<Rightarrow> nat \<Rightarrow> string \<Rightarrow> string \<Rightarrow> external_effect list \<Rightarrow> ledger \<Rightarrow> ledger_error + ledger" where
  "abort_loop en i tid reason [] l = Inr l"
| "abort_loop en i tid reason (e # es) l =
     try_bind (appendEffectEvent (NewID en i ''event'') tid (ef_id e) ''effect.aborted''
         (JObj [(''reason'', JStr reason)]) 0 (en_now en)
         (set_effect_status (en_now en) (ef_id e) EffectAborted l))
       (\<lambda>l1. abort_loop en (i + 1) tid reason es l1)"

definition AbortPreparedEffects_tx :: "env \<Rightarrow> string \<Rightarrow> string \<Rightarrow> ledger \<Rightarrow> ledger_error + ledger" where
  "AbortPreparedEffects_tx en tid reason l =
     try_bind (fetch (get_tx tid l) ErrNotFound) (\<lambda>cur.
     try_bind (require (tx_status cur = StateAborting) (UnexpectedState (tx_status cur))) (\<lambda>_.
     abort_loop en 0 tid reason
       (filter (\<lambda>e. ef_tx e = tid \<and> ef_status e \<in> {EffectPrepared, EffectVerified}) (effects l)) l))"

definition AbortPreparedEffects :: "env \<Rightarrow> string \<Rightarrow> string \<Rightarrow> ledger \<Rightarrow> (ledger_error + unit) \<times> ledger" where
  "AbortPreparedEffects en tid reason l = WithTx en (AbortPreparedEffects_tx en tid reason) l"

subsection \<open>Verification material\<close>

definition verification_effect :: "external_effect \<Rightarrow> json" where
  "verification_effect e = JObj
     [(''adapter_identity'', JStr (ef_adapter e)), (''commit_rank'', JInt (ef_rank e)),
      (''depends_on'', json_strs (ef_depends e)), (''destination'', JStr (ef_destination e)),
      (''effect_id'', JStr (ef_id e)), (''idempotency_key'', JStr (ef_idem e)),
      (''input_digest'', JStr (ef_input_digest e)), (''operation'', JStr (ef_operation e)),
      (''prepared_digest'', JStr (ef_prepared_digest e)), (''preview_digest'', JStr (ef_preview_digest e)),
      (''resource_versions'', json_resources (ef_resources e)), (''tool_identity'', JStr (ef_tool e))]"

definition VerificationMaterial :: "string \<Rightarrow> ledger \<Rightarrow> ledger_error + string" where
  "VerificationMaterial tid l =
     try_bind (Patch tid l) (\<lambda>p.
     let es = filter (\<lambda>e. ef_status e \<noteq> EffectSuperseded \<and> ef_status e \<noteq> EffectAborted) (ExternalEffects tid l)
     in Inr (Digest (JObj
          [(''external_effects'', JArr (map verification_effect es)), (''format_version'', JStr ''0.2''),
           (''patch_approval_material_digest'', JStr (pa_material p)), (''patch_sha256'', JStr (pa_sha p)),
           (''staged_tree_oid'', JStr (pa_tree p)), (''transaction_id'', JStr tid)])))"

end
