(* ===== verification/HashChain.thy ===== *)
theory HashChain
  imports Sha256 Json GoTime
begin

text \<open>
  Hash chains.  The ledger keeps several append-only logs whose rows carry the digest of the row
  before (\<open>events\<close>, \<open>transaction_access_events\<close>, \<open>authorization_decisions\<close>,
  \<open>api_access_events\<close>).  This theory states what the verifiers of such logs establish
  (\<open>linked\<close>) and, as a locale, what follows for every log: appending keeps it verified, a
  verified log can only differ from another one with the same head if two of their rows collide
  under SHA-256, and dropping the newest rows goes unnoticed.
\<close>

fun linked :: "('e \<Rightarrow> string) \<Rightarrow> ('e \<Rightarrow> string) \<Rightarrow> ('e \<Rightarrow> string) \<Rightarrow> string \<Rightarrow> 'e list \<Rightarrow> bool" where
  "linked prev digest material p [] = True"
| "linked prev digest material p (e # es) =
     (prev e = p \<and> digest e = sha256_hex (material e) \<and> linked prev digest material (digest e) es)"

definition chain_head :: "('e \<Rightarrow> string) \<Rightarrow> string \<Rightarrow> 'e list \<Rightarrow> string" where
  "chain_head digest p es = (if es = [] then p else digest (last es))"

lemma chain_head_simps [simp]:
  "chain_head digest p [] = p"
  "chain_head digest p (es @ [e]) = digest e"
  by (simp_all add: chain_head_def)

lemma chain_head_Cons: "chain_head digest p (e # es) = chain_head digest (digest e) es"
  by (simp add: chain_head_def)

lemma linked_append:
  "linked prev digest material p (es @ fs) \<longleftrightarrow>
     linked prev digest material p es \<and> linked prev digest material (chain_head digest p es) fs"
  by (induction es arbitrary: p) (auto simp: chain_head_Cons)

lemma linked_snoc:
  "linked prev digest material p (es @ [e]) \<longleftrightarrow>
     linked prev digest material p es \<and> prev e = chain_head digest p es \<and> digest e = sha256_hex (material e)"
  by (simp add: linked_append)

text \<open>Two rows, one of each log, that collide under SHA-256.\<close>

definition collision :: "('e \<Rightarrow> string) \<Rightarrow> 'e list \<Rightarrow> 'e list \<Rightarrow> bool" where
  "collision material es fs =
     list_ex (\<lambda>e. list_ex (\<lambda>f. material e \<noteq> material f \<and> sha256_hex (material e) = sha256_hex (material f)) fs) es"

lemma collision_mono:
  "collision material es fs \<Longrightarrow> collision material (es @ es') (fs @ fs')"
  by (auto simp: collision_def list_ex_iff)

text \<open>The values a previous-digest column can hold: empty, or the text of a digest.\<close>

definition hex_chars :: "char list" where
  "hex_chars = ''0123456789abcdef''"

definition digest_like :: "string \<Rightarrow> bool" where
  "digest_like s = (s = [] \<or> (length s = 64 \<and> set s \<subseteq> set hex_chars))"

lemma hex_digit_chars: "n < 16 \<Longrightarrow> hex_digit n \<in> set hex_chars"
proof -
  assume "n < 16"
  then have "n \<in> set [0..<16]" by simp
  moreover have "list_all (\<lambda>n. hex_digit n \<in> set hex_chars) [0..<16]" by code_simp
  ultimately show ?thesis by (simp only: list_all_iff)
qed

lemma digest_like_sha256_hex [simp]: "digest_like (sha256_hex s)"
proof -
  have "set (hex_word w) \<subseteq> set hex_chars" for w
    by (auto simp: hex_word_def intro: hex_digit_chars)
  then have "set (sha256_hex s) \<subseteq> set hex_chars"
    by (auto simp: sha256_hex_def Let_def)
  then show ?thesis by (simp add: digest_like_def)
qed

lemma digest_like_Nil [simp]: "digest_like []"
  by (simp add: digest_like_def)

lemma digest_like_nul: "digest_like s \<Longrightarrow> CHR 0x00 \<notin> set s"
  by (auto simp: digest_like_def hex_chars_def)

datatype chain_error =
    SequenceGap int int
  | PreviousMismatch int
  | EventDigestMismatch int

locale hash_chain =
  fixes prev digest material :: "'e \<Rightarrow> string"
    and valid :: "'e list \<Rightarrow> bool"
  assumes valid_linked: "valid es \<Longrightarrow> linked prev digest material [] es"
    and valid_prefix: "valid (es @ fs) \<Longrightarrow> valid es"
    and material_prev: "digest_like (prev e) \<Longrightarrow> digest_like (prev f) \<Longrightarrow> material e = material f \<Longrightarrow> prev e = prev f"
begin

lemma linked_same_head:
  "linked prev digest material [] es \<Longrightarrow> linked prev digest material [] fs \<Longrightarrow>
     chain_head digest [] es = chain_head digest [] fs \<Longrightarrow>
     map material es = map material fs \<or> collision material es fs"
proof (induction es arbitrary: fs rule: rev_induct)
  case Nil
  then show ?case
    by (cases fs rule: rev_cases) (auto simp: linked_snoc)
next
  case (snoc e es)
  show ?case
  proof (cases fs rule: rev_cases)
    case Nil
    with snoc.prems show ?thesis by (auto simp: linked_snoc)
  next
    case (snoc fs' f)
    note fs = \<open>fs = fs' @ [f]\<close>
    have chain: "linked prev digest material [] es" "prev e = chain_head digest [] es"
        "linked prev digest material [] fs'" "prev f = chain_head digest [] fs'"
      and same: "sha256_hex (material e) = sha256_hex (material f)"
      using snoc.prems fs by (auto simp: linked_snoc)
    have nul: "digest_like (chain_head digest [] gs)" if "linked prev digest material [] gs" for gs
      using that by (cases gs rule: rev_cases) (auto simp: linked_snoc)
    show ?thesis
    proof (cases "material e = material f")
      case True
      with material_prev chain nul have "chain_head digest [] es = chain_head digest [] fs'" by metis
      with snoc.IH chain True fs show ?thesis by (auto intro: collision_mono)
    next
      case False
      with same fs show ?thesis by (auto simp: collision_def list_ex_iff)
    qed
  qed
qed

lemma tamper_evident:
  "valid es \<Longrightarrow> valid fs \<Longrightarrow> chain_head digest [] es = chain_head digest [] fs \<Longrightarrow>
     map material es = map material fs \<or> collision material es fs"
  by (rule linked_same_head [OF valid_linked valid_linked])

lemma truncation_unnoticed: "valid (es @ fs) \<Longrightarrow> valid es"
  by (rule valid_prefix)

end

subsection \<open>Logs with a running sequence number\<close>

text \<open>
  The verification loop three of the logs share: the sequence numbers count from one, every row names
  the digest before it, and its stored digest is the one recomputed from its columns.
\<close>

fun verify_rows ::
  "('e \<Rightarrow> int) \<Rightarrow> ('e \<Rightarrow> string) \<Rightarrow> ('e \<Rightarrow> string) \<Rightarrow> ('e \<Rightarrow> string) \<Rightarrow> int \<Rightarrow> string \<Rightarrow> 'e list
     \<Rightarrow> string \<times> chain_error option" where
  "verify_rows seq prev digest recomputed expected previous [] = (previous, None)"
| "verify_rows seq prev digest recomputed expected previous (e # es) =
     (if seq e \<noteq> expected then (previous, Some (SequenceGap expected (seq e)))
      else if prev e \<noteq> previous then (previous, Some (PreviousMismatch (seq e)))
      else if digest e \<noteq> recomputed e then (previous, Some (EventDigestMismatch (seq e)))
      else verify_rows seq prev digest recomputed (expected + 1) (recomputed e) es)"

definition rows_ok :: "('e \<Rightarrow> int) \<Rightarrow> ('e \<Rightarrow> string) \<Rightarrow> ('e \<Rightarrow> string) \<Rightarrow> ('e \<Rightarrow> string) \<Rightarrow> 'e list \<Rightarrow> bool" where
  "rows_ok seq prev digest recomputed es = (snd (verify_rows seq prev digest recomputed 1 [] es) = None)"

lemma verify_rows_None:
  "snd (verify_rows seq prev digest (\<lambda>e. sha256_hex (material e)) n p es) = None \<longleftrightarrow>
     linked prev digest material p es \<and> map seq es = map (\<lambda>i. n + int i) [0..<length es]"
proof (induction es arbitrary: n p)
  case (Cons e es)
  have "map (\<lambda>i. n + int i) [0..<length (e # es)] = n # map (\<lambda>i. (n + 1) + int i) [0..<length es]"
    by (simp add: upt_conv_Cons map_Suc_upt [symmetric] comp_def del: upt_Suc)
  with Cons.IH [of "n + 1" "digest e"] show ?case by auto
qed simp

lemma rows_ok_iff:
  "rows_ok seq prev digest (\<lambda>e. sha256_hex (material e)) es \<longleftrightarrow>
     linked prev digest material [] es \<and> map seq es = map (\<lambda>i. 1 + int i) [0..<length es]"
  by (simp add: rows_ok_def verify_rows_None)

locale sequenced_chain =
  fixes seq :: "'e \<Rightarrow> int"
    and prev digest material :: "'e \<Rightarrow> string"
  assumes material_previous: "digest_like (prev e) \<Longrightarrow> digest_like (prev f) \<Longrightarrow> material e = material f \<Longrightarrow> prev e = prev f"
begin

definition ok :: "'e list \<Rightarrow> bool" where
  "ok es = rows_ok seq prev digest (\<lambda>e. sha256_hex (material e)) es"

lemma ok_append: "ok (es @ fs) \<Longrightarrow> ok es"
  using upt_add_eq_append [of 0 "length es" "length fs"]
  by (auto simp: ok_def rows_ok_iff linked_append append_eq_append_conv)

lemma ok_Nil: "ok []"
  by (simp add: ok_def rows_ok_def)

lemma ok_snoc:
  "ok es \<Longrightarrow> seq e = int (length es) + 1 \<Longrightarrow> prev e = chain_head digest [] es \<Longrightarrow> digest e = sha256_hex (material e) \<Longrightarrow> ok (es @ [e])"
  by (auto simp: ok_def rows_ok_iff linked_snoc)

lemma ok_last_digest: "ok (es @ [e]) \<Longrightarrow> digest e = sha256_hex (material e)"
  by (simp add: ok_def rows_ok_iff linked_snoc)

lemma ok_length: "ok es \<Longrightarrow> map seq es = map (\<lambda>i. 1 + int i) [0..<length es]"
  by (simp add: ok_def rows_ok_iff)

end

sublocale sequenced_chain \<subseteq> hash_chain prev digest material ok
proof
  show "ok es \<Longrightarrow> linked prev digest material [] es" for es by (simp add: ok_def rows_ok_iff)
qed (auto intro: ok_append material_previous)

subsection \<open>Rows rendered as JSON documents\<close>

text \<open>
  Two of the logs hash a JSON document whose last fields are the creation time and, after the
  first row, the previous digest.  The closing characters of the rendering give the previous
  digest back, whatever the other fields hold.
\<close>

lemma escape_plain: "\<forall>c \<in> set s. escape_ascii c = [c] \<and> of_char c < (128::nat) \<Longrightarrow> escape s = s"
  by (induction s) (auto simp: escape_ascii_Cons)

lemma hex_plain: "list_all (\<lambda>c. escape_ascii c = [c] \<and> of_char c < (128::nat)) hex_chars"
  by code_simp

lemma escape_digest: "digest_like s \<Longrightarrow> escape s = s"
proof (rule escape_plain)
  assume "digest_like s"
  then have "set s \<subseteq> set hex_chars" by (auto simp: digest_like_def)
  with hex_plain show "\<forall>c \<in> set s. escape_ascii c = [c] \<and> of_char c < (128::nat)"
    unfolding list_all_iff by blast
qed

lemma Z_not_hex: "CHR ''Z'' \<notin> set hex_chars"
  by code_simp

lemma ts_Z: "\<exists>a. ascii a \<and> ts t = a @ ''Z''"
proof -
  have digit0: "ascii ''0''" "ascii ''.''" by code_simp+
  have pad: "ascii (pad w i)" for w i
  proof -
    have "ascii (replicate n CHR ''0'')" for n by (simp add: ascii_def list_all_iff)
    then show ?thesis by (simp add: pad_def Let_def ascii_show_int)
  qed
  have strip: "ascii (strip_zeros s)" if "ascii s" for s
    using that set_dropWhileD by (fastforce simp: strip_zeros_def ascii_def list_all_iff)
  have "ascii (CHR ''.'' # strip_zeros (pad 9 n))" for n
    using strip [OF pad] digit0 by (simp add: ascii_def)
  moreover have "ascii ''-''" "ascii ''T''" "ascii '':''" "ascii ''''" by code_simp+
  ultimately have frac: "ascii (fraction n)" for n by (simp add: fraction_def)
  obtain y m d where c: "civil (t div second div 86400) = (y, m, d)" by (metis prod_cases3)
  define a where "a = pad 4 y @ ''-'' @ pad 2 m @ ''-'' @ pad 2 d @ ''T'' @
     pad 2 (t div second mod 86400 div 3600) @ '':'' @ pad 2 (t div second mod 86400 mod 3600 div 60) @ '':'' @ pad 2 (t div second mod 86400 mod 60) @
           fraction (t mod second)"
  have "ts t = a @ ''Z''" by (simp add: ts_def Let_def c a_def)
  moreover have "ascii a"
    unfolding a_def ascii_append using pad frac \<open>ascii ''-''\<close> \<open>ascii ''T''\<close> \<open>ascii '':''\<close> by blast
  ultimately show ?thesis by blast
qed

text \<open>A document that ends with a time and then perhaps the digest of the row before.\<close>

definition timed_doc :: "(string \<times> json) list \<Rightarrow> gotime \<Rightarrow> string \<Rightarrow> json" where
  "timed_doc kvs t prev = JObj (kvs @ [(''created_at'', JStr (ts t))] @ opt_field ''previous_digest'' prev)"

lemma timed_doc_end:
  "prev = [] \<Longrightarrow> \<exists>pre. marshal (timed_doc kvs t prev) = pre @ [CHR ''Z'', CHR 0x22, CHR ''}'']"
  "prev \<noteq> [] \<Longrightarrow> digest_like prev \<Longrightarrow>
     \<exists>pre. marshal (timed_doc kvs t prev) = pre @ prev @ [CHR 0x22, CHR ''}'']"
proof -
  assume "prev = []"
  obtain a where a: "ascii a" "ts t = a @ ''Z''" using ts_Z by blast
  have "escape ''Z'' = ''Z''" by code_simp
  then have "escape (ts t) = escape a @ ''Z''" using a by (simp add: escape_append)
  moreover obtain pre where "marshal (timed_doc kvs t prev) = pre @ escape (ts t) @ [CHR 0x22, CHR ''}'']"
    using marshal_snoc [of kvs "''created_at''" "ts t"] \<open>prev = []\<close> by (auto simp: timed_doc_def opt_field_def)
  ultimately have "marshal (timed_doc kvs t prev) = (pre @ escape a) @ [CHR ''Z'', CHR 0x22, CHR ''}'']" by simp
  then show "\<exists>pre. marshal (timed_doc kvs t prev) = pre @ [CHR ''Z'', CHR 0x22, CHR ''}'']" by blast
next
  assume "prev \<noteq> []" "digest_like prev"
  then show "\<exists>pre. marshal (timed_doc kvs t prev) = pre @ prev @ [CHR 0x22, CHR ''}'']"
    using marshal_snoc [of "kvs @ [(''created_at'', JStr (ts t))]" "''previous_digest''" prev]
    by (auto simp: timed_doc_def opt_field_def escape_digest)
qed

lemma timed_doc_prev:
  assumes "digest_like p" "digest_like q" "marshal (timed_doc kvs t p) = marshal (timed_doc kvs' t' q)"
  shows "p = q"
proof -
  have last: "last p \<noteq> CHR ''Z''" if "digest_like p" "p \<noteq> []" for p
    using that Z_not_hex last_in_set [of p] unfolding digest_like_def by (metis subsetD)
  have mixed: False
    if h: "digest_like p" "p \<noteq> []" "marshal (timed_doc kvs t p) = marshal (timed_doc kvs' t' [])" for p kvs kvs' t t'
  proof -
    obtain u where "marshal (timed_doc kvs t p) = u @ p @ [CHR 0x22, CHR ''}'']"
      using timed_doc_end(2) [OF h(2,1)] by blast
    moreover obtain v where "marshal (timed_doc kvs' t' []) = v @ [CHR ''Z'', CHR 0x22, CHR ''}'']"
      using timed_doc_end(1) [of "[]"] by blast
    ultimately have "u @ p = v @ ''Z''" using h(3) by simp
    with last [OF h(1,2)] h(2) show False by (metis last_appendR last_snoc)
  qed
  consider "p = []" "q = []" | "p \<noteq> []" "q = []" | "p = []" "q \<noteq> []" | "p \<noteq> []" "q \<noteq> []" by blast
  then show ?thesis
  proof cases
    case 4
    obtain u where "marshal (timed_doc kvs t p) = u @ p @ [CHR 0x22, CHR ''}'']"
      using timed_doc_end(2) [OF 4(1) assms(1)] by blast
    moreover obtain v where "marshal (timed_doc kvs' t' q) = v @ q @ [CHR 0x22, CHR ''}'']"
      using timed_doc_end(2) [OF 4(2) assms(2)] by blast
    ultimately have "u @ p @ [CHR 0x22, CHR ''}''] = v @ q @ [CHR 0x22, CHR ''}'']"
      using assms(3) by simp
    moreover have "length p = length q" using 4 assms by (auto simp: digest_like_def)
    ultimately show ?thesis by simp
  next
    case 2
    with mixed [OF assms(1)] assms(3) show ?thesis by blast
  next
    case 3
    with mixed [OF assms(2)] assms(3) show ?thesis by metis
  qed simp
qed

end
