(* ===== verification/LedgerTenant.thy ===== *)
theory LedgerTenant
  imports LedgerRepository HashChain
begin

text \<open>
  Ownership and sharing of transactions (\<open>internal/ledger/tenant.go\<close>): the access check, grants
  and revocations, the listings, and the hash chain of access events with its verifier.  The chain
  is an instance of the hash-chain interface: its appender keeps it verified and a verified chain
  is determined by its head up to SHA-256 collisions.
\<close>

subsection \<open>Operations\<close>

abbreviation AccessRead :: string where "AccessRead \<equiv> ''read''"
abbreviation AccessOperate :: string where "AccessOperate \<equiv> ''operate''"
abbreviation AccessAdmin :: string where "AccessAdmin \<equiv> ''admin''"

definition validGrantPermission :: "string \<Rightarrow> bool" where
  "validGrantPermission p = (p = AccessRead \<or> p = AccessOperate)"

definition grant_key :: "grant \<Rightarrow> string \<times> string" where
  "grant_key g = (gr_tx g, gr_principal g)"

definition RecordTransactionOwner_tx :: "env \<Rightarrow> string \<Rightarrow> string \<Rightarrow> string \<Rightarrow> ledger \<Rightarrow> ledger_error + ledger" where
  "RecordTransactionOwner_tx en tid who requestID l =
     try_bind (fetch (get_tx tid l) ErrNotFound) (\<lambda>t.
     try_bind (require (tx_owner t = who) OwnerMismatch) (\<lambda>_.
     appendTransactionAccessEvent (NewID en 0 ''access'') tid who who ''created'' AccessAdmin requestID (en_now en) l))"

definition RecordTransactionOwner :: "env \<Rightarrow> string \<Rightarrow> string \<Rightarrow> string \<Rightarrow> ledger \<Rightarrow> (ledger_error + unit) \<times> ledger" where
  "RecordTransactionOwner en tid who requestID l =
     (if who = [] then (Inl MissingField, l)
      else WithTx en (RecordTransactionOwner_tx en tid who requestID) l)"

definition CheckTransactionAccess :: "string \<Rightarrow> string \<Rightarrow> string \<Rightarrow> ledger \<Rightarrow> ledger_error + bool" where
  "CheckTransactionAccess tid who required l =
     try_bind (fetch (get_tx tid l) ErrNotFound) (\<lambda>t.
     Inr (if tx_owner t = who then True
          else if required = AccessAdmin then False
          else case find_row grant_key (tid, who) (grants l) of
                 None \<Rightarrow> False
               | Some g \<Rightarrow>
                   if required = AccessRead then gr_permission g = AccessRead \<or> gr_permission g = AccessOperate
                   else gr_permission g = AccessOperate))"

text \<open>\<open>ORDER BY updated_at DESC, transaction_id\<close>, by stable sorting on one key after the other.\<close>

definition by_updated :: "transaction list \<Rightarrow> transaction list" where
  "by_updated ts' = rev (sort_key (\<lambda>t. ts (tx_updated t)) (rev (sort_key tx_id ts')))"

definition ListTransactionsForPrincipal :: "string \<Rightarrow> bool \<Rightarrow> ledger \<Rightarrow> transaction list" where
  "ListTransactionsForPrincipal who everything l =
     (if everything then by_updated (transactions l)
      else by_updated (filter
        (\<lambda>t. tx_owner t = who \<or> has_key grant_key (tx_id t, who) (grants l)) (transactions l)))"

definition ListTransactionGrants :: "string \<Rightarrow> ledger \<Rightarrow> grant list" where
  "ListTransactionGrants tid l = sort_key gr_principal (filter (\<lambda>g. gr_tx g = tid) (grants l))"

definition GrantTransactionAccess_tx ::
  "env \<Rightarrow> string \<Rightarrow> string \<Rightarrow> string \<Rightarrow> string \<Rightarrow> bool \<Rightarrow> string \<Rightarrow> ledger \<Rightarrow> ledger_error + ledger" where
  "GrantTransactionAccess_tx en tid actor subject permission adminAll requestID l =
     try_bind (fetch (get_tx tid l) ErrNotFound) (\<lambda>t.
     try_bind (require (actor = tx_owner t \<or> adminAll) NotPermitted) (\<lambda>_.
     try_bind (require (subject \<noteq> tx_owner t) SelfGrant) (\<lambda>_.
     appendTransactionAccessEvent (NewID en 0 ''access'') tid actor subject ''granted'' permission requestID (en_now en)
       (l\<lparr>grants := (if has_key grant_key (tid, subject) (grants l)
           then modify_row grant_key (tid, subject)
             (\<lambda>g. g\<lparr>gr_permission := permission, gr_by := actor, gr_updated := en_now en\<rparr>) (grants l)
           else grants l @ [\<lparr>gr_tx = tid, gr_principal = subject, gr_permission = permission, gr_by = actor,
             gr_created = en_now en, gr_updated = en_now en\<rparr>])\<rparr>))))"

definition GrantTransactionAccess ::
  "env \<Rightarrow> string \<Rightarrow> string \<Rightarrow> string \<Rightarrow> string \<Rightarrow> bool \<Rightarrow> string \<Rightarrow> ledger \<Rightarrow> (ledger_error + unit) \<times> ledger" where
  "GrantTransactionAccess en tid actor subject permission adminAll requestID l =
     (if actor = [] \<or> subject = [] \<or> \<not> validGrantPermission permission then (Inl MissingField, l)
      else if actor = subject then (Inl SelfGrant, l)
      else WithTx en (GrantTransactionAccess_tx en tid actor subject permission adminAll requestID) l)"

definition RevokeTransactionAccess_tx ::
  "env \<Rightarrow> string \<Rightarrow> string \<Rightarrow> string \<Rightarrow> bool \<Rightarrow> string \<Rightarrow> ledger \<Rightarrow> ledger_error + ledger" where
  "RevokeTransactionAccess_tx en tid actor subject adminAll requestID l =
     try_bind (fetch (get_tx tid l) ErrNotFound) (\<lambda>t.
     try_bind (require (actor = tx_owner t \<or> adminAll) NotPermitted) (\<lambda>_.
     try_bind (require (changes (\<lambda>g. grant_key g = (tid, subject)) (grants l) = 1) ErrNotFound) (\<lambda>_.
     appendTransactionAccessEvent (NewID en 0 ''access'') tid actor subject ''revoked'' [] requestID (en_now en)
       (l\<lparr>grants := filter (\<lambda>g. grant_key g \<noteq> (tid, subject)) (grants l)\<rparr>))))"

definition RevokeTransactionAccess ::
  "env \<Rightarrow> string \<Rightarrow> string \<Rightarrow> string \<Rightarrow> bool \<Rightarrow> string \<Rightarrow> ledger \<Rightarrow> (ledger_error + unit) \<times> ledger" where
  "RevokeTransactionAccess en tid actor subject adminAll requestID l =
     (if actor = [] \<or> subject = [] then (Inl MissingField, l)
      else WithTx en (RevokeTransactionAccess_tx en tid actor subject adminAll requestID) l)"

fun verify_access :: "int \<Rightarrow> string \<Rightarrow> access_event list \<Rightarrow> string \<times> chain_error option" where
  "verify_access expected previous [] = (previous, None)"
| "verify_access expected previous (e # es) =
     (if ae_seq e \<noteq> expected then (previous, Some (SequenceGap expected (ae_seq e)))
      else if ae_prev e \<noteq> previous then (previous, Some (PreviousMismatch (ae_seq e)))
      else if accessDigest e \<noteq> ae_digest e then (previous, Some (EventDigestMismatch (ae_seq e)))
      else verify_access (expected + 1) (accessDigest e) es)"

definition VerifyTransactionAccessChain :: "ledger \<Rightarrow> string \<times> chain_error option" where
  "VerifyTransactionAccessChain l = verify_access 1 [] (access_events l)"

definition TransactionAccessEvents :: "int \<Rightarrow> ledger \<Rightarrow> access_event list" where
  "TransactionAccessEvents limit l =
     (let n = (if limit \<le> 0 \<or> limit > 1000 then 100 else limit)
      in rev (take (nat n) (rev (access_events l))))"

subsection \<open>The access chain is a hash chain\<close>

definition access_ok :: "access_event list \<Rightarrow> bool" where
  "access_ok es = (snd (verify_access 1 [] es) = None)"

abbreviation access_text :: "access_event \<Rightarrow> string" where
  "access_text e \<equiv> marshal (access_material e)"

lemma verify_access_None:
  "snd (verify_access n p es) = None \<longleftrightarrow>
     linked ae_prev ae_digest access_text p es \<and> map ae_seq es = map (\<lambda>i. n + int i) [0..<length es]"
proof (induction es arbitrary: n p)
  case (Cons e es)
  have "map (\<lambda>i. n + int i) [0..<length (e # es)] = n # map (\<lambda>i. (n + 1) + int i) [0..<length es]"
    by (simp add: upt_conv_Cons map_Suc_upt [symmetric] comp_def del: upt_Suc)
  with Cons.IH [of "n + 1" "ae_digest e"] show ?case
    by (auto simp: accessDigest_def)
qed simp

lemma verify_access_head:
  "snd (verify_access n p es) = None \<Longrightarrow> fst (verify_access n p es) = chain_head ae_digest p es"
  by (induction es arbitrary: n p) (auto simp: chain_head_Cons split: if_splits)

lemma access_ok_iff:
  "access_ok es \<longleftrightarrow> linked ae_prev ae_digest access_text [] es \<and> map ae_seq es = map (\<lambda>i. 1 + int i) [0..<length es]"
  by (simp add: access_ok_def verify_access_None)

lemma access_ok_append: "access_ok (es @ fs) \<Longrightarrow> access_ok es"
  using upt_add_eq_append [of 0 "length es" "length fs"]
  by (auto simp: access_ok_iff linked_append append_eq_append_conv)

lemma access_text_timed:
  "\<exists>kvs. access_material e = timed_doc kvs (ae_created e) (ae_prev e)"
  by (auto simp: access_material_def timed_doc_def json_time_def)

interpretation access_chain: hash_chain ae_prev ae_digest access_text access_ok
proof
  show "access_ok es \<Longrightarrow> linked ae_prev ae_digest access_text [] es" for es
    by (simp add: access_ok_iff)
  show "access_ok (es @ fs) \<Longrightarrow> access_ok es" for es fs
    by (rule access_ok_append)
  show "ae_prev e = ae_prev f" if "digest_like (ae_prev e)" "digest_like (ae_prev f)" "access_text e = access_text f" for e f
  proof -
    obtain ke kf where "access_material e = timed_doc ke (ae_created e) (ae_prev e)"
        "access_material f = timed_doc kf (ae_created f) (ae_prev f)"
      using access_text_timed by meson
    with timed_doc_prev [OF that(1,2)] that(3) show ?thesis by metis
  qed
qed

lemma next_seq_count:
  "map seq es = map (\<lambda>i. 1 + int i) [0..<length es] \<Longrightarrow> next_seq seq es = int (length es) + 1"
proof (induction es rule: rev_induct)
  case (snoc e es)
  then have "map seq es = map (\<lambda>i. 1 + int i) [0..<length es]" "seq e = 1 + int (length es)" by auto
  with snoc.IH show ?case by (simp add: next_seq_def)
qed (simp add: next_seq_def)

lemma appendTransactionAccessEvent_Inr [body_simps]:
  "appendTransactionAccessEvent eid tid actor subject action permission rid now l = Inr l' \<Longrightarrow>
     \<exists>e. l' = l\<lparr>access_events := access_events l @ [e]\<rparr> \<and> get_tx tid l \<noteq> None
       \<and> ae_seq e = next_seq ae_seq (access_events l) \<and> ae_prev e = last_access_digest (access_events l)
       \<and> ae_digest e = accessDigest e \<and> ae_tx e = tid \<and> ae_actor e = actor \<and> ae_subject e = subject
       \<and> ae_action e = action \<and> ae_permission e = permission \<and> ae_request e = rid"
  by (auto simp: appendTransactionAccessEvent_def try_bind_Inr Let_def accessDigest_def access_material_def)

lemma append_access_ok:
  assumes "appendTransactionAccessEvent eid tid actor subject action permission rid now l = Inr l'"
    and "access_ok (access_events l)"
  shows "access_ok (access_events l')"
proof -
  obtain e where e: "l' = l\<lparr>access_events := access_events l @ [e]\<rparr>"
      "ae_seq e = next_seq ae_seq (access_events l)" "ae_prev e = last_access_digest (access_events l)"
      "ae_digest e = accessDigest e"
    using appendTransactionAccessEvent_Inr [OF assms(1)] by blast
  with assms(2) next_seq_count [of ae_seq "access_events l"] show ?thesis
    by (auto simp: access_ok_iff linked_snoc accessDigest_def last_access_digest_def chain_head_def)
qed

subsection \<open>Grants are a keyed table\<close>

interpretation grant_table: keyed_table grant_key "find_row grant_key" "modify_row grant_key" "unique_key grant_key"
  by (rule keyed_table_rows)

text \<open>What a stored grant (or none) lets a principal who is not the owner do.\<close>

definition grant_allows :: "grant option \<Rightarrow> string \<Rightarrow> bool" where
  "grant_allows g required = (case g of None \<Rightarrow> False
     | Some g \<Rightarrow> required \<noteq> AccessAdmin \<and>
         (gr_permission g = AccessOperate \<or> (required = AccessRead \<and> gr_permission g = AccessRead)))"

lemma CheckTransactionAccess_iff:
  "CheckTransactionAccess tid who required l =
     (case get_tx tid l of None \<Rightarrow> Inl ErrNotFound
      | Some t \<Rightarrow> Inr (tx_owner t = who \<or> grant_allows (find_row grant_key (tid, who) (grants l)) required))"
  by (auto simp: CheckTransactionAccess_def grant_allows_def fetch_def split: option.splits)

lemma find_row_delete:
  "find_row key k (filter (\<lambda>r. key r \<noteq> k') rows) = (if k = k' then None else find_row key k rows)"
  by (induction rows) (auto simp: table_simps)

lemma append_access_frame:
  "appendTransactionAccessEvent eid tid actor subject action permission rid now l = Inr l' \<Longrightarrow>
     grants l' = grants l \<and> transactions l' = transactions l"
  by (auto dest!: appendTransactionAccessEvent_Inr)

lemma grant_body:
  assumes "GrantTransactionAccess_tx en tid actor subject permission adminAll rid l = Inr l'"
  shows "(\<exists>t. get_tx tid l = Some t \<and> subject \<noteq> tx_owner t \<and> (actor = tx_owner t \<or> adminAll))
     \<and> transactions l' = transactions l
     \<and> (\<forall>k. find_row grant_key k (grants l') = (if k = (tid, subject)
           then Some (case find_row grant_key k (grants l) of
                 None \<Rightarrow> \<lparr>gr_tx = tid, gr_principal = subject, gr_permission = permission, gr_by = actor,
                           gr_created = en_now en, gr_updated = en_now en\<rparr>
               | Some g \<Rightarrow> g\<lparr>gr_permission := permission, gr_by := actor, gr_updated := en_now en\<rparr>)
           else find_row grant_key k (grants l)))
     \<and> (unique_key grant_key (grants l) \<longrightarrow> unique_key grant_key (grants l'))"
proof -
  define upd :: "grant \<Rightarrow> grant" where "upd = (\<lambda>g. g\<lparr>gr_permission := permission, gr_by := actor, gr_updated := en_now en\<rparr>)"
  define fresh where "fresh = \<lparr>gr_tx = tid, gr_principal = subject, gr_permission = permission, gr_by = actor,
             gr_created = en_now en, gr_updated = en_now en\<rparr>"
  have keys: "grant_key (upd g) = grant_key g" "grant_key fresh = (tid, subject)" for g
    by (simp_all add: upd_def fresh_def grant_key_def)
  from assms obtain t where t: "get_tx tid l = Some t" "subject \<noteq> tx_owner t" "actor = tx_owner t \<or> adminAll"
    and l': "grants l' = (if has_key grant_key (tid, subject) (grants l)
        then modify_row grant_key (tid, subject) upd (grants l) else grants l @ [fresh])" "transactions l' = transactions l"
    unfolding GrantTransactionAccess_tx_def upd_def [symmetric] fresh_def [symmetric]
    by (auto simp: try_bind_Inr dest!: append_access_frame)
  show ?thesis
  proof (cases "has_key grant_key (tid, subject) (grants l)")
    case True
    then show ?thesis using t l' keys
      by (auto simp: has_key_find find_row_modify_row grant_table.wf_modify) (simp_all add: upd_def)
  next
    case False
    then show ?thesis using t l' keys
      by (auto simp: has_key_find grant_table.lookup_insert unique_key_append fresh_def split: option.splits)
  qed
qed

lemma revoke_body:
  assumes "RevokeTransactionAccess_tx en tid actor subject adminAll rid l = Inr l'"
  shows "(\<exists>t. get_tx tid l = Some t \<and> (actor = tx_owner t \<or> adminAll)) \<and> transactions l' = transactions l
     \<and> grants l' = filter (\<lambda>g. grant_key g \<noteq> (tid, subject)) (grants l)"
  using assms by (auto simp: RevokeTransactionAccess_tx_def try_bind_Inr dest!: append_access_frame)

end
