(* ===== verification/LedgerEvents.thy ===== *)
theory LedgerEvents
  imports LedgerDb HashChain
begin

text \<open>
  The per-transaction event chains of \<open>internal/ledger/event_chain.go\<close>: the verifier with its
  findings and the backfill that completes ledgers written before the chain existed.  The rows of
  all transactions are interleaved in one table; the verifier walks them with a map from
  transactions to the hash expected next.  An unset \<open>event_hash\<close> (SQL NULL) is the empty string.
\<close>

subsection \<open>Verification\<close>

record event_chain_report =
  er_transactions :: nat
  er_events :: nat
  er_valid :: bool
  er_findings :: "string list"

definition expected_hash :: "string \<Rightarrow> event_row \<Rightarrow> string" where
  "expected_hash previous e =
     computeEventHash previous (ev_id e) (ev_tx e) (ev_effect e) (ev_type e) (ev_payload_digest e) (ev_created e) (ev_fence e)"

definition bad_previous :: "event_row \<Rightarrow> string" where
  "bad_previous e = ''transaction '' @ ev_tx e @ '' sequence '' @ show_int (ev_seq e) @ '' has invalid previous hash''"

definition bad_hash :: "event_row \<Rightarrow> string" where
  "bad_hash e = ''transaction '' @ ev_tx e @ '' sequence '' @ show_int (ev_seq e) @ '' has invalid event hash''"

fun chain_findings :: "(string \<Rightarrow> string) \<Rightarrow> event_row list \<Rightarrow> string list" where
  "chain_findings previous [] = []"
| "chain_findings previous (e # es) =
     (let expectedPrevious = previous (ev_tx e); expected = expected_hash expectedPrevious e
      in (if ev_prev e \<noteq> expectedPrevious then [bad_previous e] else [])
         @ (if ev_hash e \<noteq> expected then [bad_hash e] else [])
         @ chain_findings (previous(ev_tx e := expected)) es)"

definition ordered_events :: "ledger \<Rightarrow> event_row list" where
  "ordered_events l = sort_key ev_tx (events l)"

definition VerifyEventChains :: "ledger \<Rightarrow> event_chain_report \<times> bool" where
  "VerifyEventChains l =
     (let rows = ordered_events l; findings = chain_findings (\<lambda>_. []) rows
      in (\<lparr>er_transactions = length (remdups (map ev_tx rows)), er_events = length rows,
           er_valid = (findings = []), er_findings = findings\<rparr>, findings = []))"

subsection \<open>Backfill\<close>

fun backfill_loop :: "(string \<Rightarrow> string) \<Rightarrow> event_row list \<Rightarrow> event_row list \<Rightarrow> ledger_error + event_row list" where
  "backfill_loop previous [] table = Inr table"
| "backfill_loop previous (e # es) table =
     (let expectedPrevious = previous (ev_tx e); expected = expected_hash expectedPrevious e
      in if ev_hash e = [] \<and> ev_prev e = []
         then (if has_key ev_hash expected table then Inl (SqlConstraint ''events.event_hash'')
               else backfill_loop (previous(ev_tx e := expected)) es
                 (update_where (\<lambda>r. ev_seq r = ev_seq e \<and> ev_hash r = [])
                   (\<lambda>r. r\<lparr>ev_prev := expectedPrevious, ev_hash := expected\<rparr>) table))
         else if ev_prev e \<noteq> expectedPrevious \<or> ev_hash e \<noteq> expected then Inl (ChainBroken (ev_seq e))
         else backfill_loop (previous(ev_tx e := expected)) es table)"

definition backfillEventChains :: "env \<Rightarrow> ledger \<Rightarrow> (ledger_error + unit) \<times> ledger" where
  "backfillEventChains en l =
     WithTx en (\<lambda>l. try_bind (backfill_loop (\<lambda>_. []) (ordered_events l) (events l)) (\<lambda>es. Inr (l\<lparr>events := es\<rparr>))) l"

subsection \<open>One transaction's events form a hash chain\<close>

definition event_text :: "event_row \<Rightarrow> string" where
  "event_text e = join [CHR 0x00]
     [''futurediff-event-chain-v1'', ev_prev e, ev_id e, ev_tx e, ev_effect e, ev_type e,
      ev_payload_digest e, ev_created e, show_int (ev_fence e)]"

definition event_ok :: "event_row list \<Rightarrow> bool" where
  "event_ok es = linked ev_prev ev_hash event_text [] es"

lemma expected_hash_text: "expected_hash (ev_prev e) e = sha256_hex (event_text e)"
  by (simp add: expected_hash_def computeEventHash_def event_text_def)

lemma expected_hash_not_Nil [simp]: "expected_hash p e \<noteq> []" "[] \<noteq> expected_hash p e"
  by (simp_all add: expected_hash_def computeEventHash_def)

lemma nul_field:
  assumes "CHR 0x00 \<notin> set p" "CHR 0x00 \<notin> set q" "p @ CHR 0x00 # r = q @ CHR 0x00 # r'"
  shows "p = q"
proof -
  have "takeWhile (\<lambda>c. c \<noteq> CHR 0x00) (p @ CHR 0x00 # r) = p" using assms(1)
    by (induction p) auto
  moreover have "takeWhile (\<lambda>c. c \<noteq> CHR 0x00) (q @ CHR 0x00 # r') = q" using assms(2)
    by (induction q) auto
  ultimately show ?thesis using assms(3) by simp
qed

interpretation event_chain: hash_chain ev_prev ev_hash event_text event_ok
proof
  show "event_ok es \<Longrightarrow> linked ev_prev ev_hash event_text [] es" for es
    by (simp add: event_ok_def)
  show "event_ok (es @ fs) \<Longrightarrow> event_ok es" for es fs
    by (simp add: event_ok_def linked_append)
  show "ev_prev e = ev_prev f"
    if "digest_like (ev_prev e)" "digest_like (ev_prev f)" "event_text e = event_text f" for e f
    using that(3) by (auto simp: event_text_def intro: nul_field [OF digest_like_nul digest_like_nul] that(1,2))
qed

lemma chain_findings_Nil:
  "chain_findings previous es = [] \<longleftrightarrow>
     (\<forall>tid. linked ev_prev ev_hash event_text (previous tid) (filter (\<lambda>e. ev_tx e = tid) es))"
proof (induction es arbitrary: previous)
  case (Cons e es)
  have "chain_findings previous (e # es) = [] \<longleftrightarrow>
      ev_prev e = previous (ev_tx e) \<and> ev_hash e = sha256_hex (event_text e)
      \<and> chain_findings (previous(ev_tx e := ev_hash e)) es = []"
    by (auto simp: Let_def expected_hash_text [symmetric])
  also have "\<dots> \<longleftrightarrow> (\<forall>tid. linked ev_prev ev_hash event_text (previous tid) (filter (\<lambda>x. ev_tx x = tid) (e # es)))"
    unfolding Cons.IH by (auto split: if_splits)
  finally show ?case .
qed simp

lemma tx_events_ordered: "filter (\<lambda>e. ev_tx e = tid) (ordered_events l) = tx_events tid l"
  using sort_key_stable [of ev_tx tid "events l"] by (simp add: ordered_events_def tx_events_def)

lemma VerifyEventChains_iff: "snd (VerifyEventChains l) \<longleftrightarrow> (\<forall>tid. event_ok (tx_events tid l))"
  by (simp add: VerifyEventChains_def Let_def chain_findings_Nil tx_events_ordered event_ok_def)

lemma chained_row_hash:
  "fence \<ge> 0 \<Longrightarrow> ev_hash (chained_row eid tid eff kind payload fence at rows)
     = sha256_hex (event_text (chained_row eid tid eff kind payload fence at rows))"
  by (auto simp: chained_row_def Let_def computeEventHash_def event_text_def)

lemma chained_row_prev:
  "ev_prev (chained_row eid tid eff kind payload fence at rows) = chain_head ev_hash [] (filter (\<lambda>e. ev_tx e = tid) rows)"
  by (simp add: chained_row_def Let_def last_hash_def chain_head_def)

lemma chained_row_tx [simp]: "ev_tx (chained_row eid tid eff kind payload fence at rows) = tid"
  by (simp add: chained_row_def Let_def)

lemma append_event_ok:
  assumes "appendChainedEvent eid tid eff kind payload fence at l = Inr l'" and "fence \<ge> 0"
    and "\<forall>tid. event_ok (tx_events tid l)"
  shows "\<forall>tid. event_ok (tx_events tid l')"
  using assms by (auto simp: body_simps tx_events_def event_ok_def linked_snoc chained_row_hash chained_row_prev)

subsection \<open>Backfill completes the chains\<close>

text \<open>The rows as backfill leaves them: blank rows get the hashes their place in the chain gives.\<close>

fun filled :: "(string \<Rightarrow> string) \<Rightarrow> event_row list \<Rightarrow> event_row list" where
  "filled previous [] = []"
| "filled previous (e # es) =
     (let expected = expected_hash (previous (ev_tx e)) e
      in (if ev_hash e = [] \<and> ev_prev e = [] then e\<lparr>ev_prev := previous (ev_tx e), ev_hash := expected\<rparr> else e)
         # filled (previous(ev_tx e := expected)) es)"

lemma filled_keys: "map ev_seq (filled previous es) = map ev_seq es" "map ev_tx (filled previous es) = map ev_tx es"
  by (induction es arbitrary: previous) (auto simp: Let_def)

lemma expected_hash_update [simp]:
  "expected_hash p (e\<lparr>ev_prev := q, ev_hash := h\<rparr>) = expected_hash p e"
  by (simp add: expected_hash_def)

lemma backfill_filled: "backfill_loop previous es table = Inr table' \<Longrightarrow> chain_findings previous (filled previous es) = []"
  by (induction es arbitrary: previous table) (auto simp: Let_def split: if_splits)

definition fill_row :: "(string \<Rightarrow> string) \<Rightarrow> event_row list \<Rightarrow> event_row \<Rightarrow> event_row" where
  "fill_row previous es r = (case find_row ev_seq (ev_seq r) (filled previous es) of None \<Rightarrow> r | Some f \<Rightarrow> f)"

lemma fill_row_simps:
  "fill_row previous [] r = r"
  "fill_row previous (e # es) r =
     (if ev_seq r = ev_seq e
      then (if ev_hash e = [] \<and> ev_prev e = []
            then e\<lparr>ev_prev := previous (ev_tx e), ev_hash := expected_hash (previous (ev_tx e)) e\<rparr> else e)
      else fill_row (previous(ev_tx e := expected_hash (previous (ev_tx e)) e)) es r)"
  by (auto simp: fill_row_def Let_def table_simps)

lemma fill_row_other: "ev_seq r \<notin> ev_seq ` set es \<Longrightarrow> fill_row previous es r = r"
proof -
  have *: "ev_seq ` set (filled previous es) = ev_seq ` set es"
    using filled_keys(1) by (metis list.set_map)
  assume "ev_seq r \<notin> ev_seq ` set es"
  then have "find_row ev_seq (ev_seq r) (filled previous es) = None"
    unfolding find_row_None using * by (metis imageI)
  then show ?thesis by (simp add: fill_row_def)
qed

lemma backfill_table:
  assumes "backfill_loop previous es table = Inr table'" and "distinct (map ev_seq es)"
    and "\<forall>r \<in> set table. \<forall>e \<in> set es. ev_seq r = ev_seq e \<longrightarrow> r = e"
  shows "table' = map (fill_row previous es) table"
  using assms
proof (induction es arbitrary: previous table)
  case Nil
  then show ?case by (simp add: fill_row_simps(1) [abs_def])
next
  case (Cons e es)
  define previous' where "previous' = previous(ev_tx e := expected_hash (previous (ev_tx e)) e)"
  define e' where "e' = e\<lparr>ev_prev := previous (ev_tx e), ev_hash := expected_hash (previous (ev_tx e)) e\<rparr>"
  define P :: "event_row \<Rightarrow> bool" where "P = (\<lambda>r. ev_seq r = ev_seq e \<and> ev_hash r = [])"
  have fresh: "ev_seq e \<notin> ev_seq ` set es" using Cons.prems(2) by simp
  show ?case
  proof (cases "ev_hash e = [] \<and> ev_prev e = []")
    case True
    define table1 where "table1 = update_where P (\<lambda>r. r\<lparr>ev_prev := previous (ev_tx e), ev_hash := expected_hash (previous (ev_tx e)) e\<rparr>) table"
    have loop: "backfill_loop previous' es table1 = Inr table'"
      using Cons.prems(1) True by (auto simp: Let_def table1_def P_def previous'_def split: if_splits)
    have row: "(if P r then r\<lparr>ev_prev := previous (ev_tx e), ev_hash := expected_hash (previous (ev_tx e)) e\<rparr> else r)
        = (if ev_seq r = ev_seq e then e' else r)" if "r \<in> set table" for r
      using that Cons.prems(3) True by (auto simp: P_def e'_def)
    have table1: "table1 = map (\<lambda>r. if ev_seq r = ev_seq e then e' else r) table"
      unfolding table1_def update_where_def using row by simp
    have "table' = map (fill_row previous' es) table1"
      using fresh Cons.prems(2,3) by (intro Cons.IH [OF loop]) (auto simp: table1 e'_def image_iff)
    also have "\<dots> = map (fill_row previous (e # es)) table"
      using fresh True by (auto simp: table1 fill_row_simps previous'_def e'_def fill_row_other)
    finally show ?thesis .
  next
    case False
    have loop: "backfill_loop previous' es table = Inr table'"
      using Cons.prems(1) False by (auto simp: Let_def previous'_def split: if_splits)
    have "table' = map (fill_row previous' es) table"
      using Cons.prems(2,3) by (intro Cons.IH [OF loop]) auto
    also have "\<dots> = map (fill_row previous (e # es)) table"
      using fresh False Cons.prems(3) by (auto simp: fill_row_simps previous'_def fill_row_other)
    finally show ?thesis .
  qed
qed

lemma fill_row_tx: "(\<And>e. e \<in> set es \<Longrightarrow> ev_seq r = ev_seq e \<Longrightarrow> r = e) \<Longrightarrow> ev_tx (fill_row previous es r) = ev_tx r"
  by (induction es arbitrary: previous) (auto simp: fill_row_simps)

lemma map_fill_row: "distinct (map ev_seq es) \<Longrightarrow> map (fill_row previous es) es = filled previous es"
proof (induction es arbitrary: previous)
  case (Cons e es)
  then have "ev_seq e \<notin> ev_seq ` set es" by simp
  then have "map (fill_row previous (e # es)) es = map (fill_row (previous(ev_tx e := expected_hash (previous (ev_tx e)) e)) es) es"
    by (intro map_cong refl) (auto simp: fill_row_simps image_iff)
  also have "\<dots> = filled (previous(ev_tx e := expected_hash (previous (ev_tx e)) e)) es"
    using Cons by simp
  finally have rest: "map (fill_row previous (e # es)) es = filled (previous(ev_tx e := expected_hash (previous (ev_tx e)) e)) es" .
  have "fill_row previous (e # es) e = hd (filled previous (e # es))"
    by (simp add: fill_row_simps Let_def)
  with rest show ?case by (simp only: list.map filled.simps Let_def list.sel)
qed simp

lemma sort_key_map_on:
  assumes "\<And>x. x \<in> set xs \<Longrightarrow> f (g x) = f x"
  shows "sort_key f (map g xs) = map g (sort_key f xs)"
proof -
  have ins: "insort_key f (g x) (map g ys) = map g (insort_key f x ys)"
    if "f (g x) = f x" "\<forall>y \<in> set ys. f (g y) = f y" for x ys
    using that by (induction ys) auto
  show ?thesis using assms
  proof (induction xs)
    case (Cons x xs)
    then have "\<forall>y \<in> set (sort_key f xs). f (g y) = f y" by simp
    with Cons show ?case by (simp add: ins)
  qed simp
qed

lemma backfill_verifies:
  assumes "backfill_loop (\<lambda>_. []) (ordered_events l) (events l) = Inr es" and "unique_key ev_seq (events l)"
  shows "snd (VerifyEventChains (l\<lparr>events := es\<rparr>))"
proof -
  have distinct: "distinct (map ev_seq (ordered_events l))"
    using assms(2) by (simp add: ordered_events_def unique_key_def distinct_map)
  have same: "r = e" if "r \<in> set (events l)" "e \<in> set (ordered_events l)" "ev_seq r = ev_seq e" for r e
    using that assms(2) by (auto simp: ordered_events_def unique_key_def distinct_map inj_on_def)
  have es: "es = map (fill_row (\<lambda>_. []) (ordered_events l)) (events l)"
    by (rule backfill_table [OF assms(1) distinct]) (use same in blast)
  have "sort_key ev_tx es = map (fill_row (\<lambda>_. []) (ordered_events l)) (ordered_events l)"
    unfolding es ordered_events_def [of l]
    by (rule sort_key_map_on) (use same in \<open>auto intro!: fill_row_tx simp: ordered_events_def\<close>)
  also have "\<dots> = filled (\<lambda>_. []) (ordered_events l)" by (rule map_fill_row [OF distinct])
  finally show ?thesis
    using backfill_filled [OF assms(1)] by (simp add: VerifyEventChains_def Let_def ordered_events_def)
qed

lemma backfill_verified:
  "chain_findings previous es = [] \<Longrightarrow> backfill_loop previous es table = Inr table"
proof (induction es arbitrary: previous)
  case (Cons e es)
  then have "ev_prev e = previous (ev_tx e)" "ev_hash e = expected_hash (previous (ev_tx e)) e"
      "chain_findings (previous(ev_tx e := expected_hash (previous (ev_tx e)) e)) es = []"
    by (auto simp: Let_def split: if_splits)
  with Cons.IH show ?case by (simp add: Let_def)
qed simp

end
