(* ===== verification/LedgerRun.thy ===== *)
theory LedgerRun
  imports LedgerEffects LedgerTenant LedgerEvents
begin

text \<open>
  Runs of the ledger.  \<open>ledger_op\<close> names every state-changing method of \<open>Repository\<close> with its
  arguments, \<open>exec\<close> runs one of them, and \<open>reach\<close> holds of every ledger some sequence of calls
  produces from the empty database, under any clock, identifiers and storage failures.  Every body
  is a sequence of single-table writes (\<open>table_write\<close>); the structural invariants (unique keys,
  references, dependency order, hash chains) are proved once per kind of write.
\<close>

subsection \<open>Operations as data\<close>

datatype ledger_op =
    OpCreate transaction workspace
  | OpTransition string tx_state tx_state string string bool bool
  | OpRecordPatch string patch
  | OpRecordVerification string verification_report
  | OpApprove string string string string "gotime option"
  | OpBeginCommit string string
  | OpNeedsReconciliation string string
  | OpRecordExecution runtime_execution
  | OpCreateEffect external_effect
  | OpRefreshEffect string string string string string "(string \<times> string) list option"
  | OpAcquireLease string string int
  | OpBeginAttempt string string string int
  | OpEffectUnknown effect_attempt string string
  | OpEffectFailure effect_attempt int string string
  | OpEffectCommitted effect_attempt effect_receipt
  | OpRearm string "effect_attempt option" string
  | OpMaterialize string materialized_ref
  | OpFinalize string
  | OpAbortEffects string string
  | OpRecordOwner string string string
  | OpGrant string string string string bool string
  | OpRevoke string string string bool string

definition outcome :: "(ledger_error + 'a) \<times> ledger \<Rightarrow> (ledger_error + unit) \<times> ledger" where
  "outcome r = (case fst r of Inl e \<Rightarrow> Inl e | Inr _ \<Rightarrow> Inr (), snd r)"

fun exec :: "env \<Rightarrow> ledger_op \<Rightarrow> ledger \<Rightarrow> (ledger_error + unit) \<times> ledger" where
  "exec en (OpCreate t w) l = outcome (Create en t w l)"
| "exec en (OpTransition tid a b actor reason m i) l = outcome (Transition en tid a b actor reason m i l)"
| "exec en (OpRecordPatch tid p) l = outcome (RecordPatch en tid p l)"
| "exec en (OpRecordVerification tid r) l = outcome (RecordVerification en tid r l)"
| "exec en (OpApprove tid d who sig ex) l = outcome (ApproveWithEvidence en tid d who sig ex l)"
| "exec en (OpBeginCommit tid d) l = outcome (BeginCommit en tid d l)"
| "exec en (OpNeedsReconciliation tid reason) l = outcome (MarkNeedsReconciliation en tid reason l)"
| "exec en (OpRecordExecution r) l = outcome (RecordRuntimeExecution en r l)"
| "exec en (OpCreateEffect e) l = outcome (CreateExternalEffect en e l)"
| "exec en (OpRefreshEffect eid pj pd vj vd rs) l = outcome (RefreshExternalEffect en eid pj pd vj vd rs l)"
| "exec en (OpAcquireLease name who ttl) l = outcome (AcquireLease en name who ttl l)"
| "exec en (OpBeginAttempt eid phase d token) l = outcome (BeginEffectAttempt en eid phase d token l)"
| "exec en (OpEffectUnknown a cls msg) l = outcome (MarkEffectUnknown en a cls msg l)"
| "exec en (OpEffectFailure a http cls msg) l = outcome (MarkEffectDefiniteFailure en a http cls msg l)"
| "exec en (OpEffectCommitted a r) l = outcome (RecordEffectCommitted en a r l)"
| "exec en (OpRearm eid a reason) l = outcome (RearmEffect en eid a reason l)"
| "exec en (OpMaterialize tid r) l = outcome (RecordMaterializedRef en tid r l)"
| "exec en (OpFinalize tid) l = outcome (FinalizeTransactionCommit en tid l)"
| "exec en (OpAbortEffects tid reason) l = outcome (AbortPreparedEffects en tid reason l)"
| "exec en (OpRecordOwner tid who rid) l = outcome (RecordTransactionOwner en tid who rid l)"
| "exec en (OpGrant tid actor subj p adm rid) l = outcome (GrantTransactionAccess en tid actor subj p adm rid l)"
| "exec en (OpRevoke tid actor subj adm rid) l = outcome (RevokeTransactionAccess en tid actor subj adm rid l)"

text \<open>The write transaction an operation runs, with the checks made before it.\<close>

definition prepared_effect :: "env \<Rightarrow> external_effect \<Rightarrow> external_effect" where
  "prepared_effect en e0 =
     e0\<lparr>ef_status := (if ef_status e0 = EffectUnset then EffectVerified else ef_status e0),
        ef_rank := (if ef_rank e0 = 0 then 100 else ef_rank e0),
        ef_created := en_now en, ef_updated := en_now en, ef_revision := 1\<rparr>"

fun op_body :: "env \<Rightarrow> ledger_op \<Rightarrow> ledger \<Rightarrow> ledger_error + ledger" where
  "op_body en (OpCreate t w) l = Create_tx en t w l"
| "op_body en (OpTransition tid a b actor reason m i) l =
     try_bind (ValidateTransition a b) (\<lambda>_. Transition_tx en tid a b actor reason m i l)"
| "op_body en (OpRecordPatch tid p) l = RecordPatch_tx en tid p l"
| "op_body en (OpRecordVerification tid r) l = RecordVerification_tx en tid r l"
| "op_body en (OpApprove tid d who sig ex) l = ApproveWithEvidence_tx en tid d who sig ex l"
| "op_body en (OpBeginCommit tid d) l = BeginCommit_tx en tid d l"
| "op_body en (OpNeedsReconciliation tid reason) l =
     try_bind (Get tid l) (\<lambda>cur.
     try_bind (ValidateTransition (tx_status cur) StateNeedsReconciliation) (\<lambda>_.
     Transition_tx en tid (tx_status cur) StateNeedsReconciliation ''daemon'' reason False False l))"
| "op_body en (OpRecordExecution r) l = RecordRuntimeExecution_tx en r l"
| "op_body en (OpCreateEffect e0) l =
     try_bind (require (effect_required e0 \<and> ef_status (prepared_effect en e0) = EffectVerified) MissingField) (\<lambda>_.
     CreateExternalEffect_tx en (prepared_effect en e0) l)"
| "op_body en (OpRefreshEffect eid pj pd vj vd rs) l = RefreshExternalEffect_tx en eid pj pd vj vd rs l"
| "op_body en (OpAcquireLease name who ttl) l =
     try_bind (require (name \<noteq> [] \<and> who \<noteq> [] \<and> ttl > 0) BadLease) (\<lambda>_. AcquireLease_tx en name who ttl l)"
| "op_body en (OpBeginAttempt eid phase d token) l =
     try_bind (require (phase \<in> set attempt_phases) BadPhase) (\<lambda>_.
     try_bind (require (d \<noteq> [] \<and> token > 0) MissingField) (\<lambda>_. BeginEffectAttempt_tx en eid phase d token l))"
| "op_body en (OpEffectUnknown a cls msg) l = MarkEffectUnknown_tx en a cls msg l"
| "op_body en (OpEffectFailure a http cls msg) l = MarkEffectDefiniteFailure_tx en a http cls msg l"
| "op_body en (OpEffectCommitted a r) l = RecordEffectCommitted_tx en a (complete_receipt en a r) l"
| "op_body en (OpRearm eid a reason) l = RearmEffect_tx en eid a reason l"
| "op_body en (OpMaterialize tid r) l = RecordMaterializedRef_tx en tid r l"
| "op_body en (OpFinalize tid) l = FinalizeTransactionCommit_tx en tid l"
| "op_body en (OpAbortEffects tid reason) l = AbortPreparedEffects_tx en tid reason l"
| "op_body en (OpRecordOwner tid who rid) l = RecordTransactionOwner_tx en tid who rid l"
| "op_body en (OpGrant tid actor subj p adm rid) l =
     try_bind (require (actor \<noteq> [] \<and> subj \<noteq> [] \<and> validGrantPermission p \<and> actor \<noteq> subj) MissingField) (\<lambda>_.
     GrantTransactionAccess_tx en tid actor subj p adm rid l)"
| "op_body en (OpRevoke tid actor subj adm rid) l = RevokeTransactionAccess_tx en tid actor subj adm rid l"

lemma outcome_simps [simp]: "snd (outcome r) = snd r" "fst (outcome r) = Inr u \<longleftrightarrow> is_ok (fst r)"
  by (auto simp: outcome_def is_ok_iff split: sum.splits)

lemma prepared_effect_unfold:
  "(let st = (if ef_status e0 = EffectUnset then EffectVerified else ef_status e0)
    in if st \<noteq> EffectVerified then (Inl (EffectState st), l)
       else let e = e0\<lparr>ef_status := st, ef_rank := (if ef_rank e0 = 0 then 100 else ef_rank e0),
                      ef_created := en_now en, ef_updated := en_now en, ef_revision := 1\<rparr>
            in k e) = (if ef_status (prepared_effect en e0) \<noteq> EffectVerified
                       then (Inl (EffectState (ef_status (prepared_effect en e0))), l) else k (prepared_effect en e0))"
  by (simp add: prepared_effect_def Let_def)

text \<open>An operation leaves the ledger as it was or commits exactly what its body computed.\<close>

lemma WithTx_snd_cases:
  "(\<And>r. snd (f (r, l)) = l) \<Longrightarrow> (\<And>u l'. snd (f (Inr u, l')) = l') \<Longrightarrow>
     snd (f (WithTx en body l)) = l \<or> body l = Inr (snd (f (WithTx en body l)))"
  by (auto simp: WithTx_def split: option.splits sum.splits)

lemma snd_Create: "snd (Create en t w l) = snd (WithTx en (Create_tx en t w) l)"
  by (simp add: Create_def split: prod.splits sum.splits)

lemma snd_AcquireLease_match:
  "snd (case WithTx en b l of (Inl e, l') \<Rightarrow> (Inl e, l') | (Inr u, l') \<Rightarrow> (Inr x, l')) = snd (WithTx en b l)"
  by (simp split: prod.splits sum.splits)

theorem exec_cases:
  "snd (exec en op l) = l \<or> op_body en op l = Inr (snd (exec en op l))"
proof (cases op)
  case (OpTransition tid a b actor reason m i)
  then show ?thesis
    using WithTx_snd [of en "Transition_tx en tid a b actor reason m i" l]
    by (cases "CanTransition a b") (auto simp: Transition_def ValidateTransition_def require_simps)
next
  case (OpNeedsReconciliation tid reason)
  show ?thesis
  proof (cases "get_tx tid l")
    case None
    with OpNeedsReconciliation show ?thesis by (simp add: MarkNeedsReconciliation_def Get_def fetch_simps)
  next
    case (Some cur)
    then show ?thesis
      using OpNeedsReconciliation WithTx_snd [of en "Transition_tx en tid (tx_status cur) StateNeedsReconciliation ''daemon'' reason False False" l]
      by (cases "CanTransition (tx_status cur) StateNeedsReconciliation")
        (auto simp: MarkNeedsReconciliation_def Get_def fetch_simps Transition_def ValidateTransition_def require_simps)
  qed
next
  case (OpCreateEffect e0)
  then show ?thesis
    using WithTx_snd [of en "CreateExternalEffect_tx en (prepared_effect en e0)" l]
    by (auto simp: CreateExternalEffect_def prepared_effect_unfold require_simps require_def)
next
  case (OpRecordExecution r)
  then show ?thesis using WithTx_snd [of en "RecordRuntimeExecution_tx en r" l]
    by (simp add: RecordRuntimeExecution_def)
next
  case (OpAcquireLease name who ttl)
  then show ?thesis using WithTx_snd [of en "AcquireLease_tx en name who ttl" l]
    by (auto simp: AcquireLease_def snd_AcquireLease_match require_def)
next
  case (OpBeginAttempt eid phase d token)
  then show ?thesis using WithTx_snd [of en "BeginEffectAttempt_tx en eid phase d token" l]
    by (auto simp: BeginEffectAttempt_def snd_AcquireLease_match require_def)
next
  case (OpGrant tid actor subj p adm rid)
  then show ?thesis using WithTx_snd [of en "GrantTransactionAccess_tx en tid actor subj p adm rid" l]
    by (auto simp: GrantTransactionAccess_def require_def)
qed (simp_all add: snd_Create RecordPatch_def RecordVerification_def ApproveWithEvidence_def BeginCommit_def
  RefreshExternalEffect_def MarkEffectUnknown_def MarkEffectDefiniteFailure_def RecordEffectCommitted_def
  RearmEffect_def RecordMaterializedRef_def FinalizeTransactionCommit_def AbortPreparedEffects_def Let_def
  RecordTransactionOwner_def RevokeTransactionAccess_def WithTx_snd)

end
