(* ===== verification/LedgerWrites.thy ===== *)
theory LedgerWrites
  imports LedgerRun
begin

text \<open>
  Single-table writes.  Every operation body is a sequence of the writes of \<open>table_write\<close>; a
  property that each write keeps is an invariant of every reachable ledger.
\<close>

subsection \<open>Writes\<close>

inductive table_write :: "ledger \<Rightarrow> ledger \<Rightarrow> bool" where
  w_event: "appendChainedEvent eid tid eff kind payload fence at l = Inr l' \<Longrightarrow>
     fence = 0 \<or> fence \<in> le_token ` set (leases l) \<or> fence > 0 \<Longrightarrow> table_write l l'"
| w_access: "appendTransactionAccessEvent eid tid actor subject action permission rid now l = Inr l' \<Longrightarrow> table_write l l'"
| w_create: "\<not> has_key tx_id (tx_id t) (transactions l) \<Longrightarrow> \<not> has_key ws_tx (ws_tx w) (workspaces l) \<Longrightarrow>
     ws_tx w = tx_id t \<Longrightarrow> tx_owner t \<noteq> [] \<Longrightarrow>
     table_write l (l\<lparr>transactions := transactions l @ [t], workspaces := workspaces l @ [w]\<rparr>)"
| w_tx: "update_tx tid revision f l = Inr l' \<Longrightarrow> (\<And>t. tx_id (f t) = tx_id t \<and> tx_owner (f t) = tx_owner t) \<Longrightarrow> table_write l l'"
| w_patch: "\<not> has_key pa_tx (pa_tx p) (patches l) \<Longrightarrow> get_tx (pa_tx p) l \<noteq> None \<Longrightarrow> table_write l (l\<lparr>patches := patches l @ [p]\<rparr>)"
| w_run: "\<not> has_key vn_id (vn_id v) (runs l) \<Longrightarrow> get_tx (vn_tx v) l \<noteq> None \<Longrightarrow>
     table_write l (l\<lparr>runs := runs l @ [v], checks := cs\<rparr>)"
| w_approval: "\<not> has_key ap_id (ap_id a) (approvals l) \<Longrightarrow> get_tx (ap_tx a) l \<noteq> None \<Longrightarrow>
     table_write l (l\<lparr>approvals := approvals l @ [a]\<rparr>)"
| w_effect: "\<not> has_key ef_id (ef_id e) (effects l) \<Longrightarrow> get_tx (ef_tx e) l \<noteq> None \<Longrightarrow>
     insert_dependencies (ef_id e) (ef_tx e) ds [] (effects l @ [e]) (dependencies l) = Inr deps \<Longrightarrow>
     table_write l (l\<lparr>effects := effects l @ [e], dependencies := deps\<rparr>)"
| w_effect_update: "(\<And>e. ef_id (f e) = ef_id e \<and> ef_tx (f e) = ef_tx e) \<Longrightarrow> table_write l (update_effect eid f l)"
| w_attempt: "\<not> has_key at_id (at_id a) (attempts l) \<Longrightarrow> get_effect (at_effect a) l \<noteq> None \<Longrightarrow>
     table_write l (l\<lparr>attempts := attempts l @ [a]\<rparr>)"
| w_attempt_update: "(\<And>a. at_id (f a) = at_id a \<and> at_effect (f a) = at_effect a \<and> at_phase (f a) = at_phase a
     \<and> at_request (f a) = at_request a \<and> at_fence (f a) = at_fence a) \<Longrightarrow> table_write l (close_attempt aid f l)"
| w_receipt: "\<not> has_key rc_id (rc_id r) (receipts l) \<Longrightarrow> \<not> has_key rc_effect (rc_effect r) (receipts l) \<Longrightarrow>
     get_effect (rc_effect r) l \<noteq> None \<Longrightarrow> table_write l (l\<lparr>receipts := receipts l @ [r]\<rparr>)"
| w_ref: "\<not> has_key mr_tx (mr_tx r) (refs l) \<Longrightarrow> \<not> has_key mr_ref (mr_ref r) (refs l) \<Longrightarrow> get_tx (mr_tx r) l \<noteq> None \<Longrightarrow>
     table_write l (l\<lparr>refs := refs l @ [r]\<rparr>)"
| w_lease: "\<not> has_key le_name (le_name r) (leases l) \<Longrightarrow> le_token r = 1 \<Longrightarrow> table_write l (l\<lparr>leases := leases l @ [r]\<rparr>)"
| w_lease_update: "(\<And>r. P r \<Longrightarrow> le_name (f r) = le_name r \<and> le_token (f r) = le_token r + 1) \<Longrightarrow>
     table_write l (l\<lparr>leases := update_where P f (leases l)\<rparr>)"
| w_execution: "\<not> has_key rx_id (rx_id r) (executions l) \<Longrightarrow> get_tx (rx_tx r) l \<noteq> None \<Longrightarrow>
     table_write l (l\<lparr>executions := executions l @ [r]\<rparr>)"
| w_grant: "\<not> has_key grant_key (grant_key g) (grants l) \<Longrightarrow> get_tx (gr_tx g) l = Some t \<Longrightarrow> gr_principal g \<noteq> tx_owner t \<Longrightarrow>
     validGrantPermission (gr_permission g) \<Longrightarrow> table_write l (l\<lparr>grants := grants l @ [g]\<rparr>)"
| w_grant_update: "(\<And>g. grant_key (f g) = grant_key g \<and> validGrantPermission (gr_permission (f g))) \<Longrightarrow>
     table_write l (l\<lparr>grants := modify_row grant_key k f (grants l)\<rparr>)"
| w_grant_delete: "table_write l (l\<lparr>grants := filter P (grants l)\<rparr>)"

definition table_writes :: "ledger \<Rightarrow> ledger \<Rightarrow> bool" where
  "table_writes = table_write\<^sup>*\<^sup>*"

text \<open>\<open>writes l m\<close>: if the statement sequence \<open>m\<close> succeeds, it got from \<open>l\<close> to its result by writes.\<close>

definition writes :: "ledger \<Rightarrow> ledger_error + ledger \<Rightarrow> bool" where
  "writes l m = (\<forall>l'. m = Inr l' \<longrightarrow> table_writes l l')"

lemma writes_Inr: "writes l (Inr l)"
  by (simp add: writes_def table_writes_def)

lemma writes_step: "table_write l l1 \<Longrightarrow> writes l1 m \<Longrightarrow> writes l m"
  by (auto simp: writes_def table_writes_def intro: converse_rtranclp_into_rtranclp)

lemma writes_then: "writes l1 m \<Longrightarrow> table_write l l1 \<Longrightarrow> writes l m"
  by (rule writes_step)

lemma writes_one: "table_write l l1 \<Longrightarrow> writes l (Inr l1)"
  by (rule writes_step [OF _ writes_Inr])

lemma writes_guard: "(\<And>x. m = Inr x \<Longrightarrow> writes l (k x)) \<Longrightarrow> writes l (try_bind m k)"
  by (cases m) (auto simp: writes_def)

lemma writes_require: "(c \<Longrightarrow> writes l (k ())) \<Longrightarrow> writes l (try_bind (require c e) k)"
  by (rule writes_guard) simp

lemma writes_fetch: "(\<And>v. x = Some v \<Longrightarrow> writes l (k v)) \<Longrightarrow> writes l (try_bind (fetch x e) k)"
  by (rule writes_guard) simp

lemma writes_bind: "writes l m \<Longrightarrow> (\<And>l1. m = Inr l1 \<Longrightarrow> writes l1 (k l1)) \<Longrightarrow> writes l (try_bind m k)"
  by (cases m) (auto simp: writes_def table_writes_def)

lemma writes_event: "fence = 0 \<or> fence \<in> le_token ` set (leases l) \<or> fence > 0 \<Longrightarrow>
    writes l (appendChainedEvent eid tid eff kind payload fence at l)"
  unfolding writes_def table_writes_def by (auto intro: w_event)

lemma writes_event0: "writes l (appendChainedEvent eid tid eff kind payload 0 at l)"
  by (rule writes_event) simp

lemma writes_access: "writes l (appendTransactionAccessEvent eid tid actor subject action permission rid now l)"
  unfolding writes_def table_writes_def by (auto intro: w_access)

lemma writes_tx: "(\<And>t. tx_id (f t) = tx_id t \<and> tx_owner (f t) = tx_owner t) \<Longrightarrow> writes l (update_tx tid revision f l)"
  unfolding writes_def table_writes_def using w_tx [of tid revision f l] by blast

lemmas appenders = appendEvent_def appendEffectEvent_def

lemma get_tx_has_key: "get_tx tid l \<noteq> None \<longleftrightarrow> has_key tx_id tid (transactions l)"
  by (simp add: get_tx_def has_key_find)

lemma get_tx_frame [simp]:
  "get_tx tid (l\<lparr>patches := a\<rparr>) = get_tx tid l" "get_tx tid (l\<lparr>approvals := b\<rparr>) = get_tx tid l"
  "get_tx tid (l\<lparr>runs := c, checks := d\<rparr>) = get_tx tid l" "get_tx tid (l\<lparr>executions := e\<rparr>) = get_tx tid l"
  "get_tx tid (l\<lparr>effects := f, dependencies := g\<rparr>) = get_tx tid l" "get_tx tid (update_effect eid h l) = get_tx tid l"
  "get_tx tid (l\<lparr>events := i\<rparr>) = get_tx tid l" "get_tx tid (l\<lparr>receipts := j\<rparr>) = get_tx tid l"
  "get_tx tid (l\<lparr>attempts := k\<rparr>) = get_tx tid l" "get_tx tid (l\<lparr>refs := m\<rparr>) = get_tx tid l"
  "get_tx tid (l\<lparr>leases := n\<rparr>) = get_tx tid l" "get_tx tid (l\<lparr>grants := q\<rparr>) = get_tx tid l"
  "get_tx tid (l\<lparr>access_events := p\<rparr>) = get_tx tid l" "get_tx tid (close_attempt aid r l) = get_tx tid l"
  by (simp_all add: get_tx_def update_effect_def close_attempt_def)

lemma get_effect_frame [simp]:
  "get_effect eid (l\<lparr>patches := a\<rparr>) = get_effect eid l" "get_effect eid (l\<lparr>approvals := b\<rparr>) = get_effect eid l"
  "get_effect eid (l\<lparr>runs := c, checks := d\<rparr>) = get_effect eid l" "get_effect eid (l\<lparr>executions := e\<rparr>) = get_effect eid l"
  "get_effect eid (l\<lparr>transactions := f\<rparr>) = get_effect eid l"
  "get_effect eid (l\<lparr>events := i\<rparr>) = get_effect eid l" "get_effect eid (l\<lparr>receipts := j\<rparr>) = get_effect eid l"
  "get_effect eid (l\<lparr>attempts := k\<rparr>) = get_effect eid l" "get_effect eid (l\<lparr>refs := m\<rparr>) = get_effect eid l"
  "get_effect eid (l\<lparr>leases := n\<rparr>) = get_effect eid l" "get_effect eid (l\<lparr>grants := q\<rparr>) = get_effect eid l"
  "get_effect eid (l\<lparr>access_events := p\<rparr>) = get_effect eid l" "get_effect eid (close_attempt aid r l) = get_effect eid l"
  by (simp_all add: get_effect_def close_attempt_def)

lemmas guards = writes_require writes_fetch

lemma writes_tx_event:
  "(\<And>t. tx_id (f t) = tx_id t \<and> tx_owner (f t) = tx_owner t) \<Longrightarrow>
     writes l (try_bind (update_tx tid revision f l) (\<lambda>l1. appendChainedEvent eid tid' eff kind payload 0 at l1))"
  by (intro writes_bind [OF writes_tx] writes_event0) simp_all

lemma writes_pending: "writes l m \<Longrightarrow> writes l (try_bind (case xs of [] \<Rightarrow> Inr () | x # _ \<Rightarrow> Inl (g x)) (\<lambda>_. m))"
  by (cases xs) (auto simp: writes_def)

lemma Create_writes: "writes l (Create_tx en t0 w l)"
  unfolding Create_tx_def Let_def appenders
  apply (intro guards)
  apply (rule writes_bind, rule writes_then, rule writes_event0, rule w_create)
      apply (auto simp: create_row_def Let_def)[4]
  apply (rule writes_bind, rule writes_access, rule writes_event0)
  done

lemma Transition_writes: "writes l (Transition_tx en tid a b actor reason m i l)"
  unfolding Transition_tx_def appenders
  by (intro guards writes_tx_event) simp

lemma RecordPatch_writes: "writes l (RecordPatch_tx en tid p l)"
  unfolding RecordPatch_tx_def Let_def appenders
  by (intro guards, rule writes_then, rule writes_tx_event, simp, rule w_patch) simp_all

lemma RecordVerification_writes: "writes l (RecordVerification_tx en tid r l)"
  unfolding RecordVerification_tx_def Let_def appenders
  by (intro guards, rule writes_guard, rule writes_then, rule writes_tx_event, simp, rule w_run) simp_all

lemma Approve_writes: "writes l (ApproveWithEvidence_tx en tid d who sig ex l)"
  unfolding ApproveWithEvidence_tx_def appenders
  by (intro guards, rule writes_guard, intro guards, rule writes_then, rule writes_tx_event, simp, rule w_approval) simp_all

lemma BeginCommit_writes: "writes l (BeginCommit_tx en tid d l)"
  unfolding BeginCommit_tx_def appenders
  by (intro guards writes_pending writes_tx_event) simp

lemma Finalize_writes: "writes l (FinalizeTransactionCommit_tx en tid l)"
  unfolding FinalizeTransactionCommit_tx_def appenders
  by (intro guards writes_pending writes_tx_event) simp

lemma Execution_writes: "writes l (RecordRuntimeExecution_tx en r l)"
  unfolding RecordRuntimeExecution_tx_def appenders
  by (intro guards, rule writes_then, rule writes_event0, rule w_execution) simp_all

lemma CreateEffect_writes: "writes l (CreateExternalEffect_tx en e l)"
  unfolding CreateExternalEffect_tx_def Let_def appenders
  by (intro guards, rule writes_guard, rule writes_then, rule writes_tx_event, simp, rule w_effect) simp_all

lemma RefreshEffect_writes: "writes l (RefreshExternalEffect_tx en eid pj pd vj vd rs l)"
  unfolding RefreshExternalEffect_tx_def appenders
  by (intro guards, rule writes_then, rule writes_tx_event, simp, rule w_effect_update) simp_all

lemma AcquireLease_writes: "writes l (AcquireLease_tx en name who ttl l)"
  by (auto simp: AcquireLease_tx_def Let_def has_key_find writes_def table_writes_def
      intro!: r_into_rtranclp w_lease w_lease_update split: option.splits if_splits)

lemma BeginAttempt_writes: "token > 0 \<Longrightarrow> writes l (BeginEffectAttempt_tx en eid phase d token l)"
proof (cases "phase = ''commit''")
  case True
  assume "token > 0"
  then show ?thesis
    unfolding BeginEffectAttempt_tx_def Let_def appenders
    apply (simp only: if_P [OF True])
    apply (intro guards)
    apply (rule writes_guard)
    apply (intro guards)
    apply (rule writes_then [OF writes_then [OF writes_event w_effect_update] w_attempt])
    apply (simp_all add: new_attempt_def)
    done
next
  case False
  assume "token > 0"
  with False show ?thesis
    unfolding BeginEffectAttempt_tx_def Let_def appenders
    apply (simp only: if_False)
    apply (intro guards)
    apply (rule writes_guard)
    apply (intro guards)
    apply (rule writes_then [OF writes_event w_attempt])
    apply (simp_all add: new_attempt_def)
    done
qed

lemma fencing_token: "validateFencing en tid token l = Inr u \<Longrightarrow> token \<in> le_token ` set (leases l)"
  by (auto simp: validateFencing_def split: option.splits if_splits dest: find_row_SomeD)

lemma set_status_write: "table_write l (set_effect_status now eid st l)"
  unfolding set_effect_status_def by (rule w_effect_update) simp

lemma leases_frame [simp]:
  "leases (set_effect_status now eid st l) = leases l" "leases (close_attempt aid f l) = leases l"
  "leases (update_effect eid g l) = leases l"
  by (simp_all add: set_effect_status_def update_effect_def close_attempt_def)

lemma EffectUnknown_writes: "writes l (MarkEffectUnknown_tx en a cls msg l)"
  unfolding MarkEffectUnknown_tx_def appenders
  by (rule writes_guard, rule writes_then [OF writes_then [OF _ set_status_write] w_attempt_update], rule writes_event)
    (auto dest: fencing_token)

lemma EffectFailure_writes: "writes l (MarkEffectDefiniteFailure_tx en a http cls msg l)"
  unfolding MarkEffectDefiniteFailure_tx_def appenders
  by (rule writes_guard, rule writes_then [OF writes_then [OF _ set_status_write] w_attempt_update], rule writes_event)
    (auto dest: fencing_token)

lemma Rearm_writes: "writes l (RearmEffect_tx en eid a reason l)"
  unfolding RearmEffect_tx_def appenders
  apply (intro guards, rule writes_bind)
   apply (cases a)
    apply (simp add: writes_Inr)
   apply (simp, rule writes_guard, rule writes_one, rule w_attempt_update, simp)
  apply (rule writes_then, rule writes_event0, rule set_status_write)
  done

lemma receipt_write:
  "receipts l = rs \<Longrightarrow> \<not> has_key rc_id (rc_id r) rs \<Longrightarrow> \<not> has_key rc_effect (rc_effect r) rs \<Longrightarrow>
     get_effect (rc_effect r) l \<noteq> None \<Longrightarrow> table_write l (l\<lparr>receipts := rs @ [r]\<rparr>)"
  using w_receipt by blast

lemma receipts_frame [simp]: "receipts (close_attempt aid f l) = receipts l"
  by (simp add: close_attempt_def)

lemma EffectCommitted_writes: "writes l (RecordEffectCommitted_tx en a r l)"
proof (cases "has_key rc_id (rc_id r) (receipts l) \<or> has_key rc_effect (rc_effect r) (receipts l) \<or> rc_fence r \<le> 0")
  case True
  show ?thesis
    unfolding RecordEffectCommitted_tx_def Let_def appenders if_P [OF True]
    apply (rule writes_guard, intro guards)
    apply (rule writes_then [OF writes_then [OF writes_event set_status_write] w_attempt_update])
     apply (auto dest: fencing_token)
    done
next
  case False
  show ?thesis
    unfolding RecordEffectCommitted_tx_def Let_def appenders if_not_P [OF False]
    apply (rule writes_guard, intro guards)
    apply (rule writes_then [OF writes_then [OF writes_then [OF writes_event set_status_write] receipt_write] w_attempt_update])
         apply (use False in \<open>auto dest: fencing_token\<close>)
    done
qed

lemma Materialize_writes: "writes l (RecordMaterializedRef_tx en tid r l)"
  unfolding RecordMaterializedRef_tx_def Let_def appenders
  apply (intro guards)
  apply (cases "has_key mr_tx tid (refs l) \<or> has_key mr_ref (mr_ref r) (refs l)")
   apply (simp add: writes_event0)
  apply (simp, rule writes_then, rule writes_event0, rule w_ref)
    apply simp_all
  done

lemma abort_loop_writes: "writes l (abort_loop en i tid reason es l)"
proof (induction es arbitrary: i l)
  case (Cons e es)
  then show ?case
    by (simp add: appenders) (intro writes_bind, rule writes_then, rule writes_event0, rule set_status_write, simp)
qed (simp add: writes_Inr)

lemma AbortEffects_writes: "writes l (AbortPreparedEffects_tx en tid reason l)"
  unfolding AbortPreparedEffects_tx_def by (intro guards abort_loop_writes)

lemma RecordOwner_writes: "writes l (RecordTransactionOwner_tx en tid who rid l)"
  unfolding RecordTransactionOwner_tx_def by (intro guards writes_access)

lemma Grant_writes: "validGrantPermission p \<Longrightarrow> writes l (GrantTransactionAccess_tx en tid actor subj p adm rid l)"
  unfolding GrantTransactionAccess_tx_def
  apply (intro guards)
  apply (cases "has_key grant_key (tid, subj) (grants l)")
   apply (simp, rule writes_then, rule writes_access, rule w_grant_update, simp add: grant_key_def)
  apply (simp, rule writes_then, rule writes_access, rule w_grant)
     apply (simp_all add: grant_key_def)
  done

lemma Revoke_writes: "writes l (RevokeTransactionAccess_tx en tid actor subj adm rid l)"
  unfolding RevokeTransactionAccess_tx_def
  by (intro guards, rule writes_then, rule writes_access, rule w_grant_delete)

lemmas all_writes = Create_writes Transition_writes RecordPatch_writes RecordVerification_writes Approve_writes
  BeginCommit_writes Finalize_writes Execution_writes CreateEffect_writes RefreshEffect_writes AcquireLease_writes
  EffectUnknown_writes EffectFailure_writes Rearm_writes EffectCommitted_writes Materialize_writes
  AbortEffects_writes RecordOwner_writes Revoke_writes

lemma body_writes: "writes l (op_body en op l)"
proof (cases op)
  case (OpBeginAttempt eid phase d token)
  then show ?thesis by (simp, intro guards BeginAttempt_writes) simp
next
  case (OpGrant tid actor subj p adm rid)
  then show ?thesis by (simp, intro guards Grant_writes) simp
qed (auto intro!: guards writes_guard all_writes)

end
