(* ===== verification/LedgerInvariants.thy ===== *)
theory LedgerInvariants
  imports LedgerWrites "HOL-Library.Sublist"
begin

text \<open>
  Invariants of every reachable ledger.  The locale \<open>ledger_invariant\<close> is the proof rule: a
  property of the empty database that each single-table write keeps holds after any sequence of
  operations.  It is interpreted for unique keys, references between tables, the order of effect
  dependencies, grants, leases and the two hash chains.
\<close>

subsection \<open>Reachable ledgers\<close>

inductive reach :: "ledger \<Rightarrow> bool" where
  reach_empty: "reach empty_ledger"
| reach_exec: "reach l \<Longrightarrow> reach (snd (exec en op l))"

text \<open>Running a list of operations, each with its own environment.\<close>

fun run :: "(env \<times> ledger_op) list \<Rightarrow> ledger \<Rightarrow> ledger" where
  "run [] l = l"
| "run ((en, op) # ops) l = run ops (snd (exec en op l))"

lemma run_append: "run (xs @ ys) l = run ys (run xs l)"
  by (induction xs l rule: run.induct) auto

lemma reach_iff_run: "reach l \<longleftrightarrow> (\<exists>ops. l = run ops empty_ledger)"
proof
  show "\<exists>ops. l = run ops empty_ledger" if "reach l" using that
  proof induction
    case reach_empty
    have "empty_ledger = run [] empty_ledger" by simp
    then show ?case by blast
  next
    case (reach_exec l en op)
    then obtain ops where "l = run ops empty_ledger" by blast
    then have "snd (exec en op l) = run (ops @ [(en, op)]) empty_ledger" by (simp add: run_append)
    then show ?case by blast
  qed
  have "reach (run ops l)" if "reach l" for ops l
    using that by (induction ops l rule: run.induct) (auto intro: reach_exec)
  then show "reach l" if "\<exists>ops. l = run ops empty_ledger" using that reach_empty by blast
qed

locale ledger_invariant =
  fixes inv :: "ledger \<Rightarrow> bool"
  assumes inv_empty: "inv empty_ledger"
    and inv_write: "table_write l l' \<Longrightarrow> inv l \<Longrightarrow> inv l'"
begin

lemma inv_writes: "table_writes l l' \<Longrightarrow> inv l \<Longrightarrow> inv l'"
  unfolding table_writes_def by (induction rule: rtranclp_induct) (auto intro: inv_write)

lemma inv_body: "op_body en op l = Inr l' \<Longrightarrow> inv l \<Longrightarrow> inv l'"
  using body_writes [of l en op] inv_writes by (auto simp: writes_def)

lemma inv_exec: "inv l \<Longrightarrow> inv (snd (exec en op l))"
  using exec_cases [of en op l] inv_body by fastforce

lemma inv_reach: "reach l \<Longrightarrow> inv l"
  by (induction rule: reach.induct) (auto intro: inv_empty inv_exec)

end

lemmas table_write_cases = table_write.cases [consumes 1, case_names event access create tx patch run approval effect
  effect_update attempt attempt_update receipt ref lease lease_update execution grant grant_update grant_delete]

subsection \<open>Unique keys\<close>

definition keys_ok :: "ledger \<Rightarrow> bool" where
  "keys_ok l = (unique_key tx_id (transactions l) \<and> unique_key ws_tx (workspaces l) \<and> unique_key pa_tx (patches l)
     \<and> unique_key vn_id (runs l) \<and> unique_key ap_id (approvals l) \<and> unique_key ef_id (effects l)
     \<and> unique_key at_id (attempts l) \<and> unique_key rc_id (receipts l) \<and> unique_key rc_effect (receipts l)
     \<and> unique_key mr_tx (refs l) \<and> unique_key mr_ref (refs l) \<and> unique_key le_name (leases l)
     \<and> unique_key ev_id (events l) \<and> unique_key ae_id (access_events l) \<and> unique_key rx_id (executions l)
     \<and> unique_key grant_key (grants l))"

lemma unique_key_filter: "unique_key key rows \<Longrightarrow> unique_key key (filter P rows)"
  by (induction rows) (auto simp: unique_key_def)

lemma unique_key_modify_row: "(\<And>r. key (f r) = key r) \<Longrightarrow> unique_key key rows \<Longrightarrow> unique_key key (modify_row key k f rows)"
  by (simp add: modify_row_def unique_key_update_where)

lemma chained_row_id [simp]: "ev_id (chained_row eid tid eff kind payload fence at rows) = eid"
  by (simp add: chained_row_def Let_def)

lemma append_access_unique:
  "appendTransactionAccessEvent eid tid actor subject action permission rid now l = Inr l' \<Longrightarrow>
     unique_key ae_id (access_events l) \<Longrightarrow> unique_key ae_id (access_events l')"
  by (auto simp: appendTransactionAccessEvent_def try_bind_Inr Let_def unique_key_append)

lemma append_access_fields:
  assumes "appendTransactionAccessEvent eid tid actor subject action permission rid now l = Inr l'"
  obtains es where "l' = l\<lparr>access_events := es\<rparr>"
  using appendTransactionAccessEvent_Inr [OF assms] by blast

interpretation keys: ledger_invariant keys_ok
proof
  show "keys_ok empty_ledger" by (simp add: keys_ok_def empty_ledger_def unique_key_def)
  show "keys_ok l'" if "table_write l l'" "keys_ok l" for l l'
    using that
  proof (cases rule: table_write_cases)
    case (access eid tid actor subject action permission rid now)
    obtain es where "l' = l\<lparr>access_events := es\<rparr>" using append_access_fields [OF access] .
    moreover have "unique_key ae_id (access_events l')"
      using append_access_unique [OF access] that(2) by (simp add: keys_ok_def)
    ultimately show ?thesis using that(2) by (simp add: keys_ok_def)
  qed (auto simp: keys_ok_def unique_key_append unique_key_update_where unique_key_modify_row unique_key_filter
      update_effect_def close_attempt_def body_simps)
qed

subsection \<open>References between tables\<close>

definition references_ok :: "ledger \<Rightarrow> bool" where
  "references_ok l =
     ((\<forall>w \<in> set (workspaces l). has_key tx_id (ws_tx w) (transactions l))
      \<and> (\<forall>p \<in> set (patches l). has_key tx_id (pa_tx p) (transactions l))
      \<and> (\<forall>v \<in> set (runs l). has_key tx_id (vn_tx v) (transactions l))
      \<and> (\<forall>a \<in> set (approvals l). has_key tx_id (ap_tx a) (transactions l))
      \<and> (\<forall>r \<in> set (refs l). has_key tx_id (mr_tx r) (transactions l))
      \<and> (\<forall>r \<in> set (executions l). has_key tx_id (rx_tx r) (transactions l))
      \<and> (\<forall>e \<in> set (effects l). has_key tx_id (ef_tx e) (transactions l))
      \<and> (\<forall>e \<in> set (events l). has_key tx_id (ev_tx e) (transactions l)
           \<and> (ev_effect e \<noteq> [] \<longrightarrow> has_key ef_id (ev_effect e) (effects l)))
      \<and> (\<forall>a \<in> set (attempts l). has_key ef_id (at_effect a) (effects l))
      \<and> (\<forall>r \<in> set (receipts l). has_key ef_id (rc_effect r) (effects l)))"

lemma has_key_append [simp]: "has_key key k (xs @ [r]) \<longleftrightarrow> has_key key k xs \<or> key r = k"
  by (auto simp: has_key_iff)

lemma get_effect_has_key: "get_effect eid l \<noteq> None \<longleftrightarrow> has_key ef_id eid (effects l)"
  by (simp add: get_effect_def has_key_find)

lemma has_key_update_tx:
  "update_tx tid revision f l = Inr l' \<Longrightarrow> (\<And>t. tx_id (f t) = tx_id t) \<Longrightarrow>
     has_key tx_id k (transactions l') = has_key tx_id k (transactions l)"
  by (auto simp: body_simps has_key_update_where)

lemma chained_row_effect [simp]: "ev_effect (chained_row eid tid eff kind payload fence at rows) = eff"
  by (simp add: chained_row_def Let_def)

lemma has_key_modify_effect: "(\<And>e. ef_id (f e) = ef_id e) \<Longrightarrow>
    has_key ef_id k (effects (update_effect eid f l)) = has_key ef_id k (effects l)"
  by (simp add: update_effect_def modify_row_def has_key_update_where)

lemma ball_update_where:
  "(\<And>r. g (f r) = g r) \<Longrightarrow> (\<forall>r \<in> set (update_where P f rows). Q (g r)) = (\<forall>r \<in> set rows. Q (g r))"
  by (induction rows) (auto simp: update_where_def)

lemma get_tx_key: "get_tx tid l = Some t \<Longrightarrow> has_key tx_id tid (transactions l)"
  by (simp add: get_tx_has_key [symmetric])

lemma get_effect_key: "get_effect eid l = Some e \<Longrightarrow> has_key ef_id eid (effects l)"
  by (simp add: get_effect_has_key [symmetric])

lemma ball_close_attempt:
  "(\<And>a. at_effect (f a) = at_effect a) \<Longrightarrow>
     (\<forall>a \<in> set (attempts (close_attempt aid f l)). P (at_effect a)) = (\<forall>a \<in> set (attempts l). P (at_effect a))"
  by (simp add: close_attempt_def ball_update_where [where g = at_effect])

lemma ball_update_effect:
  "(\<And>e. ef_tx (f e) = ef_tx e) \<Longrightarrow>
     (\<forall>e \<in> set (effects (update_effect eid f l)). P (ef_tx e)) = (\<forall>e \<in> set (effects l). P (ef_tx e))"
  by (simp add: update_effect_def modify_row_def ball_update_where [where g = ef_tx])

lemma update_effect_fields [simp]:
  "transactions (update_effect eid f l) = transactions l" "workspaces (update_effect eid f l) = workspaces l"
  "patches (update_effect eid f l) = patches l" "runs (update_effect eid f l) = runs l"
  "approvals (update_effect eid f l) = approvals l" "refs (update_effect eid f l) = refs l"
  "executions (update_effect eid f l) = executions l" "events (update_effect eid f l) = events l"
  "attempts (update_effect eid f l) = attempts l" "receipts (update_effect eid f l) = receipts l"
  "dependencies (update_effect eid f l) = dependencies l" "grants (update_effect eid f l) = grants l"
  "access_events (update_effect eid f l) = access_events l"
  by (simp_all add: update_effect_def)

lemma close_attempt_fields [simp]:
  "transactions (close_attempt aid f l) = transactions l" "workspaces (close_attempt aid f l) = workspaces l"
  "patches (close_attempt aid f l) = patches l" "runs (close_attempt aid f l) = runs l"
  "approvals (close_attempt aid f l) = approvals l" "refs (close_attempt aid f l) = refs l"
  "executions (close_attempt aid f l) = executions l" "events (close_attempt aid f l) = events l"
  "effects (close_attempt aid f l) = effects l" "dependencies (close_attempt aid f l) = dependencies l"
  "grants (close_attempt aid f l) = grants l" "access_events (close_attempt aid f l) = access_events l"
  by (simp_all add: close_attempt_def)

interpretation references: ledger_invariant references_ok
proof
  show "references_ok empty_ledger" by (simp add: references_ok_def empty_ledger_def)
  show "references_ok l'" if "table_write l l'" "references_ok l" for l l'
    using that
  proof (cases rule: table_write_cases)
    case (access eid tid actor subject action permission rid now)
    obtain es where "l' = l\<lparr>access_events := es\<rparr>" using append_access_fields [OF access] .
    then show ?thesis using that(2) by (simp add: references_ok_def)
  next
    case (tx tid revision f)
    note keys = has_key_update_tx [OF tx(1)]
    from tx(1) obtain ts where "l' = l\<lparr>transactions := ts\<rparr>" by (auto simp: body_simps)
    with keys tx(2) that(2) show ?thesis by (auto simp: references_ok_def)
  next
    case (effect_update f eid)
    then show ?thesis using that(2) ball_update_effect [where f = f and P = "\<lambda>k. has_key tx_id k (transactions l)"]
      by (simp add: references_ok_def has_key_modify_effect)
  next
    case (attempt_update f aid)
    then show ?thesis using that(2) ball_close_attempt [where f = f and P = "\<lambda>k. has_key ef_id k (effects l)"]
      by (simp add: references_ok_def)
  qed (auto simp: references_ok_def body_simps dest!: get_tx_key get_effect_key)
qed

subsection \<open>Chains and leases\<close>

definition logs_ok :: "ledger \<Rightarrow> bool" where
  "logs_ok l = ((\<forall>r \<in> set (leases l). le_token r \<ge> 1) \<and> (\<forall>tid. event_ok (tx_events tid l))
     \<and> access_ok (access_events l) \<and> unique_key ev_seq (events l))"

lemma next_seq_upper: "r \<in> set rows \<Longrightarrow> seq r < next_seq seq rows"
proof -
  have "m \<le> fold (\<lambda>r m. max (seq r) m) rows m \<and> (\<forall>r \<in> set rows. seq r \<le> fold (\<lambda>r m. max (seq r) m) rows m)" for m
  proof (induction rows arbitrary: m)
    case (Cons a rows)
    from Cons [of "max (seq a) m"] show ?case by auto
  qed simp
  then show "r \<in> set rows \<Longrightarrow> seq r < next_seq seq rows" by (fastforce simp: next_seq_def)
qed

lemma chained_row_seq: "ev_seq (chained_row eid tid eff kind payload fence at rows) = next_seq ev_seq rows"
  by (simp add: chained_row_def Let_def)

interpretation logs: ledger_invariant logs_ok
proof
  show "logs_ok empty_ledger"
    by (simp add: logs_ok_def empty_ledger_def tx_events_def event_ok_def access_ok_def unique_key_def)
  show "logs_ok l'" if "table_write l l'" "logs_ok l" for l l'
    using that
  proof (cases rule: table_write_cases)
    case (event eid tid eff kind payload fence at)
    with that(2) have "fence \<ge> 0" by (force simp: logs_ok_def)
    with append_event_ok [OF event(1)] that(2) have "\<forall>tid. event_ok (tx_events tid l')" by (simp add: logs_ok_def)
    moreover have "l' = l\<lparr>events := events l @ [chained_row eid tid eff kind payload fence at (events l)]\<rparr>"
      using event(1) by (simp add: body_simps)
    moreover have "\<not> has_key ev_seq (next_seq ev_seq (events l)) (events l)"
      using next_seq_upper [of _ "events l" ev_seq] by (force simp: has_key_iff)
    ultimately show ?thesis using that(2) by (simp add: logs_ok_def unique_key_append chained_row_seq)
  next
    case (access eid tid actor subject action permission rid now)
    obtain es where "l' = l\<lparr>access_events := es\<rparr>" using append_access_fields [OF access] .
    with append_access_ok [OF access] that(2) show ?thesis by (simp add: logs_ok_def tx_events_def)
  next
    case (lease_update P f)
    then show ?thesis using that(2) by (auto simp: logs_ok_def tx_events_def set_update_where)
  qed (auto simp: logs_ok_def tx_events_def body_simps)
qed

subsection \<open>Owners and grants\<close>

definition sharing_ok :: "ledger \<Rightarrow> bool" where
  "sharing_ok l = ((\<forall>t \<in> set (transactions l). tx_owner t \<noteq> [])
     \<and> (\<forall>g \<in> set (grants l). validGrantPermission (gr_permission g)
          \<and> (\<exists>t. get_tx (gr_tx g) l = Some t \<and> tx_owner t \<noteq> gr_principal g)))"

lemma get_tx_update_owner:
  assumes "update_tx tid revision f l = Inr l'" and "\<And>t. tx_id (f t) = tx_id t \<and> tx_owner (f t) = tx_owner t"
  shows "get_tx k l = Some t \<Longrightarrow> \<exists>t'. get_tx k l' = Some t' \<and> tx_owner t' = tx_owner t"
proof -
  have "get_tx k l' = map_option (\<lambda>t. if tx_id t = tid \<and> tx_revision t = revision then f t else t) (get_tx k l)"
    using assms by (auto simp: body_simps get_tx_def find_row_update_where)
  then show "get_tx k l = Some t \<Longrightarrow> \<exists>t'. get_tx k l' = Some t' \<and> tx_owner t' = tx_owner t" using assms(2) by auto
qed

interpretation sharing: ledger_invariant sharing_ok
proof
  show "sharing_ok empty_ledger" by (simp add: sharing_ok_def empty_ledger_def)
  show "sharing_ok l'" if "table_write l l'" "sharing_ok l" for l l'
    using that
  proof (cases rule: table_write_cases)
    case (access eid tid actor subject action permission rid now)
    obtain es where "l' = l\<lparr>access_events := es\<rparr>" using append_access_fields [OF access] .
    then show ?thesis using that(2) by (simp add: sharing_ok_def)
  next
    case (create t w)
    have "get_tx k l' = Some x" if "get_tx k l = Some x" for k x
      using that create by (auto simp: get_tx_def table_simps)
    with create that(2) show ?thesis by (fastforce simp: sharing_ok_def)
  next
    case (tx tid revision f)
    note owner = get_tx_update_owner [OF tx(1)]
    from tx(1) obtain ts where "l' = l\<lparr>transactions := ts\<rparr>"
        "ts = update_where (\<lambda>t. tx_id t = tid \<and> tx_revision t = revision) f (transactions l)" by (auto simp: body_simps)
    with owner tx(2) that(2) show ?thesis by (fastforce simp: sharing_ok_def set_update_where)
  next
    case (grant g t)
    then show ?thesis using that(2) by (auto simp: sharing_ok_def)
  next
    case (grant_update f k)
    have "gr_tx (f g) = gr_tx g \<and> gr_principal (f g) = gr_principal g" for g
      using grant_update(2) [of g] by (simp add: grant_key_def)
    with grant_update that(2) show ?thesis by (auto simp: sharing_ok_def modify_row_def set_update_where)
  next
    case (grant_delete P)
    then show ?thesis using that(2) by (auto simp: sharing_ok_def)
  qed (auto simp: sharing_ok_def body_simps)
qed

subsection \<open>Effect dependencies\<close>

text \<open>An effect depends on effects created before it, of the same transaction.\<close>

definition position :: "string list \<Rightarrow> string \<Rightarrow> nat" where
  "position ids x = length (takeWhile (\<lambda>y. y \<noteq> x) ids)"

lemma position_append: "x \<in> set ids \<Longrightarrow> position (ids @ zs) x = position ids x"
  unfolding position_def by (induction ids) auto

lemma position_less: "x \<in> set ids \<Longrightarrow> position ids x < length ids"
  unfolding position_def by (induction ids) auto

lemma position_fresh: "x \<notin> set ids \<Longrightarrow> position (ids @ [x]) x = length ids"
  unfolding position_def by (induction ids) auto

definition depends_ok :: "external_effect list \<Rightarrow> string \<times> string \<Rightarrow> bool" where
  "depends_ok rows d = (\<exists>a b. find_row ef_id (fst d) rows = Some a \<and> find_row ef_id (snd d) rows = Some b
     \<and> ef_tx a = ef_tx b \<and> position (map ef_id rows) (snd d) < position (map ef_id rows) (fst d))"

definition deps_ok :: "ledger \<Rightarrow> bool" where
  "deps_ok l = (\<forall>d \<in> set (dependencies l). depends_ok (effects l) d)"

lemma find_row_in: "find_row key k rows = Some r \<Longrightarrow> k \<in> set (map key rows)"
  by (auto simp: image_iff dest!: find_row_SomeD)

lemma depends_ok_append:
  assumes "depends_ok rows d" shows "depends_ok (rows @ [e]) d"
proof -
  obtain a b where ab: "find_row ef_id (fst d) rows = Some a" "find_row ef_id (snd d) rows = Some b" "ef_tx a = ef_tx b"
      "position (map ef_id rows) (snd d) < position (map ef_id rows) (fst d)"
    using assms by (auto simp: depends_ok_def)
  then have "fst d \<in> set (map ef_id rows)" "snd d \<in> set (map ef_id rows)"
    by (blast intro: find_row_in)+
  with ab show ?thesis by (simp add: depends_ok_def table_simps position_append)
qed

lemma depends_ok_new:
  assumes "\<not> has_key ef_id (ef_id e) rows" "fst d = ef_id e" "find_row ef_id (snd d) rows = Some b" "ef_tx b = ef_tx e"
  shows "depends_ok (rows @ [e]) d"
proof -
  have notin: "ef_id e \<notin> set (map ef_id rows)" using assms(1) by (auto simp: has_key_iff)
  have "snd d \<in> set (map ef_id rows)" using assms(3) by (rule find_row_in)
  from position_append [OF this] position_less [OF this] position_fresh [OF notin]
  have "position (map ef_id (rows @ [e])) (snd d) < position (map ef_id (rows @ [e])) (fst d)"
    by (simp add: assms(2))
  moreover have "find_row ef_id (fst d) (rows @ [e]) = Some e"
    using assms(1,2) by (simp add: table_simps has_key_find)
  moreover have "find_row ef_id (snd d) (rows @ [e]) = Some b" using assms(3) by (simp add: table_simps)
  ultimately show ?thesis using assms(4) unfolding depends_ok_def by metis
qed

lemma depends_ok_update:
  assumes "depends_ok rows d" and "\<And>e. ef_id (f e) = ef_id e \<and> ef_tx (f e) = ef_tx e"
  shows "depends_ok (modify_row ef_id eid f rows) d"
proof -
  have "map ef_id (modify_row ef_id eid f rows) = map ef_id rows"
    using assms(2) by (simp add: modify_row_def update_where_keys)
  with assms show ?thesis
    by (force simp: depends_ok_def find_row_modify_row)
qed

lemma insert_dependencies_sound:
  assumes "insert_dependencies eid tid ds seen rows deps = Inr deps'"
  shows "\<forall>d \<in> set deps'. d \<in> set deps \<or> (fst d = eid \<and> snd d \<noteq> eid \<and> snd d \<in> set ds
           \<and> (\<exists>b. find_row ef_id (snd d) rows = Some b \<and> ef_tx b = tid \<and> ef_status b \<noteq> EffectSuperseded))"
  using assms
proof (induction ds arbitrary: seen deps)
  case (Cons d ds)
  then obtain b where "insert_dependencies eid tid ds (d # seen) rows (deps @ [(eid, d)]) = Inr deps'" "d \<noteq> eid"
      "find_row ef_id d rows = Some b" "ef_tx b = tid" "ef_status b \<noteq> EffectSuperseded"
    by (auto split: if_splits option.splits)
  with Cons.IH [OF this(1)] show ?case by fastforce
qed simp

interpretation deps: ledger_invariant deps_ok
proof
  show "deps_ok empty_ledger" by (simp add: deps_ok_def empty_ledger_def)
  show "deps_ok l'" if "table_write l l'" "deps_ok l" for l l'
    using that
  proof (cases rule: table_write_cases)
    case (access eid tid actor subject action permission rid now)
    obtain es where "l' = l\<lparr>access_events := es\<rparr>" using append_access_fields [OF access] .
    then show ?thesis using that(2) by (simp add: deps_ok_def)
  next
    case (effect e ds deps)
    show ?thesis unfolding deps_ok_def
    proof
      fix d assume "d \<in> set (dependencies l')"
      with insert_dependencies_sound [OF effect(4)] effect(1)
      consider "d \<in> set (dependencies l)" | b where "fst d = ef_id e" "snd d \<noteq> ef_id e"
          "find_row ef_id (snd d) (effects l @ [e]) = Some b" "ef_tx b = ef_tx e" by auto
      then show "depends_ok (effects l') d"
      proof cases
        case 1
        with that(2) effect(1) show ?thesis by (simp add: deps_ok_def depends_ok_append)
      next
        case 2
        then have "find_row ef_id (snd d) (effects l) = Some b" by (auto simp: table_simps split: option.splits)
        then show ?thesis using 2 effect(1,2) by (simp add: depends_ok_new)
      qed
    qed
  next
    case (effect_update f eid)
    then show ?thesis using that(2) by (simp add: deps_ok_def depends_ok_update update_effect_def)
  qed (auto simp: deps_ok_def body_simps)
qed

lemma deps_acyclic: "deps_ok l \<Longrightarrow> acyclic (set (dependencies l))"
proof -
  assume ok: "deps_ok l"
  have "set (dependencies l) \<subseteq> (measure (position (map ef_id (effects l))))\<inverse>"
    using ok by (auto simp: deps_ok_def depends_ok_def)
  moreover have "acyclic ((measure (position (map ef_id (effects l))))\<inverse>)"
    by (simp add: acyclic_converse wf_acyclic)
  ultimately show ?thesis by (rule acyclic_subset [rotated])
qed

subsection \<open>What is never lost\<close>

definition grows :: "ledger \<Rightarrow> ledger \<Rightarrow> bool" where
  "grows l l' = (prefix (events l) (events l') \<and> prefix (access_events l) (access_events l')
     \<and> prefix (receipts l) (receipts l') \<and> prefix (refs l) (refs l') \<and> prefix (approvals l) (approvals l')
     \<and> prefix (runs l) (runs l') \<and> prefix (patches l) (patches l')
     \<and> (\<forall>tid. get_tx tid l \<noteq> None \<longrightarrow> get_tx tid l' \<noteq> None)
     \<and> (\<forall>eid e. get_effect eid l = Some e \<longrightarrow> (\<exists>e'. get_effect eid l' = Some e' \<and> ef_tx e' = ef_tx e))
     \<and> (\<forall>name r. find_row le_name name (leases l) = Some r \<longrightarrow>
          (\<exists>r'. find_row le_name name (leases l') = Some r' \<and> le_token r \<le> le_token r')))"

lemma grows_refl: "grows l l"
  by (auto simp: grows_def)

lemma grows_effect: "grows l l' \<Longrightarrow> get_effect eid l = Some e \<Longrightarrow> \<exists>e'. get_effect eid l' = Some e' \<and> ef_tx e' = ef_tx e"
  by (simp add: grows_def)

lemma grows_lease: "grows l l' \<Longrightarrow> find_row le_name name (leases l) = Some r \<Longrightarrow>
    \<exists>r'. find_row le_name name (leases l') = Some r' \<and> le_token r \<le> le_token r'"
  by (simp add: grows_def)

lemma grows_trans:
  assumes "grows l1 l2" "grows l2 l3" shows "grows l1 l3"
proof -
  have "\<exists>e'. get_effect eid l3 = Some e' \<and> ef_tx e' = ef_tx e" if "get_effect eid l1 = Some e" for eid e
    using grows_effect [OF assms(1) that] grows_effect [OF assms(2)] by metis
  moreover have "\<exists>r'. find_row le_name name (leases l3) = Some r' \<and> le_token r \<le> le_token r'"
    if "find_row le_name name (leases l1) = Some r" for name r
    using grows_lease [OF assms(1) that] grows_lease [OF assms(2)] by (meson order_trans)
  moreover have "\<forall>tid. get_tx tid l1 \<noteq> None \<longrightarrow> get_tx tid l3 \<noteq> None"
    using assms by (simp only: grows_def) blast
  moreover have "prefix (events l1) (events l3) \<and> prefix (access_events l1) (access_events l3)
     \<and> prefix (receipts l1) (receipts l3) \<and> prefix (refs l1) (refs l3) \<and> prefix (approvals l1) (approvals l3)
     \<and> prefix (runs l1) (runs l3) \<and> prefix (patches l1) (patches l3)"
    using assms by (simp only: grows_def) (intro conjI; elim conjE; rule prefix_order.trans; assumption)
  ultimately show ?thesis unfolding grows_def by blast
qed

lemma find_update_lease:
  assumes "\<And>r. P r \<Longrightarrow> le_name (f r) = le_name r \<and> le_token (f r) = le_token r + 1"
    and "find_row le_name name rows = Some r"
  shows "\<exists>r'. find_row le_name name (update_where P f rows) = Some r' \<and> le_token r \<le> le_token r'"
  using assms find_row_update_where [of P le_name f name rows] by fastforce

lemma write_grows: "grows l l'" if "table_write l l'"
  using that
proof (cases rule: table_write_cases)
  case (access eid tid actor subject action permission rid now)
  obtain e where "l' = l\<lparr>access_events := access_events l @ [e]\<rparr>"
    using appendTransactionAccessEvent_Inr [OF access] by blast
  then show ?thesis by (auto simp: grows_def)
next
  case (tx tid revision f)
  have "get_tx k l' = map_option (\<lambda>t. if tx_id t = tid \<and> tx_revision t = revision then f t else t) (get_tx k l)" for k
    using tx by (auto simp: body_simps get_tx_def find_row_update_where)
  moreover from tx(1) obtain ts where "l' = l\<lparr>transactions := ts\<rparr>" by (auto simp: body_simps)
  ultimately show ?thesis by (auto simp: grows_def)
next
  case (effect_update f eid)
  then show ?thesis by (auto simp: grows_def get_effect_def find_row_modify_row) (auto simp: update_effect_def find_row_modify_row)
next
  case (lease_update P f)
  then show ?thesis using find_update_lease [OF lease_update(2)] by (auto simp: grows_def)
qed (auto simp: grows_def body_simps get_tx_def get_effect_def table_simps)

lemma writes_grow: "table_writes l l' \<Longrightarrow> grows l l'"
  unfolding table_writes_def by (induction rule: rtranclp_induct) (auto intro: grows_refl grows_trans write_grows)

lemma exec_grows: "grows l (snd (exec en op l))"
  using exec_cases [of en op l] body_writes [of l en op] writes_grow by (auto simp: writes_def intro: grows_refl)

lemma run_grows: "grows l (run ops l)"
  by (induction ops l rule: run.induct) (auto intro: grows_refl grows_trans exec_grows)

end
