(* ===== verification/LedgerStates.thy ===== *)
theory LedgerStates
  imports LedgerInvariants
begin

text \<open>
  What each operation does to a transaction row, as a step relation (\<open>tx_change\<close>) with one rule per
  kind of update, and to an effect row (\<open>effect_change\<close>).  Every operation of the ledger changes the
  transactions and effects it finds only along these relations; the state-machine properties are
  inductions and case analyses over them.
\<close>

subsection \<open>Transaction rows\<close>

datatype tx_kind = ByTransition bool bool | BySeal | ByVerification | ByApproval | ByCommitStart | ByEffect | ByFinalize

inductive tx_change :: "tx_kind \<Rightarrow> transaction \<Rightarrow> transaction \<Rightarrow> bool" where
  ch_transition: "CanTransition (tx_status t) next \<Longrightarrow>
     tx_change (ByTransition m i) t (t\<lparr>tx_status := next, tx_revision := tx_revision t + 1,
       tx_material := tx_material t + (if m then 1 else 0),
       tx_approval := (if i then None else Some (approval_text t)), tx_sealed := sealed, tx_updated := now\<rparr>)"
| ch_seal: "tx_status t = StateActive \<Longrightarrow>
     tx_change BySeal t (t\<lparr>tx_status := StateSealed, tx_revision := tx_revision t + 1, tx_material := tx_material t + 1,
       tx_approval := None, tx_sealed := Some now, tx_updated := now\<rparr>)"
| ch_verification: "tx_status t \<in> {StateSealed, StateStale} \<Longrightarrow> next \<in> {StateReady, StateFailedVerification} \<Longrightarrow>
     tx_change ByVerification t (t\<lparr>tx_status := next, tx_revision := tx_revision t + 1, tx_approval := None, tx_updated := now\<rparr>)"
| ch_approval: "tx_status t = StateReady \<Longrightarrow>
     tx_change ByApproval t (t\<lparr>tx_approval := Some digest, tx_revision := tx_revision t + 1, tx_updated := now\<rparr>)"
| ch_commit: "tx_status t = StateReady \<Longrightarrow> approval_text t \<noteq> [] \<Longrightarrow>
     tx_change ByCommitStart t (t\<lparr>tx_status := StateCommitting, tx_revision := tx_revision t + 1, tx_updated := now\<rparr>)"
| ch_effect: "tx_status t \<in> {StateActive, StateSealed, StateStale} \<Longrightarrow>
     tx_change ByEffect t (t\<lparr>tx_revision := tx_revision t + 1, tx_material := tx_material t + 1,
       tx_approval := None, tx_updated := now\<rparr>)"
| ch_finalize: "tx_status t \<in> {StateCommitting, StateNeedsReconciliation} \<Longrightarrow>
     tx_change ByFinalize t (t\<lparr>tx_status := StateCommitted, tx_revision := tx_revision t + 1, tx_updated := now\<rparr>)"

inductive_cases tx_change_elims: "tx_change kind t t'"

text \<open>How an operation moved the transactions: only its own one, along \<open>tx_change\<close>.\<close>

definition moves :: "tx_kind \<Rightarrow> string \<Rightarrow> ledger \<Rightarrow> ledger \<Rightarrow> bool" where
  "moves kind tid l l' = (\<exists>t t'. get_tx tid l = Some t \<and> get_tx tid l' = Some t' \<and> tx_change kind t t'
     \<and> (\<forall>x. x \<noteq> tid \<longrightarrow> get_tx x l' = get_tx x l))"

definition same_tx :: "ledger \<Rightarrow> ledger \<Rightarrow> bool" where
  "same_tx l l' = (\<forall>x. get_tx x l' = get_tx x l)"

lemma same_tx_refl [simp]: "same_tx l l"
  by (simp add: same_tx_def)

lemma update_tx_get:
  assumes "update_tx tid (tx_revision cur) f l = Inr l'" and "get_tx tid l = Some cur" and "\<And>t. tx_id (f t) = tx_id t"
  shows "get_tx x l' = (if x = tid then Some (f cur) else get_tx x l)"
  using get_tx_update [OF assms(2,3), of x] assms(1) by (auto simp: body_simps) (simp_all add: get_tx_def)

lemma append_event_get_tx: "appendChainedEvent eid tid eff kind payload fence at l = Inr l' \<Longrightarrow> get_tx x l' = get_tx x l"
  by (auto simp: body_simps)

lemma append_access_get_tx:
  "appendTransactionAccessEvent eid tid actor subject action permission rid now l = Inr l' \<Longrightarrow> get_tx x l' = get_tx x l"
  by (metis append_access_fields get_tx_frame(13))

lemma append_event_same: "appendChainedEvent eid tid eff kind payload fence at l = Inr l' \<Longrightarrow> \<forall>x. get_tx x l' = get_tx x l"
  by (simp add: append_event_get_tx)

lemma append_access_same:
  "appendTransactionAccessEvent eid tid actor subject action permission rid now l = Inr l' \<Longrightarrow> \<forall>x. get_tx x l' = get_tx x l"
  by (simp add: append_access_get_tx)

text \<open>The common shape: the row is read, updated at its revision, and an event is appended.\<close>

lemma moves_intro:
  assumes "get_tx tid l = Some cur" and "\<And>x. get_tx x l0 = get_tx x l"
    and "update_tx tid (tx_revision cur) f l0 = Inr l1" and "\<And>t. tx_id (f t) = tx_id t"
    and "appendChainedEvent eid tid' eff kind' payload fence at l1 = Inr l'" and "tx_change kind cur (f cur)"
  shows "moves kind tid l l'"
  using assms(1,2,6) update_tx_get [OF assms(3) _ assms(4)] append_event_get_tx [OF assms(5)] by (simp add: moves_def)

lemma Transition_moves:
  assumes "Transition_tx en tid a b actor reason m i l = Inr l'" and "CanTransition a b"
  shows "moves (ByTransition m i) tid l l'"
proof -
  have change: "tx_change (ByTransition m i) t (t\<lparr>tx_status := b, tx_revision := tx_revision t + 1,
      tx_material := tx_material t + (if m then 1 else 0), tx_approval := (if i then None else Some (approval_text t)),
      tx_sealed := s, tx_updated := en_now en\<rparr>)" if "tx_status t = a" for t s
    using that assms(2) by (intro ch_transition) auto
  show ?thesis
    using assms(1) unfolding Transition_tx_def appendEvent_def try_bind_Inr fetch_Inr require_Inr
    by (elim exE conjE) (rule moves_intro [where l0 = l], assumption, rule refl, assumption, simp, assumption, simp add: change)
qed

lemma RecordPatch_moves: "RecordPatch_tx en tid p l = Inr l' \<Longrightarrow> moves BySeal tid l l'"
  by (auto simp: RecordPatch_tx_def try_bind_Inr appendEvent_def Let_def intro!: ch_seal elim!: moves_intro [rotated 2])

lemma RecordVerification_moves: "RecordVerification_tx en tid r l = Inr l' \<Longrightarrow> moves ByVerification tid l l'"
  by (auto simp: RecordVerification_tx_def try_bind_Inr appendEvent_def Let_def intro!: ch_verification elim!: moves_intro [rotated 2])

lemma Approve_moves: "ApproveWithEvidence_tx en tid d who sig ex l = Inr l' \<Longrightarrow> moves ByApproval tid l l'"
  by (auto simp: ApproveWithEvidence_tx_def try_bind_Inr appendEvent_def intro!: ch_approval elim!: moves_intro [rotated 2])

lemma BeginCommit_moves: "BeginCommit_tx en tid d l = Inr l' \<Longrightarrow> moves ByCommitStart tid l l'"
  by (auto simp: BeginCommit_tx_def try_bind_Inr appendEvent_def intro!: ch_commit elim!: moves_intro [rotated 2])

lemma Finalize_moves: "FinalizeTransactionCommit_tx en tid l = Inr l' \<Longrightarrow> moves ByFinalize tid l l'"
  by (auto simp: FinalizeTransactionCommit_tx_def try_bind_Inr appendEvent_def intro!: ch_finalize elim!: moves_intro [rotated 2])

lemma CreateEffect_moves: "CreateExternalEffect_tx en e l = Inr l' \<Longrightarrow> moves ByEffect (ef_tx e) l l'"
  by (auto simp: CreateExternalEffect_tx_def try_bind_Inr appendEffectEvent_def Let_def intro!: ch_effect elim!: moves_intro [rotated 2])

lemma RefreshEffect_moves: "RefreshExternalEffect_tx en eid pj pd vj vd rs l = Inr l' \<Longrightarrow>
    \<exists>e. get_effect eid l = Some e \<and> moves ByEffect (ef_tx e) l l'"
  by (auto simp: RefreshExternalEffect_tx_def try_bind_Inr appendEffectEvent_def intro!: ch_effect elim!: moves_intro [rotated 2])

text \<open>Bodies that touch no transaction row.\<close>

lemma writes_same_tx:
  "RecordRuntimeExecution_tx en r l = Inr l' \<Longrightarrow> same_tx l l'"
  "AcquireLease_tx en name who ttl l = Inr l' \<Longrightarrow> same_tx l l'"
  "BeginEffectAttempt_tx en eid phase d token l = Inr l' \<Longrightarrow> same_tx l l'"
  "MarkEffectUnknown_tx en a cls msg l = Inr l' \<Longrightarrow> same_tx l l'"
  "MarkEffectDefiniteFailure_tx en a http cls msg l = Inr l' \<Longrightarrow> same_tx l l'"
  "RecordEffectCommitted_tx en a rc l = Inr l' \<Longrightarrow> same_tx l l'"
  "RearmEffect_tx en eid att reason l = Inr l' \<Longrightarrow> same_tx l l'"
  "RecordMaterializedRef_tx en tid rf l = Inr l' \<Longrightarrow> same_tx l l'"
  "RecordTransactionOwner_tx en tid who rid l = Inr l' \<Longrightarrow> same_tx l l'"
  "GrantTransactionAccess_tx en tid actor subj p adm rid l = Inr l' \<Longrightarrow> same_tx l l'"
  "RevokeTransactionAccess_tx en tid actor subj adm rid l = Inr l' \<Longrightarrow> same_tx l l'"
proof -
  show "RecordRuntimeExecution_tx en r l = Inr l' \<Longrightarrow> same_tx l l'"
    by (auto simp: RecordRuntimeExecution_tx_def try_bind_Inr appendEvent_def same_tx_def dest: append_event_same)
  show "AcquireLease_tx en name who ttl l = Inr l' \<Longrightarrow> same_tx l l'"
    by (auto simp: AcquireLease_tx_def Let_def same_tx_def split: option.splits if_splits)
  show "BeginEffectAttempt_tx en eid phase d token l = Inr l' \<Longrightarrow> same_tx l l'"
    by (cases "phase = ''commit''")
      (auto simp: BeginEffectAttempt_tx_def Let_def try_bind_Inr appendEffectEvent_def same_tx_def dest!: append_event_same)
  show "MarkEffectUnknown_tx en a cls msg l = Inr l' \<Longrightarrow> same_tx l l'"
    by (auto simp: MarkEffectUnknown_tx_def try_bind_Inr appendEffectEvent_def same_tx_def set_effect_status_def dest!: append_event_same)
  show "MarkEffectDefiniteFailure_tx en a http cls msg l = Inr l' \<Longrightarrow> same_tx l l'"
    by (auto simp: MarkEffectDefiniteFailure_tx_def try_bind_Inr appendEffectEvent_def same_tx_def set_effect_status_def dest!: append_event_same)
  show "RecordEffectCommitted_tx en a rc l = Inr l' \<Longrightarrow> same_tx l l'"
    by (auto simp: RecordEffectCommitted_tx_def Let_def try_bind_Inr appendEffectEvent_def same_tx_def set_effect_status_def dest!: append_event_same)
  show "RearmEffect_tx en eid att reason l = Inr l' \<Longrightarrow> same_tx l l'"
    by (cases att) (auto simp: RearmEffect_tx_def try_bind_Inr appendEffectEvent_def same_tx_def set_effect_status_def dest!: append_event_same)
  show "RecordMaterializedRef_tx en tid rf l = Inr l' \<Longrightarrow> same_tx l l'"
    by (auto simp: RecordMaterializedRef_tx_def Let_def try_bind_Inr appendEvent_def same_tx_def dest!: append_event_same)
  show "RecordTransactionOwner_tx en tid who rid l = Inr l' \<Longrightarrow> same_tx l l'"
    by (auto simp: RecordTransactionOwner_tx_def try_bind_Inr same_tx_def dest!: append_access_same)
  show "GrantTransactionAccess_tx en tid actor subj p adm rid l = Inr l' \<Longrightarrow> same_tx l l'"
    by (auto simp: GrantTransactionAccess_tx_def try_bind_Inr same_tx_def dest!: append_access_same)
  show "RevokeTransactionAccess_tx en tid actor subj adm rid l = Inr l' \<Longrightarrow> same_tx l l'"
    by (auto simp: RevokeTransactionAccess_tx_def try_bind_Inr same_tx_def dest!: append_access_same)
qed

lemma same_tx_trans: "same_tx l1 l2 \<Longrightarrow> same_tx l2 l3 \<Longrightarrow> same_tx l1 l3"
  by (simp add: same_tx_def)

lemma abort_loop_same_tx: "abort_loop en i tid reason es l = Inr l' \<Longrightarrow> same_tx l l'"
proof (induction es arbitrary: i l)
  case (Cons e es)
  then obtain l1 where "appendEffectEvent (NewID en i ''event'') tid (ef_id e) ''effect.aborted''
         (JObj [(''reason'', JStr reason)]) 0 (en_now en) (set_effect_status (en_now en) (ef_id e) EffectAborted l) = Inr l1"
      and "abort_loop en (i + 1) tid reason es l1 = Inr l'"
    by (auto simp: try_bind_Inr)
  then have "same_tx l l1" "same_tx l1 l'"
    using Cons.IH by (auto simp: appendEffectEvent_def same_tx_def set_effect_status_def dest!: append_event_same)
  then show ?case by (rule same_tx_trans)
qed simp

lemma AbortEffects_same_tx: "AbortPreparedEffects_tx en tid reason l = Inr l' \<Longrightarrow> same_tx l l'"
  by (auto simp: AbortPreparedEffects_tx_def try_bind_Inr dest: abort_loop_same_tx)

lemma Create_get_tx:
  assumes "Create_tx en t0 w l = Inr l'"
  shows "get_tx (tx_id t0) l = None \<and> (\<exists>t. get_tx (tx_id t0) l' = Some t \<and> tx_status t = StateActive \<and> tx_revision t = 1
      \<and> tx_approval t = None) \<and> (\<forall>x. x \<noteq> tx_id t0 \<longrightarrow> get_tx x l' = get_tx x l)"
proof -
  have id: "tx_id (create_row en t0) = tx_id t0" by (simp add: create_row_def Let_def)
  define row where "row = (create_row en t0)\<lparr>tx_workspace_identity := ws_path w, tx_base_revision := ws_base_oid w,
    tx_approval := None, tx_sealed := None\<rparr>"
  define l0 where "l0 = l\<lparr>transactions := transactions l @ [row],
    workspaces := workspaces l @ [w\<lparr>ws_tx := tx_id t0, ws_created := tx_created (create_row en t0)\<rparr>]\<rparr>"
  have row: "tx_id row = tx_id t0" "tx_status row = StateActive" "tx_revision row = 1" "tx_approval row = None"
    by (simp_all add: row_def create_row_def Let_def)
  have l0: "transactions l0 = transactions l @ [row]" by (simp add: l0_def)
  from assms have fresh: "\<not> has_key tx_id (tx_id t0) (transactions l)"
    by (simp add: Create_tx_def Let_def try_bind_Inr id)
  from assms have "\<exists>eid1 k1 p1 n1 l1. appendChainedEvent eid1 (tx_id t0) [] k1 p1 0 n1 l0 = Inr l1
     \<and> (\<exists>aid b c d e f n2 l2. appendTransactionAccessEvent aid (tx_id t0) b c d e f n2 l1 = Inr l2
     \<and> (\<exists>eid3 k3 p3 n3. appendChainedEvent eid3 (tx_id t0) [] k3 p3 0 n3 l2 = Inr l'))"
    unfolding Create_tx_def Let_def try_bind_Inr appendEvent_def id l0_def row_def by blast
  then have same: "\<forall>x. get_tx x l' = get_tx x l0"
    by (auto dest!: append_event_same append_access_same)
  have "get_tx x l0 = (if x = tx_id t0 then Some row else get_tx x l)" for x
    using fresh row(1) by (auto simp: get_tx_def l0 table_simps has_key_find split: option.splits)
  with same row fresh show ?thesis by (simp add: get_tx_has_key [symmetric])
qed

subsection \<open>One step of a transaction\<close>

definition tx_evolves :: "string \<Rightarrow> ledger \<Rightarrow> ledger \<Rightarrow> bool" where
  "tx_evolves tid l l' = (get_tx tid l' = get_tx tid l
     \<or> (\<exists>kind t t'. get_tx tid l = Some t \<and> get_tx tid l' = Some t' \<and> tx_change kind t t')
     \<or> (get_tx tid l = None \<and> (\<exists>t'. get_tx tid l' = Some t' \<and> tx_status t' = StateActive \<and> tx_revision t' = 1
          \<and> tx_approval t' = None)))"

text \<open>The transaction an operation may change.\<close>

fun op_target :: "ledger_op \<Rightarrow> ledger \<Rightarrow> string option" where
  "op_target (OpCreate t w) l = Some (tx_id t)"
| "op_target (OpTransition tid a b actor reason m i) l = Some tid"
| "op_target (OpRecordPatch tid p) l = Some tid"
| "op_target (OpRecordVerification tid r) l = Some tid"
| "op_target (OpApprove tid d who sig ex) l = Some tid"
| "op_target (OpBeginCommit tid d) l = Some tid"
| "op_target (OpNeedsReconciliation tid reason) l = Some tid"
| "op_target (OpCreateEffect e) l = Some (ef_tx e)"
| "op_target (OpRefreshEffect eid pj pd vj vd rs) l = map_option ef_tx (get_effect eid l)"
| "op_target (OpFinalize tid) l = Some tid"
| "op_target _ l = None"

lemma moves_evolves: "moves kind tid l l' \<Longrightarrow> tx_evolves x l l'"
  by (cases "x = tid") (auto simp: moves_def tx_evolves_def)

lemma moves_other: "moves kind tid l l' \<Longrightarrow> x \<noteq> tid \<Longrightarrow> get_tx x l' = get_tx x l"
  by (auto simp: moves_def)

lemma tx_evolves_refl: "tx_evolves tid l l"
  by (simp add: tx_evolves_def)

lemma body_moves:
  assumes "op_body en op l = Inr l'"
  shows "same_tx l l' \<or> (\<exists>kind tid. op_target op l = Some tid \<and> moves kind tid l l')
     \<or> (\<exists>t w. op = OpCreate t w \<and> Create_tx en t w l = Inr l')"
proof (cases op)
  case (OpTransition tid a b actor reason m i)
  with assms show ?thesis using Transition_moves
    by (fastforce simp: try_bind_Inr ValidateTransition_def)
next
  case (OpNeedsReconciliation tid reason)
  with assms show ?thesis using Transition_moves
    by (fastforce simp: try_bind_Inr ValidateTransition_def Get_def)
next
  case (OpCreateEffect e)
  with assms show ?thesis using CreateEffect_moves [of en "prepared_effect en e" l l']
    by (auto simp: try_bind_Inr prepared_effect_def)
next
  case (OpRefreshEffect eid pj pd vj vd rs)
  with assms RefreshEffect_moves [of en eid pj pd vj vd rs l l'] show ?thesis by auto
next
  case (OpCreate t w)
  with assms show ?thesis by simp
qed (use assms in \<open>auto simp: try_bind_Inr intro: RecordPatch_moves RecordVerification_moves Approve_moves BeginCommit_moves
    Finalize_moves dest: writes_same_tx AbortEffects_same_tx\<close>)

lemma body_evolves: "op_body en op l = Inr l' \<Longrightarrow> tx_evolves tid l l'"
proof -
  assume b: "op_body en op l = Inr l'"
  have "tx_evolves tid l l'" if "Create_tx en t w l = Inr l'" for t w
    using Create_get_tx [OF that] by (cases "tid = tx_id t") (auto simp: tx_evolves_def)
  moreover have "same_tx l l' \<Longrightarrow> tx_evolves tid l l'" by (simp add: same_tx_def tx_evolves_def)
  ultimately show ?thesis using body_moves [OF b] moves_evolves by blast
qed

lemma exec_evolves: "tx_evolves tid l (snd (exec en op l))"
  using exec_cases [of en op l] body_evolves tx_evolves_refl by metis

lemma exec_other: "op_target op l \<noteq> Some x \<Longrightarrow> get_tx x (snd (exec en op l)) = get_tx x l"
  using exec_cases [of en op l]
proof
  assume x: "op_target op l \<noteq> Some x" and b: "op_body en op l = Inr (snd (exec en op l))"
  from body_moves [OF b] x show ?thesis
    using moves_other Create_get_tx by (fastforce simp: same_tx_def)
qed simp

subsection \<open>Effect rows\<close>

text \<open>The columns of an effect that only \<open>RefreshExternalEffect\<close> may replace are kept by \<open>effect_fixed\<close>,
  which blanks the columns a commit attempt changes.\<close>

definition effect_fixed :: "external_effect \<Rightarrow> external_effect" where
  "effect_fixed e = e\<lparr>ef_status := EffectUnset, ef_commit_request := [], ef_commit_fence := 0, ef_revision := 0, ef_updated := 0\<rparr>"

text \<open>One change of an effect row; the set gives the outcomes an operation may record.\<close>

inductive effect_step :: "effect_state set \<Rightarrow> external_effect \<Rightarrow> external_effect \<Rightarrow> bool" for outcomes where
  st_commit: "EffectCommitting \<in> outcomes \<Longrightarrow> ef_status e \<in> {EffectVerified, EffectPrepared} \<Longrightarrow>
     effect_step outcomes e (e\<lparr>ef_status := EffectCommitting, ef_commit_request := d, ef_commit_fence := token,
       ef_revision := ef_revision e + 1, ef_updated := now\<rparr>)"
| st_outcome: "st \<in> outcomes \<Longrightarrow> st \<in> {EffectUnknown, EffectVerified, EffectCommitted} \<Longrightarrow>
     effect_step outcomes e (e\<lparr>ef_status := st, ef_revision := ef_revision e + 1, ef_updated := now\<rparr>)"
| st_abort: "EffectAborted \<in> outcomes \<Longrightarrow> ef_status e \<in> {EffectVerified, EffectPrepared} \<Longrightarrow>
     effect_step outcomes e (e\<lparr>ef_status := EffectAborted, ef_revision := ef_revision e + 1, ef_updated := now\<rparr>)"

inductive_cases effect_step_elims: "effect_step outcomes e e'"

lemma effect_fixed_proj [simp]:
  "ef_id (effect_fixed e) = ef_id e" "ef_tx (effect_fixed e) = ef_tx e" "ef_rank (effect_fixed e) = ef_rank e"
  "ef_prepared_digest (effect_fixed e) = ef_prepared_digest e" "ef_depends (effect_fixed e) = ef_depends e"
  by (simp_all add: effect_fixed_def)

lemma effect_fixed_eqD:
  assumes "effect_fixed a = effect_fixed b"
  shows "ef_id a = ef_id b" "ef_tx a = ef_tx b" "ef_tool a = ef_tool b" "ef_adapter a = ef_adapter b"
    "ef_credential a = ef_credential b" "ef_operation a = ef_operation b" "ef_destination a = ef_destination b"
    "ef_input_digest a = ef_input_digest b" "ef_prepared_json a = ef_prepared_json b"
    "ef_prepared_digest a = ef_prepared_digest b" "ef_preview_digest a = ef_preview_digest b"
    "ef_resources a = ef_resources b" "ef_idem a = ef_idem b" "ef_rank a = ef_rank b"
    "ef_reversibility a = ef_reversibility b" "ef_support a = ef_support b"
  using assms by (cases a; cases b; simp add: effect_fixed_def)+

definition fixed_rows :: "ledger \<Rightarrow> external_effect list" where
  "fixed_rows l = map effect_fixed (effects l)"

lemma map_modify_row:
  "(\<And>r. g (f r) = g r) \<Longrightarrow> map g (modify_row key k f rows) = map g rows"
  by (induction rows) (auto simp: modify_row_def table_simps)

lemma set_effect_status_fixed [simp]: "fixed_rows (set_effect_status now eid st l) = fixed_rows l"
  by (simp add: fixed_rows_def set_effect_status_def update_effect_def map_modify_row effect_fixed_def)

lemma fixed_rows_frame [simp]:
  "fixed_rows (l\<lparr>events := a\<rparr>) = fixed_rows l" "fixed_rows (close_attempt aid f l) = fixed_rows l"
  "fixed_rows (l\<lparr>attempts := b\<rparr>) = fixed_rows l" "fixed_rows (l\<lparr>receipts := c\<rparr>) = fixed_rows l"
  "fixed_rows (l\<lparr>transactions := d\<rparr>) = fixed_rows l" "fixed_rows (l\<lparr>patches := e\<rparr>) = fixed_rows l"
  "fixed_rows (l\<lparr>runs := g, checks := h\<rparr>) = fixed_rows l" "fixed_rows (l\<lparr>approvals := i\<rparr>) = fixed_rows l"
  "fixed_rows (l\<lparr>executions := j\<rparr>) = fixed_rows l" "fixed_rows (l\<lparr>leases := k\<rparr>) = fixed_rows l"
  "fixed_rows (l\<lparr>refs := m\<rparr>) = fixed_rows l" "fixed_rows (l\<lparr>grants := n\<rparr>) = fixed_rows l"
  "fixed_rows (l\<lparr>access_events := p\<rparr>) = fixed_rows l"
  "fixed_rows (l\<lparr>transactions := q, workspaces := r\<rparr>) = fixed_rows l"
  by (simp_all add: fixed_rows_def close_attempt_def)

end
