(* ===== verification/LedgerTables.thy ===== *)
theory LedgerTables
  imports LedgerStates
begin

text \<open>
  Which operation writes which of the tables that back an approval and a commit: patches,
  verification runs, approvals, receipts, references and the fixed columns of the effects.  One
  lemma per operation gives its writes; \<open>body_tables\<close> collects them.
\<close>

definition same_tables :: "ledger \<Rightarrow> ledger \<Rightarrow> bool" where
  "same_tables l l' = (patches l' = patches l \<and> runs l' = runs l \<and> approvals l' = approvals l \<and> refs l' = refs l)"

lemma same_tables_refl [simp]: "same_tables l l"
  by (simp add: same_tables_def)

lemma same_tables_event:
  "appendChainedEvent eid tid eff kind payload fence at l = Inr l' \<Longrightarrow> same_tables l l' \<and> fixed_rows l' = fixed_rows l
     \<and> effects l' = effects l \<and> receipts l' = receipts l"
  by (auto simp: body_simps same_tables_def fixed_rows_def)

lemma same_tables_access:
  "appendTransactionAccessEvent eid tid actor subject action permission rid now l = Inr l' \<Longrightarrow>
     same_tables l l' \<and> fixed_rows l' = fixed_rows l \<and> effects l' = effects l \<and> receipts l' = receipts l"
  by (auto simp: same_tables_def fixed_rows_def dest!: appendTransactionAccessEvent_Inr)

lemma same_tables_tx:
  "update_tx tid revision f l = Inr l' \<Longrightarrow> same_tables l l' \<and> fixed_rows l' = fixed_rows l \<and> effects l' = effects l \<and> receipts l' = receipts l"
  by (auto simp: body_simps same_tables_def fixed_rows_def)

lemmas table_dests = same_tables_event same_tables_access same_tables_tx

lemma set_status_tables [simp]:
  "patches (set_effect_status now eid st l) = patches l" "runs (set_effect_status now eid st l) = runs l"
  "approvals (set_effect_status now eid st l) = approvals l" "refs (set_effect_status now eid st l) = refs l"
  "receipts (set_effect_status now eid st l) = receipts l"
  by (simp_all add: set_effect_status_def)

lemma update_effect_fixed:
  "(\<And>e. effect_fixed (f e) = effect_fixed e) \<Longrightarrow> fixed_rows (update_effect eid f l) = fixed_rows l"
  by (simp add: fixed_rows_def update_effect_def map_modify_row)

text \<open>Bodies that write none of these tables except the columns of an attempt.\<close>

definition quiet :: "ledger \<Rightarrow> ledger \<Rightarrow> bool" where
  "quiet l l' = (same_tables l l' \<and> fixed_rows l' = fixed_rows l)"

lemma quiet_trans: "quiet l1 l2 \<Longrightarrow> quiet l2 l3 \<Longrightarrow> quiet l1 l3"
  by (simp add: quiet_def same_tables_def)

lemma abort_loop_quiet: "abort_loop en i tid reason es l = Inr l' \<Longrightarrow> quiet l l'"
proof (induction es arbitrary: i l)
  case (Cons e es)
  then obtain l1 where "appendEffectEvent (NewID en i ''event'') tid (ef_id e) ''effect.aborted''
         (JObj [(''reason'', JStr reason)]) 0 (en_now en) (set_effect_status (en_now en) (ef_id e) EffectAborted l) = Inr l1"
      and "abort_loop en (i + 1) tid reason es l1 = Inr l'"
    by (auto simp: try_bind_Inr)
  then have "quiet l l1" "quiet l1 l'"
    using Cons.IH by (auto simp: appendEffectEvent_def quiet_def same_tables_def dest!: table_dests)
  then show ?case by (rule quiet_trans)
qed (simp add: quiet_def)

lemma Create_quiet: "Create_tx en t w l = Inr l' \<Longrightarrow> quiet l l'"
  by (auto simp: Create_tx_def Let_def try_bind_Inr appendEvent_def quiet_def same_tables_def dest!: table_dests)

lemma Transition_quiet: "Transition_tx en tid a b actor reason m i l = Inr l' \<Longrightarrow> quiet l l'"
  unfolding Transition_tx_def try_bind_Inr appendEvent_def
  by (elim exE conjE, drule same_tables_tx, drule same_tables_event) (simp add: quiet_def same_tables_def)

lemma BeginCommit_quiet: "BeginCommit_tx en tid d l = Inr l' \<Longrightarrow> quiet l l'"
  unfolding BeginCommit_tx_def try_bind_Inr appendEvent_def
  by (elim exE conjE, drule same_tables_tx, drule same_tables_event) (simp add: quiet_def same_tables_def)

lemma Finalize_quiet: "FinalizeTransactionCommit_tx en tid l = Inr l' \<Longrightarrow> quiet l l'"
  unfolding FinalizeTransactionCommit_tx_def try_bind_Inr appendEvent_def
  by (elim exE conjE, drule same_tables_tx, drule same_tables_event) (simp add: quiet_def same_tables_def)

lemma Execution_quiet: "RecordRuntimeExecution_tx en r l = Inr l' \<Longrightarrow> quiet l l'"
  by (auto simp: RecordRuntimeExecution_tx_def try_bind_Inr appendEvent_def quiet_def same_tables_def dest!: table_dests)

lemma AcquireLease_quiet: "AcquireLease_tx en name who ttl l = Inr l' \<Longrightarrow> quiet l l'"
  by (auto simp: AcquireLease_tx_def Let_def quiet_def same_tables_def split: option.splits if_splits)

lemma BeginAttempt_quiet: "BeginEffectAttempt_tx en eid phase d token l = Inr l' \<Longrightarrow> quiet l l'"
  by (cases "phase = ''commit''")
    (auto simp: BeginEffectAttempt_tx_def Let_def try_bind_Inr appendEffectEvent_def quiet_def same_tables_def
      update_effect_fixed effect_fixed_def dest!: table_dests)

lemma Outcome_quiet:
  "MarkEffectUnknown_tx en a cls msg l = Inr l' \<Longrightarrow> quiet l l'"
  "MarkEffectDefiniteFailure_tx en a http cls msg l = Inr l' \<Longrightarrow> quiet l l'"
  by (auto simp: MarkEffectUnknown_tx_def MarkEffectDefiniteFailure_tx_def try_bind_Inr appendEffectEvent_def quiet_def
      same_tables_def dest!: table_dests)

lemma Rearm_quiet: "RearmEffect_tx en eid att reason l = Inr l' \<Longrightarrow> quiet l l'"
  by (cases att) (auto simp: RearmEffect_tx_def try_bind_Inr appendEffectEvent_def quiet_def same_tables_def dest!: table_dests)

lemma EffectCommitted_quiet: "RecordEffectCommitted_tx en a r l = Inr l' \<Longrightarrow> quiet l l'"
  by (auto simp: RecordEffectCommitted_tx_def Let_def try_bind_Inr appendEffectEvent_def quiet_def same_tables_def dest!: table_dests)

lemma AbortEffects_quiet: "AbortPreparedEffects_tx en tid reason l = Inr l' \<Longrightarrow> quiet l l'"
  by (auto simp: AbortPreparedEffects_tx_def try_bind_Inr dest: abort_loop_quiet)

lemma Sharing_quiet:
  "RecordTransactionOwner_tx en tid who rid l = Inr l' \<Longrightarrow> quiet l l'"
  "GrantTransactionAccess_tx en tid actor subj p adm rid l = Inr l' \<Longrightarrow> quiet l l'"
  "RevokeTransactionAccess_tx en tid actor subj adm rid l = Inr l' \<Longrightarrow> quiet l l'"
  by (auto simp: RecordTransactionOwner_tx_def GrantTransactionAccess_tx_def RevokeTransactionAccess_tx_def try_bind_Inr
      quiet_def same_tables_def dest!: table_dests)

lemmas quiet_bodies = Create_quiet Transition_quiet BeginCommit_quiet Finalize_quiet Execution_quiet AcquireLease_quiet
  BeginAttempt_quiet Outcome_quiet Rearm_quiet EffectCommitted_quiet AbortEffects_quiet Sharing_quiet

text \<open>The operations that do write one of the tables.\<close>

lemma RecordPatch_tables: "RecordPatch_tx en tid p l = Inr l' \<Longrightarrow>
    \<exists>q. pa_tx q = tid \<and> patches l' = patches l @ [q] \<and> runs l' = runs l \<and> approvals l' = approvals l
      \<and> refs l' = refs l \<and> fixed_rows l' = fixed_rows l"
  by (auto simp: RecordPatch_tx_def Let_def try_bind_Inr appendEvent_def same_tables_def dest!: table_dests)

lemma RecordVerification_tables: "RecordVerification_tx en tid r l = Inr l' \<Longrightarrow>
    \<exists>v. vn_tx v = tid \<and> vn_outcome v = vr_outcome r \<and> runs l' = runs l @ [v] \<and> patches l' = patches l
      \<and> approvals l' = approvals l \<and> refs l' = refs l \<and> fixed_rows l' = fixed_rows l"
  by (auto simp: RecordVerification_tx_def Let_def try_bind_Inr appendEvent_def same_tables_def dest!: table_dests)

lemma Approve_tables: "ApproveWithEvidence_tx en tid d who sig ex l = Inr l' \<Longrightarrow>
    \<exists>a cur. get_tx tid l = Some cur \<and> ap_tx a = tid \<and> ap_digest a = d \<and> ap_material a = tx_material cur
      \<and> approvals l' = approvals l @ [a] \<and> patches l' = patches l \<and> runs l' = runs l
      \<and> refs l' = refs l \<and> fixed_rows l' = fixed_rows l"
  by (auto simp: ApproveWithEvidence_tx_def try_bind_Inr appendEvent_def same_tables_def dest!: table_dests)

lemma Materialize_tables: "RecordMaterializedRef_tx en tid r l = Inr l' \<Longrightarrow>
    patches l' = patches l \<and> runs l' = runs l \<and> approvals l' = approvals l \<and> fixed_rows l' = fixed_rows l
      \<and> has_key mr_tx tid (refs l')"
  by (auto simp: RecordMaterializedRef_tx_def Let_def try_bind_Inr appendEvent_def same_tables_def has_key_find
      dest!: table_dests)

lemma CreateEffect_tables: "CreateExternalEffect_tx en e l = Inr l' \<Longrightarrow>
    same_tables l l' \<and> effects l' = effects l @ [e\<lparr>ef_commit_request := [], ef_commit_fence := 0, ef_depends := []\<rparr>]"
  unfolding CreateExternalEffect_tx_def Let_def try_bind_Inr appendEffectEvent_def
  by (elim exE conjE, drule same_tables_tx, drule same_tables_event) (simp add: same_tables_def)

lemma RefreshEffect_tables: "RefreshExternalEffect_tx en eid pj pd vj vd rs l = Inr l' \<Longrightarrow>
    \<exists>f. same_tables l l' \<and> effects l' = modify_row ef_id eid f (effects l)
      \<and> (\<forall>e. ef_id (f e) = ef_id e \<and> ef_tx (f e) = ef_tx e \<and> ef_status (f e) = EffectVerified)"
  unfolding RefreshExternalEffect_tx_def try_bind_Inr appendEffectEvent_def
  by (elim exE conjE, drule same_tables_tx, drule same_tables_event)
    (rule exI, auto simp: same_tables_def update_effect_def)

end
