(* ===== verification/LedgerBinding.thy ===== *)
theory LedgerBinding
  imports LedgerTables
begin

text \<open>
  What an approval binds.  An approval digest is the digest of a JSON document naming the sealed
  patch, the verification run and every live effect.  \<open>binding_ok\<close> states that the approval stored in a
  transaction is always the digest of its present patch, present verification run and present
  effects (up to the columns a commit attempt writes): nothing can be changed after the approval
  without clearing it.
\<close>

subsection \<open>Effect states\<close>

definition statuses_ok :: "ledger \<Rightarrow> bool" where
  "statuses_ok l = (\<forall>e \<in> set (effects l).
     ef_status e \<in> {EffectVerified, EffectCommitting, EffectUnknown, EffectCommitted, EffectAborted})"

definition status_step :: "effect_state set \<Rightarrow> ledger \<Rightarrow> ledger \<Rightarrow> bool" where
  "status_step S l l' = list_all2 (\<lambda>e e'. (effect_step S)\<^sup>*\<^sup>* e e') (effects l) (effects l')"

lemma status_step_refl [simp]: "status_step S l l" "effects l' = effects l \<Longrightarrow> status_step S l l'"
  by (simp_all add: status_step_def list_all2_same)

lemma status_step_trans: "status_step S l1 l2 \<Longrightarrow> status_step S l2 l3 \<Longrightarrow> status_step S l1 l3"
  unfolding status_step_def
  by (rule list_all2_trans [where ?P1.0 = "(effect_step S)\<^sup>*\<^sup>*" and ?P2.0 = "(effect_step S)\<^sup>*\<^sup>*"]) (rule rtranclp_trans)

lemma status_step_update:
  "(\<And>e. e \<in> set (effects l) \<Longrightarrow> ef_id e = eid \<Longrightarrow> effect_step S e (f e)) \<Longrightarrow> status_step S l (update_effect eid f l)"
  by (auto simp: status_step_def update_effect_def modify_row_def update_where_def list_all2_map2 list.rel_map
      intro!: list.rel_refl_strong)

lemma status_step_set: "st \<in> S \<Longrightarrow> st \<in> {EffectUnknown, EffectVerified, EffectCommitted} \<Longrightarrow> status_step S l (set_effect_status now eid st l)"
  unfolding set_effect_status_def by (intro status_step_update st_outcome)

lemma effect_unique: "keys_ok l \<Longrightarrow> get_effect eid l = Some e \<Longrightarrow> x \<in> set (effects l) \<Longrightarrow> ef_id x = eid \<Longrightarrow> x = e"
  using find_row_unique [of ef_id "effects l" x] by (auto simp: keys_ok_def get_effect_def)

lemma BeginAttempt_status:
  assumes "keys_ok l" and "BeginEffectAttempt_tx en eid phase d token l = Inr l'"
  shows "status_step {EffectCommitting} l l'"
proof -
  obtain e where e: "get_effect eid l = Some e" and ready: "phase = ''commit'' \<longrightarrow> ef_status e \<in> {EffectVerified, EffectPrepared}"
    using assms(2) by (auto simp: BeginEffectAttempt_tx_def Let_def try_bind_Inr)
  define att where "att = new_attempt en (ef_tx e) eid phase d token"
  define f where "f = (\<lambda>r::external_effect. r\<lparr>ef_status := EffectCommitting, ef_commit_request := d, ef_commit_fence := token,
                           ef_revision := ef_revision r + 1, ef_updated := en_now en\<rparr>)"
  have l': "effects l' = effects (if phase = ''commit'' then update_effect eid f l else l)"
    using assms(2) e unfolding f_def
    by (cases "phase = ''commit''") (auto simp: BeginEffectAttempt_tx_def Let_def try_bind_Inr appendEffectEvent_def update_effect_def dest!: table_dests)
  have "status_step {EffectCommitting} l (update_effect eid f l)" if "phase = ''commit''"
  proof (rule status_step_update)
    fix x assume "x \<in> set (effects l)" "ef_id x = eid"
    with effect_unique [OF assms(1) e] ready that show "effect_step {EffectCommitting} x (f x)" unfolding f_def by (intro st_commit) auto
  qed
  with l' show ?thesis by (cases "phase = ''commit''") (auto simp: status_step_def list_all2_same)
qed

lemma abort_loop_status:
  assumes "abort_loop en i tid reason es l = Inr l'" and "unique_key ef_id (effects l)" and "distinct (map ef_id es)"
    and "\<forall>e \<in> set es. \<exists>e'. get_effect (ef_id e) l = Some e' \<and> ef_status e' \<in> {EffectVerified, EffectPrepared}"
  shows "status_step {EffectAborted} l l'"
  using assms
proof (induction es arbitrary: i l)
  case (Cons e es)
  define l0 where "l0 = set_effect_status (en_now en) (ef_id e) EffectAborted l"
  obtain l1 where l1: "effects l1 = effects l0" and rest: "abort_loop en (i + 1) tid reason es l1 = Inr l'"
    using Cons.prems(1) by (auto simp: try_bind_Inr appendEffectEvent_def l0_def dest!: table_dests)
  obtain e' where e': "get_effect (ef_id e) l = Some e'" "ef_status e' \<in> {EffectVerified, EffectPrepared}"
    using Cons.prems(4) by auto
  have "x = e'" if "x \<in> set (effects l)" "ef_id x = ef_id e" for x
    using find_row_unique [OF Cons.prems(2) that(1)] that(2) e'(1) by (simp add: get_effect_def)
  then have "status_step {EffectAborted} l l0"
    unfolding l0_def set_effect_status_def using e'(2) by (intro status_step_update st_abort) auto
  moreover have "status_step {EffectAborted} l1 l'"
  proof (rule Cons.IH [OF rest])
    show "unique_key ef_id (effects l1)"
      using Cons.prems(2) by (simp add: l1 l0_def set_effect_status_def update_effect_def unique_key_modify_row)
    have "get_effect (ef_id x) l1 = get_effect (ef_id x) l" if "x \<in> set es" for x
    proof -
      have "ef_id x \<noteq> ef_id e" using that Cons.prems(3) by (auto simp: image_iff)
      then show ?thesis by (simp add: get_effect_def l1 l0_def set_effect_status_def update_effect_def find_row_modify_row)
    qed
    then show "\<forall>x \<in> set es. \<exists>e'. get_effect (ef_id x) l1 = Some e' \<and> ef_status e' \<in> {EffectVerified, EffectPrepared}"
      using Cons.prems(4) by simp
  qed (use Cons.prems(3) in simp)
  moreover have "status_step {EffectAborted} l0 l1" by (rule status_step_refl(2)) (rule l1)
  ultimately show ?case by (blast intro: status_step_trans)
qed simp

lemma AbortEffects_status:
  assumes "keys_ok l" and "AbortPreparedEffects_tx en tid reason l = Inr l'"
  shows "status_step {EffectAborted} l l'"
proof -
  let ?es = "filter (\<lambda>e. ef_tx e = tid \<and> ef_status e \<in> {EffectPrepared, EffectVerified}) (effects l)"
  have "abort_loop en 0 tid reason ?es l = Inr l'" using assms(2) by (auto simp: AbortPreparedEffects_tx_def try_bind_Inr)
  then show ?thesis
  proof (rule abort_loop_status)
    show uk: "unique_key ef_id (effects l)" using assms(1) by (simp add: keys_ok_def)
    then show "distinct (map ef_id ?es)" using unique_key_filter by (fastforce simp: unique_key_def)
    show "\<forall>e \<in> set ?es. \<exists>e'. get_effect (ef_id e) l = Some e' \<and> ef_status e' \<in> {EffectVerified, EffectPrepared}"
      using find_row_unique [OF uk] by (auto simp: get_effect_def)
  qed
qed

lemma event_status: "appendChainedEvent eid tid eff kind payload fence at l0 = Inr l' \<Longrightarrow> status_step S l l0 \<Longrightarrow> status_step S l l'"
  by (drule same_tables_event) (simp add: status_step_def)

lemma Outcome_status:
  "MarkEffectUnknown_tx en a cls msg l = Inr l' \<Longrightarrow> status_step {EffectUnknown, EffectVerified} l l'"
  "MarkEffectDefiniteFailure_tx en a http cls msg l = Inr l' \<Longrightarrow> status_step {EffectUnknown, EffectVerified} l l'"
proof -
  have closed: "status_step {EffectUnknown, EffectVerified} l (set_effect_status now eid st (close_attempt aid f l))"
    if "st \<in> {EffectUnknown, EffectVerified}" for now eid st aid f
    using status_step_set [OF that, of "close_attempt aid f l" now eid] that by (auto simp add: status_step_def)
  show "MarkEffectUnknown_tx en a cls msg l = Inr l' \<Longrightarrow> status_step {EffectUnknown, EffectVerified} l l'"
    by (auto simp: MarkEffectUnknown_tx_def try_bind_Inr appendEffectEvent_def intro!: closed elim!: event_status)
  show "MarkEffectDefiniteFailure_tx en a http cls msg l = Inr l' \<Longrightarrow> status_step {EffectUnknown, EffectVerified} l l'"
    by (auto simp: MarkEffectDefiniteFailure_tx_def try_bind_Inr appendEffectEvent_def intro!: closed elim!: event_status)
qed

lemma Rearm_status: "RearmEffect_tx en eid att reason l = Inr l' \<Longrightarrow> status_step {EffectUnknown, EffectVerified} l l'"
proof -
  have closed: "status_step {EffectUnknown, EffectVerified} l (set_effect_status now eid EffectVerified (close_attempt aid f l))" for now eid aid f
    using status_step_set [of EffectVerified "{EffectUnknown, EffectVerified}" "close_attempt aid f l" now eid] by (simp add: status_step_def)
  show "RearmEffect_tx en eid att reason l = Inr l' \<Longrightarrow> status_step {EffectUnknown, EffectVerified} l l'"
    by (cases att) (auto simp: RearmEffect_tx_def try_bind_Inr appendEffectEvent_def intro!: closed status_step_set elim!: event_status)
qed

lemma EffectCommitted_status: "RecordEffectCommitted_tx en a r l = Inr l' \<Longrightarrow> status_step {EffectCommitted} l l'"
proof -
  have closed: "status_step {EffectCommitted} l (set_effect_status now eid EffectCommitted l1)" if "effects l1 = effects l" for now eid l1
    using status_step_set [of EffectCommitted "{EffectCommitted}" l1 now eid] that by (simp add: status_step_def)
  show "RecordEffectCommitted_tx en a r l = Inr l' \<Longrightarrow> status_step {EffectCommitted} l l'"
    by (auto simp: RecordEffectCommitted_tx_def Let_def try_bind_Inr appendEffectEvent_def intro!: closed elim!: event_status)
qed

lemma plain_status:
  "Create_tx en t w l = Inr l' \<Longrightarrow> status_step S l l'"
  "Transition_tx en tid a b actor reason m i l = Inr l' \<Longrightarrow> status_step S l l'"
  "RecordPatch_tx en tid p l = Inr l' \<Longrightarrow> status_step S l l'"
  "RecordVerification_tx en tid rep l = Inr l' \<Longrightarrow> status_step S l l'"
  "ApproveWithEvidence_tx en tid d who sig ex l = Inr l' \<Longrightarrow> status_step S l l'"
  "BeginCommit_tx en tid d l = Inr l' \<Longrightarrow> status_step S l l'"
  "FinalizeTransactionCommit_tx en tid l = Inr l' \<Longrightarrow> status_step S l l'"
  "RecordRuntimeExecution_tx en rx l = Inr l' \<Longrightarrow> status_step S l l'"
  "AcquireLease_tx en name who ttl l = Inr l' \<Longrightarrow> status_step S l l'"
  "RecordMaterializedRef_tx en tid rf l = Inr l' \<Longrightarrow> status_step S l l'"
  "RecordTransactionOwner_tx en tid who rid l = Inr l' \<Longrightarrow> status_step S l l'"
  "GrantTransactionAccess_tx en tid actor subj pm adm rid l = Inr l' \<Longrightarrow> status_step S l l'"
  "RevokeTransactionAccess_tx en tid actor subj adm rid l = Inr l' \<Longrightarrow> status_step S l l'"
  by (rule status_step_refl(2);
      auto simp: Create_tx_def Transition_tx_def RecordPatch_tx_def RecordVerification_tx_def ApproveWithEvidence_tx_def
        BeginCommit_tx_def FinalizeTransactionCommit_tx_def RecordRuntimeExecution_tx_def AcquireLease_tx_def
        RecordMaterializedRef_tx_def RecordTransactionOwner_tx_def GrantTransactionAccess_tx_def RevokeTransactionAccess_tx_def
        Let_def try_bind_Inr appendEvent_def dest!: table_dests split: option.splits if_splits)+

text \<open>The outcomes an operation records, and how it changes the effect table.\<close>

definition op_outcomes :: "ledger_op \<Rightarrow> effect_state set" where
  "op_outcomes op = (case op of OpEffectCommitted a r \<Rightarrow> {EffectCommitted}
     | OpBeginAttempt eid phase d token \<Rightarrow> {EffectCommitting} | OpAbortEffects tid reason \<Rightarrow> {EffectAborted} | _ \<Rightarrow> {EffectUnknown, EffectVerified})"

lemma body_effects:
  assumes "keys_ok l" and "op_body en op l = Inr l'"
  shows "status_step (op_outcomes op) l l'
     \<or> (\<exists>e. ef_status e = EffectVerified \<and> ef_commit_request e = [] \<and> op_target op l = Some (ef_tx e) \<and> effects l' = effects l @ [e])
     \<or> (\<exists>eid f. op_target op l = map_option ef_tx (get_effect eid l) \<and> get_effect eid l \<noteq> None
           \<and> effects l' = modify_row ef_id eid f (effects l)
           \<and> (\<forall>e. ef_id (f e) = ef_id e \<and> ef_tx (f e) = ef_tx e \<and> ef_status (f e) = EffectVerified))"
proof (cases op)
  case (OpCreateEffect e)
  with assms(2) have "CreateExternalEffect_tx en (prepared_effect en e) l = Inr l'" "ef_status (prepared_effect en e) = EffectVerified"
    by (simp_all add: try_bind_Inr)
  from CreateEffect_tables [OF this(1)] this(2) OpCreateEffect show ?thesis
    by (intro disjI2 disjI1 exI [of _ "(prepared_effect en e)\<lparr>ef_commit_request := [], ef_commit_fence := 0, ef_depends := []\<rparr>"])
      (simp add: prepared_effect_def)
next
  case (OpRefreshEffect eid pj pd vj vd rs)
  with assms(2) have b: "RefreshExternalEffect_tx en eid pj pd vj vd rs l = Inr l'" by simp
  from RefreshEffect_moves [OF b] RefreshEffect_tables [OF b] OpRefreshEffect show ?thesis by auto
qed (use assms in \<open>auto simp: try_bind_Inr op_outcomes_def intro: plain_status Outcome_status Rearm_status EffectCommitted_status
    BeginAttempt_status AbortEffects_status\<close>)

lemma effect_step_live: "(effect_step S)\<^sup>*\<^sup>* e e' \<Longrightarrow>
    ef_status e \<in> {EffectVerified, EffectCommitting, EffectUnknown, EffectCommitted, EffectAborted} \<Longrightarrow>
    ef_status e' \<in> {EffectVerified, EffectCommitting, EffectUnknown, EffectCommitted, EffectAborted}"
  by (induction rule: rtranclp_induct) (auto elim!: effect_step_elims)

lemma effect_step_fixed: "(effect_step S)\<^sup>*\<^sup>* e e' \<Longrightarrow> effect_fixed e' = effect_fixed e"
  by (induction rule: rtranclp_induct) (auto elim!: effect_step_elims simp: effect_fixed_def)

lemma statuses_body:
  assumes "statuses_ok l" and "keys_ok l" and "op_body en op l = Inr l'"
  shows "statuses_ok l'"
  using body_effects [OF assms(2,3)]
proof (elim disjE exE conjE)
  assume step: "status_step (op_outcomes op) l l'"
  show ?thesis unfolding statuses_ok_def
  proof
    fix e' assume "e' \<in> set (effects l')"
    then obtain i where "i < length (effects l')" "e' = effects l' ! i" by (auto simp: in_set_conv_nth)
    with step have "effects l ! i \<in> set (effects l)" "(effect_step (op_outcomes op))\<^sup>*\<^sup>* (effects l ! i) e'"
      by (auto simp: status_step_def list_all2_conv_all_nth)
    then obtain e where "e \<in> set (effects l)" "(effect_step (op_outcomes op))\<^sup>*\<^sup>* e e'" by blast
    with assms(1) effect_step_live show "ef_status e' \<in> {EffectVerified, EffectCommitting, EffectUnknown, EffectCommitted, EffectAborted}"
      by (auto simp: statuses_ok_def)
  qed
qed (use assms(1) in \<open>auto simp: statuses_ok_def modify_row_def set_update_where\<close>)

lemma reach_keys: "reach l \<Longrightarrow> keys_ok l" by (rule keys.inv_reach)

lemma reach_statuses: "reach l \<Longrightarrow> statuses_ok l"
proof (induction rule: reach.induct)
  case reach_empty
  show ?case by (simp add: statuses_ok_def empty_ledger_def)
next
  case (reach_exec l en op)
  then show ?case using exec_cases [of en op l] statuses_body reach_keys by metis
qed

subsection \<open>The material an approval names\<close>

definition fixed_of :: "string \<Rightarrow> ledger \<Rightarrow> external_effect list" where
  "fixed_of tid l = filter (\<lambda>e. ef_tx e = tid) (fixed_rows l)"

definition runs_of :: "string \<Rightarrow> ledger \<Rightarrow> verification_run list" where
  "runs_of tid l = filter (\<lambda>v. vn_tx v = tid) (runs l)"

lemma sort_key_map_eq: "(\<And>x. f (g x) = f x) \<Longrightarrow> map g (sort_key f xs) = sort_key f (map g xs)"
proof -
  assume g: "\<And>x. f (g x) = f x"
  have ins: "insort_key f (g x) (map g ys) = map g (insort_key f x ys)" for x ys
    by (induction ys) (auto simp: g)
  show ?thesis by (induction xs) (auto simp: ins [symmetric])
qed

lemma live_effects_fixed:
  assumes "statuses_ok l"
  shows "map effect_fixed (live_effects tid l) = sort_key (\<lambda>e. (ef_rank e, ef_id e)) (fixed_of tid l)"
proof -
  have "filter (\<lambda>e. ef_tx e = tid \<and> ef_status e \<noteq> EffectSuperseded) (effects l) = filter (\<lambda>e. ef_tx e = tid) (effects l)"
    using assms by (intro filter_cong) (auto simp: statuses_ok_def)
  moreover have "map effect_fixed (filter (\<lambda>e. ef_tx e = tid) (effects l)) = fixed_of tid l"
    by (simp add: fixed_of_def fixed_rows_def filter_map comp_def)
  moreover have "map effect_fixed (sort_key (\<lambda>e. (ef_rank e, ef_id e)) xs)
      = sort_key (\<lambda>e. (ef_rank e, ef_id e)) (map effect_fixed xs)" for xs
    by (rule sort_key_map_eq) simp
  ultimately show ?thesis by (simp add: live_effects_def)
qed

lemma latest_run_of: "latest_run tid l = (case runs_of tid l of [] \<Rightarrow> None
    | v # vs \<Rightarrow> Some (fold (\<lambda>x best. if newer x best then x else best) vs v))"
  by (simp add: latest_run_def runs_of_def)

text \<open>The digest \<open>d\<close> names the transaction's patch, latest verification and effects as they are now.\<close>

definition names_material :: "string \<Rightarrow> transaction \<Rightarrow> ledger \<Rightarrow> string \<Rightarrow> bool" where
  "names_material tid t l d = (\<exists>p v es. get_patch tid l = Some p \<and> latest_run tid l = Some v
     \<and> map effect_fixed es = map effect_fixed (live_effects tid l)
     \<and> (\<forall>e \<in> set es. ef_status e \<in> {EffectVerified, EffectCommitted})
     \<and> d = Digest (material_json tid t p v (map effect_material es)))"

definition approval_ok :: "string \<Rightarrow> transaction \<Rightarrow> ledger \<Rightarrow> bool" where
  "approval_ok tid t l = (approval_text t \<noteq> [] \<longrightarrow> names_material tid t l (approval_text t)
     \<and> (\<exists>a \<in> set (approvals l). ap_tx a = tid \<and> ap_digest a = approval_text t \<and> ap_material a = tx_material t))"

definition binding_ok :: "ledger \<Rightarrow> bool" where
  "binding_ok l = (\<forall>tid t. get_tx tid l = Some t \<longrightarrow> approval_ok tid t l)"

lemma effect_materials_Inr: "effect_materials es = Inr ms \<longleftrightarrow>
    (\<forall>e \<in> set es. ef_status e \<in> {EffectVerified, EffectCommitted}) \<and> ms = map effect_material es"
  by (induction es arbitrary: ms) (auto simp: try_bind_Inr)

lemma approvalMaterial_names:
  "approvalMaterialWith tid t l = Inr d \<Longrightarrow> names_material tid t l d"
  by (auto simp: approvalMaterialWith_def try_bind_Inr effect_materials_Inr names_material_def)

lemma material_json_cong:
  "tx_base_revision t' = tx_base_revision t \<Longrightarrow> tx_material t' = tx_material t \<Longrightarrow>
     material_json tid t' p v ms = material_json tid t p v ms"
  by (simp add: material_json_def)

text \<open>What an approval of one transaction depends on.\<close>

definition same_view :: "string \<Rightarrow> ledger \<Rightarrow> ledger \<Rightarrow> bool" where
  "same_view tid l l' = (get_patch tid l' = get_patch tid l \<and> runs_of tid l' = runs_of tid l \<and> fixed_of tid l' = fixed_of tid l)"

lemma approval_ok_transfer:
  assumes "approval_ok tid t l" and "same_view tid l l'" and "set (approvals l) \<subseteq> set (approvals l')"
    and "statuses_ok l" "statuses_ok l'"
    and "approval_text t' = [] \<or> (approval_text t' = approval_text t \<and> tx_base_revision t' = tx_base_revision t
           \<and> tx_material t' = tx_material t)"
  shows "approval_ok tid t' l'"
proof (cases "approval_text t' = []")
  case False
  with assms(6) have t': "approval_text t' = approval_text t" "tx_base_revision t' = tx_base_revision t"
      "tx_material t' = tx_material t" by auto
  have "map effect_fixed (live_effects tid l') = map effect_fixed (live_effects tid l)"
    using assms(2,4,5) by (simp add: live_effects_fixed same_view_def)
  moreover have "get_patch tid l' = get_patch tid l" "latest_run tid l' = latest_run tid l"
    using assms(2) by (simp_all add: same_view_def latest_run_of)
  ultimately have "names_material tid t' l' d = names_material tid t l d" for d
    using material_json_cong [OF t'(2,3)] by (simp add: names_material_def)
  with assms(1,3) t' show ?thesis by (fastforce simp: approval_ok_def)
qed (simp add: approval_ok_def)

subsection \<open>The binding invariant\<close>

text \<open>The one discipline it needs of callers: a transition that changes the material clears the approval.\<close>

definition careful :: "ledger_op \<Rightarrow> bool" where
  "careful op = (case op of OpTransition tid a b actor reason m i \<Rightarrow> m \<longrightarrow> i | _ \<Rightarrow> True)"

inductive careful_reach :: "ledger \<Rightarrow> bool" where
  careful_empty: "careful_reach empty_ledger"
| careful_exec: "careful_reach l \<Longrightarrow> careful op \<Longrightarrow> careful_reach (snd (exec en op l))"

lemma careful_reach_reach: "careful_reach l \<Longrightarrow> reach l"
  by (induction rule: careful_reach.induct) (auto intro: reach_empty reach_exec)

text \<open>What \<open>tx_change\<close> does to the columns an approval names.\<close>

definition keeps_approval :: "tx_kind \<Rightarrow> bool" where
  "keeps_approval kind = (kind \<noteq> ByApproval \<and> (\<forall>m i. kind = ByTransition m i \<longrightarrow> m \<longrightarrow> i))"

lemma tx_change_approval:
  assumes "tx_change kind t t'"
  shows "tx_base_revision t' = tx_base_revision t"
    and "kind \<noteq> ByApproval \<Longrightarrow> approval_text t' = [] \<or> approval_text t' = approval_text t"
    and "keeps_approval kind \<Longrightarrow> approval_text t' = [] \<or> tx_material t' = tx_material t"
    and "kind \<in> {BySeal, ByVerification, ByEffect} \<Longrightarrow> approval_text t' = []"
proof -
  have "tx_base_revision t' = tx_base_revision t
     \<and> (kind \<noteq> ByApproval \<longrightarrow> approval_text t' = [] \<or> approval_text t' = approval_text t)
     \<and> (keeps_approval kind \<longrightarrow> approval_text t' = [] \<or> tx_material t' = tx_material t)
     \<and> (kind \<in> {BySeal, ByVerification, ByEffect} \<longrightarrow> approval_text t' = [])"
    using assms by cases (simp_all add: approval_text_def keeps_approval_def)
  then show "tx_base_revision t' = tx_base_revision t"
    and "kind \<noteq> ByApproval \<Longrightarrow> approval_text t' = [] \<or> approval_text t' = approval_text t"
    and "keeps_approval kind \<Longrightarrow> approval_text t' = [] \<or> tx_material t' = tx_material t"
    and "kind \<in> {BySeal, ByVerification, ByEffect} \<Longrightarrow> approval_text t' = []" by blast+
qed

lemma quiet_view: "quiet l l' \<Longrightarrow> same_view tid l l' \<and> set (approvals l) \<subseteq> set (approvals l')"
  by (simp add: quiet_def same_tables_def same_view_def get_patch_def runs_of_def fixed_of_def)

lemma approval_ok_moves:
  assumes "binding_ok l" "statuses_ok l" "statuses_ok l'"
    and "moves kind tid l l'" and "keeps_approval kind"
    and "\<And>x. x \<noteq> tid \<or> kind \<notin> {BySeal, ByVerification, ByEffect} \<Longrightarrow> same_view x l l'"
    and "set (approvals l) \<subseteq> set (approvals l')"
  shows "binding_ok l'"
  unfolding binding_ok_def
proof (intro allI impI)
  fix x t' assume t': "get_tx x l' = Some t'"
  obtain t1 t1' where t1: "get_tx tid l = Some t1" "get_tx tid l' = Some t1'" "tx_change kind t1 t1'"
    and other: "\<forall>x. x \<noteq> tid \<longrightarrow> get_tx x l' = get_tx x l"
    using assms(4) by (auto simp: moves_def)
  show "approval_ok x t' l'"
  proof (cases "x = tid")
    case False
    with other t' have "get_tx x l = Some t'" by simp
    with assms(1) have "approval_ok x t' l" by (simp add: binding_ok_def)
    then show ?thesis by (rule approval_ok_transfer [OF _ assms(6) assms(7) assms(2,3)]) (use False in auto)
  next
    case True
    note change = tx_change_approval [OF t1(3)]
    from True t' t1 have eq: "t' = t1'" by simp
    show ?thesis
    proof (cases "kind \<in> {BySeal, ByVerification, ByEffect}")
      case True
      with change(4) eq show ?thesis by (simp add: approval_ok_def)
    next
      case False
      from assms(1) t1 \<open>x = tid\<close> have "approval_ok x t1 l" by (simp add: binding_ok_def)
      moreover have "kind \<noteq> ByApproval" using assms(5) by (simp add: keeps_approval_def)
      ultimately show ?thesis
        using approval_ok_transfer [OF _ assms(6) assms(7) assms(2,3)] False change(1) change(2) change(3) [OF assms(5)] eq by metis
    qed
  qed
qed

lemma approval_ok_same:
  assumes "binding_ok l" "statuses_ok l" "statuses_ok l'" "same_tx l l'" "\<And>x. same_view x l l'"
    and "set (approvals l) \<subseteq> set (approvals l')"
  shows "binding_ok l'"
  unfolding binding_ok_def
proof (intro allI impI)
  fix x t' assume "get_tx x l' = Some t'"
  with assms(1,4) have "approval_ok x t' l" by (simp add: binding_ok_def same_tx_def)
  then show "approval_ok x t' l'" by (rule approval_ok_transfer [OF _ assms(5,6,2,3)]) simp
qed

lemma Approve_binding:
  assumes "binding_ok l" "statuses_ok l" "statuses_ok l'" "ApproveWithEvidence_tx en tid d who sig ex l = Inr l'"
  shows "binding_ok l'"
  unfolding binding_ok_def
proof (intro allI impI)
  fix x t' assume t': "get_tx x l' = Some t'"
  obtain cur where cur: "get_tx tid l = Some cur" and mat: "approvalMaterialWith tid cur l = Inr d"
    using assms(4) by (auto simp: ApproveWithEvidence_tx_def try_bind_Inr)
  obtain a where a: "ap_tx a = tid" "ap_digest a = d" "ap_material a = tx_material cur" "approvals l' = approvals l @ [a]"
    and tables: "patches l' = patches l" "runs l' = runs l" "fixed_rows l' = fixed_rows l"
    using Approve_tables [OF assms(4)] cur by auto
  have view: "same_view y l l'" for y
    using tables by (simp add: same_view_def get_patch_def runs_of_def fixed_of_def)
  obtain t1' where t1: "get_tx tid l' = Some t1'" "tx_change ByApproval cur t1'"
    and other: "\<forall>x. x \<noteq> tid \<longrightarrow> get_tx x l' = get_tx x l"
    using Approve_moves [OF assms(4)] cur by (auto simp: moves_def)
  have digest: "approval_text t1' = d \<and> tx_material t1' = tx_material cur"
  proof -
    define f where "f = (\<lambda>t::transaction. t\<lparr>tx_approval := Some d, tx_revision := tx_revision t + 1, tx_updated := en_now en\<rparr>)"
    define l0 where "l0 = l\<lparr>approvals := approvals l @ [\<lparr>ap_id = NewID en 0 ''approval'', ap_tx = tid, ap_digest = d,
              ap_material = tx_material cur, ap_approver = who, ap_signature = sig,
              ap_created = en_now en, ap_expires = ex\<rparr>]\<rparr>"
    have "\<exists>l1. update_tx tid (tx_revision cur) f l0 = Inr l1
        \<and> (\<exists>eid k pl. appendChainedEvent eid tid [] k pl 0 (en_now en) l1 = Inr l')"
      using assms(4) unfolding ApproveWithEvidence_tx_def appendEvent_def cur fetch_simps try_bind_simps f_def l0_def try_bind_Inr
      by blast
    then obtain l1 where up: "update_tx tid (tx_revision cur) f l0 = Inr l1" and ev: "\<forall>x. get_tx x l' = get_tx x l1"
      by (auto dest: append_event_same)
    have "get_tx tid l0 = Some cur" using cur by (simp add: l0_def)
    from update_tx_get [OF up this, of tid] ev t1(1) show ?thesis by (simp add: f_def approval_text_def) (auto simp: approval_text_def)
  qed
  show "approval_ok x t' l'"
  proof (cases "x = tid")
    case False
    with other t' assms(1) have "approval_ok x t' l" by (simp add: binding_ok_def)
    then show ?thesis by (rule approval_ok_transfer [OF _ view _ assms(2,3)]) (auto simp: a)
  next
    case True
    have "names_material tid cur l d" by (rule approvalMaterial_names [OF mat])
    then have "approval_ok tid (cur\<lparr>tx_approval := Some d\<rparr>) (l\<lparr>approvals := approvals l @ [a]\<rparr>)"
      using a by (auto simp: approval_ok_def names_material_def approval_text_def get_patch_def latest_run_def live_effects_def
          material_json_def)
    then have "approval_ok tid t1' l'"
      by (rule approval_ok_transfer)
        (use digest a tables assms(2,3) tx_change_approval(1) [OF t1(2)] in
          \<open>auto simp: same_view_def get_patch_def runs_of_def fixed_of_def fixed_rows_def statuses_ok_def approval_text_def\<close>)
    with True t' t1 show ?thesis by simp
  qed
qed

lemma RecordPatch_view: "RecordPatch_tx en tid p l = Inr l' \<Longrightarrow> x \<noteq> tid \<Longrightarrow>
    same_view x l l' \<and> set (approvals l) \<subseteq> set (approvals l')"
  by (auto simp: same_view_def get_patch_def runs_of_def fixed_of_def table_simps split: option.splits
      dest!: RecordPatch_tables)

lemma RecordVerification_view: "RecordVerification_tx en tid r l = Inr l' \<Longrightarrow> x \<noteq> tid \<Longrightarrow>
    same_view x l l' \<and> set (approvals l) \<subseteq> set (approvals l')"
  by (auto simp: same_view_def get_patch_def runs_of_def fixed_of_def dest!: RecordVerification_tables)

lemma Materialize_view: "RecordMaterializedRef_tx en tid r l = Inr l' \<Longrightarrow>
    same_view x l l' \<and> set (approvals l) \<subseteq> set (approvals l')"
  by (auto simp: same_view_def get_patch_def runs_of_def fixed_of_def dest!: Materialize_tables)

lemma CreateEffect_view: "CreateExternalEffect_tx en e l = Inr l' \<Longrightarrow> x \<noteq> ef_tx e \<Longrightarrow>
    same_view x l l' \<and> set (approvals l) \<subseteq> set (approvals l')"
  by (auto simp: same_view_def same_tables_def get_patch_def runs_of_def fixed_of_def fixed_rows_def dest!: CreateEffect_tables)

lemma filter_modify_row:
  assumes "\<And>r. r \<in> set rows \<Longrightarrow> key r = k \<Longrightarrow> \<not> Q r \<and> \<not> Q (f r)"
  shows "filter Q (modify_row key k f rows) = filter Q rows"
  using assms by (induction rows) (auto simp: modify_row_def table_simps)

lemma RefreshEffect_view:
  assumes "keys_ok l" and "RefreshExternalEffect_tx en eid pj pd vj vd rs l = Inr l'"
    and "get_effect eid l = Some e" and "x \<noteq> ef_tx e"
  shows "same_view x l l' \<and> set (approvals l) \<subseteq> set (approvals l')"
proof -
  obtain f where f: "same_tables l l'" "effects l' = modify_row ef_id eid f (effects l)" "\<forall>e. ef_id (f e) = ef_id e \<and> ef_tx (f e) = ef_tx e"
    using RefreshEffect_tables [OF assms(2)] by blast
  have "filter (\<lambda>e. ef_tx e = x) (effects l') = filter (\<lambda>e. ef_tx e = x) (effects l)"
    unfolding f(2) using effect_unique [OF assms(1,3)] assms(4) f(3) by (intro filter_modify_row) auto
  then have "map effect_fixed (filter (\<lambda>e. ef_tx e = x) (effects l')) = map effect_fixed (filter (\<lambda>e. ef_tx e = x) (effects l))" by simp
  then have "fixed_of x l' = fixed_of x l" by (simp add: fixed_of_def fixed_rows_def filter_map comp_def)
  with f(1) show ?thesis by (simp add: same_view_def same_tables_def get_patch_def runs_of_def)
qed

lemma binding_body:
  assumes "binding_ok l" "statuses_ok l" "keys_ok l" "careful op" and b: "op_body en op l = Inr l'"
  shows "binding_ok l'"
proof -
  note st = assms(2) statuses_body [OF assms(2,3) b]
  note same = approval_ok_same [OF assms(1) st] and moved = approval_ok_moves [OF assms(1) st]
  have quiet_same: "same_tx l l' \<Longrightarrow> quiet l l' \<Longrightarrow> ?thesis" using same quiet_view by blast
  have quiet_moved: "moves kind tid l l' \<Longrightarrow> keeps_approval kind \<Longrightarrow> quiet l l' \<Longrightarrow> ?thesis" for kind tid
    using moved quiet_view by blast
  show ?thesis
  proof (cases op)
    case (OpCreate t w)
    with b have c: "Create_tx en t w l = Inr l'" by simp
    note view = quiet_view [OF Create_quiet [OF c]]
    show ?thesis unfolding binding_ok_def
    proof (intro allI impI)
      fix x t' assume t': "get_tx x l' = Some t'"
      show "approval_ok x t' l'"
      proof (cases "x = tx_id t")
        case True
        with Create_get_tx [OF c] t' show ?thesis by (auto simp: approval_ok_def approval_text_def)
      next
        case False
        with Create_get_tx [OF c] t' assms(1) have "approval_ok x t' l" by (simp add: binding_ok_def)
        then show ?thesis by (rule approval_ok_transfer) (use view st in auto)
      qed
    qed
  next
    case (OpTransition tid a b' actor reason m i)
    with b have c: "Transition_tx en tid a b' actor reason m i l = Inr l'" "CanTransition a b'"
      by (auto simp: try_bind_Inr ValidateTransition_def)
    show ?thesis
      by (rule quiet_moved [OF Transition_moves [OF c] _ Transition_quiet [OF c(1)]])
        (use assms(4) OpTransition in \<open>simp add: careful_def keeps_approval_def\<close>)
  next
    case (OpNeedsReconciliation tid reason)
    with b obtain s where c: "Transition_tx en tid s StateNeedsReconciliation ''daemon'' reason False False l = Inr l'"
        "CanTransition s StateNeedsReconciliation"
      by (auto simp: try_bind_Inr ValidateTransition_def)
    show ?thesis
      by (rule quiet_moved [OF Transition_moves [OF c] _ Transition_quiet [OF c(1)]]) (simp add: keeps_approval_def)
  next
    case (OpRecordPatch tid p)
    with b have c: "RecordPatch_tx en tid p l = Inr l'" by simp
    have "patches l' \<noteq> patches l \<longrightarrow> set (approvals l) \<subseteq> set (approvals l')" using RecordPatch_tables [OF c] by auto
    then show ?thesis using moved [OF RecordPatch_moves [OF c]] RecordPatch_view [OF c] RecordPatch_tables [OF c]
      by (auto simp: keeps_approval_def)
  next
    case (OpRecordVerification tid r)
    with b have c: "RecordVerification_tx en tid r l = Inr l'" by simp
    show ?thesis using moved [OF RecordVerification_moves [OF c]] RecordVerification_view [OF c] RecordVerification_tables [OF c]
      by (auto simp: keeps_approval_def)
  next
    case (OpApprove tid d who sig ex)
    with b Approve_binding [OF assms(1) st] show ?thesis by simp
  next
    case (OpBeginCommit tid d)
    with b have c: "BeginCommit_tx en tid d l = Inr l'" by simp
    show ?thesis by (rule quiet_moved [OF BeginCommit_moves [OF c] _ BeginCommit_quiet [OF c]]) (simp add: keeps_approval_def)
  next
    case (OpFinalize tid)
    with b have c: "FinalizeTransactionCommit_tx en tid l = Inr l'" by simp
    show ?thesis by (rule quiet_moved [OF Finalize_moves [OF c] _ Finalize_quiet [OF c]]) (simp add: keeps_approval_def)
  next
    case (OpCreateEffect e)
    with b have c: "CreateExternalEffect_tx en (prepared_effect en e) l = Inr l'" by (simp add: try_bind_Inr)
    show ?thesis using moved [OF CreateEffect_moves [OF c]] CreateEffect_view [OF c] CreateEffect_tables [OF c]
      by (auto simp: keeps_approval_def same_tables_def)
  next
    case (OpRefreshEffect eid pj pd vj vd rs)
    with b have c: "RefreshExternalEffect_tx en eid pj pd vj vd rs l = Inr l'" by simp
    obtain e where e: "get_effect eid l = Some e" "moves ByEffect (ef_tx e) l l'" using RefreshEffect_moves [OF c] by blast
    have "set (approvals l) \<subseteq> set (approvals l')" using RefreshEffect_tables [OF c] by (auto simp: same_tables_def)
    with moved [OF e(2)] RefreshEffect_view [OF assms(3) c e(1)] show ?thesis by (auto simp: keeps_approval_def)
  next
    case (OpMaterialize tid r)
    with b have c: "RecordMaterializedRef_tx en tid r l = Inr l'" by simp
    show ?thesis using same writes_same_tx(8) [OF c] Materialize_view [OF c] by blast
  qed (use b in \<open>auto simp: try_bind_Inr intro!: quiet_same intro: writes_same_tx AbortEffects_same_tx quiet_bodies\<close>)
qed

lemma careful_reach_binding: "careful_reach l \<Longrightarrow> binding_ok l"
proof (induction rule: careful_reach.induct)
  case careful_empty
  show ?case by (simp add: binding_ok_def empty_ledger_def get_tx_def table_simps)
next
  case (careful_exec l op en)
  then have "reach l" by (simp add: careful_reach_reach)
  with careful_exec show ?case
    using exec_cases [of en op l] binding_body reach_keys reach_statuses by metis
qed

end
