(* ===== verification/LedgerReceipts.thy ===== *)
theory LedgerReceipts
  imports LedgerBinding
begin

text \<open>
  The records behind an effect's state: an effect that is committing was preceded by a durable
  commit attempt with the same request digest and fencing token (write-ahead intent), and an effect
  that is committed has a receipt.  Both are invariants of every reachable ledger.
\<close>

definition intent_for :: "external_effect \<Rightarrow> effect_attempt \<Rightarrow> bool" where
  "intent_for e a = (at_effect a = ef_id e \<and> at_phase a = ''commit'' \<and> at_request a = ef_commit_request e
     \<and> at_fence a = ef_commit_fence e)"

definition records_ok :: "ledger \<Rightarrow> bool" where
  "records_ok l = ((\<forall>e \<in> set (effects l). ef_status e = EffectCommitted \<longrightarrow> has_key rc_effect (ef_id e) (receipts l))
     \<and> (\<forall>e \<in> set (effects l). ef_status e = EffectCommitting \<longrightarrow> (\<exists>a \<in> set (attempts l). intent_for e a)))"

text \<open>Attempts are never removed, and what they were for is never changed.\<close>

definition attempts_kept :: "ledger \<Rightarrow> ledger \<Rightarrow> bool" where
  "attempts_kept l l' = (\<forall>a \<in> set (attempts l). \<exists>a' \<in> set (attempts l'). at_effect a' = at_effect a
     \<and> at_phase a' = at_phase a \<and> at_request a' = at_request a \<and> at_fence a' = at_fence a)"

lemma attempts_kept_refl: "attempts_kept l l"
  by (auto simp: attempts_kept_def)

lemma attempts_kept_trans: "attempts_kept l1 l2 \<Longrightarrow> attempts_kept l2 l3 \<Longrightarrow> attempts_kept l1 l3"
  unfolding attempts_kept_def by (metis (no_types, lifting))

lemma write_attempts: "attempts_kept l l'" if "table_write l l'"
  using that
proof (cases rule: table_write_cases)
  case (access eid tid actor subject action permission rid now)
  obtain es where "l' = l\<lparr>access_events := es\<rparr>" using append_access_fields [OF access] .
  then show ?thesis by (auto simp: attempts_kept_def)
next
  case (attempt_update f aid)
  show ?thesis unfolding attempts_kept_def
  proof
    fix a assume "a \<in> set (attempts l)"
    then have "(if at_id a = aid \<and> at_outcome a = ''intent'' then f a else a) \<in> set (attempts l')"
      by (simp add: attempt_update(1) close_attempt_def set_update_where)
    then show "\<exists>a' \<in> set (attempts l'). at_effect a' = at_effect a \<and> at_phase a' = at_phase a
        \<and> at_request a' = at_request a \<and> at_fence a' = at_fence a"
      using attempt_update(2) [of a] by (auto split: if_splits)
  qed
qed (auto simp: attempts_kept_def body_simps)

lemma body_attempts: "op_body en op l = Inr l' \<Longrightarrow> attempts_kept l l'"
proof -
  have "table_writes l l' \<Longrightarrow> attempts_kept l l'" unfolding table_writes_def
    by (induction rule: rtranclp_induct) (auto intro: attempts_kept_refl attempts_kept_trans write_attempts)
  then show "op_body en op l = Inr l' \<Longrightarrow> attempts_kept l l'"
    using body_writes [of l en op] by (simp add: writes_def)
qed

lemma body_receipts: "op_body en op l = Inr l' \<Longrightarrow> has_key rc_effect k (receipts l) \<Longrightarrow> has_key rc_effect k (receipts l')"
  using body_writes [of l en op] writes_grow [of l l'] by (auto simp: writes_def grows_def prefix_def has_key_iff)

lemma effect_step_new:
  "(effect_step S)\<^sup>*\<^sup>* e e' \<Longrightarrow> ef_id e' = ef_id e \<and> (ef_status e' = EffectCommitted \<longrightarrow> EffectCommitted \<in> S \<or> ef_status e = EffectCommitted)
     \<and> (ef_status e' = EffectCommitting \<longrightarrow> EffectCommitting \<in> S \<or> (ef_status e = EffectCommitting
          \<and> ef_commit_request e' = ef_commit_request e \<and> ef_commit_fence e' = ef_commit_fence e))"
  by (induction rule: rtranclp_induct) (auto elim!: effect_step_elims)

lemma intent_kept: "attempts_kept l l' \<Longrightarrow> a \<in> set (attempts l) \<Longrightarrow> intent_for e a \<Longrightarrow> \<exists>a' \<in> set (attempts l'). intent_for e a'"
  unfolding attempts_kept_def intent_for_def by metis

lemma intent_cong: "ef_id e' = ef_id e \<Longrightarrow> ef_commit_request e' = ef_commit_request e \<Longrightarrow> ef_commit_fence e' = ef_commit_fence e
    \<Longrightarrow> intent_for e' a = intent_for e a"
  by (simp add: intent_for_def)

text \<open>The two operations that bring an effect into one of these states.\<close>

lemma EffectCommitted_tables:
  assumes "RecordEffectCommitted_tx en a r l = Inr l'"
  shows "\<exists>f. effects l' = modify_row ef_id (rc_effect r) f (effects l) \<and> (\<forall>e. ef_id (f e) = ef_id e \<and> ef_status (f e) = EffectCommitted)
     \<and> has_key rc_effect (rc_effect r) (receipts l')"
proof -
  have upd: "effects (set_effect_status now eid st l1) = modify_row ef_id eid
      (\<lambda>e. e\<lparr>ef_status := st, ef_revision := ef_revision e + 1, ef_updated := now\<rparr>) (effects l1)" for now eid st l1
    by (simp add: set_effect_status_def update_effect_def)
  show ?thesis
    by (rule exI [of _ "\<lambda>e. e\<lparr>ef_status := EffectCommitted, ef_revision := ef_revision e + 1, ef_updated := rc_created r\<rparr>"])
      (use assms in \<open>auto simp: RecordEffectCommitted_tx_def Let_def try_bind_Inr appendEffectEvent_def upd has_key_find
        dest!: table_dests\<close>)
qed

lemma BeginAttempt_tables:
  assumes "BeginEffectAttempt_tx en eid phase d token l = Inr l'"
  shows "\<exists>f. effects l' = (if phase = ''commit'' then modify_row ef_id eid f (effects l) else effects l)
     \<and> (\<forall>e. ef_id (f e) = ef_id e \<and> ef_status (f e) = EffectCommitting \<and> ef_commit_request (f e) = d \<and> ef_commit_fence (f e) = token)
     \<and> (\<exists>a \<in> set (attempts l'). at_effect a = eid \<and> at_phase a = phase \<and> at_request a = d \<and> at_fence a = token)"
proof -
  have ev: "appendChainedEvent i t e k p fc at l1 = Inr l2 \<Longrightarrow> effects l2 = effects l1 \<and> attempts l2 = attempts l1"
    for i t e k p fc at l1 l2 by (auto simp: body_simps)
  have at: "attempts (update_effect x f l) = attempts l" for x f l by (simp add: update_effect_def)
  show ?thesis
    by (rule exI [of _ "\<lambda>r. r\<lparr>ef_status := EffectCommitting, ef_commit_request := d, ef_commit_fence := token,
                           ef_revision := ef_revision r + 1, ef_updated := en_now en\<rparr>"], cases "phase = ''commit''")
      (use assms in \<open>auto simp: BeginEffectAttempt_tx_def Let_def try_bind_Inr appendEffectEvent_def update_effect_def new_attempt_def
        dest!: ev\<close>)
qed

lemma in_modify_row: "e' \<in> set (modify_row key k f rows) \<Longrightarrow> \<exists>e \<in> set rows. (key e = k \<and> e' = f e) \<or> (key e \<noteq> k \<and> e' = e)"
  by (auto simp: modify_row_def set_update_where split: if_splits)

lemma records_body:
  assumes ok: "records_ok l" and "keys_ok l" and b: "op_body en op l = Inr l'"
  shows "records_ok l'"
proof -
  note kept = body_attempts [OF b] and rec = body_receipts [OF b]
  have old: "(ef_status e = EffectCommitted \<longrightarrow> has_key rc_effect (ef_id e) (receipts l'))
      \<and> (ef_status e = EffectCommitting \<longrightarrow> (\<exists>a \<in> set (attempts l'). intent_for e a))" if "e \<in> set (effects l)" for e
    using ok that rec intent_kept [OF kept] by (fastforce simp: records_ok_def)
  have all: "records_ok l'" if "\<And>e'. e' \<in> set (effects l') \<Longrightarrow> (\<exists>e \<in> set (effects l). ef_id e' = ef_id e
        \<and> (ef_status e' = EffectCommitted \<longrightarrow> ef_status e = EffectCommitted)
        \<and> (ef_status e' = EffectCommitting \<longrightarrow> ef_status e = EffectCommitting \<and> ef_commit_request e' = ef_commit_request e
             \<and> ef_commit_fence e' = ef_commit_fence e)) \<or> ef_status e' \<notin> {EffectCommitted, EffectCommitting}
        \<or> (ef_status e' = EffectCommitted \<and> has_key rc_effect (ef_id e') (receipts l'))
        \<or> (ef_status e' = EffectCommitting \<and> (\<exists>a \<in> set (attempts l'). intent_for e' a))"
    unfolding records_ok_def
  proof (intro conjI ballI impI)
    fix e' assume "e' \<in> set (effects l')" "ef_status e' = EffectCommitted"
    with that [of e'] old show "has_key rc_effect (ef_id e') (receipts l')" by auto
  next
    fix e' assume e': "e' \<in> set (effects l')" "ef_status e' = EffectCommitting"
    from that [OF e'(1)] e'(2) consider (new) "\<exists>a \<in> set (attempts l'). intent_for e' a"
      | (kept) e where "e \<in> set (effects l)" "ef_id e' = ef_id e" "ef_status e = EffectCommitting"
          "ef_commit_request e' = ef_commit_request e" "ef_commit_fence e' = ef_commit_fence e" by auto
    then show "\<exists>a \<in> set (attempts l'). intent_for e' a"
    proof cases
      case kept
      with old [OF kept(1)] intent_cong [OF kept(2,4,5)] show ?thesis by simp
    qed

  qed
  show ?thesis
  proof (cases "\<exists>a r. op = OpEffectCommitted a r")
    case True
    then obtain a r where "op = OpEffectCommitted a r" by blast
    with b have "RecordEffectCommitted_tx en a (complete_receipt en a r) l = Inr l'" by simp
    from EffectCommitted_tables [OF this] show ?thesis by (intro all) (fastforce dest!: in_modify_row)
  next
    case False
    show ?thesis
    proof (cases "\<exists>eid phase d token. op = OpBeginAttempt eid phase d token")
      case True
      then obtain eid phase d token where "op = OpBeginAttempt eid phase d token" by blast
      with b have "BeginEffectAttempt_tx en eid phase d token l = Inr l'" by (auto simp: try_bind_Inr)
      from BeginAttempt_tables [OF this] show ?thesis
        by (intro all) (cases "phase = ''commit''"; fastforce simp: intent_for_def dest!: in_modify_row)
    next
      case no: False
      have out: "EffectCommitted \<notin> op_outcomes op" "EffectCommitting \<notin> op_outcomes op"
        using False no by (auto simp: op_outcomes_def split: ledger_op.splits)
      from body_effects [OF assms(2) b] show ?thesis
      proof (elim disjE exE conjE)
        assume step: "status_step (op_outcomes op) l l'"
        show ?thesis
        proof (rule all)
          fix e' assume "e' \<in> set (effects l')"
          then obtain i where "i < length (effects l')" "e' = effects l' ! i" by (auto simp: in_set_conv_nth)
          with step have "effects l ! i \<in> set (effects l)" "(effect_step (op_outcomes op))\<^sup>*\<^sup>* (effects l ! i) e'"
            by (auto simp: status_step_def list_all2_conv_all_nth)
          with effect_step_new [OF this(2)] out show "(\<exists>e \<in> set (effects l). ef_id e' = ef_id e
            \<and> (ef_status e' = EffectCommitted \<longrightarrow> ef_status e = EffectCommitted)
            \<and> (ef_status e' = EffectCommitting \<longrightarrow> ef_status e = EffectCommitting \<and> ef_commit_request e' = ef_commit_request e
               \<and> ef_commit_fence e' = ef_commit_fence e)) \<or> ef_status e' \<notin> {EffectCommitted, EffectCommitting}
            \<or> (ef_status e' = EffectCommitted \<and> has_key rc_effect (ef_id e') (receipts l'))
            \<or> (ef_status e' = EffectCommitting \<and> (\<exists>a \<in> set (attempts l'). intent_for e' a))" by blast
        qed
      qed (rule all, auto dest!: in_modify_row)+
    qed
  qed
qed

lemma reach_records: "reach l \<Longrightarrow> records_ok l"
proof (induction rule: reach.induct)
  case reach_empty
  show ?case by (simp add: records_ok_def empty_ledger_def)
next
  case (reach_exec l en op)
  then show ?case using exec_cases [of en op l] records_body reach_keys by metis
qed

end
