(* ===== verification/LedgerProperties.thy ===== *)
theory LedgerProperties
  imports LedgerReceipts "HOL-Library.Multiset"
begin

text \<open>
  The properties of the ledger kernel, over reachable ledgers and sequences of operations.  Each
  property follows from the invariants and step relations of the component theories; each one with
  hypotheses is applied to a concrete ledger by its witness.
\<close>

subsection \<open>A small concrete history\<close>

text \<open>The witnesses use one transaction, sealed and verified, with one effect and one lease.\<close>

definition env0 :: env where
  "env0 = \<lparr>en_now = 1000000000000, en_check = 1000000000000, en_ids = (\<lambda>n. show_nat n), en_begin = None,
     en_commit = None, en_read = None\<rparr>"

definition tx0 :: transaction where
  "tx0 = \<lparr>tx_id = ''t'', tx_owner = ''u'', tx_protocol = ''0.1'', tx_mode = ''m'', tx_agent_adapter = '''',
     tx_agent_session = '''', tx_workspace_identity = ''/w'', tx_base_revision = ''b'', tx_status = StateReady,
     tx_policy = '''', tx_revision = 3, tx_material = 1, tx_approval = None, tx_created = 5, tx_sealed = None,
     tx_updated = 5\<rparr>"

definition patch0 :: patch where
  "patch0 = \<lparr>pa_tx = ''t'', pa_path = ''/p'', pa_sha = ''s'', pa_size = 1, pa_tree = ''r'', pa_changed = [''f''],
     pa_material = ''m'', pa_generated = 5\<rparr>"

definition run0 :: verification_run where
  "run0 = \<lparr>vn_id = ''v'', vn_tx = ''t'', vn_contract = ''c'', vn_contract_digest = ''cd'', vn_material = ''m'',
     vn_material_rev = 1, vn_outcome = ''pass'', vn_digest = ''vd'', vn_policy = ''p'', vn_created = 5\<rparr>"

definition effect0 :: external_effect where
  "effect0 = \<lparr>ef_id = ''e'', ef_tx = ''t'', ef_tool = ''tool'', ef_adapter = ''a'', ef_class = ''c'', ef_risk = ''l'',
     ef_credential = ''k'', ef_operation = ''o'', ef_destination = ''d'', ef_input_json = '''', ef_input_digest = ''i'',
     ef_prepared_json = '''', ef_prepared_digest = ''p'', ef_preview_json = '''', ef_preview_digest = ''v'',
     ef_resources = None, ef_idem = ''key'', ef_commit_request = '''', ef_commit_fence = 0, ef_status = EffectVerified,
     ef_reversibility = ''none'', ef_rank = 100, ef_support = ''s'', ef_depends = [], ef_revision = 1,
     ef_created = 5, ef_updated = 5\<rparr>"

definition lease0 :: lease where
  "lease0 = \<lparr>le_name = ''transaction:t'', le_owner = ''daemon'', le_token = 1, le_acquired = 0, le_expires = 2000000\<rparr>"

definition ledger0 :: ledger where
  "ledger0 = empty_ledger\<lparr>transactions := [tx0], patches := [patch0], runs := [run0], effects := [effect0], leases := [lease0]\<rparr>"

lemmas example = env0_def tx0_def patch0_def run0_def effect0_def lease0_def ledger0_def empty_ledger_def table_simps
  get_tx_def get_effect_def get_patch_def

subsection \<open>Atomicity\<close>

definition names_effect :: "ledger_op \<Rightarrow> bool" where
  "names_effect op = (case op of OpEffectUnknown a cls msg \<Rightarrow> at_effect a \<noteq> []
     | OpEffectFailure a http cls msg \<Rightarrow> at_effect a \<noteq> [] | OpEffectCommitted a r \<Rightarrow> at_effect a \<noteq> [] | _ \<Rightarrow> True)"

lemma then_read_error:
  assumes "then_read en read (WithTx en body l) = (Inl e, l')" and "en_read en = None"
    and "\<And>l1. body l = Inr l1 \<Longrightarrow> is_ok (read l1)"
  shows "l' = l"
  using assms by (auto simp: then_read_def WithTx_def is_ok_iff split: option.splits sum.splits)

lemma outcome_error: "outcome r = (Inl e, l') \<Longrightarrow> \<exists>e'. r = (Inl e', l')"
  by (cases r) (auto simp: outcome_def split: sum.splits)

lemma moves_read: "moves kind tid l l1 \<Longrightarrow> is_ok (Get tid l1)"
  by (auto simp: moves_def Get_def fetch_simps)

lemma effect_read: "get_effect eid l1 \<noteq> None \<Longrightarrow> is_ok (ExternalEffect eid l1)"
  by (auto simp: ExternalEffect_def)

lemma event_effect: "appendEffectEvent i tid eid kind payload fence at l0 = Inr l1 \<Longrightarrow> eid \<noteq> [] \<Longrightarrow> get_effect eid l1 \<noteq> None"
  by (auto simp: body_simps)

lemma CreateEffect_read: "CreateExternalEffect_tx en e l = Inr l1 \<Longrightarrow> is_ok (ExternalEffect (ef_id e) l1)"
  using CreateEffect_tables [of en e l l1]
  by (intro effect_read) (auto simp: get_effect_def find_row_append table_simps split: option.splits)

lemma RefreshEffect_read: "RefreshExternalEffect_tx en eid pj pd vj vd rs l = Inr l1 \<Longrightarrow> is_ok (ExternalEffect eid l1)"
proof -
  assume b: "RefreshExternalEffect_tx en eid pj pd vj vd rs l = Inr l1"
  obtain f where f: "effects l1 = modify_row ef_id eid f (effects l)" "\<forall>e. ef_id (f e) = ef_id e"
    using RefreshEffect_tables [OF b] by blast
  moreover have "get_effect eid l \<noteq> None" using RefreshEffect_moves [OF b] by auto
  ultimately show ?thesis by (intro effect_read) (auto simp: get_effect_def find_row_modify_row)
qed

lemma Outcome_read:
  "MarkEffectUnknown_tx en a cls msg l = Inr l1 \<Longrightarrow> at_effect a \<noteq> [] \<Longrightarrow> is_ok (ExternalEffect (at_effect a) l1)"
  "MarkEffectDefiniteFailure_tx en a http cls msg l = Inr l1 \<Longrightarrow> at_effect a \<noteq> [] \<Longrightarrow> is_ok (ExternalEffect (at_effect a) l1)"
  "RecordEffectCommitted_tx en a r l = Inr l1 \<Longrightarrow> rc_effect r \<noteq> [] \<Longrightarrow> is_ok (ExternalEffect (rc_effect r) l1)"
  by (rule effect_read; auto simp: MarkEffectUnknown_tx_def MarkEffectDefiniteFailure_tx_def RecordEffectCommitted_tx_def
      Let_def try_bind_Inr dest!: event_effect)+

lemma Rearm_read: "RearmEffect_tx en eid att reason l = Inr l1 \<Longrightarrow> is_ok (ExternalEffect eid l1)"
  using Rearm_writes [of l en eid att reason] writes_grow [of l l1]
  by (intro effect_read) (fastforce simp: RearmEffect_tx_def try_bind_Inr writes_def dest: grows_effect)

lemma RecordEffectCommitted_error:
  assumes "RecordEffectCommitted en a r l = (Inl e, l')" and "en_read en = None" and "at_effect a \<noteq> []"
  shows "l' = l"
proof -
  let ?r = "complete_receipt en a r"
  have "rc_effect ?r \<noteq> []" using assms(3) by (simp add: complete_receipt_def)
  with assms show ?thesis
    by (intro then_read_error [where body = "RecordEffectCommitted_tx en a ?r" and read = "ExternalEffect (rc_effect ?r)"])
      (auto simp: RecordEffectCommitted_def Let_def intro: Outcome_read)
qed

lemma acquire_error: "(case WithTx en b l of (Inl e, l') \<Rightarrow> (Inl e, l') | (Inr u, l') \<Rightarrow> (Inr x, l')) = (Inl e, l') \<Longrightarrow> l' = l"
  by (auto simp: WithTx_def split: option.splits sum.splits)

text \<open>As long as the read-back works, an operation that reports an error leaves the ledger as it was,
  whatever step failed.\<close>

lemma exec_error:
  assumes "exec en op l = (Inl err, l')" and "en_read en = None" and "names_effect op"
  shows "l' = l"
proof (cases op)
  case (OpCreate t w)
  with assms(1) show ?thesis by (auto simp: Create_def WithTx_def split: option.splits sum.splits dest!: outcome_error)
next
  case (OpTransition tid a b actor reason m i)
  with assms(1) obtain e' where t: "Transition en tid a b actor reason m i l = (Inl e', l')" by (auto dest: outcome_error)
  show ?thesis
  proof (cases "CanTransition a b")
    case True
    with t show ?thesis using then_read_error [OF _ assms(2)] moves_read [OF Transition_moves [OF _ True]]
      by (fastforce simp: Transition_def ValidateTransition_def require_simps)
  qed (use t in \<open>auto simp: Transition_def ValidateTransition_def require_simps\<close>)
next
  case (OpNeedsReconciliation tid reason)
  with assms(1) obtain e' where t: "MarkNeedsReconciliation en tid reason l = (Inl e', l')" by (auto dest: outcome_error)
  show ?thesis
  proof (cases "get_tx tid l")
    case (Some cur)
    show ?thesis
    proof (cases "CanTransition (tx_status cur) StateNeedsReconciliation")
      case True
      with t Some show ?thesis using then_read_error [OF _ assms(2)] moves_read [OF Transition_moves [OF _ True]]
        by (fastforce simp: MarkNeedsReconciliation_def Get_def fetch_simps Transition_def ValidateTransition_def require_simps)
    qed (use t Some in \<open>auto simp: MarkNeedsReconciliation_def Get_def fetch_simps Transition_def ValidateTransition_def require_simps\<close>)
  qed (use t in \<open>auto simp: MarkNeedsReconciliation_def Get_def fetch_simps\<close>)
next
  case (OpCreateEffect e)
  with assms(1) show ?thesis using then_read_error [OF _ assms(2) CreateEffect_read]
    by (fastforce simp: CreateExternalEffect_def prepared_effect_unfold split: if_splits dest!: outcome_error)
next
  case (OpEffectCommitted a r)
  with assms show ?thesis by (auto simp: names_effect_def dest!: outcome_error dest: RecordEffectCommitted_error)
qed (use assms in \<open>auto simp: RecordPatch_def RecordVerification_def ApproveWithEvidence_def BeginCommit_def
    RecordRuntimeExecution_def RefreshExternalEffect_def AcquireLease_def BeginEffectAttempt_def MarkEffectUnknown_def
    MarkEffectDefiniteFailure_def RearmEffect_def RecordMaterializedRef_def FinalizeTransactionCommit_def
    AbortPreparedEffects_def RecordTransactionOwner_def GrantTransactionAccess_def RevokeTransactionAccess_def names_effect_def
    dest!: outcome_error WithTx_error acquire_error
    dest: then_read_error [OF _ _ moves_read [OF RecordPatch_moves]] then_read_error [OF _ _ moves_read [OF RecordVerification_moves]]
      then_read_error [OF _ _ moves_read [OF Approve_moves]] then_read_error [OF _ _ moves_read [OF BeginCommit_moves]]
      then_read_error [OF _ _ moves_read [OF Finalize_moves]] then_read_error [OF _ _ RefreshEffect_read]
      then_read_error [OF _ _ Rearm_read] then_read_error [OF _ _ Outcome_read(1)] then_read_error [OF _ _ Outcome_read(2)]
    split: if_splits\<close>)

text \<open>The read-back comes after the commit: without its failure the operation does the same to the ledger.\<close>

abbreviation read_works :: "env \<Rightarrow> env" where
  "read_works en \<equiv> en\<lparr>en_read := None\<rparr>"

lemma read_works_fields:
  "en_now (read_works en) = en_now en" "en_check (read_works en) = en_check en" "en_ids (read_works en) = en_ids en"
  "en_begin (read_works en) = en_begin en" "en_commit (read_works en) = en_commit en"
  by simp_all

lemma helpers_read_works:
  "WithTx (read_works en) = WithTx en" "NewID (read_works en) = NewID en" "validateFencing (read_works en) = validateFencing en"
  "create_row (read_works en) = create_row en" "new_attempt (read_works en) = new_attempt en"
  "complete_receipt (read_works en) = complete_receipt en" "prepared_effect (read_works en) = prepared_effect en"
  by (intro ext; unfold WithTx_def NewID_def validateFencing_def create_row_def new_attempt_def complete_receipt_def
      prepared_effect_def read_works_fields; rule refl)+

lemma abort_loop_read_works: "abort_loop (read_works en) i tid reason es = abort_loop en i tid reason es"
  by (induction es arbitrary: i; intro ext) (simp_all add: helpers_read_works)

lemma bodies_read_works:
  "Create_tx (read_works en) = Create_tx en" "Transition_tx (read_works en) = Transition_tx en"
  "RecordPatch_tx (read_works en) = RecordPatch_tx en" "RecordVerification_tx (read_works en) = RecordVerification_tx en"
  "ApproveWithEvidence_tx (read_works en) = ApproveWithEvidence_tx en" "BeginCommit_tx (read_works en) = BeginCommit_tx en"
  "RecordRuntimeExecution_tx (read_works en) = RecordRuntimeExecution_tx en" "CreateExternalEffect_tx (read_works en) = CreateExternalEffect_tx en"
  "RefreshExternalEffect_tx (read_works en) = RefreshExternalEffect_tx en" "AcquireLease_tx (read_works en) = AcquireLease_tx en"
  "BeginEffectAttempt_tx (read_works en) = BeginEffectAttempt_tx en" "MarkEffectUnknown_tx (read_works en) = MarkEffectUnknown_tx en"
  "MarkEffectDefiniteFailure_tx (read_works en) = MarkEffectDefiniteFailure_tx en" "RecordEffectCommitted_tx (read_works en) = RecordEffectCommitted_tx en"
  "RearmEffect_tx (read_works en) = RearmEffect_tx en" "RecordMaterializedRef_tx (read_works en) = RecordMaterializedRef_tx en"
  "FinalizeTransactionCommit_tx (read_works en) = FinalizeTransactionCommit_tx en" "AbortPreparedEffects_tx (read_works en) = AbortPreparedEffects_tx en"
  "RecordTransactionOwner_tx (read_works en) = RecordTransactionOwner_tx en" "GrantTransactionAccess_tx (read_works en) = GrantTransactionAccess_tx en"
  "RevokeTransactionAccess_tx (read_works en) = RevokeTransactionAccess_tx en"
  by (intro ext; unfold Create_tx_def Transition_tx_def RecordPatch_tx_def RecordVerification_tx_def ApproveWithEvidence_tx_def
      BeginCommit_tx_def RecordRuntimeExecution_tx_def CreateExternalEffect_tx_def RefreshExternalEffect_tx_def AcquireLease_tx_def
      BeginEffectAttempt_tx_def MarkEffectUnknown_tx_def MarkEffectDefiniteFailure_tx_def RecordEffectCommitted_tx_def
      RearmEffect_tx_def RecordMaterializedRef_tx_def FinalizeTransactionCommit_tx_def AbortPreparedEffects_tx_def
      RecordTransactionOwner_tx_def GrantTransactionAccess_tx_def RevokeTransactionAccess_tx_def
      helpers_read_works abort_loop_read_works read_works_fields; rule refl)+

lemmas unread = helpers_read_works bodies_read_works

lemma snd_BeginEffectAttempt_match:
  "snd (case WithTx en b l of (Inl e, l') \<Rightarrow> (Inl e, l') | (Inr u, l') \<Rightarrow> (Inr (x l'), l')) = snd (WithTx en b l)"
  by (simp split: prod.splits sum.splits)

lemma MarkNeedsReconciliation_read_works:
  "snd (MarkNeedsReconciliation (read_works en) tid reason l) = snd (MarkNeedsReconciliation en tid reason l)"
  by (auto simp: MarkNeedsReconciliation_def Transition_def unread split: sum.splits)

lemma exec_read_works: "snd (exec (read_works en) op l) = snd (exec en op l)"
  by (cases op) (auto simp: snd_Create Transition_def RecordPatch_def RecordVerification_def ApproveWithEvidence_def BeginCommit_def
      MarkNeedsReconciliation_read_works RecordRuntimeExecution_def CreateExternalEffect_def prepared_effect_unfold
      RefreshExternalEffect_def AcquireLease_def snd_AcquireLease_match BeginEffectAttempt_def snd_BeginEffectAttempt_match
      MarkEffectUnknown_def MarkEffectDefiniteFailure_def RecordEffectCommitted_def RearmEffect_def RecordMaterializedRef_def
      FinalizeTransactionCommit_def AbortPreparedEffects_def RecordTransactionOwner_def GrantTransactionAccess_def
      RevokeTransactionAccess_def Let_def unread split: sum.splits)

text \<open>C9. Every operation is atomic: when it reports an error, either the ledger is exactly as it was, whatever
  step failed, or the one failure was reading the committed row back: then the ledger is what the same call
  makes of it when it succeeds, so nothing is ever left half done.  (The attempt an outcome is recorded for
  names its effect, as every attempt the ledger hands out does.)\<close>

theorem operation_atomic:
  assumes "exec en op l = (Inl err, l')" and "names_effect op"
  shows "l' = l \<or> (en_read en \<noteq> None \<and> exec (en\<lparr>en_read := None\<rparr>) op l = (Inr (), l'))"
proof (cases "exec (read_works en) op l")
  case (Pair r l'')
  then have same: "l'' = l'" using exec_read_works [of en op l] assms(1) by simp
  show ?thesis
  proof (cases r)
    case (Inl e)
    with Pair same exec_error [of "read_works en" op l e l'] assms(2) show ?thesis by simp
  next
    case (Inr u)
    have "read_works en = en" if "en_read en = None" using that by (cases en) simp
    then have "en_read en \<noteq> None" using Pair Inr assms(1) by (metis Inl_Inr_False prod.inject)
    then show ?thesis using Pair same Inr by simp
  qed
qed

theorem operation_atomic_witness:
  "exec env0 (OpBeginCommit ''t'' ''digest'') ledger0 = (Inl ApprovalRequired, ledger0)
   \<and> (\<exists>err. fst (exec (env0\<lparr>en_read := Some ''io''\<rparr>) (OpTransition ''t'' StateReady StateStale ''git'' ''moved'' False True) ledger0) = Inl err)
   \<and> fst (exec env0 (OpTransition ''t'' StateReady StateStale ''git'' ''moved'' False True) ledger0) = Inr ()"
proof -
  have run: "exec env0 (OpBeginCommit ''t'' ''digest'') ledger0
      = (Inl ApprovalRequired, snd (exec env0 (OpBeginCommit ''t'' ''digest'') ledger0))"
    by (simp add: BeginCommit_def BeginCommit_tx_def then_read_def WithTx_def outcome_def example fetch_simps require_simps
        approval_text_def)
  have "snd (exec env0 (OpBeginCommit ''t'' ''digest'') ledger0) = ledger0"
    using operation_atomic [OF run] by (simp add: env0_def names_effect_def)
  then have first: "snd (exec env0 (OpBeginCommit ''t'' ''digest'') ledger0) = ledger0" .
  define en1 where "en1 = env0\<lparr>en_read := Some ''io''\<rparr>"
  have en1: "en_begin en1 = None" "en_commit en1 = None" "en_read en1 = Some ''io''" "read_works en1 = env0"
    by (simp_all add: en1_def env0_def)
  have same: "Transition_tx en1 = Transition_tx env0" using bodies_read_works(2) [of en1] en1(4) by simp
  define r where "r = exec en1 (OpTransition ''t'' StateReady StateStale ''git'' ''moved'' False True) ledger0"
  have moved: "Transition_tx env0 ''t'' StateReady StateStale ''git'' ''moved'' False True ledger0 = Inr l1
      \<Longrightarrow> fst r = Inl (SqlFault ''io'') \<and> snd r = l1" for l1
    by (simp add: Transition_def ValidateTransition_def CanTransition_def require_simps then_read_def WithTx_def outcome_def en1 same r_def)
  have "\<exists>l1. Transition_tx env0 ''t'' StateReady StateStale ''git'' ''moved'' False True ledger0 = Inr l1 \<and> l1 \<noteq> ledger0"
    by (simp add: Transition_tx_def example fetch_simps require_simps update_tx_def changes_code appendEvent_def
        appendChainedEvent_def tx_events_def has_key_def update_where_Cons update_where_Nil Let_def)
  then obtain l1 where l1: "fst r = Inl (SqlFault ''io'')" "snd r = l1" "l1 \<noteq> ledger0" using moved by blast
  then have "exec en1 (OpTransition ''t'' StateReady StateStale ''git'' ''moved'' False True) ledger0 = (Inl (SqlFault ''io''), l1)"
    unfolding r_def by (metis prod.collapse)
  from operation_atomic [OF this] l1(3)
  have "fst (exec env0 (OpTransition ''t'' StateReady StateStale ''git'' ''moved'' False True) ledger0) = Inr ()"
    using en1(4) by (simp add: names_effect_def)
  then show ?thesis using run first l1(1) by (simp add: r_def en1_def)
qed

subsection \<open>The transaction state machine\<close>

text \<open>\<open>RecordVerification\<close> goes from sealed or stale to ready or failed in one step: it runs through the
  table's \<open>verifying\<close> state without storing it.\<close>

definition allowed_move :: "tx_state \<Rightarrow> tx_state \<Rightarrow> bool" where
  "allowed_move a b = (CanTransition a b \<or> (CanTransition a StateVerifying \<and> CanTransition StateVerifying b))"

lemma tx_change_status:
  "tx_change kind t t' \<Longrightarrow> tx_status t' = tx_status t \<or> allowed_move (tx_status t) (tx_status t')"
  by (erule tx_change.cases) (auto simp: allowed_move_def CanTransition_def)

lemma tx_change_revision: "tx_change kind t t' \<Longrightarrow> tx_revision t' = tx_revision t + 1 \<and> tx_id t' = tx_id t \<and> tx_owner t' = tx_owner t"
  by (erule tx_change.cases) simp_all

lemma exec_status:
  assumes "get_tx tid l = Some t"
  shows "\<exists>t'. get_tx tid (snd (exec en op l)) = Some t'
     \<and> (t' = t \<or> (tx_revision t' = tx_revision t + 1 \<and> (tx_status t' = tx_status t \<or> allowed_move (tx_status t) (tx_status t'))))"
  using exec_evolves [of tid l en op] assms tx_change_status tx_change_revision by (auto simp: tx_evolves_def)

text \<open>Only a verification runs through \<open>verifying\<close>: the moves of every other operation are single steps.\<close>

definition is_verification :: "ledger_op \<Rightarrow> bool" where
  "is_verification op = (case op of OpRecordVerification tid report \<Rightarrow> True | _ \<Rightarrow> False)"

lemma tx_change_table:
  "tx_change kind t t' \<Longrightarrow> kind \<noteq> ByVerification \<Longrightarrow> tx_status t' = tx_status t \<or> CanTransition (tx_status t) (tx_status t')"
  by (erule tx_change.cases) (auto simp: CanTransition_def)

lemma body_moves_once:
  assumes "op_body en op l = Inr l'" and "\<not> is_verification op"
  shows "same_tx l l' \<or> (\<exists>kind tid. kind \<noteq> ByVerification \<and> moves kind tid l l')
     \<or> (\<exists>t w. Create_tx en t w l = Inr l')"
proof (cases op)
  case (OpTransition tid a b actor reason m i)
  with assms show ?thesis using Transition_moves
    by (fastforce simp: try_bind_Inr ValidateTransition_def)
next
  case (OpNeedsReconciliation tid reason)
  with assms show ?thesis using Transition_moves
    by (fastforce simp: try_bind_Inr ValidateTransition_def Get_def)
next
  case (OpCreateEffect e)
  with assms show ?thesis using CreateEffect_moves [of en "prepared_effect en e" l l']
    by (auto simp: try_bind_Inr)
next
  case (OpRefreshEffect eid pj pd vj vd rs)
  with assms RefreshEffect_moves [of en eid pj pd vj vd rs l l'] show ?thesis by auto
qed (use assms in \<open>auto simp: is_verification_def try_bind_Inr dest: RecordPatch_moves Approve_moves BeginCommit_moves
    Finalize_moves writes_same_tx AbortEffects_same_tx\<close>)

lemma exec_once:
  assumes "get_tx tid l = Some t" and "get_tx tid (snd (exec en op l)) = Some t'" and "\<not> is_verification op" and "t' \<noteq> t"
  shows "tx_status t' = tx_status t \<or> CanTransition (tx_status t) (tx_status t')"
proof -
  have b: "op_body en op l = Inr (snd (exec en op l))" using exec_cases [of en op l] assms(1,2,4) by auto
  from body_moves_once [OF b assms(3)] consider "same_tx l (snd (exec en op l))"
    | kind x where "kind \<noteq> ByVerification" "moves kind x l (snd (exec en op l))"
    | t0 w where "Create_tx en t0 w l = Inr (snd (exec en op l))" by blast
  then show ?thesis
  proof cases
    case 2
    with assms(1,2,4) show ?thesis by (cases "tid = x") (auto simp: moves_def dest: tx_change_table)
  next
    case 3
    from Create_get_tx [OF this] assms(1,2,4) show ?thesis by (cases "tid = tx_id t0") auto
  qed (use assms(1,2,4) in \<open>simp add: same_tx_def\<close>)
qed

text \<open>C10. No operation moves a stored transaction outside the transition table: a change of its status is one
  step of the table, or, for \<open>RecordVerification\<close> alone, the table's two steps through \<open>verifying\<close>, which is
  not stored; and every change of a transaction row raises its revision by exactly one.\<close>

theorem status_follows_table:
  assumes "get_tx tid l = Some t"
  shows "\<exists>t'. get_tx tid (snd (exec en op l)) = Some t'
     \<and> (t' = t \<or> (tx_revision t' = tx_revision t + 1
           \<and> (tx_status t' = tx_status t \<or> CanTransition (tx_status t) (tx_status t')
              \<or> ((\<exists>x report. op = OpRecordVerification x report)
                   \<and> CanTransition (tx_status t) StateVerifying \<and> CanTransition StateVerifying (tx_status t')))))"
proof -
  obtain t' where t': "get_tx tid (snd (exec en op l)) = Some t'"
      "t' = t \<or> (tx_revision t' = tx_revision t + 1 \<and> (tx_status t' = tx_status t \<or> allowed_move (tx_status t) (tx_status t')))"
    using exec_status [OF assms] by blast
  with exec_once [OF assms t'(1)] show ?thesis
    by (cases op) (auto simp: is_verification_def allowed_move_def)
qed

theorem status_follows_table_witness:
  "\<exists>t'. get_tx ''t'' (snd (exec env0 (OpTransition ''t'' StateReady StateStale ''git'' ''moved'' False True) ledger0)) = Some t'
     \<and> (t' = tx0 \<or> (tx_revision t' = 4 \<and> (tx_status t' = StateReady \<or> CanTransition StateReady (tx_status t'))))"
  using status_follows_table [of "''t''" ledger0 tx0 env0 "OpTransition ''t'' StateReady StateStale ''git'' ''moved'' False True"]
  by (simp add: example)

lemma terminal_moves: "terminal a \<Longrightarrow> \<not> allowed_move a b"
  by (simp add: allowed_move_def terminal_no_transition)

text \<open>A terminal state is final: no sequence of operations changes the status of a transaction that is
  aborted, compensated, committed or in manual intervention.\<close>

theorem terminal_is_final:
  assumes "get_tx tid l = Some t" and "terminal (tx_status t)"
  shows "\<exists>t'. get_tx tid (run ops l) = Some t' \<and> tx_status t' = tx_status t"
  using assms
proof (induction ops l arbitrary: t rule: run.induct)
  case (2 en op ops l)
  obtain t' where t': "get_tx tid (snd (exec en op l)) = Some t'" "tx_status t' = tx_status t"
    using exec_status [OF 2(2), of en op] terminal_moves [OF 2(3)] by auto
  with 2(1) [OF t'(1)] 2(3) show ?case by auto
qed simp

theorem terminal_is_final_witness:
  "\<exists>t'. get_tx ''t'' (run [(env0, OpTransition ''t'' StateCommitted StateActive ''x'' ''y'' False False)]
       (ledger0\<lparr>transactions := [tx0\<lparr>tx_status := StateCommitted\<rparr>]\<rparr>)) = Some t' \<and> tx_status t' = StateCommitted"
  using terminal_is_final [of "''t''" "ledger0\<lparr>transactions := [tx0\<lparr>tx_status := StateCommitted\<rparr>]\<rparr>"
      "tx0\<lparr>tx_status := StateCommitted\<rparr>" "[(env0, OpTransition ''t'' StateCommitted StateActive ''x'' ''y'' False False)]"]
  by (simp add: example terminal_def)

text \<open>Operations on one transaction never change the row of another one.\<close>

theorem transactions_are_isolated:
  assumes "op_target op l \<noteq> Some x"
  shows "get_tx x (snd (exec en op l)) = get_tx x l"
  using assms by (rule exec_other)

theorem transactions_are_isolated_witness:
  "get_tx ''t'' (snd (exec env0 (OpFinalize ''other'') ledger0)) = get_tx ''t'' ledger0"
  by (rule transactions_are_isolated) simp

subsection \<open>The event log\<close>

text \<open>C17. After any sequence of operations on a new ledger, whatever ran, failed or was interrupted, the event
  chains verify: \<open>VerifyEventChains\<close> reports no finding.\<close>

theorem event_chains_verify:
  "snd (VerifyEventChains (run ops empty_ledger)) \<and> er_valid (fst (VerifyEventChains (run ops empty_ledger)))
     \<and> er_findings (fst (VerifyEventChains (run ops empty_ledger))) = []"
proof -
  have "reach (run ops empty_ledger)" by (unfold reach_iff_run, blast)
  then have "snd (VerifyEventChains (run ops empty_ledger))"
    using logs.inv_reach by (simp add: VerifyEventChains_iff logs_ok_def)
  then show ?thesis by (simp add: VerifyEventChains_def Let_def)
qed

text \<open>The event log and the other records of what happened are append-only: no sequence of operations
  drops or rewrites an event, an access event, a receipt, an approval or a published reference.\<close>

theorem history_is_append_only:
  "prefix (events l) (events (run ops l)) \<and> prefix (access_events l) (access_events (run ops l))
     \<and> prefix (receipts l) (receipts (run ops l)) \<and> prefix (refs l) (refs (run ops l))
     \<and> prefix (approvals l) (approvals (run ops l)) \<and> prefix (runs l) (runs (run ops l))
     \<and> prefix (patches l) (patches (run ops l))"
  using run_grows [of l ops] unfolding grows_def by blast

text \<open>C23. The chain is tamper evident: two verified histories of a transaction that end in the same hash
  hash the same texts, row by row, unless two different texts with the same SHA-256 digest occur in them.\<close>

theorem event_chain_tamper_evident:
  assumes "snd (VerifyEventChains l)" and "snd (VerifyEventChains l')"
    and "chain_head ev_hash [] (tx_events tid l) = chain_head ev_hash [] (tx_events tid l')"
  shows "map event_text (tx_events tid l) = map event_text (tx_events tid l')
     \<or> collision event_text (tx_events tid l) (tx_events tid l')"
  using assms by (intro event_chain.tamper_evident) (auto simp: VerifyEventChains_iff)

definition history0 :: ledger where
  "history0 = run [(env0, OpCreate tx0 (\<lparr>ws_tx = '''', ws_root = ''/r'', ws_git_dir = ''/g'', ws_head_ref = ''main'',
     ws_base_oid = ''b'', ws_object_format = ''sha1'', ws_path = ''/w'', ws_artifacts = ''/a'', ws_dirty_policy = ''reject'',
     ws_status_digest = ''d'', ws_created = 5\<rparr>))] empty_ledger"

lemma history0_reach: "reach history0"
  unfolding history0_def reach_iff_run by blast

theorem event_chain_tamper_evident_witness:
  "map event_text (tx_events ''t'' history0) = map event_text (tx_events ''t'' (history0\<lparr>leases := [lease0]\<rparr>))
     \<or> collision event_text (tx_events ''t'' history0) (tx_events ''t'' (history0\<lparr>leases := [lease0]\<rparr>))"
  using logs.inv_reach [OF history0_reach]
  by (intro event_chain_tamper_evident) (simp_all add: VerifyEventChains_iff logs_ok_def tx_events_def)

definition forge_payload :: "(event_row \<Rightarrow> bool) \<Rightarrow> json \<Rightarrow> ledger \<Rightarrow> ledger" where
  "forge_payload P payload l = l\<lparr>events := update_where P (\<lambda>e. e\<lparr>ev_payload := payload\<rparr>) (events l)\<rparr>"

lemma forged_findings:
  "chain_findings previous (update_where P (\<lambda>e. e\<lparr>ev_payload := payload\<rparr>) es) = chain_findings previous es"
  by (induction es arbitrary: previous)
    (auto simp: update_where_Cons update_where_Nil Let_def expected_hash_def bad_previous_def bad_hash_def)

text \<open>What the chain does not cover: replacing the stored payload of any events leaves the verification
  exactly as it was, because only the stored payload digest enters the hash and nothing compares the payload
  with it.\<close>

theorem payload_forgery_unnoticed:
  "VerifyEventChains (forge_payload P payload l) = VerifyEventChains l"
proof -
  have order: "ordered_events (forge_payload P payload l) = update_where P (\<lambda>e. e\<lparr>ev_payload := payload\<rparr>) (ordered_events l)"
    by (simp add: ordered_events_def forge_payload_def update_where_def sort_key_map_on)
  have "map ev_tx (update_where P (\<lambda>e. e\<lparr>ev_payload := payload\<rparr>) (ordered_events l)) = map ev_tx (ordered_events l)"
    by (rule update_where_keys) simp
  then show ?thesis by (simp add: VerifyEventChains_def Let_def order forged_findings)
qed

text \<open>Deletion at the end goes unnoticed: a verified ledger still verifies after the newest events, of any
  number of transactions, are dropped.\<close>

theorem truncation_goes_unnoticed:
  assumes "snd (VerifyEventChains l)" and "events l = es @ dropped"
  shows "snd (VerifyEventChains (l\<lparr>events := es\<rparr>))"
proof -
  have "event_ok (tx_events tid l)" for tid using assms(1) by (simp add: VerifyEventChains_iff)
  moreover have "tx_events tid l = tx_events tid (l\<lparr>events := es\<rparr>) @ filter (\<lambda>e. ev_tx e = tid) dropped" for tid
    by (simp add: tx_events_def assms(2))
  ultimately show ?thesis using event_chain.truncation_unnoticed by (metis VerifyEventChains_iff)
qed

theorem truncation_goes_unnoticed_witness:
  "snd (VerifyEventChains (history0\<lparr>events := take 1 (events history0)\<rparr>))"
proof (rule truncation_goes_unnoticed)
  show "snd (VerifyEventChains history0)"
    using logs.inv_reach [OF history0_reach] by (simp add: VerifyEventChains_iff logs_ok_def)
  show "events history0 = take 1 (events history0) @ drop 1 (events history0)" by simp
qed

text \<open>Opening an older ledger: when the backfill succeeds the chains verify afterwards, and on a ledger
  whose chains verify it changes nothing.\<close>

theorem backfill_completes:
  assumes "unique_key ev_seq (events l)" and "backfillEventChains en l = (r, l')"
  shows "(r = Inr () \<longrightarrow> snd (VerifyEventChains l')) \<and> (\<forall>e. r = Inl e \<longrightarrow> l' = l)
     \<and> (snd (VerifyEventChains l) \<longrightarrow> l' = l)"
proof (intro conjI impI allI)
  show "snd (VerifyEventChains l')" if "r = Inr ()"
    using assms that backfill_verifies by (auto simp: backfillEventChains_def try_bind_Inr dest!: WithTx_ok)
  show "l' = l" if "r = Inl e" for e
    using assms(2) that by (auto simp: backfillEventChains_def dest: WithTx_error)
  show "l' = l" if "snd (VerifyEventChains l)"
  proof -
    have "chain_findings (\<lambda>_. []) (ordered_events l) = []" using that by (simp add: VerifyEventChains_def Let_def)
    from backfill_verified [OF this] assms(2) show ?thesis
      by (auto simp: backfillEventChains_def WithTx_def split: option.splits sum.splits)
  qed
qed

theorem backfill_completes_witness:
  "snd (VerifyEventChains (snd (backfillEventChains env0 history0)))"
proof -
  have "unique_key ev_seq (events history0)" "snd (VerifyEventChains history0)"
    using logs.inv_reach [OF history0_reach] by (simp_all add: logs_ok_def VerifyEventChains_iff)
  with backfill_completes [of history0 env0 "fst (backfillEventChains env0 history0)" "snd (backfillEventChains env0 history0)"]
  show ?thesis by simp
qed

subsection \<open>Approval and commit\<close>

lemma BeginCommit_ok:
  assumes "BeginCommit en tid d l = (Inr t, l')"
  shows "\<exists>cur. get_tx tid l = Some cur \<and> tx_status cur = StateReady \<and> approval_text cur = d \<and> d \<noteq> []
     \<and> (\<forall>e \<in> set (live_effects tid l). ef_status e \<in> {EffectVerified, EffectCommitted}) \<and> moves ByCommitStart tid l l' \<and> quiet l l'"
proof -
  have b: "BeginCommit_tx en tid d l = Inr l'"
    using assms by (auto simp: BeginCommit_def dest: then_read_WithTx_ok)
  note m = BeginCommit_moves [OF b] and q = BeginCommit_quiet [OF b]
  from b show ?thesis using m q
    by (auto simp: BeginCommit_tx_def try_bind_Inr live_effects_def filter_empty_conv split: list.splits)
qed

definition bound_state :: "ledger \<Rightarrow> bool" where
  "bound_state l = (binding_ok l \<and> statuses_ok l \<and> keys_ok l)"

lemma bound_state_exec: "bound_state l \<Longrightarrow> careful op \<Longrightarrow> bound_state (snd (exec en op l))"
  using exec_cases [of en op l] binding_body statuses_body keys.inv_exec by (metis bound_state_def)

lemma bound_state_empty: "bound_state empty_ledger"
  using careful_reach_binding [OF careful_empty] reach_statuses [OF reach_empty] reach_keys [OF reach_empty]
  by (simp add: bound_state_def)

text \<open>C3. What an approval binds (\<open>binding_ok\<close>): after any operations that never change material without
  invalidating, from the empty ledger or any ledger that has the invariant, every stored approval digest is the
  digest of a document naming the transaction's present patch, its present latest verification run and every
  present live effect with its prepared content, and a matching approval record with the present material
  revision exists.  Sealing, verifying, adding or refreshing an effect after an approval therefore clears it.\<close>

theorem approvals_bind_material:
  assumes "l = empty_ledger \<or> bound_state l" and "list_all (\<lambda>s. careful (snd s)) ops"
  shows "bound_state (run ops l)"
proof -
  have "bound_state l" using assms(1) bound_state_empty by blast
  then show ?thesis using assms(2)
    by (induction ops l rule: run.induct) (auto intro: bound_state_exec)
qed

definition digest0 :: string where
  "digest0 = Digest (material_json ''t'' tx0 patch0 run0 [effect_material effect0])"

lemma ledger0_bound: "bound_state ledger0"
  by (auto simp: bound_state_def binding_ok_def approval_ok_def approval_text_def statuses_ok_def keys_ok_def unique_key_def
      example split: if_splits)

lemma ledger0_material: "approvalMaterialWith ''t'' tx0 ledger0 = Inr digest0"
  by (simp add: approvalMaterialWith_def digest0_def live_effects_def latest_run_def example fetch_simps)

lemma ledger0_approve:
  "\<exists>l'. ApproveWithEvidence_tx env0 ''t'' digest0 ''u'' '''' None ledger0 = Inr l'
     \<and> get_tx ''t'' l' = Some (tx0\<lparr>tx_approval := Some digest0, tx_revision := 4, tx_updated := 1000000000000\<rparr>)"
proof -
  have get: "get_tx ''t'' ledger0 = Some tx0" "tx_status tx0 = StateReady" by (simp_all add: example)
  show ?thesis
    unfolding ApproveWithEvidence_tx_def get fetch_simps try_bind_simps ledger0_material
    by (simp add: require_simps) (simp add: ledger0_def empty_ledger_def env0_def tx0_def update_tx_def changes_code appendEvent_def
        appendChainedEvent_def tx_events_def has_key_def get_tx_def table_simps update_where_Cons update_where_Nil Let_def require_simps)
qed

theorem approvals_bind_material_witness:
  "bound_state (run [(env0, OpApprove ''t'' digest0 ''u'' '''' None)] ledger0)
     \<and> get_tx ''t'' (run [(env0, OpApprove ''t'' digest0 ''u'' '''' None)] ledger0)
         = Some (tx0\<lparr>tx_approval := Some digest0, tx_revision := 4, tx_updated := 1000000000000\<rparr>)"
proof
  show "bound_state (run [(env0, OpApprove ''t'' digest0 ''u'' '''' None)] ledger0)"
    by (rule approvals_bind_material) (simp_all add: ledger0_bound careful_def)
  have "calm env0" by (simp add: calm_def env0_def)
  with ledger0_approve WithTx_calm
  show "get_tx ''t'' (run [(env0, OpApprove ''t'' digest0 ''u'' '''' None)] ledger0)
         = Some (tx0\<lparr>tx_approval := Some digest0, tx_revision := 4, tx_updated := 1000000000000\<rparr>)"
    by (fastforce simp: ApproveWithEvidence_def)
qed

text \<open>C4. A commit starts only on the approved material: when \<open>BeginCommit\<close> accepts a digest, the transaction
  is ready, the digest is the stored approval, it names the present material, and every live effect is
  verified or committed.\<close>

theorem commit_needs_current_approval:
  assumes "binding_ok l" and "BeginCommit en tid d l = (Inr t, l')"
  shows "\<exists>cur. get_tx tid l = Some cur \<and> tx_status cur = StateReady \<and> approval_text cur = d \<and> names_material tid cur l d
     \<and> (\<exists>a \<in> set (approvals l). ap_tx a = tid \<and> ap_digest a = d \<and> ap_material a = tx_material cur)
     \<and> (\<forall>e \<in> set (live_effects tid l). ef_status e \<in> {EffectVerified, EffectCommitted})"
proof -
  obtain cur where cur: "get_tx tid l = Some cur" "tx_status cur = StateReady" "approval_text cur = d" "d \<noteq> []"
      "\<forall>e \<in> set (live_effects tid l). ef_status e \<in> {EffectVerified, EffectCommitted}"
    using BeginCommit_ok [OF assms(2)] by blast
  with assms(1) show ?thesis by (auto simp: binding_ok_def approval_ok_def)
qed

definition approved0 :: ledger where
  "approved0 = ledger0\<lparr>transactions := [tx0\<lparr>tx_approval := Some digest0\<rparr>],
     approvals := [\<lparr>ap_id = ''a'', ap_tx = ''t'', ap_digest = digest0, ap_material = 1, ap_approver = ''u'',
       ap_signature = '''', ap_created = 5, ap_expires = None\<rparr>]\<rparr>"

lemma approved0_binding: "binding_ok approved0"
proof -
  have live: "live_effects ''t'' approved0 = [effect0]" by (simp add: live_effects_def approved0_def example)
  have patch: "get_patch ''t'' approved0 = Some patch0" by (simp add: approved0_def example)
  have run: "latest_run ''t'' approved0 = Some run0" by (simp add: latest_run_def approved0_def example)
  have doc: "material_json ''t'' (tx0\<lparr>tx_approval := Some digest0\<rparr>) p v ms = material_json ''t'' tx0 p v ms" for p v ms
    by (simp add: material_json_def)
  have "names_material ''t'' (tx0\<lparr>tx_approval := Some digest0\<rparr>) approved0 digest0"
    unfolding names_material_def live patch run doc
    by (rule exI [of _ patch0], rule exI [of _ run0], rule exI [of _ "[effect0]"]) (simp add: digest0_def, simp add: effect0_def)
  moreover have "get_tx tid approved0 = (if tid = ''t'' then Some (tx0\<lparr>tx_approval := Some digest0\<rparr>) else None)" for tid
    by (simp add: approved0_def get_tx_def table_simps tx0_def)
  moreover have "approvals approved0 = [\<lparr>ap_id = ''a'', ap_tx = ''t'', ap_digest = digest0, ap_material = 1, ap_approver = ''u'',
       ap_signature = '''', ap_created = 5, ap_expires = None\<rparr>]" by (simp add: approved0_def)
  ultimately show ?thesis
    by (auto simp: binding_ok_def approval_ok_def approval_text_def tx0_def split: if_splits)
qed

theorem commit_needs_current_approval_witness:
  "\<exists>cur. get_tx ''t'' approved0 = Some cur \<and> tx_status cur = StateReady \<and> approval_text cur = digest0
     \<and> names_material ''t'' cur approved0 digest0
     \<and> (\<exists>a \<in> set (approvals approved0). ap_tx a = ''t'' \<and> ap_digest a = digest0 \<and> ap_material a = tx_material cur)
     \<and> (\<forall>e \<in> set (live_effects ''t'' approved0). ef_status e \<in> {EffectVerified, EffectCommitted})"
proof -
  have "digest0 \<noteq> []" by (simp add: digest0_def)
  then have "\<exists>t l'. BeginCommit env0 ''t'' digest0 approved0 = (Inr t, l')"
    by (simp add: BeginCommit_def BeginCommit_tx_def then_read_def WithTx_def approved0_def example fetch_simps require_simps
        approval_text_def update_tx_def changes_code appendEvent_def appendChainedEvent_def tx_events_def has_key_def Get_def
        update_where_Cons update_where_Nil Let_def)
  then show ?thesis using commit_needs_current_approval [OF approved0_binding] by blast
qed

text \<open>The document an approval digests, from the rows of the ledger, and what two effects that print alike share.\<close>

definition approval_document :: "string \<Rightarrow> ledger \<Rightarrow> json" where
  "approval_document tid l = material_json tid (the (get_tx tid l)) (the (get_patch tid l)) (the (latest_run tid l))
     (map effect_material (live_effects tid l))"

definition same_prepared :: "external_effect \<Rightarrow> external_effect \<Rightarrow> bool" where
  "same_prepared e e' = (ef_id e = ef_id e' \<and> ef_adapter e = ef_adapter e' \<and> ef_tool e = ef_tool e' \<and> ef_credential e = ef_credential e'
     \<and> ef_operation e = ef_operation e' \<and> ef_destination e = ef_destination e' \<and> ef_idem e = ef_idem e'
     \<and> ef_input_digest e = ef_input_digest e' \<and> ef_prepared_digest e = ef_prepared_digest e' \<and> ef_preview_digest e = ef_preview_digest e'
     \<and> map_option mset (ef_resources e) = map_option mset (ef_resources e') \<and> ef_rank e = ef_rank e'
     \<and> ef_reversibility e = ef_reversibility e' \<and> ef_support e = ef_support e' \<and> ef_status e = ef_status e')"

lemma json_resources_inj: "json_resources r = json_resources r' \<Longrightarrow> map_option mset r = map_option mset r'"
proof (cases r; cases r')
  fix kvs kvs'
  assume "json_resources r = json_resources r'" and r: "r = Some kvs" "r' = Some kvs'"
  then have "sort_key fst (map (\<lambda>(k, v). (k, JStr v)) kvs) = sort_key fst (map (\<lambda>(k, v). (k, JStr v)) kvs')"
    by (simp add: json_resources_def json_map_def)
  then have "mset (map (\<lambda>(k, v). (k, JStr v)) kvs) = mset (map (\<lambda>(k, v). (k, JStr v)) kvs')"
    by (metis mset_sort)
  then have "image_mset (\<lambda>(k, v). (k, JStr v)) (mset kvs) = image_mset (\<lambda>(k, v). (k, JStr v)) (mset kvs')" by simp
  then have "image_mset (\<lambda>(k, j). (k, case j of JStr v \<Rightarrow> v | _ \<Rightarrow> [])) (image_mset (\<lambda>(k, v). (k, JStr v)) (mset kvs))
      = image_mset (\<lambda>(k, j). (k, case j of JStr v \<Rightarrow> v | _ \<Rightarrow> [])) (image_mset (\<lambda>(k, v). (k, JStr v)) (mset kvs'))" by (rule arg_cong)
  then show ?thesis using r by (simp add: multiset.map_comp comp_def case_prod_unfold)
qed (simp_all add: json_resources_def json_map_def)

lemma effect_material_inj: "effect_material e = effect_material e' \<Longrightarrow> same_prepared e e'"
  by (auto simp: effect_material_def same_prepared_def effect_text_inj dest: json_resources_inj)

lemma material_json_inj:
  "material_json tid t p v ms = material_json tid' t' p' v' ms' \<Longrightarrow> tid' = tid \<and> ms = ms'
     \<and> tx_base_revision t' = tx_base_revision t \<and> tx_material t' = tx_material t
     \<and> pa_sha p' = pa_sha p \<and> pa_tree p' = pa_tree p \<and> pa_material p' = pa_material p
     \<and> vn_digest v' = vn_digest v \<and> vn_contract_digest v' = vn_contract_digest v \<and> vn_material v' = vn_material v
     \<and> vn_policy v' = vn_policy v \<and> vn_outcome v' = vn_outcome v"
  by (simp add: material_json_def)

lemma ApprovalMaterial_document:
  assumes "ApprovalMaterial tid l = Inr d"
  shows "\<exists>cur p v. get_tx tid l = Some cur \<and> get_patch tid l = Some p \<and> latest_run tid l = Some v
     \<and> approval_document tid l = material_json tid cur p v (map effect_material (live_effects tid l))
     \<and> d = Digest (approval_document tid l)"
  using assms by (auto simp: ApprovalMaterial_def Get_def approvalMaterialWith_def try_bind_Inr effect_materials_Inr approval_document_def)

text \<open>C24. An approval digest pins the material: when \<open>ApprovalMaterial\<close> computes the same digest in two ledgers (whose
  documents are ASCII), it is the same transaction in both, with the same base and material revision, the same
  patch, the same verification run and effects that agree in every field the coordinator acts on, one by one
  in order; or the two documents are an explicit SHA-256 collision.\<close>

theorem digest_pins_material:
  assumes "ApprovalMaterial tid l = Inr d" and "ApprovalMaterial tid' l' = Inr d"
    and "json_ascii (approval_document tid l)" and "json_ascii (approval_document tid' l')"
  shows "(tid' = tid \<and> (\<exists>t t' p p' v v'. get_tx tid l = Some t \<and> get_tx tid l' = Some t' \<and> get_patch tid l = Some p
         \<and> get_patch tid l' = Some p' \<and> latest_run tid l = Some v \<and> latest_run tid l' = Some v'
         \<and> tx_base_revision t' = tx_base_revision t \<and> tx_material t' = tx_material t
         \<and> pa_sha p' = pa_sha p \<and> pa_tree p' = pa_tree p \<and> pa_material p' = pa_material p
         \<and> vn_digest v' = vn_digest v \<and> vn_contract_digest v' = vn_contract_digest v \<and> vn_material v' = vn_material v
         \<and> vn_policy v' = vn_policy v \<and> vn_outcome v' = vn_outcome v)
       \<and> list_all2 same_prepared (live_effects tid l) (live_effects tid l'))
     \<or> (marshal (approval_document tid l) \<noteq> marshal (approval_document tid' l')
        \<and> sha256_hex (marshal (approval_document tid l)) = sha256_hex (marshal (approval_document tid' l')))"
proof (cases "marshal (approval_document tid l) = marshal (approval_document tid' l')")
  case True
  have same: "approval_document tid l = approval_document tid' l'" by (rule marshal_inj [OF assms(3,4) True])
  obtain t p v where doc: "get_tx tid l = Some t" "get_patch tid l = Some p" "latest_run tid l = Some v"
      "approval_document tid l = material_json tid t p v (map effect_material (live_effects tid l))"
    using ApprovalMaterial_document [OF assms(1)] by blast
  obtain t' p' v' where doc': "get_tx tid' l' = Some t'" "get_patch tid' l' = Some p'" "latest_run tid' l' = Some v'"
      "approval_document tid' l' = material_json tid' t' p' v' (map effect_material (live_effects tid' l'))"
    using ApprovalMaterial_document [OF assms(2)] by blast
  have eq: "material_json tid t p v (map effect_material (live_effects tid l))
      = material_json tid' t' p' v' (map effect_material (live_effects tid' l'))"
    using same doc(4) doc'(4) by simp
  note fields = material_json_inj [OF eq]
  from fields have "list_all2 same_prepared (live_effects tid l) (live_effects tid' l')"
    by (auto simp: list_all2_conv_all_nth list_eq_iff_nth_eq intro!: effect_material_inj)
  with doc(1-3) doc'(1-3) fields show ?thesis by blast
next
  case False
  have "Digest (approval_document tid l) = Digest (approval_document tid' l')"
    using ApprovalMaterial_document [OF assms(1)] ApprovalMaterial_document [OF assms(2)] by auto
  with False show ?thesis by (simp add: Digest_def SHA256Bytes_def)
qed

definition redone0 :: ledger where
  "redone0 = ledger0\<lparr>transactions := [tx0\<lparr>tx_revision := 9, tx_updated := 8\<rparr>], patches := [patch0\<lparr>pa_size := 2\<rparr>]\<rparr>"

theorem digest_pins_material_witness:
  "ApprovalMaterial ''t'' ledger0 = Inr digest0 \<and> ApprovalMaterial ''t'' redone0 = Inr digest0
   \<and> list_all2 same_prepared (live_effects ''t'' ledger0) (live_effects ''t'' redone0)"
proof -
  have m: "ApprovalMaterial ''t'' ledger0 = Inr digest0"
    using ledger0_material by (simp add: ApprovalMaterial_def Get_def example fetch_simps)
  have live: "live_effects ''t'' ledger0 = [effect0]" "live_effects ''t'' redone0 = [effect0]"
    by (simp_all add: live_effects_def redone0_def example)
  have rows: "get_tx ''t'' ledger0 = Some tx0" "get_tx ''t'' redone0 = Some (tx0\<lparr>tx_revision := 9, tx_updated := 8\<rparr>)"
      "get_patch ''t'' ledger0 = Some patch0" "get_patch ''t'' redone0 = Some (patch0\<lparr>pa_size := 2\<rparr>)"
      "latest_run ''t'' ledger0 = Some run0" "latest_run ''t'' redone0 = Some run0"
    by (simp_all add: latest_run_def redone0_def example)
  have doc: "approval_document ''t'' ledger0 = material_json ''t'' tx0 patch0 run0 [effect_material effect0]"
      "approval_document ''t'' redone0 = material_json ''t'' tx0 patch0 run0 [effect_material effect0]"
    by (simp_all add: approval_document_def rows live material_json_def)
  have "ef_status effect0 = EffectVerified" by (simp add: effect0_def)
  then have m': "ApprovalMaterial ''t'' redone0 = Inr digest0"
    by (simp add: ApprovalMaterial_def Get_def approvalMaterialWith_def rows live fetch_simps digest0_def) (simp add: material_json_def)
  have ok: "json_ascii (material_json ''t'' tx0 patch0 run0 [effect_material effect0])"
    by (simp add: material_json_def effect_material_def json_resources_def example ascii_def)
  from digest_pins_material [OF m m'] ok m m' show ?thesis by (simp add: doc)
qed

lemma Finalize_ok:
  assumes "FinalizeTransactionCommit en tid l = (Inr t, l')"
  shows "(\<exists>cur. get_tx tid l = Some cur \<and> tx_status cur \<in> {StateCommitting, StateNeedsReconciliation})
     \<and> has_key mr_tx tid (refs l') \<and> (\<forall>e \<in> set (live_effects tid l'). ef_status e = EffectCommitted)
     \<and> get_tx tid l' = Some t \<and> tx_status t = StateCommitted"
proof -
  have b: "FinalizeTransactionCommit_tx en tid l = Inr l'" and read: "Get tid l' = Inr t"
    using assms by (auto simp: FinalizeTransactionCommit_def dest: then_read_WithTx_ok)
  obtain cur t' where cur: "get_tx tid l = Some cur" and t': "get_tx tid l' = Some t'" "tx_change ByFinalize cur t'"
    using Finalize_moves [OF b] by (auto simp: moves_def)
  have "tx_status t' = StateCommitted" using t'(2) by cases simp
  moreover have "t' = t" using read t'(1) by (simp add: Get_def fetch_simps)
  moreover have "effects l' = effects l" "refs l' = refs l"
    using b unfolding FinalizeTransactionCommit_tx_def try_bind_Inr appendEvent_def
    by - (elim exE conjE, drule same_tables_tx, drule same_tables_event, simp add: same_tables_def)+
  moreover have "(\<exists>cur. get_tx tid l = Some cur \<and> tx_status cur \<in> {StateCommitting, StateNeedsReconciliation}) \<and> has_key mr_tx tid (refs l)
      \<and> (\<forall>e \<in> set (live_effects tid l). ef_status e = EffectCommitted)"
    using b by (auto simp: FinalizeTransactionCommit_tx_def try_bind_Inr live_effects_def filter_empty_conv split: list.splits)
  ultimately show ?thesis using t' by (simp add: live_effects_def)
qed

text \<open>C11. The final commit is sound: \<open>FinalizeTransactionCommit\<close> succeeds only for a transaction that was
  committing or in reconciliation, whose repository reference is recorded and whose effects are all
  committed; afterwards it is committed.\<close>

theorem finalize_sound:
  assumes "FinalizeTransactionCommit en tid l = (Inr t, l')"
  shows "(\<exists>cur. get_tx tid l = Some cur \<and> tx_status cur \<in> {StateCommitting, StateNeedsReconciliation})
     \<and> has_key mr_tx tid (refs l') \<and> (\<forall>e \<in> set (live_effects tid l'). ef_status e = EffectCommitted)
     \<and> get_tx tid l' = Some t \<and> tx_status t = StateCommitted"
  by (rule Finalize_ok [OF assms])

definition finishing0 :: ledger where
  "finishing0 = ledger0\<lparr>transactions := [tx0\<lparr>tx_status := StateCommitting\<rparr>], effects := [effect0\<lparr>ef_status := EffectCommitted\<rparr>],
     refs := [\<lparr>mr_tx = ''t'', mr_ref = ''refs/heads/x'', mr_commit = ''c'', mr_tree = ''r'', mr_at = 5\<rparr>]\<rparr>"

theorem finalize_sound_witness:
  "\<exists>l' t. FinalizeTransactionCommit env0 ''t'' finishing0 = (Inr t, l') \<and> get_tx ''t'' l' = Some t \<and> tx_status t = StateCommitted"
proof -
  have "\<exists>l' t. FinalizeTransactionCommit env0 ''t'' finishing0 = (Inr t, l')"
    by (simp add: FinalizeTransactionCommit_def FinalizeTransactionCommit_tx_def finishing0_def example WithTx_def then_read_def
        Get_def fetch_simps require_simps has_key_def update_tx_def changes_code appendEvent_def appendChainedEvent_def tx_events_def
        update_where_Cons update_where_Nil Let_def)
  then show ?thesis using finalize_sound by blast
qed

definition expire_approvals :: "gotime \<Rightarrow> ledger \<Rightarrow> ledger" where
  "expire_approvals at l = l\<lparr>approvals := map (\<lambda>a. a\<lparr>ap_expires := Some at\<rparr>) (approvals l)\<rparr>"

definition then_expire :: "gotime \<Rightarrow> ledger_error + ledger \<Rightarrow> ledger_error + ledger" where
  "then_expire at r = try_bind r (\<lambda>l. Inr (expire_approvals at l))"

lemma then_expire_simps: "then_expire at (Inl e) = Inl e" "then_expire at (Inr l) = Inr (expire_approvals at l)"
  by (simp_all add: then_expire_def)

lemma then_expire_bind: "then_expire at (try_bind m k) = try_bind m (\<lambda>x. then_expire at (k x))"
  by (cases m) (simp_all add: then_expire_def)

lemma expire_reads [simp]:
  "get_tx tid (expire_approvals at l) = get_tx tid l" "effects (expire_approvals at l) = effects l"
  "events (expire_approvals at l) = events l" "get_effect eid (expire_approvals at l) = get_effect eid l"
  "tx_events tid (expire_approvals at l) = tx_events tid l" "transactions (expire_approvals at l) = transactions l"
  by (simp_all add: expire_approvals_def get_tx_def get_effect_def tx_events_def)

lemma expire_update_tx: "update_tx tid r f (expire_approvals at l) = then_expire at (update_tx tid r f l)"
  by (simp add: update_tx_def Let_def then_expire_simps) (simp add: expire_approvals_def)

lemma expire_event:
  "appendChainedEvent eid tid eff kind payload fence at' (expire_approvals at l) =
     then_expire at (appendChainedEvent eid tid eff kind payload fence at' l)"
proof -
  have "(expire_approvals at l)\<lparr>events := es\<rparr> = expire_approvals at (l\<lparr>events := es\<rparr>)" for es
    by (simp add: expire_approvals_def)
  then show ?thesis by (simp only: appendChainedEvent_def Let_def then_expire_bind then_expire_simps expire_reads)
qed

lemma expire_then: "try_bind (then_expire at m) (\<lambda>l. k l) = try_bind m (\<lambda>l. k (expire_approvals at l))"
  by (cases m) (simp_all add: then_expire_def)

lemma expire_BeginCommit: "BeginCommit_tx en tid d (expire_approvals at l) = then_expire at (BeginCommit_tx en tid d l)"
  by (simp only: BeginCommit_tx_def appendEvent_def expire_reads expire_update_tx expire_then expire_event then_expire_bind)

text \<open>An approval has no expiry at commit time: \<open>BeginCommit\<close> reads no approval record, so it answers and
  acts the same whatever expiry the stored approvals carry.\<close>

theorem commit_ignores_expiry:
  "BeginCommit en tid d (expire_approvals at l) =
     (fst (BeginCommit en tid d l), expire_approvals at (snd (BeginCommit en tid d l)))"
proof -
  have "Get tid (expire_approvals at l1) = Get tid l1" for l1 by (simp add: Get_def get_tx_def expire_approvals_def)
  then show ?thesis
    by (cases "BeginCommit_tx en tid d l")
      (simp_all add: BeginCommit_def then_read_def WithTx_def expire_BeginCommit then_expire_simps split: option.splits)
qed

text \<open>Which verification an approval names is decided by comparing the text of the times: with two runs
  0.5 s apart in one second, the first of them is taken for the latest one, because \<open>RFC3339Nano\<close> drops the
  fraction of a whole second and the text with a fraction sorts before it.\<close>

theorem latest_run_by_text:
  assumes "filter (\<lambda>v. vn_tx v = tid) (runs l) = [a, b]" and "vn_created a = 1000000000" and "vn_created b = 1500000000"
  shows "vn_created a < vn_created b \<and> latest_run tid l = Some a"
proof -
  have "''1970-01-01T00:00:01.5Z'' < ''1970-01-01T00:00:01Z''" by simp
  with assms have "\<not> newer b a" by (auto simp: newer_def ts_examples)
  with assms show ?thesis by (simp add: latest_run_def)
qed

theorem latest_run_by_text_witness:
  "latest_run ''t'' (ledger0\<lparr>runs := [run0\<lparr>vn_created := 1000000000\<rparr>, run0\<lparr>vn_id := ''w'', vn_created := 1500000000\<rparr>]\<rparr>)
     = Some (run0\<lparr>vn_created := 1000000000\<rparr>)"
  using latest_run_by_text [of "''t''" "ledger0\<lparr>runs := [run0\<lparr>vn_created := 1000000000\<rparr>, run0\<lparr>vn_id := ''w'', vn_created := 1500000000\<rparr>]\<rparr>"]
  by (simp add: run0_def)

subsection \<open>Leases and external effects\<close>

lemma AcquireLease_ok:
  assumes "AcquireLease en name who ttl l = (Inr token, l')"
  shows "token = next_token name l \<and> (\<exists>r. find_row le_name name (leases l') = Some r \<and> le_token r = token \<and> le_owner r = who
     \<and> le_expires r = unix_milli (en_now en + ttl))
     \<and> (\<forall>r. find_row le_name name (leases l) = Some r \<longrightarrow> le_token r < token
          \<and> (le_owner r = who \<or> le_expires r \<le> unix_milli (en_now en)))"
proof -
  have b: "AcquireLease_tx en name who ttl l = Inr l'" and t: "token = next_token name l"
    using assms by (auto simp: AcquireLease_def dest!: WithTx_ok split: if_splits prod.splits sum.splits)
  show ?thesis
  proof (cases "find_row le_name name (leases l)")
    case None
    with b t show ?thesis by (auto simp: AcquireLease_tx_def Let_def next_token_def table_simps)
  next
    case (Some r)
    have found: "find_row le_name name (update_where (\<lambda>x. le_name x = name \<and> le_token x = le_token r) f (leases l)) = Some (f r)"
      if "\<And>x. le_name (f x) = le_name x" for f
      using that Some by (subst find_row_update_where) (auto dest: find_row_SomeD)
    from b Some have r: "le_owner r = who \<or> le_expires r \<le> unix_milli (en_now en)"
      by (auto simp: AcquireLease_tx_def Let_def split: if_splits)
    from b Some have "leases l' = update_where (\<lambda>x. le_name x = name \<and> le_token x = le_token r)
        (\<lambda>x. x\<lparr>le_owner := who, le_token := le_token r + 1, le_acquired := unix_milli (en_now en),
               le_expires := unix_milli (en_now en + ttl)\<rparr>) (leases l)"
      by (auto simp: AcquireLease_tx_def Let_def split: if_splits)
    with found Some t r show ?thesis by (simp add: next_token_def)
  qed
qed

lemma fence_old:
  assumes "find_row le_name (lease_name tid) (leases l) = Some r" and "tok < le_token r" and "grows l l'"
  shows "validateFencing en tid tok l' = Inl StaleToken"
  using grows_lease [OF assms(3,1)] assms(2) by (auto simp: validateFencing_def)

text \<open>How a refused write answers: with \<open>StaleToken\<close>, unless the write transaction could not even begin, and
  with the ledger as it was.\<close>

definition refused_stale :: "env \<Rightarrow> ledger \<Rightarrow> (ledger_error + 'a) \<times> ledger \<Rightarrow> bool" where
  "refused_stale en l r = (r = (Inl (case en_begin en of None \<Rightarrow> StaleToken | Some f \<Rightarrow> SqlFault f), l))"

lemma refused_WithTx: "body l = Inl StaleToken \<Longrightarrow> refused_stale en l (then_read en read (WithTx en body l))"
  by (simp add: refused_stale_def then_read_def WithTx_def split: option.splits)


definition attempt0 :: effect_attempt where
  "attempt0 = new_attempt env0 ''t'' ''e'' ''commit'' ''rd'' 1"


text \<open>A lease is exclusive and its tokens increase: \<open>AcquireLease\<close> never succeeds while another owner's lease
  on the name is unexpired, and every successful call returns a token above every one given out before.\<close>

theorem lease_exclusive:
  assumes "AcquireLease en name who ttl l = (Inr token, l1)"
    and "AcquireLease en' name who' ttl' (run ops l1) = (Inr token', l2)"
  shows "token < token' \<and> (\<exists>r. find_row le_name name (leases (run ops l1)) = Some r \<and> token \<le> le_token r
     \<and> (le_owner r = who' \<or> le_expires r \<le> unix_milli (en_now en')))"
proof -
  obtain r where r: "find_row le_name name (leases l1) = Some r" "le_token r = token"
    using AcquireLease_ok [OF assms(1)] by blast
  obtain r' where r': "find_row le_name name (leases (run ops l1)) = Some r'" "le_token r \<le> le_token r'"
    using grows_lease [OF run_grows r(1)] by blast
  with AcquireLease_ok [OF assms(2)] r(2) show ?thesis by auto
qed

theorem lease_exclusive_witness:
  "(2::int) < 3 \<and> (\<exists>r. find_row le_name ''transaction:t''
        (leases (snd (AcquireLease env0 ''transaction:t'' ''daemon'' 1000000 ledger0))) = Some r
     \<and> 2 \<le> le_token r \<and> (le_owner r = ''daemon'' \<or> le_expires r \<le> unix_milli (en_now env0)))"
proof -
  have acq: "AcquireLease env0 ''transaction:t'' ''daemon'' 1000000 ledger0
      = (Inr 2, snd (AcquireLease env0 ''transaction:t'' ''daemon'' 1000000 ledger0))"
    by (simp add: AcquireLease_def AcquireLease_tx_def WithTx_def example lease_name_def Let_def changes_code next_token_def)
  have again: "AcquireLease env0 ''transaction:t'' ''daemon'' 1000000 (run [] (snd (AcquireLease env0 ''transaction:t'' ''daemon'' 1000000 ledger0)))
      = (Inr 3, snd (AcquireLease env0 ''transaction:t'' ''daemon'' 1000000 (run [] (snd (AcquireLease env0 ''transaction:t'' ''daemon'' 1000000 ledger0)))))"
    by (simp add: AcquireLease_def AcquireLease_tx_def WithTx_def example lease_name_def Let_def changes_code next_token_def
        update_where_Cons update_where_Nil)
  show ?thesis using lease_exclusive [OF acq again] by simp
qed

text \<open>The invariants of the kernel in one predicate.\<close>

definition ledger_wf :: "ledger \<Rightarrow> bool" where
  "ledger_wf l = (keys_ok l \<and> references_ok l \<and> statuses_ok l \<and> logs_ok l \<and> sharing_ok l \<and> deps_ok l \<and> records_ok l)"

lemma ledger_wf_exec: "ledger_wf l \<Longrightarrow> ledger_wf (snd (exec en op l))"
proof -
  assume wf: "ledger_wf l"
  have "statuses_ok (snd (exec en op l)) \<and> records_ok (snd (exec en op l))"
    using wf exec_cases [of en op l] statuses_body records_body by (metis ledger_wf_def)
  with wf show ?thesis
    by (simp add: ledger_wf_def keys.inv_exec references.inv_exec logs.inv_exec sharing.inv_exec deps.inv_exec)
qed

lemma ledger_wf_run: "ledger_wf l \<Longrightarrow> ledger_wf (run ops l)"
  by (induction ops l rule: run.induct) (auto intro: ledger_wf_exec)

lemma ledger_wf_empty: "ledger_wf empty_ledger"
  using keys.inv_empty references.inv_empty logs.inv_empty sharing.inv_empty deps.inv_empty
    reach_statuses [OF reach_empty] reach_records [OF reach_empty] by (simp add: ledger_wf_def)

lemma ledger0_wf: "ledger_wf ledger0"
  by (simp add: ledger_wf_def keys_ok_def references_ok_def statuses_ok_def logs_ok_def sharing_ok_def deps_ok_def records_ok_def
      unique_key_def has_key_def tx_events_def event_ok_def access_ok_def example)


text \<open>C12. Write-ahead intent and receipts: after any operations on a well-formed ledger an effect that is
  committing has a durable commit attempt with its request digest and fencing token, and an effect that is
  committed has exactly one receipt.\<close>

theorem intents_and_receipts:
  assumes "ledger_wf l" and "e \<in> set (effects (run ops l))"
  shows "(ef_status e = EffectCommitting \<longrightarrow> (\<exists>a \<in> set (attempts (run ops l)). intent_for e a))
     \<and> (ef_status e = EffectCommitted \<longrightarrow> length (filter (\<lambda>r. rc_effect r = ef_id e) (receipts (run ops l))) = 1)"
proof -
  have ok: "records_ok (run ops l)" and keys: "unique_key rc_effect (receipts (run ops l))"
    using ledger_wf_run [OF assms(1), of ops] by (simp_all add: ledger_wf_def keys_ok_def)
  have "changes (\<lambda>r. rc_effect r = ef_id e \<and> True) (receipts (run ops l)) = 1"
    if h: "has_key rc_effect (ef_id e) (receipts (run ops l))"
  proof -
    obtain r where "find_row rc_effect (ef_id e) (receipts (run ops l)) = Some r" using h by (auto simp: has_key_find)
    from changes_unique_key [where Q = "\<lambda>_. True", OF keys this] show ?thesis by simp
  qed
  with ok assms(2) show ?thesis by (auto simp: records_ok_def changes_def)
qed

definition committing0 :: ledger where
  "committing0 = ledger0\<lparr>transactions := [tx0\<lparr>tx_status := StateCommitting\<rparr>]\<rparr>"

definition intent0 :: external_effect where
  "intent0 = effect0\<lparr>ef_status := EffectCommitting, ef_commit_request := ''rd'', ef_commit_fence := 1, ef_revision := 2,
     ef_updated := 1000000000000\<rparr>"

theorem intents_and_receipts_witness:
  "\<exists>a \<in> set (attempts (run [(env0, OpBeginAttempt ''e'' ''commit'' ''rd'' 1)] committing0)). intent_for intent0 a"
proof -
  have wf: "ledger_wf committing0"
    by (simp add: committing0_def ledger_wf_def keys_ok_def references_ok_def statuses_ok_def logs_ok_def sharing_ok_def deps_ok_def
        records_ok_def unique_key_def has_key_def tx_events_def event_ok_def access_ok_def example)
  have effect: "intent0 \<in> set (effects (run [(env0, OpBeginAttempt ''e'' ''commit'' ''rd'' 1)] committing0))"
    by (simp add: BeginEffectAttempt_def attempt_phases_def BeginEffectAttempt_tx_def committing0_def intent0_def example WithTx_def
        fetch_simps require_simps validateFencing_def lease_name_def unix_milli_def has_key_def changes_code appendEffectEvent_def
        appendChainedEvent_def tx_events_def update_effect_def modify_row_def update_where_Cons update_where_Nil Let_def)
  have "ef_status intent0 = EffectCommitting" by (simp add: intent0_def)
  with intents_and_receipts [OF wf effect] show ?thesis by blast
qed

text \<open>Effect dependencies form no cycle, whatever was prepared, and each leads to an effect of the same
  transaction created earlier.\<close>

theorem dependencies_acyclic:
  assumes "ledger_wf l"
  shows "acyclic (set (dependencies (run ops l))) \<and> list_all (depends_ok (effects (run ops l))) (dependencies (run ops l))"
proof -
  have "deps_ok (run ops l)" using ledger_wf_run [OF assms, of ops] by (simp add: ledger_wf_def)
  then show ?thesis using deps_acyclic by (simp add: deps_ok_def list_all_iff)
qed

theorem dependencies_acyclic_witness:
  "acyclic (set (dependencies (run [(env0, OpCreateEffect (effect0\<lparr>ef_id := ''f'', ef_idem := ''k2'', ef_depends := [''e'']\<rparr>))]
       (ledger0\<lparr>transactions := [tx0\<lparr>tx_status := StateActive\<rparr>]\<rparr>))))
   \<and> dependencies (run [(env0, OpCreateEffect (effect0\<lparr>ef_id := ''f'', ef_idem := ''k2'', ef_depends := [''e'']\<rparr>))]
       (ledger0\<lparr>transactions := [tx0\<lparr>tx_status := StateActive\<rparr>]\<rparr>)) = [(''f'', ''e'')]"
proof
  have wf: "ledger_wf (ledger0\<lparr>transactions := [tx0\<lparr>tx_status := StateActive\<rparr>]\<rparr>)"
    by (simp add: ledger_wf_def keys_ok_def references_ok_def statuses_ok_def logs_ok_def sharing_ok_def deps_ok_def
        records_ok_def unique_key_def has_key_def tx_events_def event_ok_def access_ok_def example)
  show "acyclic (set (dependencies (run [(env0, OpCreateEffect (effect0\<lparr>ef_id := ''f'', ef_idem := ''k2'', ef_depends := [''e'']\<rparr>))]
       (ledger0\<lparr>transactions := [tx0\<lparr>tx_status := StateActive\<rparr>]\<rparr>))))"
    using dependencies_acyclic [OF wf] by blast
  show "dependencies (run [(env0, OpCreateEffect (effect0\<lparr>ef_id := ''f'', ef_idem := ''k2'', ef_depends := [''e'']\<rparr>))]
       (ledger0\<lparr>transactions := [tx0\<lparr>tx_status := StateActive\<rparr>]\<rparr>)) = [(''f'', ''e'')]"
    by (simp add: CreateExternalEffect_def effect_required_def CreateExternalEffect_tx_def example WithTx_def then_read_def
        fetch_simps require_simps has_key_def changes_code appendEffectEvent_def update_tx_def
        appendChainedEvent_def tx_events_def update_where_Cons update_where_Nil Let_def)
qed

subsection \<open>Verification\<close>

lemma outcome_loop_spec:
  "outcome_loop rs n all =
     (if \<exists>r \<in> set rs. ck_required r \<and> ck_status r \<in> {''error'', ''cancelled''} then ''error''
      else if n = 0 \<and> (\<forall>r \<in> set rs. \<not> ck_required r) then ''error''
      else if all \<and> (\<forall>r \<in> set rs. ck_required r \<longrightarrow> ck_status r = ''pass'') then ''pass'' else ''fail'')"
proof (induction rs n all rule: outcome_loop.induct)
  case (2 r rs n all)
  consider "\<not> ck_required r" | "ck_required r" "ck_status r \<in> {''error'', ''cancelled''}"
    | "ck_required r" "ck_status r \<notin> {''error'', ''cancelled''}" by blast
  then show ?case
  proof cases
    case 3
    then have "\<not> (ck_status r = ''error'' \<or> ck_status r = ''cancelled'')" by simp
    with 2(2) 3(1) have step: "outcome_loop (r # rs) n all = outcome_loop rs (n + 1) (all \<and> ck_status r = ''pass'')" by simp
    from 2(2) [OF _ \<open>\<not> (ck_status r = ''error'' \<or> ck_status r = ''cancelled'')\<close>] 3 show ?thesis unfolding step
      by (simp; fastforce)
  qed (use 2(1) in auto)
qed simp

text \<open>The outcome of a verification is a fold over its required checks: \<open>pass\<close> when there is one and all
  pass; \<open>error\<close> when there is none or one of them errored or was cancelled; \<open>fail\<close> otherwise.  Optional checks
  never matter.\<close>

theorem verification_outcome:
  "(verificationOutcome rs = ''pass'' \<longleftrightarrow> list_ex ck_required rs \<and> list_all (\<lambda>r. \<not> ck_required r \<or> ck_status r = ''pass'') rs)
   \<and> (verificationOutcome rs = ''error'' \<longleftrightarrow> \<not> list_ex ck_required rs
        \<or> list_ex (\<lambda>r. ck_required r \<and> ck_status r \<in> {''error'', ''cancelled''}) rs)
   \<and> verificationOutcome rs \<in> {''pass'', ''fail'', ''error''}
   \<and> verificationOutcome (filter ck_required rs) = verificationOutcome rs"
  by (auto simp: verificationOutcome_def outcome_loop_spec list_ex_iff list_all_iff)

definition checks0 :: "check_result list" where
  "checks0 = [\<lparr>ck_id = ''unit'', ck_required = True, ck_status = ''pass'', ck_spec = ''s'', ck_cache = ''c'', ck_evidence = ''e'', ck_message = ''''\<rparr>,
     \<lparr>ck_id = ''lint'', ck_required = False, ck_status = ''error'', ck_spec = ''s'', ck_cache = ''c'', ck_evidence = ''e'', ck_message = ''''\<rparr>]"

theorem verification_outcome_witness:
  "verificationOutcome checks0 = ''pass''"
proof -
  have "list_ex ck_required checks0 \<and> list_all (\<lambda>r. \<not> ck_required r \<or> ck_status r = ''pass'') checks0"
    by (simp add: checks0_def)
  then show ?thesis using verification_outcome [of checks0] by blast
qed

text \<open>A transaction becomes ready only by a verification whose required checks all passed: a successful
  \<open>RecordVerification\<close> comes from sealed or stale, records the outcome the checks imply, ends in ready exactly
  when that outcome is \<open>pass\<close> (failed otherwise), and clears the approval.\<close>

theorem ready_means_verified:
  assumes "RecordVerification en tid report l = (Inr t, l')"
  shows "(\<exists>cur. get_tx tid l = Some cur \<and> tx_status cur \<in> {StateSealed, StateStale}) \<and> get_tx tid l' = Some t
     \<and> tx_status t = (if list_ex ck_required (vr_results report)
           \<and> list_all (\<lambda>r. \<not> ck_required r \<or> ck_status r = ''pass'') (vr_results report) then StateReady else StateFailedVerification)
     \<and> approval_text t = []"
proof -
  have b: "RecordVerification_tx en tid report l = Inr l'" and read: "Get tid l' = Inr t"
    using assms by (auto simp: RecordVerification_def dest: then_read_WithTx_ok)
  define f where "f = (\<lambda>t::transaction. t\<lparr>tx_status := (if vr_outcome report = ''pass'' then StateReady else StateFailedVerification),
                    tx_revision := tx_revision t + 1, tx_approval := None, tx_updated := or_now (en_now en) (vr_created report)\<rparr>)"
  obtain cur where cur: "get_tx tid l = Some cur" "tx_status cur \<in> {StateSealed, StateStale}"
    and out: "verificationOutcome (vr_results report) = vr_outcome report"
    using b by (auto simp: RecordVerification_tx_def Let_def try_bind_Inr)
  have "\<exists>l0 l1. (\<forall>x. get_tx x l0 = get_tx x l) \<and> update_tx tid (tx_revision cur) f l0 = Inr l1
      \<and> (\<exists>eid k pl n. appendChainedEvent eid tid [] k pl 0 n l1 = Inr l')"
    using b unfolding RecordVerification_tx_def Let_def cur(1) fetch_simps try_bind_simps try_bind_Inr appendEvent_def f_def
    by (elim exE conjE) (intro exI conjI allI, rule get_tx_frame(3), assumption, assumption)
  then obtain l0 l1 where l0: "\<forall>x. get_tx x l0 = get_tx x l" and up: "update_tx tid (tx_revision cur) f l0 = Inr l1"
      and same: "\<forall>x. get_tx x l' = get_tx x l1"
    by (auto dest!: append_event_same)
  have "get_tx tid l' = Some (f cur)" using update_tx_get [OF up, of tid] l0 cur(1) same by (simp add: f_def)
  then have "t = f cur" "get_tx tid l' = Some t" using read by (simp_all add: Get_def fetch_simps)
  moreover have "vr_outcome report = ''pass'' \<longleftrightarrow> list_ex ck_required (vr_results report)
      \<and> list_all (\<lambda>r. \<not> ck_required r \<or> ck_status r = ''pass'') (vr_results report)"
    unfolding out [symmetric] by (auto simp: verificationOutcome_def outcome_loop_spec list_ex_iff list_all_iff)
  ultimately show ?thesis using cur by (auto simp: f_def approval_text_def)
qed

definition report0 :: verification_report where
  "report0 = \<lparr>vr_id = ''w'', vr_tx = ''t'', vr_contract = ''c'', vr_contract_digest = ''cd'', vr_material = ''m'',
     vr_outcome = ''pass'', vr_results = [\<lparr>ck_id = ''c1'', ck_required = True, ck_status = ''pass'', ck_spec = '''',
       ck_cache = '''', ck_evidence = '''', ck_message = ''''\<rparr>], vr_digest = ''d2'', vr_policy = '''', vr_created = 7\<rparr>"

theorem ready_means_verified_witness:
  "\<exists>t l'. RecordVerification env0 ''t'' report0 (ledger0\<lparr>transactions := [tx0\<lparr>tx_status := StateSealed\<rparr>]\<rparr>) = (Inr t, l')
     \<and> tx_status t = StateReady"
proof -
  have "\<exists>t l'. RecordVerification env0 ''t'' report0 (ledger0\<lparr>transactions := [tx0\<lparr>tx_status := StateSealed\<rparr>]\<rparr>) = (Inr t, l')"
    by (simp add: RecordVerification_def RecordVerification_tx_def report0_def then_read_def WithTx_def example fetch_simps
        require_simps verificationOutcome_def check_statuses_def has_key_def update_tx_def changes_code appendEvent_def
        appendChainedEvent_def tx_events_def update_where_Cons update_where_Nil Let_def Get_def)
  then obtain t l' where run: "RecordVerification env0 ''t'' report0 (ledger0\<lparr>transactions := [tx0\<lparr>tx_status := StateSealed\<rparr>]\<rparr>) = (Inr t, l')"
    by blast
  with ready_means_verified [OF run] show ?thesis by (auto simp: report0_def)
qed

subsection \<open>Sharing\<close>

lemma get_tx_same: "transactions l' = transactions l \<Longrightarrow> get_tx tid l' = get_tx tid l"
  by (simp add: get_tx_def)

text \<open>Granting gives exactly the granted access: after a successful grant the subject (who is not the owner)
  may read, may operate exactly when the grant says so, may never administer, and nobody else's access to
  anything changed; only the owner or an all-scope operator can do it.\<close>

theorem grant_gives_access:
  assumes "GrantTransactionAccess en tid actor subject permission adminAll rid l = (Inr u, l')"
  shows "(\<exists>t. get_tx tid l = Some t \<and> tx_owner t \<noteq> subject \<and> (tx_owner t = actor \<or> adminAll))
     \<and> CheckTransactionAccess tid subject AccessRead l' = Inr True
     \<and> CheckTransactionAccess tid subject AccessOperate l' = Inr (permission = AccessOperate)
     \<and> CheckTransactionAccess tid subject AccessAdmin l' = Inr False
     \<and> (\<forall>x who required. (x, who) \<noteq> (tid, subject) \<longrightarrow>
          CheckTransactionAccess x who required l' = CheckTransactionAccess x who required l)"
proof -
  have b: "GrantTransactionAccess_tx en tid actor subject permission adminAll rid l = Inr l'" and ok: "validGrantPermission permission"
    using assms by (auto simp: GrantTransactionAccess_def split: if_splits dest: WithTx_ok)
  note body = grant_body [OF b]
  have same: "get_tx x l' = get_tx x l" for x by (rule get_tx_same) (use body in blast)
  obtain t where t: "get_tx tid l = Some t" "subject \<noteq> tx_owner t" "actor = tx_owner t \<or> adminAll" using body by blast
  obtain g where g: "find_row grant_key (tid, subject) (grants l') = Some g" "gr_permission g = permission"
    using body by (cases "find_row grant_key (tid, subject) (grants l)") auto
  have others: "find_row grant_key k (grants l') = find_row grant_key k (grants l)" if "k \<noteq> (tid, subject)" for k
    using body that by (cases k) auto
  show ?thesis
    using t g ok others by (auto simp: CheckTransactionAccess_iff same grant_allows_def validGrantPermission_def split: option.splits)
qed

theorem grant_gives_access_witness:
  "\<exists>l'. GrantTransactionAccess env0 ''t'' ''u'' ''bob'' AccessRead False ''r'' ledger0 = (Inr (), l')
     \<and> CheckTransactionAccess ''t'' ''bob'' AccessRead l' = Inr True
     \<and> CheckTransactionAccess ''t'' ''bob'' AccessOperate l' = Inr (AccessRead = AccessOperate)"
proof -
  have "\<exists>l'. GrantTransactionAccess env0 ''t'' ''u'' ''bob'' AccessRead False ''r'' ledger0 = (Inr (), l')"
    by (simp add: GrantTransactionAccess_def GrantTransactionAccess_tx_def validGrantPermission_def WithTx_def example fetch_simps
        require_simps has_key_def appendTransactionAccessEvent_def Let_def)
  then obtain l' where run: "GrantTransactionAccess env0 ''t'' ''u'' ''bob'' AccessRead False ''r'' ledger0 = (Inr (), l')" by blast
  with grant_gives_access [OF run] show ?thesis by blast
qed

text \<open>Revoking takes all of it away: after a successful revocation only the owner retains access, and
  nobody else's access to anything changed.\<close>

theorem revoke_removes_access:
  assumes "RevokeTransactionAccess en tid actor subject adminAll rid l = (Inr u, l')"
  shows "(\<exists>t. get_tx tid l = Some t \<and> (\<forall>required. CheckTransactionAccess tid subject required l' = Inr (tx_owner t = subject)))
     \<and> (\<forall>x who required. (x, who) \<noteq> (tid, subject) \<longrightarrow>
          CheckTransactionAccess x who required l' = CheckTransactionAccess x who required l)"
proof -
  have b: "RevokeTransactionAccess_tx en tid actor subject adminAll rid l = Inr l'"
    using assms by (auto simp: RevokeTransactionAccess_def split: if_splits dest: WithTx_ok)
  note body = revoke_body [OF b]
  have same: "get_tx x l' = get_tx x l" for x by (rule get_tx_same) (use body in blast)
  have "find_row grant_key k (grants l') = (if k = (tid, subject) then None else find_row grant_key k (grants l))" for k
    using body find_row_delete [of grant_key k "(tid, subject)" "grants l"] by simp
  with body same show ?thesis
    by (auto simp: CheckTransactionAccess_iff grant_allows_def split: option.splits)
qed

definition shared0 :: ledger where
  "shared0 = ledger0\<lparr>grants := [\<lparr>gr_tx = ''t'', gr_principal = ''bob'', gr_permission = ''operate'', gr_by = ''u'',
     gr_created = 5, gr_updated = 5\<rparr>]\<rparr>"

theorem revoke_removes_access_witness:
  "\<exists>l'. RevokeTransactionAccess env0 ''t'' ''u'' ''bob'' False ''r'' shared0 = (Inr (), l')
     \<and> CheckTransactionAccess ''t'' ''bob'' AccessRead shared0 = Inr True
     \<and> CheckTransactionAccess ''t'' ''bob'' AccessRead l' = Inr False"
proof -
  have "\<exists>l'. RevokeTransactionAccess env0 ''t'' ''u'' ''bob'' False ''r'' shared0 = (Inr (), l')"
    by (simp add: RevokeTransactionAccess_def RevokeTransactionAccess_tx_def WithTx_def shared0_def example fetch_simps
        require_simps has_key_def appendTransactionAccessEvent_def grant_key_def changes_code Let_def)
  then obtain l' where run: "RevokeTransactionAccess env0 ''t'' ''u'' ''bob'' False ''r'' shared0 = (Inr (), l')" by blast
  have "CheckTransactionAccess ''t'' ''bob'' AccessRead shared0 = Inr True" "get_tx ''t'' shared0 = Some tx0"
    by (simp_all add: CheckTransactionAccess_def shared0_def example fetch_simps grant_key_def)
  with revoke_removes_access [OF run] run show ?thesis by (auto simp: tx0_def)
qed

text \<open>The listing agrees with the access check: in a well-formed ledger a principal is shown exactly the
  transactions the check lets it read, each once.\<close>

theorem listing_is_readable:
  assumes "ledger_wf l"
  shows "(t \<in> set (ListTransactionsForPrincipal who False l) \<longleftrightarrow>
       t \<in> set (transactions l) \<and> CheckTransactionAccess (tx_id t) who AccessRead l = Inr True)
     \<and> distinct (map tx_id (ListTransactionsForPrincipal who everything l))"
proof -
  have keys: "unique_key tx_id (transactions l)" "unique_key grant_key (grants l)" and share: "sharing_ok l"
    using assms by (simp_all add: ledger_wf_def keys_ok_def)
  have order: "mset (by_updated ts') = mset ts'" for ts' by (simp add: by_updated_def)
  have set_order: "set (by_updated ts') = set ts'" for ts' using order by (metis set_mset_mset)
  have grant: "has_key grant_key k (grants l) \<longleftrightarrow> grant_allows (find_row grant_key k (grants l)) AccessRead" for k
    using share by (cases "find_row grant_key k (grants l)")
      (auto simp: has_key_find grant_allows_def sharing_ok_def validGrantPermission_def dest: find_row_SomeD)
  have own: "get_tx (tx_id t) l = Some t" if "t \<in> set (transactions l)" for t
    using find_row_unique [OF keys(1) that] by (simp add: get_tx_def)
  have readable: "t \<in> set (ListTransactionsForPrincipal who False l) \<longleftrightarrow>
       t \<in> set (transactions l) \<and> CheckTransactionAccess (tx_id t) who AccessRead l = Inr True"
    using own [of t] by (auto simp: ListTransactionsForPrincipal_def set_order grant CheckTransactionAccess_iff)
  have distinct: "distinct (map tx_id (by_updated ts'))" if "distinct (map tx_id ts')" for ts'
    using that order [of ts'] by (metis mset_eq_imp_distinct_iff mset_map)
  have "distinct (map tx_id (filter P (transactions l)))" for P
    using unique_key_filter [OF keys(1), of P] by (simp add: unique_key_def)
  then have once: "distinct (map tx_id (ListTransactionsForPrincipal who everything l))"
    using keys(1) distinct by (auto simp: ListTransactionsForPrincipal_def unique_key_def)
  from readable once show ?thesis by blast
qed

theorem listing_is_readable_witness:
  "(tx0 \<in> set (ListTransactionsForPrincipal ''u'' False ledger0) \<longleftrightarrow>
       tx0 \<in> set (transactions ledger0) \<and> CheckTransactionAccess (tx_id tx0) ''u'' AccessRead ledger0 = Inr True)
   \<and> distinct (map tx_id (ListTransactionsForPrincipal ''u'' True ledger0))"
  by (rule listing_is_readable [OF ledger0_wf])

end
