(* ===== verification/Replay.thy ===== *)
theory Replay
  imports LedgerProperties
begin

text \<open>
  Replay of a transaction from its event log (\<open>internal/replay/replay.go\<close>): a fold over the events
  that rebuilds the status, the approval digest and the effect states, and a report comparing them
  with the stored rows.  \<open>fmt.Sprint\<close> of a payload field is \<open>sprint_json\<close> (JSON numbers are exact
  below 2^53).  The abstraction lemma is that the fold reproduces the stored status and approval for
  every ledger the application's calls produce.
\<close>

subsection \<open>The fold\<close>

fun sprint_json :: "json \<Rightarrow> string" where
  "sprint_json JNull = ''<nil>''"
| "sprint_json (JBool b) = (if b then ''true'' else ''false'')"
| "sprint_json (JInt i) = show_int i"
| "sprint_json (JStr s) = s"
| "sprint_json (JArr xs) = ''['' @ join '' '' (map sprint_json xs) @ '']''"
| "sprint_json (JObj kvs) = ''map['' @ join '' '' (map (\<lambda>kv. fst kv @ '':'' @ sprint_json (snd kv)) kvs) @ '']''"

definition payload_field :: "string \<Rightarrow> json \<Rightarrow> string" where
  "payload_field k payload =
     (case payload of JObj kvs \<Rightarrow> (case map_of (rev kvs) k of None \<Rightarrow> ''<nil>'' | Some v \<Rightarrow> sprint_json v) | _ \<Rightarrow> ''<nil>'')"

definition tx_states :: "tx_state list" where
  "tx_states = [StateCreated, StateActive, StateSealed, StateVerifying, StateFailedVerification, StateReady, StateStale,
     StateCommitting, StateAborting, StateAborted, StateCompensating, StateCompensated, StateNeedsReconciliation,
     StateCommitted, StateManualIntervention]"

definition isTransactionState :: "string \<Rightarrow> tx_state option" where
  "isTransactionState s = find (\<lambda>st. state_text st = s) tx_states"

record replay_state =
  rs_status :: tx_state
  rs_approval :: string
  rs_effects :: "string \<Rightarrow> effect_state"

definition replay_init :: replay_state where
  "replay_init = \<lparr>rs_status = StateUnset, rs_approval = [], rs_effects = (\<lambda>_. EffectUnset)\<rparr>"

definition is_tx_kind :: "string \<Rightarrow> bool" where
  "is_tx_kind kind = has_prefix kind ''transaction.''"

definition replay_transaction :: "string \<Rightarrow> json \<Rightarrow> replay_state \<Rightarrow> replay_state" where
  "replay_transaction kind payload s =
     (if kind = ''transaction.created'' then s\<lparr>rs_status := StateCreated\<rparr>
      else if kind = ''transaction.activated'' then s\<lparr>rs_status := StateActive\<rparr>
      else if kind = ''repository.patch_sealed'' then s\<lparr>rs_status := StateSealed, rs_approval := []\<rparr>
      else if kind = ''verification.completed'' then
        s\<lparr>rs_approval := [],
          rs_status := (if payload_field ''outcome'' payload = ''pass'' then StateReady else StateFailedVerification)\<rparr>
      else if kind = ''transaction.approved'' then s\<lparr>rs_approval := payload_field ''digest'' payload\<rparr>
      else if kind = ''transaction.committing'' then s\<lparr>rs_status := StateCommitting\<rparr>
      else if kind = ''transaction.committed'' then s\<lparr>rs_status := StateCommitted\<rparr>
      else if is_tx_kind kind then
        (case isTransactionState (drop (length ''transaction.'') kind) of None \<Rightarrow> s | Some st \<Rightarrow> s\<lparr>rs_status := st\<rparr>)
      else s)"

definition replay_invalidation :: "string \<Rightarrow> replay_state \<Rightarrow> replay_state" where
  "replay_invalidation kind s =
     (if kind = ''effect.prepared'' \<or> kind = ''effect.refreshed''
         \<or> (is_tx_kind kind \<and> rs_status s \<in> {StateStale, StateAborting, StateAborted})
      then s\<lparr>rs_approval := []\<rparr> else s)"

definition replay_effect :: "string \<Rightarrow> string \<Rightarrow> replay_state \<Rightarrow> replay_state" where
  "replay_effect kind eid s =
     (if eid = [] then s
      else if kind \<in> {''effect.prepared'', ''effect.refreshed'', ''effect.rearmed'', ''effect.commit.rejected''}
        then s\<lparr>rs_effects := (rs_effects s)(eid := EffectVerified)\<rparr>
      else if kind = ''effect.commit.intent'' then s\<lparr>rs_effects := (rs_effects s)(eid := EffectCommitting)\<rparr>
      else if kind = ''effect.unknown'' then s\<lparr>rs_effects := (rs_effects s)(eid := EffectUnknown)\<rparr>
      else if kind = ''effect.committed'' then s\<lparr>rs_effects := (rs_effects s)(eid := EffectCommitted)\<rparr>
      else if kind = ''effect.aborted'' then s\<lparr>rs_effects := (rs_effects s)(eid := EffectAborted)\<rparr>
      else s)"

definition replay_event :: "event_row \<Rightarrow> replay_state \<Rightarrow> replay_state" where
  "replay_event e s =
     replay_effect (ev_type e) (ev_effect e)
       (replay_invalidation (ev_type e) (replay_transaction (ev_type e) (ev_payload e) s))"

definition replay_events :: "event_row list \<Rightarrow> replay_state" where
  "replay_events es = fold replay_event es replay_init"

subsection \<open>The report\<close>

record effect_projection =
  ep_effect :: string
  ep_replayed :: effect_state
  ep_stored :: effect_state
  ep_match :: bool

record replay_report =
  rp_transaction :: string
  rp_replayed :: tx_state
  rp_stored :: tx_state
  rp_status_match :: bool
  rp_replayed_approval :: string
  rp_stored_approval :: string
  rp_approval_match :: bool
  rp_effects :: "effect_projection list"
  rp_count :: nat
  rp_valid :: bool
  rp_findings :: "string list"

definition effect_finding :: "effect_projection \<Rightarrow> string" where
  "effect_finding p = ''effect '' @ ep_effect p @ '' replayed='' @ effect_text (ep_replayed p) @ '' stored='' @ effect_text (ep_stored p)"

definition replay_Transaction :: "string \<Rightarrow> ledger \<Rightarrow> ledger_error + replay_report" where
  "replay_Transaction tid l =
     try_bind (require (snd (VerifyEventChains l)) EventChainInvalid) (\<lambda>_.
     try_bind (Get tid l) (\<lambda>stored.
     let es = Events tid l; s = replay_events es;
         items = map (\<lambda>e. \<lparr>ep_effect = ef_id e, ep_replayed = rs_effects s (ef_id e), ep_stored = ef_status e,
                           ep_match = (rs_effects s (ef_id e) = ef_status e)\<rparr>) (ExternalEffects tid l);
         status_ok = (rs_status s = tx_status stored); approval_ok = (rs_approval s = approval_text stored);
         findings = (if status_ok then [] else [''transaction status replayed='' @ state_text (rs_status s) @ '' stored='' @ state_text (tx_status stored)])
           @ (if approval_ok then [] else [''approval digest projection differs''])
           @ map effect_finding (filter (\<lambda>p. \<not> ep_match p) items)
     in Inr \<lparr>rp_transaction = tid, rp_replayed = rs_status s, rp_stored = tx_status stored, rp_status_match = status_ok,
             rp_replayed_approval = rs_approval s, rp_stored_approval = approval_text stored, rp_approval_match = approval_ok,
             rp_effects = items, rp_count = length es,
             rp_valid = (status_ok \<and> approval_ok \<and> list_all ep_match items), rp_findings = findings\<rparr>))"

subsection \<open>Reading the log\<close>

text \<open>The status and approval part of the fold reads only the kind and the payload of an event.\<close>

definition tx_part :: "replay_state \<Rightarrow> tx_state \<times> string" where
  "tx_part s = (rs_status s, rs_approval s)"

lemma replay_effect_part [simp]: "tx_part (replay_effect kind eid s) = tx_part s"
  by (simp add: replay_effect_def tx_part_def)

lemma tx_part_updates [simp]:
  "tx_part (s\<lparr>rs_status := a\<rparr>) = (a, snd (tx_part s))"
  "tx_part (s\<lparr>rs_approval := d\<rparr>) = (fst (tx_part s), d)"
  "tx_part \<lparr>rs_status = a, rs_approval = d, rs_effects = f\<rparr> = (a, d)"
  by (simp_all add: tx_part_def)

lemma replay_transaction_part:
  "tx_part (replay_invalidation kind (replay_transaction kind payload s))
     = tx_part (replay_invalidation kind (replay_transaction kind payload
         \<lparr>rs_status = fst (tx_part s), rs_approval = snd (tx_part s), rs_effects = (\<lambda>_. EffectUnset)\<rparr>))"
proof -
  have 1: "tx_part (replay_transaction kind payload s) = tx_part (replay_transaction kind payload s')"
    if "tx_part s = tx_part s'" for s s'
    by (simp only: replay_transaction_def if_distrib [of tx_part] option.case_distrib [of tx_part] tx_part_updates that)
  have 2: "tx_part (replay_invalidation kind s) = tx_part (replay_invalidation kind s')" if "tx_part s = tx_part s'" for s s'
  proof -
    have "rs_status s = rs_status s'" using that by (simp add: tx_part_def)
    then show ?thesis by (simp only: replay_invalidation_def if_distrib [of tx_part] tx_part_updates that)
  qed
  show ?thesis by (intro 2 1) simp
qed

definition part_step :: "string \<times> json \<Rightarrow> tx_state \<times> string \<Rightarrow> tx_state \<times> string" where
  "part_step kp p = tx_part (replay_invalidation (fst kp) (replay_transaction (fst kp) (snd kp)
     \<lparr>rs_status = fst p, rs_approval = snd p, rs_effects = (\<lambda>_. EffectUnset)\<rparr>))"

lemma replay_event_part: "tx_part (replay_event e s) = part_step (ev_type e, ev_payload e) (tx_part s)"
  unfolding replay_event_def part_step_def replay_effect_part fst_conv snd_conv by (rule replay_transaction_part)

definition kinds :: "string \<Rightarrow> ledger \<Rightarrow> (string \<times> json) list" where
  "kinds tid l = map (\<lambda>e. (ev_type e, ev_payload e)) (tx_events tid l)"

lemma fold_part: "tx_part (fold replay_event es s) = fold part_step (map (\<lambda>e. (ev_type e, ev_payload e)) es) (tx_part s)"
  by (induction es arbitrary: s) (simp_all add: replay_event_part)

lemma replay_part: "tx_part (replay_events (Events tid l)) = fold part_step (kinds tid l) (StateUnset, [])"
proof -
  have "map (\<lambda>e. (ev_type e, ev_payload e)) (Events tid l) = kinds tid l" by (simp add: Events_def kinds_def comp_def)
  then show ?thesis by (simp add: replay_events_def fold_part) (simp add: replay_init_def tx_part_def)
qed

lemma Events_no_effects: "rs_effects (replay_events (Events tid l)) eid = EffectUnset"
proof -
  have "ev_effect e = [] \<Longrightarrow> rs_effects (replay_event e s) = rs_effects s" for e s
    by (simp add: replay_event_def replay_effect_def replay_invalidation_def replay_transaction_def split: option.splits)
  then have "\<forall>e \<in> set es. ev_effect e = [] \<Longrightarrow> rs_effects (fold replay_event es s) = rs_effects s" for es s
    by (induction es arbitrary: s) auto
  moreover have "\<forall>e \<in> set (Events tid l). ev_effect e = []" by (auto simp: Events_def)
  ultimately show ?thesis by (simp add: replay_events_def replay_init_def)
qed

text \<open>How each kind of event moves the fold.\<close>

lemma part_plain:
  assumes "kind \<notin> {''repository.patch_sealed'', ''verification.completed'', ''effect.prepared'', ''effect.refreshed''}"
    and "\<not> is_tx_kind kind"
  shows "part_step (kind, payload) p = p"
proof -
  have "kind \<noteq> ''transaction.created''" "kind \<noteq> ''transaction.activated''" "kind \<noteq> ''transaction.approved''"
    "kind \<noteq> ''transaction.committing''" "kind \<noteq> ''transaction.committed''"
    using assms(2) by (auto simp: is_tx_kind_def has_prefix_def)
  then have "replay_transaction kind payload s = s" for s
    unfolding replay_transaction_def using assms by (simp only: insert_iff simp_thms if_False empty_iff de_Morgan_disj)
  moreover have "replay_invalidation kind s = s" for s
    unfolding replay_invalidation_def using assms by (simp only: insert_iff simp_thms if_False empty_iff de_Morgan_disj)
  ultimately show ?thesis by (simp add: part_step_def)
qed

lemma state_of_text: "st \<noteq> StateUnset \<Longrightarrow> isTransactionState (state_text st) = Some st"
  by (cases st) (simp_all add: isTransactionState_def tx_states_def)

lemma part_transition:
  "st \<noteq> StateUnset \<Longrightarrow> part_step (''transaction.'' @ state_text st, payload) (a, d)
     = (st, if st \<in> {StateStale, StateAborting, StateAborted} then [] else d)"
  by (cases st) (simp_all add: part_step_def tx_part_def replay_invalidation_def replay_transaction_def is_tx_kind_def
    has_prefix_def isTransactionState_def tx_states_def)

subsection \<open>The fold follows the stored rows\<close>

definition replay_of :: "string \<Rightarrow> ledger \<Rightarrow> tx_state \<times> string" where
  "replay_of x l = fold part_step (kinds x l) (StateUnset, [])"

definition replay_ok :: "ledger \<Rightarrow> bool" where
  "replay_ok l = (\<forall>x t. get_tx x l = Some t \<longrightarrow> replay_of x l = (tx_status t, approval_text t))"

lemma replay_of_events: "events l' = events l \<Longrightarrow> replay_of x l' = replay_of x l"
  by (simp add: replay_of_def kinds_def tx_events_def)

lemma replay_of_append:
  "appendChainedEvent eid tid eff kind payload fence at l = Inr l' \<Longrightarrow>
     replay_of x l' = (if x = tid then part_step (kind, payload) (replay_of x l) else replay_of x l)"
  by (auto simp: body_simps replay_of_def kinds_def tx_events_def chained_row_def Let_def)

definition plain_kind :: "string \<Rightarrow> bool" where
  "plain_kind kind = (kind \<notin> {''repository.patch_sealed'', ''verification.completed'', ''effect.prepared'', ''effect.refreshed''}
     \<and> \<not> is_tx_kind kind)"

lemma replay_of_plain:
  "appendChainedEvent eid tid eff kind payload fence at l = Inr l' \<Longrightarrow> plain_kind kind \<Longrightarrow> replay_of x l' = replay_of x l"
  by (simp add: replay_of_append part_plain plain_kind_def)

lemma part_effect:
  "part_step (''effect.prepared'', payload) (a, d) = (a, [])"
  "part_step (''effect.refreshed'', payload) (a, d) = (a, [])"
  by (simp_all add: part_step_def replay_invalidation_def replay_transaction_def is_tx_kind_def has_prefix_def)

lemma part_sealed: "part_step (''repository.patch_sealed'', payload) (a, d) = (StateSealed, [])"
  by (simp add: part_step_def replay_invalidation_def replay_transaction_def is_tx_kind_def has_prefix_def)

lemma part_verified:
  "part_step (''verification.completed'', report_json r) (a, d)
     = (if vr_outcome r = ''pass'' then StateReady else StateFailedVerification, [])"
proof -
  have "payload_field ''outcome'' (report_json r) = vr_outcome r" by (simp add: payload_field_def report_json_def)
  then show ?thesis
    by (simp add: part_step_def replay_invalidation_def replay_transaction_def is_tx_kind_def has_prefix_def)
qed

lemma part_approved:
  assumes "a \<notin> {StateStale, StateAborting, StateAborted}"
  shows "part_step (''transaction.approved'', JObj [(''approver'', p), (''digest'', JStr digest), (''expires_at'', ex), (''signature_ref'', sig)]) (a, d)
     = (a, digest)"
  using assms by (simp add: part_step_def replay_invalidation_def replay_transaction_def is_tx_kind_def has_prefix_def payload_field_def)

lemma part_created: "part_step (''transaction.activated'', p2) (part_step (''transaction.created'', p1) (StateUnset, [])) = (StateActive, [])"
  by (simp add: part_step_def replay_invalidation_def replay_transaction_def is_tx_kind_def has_prefix_def)

lemma part_commit:
  "part_step (''transaction.committing'', p) (a, d) = (StateCommitting, d)"
  "part_step (''transaction.committed'', p) (a, d) = (StateCommitted, d)"
  by (simp_all add: part_step_def replay_invalidation_def replay_transaction_def is_tx_kind_def has_prefix_def)

subsection \<open>Operations keep it\<close>

definition disciplined :: "ledger_op \<Rightarrow> bool" where
  "disciplined op = (case op of
     OpTransition tid a b actor reason m i \<Rightarrow> (i \<longleftrightarrow> b \<in> {StateStale, StateAborting, StateAborted}) | _ \<Rightarrow> True)"

lemma replay_ok_same: "replay_ok l \<Longrightarrow> same_tx l l' \<Longrightarrow> (\<And>x. replay_of x l' = replay_of x l) \<Longrightarrow> replay_ok l'"
  by (simp add: replay_ok_def same_tx_def)

lemma replay_ok_update:
  assumes "replay_ok l" and "get_tx tid l = Some cur" and "events l0 = events l" and "\<And>x. get_tx x l0 = get_tx x l"
    and "update_tx tid (tx_revision cur) f l0 = Inr l1" and "\<And>t. tx_id (f t) = tx_id t"
    and "appendChainedEvent eid tid eff kind payload fence at l1 = Inr l'"
    and "part_step (kind, payload) (tx_status cur, approval_text cur) = (tx_status (f cur), approval_text (f cur))"
  shows "replay_ok l'"
  unfolding replay_ok_def
proof (intro allI impI)
  fix x t assume t: "get_tx x l' = Some t"
  have get: "get_tx y l' = (if y = tid then Some (f cur) else get_tx y l)" for y
    using update_tx_get [OF assms(5) _ assms(6)] assms(2,4) append_event_get_tx [OF assms(7)] by simp
  have "events l1 = events l" using assms(3,5) by (simp add: body_simps)
  then have "replay_of y l1 = replay_of y l" for y by (rule replay_of_events)
  then show "replay_of x l' = (tx_status t, approval_text t)"
    using replay_of_append [OF assms(7), of x] assms(1,2,8) t get [of x] by (auto simp: replay_ok_def split: if_splits)
qed

lemma CanTransition_set: "CanTransition a b \<Longrightarrow> b \<noteq> StateUnset"
  by (cases a; cases b) (simp_all add: CanTransition_def)

lemma Transition_replay:
  assumes "Transition_tx en tid a b actor reason m i l = Inr l'" and "CanTransition a b"
    and "i \<longleftrightarrow> b \<in> {StateStale, StateAborting, StateAborted}" and "replay_ok l"
  shows "replay_ok l'"
  using assms(1) unfolding Transition_tx_def appendEvent_def try_bind_Inr fetch_Inr require_Inr
  by (elim exE conjE) (rule replay_ok_update [OF assms(4), where ?l0.0 = l], assumption, rule refl, rule refl, assumption, simp, assumption,
      subst part_transition [OF CanTransition_set [OF assms(2)]], use assms(3) in \<open>auto simp: approval_text_def\<close>)

lemma moving_bodies_replay:
  "RecordPatch_tx en tid p l = Inr l' \<Longrightarrow> replay_ok l \<Longrightarrow> replay_ok l'"
  "RecordVerification_tx en tid r l = Inr l' \<Longrightarrow> replay_ok l \<Longrightarrow> replay_ok l'"
  "ApproveWithEvidence_tx en tid d who sig ex l = Inr l' \<Longrightarrow> replay_ok l \<Longrightarrow> replay_ok l'"
  "BeginCommit_tx en tid d l = Inr l' \<Longrightarrow> replay_ok l \<Longrightarrow> replay_ok l'"
  "FinalizeTransactionCommit_tx en tid l = Inr l' \<Longrightarrow> replay_ok l \<Longrightarrow> replay_ok l'"
  "CreateExternalEffect_tx en e l = Inr l' \<Longrightarrow> replay_ok l \<Longrightarrow> replay_ok l'"
  "RefreshExternalEffect_tx en eid pj pd vj vd rs l = Inr l' \<Longrightarrow> replay_ok l \<Longrightarrow> replay_ok l'"
proof -
  show "RecordPatch_tx en tid p l = Inr l' \<Longrightarrow> replay_ok l \<Longrightarrow> replay_ok l'"
    by (auto simp: RecordPatch_tx_def try_bind_Inr appendEvent_def Let_def part_sealed approval_text_def elim!: replay_ok_update [rotated 4])
  show "RecordVerification_tx en tid r l = Inr l' \<Longrightarrow> replay_ok l \<Longrightarrow> replay_ok l'"
    by (auto simp: RecordVerification_tx_def try_bind_Inr appendEvent_def Let_def part_verified approval_text_def elim!: replay_ok_update [rotated 4])
  show "ApproveWithEvidence_tx en tid d who sig ex l = Inr l' \<Longrightarrow> replay_ok l \<Longrightarrow> replay_ok l'"
    by (auto simp: ApproveWithEvidence_tx_def try_bind_Inr appendEvent_def part_approved approval_text_def elim!: replay_ok_update [rotated 4])
  show "BeginCommit_tx en tid d l = Inr l' \<Longrightarrow> replay_ok l \<Longrightarrow> replay_ok l'"
    by (auto simp: BeginCommit_tx_def try_bind_Inr appendEvent_def part_commit approval_text_def elim!: replay_ok_update [rotated 4])
  show "FinalizeTransactionCommit_tx en tid l = Inr l' \<Longrightarrow> replay_ok l \<Longrightarrow> replay_ok l'"
    by (auto simp: FinalizeTransactionCommit_tx_def try_bind_Inr appendEvent_def part_commit approval_text_def elim!: replay_ok_update [rotated 4])
  show "CreateExternalEffect_tx en e l = Inr l' \<Longrightarrow> replay_ok l \<Longrightarrow> replay_ok l'"
    by (auto simp: CreateExternalEffect_tx_def try_bind_Inr appendEffectEvent_def Let_def part_effect approval_text_def elim!: replay_ok_update [rotated 4])
  show "RefreshExternalEffect_tx en eid pj pd vj vd rs l = Inr l' \<Longrightarrow> replay_ok l \<Longrightarrow> replay_ok l'"
    by (auto simp: RefreshExternalEffect_tx_def try_bind_Inr appendEffectEvent_def part_effect approval_text_def elim!: replay_ok_update [rotated 4])
qed

lemma plain_kinds [simp]:
  "plain_kind ''runtime.execution''" "plain_kind ''effect.unknown''" "plain_kind ''effect.commit.rejected''"
  "plain_kind ''effect.committed''" "plain_kind ''effect.rearmed''" "plain_kind ''repository.materialized''" "plain_kind ''effect.aborted''"
  by (simp_all add: plain_kind_def is_tx_kind_def has_prefix_def)

lemma plain_intent [simp]: "phase \<in> set attempt_phases \<Longrightarrow> plain_kind (''effect.'' @ phase @ ''.intent'')"
  unfolding attempt_phases_def list.set by (elim insertE emptyE) (simp_all add: plain_kind_def is_tx_kind_def has_prefix_def)

lemma replay_of_tables [simp]:
  "replay_of x (l\<lparr>transactions := v_transactions\<rparr>) = replay_of x l"
  "replay_of x (l\<lparr>workspaces := v_workspaces\<rparr>) = replay_of x l"
  "replay_of x (l\<lparr>patches := v_patches\<rparr>) = replay_of x l"
  "replay_of x (l\<lparr>runs := v_runs\<rparr>) = replay_of x l"
  "replay_of x (l\<lparr>checks := v_checks\<rparr>) = replay_of x l"
  "replay_of x (l\<lparr>approvals := v_approvals\<rparr>) = replay_of x l"
  "replay_of x (l\<lparr>effects := v_effects\<rparr>) = replay_of x l"
  "replay_of x (l\<lparr>dependencies := v_dependencies\<rparr>) = replay_of x l"
  "replay_of x (l\<lparr>attempts := v_attempts\<rparr>) = replay_of x l"
  "replay_of x (l\<lparr>receipts := v_receipts\<rparr>) = replay_of x l"
  "replay_of x (l\<lparr>refs := v_refs\<rparr>) = replay_of x l"
  "replay_of x (l\<lparr>leases := v_leases\<rparr>) = replay_of x l"
  "replay_of x (l\<lparr>executions := v_executions\<rparr>) = replay_of x l"
  "replay_of x (l\<lparr>grants := v_grants\<rparr>) = replay_of x l"
  "replay_of x (l\<lparr>access_events := v_access_events\<rparr>) = replay_of x l"
  by (simp_all add: replay_of_def kinds_def tx_events_def)

lemma replay_of_access:
  assumes "appendTransactionAccessEvent eid tid actor subject action permission rid now l = Inr l'"
  shows "replay_of x l' = replay_of x l"
proof -
  obtain es where "l' = l\<lparr>access_events := es\<rparr>" using append_access_fields [OF assms] .
  then show ?thesis by simp
qed

lemma replay_of_frame [simp]:
  "replay_of x (set_effect_status now eid st l) = replay_of x l"
  "replay_of x (update_effect eid f l) = replay_of x l"
  "replay_of x (close_attempt aid g l) = replay_of x l"
  by (simp_all add: set_effect_status_def update_effect_def close_attempt_def)

lemma abort_loop_replay: "abort_loop en i tid reason es l = Inr l' \<Longrightarrow> replay_of x l' = replay_of x l"
  by (induction es arbitrary: i l) (auto simp: try_bind_Inr appendEffectEvent_def replay_of_plain)

lemma plain_bodies_replay:
  "RecordRuntimeExecution_tx en r l = Inr l' \<Longrightarrow> replay_of x l' = replay_of x l"
  "AcquireLease_tx en name who ttl l = Inr l' \<Longrightarrow> replay_of x l' = replay_of x l"
  "phase \<in> set attempt_phases \<Longrightarrow> BeginEffectAttempt_tx en eid phase d token l = Inr l' \<Longrightarrow> replay_of x l' = replay_of x l"
  "MarkEffectUnknown_tx en a cls msg l = Inr l' \<Longrightarrow> replay_of x l' = replay_of x l"
  "MarkEffectDefiniteFailure_tx en a http cls msg l = Inr l' \<Longrightarrow> replay_of x l' = replay_of x l"
  "RecordEffectCommitted_tx en a rc l = Inr l' \<Longrightarrow> replay_of x l' = replay_of x l"
  "RearmEffect_tx en eid att reason l = Inr l' \<Longrightarrow> replay_of x l' = replay_of x l"
  "RecordMaterializedRef_tx en tid rf l = Inr l' \<Longrightarrow> replay_of x l' = replay_of x l"
  "RecordTransactionOwner_tx en tid who rid l = Inr l' \<Longrightarrow> replay_of x l' = replay_of x l"
  "GrantTransactionAccess_tx en tid actor subj p adm rid l = Inr l' \<Longrightarrow> replay_of x l' = replay_of x l"
  "RevokeTransactionAccess_tx en tid actor subj adm rid l = Inr l' \<Longrightarrow> replay_of x l' = replay_of x l"
  "AbortPreparedEffects_tx en tid reason l = Inr l' \<Longrightarrow> replay_of x l' = replay_of x l"
proof -
  show "RecordRuntimeExecution_tx en r l = Inr l' \<Longrightarrow> replay_of x l' = replay_of x l"
    by (auto simp: RecordRuntimeExecution_tx_def try_bind_Inr appendEvent_def replay_of_plain)
  show "AcquireLease_tx en name who ttl l = Inr l' \<Longrightarrow> replay_of x l' = replay_of x l"
    by (auto simp: AcquireLease_tx_def Let_def split: option.splits if_splits)
  show "phase \<in> set attempt_phases \<Longrightarrow> BeginEffectAttempt_tx en eid phase d token l = Inr l' \<Longrightarrow> replay_of x l' = replay_of x l"
    unfolding BeginEffectAttempt_tx_def Let_def try_bind_Inr appendEffectEvent_def
    by (elim exE conjE, drule replay_of_plain [where x = x, OF _ plain_intent], assumption) auto
  show "MarkEffectUnknown_tx en a cls msg l = Inr l' \<Longrightarrow> replay_of x l' = replay_of x l"
    by (auto simp: MarkEffectUnknown_tx_def try_bind_Inr appendEffectEvent_def replay_of_plain)
  show "MarkEffectDefiniteFailure_tx en a http cls msg l = Inr l' \<Longrightarrow> replay_of x l' = replay_of x l"
    by (auto simp: MarkEffectDefiniteFailure_tx_def try_bind_Inr appendEffectEvent_def replay_of_plain)
  show "RecordEffectCommitted_tx en a rc l = Inr l' \<Longrightarrow> replay_of x l' = replay_of x l"
    by (auto simp: RecordEffectCommitted_tx_def Let_def try_bind_Inr appendEffectEvent_def replay_of_plain)
  show "RearmEffect_tx en eid att reason l = Inr l' \<Longrightarrow> replay_of x l' = replay_of x l"
    by (cases att) (auto simp: RearmEffect_tx_def try_bind_Inr appendEffectEvent_def replay_of_plain)
  show "RecordMaterializedRef_tx en tid rf l = Inr l' \<Longrightarrow> replay_of x l' = replay_of x l"
    by (auto simp: RecordMaterializedRef_tx_def Let_def try_bind_Inr appendEvent_def replay_of_plain)
  show "RecordTransactionOwner_tx en tid who rid l = Inr l' \<Longrightarrow> replay_of x l' = replay_of x l"
    by (auto simp: RecordTransactionOwner_tx_def Let_def try_bind_Inr dest!: replay_of_access [where x = x] split: option.splits if_splits)
  show "GrantTransactionAccess_tx en tid actor subj p adm rid l = Inr l' \<Longrightarrow> replay_of x l' = replay_of x l"
    by (auto simp: GrantTransactionAccess_tx_def Let_def try_bind_Inr dest!: replay_of_access [where x = x] split: option.splits if_splits)
  show "RevokeTransactionAccess_tx en tid actor subj adm rid l = Inr l' \<Longrightarrow> replay_of x l' = replay_of x l"
    by (auto simp: RevokeTransactionAccess_tx_def Let_def try_bind_Inr dest!: replay_of_access [where x = x] split: option.splits if_splits)
  show "AbortPreparedEffects_tx en tid reason l = Inr l' \<Longrightarrow> replay_of x l' = replay_of x l"
    by (auto simp: AbortPreparedEffects_tx_def try_bind_Inr dest!: abort_loop_replay)
qed

lemma Create_replay:
  assumes "Create_tx en t w l = Inr l'" and "replay_ok l" and "references_ok l"
  shows "replay_ok l'"
  unfolding replay_ok_def
proof (intro allI impI)
  fix x t' assume t': "get_tx x l' = Some t'"
  have none: "get_tx (tx_id t) l = None" using Create_get_tx [OF assms(1)] by simp
  have "tx_events (tx_id t) l = []"
    using assms(3) none by (auto simp: references_ok_def tx_events_def filter_empty_conv get_tx_def has_key_find)
  then have fresh: "replay_of (tx_id t) l = (StateUnset, [])" by (simp add: replay_of_def kinds_def)
  have id: "tx_id (create_row en t) = tx_id t" by (simp add: create_row_def Let_def)
  obtain p1 p2 l0 l1 l2 eid1 eid2 where
      a: "appendChainedEvent eid1 (tx_id t) [] ''transaction.created'' p1 0 (tx_created (create_row en t)) l0 = Inr l1"
      "replay_of x l2 = replay_of x l1"
      "appendChainedEvent eid2 (tx_id t) [] ''transaction.activated'' p2 0 (tx_created (create_row en t)) l2 = Inr l'"
      and "events l0 = events l"
    using assms(1) unfolding Create_tx_def Let_def try_bind_Inr appendEvent_def id
    by (elim exE conjE) (rule that, assumption, erule replay_of_access, assumption, simp)
  then have "replay_of x l' = (if x = tx_id t then part_step (''transaction.activated'', p2) (part_step (''transaction.created'', p1) (replay_of x l))
       else replay_of x l)"
    using replay_of_append [OF a(1), of x] replay_of_append [OF a(3), of x] replay_of_events [of l0 l x]
    by (cases "x = tx_id t") simp_all
  then show "replay_of x l' = (tx_status t', approval_text t')"
    using Create_get_tx [OF assms(1)] t' assms(2) fresh part_created
    by (cases "x = tx_id t") (auto simp: replay_ok_def approval_text_def)
qed

lemma replay_body:
  assumes "replay_ok l" and "references_ok l" and "disciplined op" and b: "op_body en op l = Inr l'"
  shows "replay_ok l'"
proof (cases op)
  case (OpCreate t w)
  with b Create_replay assms(1,2) show ?thesis by simp
next
  case (OpTransition tid a b' actor reason m i)
  with b have "Transition_tx en tid a b' actor reason m i l = Inr l'" "CanTransition a b'"
    by (auto simp: try_bind_Inr ValidateTransition_def)
  then show ?thesis by (rule Transition_replay) (use assms(1,3) OpTransition in \<open>simp_all add: disciplined_def\<close>)
next
  case (OpNeedsReconciliation tid reason)
  with b obtain s where "Transition_tx en tid s StateNeedsReconciliation ''daemon'' reason False False l = Inr l'"
      "CanTransition s StateNeedsReconciliation"
    by (auto simp: try_bind_Inr ValidateTransition_def)
  then show ?thesis by (rule Transition_replay) (use assms(1) in simp_all)
next
  case (OpBeginAttempt eid phase d token)
  with b have "phase \<in> set attempt_phases" "BeginEffectAttempt_tx en eid phase d token l = Inr l'" by (auto simp: try_bind_Inr)
  then show ?thesis using replay_ok_same [OF assms(1)] writes_same_tx(3) plain_bodies_replay(3) by metis
next
  case (OpAbortEffects tid reason)
  with b show ?thesis using replay_ok_same [OF assms(1)] AbortEffects_same_tx plain_bodies_replay(12) by (metis op_body.simps(19))
qed (use b assms(1) in \<open>simp_all add: try_bind_Inr\<close>, (metis moving_bodies_replay replay_ok_same writes_same_tx plain_bodies_replay)+)

lemma replay_run:
  "replay_ok l \<Longrightarrow> references_ok l \<Longrightarrow> list_all (\<lambda>s. disciplined (snd s)) ops \<Longrightarrow> replay_ok (run ops l)"
proof (induction ops l rule: run.induct)
  case (2 en op ops l)
  have "replay_ok (snd (exec en op l))" using exec_cases [of en op l] replay_body 2(2-4) by fastforce
  with 2 show ?case by (simp add: references.inv_exec)
qed simp

lemma Transaction_report:
  assumes "logs_ok l" and "get_tx tid l = Some t"
  shows "\<exists>r. replay_Transaction tid l = Inr r \<and> rp_status_match r = (fst (replay_of tid l) = tx_status t)
     \<and> rp_replayed r = fst (replay_of tid l) \<and> rp_replayed_approval r = snd (replay_of tid l)
     \<and> rp_approval_match r = (snd (replay_of tid l) = approval_text t)
     \<and> rp_effects r = map (\<lambda>e. \<lparr>ep_effect = ef_id e, ep_replayed = EffectUnset, ep_stored = ef_status e,
         ep_match = (EffectUnset = ef_status e)\<rparr>) (ExternalEffects tid l)
     \<and> rp_valid r = (rp_status_match r \<and> rp_approval_match r \<and> list_all ep_match (rp_effects r))
     \<and> (rp_findings r = [] \<longleftrightarrow> rp_valid r)"
proof -
  have "snd (VerifyEventChains l)" using assms(1) by (simp add: VerifyEventChains_iff logs_ok_def)
  moreover have "rs_status s = fst (tx_part s)" "rs_approval s = snd (tx_part s)" for s by (simp_all add: tx_part_def)
  ultimately show ?thesis using assms(2)
    by (auto simp: replay_Transaction_def Let_def try_bind_Inr Get_def Events_no_effects replay_part replay_of_def
      filter_empty_conv list_all_iff)
qed

subsection \<open>What the report says\<close>

text \<open>C19. Replay agrees with the ledger on the transaction: after any operations that invalidate approvals exactly
  when they move to stale, aborting or aborted (as every transition of the application does), the fold over the
  event log gives the stored status and the stored approval digest of every transaction, and a transaction
  without live effects gets a valid report without findings.\<close>

theorem replay_follows_rows:
  assumes "ledger_wf l" and "replay_ok l" and "list_all (\<lambda>s. disciplined (snd s)) ops" and "get_tx tid (run ops l) = Some t"
  shows "\<exists>r. replay_Transaction tid (run ops l) = Inr r \<and> rp_replayed r = tx_status t \<and> rp_replayed_approval r = approval_text t
     \<and> (live_effects tid (run ops l) = [] \<longrightarrow> rp_valid r \<and> rp_findings r = [])"
proof -
  have "logs_ok (run ops l)" using ledger_wf_run [OF assms(1), of ops] by (simp add: ledger_wf_def)
  from Transaction_report [OF this assms(4)] replay_run [OF assms(2) _ assms(3)] assms(1,4)
  show ?thesis by (fastforce simp: ledger_wf_def replay_ok_def ExternalEffects_def)
qed

definition replayed0 :: ledger where
  "replayed0 = empty_ledger\<lparr>transactions := [tx0],
     events := [chained_row ''ev'' ''t'' [] ''transaction.ready'' (JObj []) 0 5 []]\<rparr>"

lemma replayed0_wf: "ledger_wf replayed0"
proof -
  have "appendChainedEvent ''ev'' ''t'' [] ''transaction.ready'' (JObj []) 0 5 (empty_ledger\<lparr>transactions := [tx0]\<rparr>) = Inr replayed0"
    by (simp add: appendChainedEvent_Inr replayed0_def example tx_events_def has_key_def)
  from append_event_ok [OF this] have "event_ok (tx_events x replayed0)" for x
    by (simp add: tx_events_def event_ok_def empty_ledger_def)
  then show ?thesis
    by (simp add: ledger_wf_def keys_ok_def references_ok_def statuses_ok_def logs_ok_def sharing_ok_def deps_ok_def records_ok_def
      unique_key_def access_ok_def) (simp add: replayed0_def chained_row_def Let_def has_key_def example)
qed

lemma replayed0_replay: "replay_ok replayed0"
proof -
  have "part_step (''transaction.ready'', JObj []) (StateUnset, []) = (StateReady, [])"
    using part_transition [of StateReady "JObj []" StateUnset "[]"] by simp
  then show ?thesis
    by (simp add: replay_ok_def replay_of_def kinds_def tx_events_def replayed0_def chained_row_def Let_def example approval_text_def)
qed

theorem replay_follows_rows_witness:
  "\<exists>r. replay_Transaction ''t'' (run [(env0, OpAcquireLease ''transaction:t'' ''daemon'' 1000000)] replayed0) = Inr r
     \<and> rp_replayed r = StateReady \<and> rp_valid r"
proof -
  let ?l = "run [(env0, OpAcquireLease ''transaction:t'' ''daemon'' 1000000)] replayed0"
  have "get_tx ''t'' ?l = Some tx0" "live_effects ''t'' ?l = []"
    by (simp_all add: AcquireLease_def AcquireLease_tx_def WithTx_def replayed0_def example live_effects_def)
  from replay_follows_rows [OF replayed0_wf replayed0_replay _ this(1)] this(2)
  show ?thesis by (auto simp: disciplined_def example)
qed

text \<open>C26. Replay cannot see effects: the query behind \<open>Events\<close> does not select the effect column, so the fold
  leaves every effect unset, and the report of any transaction with a live effect is invalid, whatever
  happened.\<close>

theorem replay_blind_to_effects:
  assumes "ledger_wf l" and "e \<in> set (live_effects tid l)"
  shows "\<exists>r. replay_Transaction tid l = Inr r \<and> \<not> rp_valid r \<and> rp_findings r \<noteq> []"
proof -
  have e: "e \<in> set (effects l)" "ef_tx e = tid" using assms(2) by (auto simp: live_effects_def)
  with assms(1) obtain t where "get_tx tid l = Some t"
    by (force simp: ledger_wf_def references_ok_def get_tx_def has_key_find)
  moreover have "ef_status e \<noteq> EffectUnset" using assms(1) e(1) by (auto simp: ledger_wf_def statuses_ok_def)
  ultimately show ?thesis using Transaction_report [of l tid t] assms
    by (fastforce simp: ledger_wf_def list_all_iff ExternalEffects_def)
qed

theorem replay_blind_to_effects_witness:
  "\<exists>r. replay_Transaction ''t'' ledger0 = Inr r \<and> \<not> rp_valid r"
  using replay_blind_to_effects [OF ledger0_wf, of effect0 "''t''"] by (auto simp: live_effects_def example)

end
