(* ===== verification/LedgerControl.thy ===== *)
theory LedgerControl
  imports LedgerTenant
begin

text \<open>
  The control tables of the ledger, beside the transactions: authorization decisions and single-use
  capabilities (\<open>authorization.go\<close>), idempotent API requests and the API access log
  (\<open>api_requests.go\<close>), the records of expiry, garbage collection and backup retention
  (\<open>lifecycle.go\<close>).  None of their operations reads or writes the transaction tables, except the
  foreign key of an expiry action.
\<close>

subsection \<open>Tables\<close>

record decision_input =
  di_principal :: string
  di_operation :: string
  di_resource :: string
  di_allowed :: bool
  di_source :: string
  di_reason :: string
  di_policy :: string
  di_roles :: "string list"
  di_capability :: string
  di_request :: string

record decision_row =
  ad_seq :: int
  ad_id :: string
  ad_principal :: string
  ad_operation :: string
  ad_resource :: string
  ad_allowed :: bool
  ad_source :: string
  ad_reason :: string
  ad_policy :: string
  ad_roles :: string
  ad_capability :: string
  ad_request :: string
  ad_created :: gotime
  ad_prev :: string
  ad_digest :: string

record capability_use =
  cu_id :: string
  cu_principal :: string
  cu_operation :: string
  cu_resource :: string
  cu_digest :: string
  cu_used :: gotime

record api_request =
  aq_principal :: string
  aq_key :: string
  aq_method :: string
  aq_path :: string
  aq_digest :: string
  aq_state :: string
  aq_status :: int
  aq_type :: string
  aq_body :: string
  aq_created :: gotime
  aq_updated :: gotime

record api_event =
  ac_seq :: int
  ac_id :: string
  ac_principal :: string
  ac_method :: string
  ac_path :: string
  ac_status :: int
  ac_key :: string
  ac_request_digest :: string
  ac_request :: string
  ac_created :: gotime
  ac_prev :: string
  ac_digest :: string

record expiry_action =
  xa_id :: string
  xa_tx :: string
  xa_prior :: tx_state
  xa_policy :: string
  xa_applied :: gotime

record gc_action =
  ga_id :: string
  ga_completed :: int
  ga_progress :: int
  ga_completed_before :: gotime
  ga_progress_before :: gotime
  ga_plan :: string
  ga_applied :: gotime

record backup_row =
  bk_id :: string
  bk_path :: string
  bk_sha :: string
  bk_size :: int
  bk_created :: gotime

record retention_action =
  ra_id :: string
  ra_backup :: string
  ra_path :: string
  ra_bytes :: int
  ra_plan :: string
  ra_applied :: gotime

record control =
  decisions :: "decision_row list"
  uses :: "capability_use list"
  requests :: "api_request list"
  api_events :: "api_event list"
  expiries :: "expiry_action list"
  collections :: "gc_action list"
  backups :: "backup_row list"
  retentions :: "retention_action list"

definition empty_control :: control where
  "empty_control = \<lparr>decisions = [], uses = [], requests = [], api_events = [], expiries = [], collections = [],
     backups = [], retentions = []\<rparr>"

subsection \<open>Authorization decisions\<close>

definition normalizeRoles :: "string list \<Rightarrow> string" where
  "normalizeRoles roles = (if roles = [] then [] else join '','' (sort roles))"

definition splitRoles :: "string \<Rightarrow> string list" where
  "splitRoles v = (if v = [] then [] else split_on CHR '','' v)"

text \<open>The digest is over the columns with the given rendering of the roles.\<close>

definition authorization_material :: "decision_row \<Rightarrow> string \<Rightarrow> json" where
  "authorization_material e roles = JObj
     ([(''sequence'', JInt (ad_seq e)), (''decision_id'', JStr (ad_id e)), (''principal_id'', JStr (ad_principal e)),
       (''operation_id'', JStr (ad_operation e))]
      @ opt_field ''resource_id'' (ad_resource e)
      @ [(''allowed'', JBool (ad_allowed e)), (''source'', JStr (ad_source e)), (''reason_code'', JStr (ad_reason e))]
      @ opt_field ''policy_digest'' (ad_policy e) @ opt_field ''role_names'' roles
      @ opt_field ''capability_digest'' (ad_capability e) @ opt_field ''request_id'' (ad_request e)
      @ [(''created_at'', JStr (ts (ad_created e)))] @ opt_field ''previous_digest'' (ad_prev e))"

definition authorizationDigest :: "decision_row \<Rightarrow> string \<Rightarrow> string" where
  "authorizationDigest e roles = sha256_hex (marshal (authorization_material e roles))"

definition last_digest :: "('e \<Rightarrow> string) \<Rightarrow> 'e list \<Rightarrow> string" where
  "last_digest digest es = (if es = [] then [] else digest (last es))"

definition decision_row_of :: "env \<Rightarrow> decision_input \<Rightarrow> decision_row list \<Rightarrow> decision_row" where
  "decision_row_of en di rows =
     (let e = \<lparr>ad_seq = next_seq ad_seq rows, ad_id = NewID en 0 ''authz'', ad_principal = di_principal di,
               ad_operation = di_operation di, ad_resource = di_resource di, ad_allowed = di_allowed di,
               ad_source = di_source di, ad_reason = di_reason di, ad_policy = di_policy di,
               ad_roles = normalizeRoles (di_roles di), ad_capability = di_capability di, ad_request = di_request di,
               ad_created = en_now en, ad_prev = last_digest ad_digest rows, ad_digest = []\<rparr>
      in e\<lparr>ad_digest := authorizationDigest e (ad_roles e)\<rparr>)"

definition RecordAuthorizationDecision_tx :: "env \<Rightarrow> decision_input \<Rightarrow> control \<Rightarrow> ledger_error + control" where
  "RecordAuthorizationDecision_tx en di c =
     (let e = decision_row_of en di (decisions c)
      in try_bind (require (\<not> has_key ad_id (ad_id e) (decisions c) \<and> \<not> has_key ad_digest (ad_digest e) (decisions c))
           (SqlConstraint ''authorization_decisions'')) (\<lambda>_.
         Inr (c\<lparr>decisions := decisions c @ [e]\<rparr>)))"

definition RecordAuthorizationDecision :: "env \<Rightarrow> decision_input \<Rightarrow> control \<Rightarrow> (ledger_error + unit) \<times> control" where
  "RecordAuthorizationDecision en di c =
     (if di_principal di = [] \<or> di_operation di = [] \<or> di_source di = [] \<or> di_reason di = [] then (Inl MissingField, c)
      else WithTx en (RecordAuthorizationDecision_tx en di) c)"

definition VerifyAuthorizationDecisionChain :: "control \<Rightarrow> string \<times> chain_error option" where
  "VerifyAuthorizationDecisionChain c =
     verify_rows ad_seq ad_prev ad_digest (\<lambda>e. authorizationDigest e (normalizeRoles (splitRoles (ad_roles e)))) 1 [] (decisions c)"

record authorization_summary =
  as_total :: int
  as_allowed :: int
  as_denied :: int
  as_recent :: "decision_row list"
  as_head :: string
  as_valid :: bool

definition recent :: "int \<Rightarrow> 'e list \<Rightarrow> 'e list" where
  "recent limit rows = take (nat (if limit \<le> 0 \<or> limit > 1000 then 100 else limit)) (rev rows)"

definition AuthorizationSummary :: "int \<Rightarrow> control \<Rightarrow> authorization_summary" where
  "AuthorizationSummary limit c =
     \<lparr>as_total = int (length (decisions c)), as_allowed = int (length (filter ad_allowed (decisions c))),
      as_denied = int (length (filter (\<lambda>e. \<not> ad_allowed e) (decisions c))), as_recent = recent limit (decisions c),
      as_head = fst (VerifyAuthorizationDecisionChain c), as_valid = (snd (VerifyAuthorizationDecisionChain c) = None)\<rparr>"

definition ConsumeAuthorizationCapability_tx ::
  "env \<Rightarrow> string \<Rightarrow> string \<Rightarrow> string \<Rightarrow> string \<Rightarrow> string \<Rightarrow> control \<Rightarrow> ledger_error + control" where
  "ConsumeAuthorizationCapability_tx en cid who operation resource digest c =
     try_bind (require (\<not> has_key cu_id cid (uses c)) CapabilityUsed) (\<lambda>_.
     Inr (c\<lparr>uses := uses c @ [\<lparr>cu_id = cid, cu_principal = who, cu_operation = operation, cu_resource = resource,
       cu_digest = digest, cu_used = en_now en\<rparr>]\<rparr>))"

definition ConsumeAuthorizationCapability ::
  "env \<Rightarrow> string \<Rightarrow> string \<Rightarrow> string \<Rightarrow> string \<Rightarrow> string \<Rightarrow> control \<Rightarrow> (ledger_error + unit) \<times> control" where
  "ConsumeAuthorizationCapability en cid who operation resource digest c =
     (if cid = [] \<or> who = [] \<or> operation = [] \<or> digest = [] then (Inl MissingField, c)
      else WithTx en (ConsumeAuthorizationCapability_tx en cid who operation resource digest) c)"

subsection \<open>Idempotent requests\<close>

definition request_key :: "api_request \<Rightarrow> string \<times> string" where
  "request_key r = (aq_principal r, aq_key r)"

definition new_request :: "env \<Rightarrow> string \<Rightarrow> string \<Rightarrow> string \<Rightarrow> string \<Rightarrow> string \<Rightarrow> api_request" where
  "new_request en who key verb path digest =
     \<lparr>aq_principal = who, aq_key = key, aq_method = verb, aq_path = path, aq_digest = digest, aq_state = ''in_progress'',
      aq_status = 0, aq_type = [], aq_body = [], aq_created = en_now en, aq_updated = en_now en\<rparr>"

definition BeginAPIRequest ::
  "env \<Rightarrow> string \<Rightarrow> string \<Rightarrow> string \<Rightarrow> string \<Rightarrow> string \<Rightarrow> control \<Rightarrow> (ledger_error + api_request \<times> bool) \<times> control" where
  "BeginAPIRequest en who key verb path digest c =
     (if who = [] \<or> key = [] \<or> verb = [] \<or> path = [] \<or> digest = [] then (Inl MissingField, c)
      else case WithTx en (\<lambda>c. case find_row request_key (who, key) (requests c) of
                  Some r \<Rightarrow> Inr c
                | None \<Rightarrow> Inr (c\<lparr>requests := requests c @ [new_request en who key verb path digest]\<rparr>)) c of
             (Inl e, c') \<Rightarrow> (Inl e, c')
           | (Inr _, c') \<Rightarrow>
               (Inr (case find_row request_key (who, key) (requests c) of
                  Some r \<Rightarrow> (r, False) | None \<Rightarrow> (new_request en who key verb path digest, True)), c'))"

definition reserved :: "string \<Rightarrow> string \<Rightarrow> string \<Rightarrow> api_request \<Rightarrow> bool" where
  "reserved who key digest r = (request_key r = (who, key) \<and> aq_digest r = digest \<and> aq_state r = ''in_progress'')"

definition CompleteAPIRequest ::
  "env \<Rightarrow> string \<Rightarrow> string \<Rightarrow> string \<Rightarrow> int \<Rightarrow> string \<Rightarrow> string \<Rightarrow> control \<Rightarrow> (ledger_error + unit) \<times> control" where
  "CompleteAPIRequest en who key digest status contentType body c =
     (if length body > 1048576 then (Inl ResponseTooLarge, c)
      else case WithTx en (\<lambda>c. Inr (c\<lparr>requests := update_where (reserved who key digest)
                  (\<lambda>r. r\<lparr>aq_state := ''completed'', aq_status := status, aq_type := contentType, aq_body := body, aq_updated := en_now en\<rparr>)
                  (requests c)\<rparr>)) c of
             (Inl e, c') \<Rightarrow> (Inl e, c')
           | (Inr _, c') \<Rightarrow> (if changes (reserved who key digest) (requests c) = 1 then Inr () else Inl ReservationInactive, c'))"

definition AbortAPIRequest :: "env \<Rightarrow> string \<Rightarrow> string \<Rightarrow> string \<Rightarrow> control \<Rightarrow> (ledger_error + unit) \<times> control" where
  "AbortAPIRequest en who key digest c =
     WithTx en (\<lambda>c. Inr (c\<lparr>requests := filter (\<lambda>r. \<not> reserved who key digest r) (requests c)\<rparr>)) c"

subsection \<open>The API access log\<close>

definition api_material :: "api_event \<Rightarrow> string \<Rightarrow> json" where
  "api_material e previous = JObj
     ([(''sequence'', JInt (ac_seq e)), (''event_id'', JStr (ac_id e)), (''principal_id'', JStr (ac_principal e)),
       (''method'', JStr (ac_method e)), (''path'', JStr (ac_path e)), (''status_code'', JInt (ac_status e))]
      @ opt_field ''idempotency_key_digest'' (ac_key e) @ opt_field ''request_digest'' (ac_request_digest e)
      @ opt_field ''request_id'' (ac_request e)
      @ [(''created_at'', JStr (ts (ac_created e)))] @ opt_field ''previous_digest'' previous)"

definition apiAccessDigest :: "api_event \<Rightarrow> string \<Rightarrow> string" where
  "apiAccessDigest e previous = sha256_hex (marshal (api_material e previous))"

definition api_row_of ::
  "env \<Rightarrow> string \<Rightarrow> string \<Rightarrow> string \<Rightarrow> int \<Rightarrow> string \<Rightarrow> string \<Rightarrow> string \<Rightarrow> api_event list \<Rightarrow> api_event" where
  "api_row_of en who verb path status keyDigest requestDigest requestID rows =
     (let e = \<lparr>ac_seq = next_seq ac_seq rows, ac_id = NewID en 0 ''api'', ac_principal = who, ac_method = verb, ac_path = path,
               ac_status = status, ac_key = keyDigest, ac_request_digest = requestDigest, ac_request = requestID,
               ac_created = en_now en, ac_prev = last_digest ac_digest rows, ac_digest = []\<rparr>
      in e\<lparr>ac_digest := apiAccessDigest e (ac_prev e)\<rparr>)"

definition RecordAPIAccess_tx ::
  "env \<Rightarrow> string \<Rightarrow> string \<Rightarrow> string \<Rightarrow> int \<Rightarrow> string \<Rightarrow> string \<Rightarrow> string \<Rightarrow> control \<Rightarrow> ledger_error + control" where
  "RecordAPIAccess_tx en who verb path status keyDigest requestDigest requestID c =
     (let e = api_row_of en who verb path status keyDigest requestDigest requestID (api_events c)
      in try_bind (require (\<not> has_key ac_id (ac_id e) (api_events c) \<and> \<not> has_key ac_digest (ac_digest e) (api_events c))
           (SqlConstraint ''api_access_events'')) (\<lambda>_.
         Inr (c\<lparr>api_events := api_events c @ [e]\<rparr>)))"

definition RecordAPIAccess ::
  "env \<Rightarrow> string \<Rightarrow> string \<Rightarrow> string \<Rightarrow> int \<Rightarrow> string \<Rightarrow> string \<Rightarrow> string \<Rightarrow> control \<Rightarrow> (ledger_error + unit) \<times> control" where
  "RecordAPIAccess en who verb path status keyDigest requestDigest requestID c =
     WithTx en (RecordAPIAccess_tx en who verb path status keyDigest requestDigest requestID) c"

definition VerifyAPIAccessChain :: "control \<Rightarrow> string \<times> chain_error option" where
  "VerifyAPIAccessChain c = verify_rows ac_seq ac_prev ac_digest (\<lambda>e. apiAccessDigest e (ac_prev e)) 1 [] (api_events c)"

fun backfill_api :: "string \<Rightarrow> api_event list \<Rightarrow> ledger_error + api_event list" where
  "backfill_api previous [] = Inr []"
| "backfill_api previous (e # es) =
     (let digest = apiAccessDigest e previous
      in if ac_prev e \<noteq> previous \<or> ac_digest e \<noteq> digest
         then (if ac_digest e \<noteq> [] then Inl (ChainBroken (ac_seq e))
               else try_bind (backfill_api digest es) (\<lambda>rest. Inr (e\<lparr>ac_prev := previous, ac_digest := digest\<rparr> # rest)))
         else try_bind (backfill_api digest es) (\<lambda>rest. Inr (e # rest)))"

definition backfillAPIAccessChain :: "env \<Rightarrow> control \<Rightarrow> (ledger_error + unit) \<times> control" where
  "backfillAPIAccessChain en c =
     WithTx en (\<lambda>c. try_bind (backfill_api [] (api_events c)) (\<lambda>rows. Inr (c\<lparr>api_events := rows\<rparr>))) c"

record api_summary =
  ps_total :: int
  ps_status :: "(string \<times> int) list"
  ps_recent :: "api_event list"
  ps_head :: string
  ps_valid :: bool

definition APIAccessCount :: "control \<Rightarrow> int" where
  "APIAccessCount c = int (length (api_events c))"

definition APIAccessSummary :: "int \<Rightarrow> control \<Rightarrow> api_summary" where
  "APIAccessSummary limit c =
     \<lparr>ps_total = APIAccessCount c,
      ps_status = map (\<lambda>st. (show_int st, int (length (filter (\<lambda>e. ac_status e = st) (api_events c)))))
        (sort (remdups (map ac_status (api_events c)))),
      ps_recent = recent limit (api_events c), ps_head = fst (VerifyAPIAccessChain c),
      ps_valid = (snd (VerifyAPIAccessChain c) = None)\<rparr>"

subsection \<open>Expiry, garbage collection and backup records\<close>

text \<open>Times are compared as the texts stored for them.\<close>

definition TransactionsByStatusBefore :: "tx_state \<Rightarrow> gotime \<Rightarrow> ledger \<Rightarrow> transaction list" where
  "TransactionsByStatusBefore st before l =
     sort_key (\<lambda>t. (ts (tx_updated t), tx_id t))
       (filter (\<lambda>t. tx_status t = st \<and> ts (tx_updated t) < ts before) (transactions l))"

definition RecordExpiryAction :: "env \<Rightarrow> expiry_action \<Rightarrow> ledger \<Rightarrow> control \<Rightarrow> (ledger_error + unit) \<times> control" where
  "RecordExpiryAction en a0 l c =
     (let a = a0\<lparr>xa_id := (if xa_id a0 = [] then NewID en 0 ''expiry'' else xa_id a0),
                xa_applied := or_now (en_now en) (xa_applied a0)\<rparr>
      in if xa_tx a = [] \<or> xa_prior a = StateUnset \<or> xa_policy a = [] then (Inl MissingField, c)
         else WithTx en (\<lambda>c. try_bind (require (\<not> has_key xa_id (xa_id a) (expiries c) \<and> get_tx (xa_tx a) l \<noteq> None)
                (SqlConstraint ''transaction_expiry_actions'')) (\<lambda>_. Inr (c\<lparr>expiries := expiries c @ [a]\<rparr>))) c)"

definition IdempotencyBefore :: "string \<Rightarrow> gotime \<Rightarrow> control \<Rightarrow> api_request list" where
  "IdempotencyBefore st before c =
     sort_key (\<lambda>r. (ts (aq_updated r), aq_principal r, aq_key r))
       (filter (\<lambda>r. aq_state r = st \<and> ts (aq_updated r) < ts before) (requests c))"

definition planned :: "api_request \<Rightarrow> api_request \<Rightarrow> bool" where
  "planned rec r = (request_key r = request_key rec \<and> aq_digest r = aq_digest rec \<and> aq_state r = aq_state rec
     \<and> ts (aq_updated r) = ts (aq_updated rec))"

fun delete_planned :: "api_request list \<Rightarrow> api_request list \<Rightarrow> ledger_error + api_request list" where
  "delete_planned [] rows = Inr rows"
| "delete_planned (rec # recs) rows =
     (if changes (planned rec) rows \<noteq> 1 then Inl RecordChanged
      else delete_planned recs (filter (\<lambda>r. \<not> planned rec r) rows))"

definition DeleteIdempotencyRecords ::
  "env \<Rightarrow> api_request list \<Rightarrow> control \<Rightarrow> (ledger_error + int \<times> int) \<times> control" where
  "DeleteIdempotencyRecords en recs c =
     (case WithTx en (\<lambda>c. try_bind (delete_planned recs (requests c)) (\<lambda>rows. Inr (c\<lparr>requests := rows\<rparr>))) c of
        (Inl e, c') \<Rightarrow> (Inl e, c')
      | (Inr _, c') \<Rightarrow> (Inr (int (length (filter (\<lambda>r. aq_state r = ''completed'') recs)),
                             int (length (filter (\<lambda>r. aq_state r = ''in_progress'') recs))), c'))"

definition RecordIdempotencyGC :: "env \<Rightarrow> gc_action \<Rightarrow> control \<Rightarrow> (ledger_error + unit) \<times> control" where
  "RecordIdempotencyGC en a0 c =
     (let a = a0\<lparr>ga_id := (if ga_id a0 = [] then NewID en 0 ''idgc'' else ga_id a0),
                ga_applied := or_now (en_now en) (ga_applied a0)\<rparr>
      in WithTx en (\<lambda>c. try_bind (require (\<not> has_key ga_id (ga_id a) (collections c)) (SqlConstraint ''idempotency_gc_actions''))
           (\<lambda>_. Inr (c\<lparr>collections := collections c @ [a]\<rparr>))) c)"

definition Backups :: "control \<Rightarrow> backup_row list" where
  "Backups c = rev (sort_key (\<lambda>b. (ts (bk_created b), bk_id b)) (backups c))"

definition DeleteBackupRecord :: "env \<Rightarrow> string \<Rightarrow> string \<Rightarrow> control \<Rightarrow> (ledger_error + unit) \<times> control" where
  "DeleteBackupRecord en bid sha c =
     (let P = (\<lambda>b. bk_id b = bid \<and> bk_sha b = sha)
      in case WithTx en (\<lambda>c. Inr (c\<lparr>backups := filter (\<lambda>b. \<not> P b) (backups c)\<rparr>)) c of
           (Inl e, c') \<Rightarrow> (Inl e, c')
         | (Inr _, c') \<Rightarrow> (if changes P (backups c) = 1 then Inr () else Inl RecordChanged, c'))"

definition RecordBackupRetention :: "env \<Rightarrow> retention_action \<Rightarrow> control \<Rightarrow> (ledger_error + unit) \<times> control" where
  "RecordBackupRetention en a0 c =
     (let a = a0\<lparr>ra_id := (if ra_id a0 = [] then NewID en 0 ''backupret'' else ra_id a0),
                ra_applied := or_now (en_now en) (ra_applied a0)\<rparr>
      in WithTx en (\<lambda>c. try_bind (require (\<not> has_key ra_id (ra_id a) (retentions c)) (SqlConstraint ''backup_retention_actions''))
           (\<lambda>_. Inr (c\<lparr>retentions := retentions c @ [a]\<rparr>))) c)"

subsection \<open>Both logs are sequenced hash chains\<close>

abbreviation decision_text :: "decision_row \<Rightarrow> string" where
  "decision_text e \<equiv> marshal (authorization_material e (normalizeRoles (splitRoles (ad_roles e))))"

abbreviation api_text :: "api_event \<Rightarrow> string" where
  "api_text e \<equiv> marshal (api_material e (ac_prev e))"

interpretation decision_chain: sequenced_chain ad_seq ad_prev ad_digest decision_text
proof
  show "ad_prev e = ad_prev f" if "digest_like (ad_prev e)" "digest_like (ad_prev f)" "decision_text e = decision_text f" for e f
  proof -
    have "\<exists>kvs. authorization_material g roles = timed_doc kvs (ad_created g) (ad_prev g)" for g roles
      by (auto simp: authorization_material_def timed_doc_def)
    then show ?thesis using timed_doc_prev [OF that(1,2)] that(3) by metis
  qed
qed

interpretation api_chain: sequenced_chain ac_seq ac_prev ac_digest api_text
proof
  show "ac_prev e = ac_prev f" if "digest_like (ac_prev e)" "digest_like (ac_prev f)" "api_text e = api_text f" for e f
  proof -
    have "\<exists>kvs. api_material g p = timed_doc kvs (ac_created g) p" for g p
      by (auto simp: api_material_def timed_doc_def)
    then show ?thesis using timed_doc_prev [OF that(1,2)] that(3) by metis
  qed
qed

lemma VerifyAuthorizationDecisionChain_iff:
  "snd (VerifyAuthorizationDecisionChain c) = None \<longleftrightarrow> decision_chain.ok (decisions c)"
  by (simp add: VerifyAuthorizationDecisionChain_def decision_chain.ok_def rows_ok_def authorizationDigest_def)

lemma VerifyAPIAccessChain_iff: "snd (VerifyAPIAccessChain c) = None \<longleftrightarrow> api_chain.ok (api_events c)"
  by (simp add: VerifyAPIAccessChain_def api_chain.ok_def rows_ok_def apiAccessDigest_def)

text \<open>The stored roles are the ones verification hashes when no role name has a comma.\<close>

lemma normalize_split:
  assumes "\<forall>r \<in> set roles. CHR '','' \<notin> set r"
  shows "normalizeRoles (splitRoles (normalizeRoles roles)) = normalizeRoles roles"
proof (cases "normalizeRoles roles = []")
  case False
  then have "sort roles \<noteq> []" by (metis length_0_conv length_sort normalizeRoles_def)
  moreover have "normalizeRoles roles = join [CHR '',''] (sort roles)" using False by (auto simp: normalizeRoles_def)
  moreover have "split_on CHR '','' (join [CHR '',''] (sort roles)) = sort roles"
    using assms \<open>sort roles \<noteq> []\<close> by (intro split_on_join) auto
  moreover have "sort (sort roles) = sort roles" by (intro sort_key_id_if_sorted) simp
  ultimately show ?thesis using False by (simp add: splitRoles_def normalizeRoles_def)
qed (simp add: splitRoles_def normalizeRoles_def)

lemma decision_row_fields:
  "ad_seq (decision_row_of en di rows) = next_seq ad_seq rows" "ad_prev (decision_row_of en di rows) = last_digest ad_digest rows"
  "ad_roles (decision_row_of en di rows) = normalizeRoles (di_roles di)"
  "ad_digest (decision_row_of en di rows)
     = sha256_hex (marshal (authorization_material (decision_row_of en di rows) (normalizeRoles (di_roles di))))"
  by (simp_all add: decision_row_of_def Let_def authorizationDigest_def authorization_material_def)

lemma decision_snoc_ok:
  assumes "decision_chain.ok rows" and "\<forall>r \<in> set (di_roles di). CHR '','' \<notin> set r"
  shows "decision_chain.ok (rows @ [decision_row_of en di rows])"
  using assms(1) next_seq_count [OF decision_chain.ok_length [OF assms(1)]] normalize_split [OF assms(2)]
  by (intro decision_chain.ok_snoc) (simp_all add: decision_row_fields last_digest_def chain_head_def)

lemma api_row_fields:
  "ac_seq (api_row_of en who verb path status kd rd rid rows) = next_seq ac_seq rows"
  "ac_prev (api_row_of en who verb path status kd rd rid rows) = last_digest ac_digest rows"
  "ac_digest (api_row_of en who verb path status kd rd rid rows) = sha256_hex (api_text (api_row_of en who verb path status kd rd rid rows))"
  by (simp_all add: api_row_of_def Let_def apiAccessDigest_def api_material_def)

lemma api_snoc_ok: "api_chain.ok rows \<Longrightarrow> api_chain.ok (rows @ [api_row_of en who verb path status kd rd rid rows])"
  using next_seq_count [OF api_chain.ok_length]
  by (intro api_chain.ok_snoc) (simp_all add: api_row_fields last_digest_def chain_head_def)

text \<open>The backfill completes the chain of a log whose older rows have none.\<close>

lemma backfill_api_linked:
  "backfill_api p es = Inr rows \<Longrightarrow> linked ac_prev ac_digest api_text p rows \<and> map ac_seq rows = map ac_seq es"
  by (induction p es arbitrary: rows rule: backfill_api.induct)
    (auto simp: Let_def try_bind_Inr apiAccessDigest_def api_material_def split: if_splits)

lemma backfill_api_verified: "linked ac_prev ac_digest api_text p es \<Longrightarrow> backfill_api p es = Inr es"
  by (induction p es rule: backfill_api.induct) (auto simp: Let_def apiAccessDigest_def)

end
