(* ===== verification/LedgerControlProperties.thy ===== *)
theory LedgerControlProperties
  imports LedgerControl LedgerProperties
begin

text \<open>
  The control tables over sequences of their operations: a capability is used once, a completed
  request is replayed, both logs stay verifiable, and the rendering of role names that breaks one.
\<close>

subsection \<open>Sequences of control operations\<close>

datatype control_op =
    CtlDecision decision_input
  | CtlUse string string string string string
  | CtlBegin string string string string string
  | CtlComplete string string string int string string
  | CtlAbort string string string
  | CtlAccess string string string int string string string
  | CtlCollect "api_request list"

definition settled :: "('e + 'a) \<times> 't \<Rightarrow> bool \<times> 't" where
  "settled r = (is_ok (fst r), snd r)"

fun ctl :: "env \<Rightarrow> control_op \<Rightarrow> control \<Rightarrow> bool \<times> control" where
  "ctl en (CtlDecision di) c = settled (RecordAuthorizationDecision en di c)"
| "ctl en (CtlUse cid who operation resource digest) c = settled (ConsumeAuthorizationCapability en cid who operation resource digest c)"
| "ctl en (CtlBegin who key verb path digest) c = settled (BeginAPIRequest en who key verb path digest c)"
| "ctl en (CtlComplete who key digest status contentType body) c = settled (CompleteAPIRequest en who key digest status contentType body c)"
| "ctl en (CtlAbort who key digest) c = settled (AbortAPIRequest en who key digest c)"
| "ctl en (CtlAccess who verb path status kd rd rid) c = settled (RecordAPIAccess en who verb path status kd rd rid c)"
| "ctl en (CtlCollect recs) c = settled (DeleteIdempotencyRecords en recs c)"

fun ctl_run :: "(env \<times> control_op) list \<Rightarrow> control \<Rightarrow> (control_op \<times> bool) list \<times> control" where
  "ctl_run [] c = ([], c)"
| "ctl_run ((en, op) # ops) c =
     (let (ok, c1) = ctl en op c; (rs, c2) = ctl_run ops c1 in ((op, ok) # rs, c2))"

abbreviation ctl_after :: "(env \<times> control_op) list \<Rightarrow> control \<Rightarrow> control" where
  "ctl_after ops c \<equiv> snd (ctl_run ops c)"

lemma ctl_after_Cons [simp]: "ctl_after ((en, op) # ops) c = ctl_after ops (snd (ctl en op c))"
  by (simp add: case_prod_unfold Let_def)

lemma ctl_after_Nil [simp]: "ctl_after [] c = c"
  by simp

declare ctl_run.simps(2) [simp del]

text \<open>What each operation does to each table.\<close>

lemma BeginAPIRequest_snd:
  "snd (BeginAPIRequest en who key verb path digest c) = c \<or>
     (find_row request_key (who, key) (requests c) = None \<and>
      snd (BeginAPIRequest en who key verb path digest c) = c\<lparr>requests := requests c @ [new_request en who key verb path digest]\<rparr>)"
  by (auto simp: BeginAPIRequest_def WithTx_def split: option.splits)

lemma CompleteAPIRequest_snd:
  "snd (CompleteAPIRequest en who key digest status ct body c) = c \<or>
     snd (CompleteAPIRequest en who key digest status ct body c) = c\<lparr>requests := update_where (reserved who key digest)
       (\<lambda>r. r\<lparr>aq_state := ''completed'', aq_status := status, aq_type := ct, aq_body := body, aq_updated := en_now en\<rparr>) (requests c)\<rparr>"
  by (auto simp: CompleteAPIRequest_def WithTx_def split: option.splits)

lemma ctl_other_tables:
  "decisions (snd (BeginAPIRequest en who key verb path digest c)) = decisions c"
  "uses (snd (BeginAPIRequest en who key verb path digest c)) = uses c"
  "api_events (snd (BeginAPIRequest en who key verb path digest c)) = api_events c"
  "decisions (snd (CompleteAPIRequest en who key digest status ct body c)) = decisions c"
  "uses (snd (CompleteAPIRequest en who key digest status ct body c)) = uses c"
  "api_events (snd (CompleteAPIRequest en who key digest status ct body c)) = api_events c"
  "decisions (snd (AbortAPIRequest en who key digest c)) = decisions c"
  "uses (snd (AbortAPIRequest en who key digest c)) = uses c"
  "api_events (snd (AbortAPIRequest en who key digest c)) = api_events c"
  "decisions (snd (DeleteIdempotencyRecords en recs c)) = decisions c"
  "uses (snd (DeleteIdempotencyRecords en recs c)) = uses c"
  "api_events (snd (DeleteIdempotencyRecords en recs c)) = api_events c"
  "uses (snd (RecordAuthorizationDecision en di c)) = uses c"
  "requests (snd (RecordAuthorizationDecision en di c)) = requests c"
  "api_events (snd (RecordAuthorizationDecision en di c)) = api_events c"
  "uses (snd (RecordAPIAccess en who verb path status kd rd rid c)) = uses c"
  "requests (snd (RecordAPIAccess en who verb path status kd rd rid c)) = requests c"
  "decisions (snd (RecordAPIAccess en who verb path status kd rd rid c)) = decisions c"
  "decisions (snd (ConsumeAuthorizationCapability en cid who operation resource digest c)) = decisions c"
  "requests (snd (ConsumeAuthorizationCapability en cid who operation resource digest c)) = requests c"
  "api_events (snd (ConsumeAuthorizationCapability en cid who operation resource digest c)) = api_events c"
  by (auto simp: BeginAPIRequest_def CompleteAPIRequest_def AbortAPIRequest_def DeleteIdempotencyRecords_def WithTx_def
    RecordAuthorizationDecision_def RecordAuthorizationDecision_tx_def RecordAPIAccess_def RecordAPIAccess_tx_def
    ConsumeAuthorizationCapability_def ConsumeAuthorizationCapability_tx_def require_def Let_def try_bind_def
    split: option.splits sum.splits)

subsection \<open>Capabilities\<close>

definition names_capability :: "string \<Rightarrow> control_op \<Rightarrow> bool" where
  "names_capability cid op = (case op of CtlUse i who operation resource digest \<Rightarrow> i = cid | _ \<Rightarrow> False)"

lemma ctl_uses:
  "(fst (ctl en op c) \<and> names_capability cid op \<longrightarrow> \<not> has_key cu_id cid (uses c) \<and> has_key cu_id cid (uses (snd (ctl en op c))))
   \<and> (has_key cu_id cid (uses c) \<longrightarrow> has_key cu_id cid (uses (snd (ctl en op c))))"
proof (cases op)
  case (CtlUse i who operation resource digest)
  then show ?thesis
    by (auto simp: settled_def names_capability_def ConsumeAuthorizationCapability_def WithTx_def require_def
        ConsumeAuthorizationCapability_tx_def split: option.splits)
qed (simp_all add: names_capability_def settled_def ctl_other_tables)

text \<open>C22. A capability is used at most once: in every sequence of control operations, under any failures, at most
  one use of a capability identifier succeeds, and none if it was used before.\<close>

theorem capability_single_use:
  "length (filter (\<lambda>r. snd r \<and> names_capability cid (fst r)) (fst (ctl_run ops c)))
     \<le> (if has_key cu_id cid (uses c) then 0 else 1)"
proof (induction ops arbitrary: c)
  case (Cons s ops)
  obtain en op where s: "s = (en, op)" by (cases s)
  obtain ok c1 where op: "ctl en op c = (ok, c1)" by (cases "ctl en op c")
  have "fst (ctl_run (s # ops) c) = (op, ok) # fst (ctl_run ops c1)"
    by (simp add: s op ctl_run.simps(2) case_prod_unfold Let_def)
  with Cons.IH [of c1] ctl_uses [of en op c cid] op show ?case by (auto split: if_splits)
qed simp

subsection \<open>Idempotent requests\<close>

definition answered :: "string \<Rightarrow> string \<Rightarrow> api_request \<Rightarrow> control \<Rightarrow> bool" where
  "answered who key r c = (find_row request_key (who, key) (requests c) = Some r \<and> aq_state r = ''completed'')"

definition collects :: "control_op \<Rightarrow> bool" where
  "collects op = (case op of CtlCollect recs \<Rightarrow> True | _ \<Rightarrow> False)"

lemma find_row_filter_keep:
  "find_row key k rows = Some r \<Longrightarrow> P r \<Longrightarrow> find_row key k (filter P rows) = Some r" if "unique_key key rows"
  using that
proof (induction rows)
  case (Cons x rows)
  show ?case
  proof (cases "key x = k")
    case True
    with Cons show ?thesis by (simp add: table_simps)
  next
    case False
    with Cons show ?thesis by (auto simp: table_simps unique_key_def)
  qed
qed (simp add: table_simps)

lemma request_key_update: "request_key (r\<lparr>aq_state := st, aq_status := n, aq_type := t, aq_body := b, aq_updated := u\<rparr>) = request_key r"
  by (simp add: request_key_def)

lemma ctl_answered:
  assumes "answered who key r c" and "unique_key request_key (requests c)" and "\<not> collects op"
  shows "answered who key r (snd (ctl en op c)) \<and> unique_key request_key (requests (snd (ctl en op c)))"
proof (cases op)
  case (CtlBegin w k verb path digest)
  then show ?thesis using assms(1,2) BeginAPIRequest_snd [of en w k verb path digest c]
    by (auto simp: settled_def answered_def find_row_append has_key_find unique_key_append new_request_def request_key_def split: option.splits)
next
  case (CtlComplete w k digest status ct body)
  have "find_row request_key x (update_where (reserved w k digest) f rows) = map_option (\<lambda>r. if reserved w k digest r then f r else r) (find_row request_key x rows)"
    if "\<And>r. request_key (f r) = request_key r" for f rows x
    using that by (rule find_row_update_where)
  then show ?thesis using CtlComplete assms(1,2) CompleteAPIRequest_snd [of en w k digest status ct body c]
    by (auto simp: settled_def answered_def reserved_def request_key_update unique_key_update_where)
next
  case (CtlAbort w k digest)
  have "\<not> reserved w k digest r" using assms(1) by (simp add: answered_def reserved_def)
  then show ?thesis using CtlAbort assms(1,2) find_row_filter_keep [OF assms(2)] unique_key_filter
    by (auto simp: settled_def answered_def AbortAPIRequest_def WithTx_def split: option.splits)
qed (use assms in \<open>auto simp: settled_def answered_def ctl_other_tables collects_def\<close>)

lemma ctl_run_answered:
  "answered who key r c \<Longrightarrow> unique_key request_key (requests c) \<Longrightarrow> list_all (\<lambda>s. \<not> collects (snd s)) ops \<Longrightarrow>
     answered who key r (ctl_after ops c)"
proof (induction ops arbitrary: c)
  case (Cons s ops)
  then show ?case using ctl_answered by (cases s) auto
qed simp

text \<open>A completed request is replayed: once an idempotent request is completed, whatever control operations run
  (except a garbage collection), a later request with the same principal and key is never started again; it gets
  the stored record with the digest, status, content type and body of the completion.\<close>

theorem completed_request_replayed:
  assumes "unique_key request_key (requests c)" and "CompleteAPIRequest en who key digest status ct body c = (Inr u, c1)"
    and "list_all (\<lambda>s. \<not> collects (snd s)) ops"
    and "BeginAPIRequest en' who key verb path digest' (ctl_after ops c1) = (Inr (r, created), c2)"
  shows "\<not> created \<and> c2 = ctl_after ops c1 \<and> aq_state r = ''completed'' \<and> aq_digest r = digest
     \<and> aq_status r = status \<and> aq_type r = ct \<and> aq_body r = body"
proof -
  define f where "f = (\<lambda>r::api_request. r\<lparr>aq_state := ''completed'', aq_status := status, aq_type := ct, aq_body := body, aq_updated := en_now en\<rparr>)"
  have one: "changes (reserved who key digest) (requests c) = 1" and c1: "c1 = c\<lparr>requests := update_where (reserved who key digest) f (requests c)\<rparr>"
    using assms(2) by (auto simp: CompleteAPIRequest_def WithTx_def f_def split: if_splits option.splits)
  obtain r0 where r0: "r0 \<in> set (requests c)" "reserved who key digest r0"
    using one by (metis changes_def filter_empty_conv length_0_conv zero_neq_one)
  have find: "find_row request_key (who, key) (requests c) = Some r0"
    using find_row_unique [OF assms(1) r0(1)] r0(2) by (simp add: reserved_def)
  have "request_key (f r) = request_key r" for r by (simp add: f_def request_key_update)
  then have u: "unique_key request_key (requests c1)"
      and find1: "find_row request_key (who, key) (requests c1) = Some (f r0)"
    using c1 assms(1) find r0(2) by (simp_all add: unique_key_update_where find_row_update_where)
  have "answered who key (f r0) c1" using find1 by (simp add: answered_def f_def)
  from ctl_run_answered [OF this u assms(3)] assms(4) r0(2)
  show ?thesis by (auto simp: answered_def BeginAPIRequest_def WithTx_def f_def reserved_def split: if_splits option.splits)
qed

definition pending0 :: control where
  "pending0 = empty_control\<lparr>requests := [new_request env0 ''u'' ''k'' ''POST'' ''/p'' ''d'']\<rparr>"

theorem completed_request_replayed_witness:
  "\<exists>r c2. BeginAPIRequest env0 ''u'' ''k'' ''POST'' ''/p'' ''d''
       (ctl_after [(env0, CtlAbort ''u'' ''k'' ''d'')] (snd (CompleteAPIRequest env0 ''u'' ''k'' ''d'' 200 ''text'' ''ok'' pending0)))
     = (Inr (r, False), c2) \<and> aq_status r = 200 \<and> aq_body r = ''ok''"
proof -
  let ?c1 = "snd (CompleteAPIRequest env0 ''u'' ''k'' ''d'' 200 ''text'' ''ok'' pending0)"
  let ?ops = "[(env0, CtlAbort ''u'' ''k'' ''d'')]"
  have start: "unique_key request_key (requests pending0)" by (simp add: pending0_def unique_key_def)
  have complete: "CompleteAPIRequest env0 ''u'' ''k'' ''d'' 200 ''text'' ''ok'' pending0 = (Inr (), ?c1)"
    by (simp add: CompleteAPIRequest_def WithTx_def env0_def pending0_def new_request_def reserved_def request_key_def changes_code)
  have quiet: "list_all (\<lambda>s. \<not> collects (snd s)) ?ops" by (simp add: collects_def)
  have "\<exists>r created c2. BeginAPIRequest env0 ''u'' ''k'' ''POST'' ''/p'' ''d'' (ctl_after ?ops ?c1) = (Inr (r, created), c2)"
    by (auto simp: BeginAPIRequest_def WithTx_def env0_def split: option.splits)
  then obtain r created c2 where b: "BeginAPIRequest env0 ''u'' ''k'' ''POST'' ''/p'' ''d'' (ctl_after ?ops ?c1) = (Inr (r, created), c2)"
    by blast
  from completed_request_replayed [OF start complete quiet b] b show ?thesis by auto
qed

subsection \<open>The logs\<close>

definition plain_roles :: "control_op \<Rightarrow> bool" where
  "plain_roles op = (case op of CtlDecision di \<Rightarrow> list_all (\<lambda>r. CHR '','' \<notin> set r) (di_roles di) | _ \<Rightarrow> True)"

definition logs_verify :: "control \<Rightarrow> bool" where
  "logs_verify c = (snd (VerifyAuthorizationDecisionChain c) = None \<and> snd (VerifyAPIAccessChain c) = None)"

lemma ctl_logs:
  assumes "logs_verify c" and "plain_roles op"
  shows "logs_verify (snd (ctl en op c))"
proof (cases op)
  case (CtlDecision di)
  have "\<forall>r \<in> set (di_roles di). CHR '','' \<notin> set r" using assms(2) CtlDecision by (auto simp: plain_roles_def list_all_iff)
  then show ?thesis using assms(1) CtlDecision decision_snoc_ok
    by (auto simp: settled_def logs_verify_def VerifyAuthorizationDecisionChain_iff VerifyAPIAccessChain_iff
        RecordAuthorizationDecision_def WithTx_def RecordAuthorizationDecision_tx_def Let_def require_def split: option.splits)
next
  case (CtlAccess who verb path status kd rd rid)
  then show ?thesis using assms(1) api_snoc_ok
    by (auto simp: settled_def logs_verify_def VerifyAuthorizationDecisionChain_iff VerifyAPIAccessChain_iff
        RecordAPIAccess_def WithTx_def RecordAPIAccess_tx_def Let_def require_def split: option.splits)
qed (use assms in \<open>simp_all add: settled_def logs_verify_def VerifyAuthorizationDecisionChain_def VerifyAPIAccessChain_def ctl_other_tables\<close>)


definition decision0 :: decision_input where
  "decision0 = \<lparr>di_principal = ''u'', di_operation = ''transaction_get'', di_resource = [], di_allowed = True, di_source = ''rbac'',
     di_reason = ''role_grant'', di_policy = ''p'', di_roles = [''b'', ''a''], di_capability = [], di_request = []\<rparr>"


lemma material_roles:
  assumes "roles \<noteq> []"
  shows "authorization_material e roles = JObj (
     ([(''sequence'', JInt (ad_seq e)), (''decision_id'', JStr (ad_id e)), (''principal_id'', JStr (ad_principal e)),
       (''operation_id'', JStr (ad_operation e))] @ opt_field ''resource_id'' (ad_resource e)
      @ [(''allowed'', JBool (ad_allowed e)), (''source'', JStr (ad_source e)), (''reason_code'', JStr (ad_reason e))]
      @ opt_field ''policy_digest'' (ad_policy e)) @ (''role_names'', JStr roles) #
     (opt_field ''capability_digest'' (ad_capability e) @ opt_field ''request_id'' (ad_request e)
      @ [(''created_at'', JStr (ts (ad_created e)))] @ opt_field ''previous_digest'' (ad_prev e)))"
  using assms by (simp add: authorization_material_def opt_field_def)

text \<open>A comma in a role name breaks the authorization log: a decision taken under the single role named
  \<open>b,a\<close> is recorded with the digest of that text, but verification splits and sorts it first; the log
  then never verifies again, unless two different texts have the same SHA-256 digest.\<close>

theorem comma_role_breaks_log:
  assumes "RecordAuthorizationDecision en di c = (Inr u, c')" and "di_roles di = [''b,a'']"
  shows "snd (VerifyAuthorizationDecisionChain (ctl_after ops c')) \<noteq> None
     \<or> (\<exists>e \<in> set (decisions c'). marshal (authorization_material e ''b,a'') \<noteq> marshal (authorization_material e ''a,b'')
     \<and> authorizationDigest e ''b,a'' = authorizationDigest e ''a,b'')"
proof (subst disj_imp, rule impI)
  assume verified: "\<not> snd (VerifyAuthorizationDecisionChain (ctl_after ops c')) \<noteq> None"
  define e where "e = decision_row_of en di (decisions c)"
  have c': "decisions c' = decisions c @ [e]"
    using assms(1) by (auto simp: RecordAuthorizationDecision_def WithTx_def RecordAuthorizationDecision_tx_def Let_def require_def e_def
        split: if_splits option.splits)
  have roles: "normalizeRoles [''b,a''] = ''b,a''" "normalizeRoles (splitRoles ''b,a'') = ''a,b''" by code_simp+
  have "prefix (decisions c1) (decisions (ctl_after ops c1))" for c1
  proof (induction ops arbitrary: c1)
    case (Cons s ops)
    have "prefix (decisions c1) (decisions (snd (ctl en' op c1)))" for en' op
      by (cases op) (auto simp: settled_def ctl_other_tables RecordAuthorizationDecision_def WithTx_def RecordAuthorizationDecision_tx_def
          Let_def require_def split: option.splits)
    then show ?case using Cons.IH prefix_order.trans by (cases s) fastforce
  qed simp
  then obtain rest where "decisions (ctl_after ops c') = (decisions c @ [e]) @ rest" using c' by (metis prefix_def)
  then have "decision_chain.ok (decisions c @ [e])"
    using verified decision_chain.ok_append by (metis VerifyAuthorizationDecisionChain_iff)
  then have "authorizationDigest e ''b,a'' = authorizationDigest e ''a,b''"
    using decision_chain.ok_last_digest [of "decisions c" e] decision_row_fields(3,4) [of en di "decisions c"] roles assms(2)
    by (simp add: e_def authorizationDigest_def)
  moreover have "marshal (JStr ''b,a'') \<noteq> marshal (JStr ''a,b'')" by code_simp
  then have "marshal (authorization_material e ''b,a'') \<noteq> marshal (authorization_material e ''a,b'')"
    using material_roles [of "''b,a''" e] material_roles [of "''a,b''" e] marshal_middle by (metis list.distinct(1))
  ultimately show "\<exists>e \<in> set (decisions c'). marshal (authorization_material e ''b,a'') \<noteq> marshal (authorization_material e ''a,b'')
     \<and> authorizationDigest e ''b,a'' = authorizationDigest e ''a,b''" using c' by auto
qed

theorem comma_role_breaks_log_witness:
  "\<exists>c'. RecordAuthorizationDecision env0 (decision0\<lparr>di_roles := [''b,a'']\<rparr>) empty_control = (Inr (), c')
     \<and> (snd (VerifyAuthorizationDecisionChain c') \<noteq> None
        \<or> (\<exists>e \<in> set (decisions c'). marshal (authorization_material e ''b,a'') \<noteq> marshal (authorization_material e ''a,b'')
             \<and> authorizationDigest e ''b,a'' = authorizationDigest e ''a,b''))"
proof -
  have "\<exists>c'. RecordAuthorizationDecision env0 (decision0\<lparr>di_roles := [''b,a'']\<rparr>) empty_control = (Inr (), c')"
    by (simp add: RecordAuthorizationDecision_def RecordAuthorizationDecision_tx_def WithTx_def env0_def decision0_def
        empty_control_def has_key_def require_def Let_def)
  then obtain c' where c': "RecordAuthorizationDecision env0 (decision0\<lparr>di_roles := [''b,a'']\<rparr>) empty_control = (Inr (), c')" by blast
  from comma_role_breaks_log [OF c', of "[]"] c' show ?thesis by auto
qed

end
