(* ===== verification/Base64.thy ===== *)
theory Base64
  imports Prelude
begin

text \<open>
  Base64 as \<open>encoding/base64\<close> does it, for the keys and signatures of the operator approvals:
  \<open>StdEncoding\<close> in both directions (decoding skips CR and LF, requires padding and does not look at
  the unused low bits) and \<open>RawURLEncoding\<close> for nonces.  Decoding undoes encoding.
\<close>

definition b64_alphabet :: string where
  "b64_alphabet = ''ABCDEFGHIJKLMNOPQRSTUVWXYZabcdefghijklmnopqrstuvwxyz0123456789+/''"

definition b64_char :: "nat \<Rightarrow> char" where
  "b64_char k = b64_alphabet ! (k mod 64)"

definition b64_value :: "char \<Rightarrow> nat option" where
  "b64_value c = map_of (zip b64_alphabet [0..<64]) c"

text \<open>The four six-bit digits of three bytes and the three bytes of four digits.\<close>

definition b64_digits :: "nat \<Rightarrow> string" where
  "b64_digits n = [b64_char (n div 64 div 64 div 64), b64_char (n div 64 div 64), b64_char (n div 64), b64_char n]"

definition b64_number :: "char \<Rightarrow> char \<Rightarrow> char \<Rightarrow> nat" where
  "b64_number a b c = (of_char a * 256 + of_char b) * 256 + of_char c"

definition b64_bytes :: "nat \<Rightarrow> string" where
  "b64_bytes n = [char_of (n div 256 div 256), char_of (n div 256), char_of n]"

fun b64_encode :: "string \<Rightarrow> string" where
  "b64_encode [] = []"
| "b64_encode [a] = take 2 (b64_digits (b64_number a (CHR 0x00) (CHR 0x00))) @ ''==''"
| "b64_encode [a, b] = take 3 (b64_digits (b64_number a b (CHR 0x00))) @ ''=''"
| "b64_encode (a # b # c # rest) = b64_digits (b64_number a b c) @ b64_encode rest"

definition b64_join :: "nat \<Rightarrow> nat \<Rightarrow> nat \<Rightarrow> nat \<Rightarrow> nat" where
  "b64_join w x y z = ((w * 64 + x) * 64 + y) * 64 + z"

fun b64_groups :: "string \<Rightarrow> string option" where
  "b64_groups [] = Some []"
| "b64_groups (p # q # r # s # rest) =
     (case (b64_value p, b64_value q) of
        (Some w, Some x) \<Rightarrow>
          if r = CHR ''='' then
            (if s = CHR ''='' \<and> rest = [] then Some (take 1 (b64_bytes (b64_join w x 0 0))) else None)
          else (case b64_value r of None \<Rightarrow> None
            | Some y \<Rightarrow>
                if s = CHR ''='' then (if rest = [] then Some (take 2 (b64_bytes (b64_join w x y 0))) else None)
                else (case b64_value s of None \<Rightarrow> None
                  | Some z \<Rightarrow> map_option (\<lambda>bs. b64_bytes (b64_join w x y z) @ bs) (b64_groups rest)))
      | _ \<Rightarrow> None)"
| "b64_groups _ = None"

definition b64_decode :: "string \<Rightarrow> string option" where
  "b64_decode s = b64_groups (filter (\<lambda>c. c \<noteq> CHR 0x0D \<and> c \<noteq> CHR 0x0A) s)"

definition b64_raw_url :: "string \<Rightarrow> string" where
  "b64_raw_url s = map (\<lambda>c. if c = CHR ''+'' then CHR ''-'' else if c = CHR ''/'' then CHR ''_'' else c)
     (filter (\<lambda>c. c \<noteq> CHR ''='') (b64_encode s))"

subsection \<open>Decoding undoes encoding\<close>

lemma b64_table:
  "k < 64 \<Longrightarrow> b64_value (b64_char k) = Some k \<and> b64_char k \<notin> {CHR ''='', CHR 0x0D, CHR 0x0A}"
proof -
  have "list_all (\<lambda>k. b64_value (b64_char k) = Some k \<and> b64_char k \<notin> {CHR ''='', CHR 0x0D, CHR 0x0A}) [0..<64]"
    by code_simp
  then show "k < 64 \<Longrightarrow> ?thesis" by (simp add: list_all_iff)
qed

lemma b64_char_mod: "b64_char k = b64_char (k mod 64)"
  by (simp add: b64_char_def)

lemma b64_char_value [simp]:
  "b64_value (b64_char k) = Some (k mod 64)" "b64_char k \<noteq> CHR ''=''" "b64_char k \<noteq> CHR 0x0D" "b64_char k \<noteq> CHR 0x0A"
  using b64_table [of "k mod 64"] b64_char_mod [of k] by simp_all

lemma b64_join_digits:
  "n < 64 * 64 * 64 * 64 \<Longrightarrow> b64_join (n div 64 div 64 div 64 mod 64) (n div 64 div 64 mod 64) (n div 64 mod 64) (n mod 64) = n"
proof -
  assume "n < 64 * 64 * 64 * 64"
  then have "n div 64 div 64 div 64 < 64" by (simp add: less_mult_imp_div_less)
  then show ?thesis unfolding b64_join_def
    using div_mult_mod_eq [of n 64] div_mult_mod_eq [of "n div 64" 64] div_mult_mod_eq [of "n div 64 div 64" 64] by simp
qed

lemma b64_number_bound: "b64_number a b c < 64 * 64 * 64 * 64"
proof -
  have "of_char x < (256::nat)" for x :: char by (rule nat_of_char_less_256)
  then have "of_char a \<le> (255::nat)" "of_char b \<le> (255::nat)" "of_char c \<le> (255::nat)" by (simp_all add: less_Suc_eq_le [symmetric])
  moreover have "(x * 256 + y) * 256 + z < 64 * 64 * 64 * 64" if "x \<le> 255" "y \<le> 255" "z \<le> 255" for x y z :: nat
    using that by simp
  ultimately show ?thesis unfolding b64_number_def by blast
qed

lemma b64_bytes_number: "b64_bytes (b64_number a b c) = [a, b, c]"
proof -
  have less: "of_char x < (256::nat)" for x :: char by (rule nat_of_char_less_256)
  have up: "(k * 256 + of_char x) div 256 = k" for k :: nat and x using less [of x] by simp
  have "b64_number a b c div 256 = of_char a * 256 + of_char b"
    unfolding b64_number_def by (rule up)
  moreover have "(of_char a * 256 + of_char b) div 256 = (of_char a :: nat)" by (rule up)
  moreover have low: "char_of (k * 256 + of_char x) = x" for k :: nat and x
    by (metis char_of_char char_of_mod_256 mod_mult_self3 of_char_mod_256)
  moreover have "char_of (of_char a * 256 + of_char b :: nat) = b" "char_of (b64_number a b c) = c"
    unfolding b64_number_def by (rule low)+
  ultimately show ?thesis by (simp add: b64_bytes_def)
qed

lemma b64_groups_encode: "b64_groups (b64_encode s) = Some s"
proof (induction s rule: b64_encode.induct)
  case (2 a)
  let ?n = "b64_number a (CHR 0x00) (CHR 0x00)"
  have zero: "?n div 64 mod 64 = 0" "?n mod 64 = 0" by (simp_all add: b64_number_def)
  have "b64_bytes (b64_join (?n div 64 div 64 div 64 mod 64) (?n div 64 div 64 mod 64) 0 0) = [a, CHR 0x00, CHR 0x00]"
    using b64_join_digits [OF b64_number_bound, of a "CHR 0x00" "CHR 0x00"] zero b64_bytes_number [of a "CHR 0x00" "CHR 0x00"] by simp
  then show ?case by (simp add: b64_digits_def)
next
  case (3 a b)
  let ?n = "b64_number a b (CHR 0x00)"
  have zero: "?n mod 64 = 0" by (simp add: b64_number_def)
  have "b64_bytes (b64_join (?n div 64 div 64 div 64 mod 64) (?n div 64 div 64 mod 64) (?n div 64 mod 64) 0) = [a, b, CHR 0x00]"
    using b64_join_digits [OF b64_number_bound, of a b "CHR 0x00"] zero b64_bytes_number [of a b "CHR 0x00"] by simp
  then show ?case by (simp add: b64_digits_def)
next
  case (4 a b c rest)
  have "b64_bytes (b64_join (b64_number a b c div 64 div 64 div 64 mod 64) (b64_number a b c div 64 div 64 mod 64)
      (b64_number a b c div 64 mod 64) (b64_number a b c mod 64)) = [a, b, c]"
    using b64_join_digits [OF b64_number_bound, of a b c] b64_bytes_number [of a b c] by simp
  with 4 show ?case by (simp add: b64_digits_def)
qed simp

lemma b64_encode_no_newline: "\<forall>c \<in> set (b64_encode s). c \<noteq> CHR 0x0D \<and> c \<noteq> CHR 0x0A"
  by (induction s rule: b64_encode.induct) (auto simp: b64_digits_def)

lemma b64_decode_encode [simp]: "b64_decode (b64_encode s) = Some s"
proof -
  have "filter (\<lambda>c. c \<noteq> CHR 0x0D \<and> c \<noteq> CHR 0x0A) (b64_encode s) = b64_encode s"
    using b64_encode_no_newline by (simp add: filter_id_conv)
  then show ?thesis by (simp add: b64_decode_def b64_groups_encode)
qed

lemma b64_raw_url_not_Nil: "s \<noteq> [] \<Longrightarrow> b64_raw_url s \<noteq> []"
  by (cases s rule: b64_encode.cases) (simp_all add: b64_raw_url_def b64_digits_def)

end
