(* ===== verification/OperatorApproval.thy ===== *)
theory OperatorApproval
  imports Base64 Domain
begin

text \<open>
  Signed operator approvals: envelopes, keyrings, quorums and their bundles
  (\<open>internal/operatorapproval/approval.go\<close>, \<open>quorum.go\<close>) and the signed capabilities of
  \<open>internal/capability\<close>.  Ed25519 is a parameter: a record of its signing and verification functions
  with the law that a signature made with a generated key verifies under its public half.  Reading and
  writing key files is not modelled; what a loaded keyring was checked for is \<open>keyring_valid\<close>.  Times
  in envelopes are UTC, as \<open>Sign\<close> writes them; random bytes are arguments.
\<close>

subsection \<open>Ed25519\<close>

text \<open>A private key is 64 bytes, the last 32 of them its public key.\<close>

record ed25519 =
  ed_key :: "string \<Rightarrow> bool"
  ed_sign :: "string \<Rightarrow> string \<Rightarrow> string"
  ed_verify :: "string \<Rightarrow> string \<Rightarrow> string \<Rightarrow> bool"

definition ed_public :: "string \<Rightarrow> string" where
  "ed_public priv = drop 32 priv"

definition ed_law :: "ed25519 \<Rightarrow> bool" where
  "ed_law ed = (\<forall>priv msg. ed_key ed priv \<longrightarrow> length priv = 64 \<and> length (ed_sign ed priv msg) = 64
     \<and> ed_verify ed (ed_public priv) msg (ed_sign ed priv msg))"

subsection \<open>Data\<close>

datatype approval_error =
    ApVersion
  | ApMismatch
  | ApIdentity
  | ApExpired
  | ApFuture
  | ApUntrusted
  | ApApprover
  | ApPublicKey
  | ApSignature
  | ApForged
  | ApPrivateKey
  | ApKeyMismatch
  | ApTtl
  | ApMissing
  | ApLifetime
  | ApKeyring
  | ApKeyNotFound
  | ApFinalKey
  | QuVersion
  | QuThreshold
  | QuEmptyApprover
  | QuDuplicate string
  | QuThresholdExceedsAllowed
  | QuRequiredExceedsThreshold
  | QuRequiredNotAllowed string
  | QuBundle
  | QuNotAllowed string
  | QuDuplicateKey string
  | QuDuplicateNonce
  | QuNotMet nat int
  | QuMissing

record private_key =
  pv_version :: string
  pv_id :: string
  pv_approver :: string
  pv_public :: string
  pv_private :: string
  pv_created :: gotime

record public_key =
  pk_id :: string
  pk_approver :: string
  pk_public :: string
  pk_enabled :: bool

record keyring =
  kr_version :: string
  kr_keys :: "public_key list"

record envelope =
  nv_version :: string
  nv_tx :: string
  nv_digest :: string
  nv_approver :: string
  nv_key :: string
  nv_signed :: gotime
  nv_expires :: gotime
  nv_nonce :: string
  nv_signature :: string

record quorum_policy =
  qp_version :: string
  qp_threshold :: int
  qp_allowed :: "string list"
  qp_required :: "string list"

record approval_bundle =
  bu_version :: string
  bu_envelopes :: "envelope list"
  bu_digest :: string

record quorum_result =
  qr_threshold :: int
  qr_approvers :: "string list"
  qr_refs :: "string list"
  qr_digest :: string

definition approval_version :: string where "approval_version = ''0.1''"
definition quorum_version :: string where "quorum_version = ''0.1''"

subsection \<open>Signing and verifying an envelope\<close>

definition envelope_fields :: "envelope \<Rightarrow> (string \<times> json) list" where
  "envelope_fields e =
     [(''version'', JStr (nv_version e)), (''transaction_id'', JStr (nv_tx e)), (''transaction_digest'', JStr (nv_digest e)),
      (''approver'', JStr (nv_approver e)), (''key_id'', JStr (nv_key e)), (''signed_at'', json_time (nv_signed e)),
      (''expires_at'', json_time (nv_expires e)), (''nonce'', JStr (nv_nonce e))]"

definition signed_payload :: "envelope \<Rightarrow> string" where
  "signed_payload e = marshal (JObj (envelope_fields e))"

definition decodePrivate :: "private_key \<Rightarrow> approval_error + string" where
  "decodePrivate k =
     (case b64_decode (pv_private k) of
        None \<Rightarrow> Inl ApPrivateKey
      | Some raw \<Rightarrow>
          if length raw \<noteq> 64 then Inl ApPrivateKey
          else if b64_encode (ed_public raw) \<noteq> pv_public k then Inl ApKeyMismatch
          else Inr raw)"

definition Sign_envelope :: "ed25519 \<Rightarrow> string \<Rightarrow> private_key \<Rightarrow> string \<Rightarrow> string \<Rightarrow> int \<Rightarrow> gotime \<Rightarrow> approval_error + envelope" where
  "Sign_envelope ed nonceBytes key tid0 digest0 ttl now =
     (let tid = trim_space tid0; digest = trim_space digest0
      in if tid = [] \<or> digest = [] then Inl ApMissing
         else if ttl \<le> 0 \<or> ttl > 24 * hour then Inl ApTtl
         else try_bind (decodePrivate key) (\<lambda>priv.
           let e = \<lparr>nv_version = approval_version, nv_tx = tid, nv_digest = digest, nv_approver = pv_approver key, nv_key = pv_id key,
                    nv_signed = truncate_second now, nv_expires = truncate_second (now + ttl),
                    nv_nonce = b64_raw_url nonceBytes, nv_signature = []\<rparr>
           in Inr (e\<lparr>nv_signature := b64_encode (ed_sign ed priv (signed_payload e))\<rparr>)))"

definition trusted_key :: "keyring \<Rightarrow> string \<Rightarrow> public_key option" where
  "trusted_key ring keyID = find (\<lambda>k. pk_id k = keyID) (kr_keys ring)"

text \<open>The checks on key, approver and signature that envelopes and capabilities share.\<close>

definition check_signature ::
  "ed25519 \<Rightarrow> keyring \<Rightarrow> string \<Rightarrow> string \<Rightarrow> string \<Rightarrow> string \<Rightarrow> approval_error + unit" where
  "check_signature ed ring keyID approver message signature =
     (case trusted_key ring keyID of
        None \<Rightarrow> Inl ApUntrusted
      | Some k \<Rightarrow>
          if \<not> pk_enabled k then Inl ApUntrusted
          else if pk_approver k \<noteq> approver then Inl ApApprover
          else (case b64_decode (pk_public k) of
              None \<Rightarrow> Inl ApPublicKey
            | Some pub \<Rightarrow>
                if length pub \<noteq> 32 then Inl ApPublicKey
                else (case b64_decode signature of
                    None \<Rightarrow> Inl ApSignature
                  | Some sig \<Rightarrow>
                      if length sig \<noteq> 64 then Inl ApSignature
                      else if \<not> ed_verify ed pub message sig then Inl ApForged
                      else Inr ())))"

definition Verify_envelope ::
  "ed25519 \<Rightarrow> keyring \<Rightarrow> envelope \<Rightarrow> string \<Rightarrow> string \<Rightarrow> gotime \<Rightarrow> approval_error + unit" where
  "Verify_envelope ed ring e tid digest now =
     (if nv_version e \<noteq> approval_version then Inl ApVersion
      else if nv_tx e \<noteq> tid \<or> nv_digest e \<noteq> digest then Inl ApMismatch
      else if nv_approver e = [] \<or> nv_key e = [] \<or> nv_nonce e = [] then Inl ApIdentity
      else if nv_expires e < nv_signed e \<or> \<not> now < nv_expires e then Inl ApExpired
      else if nv_signed e > now + 2 * minute then Inl ApFuture
      else check_signature ed ring (nv_key e) (nv_approver e) (signed_payload e) (nv_signature e))"

definition SignatureReference :: "envelope \<Rightarrow> string" where
  "SignatureReference e = ''ed25519:'' @ nv_key e @ '':'' @ sha256_hex (nv_signature e)"

subsection \<open>Keyrings\<close>

fun keyring_entries :: "public_key list \<Rightarrow> string list \<Rightarrow> bool" where
  "keyring_entries [] seen = True"
| "keyring_entries (k # ks) seen =
     (pk_id k \<noteq> [] \<and> pk_approver k \<noteq> [] \<and> pk_id k \<notin> set seen
      \<and> (case b64_decode (pk_public k) of None \<Rightarrow> False | Some raw \<Rightarrow> length raw = 32)
      \<and> keyring_entries ks (pk_id k # seen))"

definition keyring_valid :: "keyring \<Rightarrow> bool" where
  "keyring_valid ring = (kr_version ring = approval_version \<and> kr_keys ring \<noteq> [] \<and> keyring_entries (kr_keys ring) [])"

definition Generate :: "string \<Rightarrow> string \<Rightarrow> gotime \<Rightarrow> approval_error + private_key \<times> public_key" where
  "Generate priv approver0 now =
     (let approver = trim_space approver0; pub = ed_public priv;
          kid = ''ed25519-'' @ take 16 (sha256_hex pub)
      in if approver = [] then Inl ApIdentity
         else Inr (\<lparr>pv_version = approval_version, pv_id = kid, pv_approver = approver, pv_public = b64_encode pub,
                    pv_private = b64_encode priv, pv_created = now\<rparr>,
                   \<lparr>pk_id = kid, pk_approver = approver, pk_public = b64_encode pub, pk_enabled = True\<rparr>))"

definition Rotate ::
  "string \<Rightarrow> keyring \<Rightarrow> string \<Rightarrow> bool \<Rightarrow> gotime \<Rightarrow> approval_error + keyring \<times> private_key \<times> public_key" where
  "Rotate priv ring0 approver disableOld now =
     (let ring = ring0\<lparr>kr_version := (if kr_version ring0 = [] then approval_version else kr_version ring0)\<rparr>
      in if kr_version ring \<noteq> approval_version then Inl ApVersion
         else try_bind (Generate priv approver now) (\<lambda>(sk, pk).
           if list_ex (\<lambda>k. pk_id k = pk_id pk) (kr_keys ring) then Inl ApKeyring
           else let ks = (if disableOld
                          then map (\<lambda>k. if pk_approver k = pk_approver pk then k\<lparr>pk_enabled := False\<rparr> else k) (kr_keys ring)
                          else kr_keys ring)
                in Inr (ring\<lparr>kr_keys := ks @ [pk]\<rparr>, sk, pk)))"

fun set_first :: "string \<Rightarrow> bool \<Rightarrow> public_key list \<Rightarrow> public_key list" where
  "set_first keyID enabled [] = []"
| "set_first keyID enabled (k # ks) =
     (if pk_id k = keyID then k\<lparr>pk_enabled := enabled\<rparr> # ks else k # set_first keyID enabled ks)"

definition SetEnabled :: "keyring \<Rightarrow> string \<Rightarrow> bool \<Rightarrow> bool \<Rightarrow> approval_error + keyring" where
  "SetEnabled ring keyID enabled allowNone =
     (case trusted_key ring keyID of
        None \<Rightarrow> Inl ApKeyNotFound
      | Some k \<Rightarrow>
          let ks = set_first keyID enabled (kr_keys ring)
          in if \<not> enabled \<and> \<not> allowNone \<and> \<not> list_ex (\<lambda>x. pk_approver x = pk_approver k \<and> pk_enabled x) ks
             then Inl ApFinalKey else Inr (ring\<lparr>kr_keys := ks\<rparr>))"

subsection \<open>Quorums\<close>

fun unique_names :: "string list \<Rightarrow> string list \<Rightarrow> approval_error + string list" where
  "unique_names [] seen = Inr (rev seen)"
| "unique_names (v # vs) seen =
     (let n = trim_space v
      in if n = [] then Inl QuEmptyApprover else if n \<in> set seen then Inl (QuDuplicate n) else unique_names vs (n # seen))"

definition normalizedUnique :: "string list \<Rightarrow> approval_error + string list" where
  "normalizedUnique vs = try_bind (unique_names vs []) (\<lambda>ns. Inr (sort ns))"

definition ValidateQuorumPolicy :: "quorum_policy \<Rightarrow> approval_error + unit" where
  "ValidateQuorumPolicy p =
     (if qp_version p \<noteq> quorum_version then Inl QuVersion
      else if qp_threshold p < 1 then Inl QuThreshold
      else try_bind (normalizedUnique (qp_allowed p)) (\<lambda>allowed.
           try_bind (normalizedUnique (qp_required p)) (\<lambda>required.
           if allowed \<noteq> [] \<and> qp_threshold p > int (length allowed) then Inl QuThresholdExceedsAllowed
           else if int (length required) > qp_threshold p then Inl QuRequiredExceedsThreshold
           else if allowed = [] then Inr ()
           else (case filter (\<lambda>a. a \<notin> set allowed) required of [] \<Rightarrow> Inr () | a # _ \<Rightarrow> Inl (QuRequiredNotAllowed a)))))"

definition envelope_json :: "envelope \<Rightarrow> json" where
  "envelope_json e = JObj (envelope_fields e @ [(''signature'', JStr (nv_signature e))])"

definition bundleDigest :: "approval_bundle \<Rightarrow> string" where
  "bundleDigest b = sha256_hex (marshal (JObj
     [(''version'', JStr (bu_version b)), (''envelopes'', JArr (map envelope_json (bu_envelopes b))), (''digest'', JStr [])]))"

text \<open>\<open>sort.Slice\<close> leaves the order of envelopes equal in all three keys open; here it is theirs.\<close>

definition NewBundle :: "envelope list \<Rightarrow> approval_error + approval_bundle" where
  "NewBundle es =
     (if es = [] then Inl ApMissing
      else let b = \<lparr>bu_version = quorum_version, bu_envelopes = sort_key (\<lambda>e. (nv_approver e, nv_key e, nv_nonce e)) es, bu_digest = []\<rparr>
           in Inr (b\<lparr>bu_digest := bundleDigest b\<rparr>))"

fun quorum_loop ::
  "ed25519 \<Rightarrow> keyring \<Rightarrow> string list \<Rightarrow> string \<Rightarrow> string \<Rightarrow> gotime \<Rightarrow> envelope list \<Rightarrow> string list \<Rightarrow> string list \<Rightarrow> string list
     \<Rightarrow> string list \<Rightarrow> approval_error + string list \<times> string list" where
  "quorum_loop ed ring allowed tid digest now [] approvers keys nonces refs = Inr (approvers, refs)"
| "quorum_loop ed ring allowed tid digest now (e # es) approvers keys nonces refs =
     try_bind (Verify_envelope ed ring e tid digest now) (\<lambda>_.
     if allowed \<noteq> [] \<and> nv_approver e \<notin> set allowed then Inl (QuNotAllowed (nv_approver e))
     else if nv_approver e \<in> set approvers then Inl (QuDuplicate (nv_approver e))
     else if nv_key e \<in> set keys then Inl (QuDuplicateKey (nv_key e))
     else if nv_nonce e \<in> set nonces then Inl QuDuplicateNonce
     else quorum_loop ed ring allowed tid digest now es (nv_approver e # approvers) (nv_key e # keys) (nv_nonce e # nonces)
            (refs @ [SignatureReference e]))"

definition VerifyQuorum ::
  "ed25519 \<Rightarrow> keyring \<Rightarrow> quorum_policy \<Rightarrow> approval_bundle \<Rightarrow> string \<Rightarrow> string \<Rightarrow> gotime \<Rightarrow> approval_error + quorum_result" where
  "VerifyQuorum ed ring policy b tid digest now =
     try_bind (ValidateQuorumPolicy policy) (\<lambda>_.
     if bu_version b \<noteq> quorum_version \<or> bu_envelopes b = [] \<or> bu_digest b \<noteq> bundleDigest b then Inl QuBundle
     else try_bind (quorum_loop ed ring (map trim_space (qp_allowed policy)) tid digest now (bu_envelopes b) [] [] [] [])
       (\<lambda>(approvers, refs).
          if int (length approvers) < qp_threshold policy then Inl (QuNotMet (length approvers) (qp_threshold policy))
          else if list_ex (\<lambda>a. trim_space a \<notin> set approvers) (qp_required policy) then Inl QuMissing
          else Inr \<lparr>qr_threshold = qp_threshold policy, qr_approvers = sort approvers, qr_refs = sort refs, qr_digest = bu_digest b\<rparr>))"

definition QuorumSignatureReference :: "quorum_result \<Rightarrow> string" where
  "QuorumSignatureReference r = ''ed25519-quorum:'' @ qr_digest r"

subsection \<open>Capabilities\<close>

record capability =
  cp_version :: string
  cp_id :: string
  cp_uid :: "32 word"
  cp_operation :: string
  cp_resource :: string
  cp_approver :: string
  cp_key :: string
  cp_issued :: gotime
  cp_expires :: gotime
  cp_nonce :: string
  cp_signature :: string

definition capability_fields :: "capability \<Rightarrow> (string \<times> json) list" where
  "capability_fields t =
     [(''version'', JStr (cp_version t)), (''capability_id'', JStr (cp_id t)), (''subject_uid'', JInt (uint (cp_uid t))),
      (''operation_id'', JStr (cp_operation t))] @ opt_field ''resource_id'' (cp_resource t)
     @ [(''approver'', JStr (cp_approver t)), (''key_id'', JStr (cp_key t)), (''issued_at'', json_time (cp_issued t)),
        (''expires_at'', json_time (cp_expires t)), (''nonce'', JStr (cp_nonce t))]"

definition capability_payload :: "capability \<Rightarrow> string" where
  "capability_payload t = marshal (JObj (capability_fields t))"

definition Sign_capability ::
  "ed25519 \<Rightarrow> string \<Rightarrow> string \<Rightarrow> private_key \<Rightarrow> 32 word \<Rightarrow> string \<Rightarrow> string \<Rightarrow> int \<Rightarrow> gotime \<Rightarrow> approval_error + capability" where
  "Sign_capability ed nonceBytes idHex key uid operation0 resource0 ttl now =
     (let operation = trim_space operation0; resource = trim_space resource0
      in if operation = [] then Inl ApMissing
         else if ttl \<le> 0 \<or> ttl > 15 * minute then Inl ApTtl
         else try_bind (decodePrivate key) (\<lambda>priv.
           let t = \<lparr>cp_version = ''1'', cp_id = ''cap-'' @ idHex, cp_uid = uid, cp_operation = operation, cp_resource = resource,
                    cp_approver = pv_approver key, cp_key = pv_id key, cp_issued = truncate_second now,
                    cp_expires = truncate_second (now + ttl), cp_nonce = b64_raw_url nonceBytes, cp_signature = []\<rparr>
           in Inr (t\<lparr>cp_signature := b64_encode (ed_sign ed priv (capability_payload t))\<rparr>)))"

definition Verify_capability ::
  "ed25519 \<Rightarrow> keyring \<Rightarrow> capability \<Rightarrow> 32 word \<Rightarrow> string \<Rightarrow> string \<Rightarrow> gotime \<Rightarrow> approval_error + unit" where
  "Verify_capability ed ring t uid operation resource now =
     (if cp_version t \<noteq> ''1'' then Inl ApVersion
      else if cp_id t = [] \<or> cp_nonce t = [] \<or> cp_key t = [] \<or> cp_approver t = [] then Inl ApIdentity
      else if cp_uid t \<noteq> uid \<or> cp_operation t \<noteq> operation \<or> cp_resource t \<noteq> resource then Inl ApMismatch
      else if cp_expires t < cp_issued t \<or> \<not> now < cp_expires t then Inl ApExpired
      else if cp_expires t - cp_issued t > 15 * minute then Inl ApLifetime
      else if cp_issued t > now + 2 * minute then Inl ApFuture
      else check_signature ed ring (cp_key t) (cp_approver t) (capability_payload t) (cp_signature t))"

definition capability_digest :: "capability \<Rightarrow> string" where
  "capability_digest t = sha256_hex (marshal (JObj (capability_fields t @ [(''signature'', JStr (cp_signature t))])))"

subsection \<open>What verification means\<close>

definition vouched :: "ed25519 \<Rightarrow> keyring \<Rightarrow> string \<Rightarrow> string \<Rightarrow> string \<Rightarrow> string \<Rightarrow> bool" where
  "vouched ed ring keyID approver message signature =
     (\<exists>k pub sig. k \<in> set (kr_keys ring) \<and> trusted_key ring keyID = Some k \<and> pk_id k = keyID \<and> pk_enabled k \<and> pk_approver k = approver
        \<and> b64_decode (pk_public k) = Some pub \<and> b64_decode signature = Some sig \<and> ed_verify ed pub message sig)"

lemma trusted_key_SomeD: "trusted_key ring keyID = Some k \<Longrightarrow> k \<in> set (kr_keys ring) \<and> pk_id k = keyID"
  by (auto simp: trusted_key_def find_Some_iff)

lemma check_signature_ok: "check_signature ed ring keyID approver message signature = Inr u \<Longrightarrow> vouched ed ring keyID approver message signature"
  by (auto simp: check_signature_def vouched_def dest: trusted_key_SomeD split: option.splits if_splits)

definition current_approval :: "ed25519 \<Rightarrow> keyring \<Rightarrow> string \<Rightarrow> string \<Rightarrow> gotime \<Rightarrow> envelope \<Rightarrow> bool" where
  "current_approval ed ring tid digest now e =
     (nv_tx e = tid \<and> nv_digest e = digest \<and> nv_signed e \<le> nv_expires e \<and> now < nv_expires e \<and> nv_signed e \<le> now + 2 * minute
      \<and> vouched ed ring (nv_key e) (nv_approver e) (signed_payload e) (nv_signature e))"

lemma Verify_envelope_ok:
  "Verify_envelope ed ring e tid digest now = Inr u \<Longrightarrow> current_approval ed ring tid digest now e"
  by (auto simp: Verify_envelope_def current_approval_def split: if_splits dest: check_signature_ok)

lemma quorum_loop_ok:
  assumes "quorum_loop ed ring allowed tid digest now es approvers keys nonces refs = Inr (approvers', refs')"
    and "distinct approvers" and "distinct keys" and "distinct nonces"
  shows "approvers' = rev (map nv_approver es) @ approvers \<and> distinct approvers' \<and> distinct (rev (map nv_key es) @ keys)
     \<and> distinct (rev (map nv_nonce es) @ nonces)
     \<and> (\<forall>e \<in> set es. current_approval ed ring tid digest now e) \<and> (allowed \<noteq> [] \<longrightarrow> nv_approver ` set es \<subseteq> set allowed)"
  using assms
proof (induction es arbitrary: approvers keys nonces refs)
  case (Cons e es)
  then have v: "Verify_envelope ed ring e tid digest now = Inr ()"
      and rest: "quorum_loop ed ring allowed tid digest now es (nv_approver e # approvers) (nv_key e # keys) (nv_nonce e # nonces)
          (refs @ [SignatureReference e]) = Inr (approvers', refs')"
      and fresh: "nv_approver e \<notin> set approvers" "nv_key e \<notin> set keys" "nv_nonce e \<notin> set nonces"
        "allowed \<noteq> [] \<longrightarrow> nv_approver e \<in> set allowed"
    by (auto simp: try_bind_Inr split: if_splits)
  show ?case using Cons.IH [OF rest] Cons.prems(2-4) fresh Verify_envelope_ok [OF v] by (fastforce simp: disjoint_iff)
qed simp

text \<open>C18. What a verified quorum means: at least the threshold number of different approvers, every required
  one among them and nobody outside the allowed list, each of whom signed an unexpired envelope naming exactly
  this transaction and digest with its own trusted, enabled key; no key or nonce is counted twice.\<close>

theorem quorum_sound:
  assumes "VerifyQuorum ed ring policy b tid digest now = Inr r"
  shows "1 \<le> qp_threshold policy \<and> qp_threshold policy \<le> int (length (qr_approvers r)) \<and> distinct (qr_approvers r)
     \<and> qr_approvers r = sort (map nv_approver (bu_envelopes b))
     \<and> trim_space ` set (qp_required policy) \<subseteq> set (qr_approvers r)
     \<and> (qp_allowed policy \<noteq> [] \<longrightarrow> set (qr_approvers r) \<subseteq> trim_space ` set (qp_allowed policy))
     \<and> distinct (map nv_key (bu_envelopes b)) \<and> distinct (map nv_nonce (bu_envelopes b))
     \<and> (\<forall>e \<in> set (bu_envelopes b). current_approval ed ring tid digest now e)"
proof -
  obtain approvers refs where policy: "ValidateQuorumPolicy policy = Inr ()"
      and loop: "quorum_loop ed ring (map trim_space (qp_allowed policy)) tid digest now (bu_envelopes b) [] [] [] [] = Inr (approvers, refs)"
      and met: "qp_threshold policy \<le> int (length approvers)" "\<forall>a \<in> set (qp_required policy). trim_space a \<in> set approvers"
      and r: "qr_approvers r = sort approvers"
    using assms by (fastforce simp: VerifyQuorum_def try_bind_Inr list_ex_iff split: if_splits prod.splits)
  have "1 \<le> qp_threshold policy" using policy by (auto simp: ValidateQuorumPolicy_def split: if_splits)
  moreover note l = quorum_loop_ok [OF loop]
  moreover have "sort (rev xs) = sort xs" if "distinct xs" for xs :: "string list"
    by (rule sorted_distinct_set_unique) (simp_all add: that)
  ultimately show ?thesis using met r by (auto simp: image_subset_iff)
qed

subsection \<open>A signature verifies\<close>

lemma check_signature_signed:
  assumes "ed_law ed" and "decodePrivate key = Inr priv" and "ed_key ed priv"
    and "trusted_key ring (pv_id key) = Some k" and "pk_enabled k" and "pk_approver k = pv_approver key"
    and "pk_public k = pv_public key"
  shows "check_signature ed ring (pv_id key) (pv_approver key) message (b64_encode (ed_sign ed priv message)) = Inr ()"
proof -
  have "pk_public k = b64_encode (ed_public priv)"
    using assms(2,7) by (simp add: decodePrivate_def split: option.splits if_splits)
  moreover have "length (ed_public priv) = 32" using assms(1,3) by (simp add: ed_law_def ed_public_def)
  ultimately show ?thesis using assms(1,3-6) by (simp add: check_signature_def ed_law_def)
qed

definition unsigned_envelope :: "string \<Rightarrow> private_key \<Rightarrow> string \<Rightarrow> string \<Rightarrow> int \<Rightarrow> gotime \<Rightarrow> envelope" where
  "unsigned_envelope nonce key tid digest ttl now =
     \<lparr>nv_version = approval_version, nv_tx = trim_space tid, nv_digest = trim_space digest, nv_approver = pv_approver key,
      nv_key = pv_id key, nv_signed = truncate_second now, nv_expires = truncate_second (now + ttl),
      nv_nonce = b64_raw_url nonce, nv_signature = []\<rparr>"

lemma signed_payload_unsigned [simp]: "signed_payload (e\<lparr>nv_signature := s\<rparr>) = signed_payload e"
  by (simp add: signed_payload_def envelope_fields_def)

lemma Sign_envelope_Inr:
  assumes "Sign_envelope ed nonce key tid digest ttl now = Inr e" and "decodePrivate key = Inr priv"
  shows "0 < ttl \<and> (let e0 = unsigned_envelope nonce key tid digest ttl now
     in e = e0\<lparr>nv_signature := b64_encode (ed_sign ed priv (signed_payload e0))\<rparr>)"
  using assms(1) unfolding Sign_envelope_def unsigned_envelope_def Let_def assms(2)
  by (auto simp only: try_bind_simps sum.inject sum.distinct not_le if_True if_False split: if_splits)

text \<open>C27. Signing and verifying fit: an envelope signed with a key whose public half the keyring trusts for the same
  approver is accepted for the transaction and digest it was signed for, from two minutes before the signing to
  the end of its life (in whole seconds).\<close>

theorem signed_envelope_verifies:
  assumes "ed_law ed" and "Sign_envelope ed nonce key tid digest ttl now = Inr e"
    and "\<And>priv. decodePrivate key = Inr priv \<Longrightarrow> ed_key ed priv"
    and "trusted_key ring (pv_id key) = Some \<lparr>pk_id = pv_id key, pk_approver = pv_approver key, pk_public = pv_public key, pk_enabled = True\<rparr>"
    and "pv_id key \<noteq> []" and "pv_approver key \<noteq> []" and "nonce \<noteq> []"
    and "now \<le> later + 2 * minute" and "later < now + ttl - second"
  shows "Verify_envelope ed ring e (trim_space tid) (trim_space digest) later = Inr ()"
proof -
  obtain priv where priv: "decodePrivate key = Inr priv"
    using assms(2) by (auto simp: Sign_envelope_def Let_def try_bind_Inr split: if_splits)
  define e0 where "e0 = unsigned_envelope nonce key tid digest ttl now"
  have ttl: "0 < ttl" and e: "e = e0\<lparr>nv_signature := b64_encode (ed_sign ed priv (signed_payload e0))\<rparr>"
    using Sign_envelope_Inr [OF assms(2) priv] by (simp_all add: e0_def Let_def)
  have "truncate_second now \<le> truncate_second (now + ttl)"
  proof -
    have "truncate_second t = second * (t div second)" for t
      unfolding truncate_second_def by (simp add: minus_mod_eq_mult_div)
    then show ?thesis using ttl by (simp add: second_def zdiv_mono1)
  qed
  moreover have "later < truncate_second (now + ttl)" using truncate_second_le(2) [of "now + ttl"] assms(9) by simp
  moreover have "truncate_second now \<le> later + 2 * minute" using truncate_second_le(1) [of now] assms(8) by simp
  moreover have "check_signature ed ring (pv_id key) (pv_approver key) (signed_payload e0) (b64_encode (ed_sign ed priv (signed_payload e0))) = Inr ()"
    by (rule check_signature_signed [OF assms(1) priv assms(3) [OF priv] assms(4)]) simp_all
  ultimately show ?thesis
    using assms(5-7) b64_raw_url_not_Nil [OF assms(7)]
    by (simp add: Verify_envelope_def e) (simp add: e0_def unsigned_envelope_def)
qed

text \<open>A small signature scheme for the witnesses: the signature is the public key and half a digest.\<close>

definition ed0 :: ed25519 where
  "ed0 = \<lparr>ed_key = (\<lambda>priv. length priv = 64), ed_sign = (\<lambda>priv msg. drop 32 priv @ take 32 (sha256_hex msg)),
     ed_verify = (\<lambda>pub msg sig. sig = pub @ take 32 (sha256_hex msg))\<rparr>"

lemma ed0_law: "ed_law ed0"
  by (simp add: ed_law_def ed0_def ed_public_def)

definition priv0 :: string where "priv0 = replicate 32 CHR 0x01 @ replicate 32 CHR 0x02"

definition key0 :: private_key where
  "key0 = \<lparr>pv_version = ''0.1'', pv_id = ''k1'', pv_approver = ''alice'', pv_public = b64_encode (ed_public priv0),
     pv_private = b64_encode priv0, pv_created = 0\<rparr>"

definition ring0 :: keyring where
  "ring0 = \<lparr>kr_version = ''0.1'', kr_keys = [\<lparr>pk_id = ''k1'', pk_approver = ''alice'', pk_public = b64_encode (ed_public priv0), pk_enabled = True\<rparr>]\<rparr>"

lemma key0_decode: "decodePrivate key0 = Inr priv0"
  by (simp add: decodePrivate_def key0_def) (simp add: priv0_def)

lemma key0_key: "decodePrivate key0 = Inr priv \<Longrightarrow> ed_key ed0 priv"
  unfolding key0_decode by (drule Inr_inject, hypsubst) (simp add: ed0_def priv0_def)

lemma key0_signs: "\<exists>e. Sign_envelope ed0 ''n'' key0 ''t'' ''d'' (10 * second) 0 = Inr e"
proof -
  have "trim_space ''t'' = ''t''" "trim_space ''d'' = ''d''" by code_simp+
  then show ?thesis by (simp add: Sign_envelope_def Let_def key0_decode second_def hour_def minute_def)
qed

theorem signed_envelope_verifies_witness:
  "\<exists>e. Sign_envelope ed0 ''n'' key0 ''t'' ''d'' (10 * second) 0 = Inr e \<and> Verify_envelope ed0 ring0 e ''t'' ''d'' 5 = Inr ()"
proof -
  obtain e where e: "Sign_envelope ed0 ''n'' key0 ''t'' ''d'' (10 * second) 0 = Inr e" using key0_signs by blast
  have "trim_space ''t'' = ''t''" "trim_space ''d'' = ''d''" by code_simp+
  moreover have "ed_key ed0 priv" if "decodePrivate key0 = Inr priv" for priv
    using that by (rule key0_key)
  ultimately have "Verify_envelope ed0 ring0 e ''t'' ''d'' 5 = Inr ()"
    using signed_envelope_verifies [OF ed0_law e, of ring0 5]
    by (simp add: trusted_key_def ring0_def key0_def second_def minute_def)
  with e show ?thesis by blast
qed

theorem quorum_sound_witness:
  "\<exists>b r. VerifyQuorum ed0 ring0 \<lparr>qp_version = ''0.1'', qp_threshold = 1, qp_allowed = [], qp_required = []\<rparr> b ''t'' ''d'' 5 = Inr r
     \<and> length (qr_approvers r) \<ge> 1"
proof -
  let ?p = "\<lparr>qp_version = ''0.1'', qp_threshold = 1, qp_allowed = [], qp_required = []\<rparr>"
  obtain e where e: "Sign_envelope ed0 ''n'' key0 ''t'' ''d'' (10 * second) 0 = Inr e" using key0_signs by blast
  have trim: "trim_space ''t'' = ''t''" "trim_space ''d'' = ''d''" by code_simp+
  define e0 where "e0 = unsigned_envelope ''n'' key0 ''t'' ''d'' (10 * second) 0"
  have e': "e = e0\<lparr>nv_signature := b64_encode (ed_sign ed0 priv0 (signed_payload e0))\<rparr>"
    using Sign_envelope_Inr [OF e key0_decode] by (simp add: e0_def Let_def)
  have "check_signature ed0 ring0 (pv_id key0) (pv_approver key0) (signed_payload e0) (b64_encode (ed_sign ed0 priv0 (signed_payload e0))) = Inr ()"
    by (rule check_signature_signed [OF ed0_law key0_decode key0_key [OF key0_decode],
          where k = "\<lparr>pk_id = ''k1'', pk_approver = ''alice'', pk_public = b64_encode (ed_public priv0), pk_enabled = True\<rparr>"])
      (simp_all add: trusted_key_def ring0_def key0_def)
  then have ok: "Verify_envelope ed0 ring0 e ''t'' ''d'' 5 = Inr ()"
    using b64_raw_url_not_Nil [of "''n''"] trim
    by (simp add: Verify_envelope_def e')
      (simp add: e0_def unsigned_envelope_def second_def minute_def truncate_second_def key0_def)
  obtain b where b: "b = \<lparr>bu_version = quorum_version, bu_envelopes = [e], bu_digest = bundleDigest \<lparr>bu_version = quorum_version, bu_envelopes = [e], bu_digest = []\<rparr>\<rparr>"
    by blast
  have "\<exists>r. VerifyQuorum ed0 ring0 ?p b ''t'' ''d'' 5 = Inr r"
    using ok by (simp add: VerifyQuorum_def ValidateQuorumPolicy_def normalizedUnique_def quorum_version_def b bundleDigest_def)
  then obtain r where r: "VerifyQuorum ed0 ring0 ?p b ''t'' ''d'' 5 = Inr r" by blast
  from quorum_sound [OF r] r show ?thesis by auto
qed

end
