(* ===== verification/OperatorTrail.thy ===== *)
theory OperatorTrail
  imports HashChain
begin

text \<open>
  The operator audit trail (\<open>internal/operatoraudit/trail.go\<close>): a file of JSON lines, each the hash
  of the one before.  A line is what \<open>json.Unmarshal\<close> makes of it (\<open>Stored\<close>), or its text when it is
  not an event (\<open>Garbled\<close>); \<open>as_read\<close> is the event read back from the line written for one, which
  differs from it when a string is not valid UTF-8.  The calls of the file system that can fail are
  one fault per append (\<open>trail_fault\<close>): before anything is written, after a part of the line, or when
  the line is written but not synchronised.
\<close>

subsection \<open>Data\<close>

record trail_actor =
  ta_principal :: string
  ta_uid :: "32 word"
  ta_source :: string

record exec_context =
  xc_component :: string
  xc_request :: string
  xc_method :: string
  xc_path :: string

record trail_target =
  tt_type :: string
  tt_id :: string

record trail_event =
  te_schema :: string
  te_seq :: int
  te_id :: string
  te_operation :: string
  te_tx :: string
  te_at :: gotime
  te_actor :: trail_actor
  te_context :: exec_context
  te_type :: string
  te_target :: trail_target
  te_result :: string
  te_policy :: string
  te_metadata :: "(string \<times> string) list"
  te_redacted :: "string list"
  te_prev :: string
  te_hash :: string

record trail_input =
  ti_operation :: string
  ti_tx :: string
  ti_actor :: trail_actor
  ti_context :: exec_context
  ti_type :: string
  ti_target :: trail_target
  ti_result :: string
  ti_policy :: string
  ti_metadata :: "(string \<times> string) list"

datatype trail_error =
    TrailRoot
  | TrailField string
  | TrailResult string
  | TrailPolicy string
  | TrailInvalid
  | TrailFailure

datatype trail_finding =
    PrivatePath
  | DurabilityUncertain
  | PartialWrite
  | MalformedRecord nat
  | InvalidRecord int trail_error
  | DuplicateEvent int
  | SequenceMismatch nat
  | HashPrevious int
  | HashMismatch int

datatype trail_line = Stored trail_event | Garbled string

record trail =
  tf_root :: string
  tf_lines :: "trail_line list"
  tf_tail :: "trail_line option"
  tf_uncertain :: bool
  tf_private :: bool

record trail_report =
  tp_findings :: "trail_finding list"
  tp_count :: nat
  tp_head :: string

definition tp_valid :: "trail_report \<Rightarrow> bool" where
  "tp_valid r = (tp_findings r = [])"

definition trail_version :: string where "trail_version = ''0.1''"

subsection \<open>Hashing an event\<close>

definition actor_json :: "trail_actor \<Rightarrow> json" where
  "actor_json a = JObj (opt_field ''principal_id'' (ta_principal a)
     @ (if ta_uid a = 0 then [] else [(''peer_uid'', JInt (uint (ta_uid a)))]) @ [(''source'', JStr (ta_source a))])"

definition context_json :: "exec_context \<Rightarrow> json" where
  "context_json x = JObj ([(''component'', JStr (xc_component x))] @ opt_field ''request_id'' (xc_request x)
     @ opt_field ''method'' (xc_method x) @ opt_field ''path'' (xc_path x))"

definition target_json :: "trail_target \<Rightarrow> json" where
  "target_json t = JObj ([(''resource_type'', JStr (tt_type t))] @ opt_field ''resource_id'' (tt_id t))"

definition metadata_json :: "(string \<times> string) list \<Rightarrow> json" where
  "metadata_json kvs = JArr (map (\<lambda>(k, v). JObj [(''key'', JStr k), (''value'', JStr v)]) (sort_key fst kvs))"

definition event_fields :: "trail_event \<Rightarrow> (string \<times> json) list" where
  "event_fields e =
     [(''schema_version'', JStr (te_schema e)), (''sequence'', JInt (te_seq e)), (''event_id'', JStr (te_id e)),
      (''operation_id'', JStr (te_operation e))] @ opt_field ''transaction_id'' (te_tx e)
     @ [(''occurred_at'', JStr (ts (te_at e))), (''actor'', actor_json (te_actor e)), (''context'', context_json (te_context e)),
        (''event_type'', JStr (te_type e)), (''target'', target_json (te_target e)), (''result'', JStr (te_result e)),
        (''policy_decision'', JStr (te_policy e))]"

definition event_material :: "trail_event \<Rightarrow> json" where
  "event_material e = JObj (event_fields e
     @ (if te_metadata e = [] then [] else [(''metadata'', metadata_json (te_metadata e))])
     @ (if te_redacted e = [] then [] else [(''redacted'', json_strs (sort (te_redacted e)))])
     @ opt_field ''previous_hash'' (te_prev e))"

abbreviation event_text :: "trail_event \<Rightarrow> string" where
  "event_text e \<equiv> marshal (event_material e)"

definition hashEvent :: "trail_event \<Rightarrow> string" where
  "hashEvent e = sha256_hex (event_text e)"

subsection \<open>Redaction\<close>

definition shortDigest :: "string \<Rightarrow> string" where
  "shortDigest v = take 12 (sha256_hex v)"

definition redactValue :: "string \<Rightarrow> string" where
  "redactValue v = ''[redacted sha256:'' @ shortDigest v @ '']''"

definition isSensitiveKey :: "string \<Rightarrow> bool" where
  "isSensitiveKey key = list_ex (contains (to_lower (trim_space key)))
     [''secret'', ''token'', ''password'', ''authorization'', ''cookie'', ''bearer'', ''private_key'', ''env_dump'', ''provider_error_body'']"

definition isSensitiveValue :: "string \<Rightarrow> bool" where
  "isSensitiveValue v = (contains v ''-----BEGIN '' \<or> list_ex (contains (to_lower (trim_space v)))
     [''bearer '', ''ghp_'', ''github_pat_'', ''xoxb-'', ''xoxp-'', ''xoxa-'', ''sk-''])"

definition sanitizeValue :: "string \<Rightarrow> string \<Rightarrow> string \<times> bool" where
  "sanitizeValue key v0 =
     (let v = trim_space v0
      in if v = [] then ([], False)
         else if isSensitiveKey key \<or> isSensitiveValue v then (redactValue v, True)
         else if length v > 256 then (''[truncated sha256:'' @ shortDigest v @ '']'', True)
         else (v, False))"

definition RedactText :: "string \<Rightarrow> string" where
  "RedactText v = fst (sanitizeValue ''message'' v)"

text \<open>The value of a key is looked up under the trimmed key, as the code does.\<close>

fun sanitize_keys :: "(string \<times> string) list \<Rightarrow> string list \<Rightarrow> (string \<times> string \<times> bool) list" where
  "sanitize_keys input [] = []"
| "sanitize_keys input (key # keys) =
     (key, sanitizeValue key (case map_of input key of None \<Rightarrow> [] | Some v \<Rightarrow> v)) # sanitize_keys input keys"

definition metadata_keys :: "(string \<times> string) list \<Rightarrow> string list" where
  "metadata_keys input = sort (remdups (filter (\<lambda>k. k \<noteq> []) (map (trim_space \<circ> fst) input)))"

definition sanitizeMetadata :: "(string \<times> string) list \<Rightarrow> (string \<times> string) list \<times> string list" where
  "sanitizeMetadata input =
     (let rows = sanitize_keys input (metadata_keys input)
      in (map (\<lambda>(k, v, _). (k, v)) rows, map fst (filter (\<lambda>(_, _, changed). changed) rows)))"

definition sanitizeContext :: "exec_context \<Rightarrow> exec_context" where
  "sanitizeContext x = \<lparr>xc_component = trim_space (xc_component x), xc_request = trim_space (xc_request x),
     xc_method = trim_space (to_upper (xc_method x)), xc_path = trim_space (xc_path x)\<rparr>"

definition sanitizeTarget :: "trail_target \<Rightarrow> trail_target" where
  "sanitizeTarget t = \<lparr>tt_type = trim_space (tt_type t), tt_id = trim_space (tt_id t)\<rparr>"

subsection \<open>Building an event\<close>

definition trail_results :: "string list" where
  "trail_results = [''requested'', ''succeeded'', ''denied'', ''failed'']"

definition decisions_allowed :: "string list" where
  "decisions_allowed = [''allow'', ''deny'', ''not_applicable'']"

definition policy_or_default :: "trail_input \<Rightarrow> string" where
  "policy_or_default input = (if ti_policy input = [] then ''not_applicable'' else ti_policy input)"

definition unhashed_event :: "trail_input \<Rightarrow> int \<Rightarrow> string \<Rightarrow> gotime \<Rightarrow> string \<Rightarrow> trail_event" where
  "unhashed_event input sequence previousHash now eventID =
     (let actor = ti_actor input; md = sanitizeMetadata (ti_metadata input)
      in \<lparr>te_schema = trail_version, te_seq = sequence, te_id = eventID, te_operation = trim_space (ti_operation input),
          te_tx = trim_space (ti_tx input), te_at = truncate_second now,
          te_actor = (if trim_space (ta_source actor) = [] then actor\<lparr>ta_source := ''local''\<rparr> else actor),
          te_context = sanitizeContext (ti_context input), te_type = trim_space (ti_type input),
          te_target = sanitizeTarget (ti_target input), te_result = ti_result input, te_policy = policy_or_default input,
          te_metadata = fst md, te_redacted = snd md, te_prev = previousHash, te_hash = []\<rparr>)"

definition buildEvent :: "trail_input \<Rightarrow> int \<Rightarrow> string \<Rightarrow> gotime \<Rightarrow> string \<Rightarrow> trail_error + trail_event" where
  "buildEvent input sequence previousHash now eventID =
     (if trim_space (ti_operation input) = [] then Inl (TrailField ''operation_id'')
      else if trim_space (ti_type input) = [] then Inl (TrailField ''event_type'')
      else if trim_space (tt_type (ti_target input)) = [] then Inl (TrailField ''target.resource_type'')
      else if ti_result input \<notin> set trail_results then Inl (TrailResult (ti_result input))
      else if policy_or_default input \<notin> set decisions_allowed then Inl (TrailPolicy (policy_or_default input))
      else if trim_space (xc_component (ti_context input)) = [] then Inl (TrailField ''context.component'')
      else let e = unhashed_event input sequence previousHash now eventID in Inr (e\<lparr>te_hash := hashEvent e\<rparr>))"

subsection \<open>Verifying the file\<close>

definition validateEvent :: "trail_event \<Rightarrow> trail_error + unit" where
  "validateEvent e =
     (if te_schema e \<noteq> trail_version then Inl (TrailField ''schema_version'')
      else if te_seq e < 1 then Inl (TrailField ''sequence'')
      else if trim_space (te_id e) = [] then Inl (TrailField ''event_id'')
      else if trim_space (te_operation e) = [] then Inl (TrailField ''operation_id'')
      else if is_zero (te_at e) then Inl (TrailField ''occurred_at'')
      else if trim_space (ta_source (te_actor e)) = [] then Inl (TrailField ''actor.source'')
      else if trim_space (xc_component (te_context e)) = [] then Inl (TrailField ''context.component'')
      else if trim_space (te_type e) = [] then Inl (TrailField ''event_type'')
      else if trim_space (tt_type (te_target e)) = [] then Inl (TrailField ''target.resource_type'')
      else if trim_space (te_hash e) = [] then Inl (TrailField ''event_hash'')
      else Inr ())"

definition event_findings :: "trail_event list \<Rightarrow> string \<Rightarrow> trail_event \<Rightarrow> trail_finding list" where
  "event_findings seen prev e =
     (case validateEvent e of Inl err \<Rightarrow> [InvalidRecord (te_seq e) err] | Inr _ \<Rightarrow> [])
     @ (if te_id e \<in> set (map te_id seen) then [DuplicateEvent (te_seq e)] else [])
     @ (if te_seq e \<noteq> int (length seen) + 1 then [SequenceMismatch (length seen + 1)] else [])
     @ (if te_prev e \<noteq> prev then [HashPrevious (te_seq e)] else [])
     @ (if hashEvent e \<noteq> te_hash e then [HashMismatch (te_seq e)] else [])"

fun verify_lines :: "nat \<Rightarrow> trail_line list \<Rightarrow> trail_event list \<Rightarrow> string \<Rightarrow> trail_finding list \<times> trail_event list \<times> string" where
  "verify_lines i [] seen prev = ([], seen, prev)"
| "verify_lines i (Garbled s # ls) seen prev =
     (if trim_space s = [] then verify_lines (i + 1) ls seen prev
      else let (fs, r) = verify_lines (i + 1) ls seen prev in (MalformedRecord i # fs, r))"
| "verify_lines i (Stored e # ls) seen prev =
     (let (fs, r) = verify_lines (i + 1) ls (seen @ [e]) (te_hash e) in (event_findings seen prev e @ fs, r))"

definition all_lines :: "trail \<Rightarrow> trail_line list" where
  "all_lines t = tf_lines t @ (case tf_tail t of None \<Rightarrow> [] | Some l \<Rightarrow> [l])"

definition verifyTrailFile :: "trail \<Rightarrow> trail_report \<times> trail_event list" where
  "verifyTrailFile t =
     (let (fs, evs, head) = verify_lines 1 (all_lines t) [] []
      in (\<lparr>tp_findings = (if tf_private t then [] else [PrivatePath]) @ (if tf_uncertain t then [DurabilityUncertain] else [])
             @ (if tf_tail t = None then [] else [PartialWrite]) @ fs,
           tp_count = length evs, tp_head = head\<rparr>, evs))"

subsection \<open>Appending\<close>

text \<open>What \<open>encoding/json\<close> gives back for a string it wrote: every ill-formed byte has become U+FFFD.\<close>

fun valid_text :: "string \<Rightarrow> string" where
  "valid_text [] = []"
| "valid_text (c # cs) =
     (if of_char c < (128::nat) then c # valid_text cs
      else (let n = utf8_size (map of_char (c # cs))
            in if n = 0 then [CHR 0xEF, CHR 0xBF, CHR 0xBD] @ valid_text cs
               else take n (c # cs) @ valid_text (drop (n - 1) cs)))"

declare valid_text.simps(2) [simp del]

fun keep_last :: "(string \<times> string) list \<Rightarrow> (string \<times> string) list" where
  "keep_last [] = []"
| "keep_last ((k, v) # kvs) = (if k \<in> fst ` set kvs then keep_last kvs else (k, v) # keep_last kvs)"

definition as_read :: "trail_event \<Rightarrow> trail_event" where
  "as_read e = \<lparr>te_schema = valid_text (te_schema e), te_seq = te_seq e, te_id = valid_text (te_id e), te_operation = valid_text (te_operation e),
     te_tx = valid_text (te_tx e), te_at = te_at e,
     te_actor = \<lparr>ta_principal = valid_text (ta_principal (te_actor e)), ta_uid = ta_uid (te_actor e), ta_source = valid_text (ta_source (te_actor e))\<rparr>,
     te_context = \<lparr>xc_component = valid_text (xc_component (te_context e)), xc_request = valid_text (xc_request (te_context e)),
       xc_method = valid_text (xc_method (te_context e)), xc_path = valid_text (xc_path (te_context e))\<rparr>,
     te_type = valid_text (te_type e), te_target = \<lparr>tt_type = valid_text (tt_type (te_target e)), tt_id = valid_text (tt_id (te_target e))\<rparr>,
     te_result = valid_text (te_result e), te_policy = valid_text (te_policy e),
     te_metadata = keep_last (map (\<lambda>(k, v). (valid_text k, valid_text v)) (te_metadata e)),
     te_redacted = map valid_text (te_redacted e), te_prev = valid_text (te_prev e), te_hash = valid_text (te_hash e)\<rparr>"

datatype trail_fault =
    FaultBefore
  | FaultShort string
  | FaultNewline
  | FaultSync bool

record trail_env =
  tn_now :: gotime
  tn_id :: string
  tn_fault :: "trail_fault option"

text \<open>\<open>FaultSync\<close> says whether the marker of an uncertain chain could be written.\<close>

definition append_line :: "trail_event \<Rightarrow> trail_fault option \<Rightarrow> trail \<Rightarrow> (trail_error + trail_event) \<times> trail" where
  "append_line e fault t =
     (let whole = t\<lparr>tf_lines := tf_lines t @ [Stored (as_read e)], tf_private := True\<rparr>
      in case fault of
           None \<Rightarrow> (Inr e, whole)
         | Some FaultBefore \<Rightarrow> (Inl TrailFailure, t)
         | Some (FaultShort s) \<Rightarrow> (Inl TrailFailure, t\<lparr>tf_tail := (if s = [] then None else Some (Garbled s))\<rparr>)
         | Some FaultNewline \<Rightarrow> (Inl TrailFailure, t\<lparr>tf_tail := Some (Stored (as_read e))\<rparr>)
         | Some (FaultSync marked) \<Rightarrow> (Inl TrailFailure, whole\<lparr>tf_uncertain := marked\<rparr>))"

definition Record :: "trail_env \<Rightarrow> trail_input \<Rightarrow> trail \<Rightarrow> (trail_error + trail_event) \<times> trail" where
  "Record te input t =
     (if \<not> has_prefix (tf_root t) ''/'' then (Inl TrailRoot, t)
      else let (report, events) = verifyTrailFile t
           in if \<not> tp_valid report then (Inl TrailInvalid, t)
              else case buildEvent input (int (length events) + 1) (tp_head report) (tn_now te) (''audit_'' @ tn_id te) of
                     Inl err \<Rightarrow> (Inl err, t)
                   | Inr e \<Rightarrow> append_line e (tn_fault te) t)"

definition trail_Verify :: "trail \<Rightarrow> trail_error + trail_report" where
  "trail_Verify t = (if \<not> has_prefix (tf_root t) ''/'' then Inl TrailRoot else Inr (fst (verifyTrailFile t)))"

definition trail_Events :: "trail \<Rightarrow> trail_error + trail_event list" where
  "trail_Events t = (if tp_valid (fst (verifyTrailFile t)) then Inr (snd (verifyTrailFile t)) else Inl TrailInvalid)"

subsection \<open>A rendering has no bare quote in a string\<close>

definition quoted :: "string \<Rightarrow> bool" where
  "quoted w = (\<forall>a b. w = a @ CHR 0x22 # b \<longrightarrow> a \<noteq> [] \<and> last a = backslash)"

lemma quoted_free: "CHR 0x22 \<notin> set w \<Longrightarrow> quoted w"
  by (auto simp: quoted_def)

lemma quoted_append:
  assumes "quoted u" "quoted v" shows "quoted (u @ v)"
proof -
  have "a \<noteq> [] \<and> last a = backslash" if h: "u @ v = a @ CHR 0x22 # b" for a b
  proof (cases "length a < length u")
    case True
    then have "u = a @ CHR 0x22 # drop (Suc (length a)) u"
      using h by (metis append_eq_append_conv_if id_take_nth_drop less_imp_le_nat nth_append nth_append_length)
    then show ?thesis using assms(1) by (auto simp: quoted_def)
  next
    case False
    then obtain a' where a: "a = u @ a'" "v = a' @ CHR 0x22 # b"
      using h by (auto simp: append_eq_append_conv2)
    with assms(2) have "a' \<noteq> [] \<and> last a' = backslash" by (auto simp: quoted_def)
    then show ?thesis using a by simp
  qed
  then show ?thesis by (simp add: quoted_def)
qed

lemma utf8_high:
  assumes "(128::nat) \<le> b0" shows "\<forall>b \<in> set (take (utf8_size (b0 # bs)) (b0 # bs)). 128 \<le> b"
  using assms by (cases "(b0 # bs)" rule: utf8_size.cases) (auto simp: in_range_def)
lemma hex_nibble_quote: "n < 16 \<Longrightarrow> hex_nibble n \<noteq> CHR 0x22"
proof -
  assume "n < 16"
  then have "n \<in> set [0..<16]" by simp
  moreover have "list_all (\<lambda>n. hex_nibble n \<noteq> CHR 0x22) [0..<16]" by code_simp
  ultimately show ?thesis unfolding list_all_iff by blast
qed

lemma quoted_escape_ascii: "of_char c < (128::nat) \<Longrightarrow> quoted (escape_ascii c)"
proof (cases "c = CHR 0x22 \<or> c = backslash")
  case True
  then have "escape_ascii c = [backslash, c]" by (simp add: escape_ascii_def)
  then show ?thesis using True by (auto simp: quoted_def Cons_eq_append_conv)
next
  case False
  assume "of_char c < (128::nat)"
  then have "hex_nibble (of_char c div 16) \<noteq> CHR 0x22" "hex_nibble (of_char c mod 16) \<noteq> CHR 0x22"
    by (simp_all add: hex_nibble_quote)
  then show ?thesis using False by (intro quoted_free) (auto simp: escape_ascii_def split: if_splits)
qed

lemma quoted_escape: "quoted (escape s)"
proof (induction s rule: length_induct)
  case (1 s)
  show ?case
  proof (cases s)
    case Nil
    then show ?thesis by (simp add: quoted_free)
  next
    case (Cons c cs)
    let ?n = "utf8_size (map of_char (c # cs) :: nat list)"
    have rest: "quoted (escape (drop k cs))" for k using 1 Cons by simp
    show ?thesis
    proof (cases "of_char c < (128::nat)")
      case True
      then show ?thesis using rest [of 0] quoted_escape_ascii quoted_append by (simp add: Cons escape_ascii_Cons)
    next
      case False
      have "\<forall>b \<in> set (map of_char (take ?n (c # cs))). (128::nat) \<le> b"
        using utf8_high [OF False [unfolded not_less], of "map of_char cs"] by (simp only: take_map [symmetric] list.map)
      then have "128 \<le> (of_char d :: nat)" if "d \<in> set (take ?n (c # cs))" for d
        using that by (simp only: set_map ball_simps)
      then have "quoted (take ?n (c # cs))" by (intro quoted_free notI) (fastforce dest!: meta_spec [of _ "CHR 0x22"])
      moreover have "quoted [backslash, CHR ''u'', CHR ''f'', CHR ''f'', CHR ''f'', CHR ''d'']"
          "quoted [backslash, CHR ''u'', CHR ''2'', CHR ''0'', CHR ''2'', CHR ''8'']"
          "quoted [backslash, CHR ''u'', CHR ''2'', CHR ''0'', CHR ''2'', CHR ''9'']"
        by (simp_all add: quoted_free)
      moreover have e: "escape s =
         (if ?n = 0 then [backslash, CHR ''u'', CHR ''f'', CHR ''f'', CHR ''f'', CHR ''d''] @ escape (drop 0 cs)
          else if map of_char (take 3 (c # cs)) = [0xE2, 0x80, 0xA8::nat]
            then [backslash, CHR ''u'', CHR ''2'', CHR ''0'', CHR ''2'', CHR ''8''] @ escape (drop 2 cs)
          else if map of_char (take 3 (c # cs)) = [0xE2, 0x80, 0xA9::nat]
            then [backslash, CHR ''u'', CHR ''2'', CHR ''0'', CHR ''2'', CHR ''9''] @ escape (drop 2 cs)
          else take ?n (c # cs) @ escape (drop (?n - 1) cs))"
        unfolding Cons escape.simps(2) Let_def drop_0 using False by (simp only: if_False)
      ultimately show ?thesis
        unfolding e using rest by (simp only: quoted_append split: if_split) blast
    qed
  qed
qed

subsection \<open>The trail is a sequenced hash chain\<close>

lemma marshal_last_string:
  "ascii k \<Longrightarrow> \<exists>u. marshal (JObj (xs @ [(k @ [c], JStr s)])) = u @ escape [c] @ [CHR 0x22, CHR '':'', CHR 0x22] @ escape s @ [CHR 0x22, CHR ''}'']"
  by (simp add: join_snoc quote_def escape_append)

lemma marshal_last_array: "\<exists>u. marshal (JObj (xs @ [(k, JArr vs)])) = u @ '']}''"
  by (simp add: join_snoc)

lemma event_text_linked:
  assumes "te_prev e \<noteq> []" and "digest_like (te_prev e)"
  shows "\<exists>u. event_text e = u @ [CHR ''h'', CHR 0x22, CHR '':'', CHR 0x22] @ te_prev e @ [CHR 0x22, CHR ''}'']"
proof -
  have "escape ''h'' = ''h''" "ascii ''previous_has''" by code_simp+
  moreover have "\<exists>xs. event_material e = JObj (xs @ [(''previous_has'' @ ''h'', JStr (te_prev e))])"
    using assms(1) by (simp add: event_material_def opt_field_def)
  ultimately show ?thesis
    using marshal_last_string [of "''previous_has''" _ "CHR ''h''" "te_prev e"] escape_digest [OF assms(2)] by (metis append_Cons append_Nil)
qed

lemma event_text_first:
  assumes "te_prev e = []"
  shows "\<exists>u. event_text e = u @ '']}'' \<or>
     event_text e = u @ [CHR ''n'', CHR 0x22, CHR '':'', CHR 0x22] @ escape (te_policy e) @ [CHR 0x22, CHR ''}'']"
proof -
  consider (redacted) xs vs where "event_material e = JObj (xs @ [(''redacted'', JArr vs)])"
    | (metadata) xs vs where "event_material e = JObj (xs @ [(''metadata'', JArr vs)])"
    | (policy) xs where "event_material e = JObj (xs @ [(''policy_decisio'' @ ''n'', JStr (te_policy e))])"
    using assms by (cases "te_redacted e = []"; cases "te_metadata e = []")
      (auto simp: event_material_def event_fields_def json_strs_def metadata_json_def opt_field_def)
  then show ?thesis
  proof cases
    case policy
    moreover have "escape ''n'' = ''n''" "ascii ''policy_decisio''" by code_simp+
    ultimately show ?thesis
      using marshal_last_string [of "''policy_decisio''" _ "CHR ''n''" "te_policy e"] by (metis append_Cons append_Nil)
  qed (use marshal_last_array in metis)+
qed

lemma event_text_prev_aux:
  assumes "digest_like p" and "p \<noteq> []"
  shows "u @ [CHR ''h'', CHR 0x22, CHR '':'', CHR 0x22] @ p \<noteq> v @ [CHR ''n'', CHR 0x22, CHR '':'', CHR 0x22] @ escape s"
proof
  assume eq: "u @ [CHR ''h'', CHR 0x22, CHR '':'', CHR 0x22] @ p = v @ [CHR ''n'', CHR 0x22, CHR '':'', CHR 0x22] @ escape s"
  let ?h = "u @ [CHR ''h'', CHR 0x22, CHR '':'']" and ?n = "v @ [CHR ''n'', CHR 0x22, CHR '':'']"
  have hex: "CHR 0x22 \<notin> set p" using assms(1) by (auto simp: digest_like_def hex_chars_def)
  from eq have "?h @ CHR 0x22 # p = ?n @ CHR 0x22 # escape s" by simp
  then obtain w where "(?h = ?n @ w \<and> w @ CHR 0x22 # p = CHR 0x22 # escape s) \<or> (?h @ w = ?n \<and> CHR 0x22 # p = w @ CHR 0x22 # escape s)"
    unfolding append_eq_append_conv2 [of ?h "CHR 0x22 # p"] by blast
  then consider (longer) w' where "?h = ?n @ CHR 0x22 # w'" "escape s = w' @ CHR 0x22 # p"
    | (same) "?h = ?n" | (shorter) w' where "p = w' @ CHR 0x22 # escape s"
    by (cases w) auto
  then show False
  proof cases
    case longer
    then have "w' \<noteq> []" "last w' = backslash" using quoted_escape [of s] by (auto simp: quoted_def)
    moreover have "last (?n @ CHR 0x22 # w') = CHR '':''" unfolding longer(1) [symmetric] by simp
    ultimately show False by simp
  qed (use hex in auto)
qed

interpretation trail_chain: sequenced_chain te_seq te_prev te_hash event_text
proof
  have mixed: False if h: "digest_like (te_prev e)" "te_prev e \<noteq> []" "te_prev f = []" "event_text e = event_text f" for e f
  proof -
    obtain u where "event_text e = u @ [CHR ''h'', CHR 0x22, CHR '':'', CHR 0x22] @ te_prev e @ [CHR 0x22, CHR ''}'']"
      using event_text_linked [OF h(2,1)] by blast
    then have e: "event_text e = (u @ [CHR ''h'', CHR 0x22, CHR '':'', CHR 0x22] @ te_prev e) @ [CHR 0x22, CHR ''}'']" by simp
    from event_text_first [OF h(3)] obtain v where "event_text f = (v @ [CHR '']'']) @ [CHR ''}''] \<or>
       event_text f = (v @ [CHR ''n'', CHR 0x22, CHR '':'', CHR 0x22] @ escape (te_policy f)) @ [CHR 0x22, CHR ''}'']" by auto
    then show False
    proof
      assume "event_text f = (v @ [CHR '']'']) @ [CHR ''}'']"
      with e h(4) have "((u @ [CHR ''h'', CHR 0x22, CHR '':'', CHR 0x22] @ te_prev e) @ [CHR 0x22]) @ [CHR ''}''] = (v @ [CHR '']'']) @ [CHR ''}'']"
        by (metis append.assoc append_Cons append_Nil)
      then show False by simp
    next
      assume "event_text f = (v @ [CHR ''n'', CHR 0x22, CHR '':'', CHR 0x22] @ escape (te_policy f)) @ [CHR 0x22, CHR ''}'']"
      with e h(4) show False using event_text_prev_aux [OF h(1,2)] by (metis same_append_eq append_same_eq)
    qed
  qed
  show "te_prev e = te_prev f" if h: "digest_like (te_prev e)" "digest_like (te_prev f)" "event_text e = event_text f" for e f
  proof (cases "te_prev e = [] \<or> te_prev f = []")
    case True
    with mixed h show ?thesis by metis
  next
    case False
    obtain u v where "u @ [CHR ''h'', CHR 0x22, CHR '':'', CHR 0x22] @ te_prev e @ [CHR 0x22, CHR ''}'']
        = v @ [CHR ''h'', CHR 0x22, CHR '':'', CHR 0x22] @ te_prev f @ [CHR 0x22, CHR ''}'']"
      using event_text_linked [of e] event_text_linked [of f] False h by metis
    moreover have "length (te_prev e) = length (te_prev f)" using False h by (auto simp: digest_like_def)
    ultimately show ?thesis by simp
  qed
qed

end
