(* ===== verification/OperatorTrailProperties.thy ===== *)
theory OperatorTrailProperties
  imports OperatorTrail "HOL-Library.Sublist"
begin

text \<open>
  What the operator audit trail guarantees: when a file verifies (\<open>trail_file_valid\<close>), that appending
  keeps it so, which ambiguous appends stop the trail, that reported events stay in it, what redaction leaves of a secret, and the
  text that breaks a trail for good.
\<close>

subsection \<open>When a file verifies\<close>

lemma event_findings_Nil:
  "event_findings seen prev e = [] \<longleftrightarrow> validateEvent e = Inr () \<and> te_id e \<notin> set (map te_id seen) \<and> te_seq e = int (length seen) + 1
     \<and> te_prev e = prev \<and> te_hash e = hashEvent e"
  by (cases "validateEvent e") (auto simp: event_findings_def)

definition events_ok :: "trail_event list \<Rightarrow> bool" where
  "events_ok es = (list_all (\<lambda>e. validateEvent e = Inr ()) es \<and> distinct (map te_id es) \<and> trail_chain.ok es)"

lemma verify_lines_stored:
  "verify_lines i (map Stored es) seen prev = (fs, seen', head) \<Longrightarrow>
     seen' = seen @ es \<and> head = chain_head te_hash prev es
     \<and> (fs = [] \<longleftrightarrow> list_all (\<lambda>e. validateEvent e = Inr ()) es \<and> distinct (map te_id es) \<and> set (map te_id es) \<inter> set (map te_id seen) = {}
          \<and> linked te_prev te_hash event_text prev es \<and> map te_seq es = map (\<lambda>k. int (length seen) + 1 + int k) [0..<length es])"
proof (induction es arbitrary: i seen prev fs seen' head)
  case (Cons e es)
  obtain fs1 where rec: "verify_lines (i + 1) (map Stored es) (seen @ [e]) (te_hash e) = (fs1, seen', head)"
      and fs: "fs = event_findings seen prev e @ fs1"
    using Cons.prems by (auto split: prod.splits)
  have upt: "map (\<lambda>k. int (length seen) + 1 + int k) [0..<length (e # es)]
      = (int (length seen) + 1) # map (\<lambda>k. int (length (seen @ [e])) + 1 + int k) [0..<length es]"
    by (simp add: upt_conv_Cons map_Suc_upt [symmetric] comp_def del: upt_Suc)
  show ?case
    using Cons.IH [OF rec] unfolding fs upt
    by (auto simp: event_findings_Nil chain_head_Cons hashEvent_def)
qed auto

text \<open>Lines appended, nothing ambiguous, right permissions: the state in which the file is appendable.\<close>

definition whole :: "trail \<Rightarrow> trail_event list \<Rightarrow> bool" where
  "whole t es = (tf_lines t = map Stored es \<and> tf_tail t = None \<and> \<not> tf_uncertain t \<and> tf_private t)"

lemma verifyTrailFile_whole:
  "whole t es \<Longrightarrow> snd (verifyTrailFile t) = es \<and> tp_head (fst (verifyTrailFile t)) = chain_head te_hash [] es
     \<and> (tp_valid (fst (verifyTrailFile t)) \<longleftrightarrow> events_ok es)"
proof -
  assume w: "whole t es"
  obtain fs seen head where v: "verify_lines 1 (map Stored es) [] [] = (fs, seen, head)" by (cases "verify_lines 1 (map Stored es) [] []") auto
  have "map te_seq es = map (\<lambda>k. int (length []) + 1 + int k) [0..<length es] \<longleftrightarrow> map te_seq es = map (\<lambda>k. 1 + int k) [0..<length es]" by simp
  then show ?thesis
    using verify_lines_stored [OF v] v w
    by (auto simp: whole_def verifyTrailFile_def all_lines_def events_ok_def trail_chain.ok_def rows_ok_iff tp_valid_def)
qed

lemma ambiguous_invalid: "tf_tail t \<noteq> None \<or> tf_uncertain t \<Longrightarrow> \<not> tp_valid (fst (verifyTrailFile t))"
  by (auto simp: verifyTrailFile_def tp_valid_def split: prod.splits)

subsection \<open>Text that survives the encoding\<close>

lemma valid_text_ascii: "ascii s \<Longrightarrow> valid_text s = s"
  by (induction s) (auto simp: ascii_def valid_text.simps(2))

lemma ascii_subset: "ascii s \<Longrightarrow> set t \<subseteq> set s \<Longrightarrow> ascii t"
  by (auto simp: ascii_def list_all_iff)

lemma set_trim_space: "set (trim_space s) \<subseteq> set s"
  by (auto simp: trim_space_def dest!: set_dropWhileD)

lemma ascii_trim_space: "ascii s \<Longrightarrow> ascii (trim_space s)"
  by (rule ascii_subset [OF _ set_trim_space])

lemma ascii_to_upper: "ascii s \<Longrightarrow> ascii (to_upper s)"
  by (auto simp: ascii_def list_all_iff to_upper_def)

lemma ascii_hex: "set s \<subseteq> set hex_chars \<Longrightarrow> ascii s"
proof -
  have "list_all (\<lambda>c. of_char c < (128::nat)) hex_chars" by code_simp
  then show "set s \<subseteq> set hex_chars \<Longrightarrow> ascii s" by (auto simp: ascii_def list_all_iff)
qed

lemma sha_hex_chars: "set (sha256_hex s) \<subseteq> set hex_chars"
  using digest_like_sha256_hex [of s] by (auto simp: digest_like_def)

lemma short_hex_chars: "set (shortDigest v) \<subseteq> set hex_chars" "length (shortDigest v) = 12"
  using sha_hex_chars [of v] set_take_subset by (fastforce simp: shortDigest_def)+

lemma ascii_digests: "ascii (sha256_hex s)" "ascii (shortDigest s)"
  using ascii_hex [OF sha_hex_chars] ascii_hex [OF short_hex_chars(1)] by blast+

definition plain_event :: "trail_event \<Rightarrow> bool" where
  "plain_event e = (list_all ascii [te_schema e, te_id e, te_operation e, te_tx e, ta_principal (te_actor e), ta_source (te_actor e),
     xc_component (te_context e), xc_request (te_context e), xc_method (te_context e), xc_path (te_context e), te_type e,
     tt_type (te_target e), tt_id (te_target e), te_result e, te_policy e, te_prev e, te_hash e]
     \<and> list_all (\<lambda>(k, v). ascii k \<and> ascii v) (te_metadata e) \<and> list_all ascii (te_redacted e))"

lemma keep_last_distinct: "distinct (map fst kvs) \<Longrightarrow> keep_last kvs = kvs"
  by (induction kvs rule: keep_last.induct) auto

text \<open>The text of a path is kept apart: it is what a client chooses.\<close>

definition no_path :: "trail_event \<Rightarrow> trail_event" where
  "no_path e = e\<lparr>te_context := (te_context e)\<lparr>xc_path := []\<rparr>\<rparr>"

lemma as_read_path:
  assumes "plain_event (no_path e)" and "distinct (map fst (te_metadata e))"
  shows "as_read e = e\<lparr>te_context := (te_context e)\<lparr>xc_path := valid_text (xc_path (te_context e))\<rparr>\<rparr>" (is "_ = ?r")
proof -
  note p = assms(1) [unfolded plain_event_def]
  note plain = p [THEN conjunct1] and md = p [THEN conjunct2, THEN conjunct1] and red = p [THEN conjunct2, THEN conjunct2]
  have *: "list_all (\<lambda>s. valid_text s = s) [te_schema e, te_id e, te_operation e, te_tx e, ta_principal (te_actor e), ta_source (te_actor e),
     xc_component (te_context e), xc_request (te_context e), xc_method (te_context e), te_type e,
     tt_type (te_target e), tt_id (te_target e), te_result e, te_policy e, te_prev e, te_hash e]"
    using plain by (simp add: no_path_def valid_text_ascii)
  have "map (\<lambda>(k, v). (valid_text k, valid_text v)) (te_metadata e) = te_metadata e"
    using md by (intro map_idI) (auto simp: no_path_def valid_text_ascii list_all_iff)
  moreover have "map valid_text (te_redacted e) = te_redacted e"
    using red by (intro map_idI) (auto simp: no_path_def valid_text_ascii list_all_iff)
  moreover have "te_actor (as_read e) = te_actor e" using * by (intro trail_actor.equality) (simp_all add: as_read_def)
  moreover have "te_context (as_read e) = te_context ?r" using * by (intro exec_context.equality) (simp_all add: as_read_def)
  moreover have "te_target (as_read e) = te_target e" using * by (intro trail_target.equality) (simp_all add: as_read_def)
  ultimately show ?thesis
    using * assms(2) by (intro trail_event.equality) (simp_all add: as_read_def keep_last_distinct)
qed

definition plain_input :: "trail_input \<Rightarrow> bool" where
  "plain_input input = (list_all ascii [ti_operation input, ti_tx input, ta_principal (ti_actor input), ta_source (ti_actor input),
     xc_component (ti_context input), xc_request (ti_context input), xc_method (ti_context input), xc_path (ti_context input),
     ti_type input, tt_type (ti_target input), tt_id (ti_target input), ti_result input, ti_policy input]
     \<and> list_all (\<lambda>(k, v). ascii k \<and> ascii v) (ti_metadata input))"

subsection \<open>Redaction\<close>

lemma sanitize_keys_fst: "map fst (sanitize_keys input ks) = ks"
  by (induction ks) auto

lemma looked_up: "(case map_of input key of None \<Rightarrow> [] | Some v \<Rightarrow> v) = [] \<or> (case map_of input key of None \<Rightarrow> [] | Some v \<Rightarrow> v) \<in> snd ` set input"
proof (cases "map_of input key")
  case (Some v)
  then have "(key, v) \<in> set input" by (rule map_of_SomeD)
  then show ?thesis using Some by (simp add: rev_image_eqI)
qed simp

lemma sanitize_keys_values:
  "row \<in> set (sanitize_keys input ks) \<Longrightarrow> \<exists>w. (w = [] \<or> w \<in> snd ` set input) \<and> snd row = sanitizeValue (fst row) w"
proof (induction ks)
  case (Cons key ks)
  from Cons.prems consider "row = (key, sanitizeValue key (case map_of input key of None \<Rightarrow> [] | Some v \<Rightarrow> v))"
    | "row \<in> set (sanitize_keys input ks)" by auto
  then show ?case
  proof cases
    case 1
    then show ?thesis using looked_up [of input key] by (intro exI conjI) simp_all
  next
    case 2
    then show ?thesis by (rule Cons.IH)
  qed
qed simp

lemma sanitizeMetadata_fst: "map fst (fst (sanitizeMetadata input)) = metadata_keys input"
proof -
  have "fst \<circ> (\<lambda>(k, v, _). (k, v)) = (fst :: string \<times> string \<times> bool \<Rightarrow> string)" by auto
  then show ?thesis by (simp add: sanitizeMetadata_def Let_def sanitize_keys_fst)
qed

lemma metadata_value:
  assumes "(k, v) \<in> set (fst (sanitizeMetadata input))"
  shows "\<exists>w. (w = [] \<or> w \<in> snd ` set input) \<and> v = fst (sanitizeValue k w)"
proof -
  obtain c where "(k, v, c) \<in> set (sanitize_keys input (metadata_keys input))"
    using assms by (auto simp: sanitizeMetadata_def Let_def)
  from sanitize_keys_values [OF this] show ?thesis by (metis fst_conv snd_conv)
qed

lemma metadata_keys_distinct: "distinct (metadata_keys input)"
  by (simp add: metadata_keys_def)

lemma metadata_keys_from: "k \<in> set (metadata_keys input) \<Longrightarrow> \<exists>x \<in> fst ` set input. k = trim_space x"
  by (force simp: metadata_keys_def)

lemma redacted_from: "set (snd (sanitizeMetadata input)) \<subseteq> set (metadata_keys input)"
proof -
  have "map fst (filter P rows) = filter_keys \<Longrightarrow> set filter_keys \<subseteq> set (map fst rows)" for P rows filter_keys by auto
  then show ?thesis unfolding sanitizeMetadata_def Let_def snd_conv using sanitize_keys_fst by (metis (no_types, lifting))
qed

lemma ascii_sanitizeValue: "ascii v \<Longrightarrow> ascii (fst (sanitizeValue k v))"
proof -
  have lit: "ascii ''[redacted sha256:''" "ascii ''[truncated sha256:''" "ascii '']''" "ascii []" by code_simp+
  assume "ascii v"
  then show ?thesis
    unfolding sanitizeValue_def Let_def redactValue_def
    using lit ascii_trim_space ascii_digests(2) by (simp only: ascii_append fst_conv split: if_split) simp
qed

lemma plain_metadata:
  assumes "list_all (\<lambda>(k, v). ascii k \<and> ascii v) input"
  shows "list_all (\<lambda>(k, v). ascii k \<and> ascii v) (fst (sanitizeMetadata input)) \<and> list_all ascii (snd (sanitizeMetadata input))"
proof -
  have keys: "ascii k" if "k \<in> set (metadata_keys input)" for k
    using metadata_keys_from [OF that] assms ascii_trim_space by (fastforce simp: list_all_iff)
  moreover have "ascii v" if kv: "(k, v) \<in> set (fst (sanitizeMetadata input))" for k v
  proof -
    obtain w where "w = [] \<or> w \<in> snd ` set input" "v = fst (sanitizeValue k w)" using metadata_value [OF kv] by blast
    moreover have "ascii w" if "w = [] \<or> w \<in> snd ` set input" for w
      using that assms by (auto simp: list_all_iff ascii_def)
    ultimately show ?thesis using ascii_sanitizeValue by blast
  qed
  moreover have "k \<in> set (metadata_keys input)" if "(k, v) \<in> set (fst (sanitizeMetadata input))" for k v
    using that sanitizeMetadata_fst by (metis fst_conv image_eqI list.set_map)
  ultimately show ?thesis using redacted_from by (fastforce simp: list_all_iff)
qed

subsection \<open>What a built event is\<close>

lemma trim_space_Nil: "trim_space s = [] \<longleftrightarrow> (\<forall>c \<in> set s. is_space c)"
proof -
  have "(\<forall>c \<in> set (dropWhile is_space s). is_space c) \<longleftrightarrow> dropWhile is_space s = []"
    using hd_dropWhile [of is_space s] by (metis hd_in_set empty_iff list.set(1))
  then have "trim_space s = [] \<longleftrightarrow> dropWhile is_space s = []" by (simp add: trim_space_def)
  then show ?thesis by simp
qed

lemma trim_space_again: "trim_space s \<noteq> [] \<Longrightarrow> trim_space (trim_space s) \<noteq> []"
proof -
  let ?d = "dropWhile is_space (rev (dropWhile is_space s))"
  assume "trim_space s \<noteq> []"
  then have d: "?d \<noteq> []" by (simp add: trim_space_def)
  then have "\<not> is_space (hd ?d)" by (rule hd_dropWhile)
  moreover have "hd ?d \<in> set (trim_space s)" unfolding trim_space_def set_rev using d by (rule hd_in_set)
  ultimately show ?thesis unfolding trim_space_Nil by blast
qed

lemma trim_space_Cons: "\<not> is_space c \<Longrightarrow> trim_space (c # s) \<noteq> []"
  by (simp add: trim_space_Nil)

lemma trim_space_sha: "trim_space (sha256_hex s) \<noteq> []"
proof -
  have "list_all (\<lambda>c. \<not> is_space c) hex_chars" by code_simp
  then have "\<forall>c \<in> set (sha256_hex s). \<not> is_space c" using sha_hex_chars unfolding list_all_iff by blast
  moreover have "hd (sha256_hex s) \<in> set (sha256_hex s)" by (rule hd_in_set) simp
  ultimately show ?thesis unfolding trim_space_Nil by blast
qed

lemma hashEvent_hash [simp]: "hashEvent (e\<lparr>te_hash := h\<rparr>) = hashEvent e"
  by (simp add: hashEvent_def event_material_def event_fields_def)

lemma buildEvent_iff:
  "buildEvent input seq prev now eid = Inr e \<longleftrightarrow>
     trim_space (ti_operation input) \<noteq> [] \<and> trim_space (ti_type input) \<noteq> [] \<and> trim_space (tt_type (ti_target input)) \<noteq> []
     \<and> ti_result input \<in> set trail_results \<and> policy_or_default input \<in> set decisions_allowed
     \<and> trim_space (xc_component (ti_context input)) \<noteq> []
     \<and> e = (unhashed_event input seq prev now eid)\<lparr>te_hash := hashEvent (unhashed_event input seq prev now eid)\<rparr>"
  by (auto simp: buildEvent_def Let_def)

lemma buildEvent_Inr:
  assumes "buildEvent input seq prev now eid = Inr e"
  shows "te_seq e = seq" "te_prev e = prev" "te_id e = eid" "te_at e = truncate_second now" "te_hash e = hashEvent e"
    "te_metadata e = fst (sanitizeMetadata (ti_metadata input))" "te_redacted e = snd (sanitizeMetadata (ti_metadata input))"
    "te_context e = sanitizeContext (ti_context input)"
proof -
  have e: "e = (unhashed_event input seq prev now eid)\<lparr>te_hash := hashEvent (unhashed_event input seq prev now eid)\<rparr>"
    using assms by (simp only: buildEvent_iff)
  show "te_hash e = hashEvent e" unfolding e hashEvent_hash by simp
qed (use assms in \<open>simp_all only: buildEvent_iff unhashed_event_def Let_def trail_event.simps\<close>)

lemma buildEvent_valid:
  assumes "buildEvent input seq prev now eid = Inr e" and "1 \<le> seq" and "trim_space eid \<noteq> []" and "\<not> is_zero (truncate_second now)"
  shows "validateEvent e = Inr ()"
proof -
  have "trim_space ''local'' \<noteq> []" by code_simp
  moreover note b = assms(1) [unfolded buildEvent_iff]
  moreover have "trim_space (te_hash e) \<noteq> []" using buildEvent_Inr(5) [OF assms(1)] trim_space_sha by (simp add: hashEvent_def)
  ultimately show ?thesis
    using assms(2-4) by (simp add: validateEvent_def) (simp add: unhashed_event_def Let_def sanitizeContext_def sanitizeTarget_def trim_space_again)
qed

definition pathless :: "trail_input \<Rightarrow> trail_input" where
  "pathless input = input\<lparr>ti_context := (ti_context input)\<lparr>xc_path := []\<rparr>\<rparr>"

lemma buildEvent_read:
  assumes "buildEvent input seq prev now eid = Inr e" and "plain_input (pathless input)" and "ascii eid" and "ascii prev"
  shows "as_read e = e\<lparr>te_context := (te_context e)\<lparr>xc_path := valid_text (xc_path (te_context e))\<rparr>\<rparr>"
proof (rule as_read_path)
  have lit: "ascii ''0.1''" "ascii ''local''" "ascii ''not_applicable''" "ascii []" by code_simp+
  note p = assms(2) [unfolded plain_input_def]
  have "ascii (te_hash e)" using buildEvent_Inr(5) [OF assms(1)] ascii_digests(1) by (simp add: hashEvent_def)
  moreover have "list_all ascii [te_schema e, te_id e, te_operation e, te_tx e, ta_principal (te_actor e), ta_source (te_actor e),
     xc_component (te_context e), xc_request (te_context e), xc_method (te_context e), te_type e,
     tt_type (te_target e), tt_id (te_target e), te_result e, te_policy e, te_prev e]"
    using assms(1,3,4) p [THEN conjunct1] lit
    by (simp add: buildEvent_iff) (simp add: pathless_def unhashed_event_def policy_or_default_def Let_def trail_version_def
        sanitizeContext_def sanitizeTarget_def ascii_trim_space ascii_to_upper)
  moreover have "list_all (\<lambda>(k, v). ascii k \<and> ascii v) (ti_metadata input)" using p [THEN conjunct2] by (simp add: pathless_def)
  ultimately show "plain_event (no_path e)"
    using plain_metadata buildEvent_Inr [OF assms(1)] lit(4) unfolding plain_event_def no_path_def by simp
  show "distinct (map fst (te_metadata e))"
    using buildEvent_Inr [OF assms(1)] sanitizeMetadata_fst metadata_keys_distinct by metis
qed

lemma buildEvent_plain:
  assumes "buildEvent input seq prev now eid = Inr e" and "plain_input input" and "ascii eid" and "ascii prev"
  shows "as_read e = e"
proof -
  have "plain_input (pathless input)" "ascii (xc_path (ti_context input))"
    using assms(2) by (simp_all add: plain_input_def pathless_def ascii_def)
  moreover from this(2) have "valid_text (xc_path (te_context e)) = xc_path (te_context e)"
    using buildEvent_Inr(8) [OF assms(1)] by (simp add: sanitizeContext_def ascii_trim_space valid_text_ascii)
  ultimately show ?thesis using buildEvent_read [OF assms(1) _ assms(3,4)] by simp
qed

subsection \<open>Appending keeps the trail verified\<close>

fun trail_after :: "(trail_env \<times> trail_input) list \<Rightarrow> trail \<Rightarrow> trail" where
  "trail_after [] t = t"
| "trail_after ((te, input) # steps) t = trail_after steps (snd (Record te input t))"

definition empty_trail :: "string \<Rightarrow> trail" where
  "empty_trail root = \<lparr>tf_root = root, tf_lines = [], tf_tail = None, tf_uncertain = False, tf_private = True\<rparr>"

lemma Record_invalid: "\<not> tp_valid (fst (verifyTrailFile t)) \<Longrightarrow> \<exists>err. Record te input t = (Inl err, t)"
  by (auto simp: Record_def split: prod.splits)

lemma trail_stuck: "\<not> tp_valid (fst (verifyTrailFile t)) \<Longrightarrow> trail_after steps t = t"
proof (induction steps)
  case (Cons s steps)
  then show ?case using Record_invalid [OF Cons.prems] by (cases s) (metis snd_conv trail_after.simps(2))
qed simp

definition trail_inv :: "string list \<Rightarrow> trail \<Rightarrow> bool" where
  "trail_inv ids t = (\<exists>es. tf_lines t = map Stored es \<and> events_ok es \<and> tf_private t \<and> te_id ` set es \<subseteq> (@) ''audit_'' ` set ids)"

lemma events_ok_snoc:
  assumes "events_ok es" and "validateEvent e = Inr ()" and "te_id e \<notin> te_id ` set es"
    and "te_seq e = int (length es) + 1" and "te_prev e = chain_head te_hash [] es" and "te_hash e = hashEvent e"
  shows "events_ok (es @ [e])"
  using assms by (auto simp: events_ok_def hashEvent_def intro: trail_chain.ok_snoc)

lemma events_ok_head: "events_ok es \<Longrightarrow> ascii (chain_head te_hash [] es)"
proof (cases es rule: rev_cases)
  case (snoc es' e)
  assume "events_ok es"
  then have "te_hash e = sha256_hex (event_text e)" using snoc trail_chain.ok_last_digest by (auto simp: events_ok_def)
  then show ?thesis using snoc ascii_digests by simp
qed (simp add: ascii_def)

definition good_step :: "trail_env \<times> trail_input \<Rightarrow> bool" where
  "good_step s = (plain_input (snd s) \<and> ascii (tn_id (fst s)) \<and> \<not> is_zero (truncate_second (tn_now (fst s))))"

lemma Record_inv:
  assumes "trail_inv ids t" and "good_step (te, input)" and "tn_id te \<notin> set ids"
  shows "trail_inv (tn_id te # ids) (snd (Record te input t))"
proof -
  obtain es where es: "tf_lines t = map Stored es" "events_ok es" "tf_private t" "te_id ` set es \<subseteq> (@) ''audit_'' ` set ids"
    using assms(1) by (auto simp: trail_inv_def)
  have keep: "trail_inv (tn_id te # ids) u" if "tf_lines u = tf_lines t" "tf_private u" for u
    using that es by (auto simp: trail_inv_def)
  show ?thesis
  proof (cases "tf_tail t \<noteq> None \<or> tf_uncertain t")
    case True
    then show ?thesis using Record_invalid [OF ambiguous_invalid] keep es(3) by (metis snd_conv)
  next
    case False
    then have v: "snd (verifyTrailFile t) = es" "tp_head (fst (verifyTrailFile t)) = chain_head te_hash [] es"
      using verifyTrailFile_whole [of t es] es by (auto simp: whole_def)
    show ?thesis
    proof (cases "buildEvent input (int (length es) + 1) (chain_head te_hash [] es) (tn_now te) (''audit_'' @ tn_id te)")
      case (Inl err)
      then have "snd (Record te input t) = t" using v by (auto simp: Record_def split: prod.splits)
      then show ?thesis using keep es(3) by simp
    next
      case (Inr e)
      have "ascii ''audit_''" by code_simp
      then have "ascii (''audit_'' @ tn_id te)" using assms(2) unfolding ascii_append good_step_def by simp
      then have read: "as_read e = e"
        using assms(2) by (intro buildEvent_plain [OF Inr _ _ events_ok_head [OF es(2)]]) (simp add: good_step_def)
      have "\<not> is_space CHR ''a''" by code_simp
      then have "validateEvent e = Inr ()"
        using buildEvent_valid [OF Inr] trim_space_Cons assms(2) by (simp add: good_step_def)
      moreover have "te_id e \<notin> te_id ` set es" using buildEvent_Inr(3) [OF Inr] es(4) assms(3) by auto
      ultimately have "events_ok (es @ [e])" using events_ok_snoc [OF es(2)] buildEvent_Inr [OF Inr] by simp
      then have "trail_inv (tn_id te # ids) u" if "tf_lines u = map Stored (es @ [e])" "tf_private u" for u
        using that es(4) buildEvent_Inr(3) [OF Inr] unfolding trail_inv_def by (intro exI [of _ "es @ [e]"]) auto
      moreover have "tf_lines u = tf_lines t \<and> tf_private u \<or> tf_lines u = map Stored (es @ [e]) \<and> tf_private u"
        if "u = snd (append_line e fault t)" for u fault
        using that es read by (auto simp: append_line_def Let_def split: option.splits trail_fault.splits)
      ultimately have "trail_inv (tn_id te # ids) (snd (append_line e (tn_fault te) t))" using keep by blast
      then show ?thesis using Inr v keep es(3) by (auto simp: Record_def split: prod.splits)
    qed
  qed
qed

lemma trail_after_inv:
  "trail_inv ids t \<Longrightarrow> list_all good_step steps \<Longrightarrow> distinct (map (tn_id \<circ> fst) steps) \<Longrightarrow>
     set (map (tn_id \<circ> fst) steps) \<inter> set ids = {} \<Longrightarrow> \<exists>ids'. trail_inv ids' (trail_after steps t)"
proof (induction steps arbitrary: ids t)
  case (Cons s steps)
  obtain te input where s: "s = (te, input)" by (cases s)
  from Cons.prems s have "trail_inv (tn_id te # ids) (snd (Record te input t))" by (intro Record_inv) auto
  from Cons.IH [OF this] Cons.prems s show ?case by auto
qed auto

text \<open>What a verification can see of an interrupted append: a part of a line, or the marker of a line that was
  written whole without its durability confirmed.\<close>

definition ambiguous :: "trail \<Rightarrow> bool" where
  "ambiguous t = (tf_tail t \<noteq> None \<or> tf_uncertain t)"

lemma trail_verifies:
  assumes "list_all good_step steps" and "distinct (map (tn_id \<circ> fst) steps)"
  shows "tp_valid (fst (verifyTrailFile (trail_after steps (empty_trail root)))) \<longleftrightarrow> \<not> ambiguous (trail_after steps (empty_trail root))"
proof -
  have "trail_inv [] (empty_trail root)"
    using trail_chain.ok_Nil by (auto simp: trail_inv_def empty_trail_def events_ok_def)
  from trail_after_inv [OF this assms] obtain ids where "trail_inv ids (trail_after steps (empty_trail root))" by auto
  then show ?thesis
    using ambiguous_invalid verifyTrailFile_whole by (fastforce simp: trail_inv_def whole_def ambiguous_def)
qed

text \<open>The appends that leave something behind, by how they failed, and the events whose append was reported as
  done.\<close>

definition leaves_mark :: "trail_env \<Rightarrow> trail_input \<Rightarrow> trail \<Rightarrow> bool" where
  "leaves_mark te input t = (fst (Record te input t) = Inl TrailFailure \<and>
     (case tn_fault te of Some (FaultShort s) \<Rightarrow> s \<noteq> [] | Some FaultNewline \<Rightarrow> True | Some (FaultSync marked) \<Rightarrow> marked | _ \<Rightarrow> False))"

fun clean_run :: "(trail_env \<times> trail_input) list \<Rightarrow> trail \<Rightarrow> bool" where
  "clean_run [] t = True"
| "clean_run ((te, input) # steps) t = (\<not> leaves_mark te input t \<and> clean_run steps (snd (Record te input t)))"

fun reported :: "(trail_env \<times> trail_input) list \<Rightarrow> trail \<Rightarrow> trail_event list" where
  "reported [] t = []"
| "reported ((te, input) # steps) t =
     (case fst (Record te input t) of Inl err \<Rightarrow> [] | Inr e \<Rightarrow> [e]) @ reported steps (snd (Record te input t))"

lemma Record_ambiguous: "ambiguous (snd (Record te input t)) \<longleftrightarrow> ambiguous t \<or> leaves_mark te input t"
proof (cases "ambiguous t")
  case True
  then have "snd (Record te input t) = t" using Record_invalid ambiguous_invalid by (metis ambiguous_def snd_conv)
  with True show ?thesis by simp
next
  case False
  then show ?thesis
    by (auto simp: Record_def append_line_def buildEvent_def ambiguous_def leaves_mark_def Let_def
        split: prod.splits if_splits sum.splits option.splits trail_fault.splits)
qed

lemma clean_run_iff: "ambiguous (trail_after steps t) \<longleftrightarrow> ambiguous t \<or> \<not> clean_run steps t"
  by (induction steps t rule: clean_run.induct) (auto simp: Record_ambiguous)

lemma Record_lines:
  "\<exists>added. tf_lines (snd (Record te input t)) = tf_lines t @ added
     \<and> subseq (case fst (Record te input t) of Inl err \<Rightarrow> [] | Inr e \<Rightarrow> [Stored (as_read e)]) added"
  by (auto simp: Record_def append_line_def Let_def split: prod.splits sum.splits option.splits trail_fault.splits)

lemma reported_lines: "\<exists>added. tf_lines (trail_after steps t) = tf_lines t @ added
     \<and> subseq (map (\<lambda>e. Stored (as_read e)) (reported steps t)) added"
proof (induction steps t rule: reported.induct)
  case (2 te input steps t)
  obtain a1 where a1: "tf_lines (snd (Record te input t)) = tf_lines t @ a1"
      "subseq (case fst (Record te input t) of Inl err \<Rightarrow> [] | Inr e \<Rightarrow> [Stored (as_read e)]) a1"
    using Record_lines by blast
  from 2 obtain a2 where a2: "tf_lines (trail_after steps (snd (Record te input t))) = tf_lines (snd (Record te input t)) @ a2"
      "subseq (map (\<lambda>e. Stored (as_read e)) (reported steps (snd (Record te input t)))) a2" by blast
  have "map (\<lambda>e. Stored (as_read e)) (reported ((te, input) # steps) t)
      = (case fst (Record te input t) of Inl err \<Rightarrow> [] | Inr e \<Rightarrow> [Stored (as_read e)])
        @ map (\<lambda>e. Stored (as_read e)) (reported steps (snd (Record te input t)))"
    by (simp split: sum.splits)
  with a1 a2 list_emb_append_mono [OF a1(2) a2(2)] show ?case by auto
qed simp

text \<open>C21. What the verification of the trail says: after any appends, of plain texts and with different
  identifiers, under any failures of the file system, the file verifies exactly when no append so far failed
  leaving a part of a line, or a whole line whose durability was not confirmed and whose marker was written.
  And every event reported as recorded is in the file, in the order of the reports.  (A line that was not
  confirmed and whose marker could not be written either is not noticed: the marker is best effort.)\<close>

theorem trail_stays_verifiable:
  assumes "list_all good_step steps" and "distinct (map (tn_id \<circ> fst) steps)"
  shows "(tp_valid (fst (verifyTrailFile (trail_after steps (empty_trail root)))) \<longleftrightarrow> clean_run steps (empty_trail root))
     \<and> subseq (map (\<lambda>e. Stored (as_read e)) (reported steps (empty_trail root))) (tf_lines (trail_after steps (empty_trail root)))"
proof -
  have "\<not> ambiguous (empty_trail root)" "tf_lines (empty_trail root) = []" by (simp_all add: ambiguous_def empty_trail_def)
  with trail_verifies [OF assms, of root] clean_run_iff [of steps "empty_trail root"] reported_lines [of steps "empty_trail root"]
  show ?thesis by auto
qed

text \<open>An ambiguous append stops the trail: when a part of a line, or an unsynchronised line with its marker, is left
  behind, the file no longer verifies and no later append changes it.\<close>

theorem ambiguous_append_stops_trail:
  assumes "Record te input t = (Inl TrailFailure, t')"
    and "tn_fault te = Some (FaultShort (c # s)) \<or> tn_fault te = Some FaultNewline \<or> tn_fault te = Some (FaultSync True)"
  shows "\<not> tp_valid (fst (verifyTrailFile t')) \<and> trail_after steps t' = t'"
proof -
  have "tf_tail t' \<noteq> None \<or> tf_uncertain t'"
    using assms by (auto simp: Record_def append_line_def buildEvent_def Let_def split: prod.splits if_splits sum.splits)
  then show ?thesis using ambiguous_invalid trail_stuck by blast
qed

subsection \<open>Redaction leaves no secret\<close>

lemma has_prefix_iff: "has_prefix s p \<longleftrightarrow> (\<exists>r. s = p @ r)"
  by (metis append_eq_conv_conj has_prefix_def append_take_drop_id)

lemma contains_iff: "contains s m \<longleftrightarrow> (\<exists>a b. s = a @ m @ b)"
proof (induction s)
  case (Cons c cs)
  have "(\<exists>a b. c # cs = a @ m @ b) \<longleftrightarrow> (\<exists>b. c # cs = m @ b) \<or> (\<exists>a' b. cs = a' @ m @ b)"
    by (metis append_Cons append_Nil list.inject neq_Nil_conv)
  then show ?case using Cons.IH has_prefix_iff [of "c # cs" m] by simp
qed auto

lemma contains_subset: "contains s m \<Longrightarrow> set m \<subseteq> set s"
  by (auto simp: contains_iff)

lemma to_lower_id:
  "\<forall>c \<in> set s. lower_char c = c \<and> of_char c < (128::nat) \<Longrightarrow> to_lower s = s"
  by (induction s) (auto simp: take_Cons')

definition notice :: "string \<Rightarrow> string \<Rightarrow> string" where
  "notice word digest = [CHR ''[''] @ word @ [CHR '' ''] @ ''sha256:'' @ digest @ [CHR '']'']"

lemma notice_eq:
  "redactValue v = notice ''redacted'' (shortDigest v)"
  "''[truncated sha256:'' @ shortDigest v @ '']'' = notice ''truncated'' (shortDigest v)"
  by (simp_all add: redactValue_def notice_def)

definition notice_chars :: string where
  "notice_chars = ''[] :redactedtruncatedsha256'' @ hex_chars"

lemma notice_clean:
  assumes "word = ''redacted'' \<or> word = ''truncated''"
  shows "\<not> isSensitiveValue (notice word (shortDigest v))"
proof -
  let ?n = "notice word (shortDigest v)"
  have chars: "set ?n \<subseteq> set notice_chars" using assms short_hex_chars [of v] by (auto simp: notice_def notice_chars_def)
  have "list_all (\<lambda>c. lower_char c = c \<and> of_char c < (128::nat)) notice_chars" by code_simp
  then have lower: "to_lower ?n = ?n" using chars unfolding list_all_iff by (intro to_lower_id ballI) (rule bspec [where A = "set notice_chars"], assumption, blast)
  have "\<not> is_space CHR ''[''" "\<not> is_space CHR '']''" by code_simp+
  then have trim: "trim_space ?n = ?n" by (simp add: trim_space_def notice_def)
  have "list_all (\<lambda>m. \<not> list_all (\<lambda>c. c \<in> set notice_chars) m) [''-----BEGIN '', ''ghp_'', ''github_pat_'', ''xoxb-'', ''xoxp-'', ''xoxa-'', ''sk-'']"
    by code_simp
  then have "\<not> contains ?n m" if "m \<in> set [''-----BEGIN '', ''ghp_'', ''github_pat_'', ''xoxb-'', ''xoxp-'', ''xoxa-'', ''sk-'']" for m
    using that chars contains_subset [of ?n m] unfolding list_all_iff by blast
  moreover have "\<not> contains ?n ''bearer ''"
  proof
    assume "contains ?n ''bearer ''"
    then obtain a b where "?n = a @ ''bearer '' @ b" unfolding contains_iff by blast
    then have eq: "(a @ ''bearer'') @ CHR '' '' # b = (CHR ''['' # word) @ CHR '' '' # (''sha256:'' @ shortDigest v @ '']'')"
      by (simp add: notice_def)
    have "CHR '' '' \<notin> set hex_chars" by code_simp
    then have "CHR '' '' \<notin> set (''sha256:'' @ shortDigest v @ '']'')" "CHR '' '' \<notin> set (CHR ''['' # word)"
      using short_hex_chars(1) [of v] assms by auto
    with eq have "a @ ''bearer'' = CHR ''['' # word" by (metis append_Cons_eq_iff)
    then have "last (a @ ''bearer'') = last (CHR ''['' # word)" by (rule arg_cong)
    moreover have "last (a @ ''bearer'') = CHR ''r''" by simp
    moreover have "last (CHR ''['' # word) = CHR ''d''" using assms by (elim disjE) simp_all
    ultimately show False by simp
  qed
  ultimately show ?thesis unfolding isSensitiveValue_def lower trim by simp
qed

lemma sanitizeValue_eq:
  "fst (sanitizeValue k w) =
     (if trim_space w = [] then [] else if isSensitiveKey k \<or> isSensitiveValue (trim_space w) then redactValue (trim_space w)
      else if length (trim_space w) > 256 then notice ''truncated'' (shortDigest (trim_space w)) else trim_space w)"
  by (simp add: sanitizeValue_def Let_def notice_def)

lemma sanitizeValue_clean:
  "\<not> isSensitiveValue (fst (sanitizeValue k w)) \<and> length (fst (sanitizeValue k w)) \<le> 256
   \<and> (isSensitiveKey k \<longrightarrow> fst (sanitizeValue k w) = [] \<or> fst (sanitizeValue k w) = redactValue (trim_space w))"
proof -
  have nil: "\<not> isSensitiveValue []" by code_simp
  have red: "\<not> isSensitiveValue (redactValue u)" "length (redactValue u) \<le> 256" for u
    unfolding notice_eq(1) by (simp add: notice_clean) (simp add: notice_def short_hex_chars(2))
  have trunc: "\<not> isSensitiveValue (notice ''truncated'' (shortDigest u))" "length (notice ''truncated'' (shortDigest u)) \<le> 256" for u
    by (simp add: notice_clean) (simp add: notice_def short_hex_chars(2))
  show ?thesis
    unfolding sanitizeValue_eq using nil red trunc by (simp only: split: if_split) auto
qed

text \<open>No secret reaches the trail through the metadata: every recorded value is at most 256 characters long and
  contains none of the markers of a credential, and under a sensitive key there is only the digest notice.\<close>

theorem recorded_metadata_is_clean:
  assumes "Record te input t = (Inr e, t')" and "(k, v) \<in> set (te_metadata e)"
  shows "\<not> isSensitiveValue v \<and> length v \<le> 256 \<and> (isSensitiveKey k \<longrightarrow> v = [] \<or> (\<exists>w. v = redactValue w))"
proof -
  obtain seq prev where "buildEvent input seq prev (tn_now te) (''audit_'' @ tn_id te) = Inr e"
    using assms(1) by (auto simp: Record_def append_line_def Let_def split: prod.splits if_splits sum.splits option.splits trail_fault.splits)
  from buildEvent_Inr(6) [OF this] assms(2) obtain w where "v = fst (sanitizeValue k w)"
    using metadata_value [of k v "ti_metadata input"] by metis
  then show ?thesis using sanitizeValue_clean by blast
qed

subsection \<open>A text that breaks the trail\<close>

lemma verify_lines_hashes: "fst (verify_lines i ls seen prev) = [] \<Longrightarrow> Stored e \<in> set ls \<Longrightarrow> hashEvent e = te_hash e"
  by (induction i ls seen prev rule: verify_lines.induct) (auto simp: event_findings_Nil split: prod.splits if_splits)

lemma valid_hashes: "tp_valid (fst (verifyTrailFile t)) \<Longrightarrow> Stored e \<in> set (tf_lines t) \<Longrightarrow> hashEvent e = te_hash e"
  by (rule verify_lines_hashes [of 1 "all_lines t" "[]" "[]"]) (auto simp: verifyTrailFile_def tp_valid_def all_lines_def split: prod.splits)

lemma path_text_differs:
  assumes "escape (valid_text p) \<noteq> escape p" and "xc_path (te_context e) = p" and "p \<noteq> []" and "valid_text p \<noteq> []"
  shows "event_text (e\<lparr>te_context := (te_context e)\<lparr>xc_path := valid_text p\<rparr>\<rparr>) \<noteq> event_text e" (is "event_text ?r \<noteq> _")
proof -
  let ?c = "te_context e"
  define xs where "xs = [(''component'', JStr (xc_component ?c))] @ opt_field ''request_id'' (xc_request ?c) @ opt_field ''method'' (xc_method ?c)"
  have ctx: "context_json ?c = JObj (xs @ (''path'', JStr p) # [])"
      "context_json (te_context ?r) = JObj (xs @ (''path'', JStr (valid_text p)) # [])"
    using assms(2-4) by (simp_all add: context_json_def opt_field_def xs_def)
  have "marshal (JStr (valid_text p)) \<noteq> marshal (JStr p)" using assms(1) by (simp add: quote_def)
  then have "marshal (context_json (te_context ?r)) \<noteq> marshal (context_json ?c)"
    unfolding ctx by (rule marshal_middle)
  moreover define pre where "pre = [(''schema_version'', JStr (te_schema e)), (''sequence'', JInt (te_seq e)), (''event_id'', JStr (te_id e)),
      (''operation_id'', JStr (te_operation e))] @ opt_field ''transaction_id'' (te_tx e)
     @ [(''occurred_at'', JStr (ts (te_at e))), (''actor'', actor_json (te_actor e))]"
  moreover define post where "post = [(''event_type'', JStr (te_type e)), (''target'', target_json (te_target e)), (''result'', JStr (te_result e)),
        (''policy_decision'', JStr (te_policy e))]
     @ (if te_metadata e = [] then [] else [(''metadata'', metadata_json (te_metadata e))])
     @ (if te_redacted e = [] then [] else [(''redacted'', json_strs (sort (te_redacted e)))])
     @ opt_field ''previous_hash'' (te_prev e)"
  moreover have "event_material f = JObj (pre @ (''context'', context_json (te_context f)) # post)" if "f = e \<or> f = ?r" for f
    using that by (auto simp: event_material_def event_fields_def pre_def post_def)
  ultimately show ?thesis using marshal_middle by metis
qed

definition broken_path :: "string \<Rightarrow> string" where
  "broken_path a = CHR ''/'' # a @ [CHR 0xFF]"

lemma broken_path_text:
  assumes "ascii a"
  shows "trim_space (broken_path a) = broken_path a" "valid_text (broken_path a) \<noteq> []" "escape (valid_text (broken_path a)) \<noteq> escape (broken_path a)"
proof -
  have "\<not> is_space CHR ''/''" "\<not> is_space CHR 0xFF" by code_simp+
  then show "trim_space (broken_path a) = broken_path a" by (simp add: trim_space_def broken_path_def)
  have "ascii (CHR ''/'' # a)" using assms by (simp add: ascii_def)
  moreover have "valid_text (s @ t) = s @ valid_text t" if "ascii s" for s t
    using that by (induction s) (auto simp: ascii_def valid_text.simps(2))
  moreover have "valid_text [CHR 0xFF] = [CHR 0xEF, CHR 0xBF, CHR 0xBD]" by code_simp
  ultimately have v: "valid_text (broken_path a) = (CHR ''/'' # a) @ [CHR 0xEF, CHR 0xBF, CHR 0xBD]"
    unfolding broken_path_def by (metis append_Cons)
  then show "valid_text (broken_path a) \<noteq> []" by simp
  have "escape [CHR 0xEF, CHR 0xBF, CHR 0xBD] \<noteq> escape [CHR 0xFF]" by code_simp
  then show "escape (valid_text (broken_path a)) \<noteq> escape (broken_path a)"
    unfolding v using escape_append [OF \<open>ascii (CHR ''/'' # a)\<close>] unfolding broken_path_def by (metis append_Cons same_append_eq)
qed

text \<open>A request path with a byte that is not UTF-8 breaks the trail for good: the event is hashed over the text with
  the byte replaced by an escape and read back with the replacement character itself, so its hash no longer matches
  (unless the two texts collide under SHA-256), and no later event can be recorded.\<close>

theorem invalid_path_breaks_trail:
  assumes "Record te input t = (Inr e, t')" and "xc_path (ti_context input) = broken_path a" and "ascii a"
    and "plain_input (pathless input)" and "ascii (tn_id te)" and "ascii (tp_head (fst (verifyTrailFile t)))"
  shows "(\<not> tp_valid (fst (verifyTrailFile t')) \<and> trail_after steps t' = t')
     \<or> (event_text (as_read e) \<noteq> event_text e \<and> sha256_hex (event_text (as_read e)) = sha256_hex (event_text e))"
proof -
  have b: "buildEvent input (int (length (snd (verifyTrailFile t))) + 1) (tp_head (fst (verifyTrailFile t))) (tn_now te) (''audit_'' @ tn_id te) = Inr e"
      and t': "Stored (as_read e) \<in> set (tf_lines t')"
    using assms(1) by (auto simp: Record_def append_line_def Let_def split: prod.splits if_splits sum.splits option.splits trail_fault.splits)
  have "ascii ''audit_''" by code_simp
  then have id: "ascii (''audit_'' @ tn_id te)" using assms(5) unfolding ascii_append by simp
  have path: "xc_path (te_context e) = broken_path a"
    using buildEvent_Inr(8) [OF b] assms(2) broken_path_text(1) [OF assms(3)] by (simp add: sanitizeContext_def)
  have read: "as_read e = e\<lparr>te_context := (te_context e)\<lparr>xc_path := valid_text (broken_path a)\<rparr>\<rparr>"
    using buildEvent_read [OF b assms(4) id assms(6)] path by simp
  have "broken_path a \<noteq> []" by (simp add: broken_path_def)
  then have differ: "event_text (as_read e) \<noteq> event_text e"
    unfolding read using path broken_path_text [OF assms(3)] by (intro path_text_differs)
  show ?thesis
  proof (cases "tp_valid (fst (verifyTrailFile t'))")
    case True
    then have "hashEvent (as_read e) = te_hash (as_read e)" using valid_hashes t' by blast
    then have "hashEvent (as_read e) = hashEvent e" using read buildEvent_Inr(5) [OF b] by simp
    then show ?thesis using differ by (simp add: hashEvent_def)
  next
    case False
    then show ?thesis using trail_stuck by blast
  qed
qed

subsection \<open>Concrete appends\<close>

definition env_t :: "string \<Rightarrow> trail_fault option \<Rightarrow> trail_env" where
  "env_t i fault = \<lparr>tn_now = 0, tn_id = i, tn_fault = fault\<rparr>"

definition input_t :: "string \<Rightarrow> (string \<times> string) list \<Rightarrow> trail_input" where
  "input_t path md = \<lparr>ti_operation = ''r'', ti_tx = [], ti_actor = \<lparr>ta_principal = ''u'', ta_uid = 1, ta_source = ''local''\<rparr>,
     ti_context = \<lparr>xc_component = ''api'', xc_request = [], xc_method = ''GET'', xc_path = path\<rparr>, ti_type = ''x'',
     ti_target = \<lparr>tt_type = ''p'', tt_id = []\<rparr>, ti_result = ''denied'', ti_policy = ''deny'', ti_metadata = md\<rparr>"

lemma trail0_verifies: "verifyTrailFile (empty_trail root) = (\<lparr>tp_findings = [], tp_count = 0, tp_head = []\<rparr>, [])"
  by (simp add: verifyTrailFile_def empty_trail_def all_lines_def)

lemma input_t_builds: "\<exists>e. buildEvent (input_t path md) n p now i = Inr e"
proof -
  have "trim_space ''r'' \<noteq> []" "trim_space ''x'' \<noteq> []" "trim_space ''p'' \<noteq> []" "trim_space ''api'' \<noteq> []" by code_simp+
  moreover have "''denied'' \<in> set trail_results" "''deny'' \<in> set decisions_allowed" by (simp_all add: trail_results_def decisions_allowed_def)
  ultimately show ?thesis by (simp add: buildEvent_iff input_t_def policy_or_default_def)
qed

lemma input_t_recorded:
  "\<exists>e. buildEvent (input_t path md) 1 [] 0 (''audit_'' @ i) = Inr e
     \<and> Record (env_t i fault) (input_t path md) (empty_trail ''/'') = append_line e fault (empty_trail ''/'')"
proof -
  obtain e where "buildEvent (input_t path md) 1 [] 0 (''audit_'' @ i) = Inr e" using input_t_builds by blast
  moreover have "has_prefix ''/'' ''/''" by code_simp
  ultimately show ?thesis by (simp add: Record_def trail0_verifies tp_valid_def env_t_def) (simp add: empty_trail_def)
qed

lemma input_t_plain: "plain_input (pathless (input_t path []))" "ascii path \<Longrightarrow> plain_input (input_t path [])"
proof -
  have "list_all ascii [''r'', [], ''u'', ''local'', ''api'', ''GET'', ''x'', ''p'', ''denied'', ''deny'']" by code_simp
  then show "plain_input (pathless (input_t path []))" "ascii path \<Longrightarrow> plain_input (input_t path [])"
    by (simp_all add: plain_input_def pathless_def input_t_def)
qed

theorem trail_stays_verifiable_witness:
  "tp_valid (fst (verifyTrailFile (trail_after [(env_t ''1'' None, input_t ''/v1'' [])] (empty_trail ''/''))))
   \<and> \<not> tp_valid (fst (verifyTrailFile (trail_after [(env_t ''1'' (Some (FaultSync True)), input_t ''/v1'' [])] (empty_trail ''/''))))
   \<and> tf_lines (trail_after [(env_t ''1'' None, input_t ''/v1'' [])] (empty_trail ''/'')) \<noteq> []"
proof -
  have "ascii ''/v1''" "ascii ''1''" "\<not> is_zero (truncate_second 0)" by code_simp+
  then have good: "list_all good_step [(env_t ''1'' fault, input_t ''/v1'' [])]" for fault
    using input_t_plain(2) by (simp add: good_step_def env_t_def)
  have one': "distinct (map (tn_id \<circ> fst) [(env_t ''1'' fault, input_t ''/v1'' [])])" for fault by simp
  have "\<exists>e. Record (env_t ''1'' fault) (input_t ''/v1'' []) (empty_trail ''/'') = append_line e fault (empty_trail ''/'')" for fault
    using input_t_recorded by blast
  then obtain e1 e2 where rec: "Record (env_t ''1'' None) (input_t ''/v1'' []) (empty_trail ''/'') = append_line e1 None (empty_trail ''/'')"
      "Record (env_t ''1'' (Some (FaultSync True))) (input_t ''/v1'' []) (empty_trail ''/'') = append_line e2 (Some (FaultSync True)) (empty_trail ''/'')"
    by blast
  have fault: "tn_fault (env_t ''1'' f) = f" for f by (simp add: env_t_def)
  have clean: "clean_run [(env_t ''1'' None, input_t ''/v1'' [])] (empty_trail ''/'')"
      "\<not> clean_run [(env_t ''1'' (Some (FaultSync True)), input_t ''/v1'' [])] (empty_trail ''/'')"
    by (simp_all add: leaves_mark_def rec fault append_line_def)
  have one: "reported [(env_t ''1'' None, input_t ''/v1'' [])] (empty_trail ''/'') = [e1]"
    by (simp add: rec append_line_def)
  show ?thesis
    using trail_stays_verifiable [OF good one', of None "''/''"] trail_stays_verifiable [OF good one', of "Some (FaultSync True)" "''/''"]
      clean one by (metis list.map_disc_iff list_emb_Nil2 not_Cons_self2)
qed

theorem ambiguous_append_stops_trail_witness:
  "\<exists>t'. Record (env_t ''1'' (Some FaultNewline)) (input_t ''/v1'' []) (empty_trail ''/'') = (Inl TrailFailure, t')
     \<and> trail_after [(env_t ''2'' None, input_t ''/v1'' [])] t' = t'"
proof -
  obtain e where "Record (env_t ''1'' (Some FaultNewline)) (input_t ''/v1'' []) (empty_trail ''/'') = append_line e (Some FaultNewline) (empty_trail ''/'')"
    using input_t_recorded by blast
  then obtain t' where t': "Record (env_t ''1'' (Some FaultNewline)) (input_t ''/v1'' []) (empty_trail ''/'') = (Inl TrailFailure, t')"
    by (simp add: append_line_def)
  moreover have "trail_after [(env_t ''2'' None, input_t ''/v1'' [])] t' = t'"
    using ambiguous_append_stops_trail [OF t'] by (simp add: env_t_def)
  ultimately show ?thesis by blast
qed

theorem recorded_metadata_is_clean_witness:
  "\<exists>e t'. Record (env_t ''1'' None) (input_t ''/v1'' [(''token'', ''abc'')]) (empty_trail ''/'') = (Inr e, t')
     \<and> (''token'', redactValue ''abc'') \<in> set (te_metadata e) \<and> \<not> isSensitiveValue (redactValue ''abc'')"
proof -
  obtain e where b: "buildEvent (input_t ''/v1'' [(''token'', ''abc'')]) 1 [] 0 (''audit_'' @ ''1'') = Inr e"
      and "Record (env_t ''1'' None) (input_t ''/v1'' [(''token'', ''abc'')]) (empty_trail ''/'') = append_line e None (empty_trail ''/'')"
    using input_t_recorded by blast
  then obtain t' where r: "Record (env_t ''1'' None) (input_t ''/v1'' [(''token'', ''abc'')]) (empty_trail ''/'') = (Inr e, t')"
    by (simp add: append_line_def)
  have "trim_space ''token'' = ''token''" "trim_space ''abc'' = ''abc''" "isSensitiveKey ''token''" by code_simp+
  then have "sanitizeMetadata [(''token'', ''abc'')] = ([(''token'', redactValue ''abc'')], [''token''])"
    by (simp add: sanitizeMetadata_def metadata_keys_def sanitizeValue_def)
  then have "(''token'', redactValue ''abc'') \<in> set (te_metadata e)" using buildEvent_Inr(6) [OF b] by (simp add: input_t_def)
  from recorded_metadata_is_clean [OF r this] this r show ?thesis by blast
qed

theorem invalid_path_breaks_trail_witness:
  "\<exists>e t'. Record (env_t ''1'' None) (input_t (broken_path []) []) (empty_trail ''/'') = (Inr e, t')
     \<and> ((\<not> tp_valid (fst (verifyTrailFile t')) \<and> trail_after [(env_t ''2'' None, input_t ''/v1'' [])] t' = t')
        \<or> (event_text (as_read e) \<noteq> event_text e \<and> sha256_hex (event_text (as_read e)) = sha256_hex (event_text e)))"
proof -
  obtain e where "Record (env_t ''1'' None) (input_t (broken_path []) []) (empty_trail ''/'') = append_line e None (empty_trail ''/'')"
    using input_t_recorded by blast
  then obtain t' where r: "Record (env_t ''1'' None) (input_t (broken_path []) []) (empty_trail ''/'') = (Inr e, t')"
    by (simp add: append_line_def)
  have asc: "ascii []" "ascii ''1''" by code_simp+
  have path: "xc_path (ti_context (input_t (broken_path []) [])) = broken_path []" by (simp add: input_t_def)
  have "ascii (tn_id (env_t ''1'' None))" "ascii (tp_head (fst (verifyTrailFile (empty_trail ''/''))))"
    using asc by (simp_all add: trail0_verifies env_t_def)
  from invalid_path_breaks_trail [OF r path asc(1) input_t_plain(1) this] r show ?thesis by blast
qed

end
