(* ===== verification/Maintenance.thy ===== *)
theory Maintenance
  imports OperatorTrailProperties
begin

text \<open>
  The two switches that stop mutations: maintenance mode, kept in a file with its digest
  (\<open>internal/maintenance/maintenance.go\<close>), and draining, kept in memory (\<open>internal/drain/drain.go\<close>).
  A write of the state file fails as a whole (it writes a temporary file and renames it).
\<close>

subsection \<open>Maintenance mode\<close>

record maintenance_state =
  mt_version :: string
  mt_enabled :: bool
  mt_reason :: string
  mt_actor :: string
  mt_enabled_at :: "gotime option"
  mt_expires :: "gotime option"
  mt_digest :: string

datatype state_file = NoFile | Unreadable | StateFile maintenance_state

record maintenance_manager =
  mm_path :: string
  mm_file :: state_file

datatype maintenance_error =
    MtReason
  | MtTtl
  | MtPath
  | MtWrite
  | MtRead
  | MtVersion
  | MtDigest

definition opt_time :: "string \<Rightarrow> gotime option \<Rightarrow> (string \<times> json) list" where
  "opt_time k t = (case t of None \<Rightarrow> [] | Some v \<Rightarrow> [(k, JStr (ts v))])"

definition maintenance_digest :: "maintenance_state \<Rightarrow> string" where
  "maintenance_digest st = sha256_hex (marshal (JObj
     ([(''version'', JStr (mt_version st)), (''enabled'', JBool (mt_enabled st))] @ opt_field ''reason'' (mt_reason st)
      @ opt_field ''actor'' (mt_actor st) @ opt_time ''enabled_at'' (mt_enabled_at st) @ opt_time ''expires_at'' (mt_expires st)
      @ [(''digest'', JStr [])])))"

definition sealed_state :: "maintenance_state \<Rightarrow> maintenance_state" where
  "sealed_state st = st\<lparr>mt_digest := maintenance_digest st\<rparr>"

definition off_state :: "string \<Rightarrow> maintenance_state" where
  "off_state actor = sealed_state \<lparr>mt_version = ''0.1'', mt_enabled = False, mt_reason = [], mt_actor = actor,
     mt_enabled_at = None, mt_expires = None, mt_digest = []\<rparr>"

definition state_as_read :: "maintenance_state \<Rightarrow> maintenance_state" where
  "state_as_read st = st\<lparr>mt_reason := valid_text (mt_reason st), mt_actor := valid_text (mt_actor st)\<rparr>"

definition writeLocked :: "bool \<Rightarrow> maintenance_state \<Rightarrow> maintenance_manager \<Rightarrow> (maintenance_error + unit) \<times> maintenance_manager" where
  "writeLocked fails st m =
     (if trim_space (mm_path m) = [] then (Inl MtPath, m)
      else if fails then (Inl MtWrite, m)
      else (Inr (), m\<lparr>mm_file := StateFile (state_as_read st)\<rparr>))"

definition or_operator :: "string \<Rightarrow> string" where
  "or_operator actor = (if trim_space actor = [] then ''local-operator'' else actor)"

definition and_return :: "'a \<Rightarrow> ('e + unit) \<times> 'm \<Rightarrow> ('e + 'a) \<times> 'm" where
  "and_return x r = (case r of (Inl e, m) \<Rightarrow> (Inl e, m) | (Inr _, m) \<Rightarrow> (Inr x, m))"

definition Enable ::
  "bool \<Rightarrow> string \<Rightarrow> string \<Rightarrow> int \<Rightarrow> gotime \<Rightarrow> maintenance_manager \<Rightarrow> (maintenance_error + maintenance_state) \<times> maintenance_manager" where
  "Enable fails reason actor ttl now m =
     (if trim_space reason = [] then (Inl MtReason, m)
      else if ttl < 0 \<or> ttl > 7 * 24 * hour then (Inl MtTtl, m)
      else let n = truncate_second now;
               st = sealed_state \<lparr>mt_version = ''0.1'', mt_enabled = True, mt_reason = trim_space reason, mt_actor = trim_space (or_operator actor),
                 mt_enabled_at = Some n, mt_expires = (if ttl > 0 then Some (n + ttl) else None), mt_digest = []\<rparr>
           in and_return st (writeLocked fails st m))"

definition Disable :: "bool \<Rightarrow> string \<Rightarrow> maintenance_manager \<Rightarrow> (maintenance_error + maintenance_state) \<times> maintenance_manager" where
  "Disable fails actor m = (let st = off_state (trim_space (or_operator actor)) in and_return st (writeLocked fails st m))"

definition statusLocked :: "bool \<Rightarrow> gotime \<Rightarrow> maintenance_manager \<Rightarrow> (maintenance_error + maintenance_state) \<times> maintenance_manager" where
  "statusLocked fails now m =
     (if trim_space (mm_path m) = [] then (Inr (off_state []), m)
      else case mm_file m of
             NoFile \<Rightarrow> (Inr (off_state []), m)
           | Unreadable \<Rightarrow> (Inl MtRead, m)
           | StateFile st \<Rightarrow>
               if mt_version st \<noteq> ''0.1'' then (Inl MtVersion, m)
               else if mt_digest st \<noteq> maintenance_digest st then (Inl MtDigest, m)
               else if mt_enabled st \<and> (case mt_expires st of None \<Rightarrow> False | Some t \<Rightarrow> \<not> now < t)
                 then (let expired = off_state ''automatic-expiry'' in and_return expired (writeLocked fails expired m))
               else (Inr st, m))"

definition MutationsAllowed ::
  "bool \<Rightarrow> gotime \<Rightarrow> maintenance_manager \<Rightarrow> (maintenance_error + bool \<times> maintenance_state) \<times> maintenance_manager" where
  "MutationsAllowed fails now m =
     (case statusLocked fails now m of (Inl e, m') \<Rightarrow> (Inl e, m') | (Inr st, m') \<Rightarrow> (Inr (\<not> mt_enabled st, st), m'))"

lemma maintenance_digest_any [simp]: "maintenance_digest (st\<lparr>mt_digest := d\<rparr>) = maintenance_digest st"
  by (simp add: maintenance_digest_def)

lemma sealed_state_simps [simp]:
  "mt_version (sealed_state st) = mt_version st" "mt_enabled (sealed_state st) = mt_enabled st" "mt_reason (sealed_state st) = mt_reason st"
  "mt_actor (sealed_state st) = mt_actor st" "mt_expires (sealed_state st) = mt_expires st" "mt_digest (sealed_state st) = maintenance_digest st"
  "maintenance_digest (sealed_state st) = maintenance_digest st"
  by (simp_all add: sealed_state_def)

lemma state_as_read_plain: "ascii (mt_reason st) \<Longrightarrow> ascii (mt_actor st) \<Longrightarrow> state_as_read st = st"
  by (simp add: state_as_read_def valid_text_ascii)

text \<open>A maintenance window: after maintenance was enabled for a time, mutations are refused until that time is over and
  allowed from then on, when the file switches back by itself; without a time they are refused until it is disabled.\<close>

theorem maintenance_window:
  assumes "Enable fails reason actor ttl now m = (Inr st, m1)" and "ascii reason" and "ascii actor"
  shows "\<exists>st' m2. MutationsAllowed False later m1 = (Inr (0 < ttl \<and> truncate_second now + ttl \<le> later, st'), m2)
     \<and> (mm_file m2 = mm_file m1 \<or> (\<exists>st. mm_file m2 = StateFile st \<and> \<not> mt_enabled st \<and> mt_digest st = maintenance_digest st))"
proof -
  have lit: "ascii ''local-operator''" "ascii ''automatic-expiry''" "ascii []" by code_simp+
  have actor: "ascii (trim_space (or_operator actor))" using assms(3) lit ascii_trim_space by (simp add: or_operator_def)
  let ?s0 = "\<lparr>mt_version = ''0.1'', mt_enabled = True, mt_reason = trim_space reason, mt_actor = trim_space (or_operator actor),
     mt_enabled_at = Some (truncate_second now), mt_expires = (if ttl > 0 then Some (truncate_second now + ttl) else None), mt_digest = []\<rparr>"
  have m1: "trim_space (mm_path m1) \<noteq> []" "mm_file m1 = StateFile (sealed_state ?s0)" and ttl: "0 \<le> ttl"
    using assms(1) actor ascii_trim_space [OF assms(2)]
    by (auto simp: Enable_def Let_def and_return_def writeLocked_def state_as_read_plain split: if_splits)
  have off: "state_as_read (off_state a) = off_state a" if "ascii a" for a
    using that lit(3) by (simp add: off_state_def state_as_read_plain)
  show ?thesis
  proof (cases "0 < ttl \<and> truncate_second now + ttl \<le> later")
    case True
    then have "MutationsAllowed False later m1 = (Inr (True, off_state ''automatic-expiry''), m1\<lparr>mm_file := StateFile (off_state ''automatic-expiry'')\<rparr>)"
      using m1 off [OF lit(2)] by (simp add: MutationsAllowed_def statusLocked_def Let_def and_return_def writeLocked_def) (simp add: off_state_def)
    then show ?thesis using True by (simp add: off_state_def)
  next
    case False
    then have "MutationsAllowed False later m1 = (Inr (False, sealed_state ?s0), m1)"
      using m1 ttl by (auto simp: MutationsAllowed_def statusLocked_def)
    then show ?thesis using False by auto
  qed
qed

theorem maintenance_window_witness:
  "\<exists>st m1 st' m2. Enable False ''upgrade'' [] (10 * second) 0 \<lparr>mm_path = ''/p'', mm_file = NoFile\<rparr> = (Inr st, m1)
     \<and> MutationsAllowed False 0 m1 = (Inr (False, st'), m2)"
proof -
  have lit: "trim_space ''upgrade'' \<noteq> []" "trim_space ''/p'' \<noteq> []" "ascii ''upgrade''" "ascii []" by code_simp+
  obtain st m1 where e: "Enable False ''upgrade'' [] (10 * second) 0 \<lparr>mm_path = ''/p'', mm_file = NoFile\<rparr> = (Inr st, m1)"
    using lit by (simp add: Enable_def Let_def and_return_def writeLocked_def second_def hour_def minute_def)
  from maintenance_window [OF e lit(3,4), of 0] e show ?thesis by (auto simp: second_def truncate_second_def)
qed

subsection \<open>Draining\<close>

text \<open>
  \<open>dr_open\<close> are the release functions handed out and not called yet: each is called once at most with an
  effect (\<open>sync.Once\<close>).  \<open>dr_zero\<close> says that the channel \<open>Wait\<close> waits on is closed.
\<close>

record drain_state =
  dr_draining :: bool
  dr_active :: int
  dr_reason :: string
  dr_started :: "gotime option"
  dr_zero :: bool
  dr_open :: "nat list"
  dr_next :: nat

definition new_drain :: drain_state where
  "new_drain = \<lparr>dr_draining = False, dr_active = 0, dr_reason = [], dr_started = None, dr_zero = True, dr_open = [], dr_next = 0\<rparr>"

definition BeginMutation :: "drain_state \<Rightarrow> nat option \<times> drain_state" where
  "BeginMutation d =
     (if dr_draining d then (None, d)
      else (Some (dr_next d), d\<lparr>dr_zero := (if dr_active d = 0 then False else dr_zero d), dr_active := dr_active d + 1,
              dr_open := dr_next d # dr_open d, dr_next := dr_next d + 1\<rparr>))"

definition release :: "nat \<Rightarrow> drain_state \<Rightarrow> drain_state" where
  "release i d =
     (if i \<notin> set (dr_open d) then d
      else let active = dr_active d - 1
           in d\<lparr>dr_active := active, dr_zero := (if active = 0 then True else dr_zero d), dr_open := remove1 i (dr_open d)\<rparr>)"

definition Start :: "string \<Rightarrow> gotime \<Rightarrow> drain_state \<Rightarrow> drain_state" where
  "Start reason now d =
     (if dr_draining d then d else d\<lparr>dr_draining := True, dr_reason := reason, dr_started := Some (truncate_second now)\<rparr>)"

definition Wait_returns :: "drain_state \<Rightarrow> bool" where
  "Wait_returns d = dr_zero d"

inductive drain_step :: "drain_state \<Rightarrow> drain_state \<Rightarrow> bool" where
  step_begin: "BeginMutation d = (r, d') \<Longrightarrow> drain_step d d'"
| step_release: "drain_step d (release i d)"
| step_start: "drain_step d (Start reason now d)"

inductive drain_reachable :: "drain_state \<Rightarrow> bool" where
  reachable_new: "drain_reachable new_drain"
| reachable_step: "drain_reachable d \<Longrightarrow> drain_step d d' \<Longrightarrow> drain_reachable d'"

definition drain_ok :: "drain_state \<Rightarrow> bool" where
  "drain_ok d = (dr_active d = int (length (dr_open d)) \<and> (dr_zero d \<longleftrightarrow> dr_active d = 0) \<and> distinct (dr_open d)
     \<and> (\<forall>i \<in> set (dr_open d). i < dr_next d))"

lemma drain_step_ok: "drain_step d d' \<Longrightarrow> drain_ok d \<Longrightarrow> drain_ok d'"
proof (induction rule: drain_step.induct)
  case (step_begin d r d')
  then show ?case by (auto simp: BeginMutation_def drain_ok_def less_SucI split: if_splits)
next
  case (step_release d i)
  show ?case
  proof (cases "i \<in> set (dr_open d)")
    case True
    then have "length (remove1 i (dr_open d)) = length (dr_open d) - 1" "1 \<le> length (dr_open d)"
      by (auto simp: length_remove1 Suc_le_eq)
    then have "int (length (remove1 i (dr_open d))) = int (length (dr_open d)) - 1" by linarith
    then show ?thesis using step_release True by (auto simp: release_def Let_def drain_ok_def)
  qed (use step_release in \<open>simp add: release_def\<close>)
qed (simp add: Start_def drain_ok_def)

text \<open>Draining is exact: in every reachable state \<open>Wait\<close> returns exactly when no mutation is still running, each
  release counts once, and a draining daemon admits none.\<close>

theorem drain_exact:
  assumes "drain_reachable d"
  shows "(Wait_returns d \<longleftrightarrow> dr_open d = []) \<and> dr_active d = int (length (dr_open d))
     \<and> (dr_draining d \<longrightarrow> BeginMutation d = (None, d)) \<and> release i (release i d) = release i d"
proof -
  have ok: "drain_ok d"
    using assms
  proof (induction rule: drain_reachable.induct)
    case reachable_new
    show ?case by (simp add: new_drain_def drain_ok_def)
  qed (rule drain_step_ok)
  moreover have "i \<notin> set (dr_open (release i d))" using ok by (auto simp: release_def Let_def drain_ok_def)
  then have "release i (release i d) = release i d" by (simp add: release_def [of i "release i d"])
  ultimately show ?thesis by (auto simp: drain_ok_def Wait_returns_def BeginMutation_def)
qed

theorem drain_exact_witness:
  "drain_reachable (Start ''stop'' 0 (snd (BeginMutation new_drain))) \<and> \<not> Wait_returns (Start ''stop'' 0 (snd (BeginMutation new_drain)))"
proof -
  have "drain_reachable (snd (BeginMutation new_drain))"
    by (rule reachable_step [OF reachable_new]) (rule step_begin [of _ "fst (BeginMutation new_drain)"], simp)
  then have r: "drain_reachable (Start ''stop'' 0 (snd (BeginMutation new_drain)))" by (rule reachable_step) (rule step_start)
  with drain_exact [OF r] show ?thesis by (simp add: Start_def BeginMutation_def new_drain_def)
qed

end
