(* ===== verification/Authorization.thy ===== *)
theory Authorization
  imports OperatorTrail Domain
begin

text \<open>
  The API contract and the role policy (\<open>internal/apicontract/contract.go\<close>, \<open>match.go\<close>,
  \<open>internal/authorization/policy.go\<close>): the endpoints, matching a request against them, compiling a
  policy and deciding an operation.  A Go map from names is a partial function or the list of its keys; a slice that may be
  nil where its rendering shows it is an option.  \<open>Compile\<close> also writes the trimmed names and the
  default scope back into the slice of its argument; here that is the policy of its result.
\<close>

subsection \<open>The contract\<close>

record endpoint =
  ep_method :: string
  ep_path :: string
  ep_operation :: string
  ep_safe :: bool

definition endpoint_rows :: "(string \<times> string \<times> string \<times> bool) list" where
  "endpoint_rows =
     [(''GET'', ''/v1/health'', ''health'', True),
      (''GET'', ''/v1/contract'', ''contract'', True),
      (''GET'', ''/v1/openapi'', ''openapi'', True),
      (''POST'', ''/v1/transactions'', ''transaction_create'', True),
      (''GET'', ''/v1/transactions'', ''transaction_list'', True),
      (''GET'', ''/v1/transactions/{id}'', ''transaction_get'', True),
      (''POST'', ''/v1/transactions/{id}/execute'', ''transaction_execute'', True),
      (''POST'', ''/v1/transactions/{id}/effects/github/branch'', ''github_branch_prepare'', True),
      (''POST'', ''/v1/transactions/{id}/effects/github/draft-pull-request'', ''github_pr_prepare'', True),
      (''POST'', ''/v1/transactions/{id}/effects/slack/message'', ''slack_message_prepare'', True),
      (''GET'', ''/v1/transactions/{id}/effects'', ''effects_list'', True),
      (''POST'', ''/v1/transactions/{id}/effects/{effectID}/refresh'', ''effect_refresh'', True),
      (''POST'', ''/v1/transactions/{id}/seal'', ''transaction_seal'', True),
      (''POST'', ''/v1/transactions/{id}/verify'', ''transaction_verify'', True),
      (''GET'', ''/v1/transactions/{id}/approval-material'', ''approval_material'', False),
      (''POST'', ''/v1/transactions/{id}/approve'', ''transaction_approve'', False),
      (''POST'', ''/v1/transactions/{id}/commit'', ''transaction_commit'', False),
      (''POST'', ''/v1/transactions/{id}/recover'', ''transaction_recover'', False),
      (''POST'', ''/v1/transactions/{id}/abort'', ''transaction_abort'', False),
      (''GET'', ''/v1/transactions/{id}/events'', ''events_list'', True),
      (''GET'', ''/v1/transactions/{id}/access'', ''transaction_access_list'', False),
      (''PUT'', ''/v1/transactions/{id}/access/{principalID}'', ''transaction_access_grant'', False),
      (''DELETE'', ''/v1/transactions/{id}/access/{principalID}'', ''transaction_access_revoke'', False)]"

definition Current :: "endpoint list" where
  "Current = sort_key (\<lambda>e. (ep_path e, ep_method e))
     (map (\<lambda>(verb, path, operation, safe). \<lparr>ep_method = verb, ep_path = path, ep_operation = operation, ep_safe = safe\<rparr>) endpoint_rows)"

definition endpoint_json :: "endpoint \<Rightarrow> json" where
  "endpoint_json e = JObj [(''method'', JStr (ep_method e)), (''path'', JStr (ep_path e)), (''operation_id'', JStr (ep_operation e)),
     (''agent_safe'', JBool (ep_safe e))]"

definition contract_digest :: string where
  "contract_digest = Digest (json_map [(''version'', JStr ''1.1''), (''transport'', JStr ''unix-http''), (''endpoints'', JArr (map endpoint_json Current))])"

definition splitPath :: "string \<Rightarrow> string list" where
  "splitPath path0 =
     (let path = takeWhile (\<lambda>c. c \<noteq> CHR ''?'') (trim_space path0);
          inner = rev (dropWhile (\<lambda>c. c = CHR ''/'') (rev (dropWhile (\<lambda>c. c = CHR ''/'') path)))
      in if inner = [] then [] else split_on CHR ''/'' inner)"

definition placeholder :: "string \<Rightarrow> string option" where
  "placeholder part =
     (if part \<noteq> [] \<and> hd part = CHR ''{'' \<and> last part = CHR ''}'' \<and> length part \<ge> 2 then Some (butlast (tl part)) else None)"

fun match_parts :: "string list \<Rightarrow> string list \<Rightarrow> (string \<times> string) list option" where
  "match_parts [] [] = Some []"
| "match_parts (p # ps) (x # xs) =
     (case placeholder p of
        Some name \<Rightarrow> if name = [] \<or> x = [] then None else map_option ((#) (name, x)) (match_parts ps xs)
      | None \<Rightarrow> if p \<noteq> x then None else match_parts ps xs)"
| "match_parts _ _ = None"

fun match_endpoints :: "string \<Rightarrow> string list \<Rightarrow> endpoint list \<Rightarrow> (endpoint \<times> (string \<times> string) list) option" where
  "match_endpoints verb parts [] = None"
| "match_endpoints verb parts (e # es) =
     (if ep_method e \<noteq> verb then match_endpoints verb parts es
      else case match_parts (splitPath (ep_path e)) parts of
             None \<Rightarrow> match_endpoints verb parts es
           | Some params \<Rightarrow> Some (e, params))"

definition Match :: "string \<Rightarrow> string \<Rightarrow> (endpoint \<times> (string \<times> string) list) option" where
  "Match verb path = match_endpoints (to_upper (trim_space verb)) (splitPath path) Current"

definition param :: "string \<Rightarrow> (string \<times> string) list \<Rightarrow> string" where
  "param name params = (case map_of (rev params) name of None \<Rightarrow> [] | Some v \<Rightarrow> v)"

subsection \<open>Policies\<close>

record role =
  ro_name :: string
  ro_operations :: "string list"
  ro_scope :: string

record role_binding =
  rb_uid :: "32 word"
  rb_roles :: "string list"

record role_policy =
  rp_version :: string
  rp_default :: string
  rp_agents :: "string list"
  rp_roles :: "role list option"
  rp_bindings :: "role_binding list option"

definition elems :: "'a list option \<Rightarrow> 'a list" where
  "elems xs = (case xs of None \<Rightarrow> [] | Some ys \<Rightarrow> ys)"

lemma elems_simps [simp]: "elems None = []" "elems (Some xs) = xs"
  by (simp_all add: elems_def)

record role_decision =
  rd_allowed :: bool
  rd_uid :: "32 word"
  rd_operation :: string
  rd_roles :: "string list"
  rd_scope :: string
  rd_reason :: string
  rd_policy :: string

record authorizer =
  au_policy :: role_policy
  au_digest :: string
  au_ops :: "string \<Rightarrow> string list option"
  au_scopes :: "string \<Rightarrow> string option"
  au_bindings :: "32 word \<Rightarrow> string list option"
  au_agents :: "string list"
  au_all :: "string \<Rightarrow> endpoint option"

datatype policy_error =
    PolicyVersion
  | PolicyDefault
  | RoleName
  | RoleEmpty string
  | RoleScope string
  | UnknownOperation string string
  | RepeatedOperation string string
  | DuplicateBinding "32 word"
  | EmptyBinding "32 word"
  | UnknownRole string
  | RepeatedRole string
  | AgentScope string
  | AgentUnsafe string

definition role_json :: "role \<Rightarrow> json" where
  "role_json r = JObj ([(''name'', JStr (ro_name r)), (''operations'', json_strs (ro_operations r))] @ opt_field ''resource_scope'' (ro_scope r))"

definition binding_json :: "role_binding \<Rightarrow> json" where
  "binding_json b = JObj [(''uid'', JInt (uint (rb_uid b))), (''roles'', json_strs (rb_roles b))]"

definition json_list :: "('a \<Rightarrow> json) \<Rightarrow> 'a list option \<Rightarrow> json" where
  "json_list f xs = (case xs of None \<Rightarrow> JNull | Some ys \<Rightarrow> JArr (map f ys))"

definition policy_json :: "role_policy \<Rightarrow> json" where
  "policy_json p = JObj ([(''version'', JStr (rp_version p)), (''default'', JStr (rp_default p))]
     @ (if rp_agents p = [] then [] else [(''agent_roles'', json_strs (rp_agents p))])
     @ [(''roles'', json_list role_json (rp_roles p)), (''bindings'', json_list binding_json (rp_bindings p))])"

definition allOps :: "string \<Rightarrow> endpoint option" where
  "allOps = map_of (map (\<lambda>e. (ep_operation e, e)) (rev Current))"

definition all_ids :: "string list" where
  "all_ids = map ep_operation Current"

fun role_ops :: "string \<Rightarrow> string list \<Rightarrow> string list \<Rightarrow> policy_error + string list" where
  "role_ops name [] acc = Inr acc"
| "role_ops name (op0 # ops) acc =
     (let operation = trim_space op0
      in if operation = ''*'' then role_ops name ops (acc @ filter (\<lambda>i. i \<notin> set acc) all_ids)
         else if allOps operation = None then Inl (UnknownOperation name operation)
         else if operation \<in> set acc then Inl (RepeatedOperation name operation)
         else role_ops name ops (acc @ [operation]))"

definition compiled_scope :: "role \<Rightarrow> string" where
  "compiled_scope r = (if trim_space (ro_scope r) = [] then ''owned'' else trim_space (ro_scope r))"

fun compile_roles ::
  "role list \<Rightarrow> (string \<Rightarrow> string list option) \<Rightarrow> (string \<Rightarrow> string option)
     \<Rightarrow> policy_error + role list \<times> (string \<Rightarrow> string list option) \<times> (string \<Rightarrow> string option)" where
  "compile_roles [] ops scopes = Inr ([], ops, scopes)"
| "compile_roles (r # rs) ops scopes =
     (let name = trim_space (ro_name r); scope = compiled_scope r
      in if name = [] \<or> ops name \<noteq> None then Inl RoleName
         else if ro_operations r = [] then Inl (RoleEmpty name)
         else if scope \<noteq> ''owned'' \<and> scope \<noteq> ''all'' then Inl (RoleScope name)
         else try_bind (role_ops name (ro_operations r) []) (\<lambda>ids.
              try_bind (compile_roles rs (ops(name \<mapsto> ids)) (scopes(name \<mapsto> scope))) (\<lambda>(rs', maps).
              Inr (r\<lparr>ro_name := name, ro_scope := scope\<rparr> # rs', maps))))"

fun binding_roles :: "(string \<Rightarrow> string list option) \<Rightarrow> string list \<Rightarrow> string list \<Rightarrow> policy_error + unit" where
  "binding_roles ops [] seen = Inr ()"
| "binding_roles ops (r # rs) seen =
     (if ops r = None then Inl (UnknownRole r)
      else if r \<in> set seen then Inl (RepeatedRole r)
      else binding_roles ops rs (r # seen))"

fun compile_bindings ::
  "(string \<Rightarrow> string list option) \<Rightarrow> role_binding list \<Rightarrow> (32 word \<Rightarrow> string list option) \<Rightarrow> policy_error + (32 word \<Rightarrow> string list option)" where
  "compile_bindings ops [] bound = Inr bound"
| "compile_bindings ops (b # bs) bound =
     (if bound (rb_uid b) \<noteq> None then Inl (DuplicateBinding (rb_uid b))
      else if rb_roles b = [] then Inl (EmptyBinding (rb_uid b))
      else try_bind (binding_roles ops (rb_roles b) []) (\<lambda>_.
           compile_bindings ops bs (bound(rb_uid b \<mapsto> sort (rb_roles b)))))"

fun compile_agents ::
  "(string \<Rightarrow> string list option) \<Rightarrow> (string \<Rightarrow> string option) \<Rightarrow> string list \<Rightarrow> policy_error + unit" where
  "compile_agents ops scopes [] = Inr ()"
| "compile_agents ops scopes (r # rs) =
     (case ops r of
        None \<Rightarrow> Inl (UnknownRole r)
      | Some ids \<Rightarrow>
          if scopes r \<noteq> Some ''owned'' then Inl (AgentScope r)
          else if list_ex (\<lambda>i. case allOps i of None \<Rightarrow> True | Some e \<Rightarrow> \<not> ep_safe e) ids then Inl (AgentUnsafe r)
          else compile_agents ops scopes rs)"

definition Compile :: "role_policy \<Rightarrow> policy_error + authorizer" where
  "Compile p =
     (let default = (if rp_default p = [] then ''deny'' else rp_default p)
      in if rp_version p \<noteq> ''1'' then Inl PolicyVersion
         else if default \<noteq> ''deny'' then Inl PolicyDefault
         else try_bind (compile_roles (elems (rp_roles p)) (\<lambda>_. None) (\<lambda>_. None)) (\<lambda>(roles, ops, scopes).
              try_bind (compile_bindings ops (elems (rp_bindings p)) (\<lambda>_. None)) (\<lambda>bound.
              try_bind (compile_agents ops scopes (rp_agents p)) (\<lambda>_.
              let p' = p\<lparr>rp_default := default, rp_roles := map_option (\<lambda>_. roles) (rp_roles p)\<rparr>
              in Inr \<lparr>au_policy = p', au_digest = sha256_hex (marshal (policy_json p')), au_ops = ops, au_scopes = scopes,
                      au_bindings = bound, au_agents = rp_agents p, au_all = allOps\<rparr>))))"

definition Decide :: "authorizer \<Rightarrow> 32 word \<Rightarrow> string \<Rightarrow> role_decision" where
  "Decide a uid operation =
     (let d = \<lparr>rd_allowed = False, rd_uid = uid, rd_operation = operation, rd_roles = [], rd_scope = [], rd_reason = ''default_deny'',
               rd_policy = au_digest a\<rparr>;
          roles = elems (au_bindings a uid);
          granting = filter (\<lambda>r. operation \<in> set (elems (au_ops a r))) roles
      in if au_all a operation = None then d\<lparr>rd_reason := ''unknown_operation''\<rparr>
         else if roles = [] then d\<lparr>rd_reason := ''no_binding''\<rparr>
         else if granting = [] then d\<lparr>rd_roles := roles\<rparr>
         else d\<lparr>rd_roles := roles, rd_allowed := True, rd_reason := ''role_grant'',
                rd_scope := (if list_ex (\<lambda>r. au_scopes a r = Some ''all'') granting then ''all'' else ''owned'')\<rparr>)"

definition IsAgentRole :: "authorizer \<Rightarrow> string \<Rightarrow> bool" where
  "IsAgentRole a r = (r \<in> set (au_agents a))"

subsection \<open>What a compiled policy holds\<close>

abbreviation trimmed_name :: "role \<Rightarrow> string" where
  "trimmed_name r \<equiv> trim_space (ro_name r)"

definition role_grants :: "role \<Rightarrow> string \<Rightarrow> bool" where
  "role_grants r operation = (operation \<in> trim_space ` set (ro_operations r) \<or> ''*'' \<in> trim_space ` set (ro_operations r))"

lemma set_all_ids: "set all_ids = (\<lambda>(verb, path, operation, safe). operation) ` set endpoint_rows"
  by (force simp: all_ids_def Current_def)

lemma allOps_known: "allOps i = None \<longleftrightarrow> i \<notin> set all_ids"
  by (auto simp: allOps_def all_ids_def map_of_eq_None_iff image_image)

lemma star_unknown: "''*'' \<notin> set all_ids"
proof -
  have "list_all (\<lambda>(verb, path, operation, safe). operation \<noteq> ''*'') endpoint_rows" by code_simp
  then show ?thesis by (auto simp: set_all_ids list_all_iff)
qed

lemma role_ops_set:
  "role_ops name ops acc = Inr ids \<Longrightarrow> set acc \<subseteq> set all_ids \<Longrightarrow>
     set ids \<subseteq> set all_ids \<and> set ids = set acc \<union> {i \<in> set all_ids. i \<in> trim_space ` set ops \<or> ''*'' \<in> trim_space ` set ops}"
proof (induction name ops acc rule: role_ops.induct)
  case (2 name op0 ops acc)
  show ?case
  proof (cases "trim_space op0 = ''*''")
    case True
    have "set (acc @ filter (\<lambda>i. i \<notin> set acc) all_ids) = set all_ids" using "2.prems"(2) by auto
    with 2 True show ?thesis by auto
  next
    case False
    with "2.prems" have rec: "role_ops name ops (acc @ [trim_space op0]) = Inr ids" and known: "trim_space op0 \<in> set all_ids"
        and new: "trim_space op0 \<notin> set acc"
      by (auto simp: Let_def allOps_known split: if_splits)
    have "allOps (trim_space op0) \<noteq> None" using known by (simp add: allOps_known)
    from "2.IH"(2) [OF refl False this new rec] known "2.prems"(2) False show ?thesis by auto
  qed
qed auto

lemma compile_roles_maps:
  "compile_roles rs ops scopes = Inr (rs', ops', scopes') \<Longrightarrow>
     (\<forall>r \<in> set rs. ops (trimmed_name r) = None \<and> (\<exists>ids. ops' (trimmed_name r) = Some ids
        \<and> set ids = {i \<in> set all_ids. role_grants r i} \<and> scopes' (trimmed_name r) = Some (compiled_scope r)))
     \<and> (\<forall>n. n \<notin> trimmed_name ` set rs \<longrightarrow> ops' n = ops n \<and> scopes' n = scopes n)"
proof (induction rs ops scopes arbitrary: rs' ops' scopes' rule: compile_roles.induct)
  case (2 r rs ops scopes)
  let ?n = "trimmed_name r"
  from "2.prems" obtain ids rs1 where guard: "\<not> (?n = [] \<or> ops ?n \<noteq> None)" "ro_operations r \<noteq> []"
      "\<not> (compiled_scope r \<noteq> ''owned'' \<and> compiled_scope r \<noteq> ''all'')"
      and ids: "role_ops ?n (ro_operations r) [] = Inr ids"
      and rest: "compile_roles rs (ops(?n \<mapsto> ids)) (scopes(?n \<mapsto> compiled_scope r)) = Inr (rs1, ops', scopes')"
    by (auto simp: Let_def try_bind_Inr split: if_splits)
  note IH = "2.IH" [OF refl refl guard rest]
  have none: "?n \<notin> trimmed_name ` set rs" using IH by (auto split: if_splits)
  have "set ids = {i \<in> set all_ids. role_grants r i}"
    using role_ops_set [OF ids] by (auto simp: role_grants_def)
  with IH none guard(1) show ?case by (auto split: if_splits)
qed auto

lemma compile_bindings_map:
  "compile_bindings ops bs bound = Inr bound' \<Longrightarrow>
     (\<forall>b \<in> set bs. bound (rb_uid b) = None \<and> bound' (rb_uid b) = Some (sort (rb_roles b)) \<and> rb_roles b \<noteq> [])
     \<and> (\<forall>u. u \<notin> rb_uid ` set bs \<longrightarrow> bound' u = bound u)"
proof (induction ops bs bound arbitrary: bound' rule: compile_bindings.induct)
  case (2 ops b bs bound)
  then show ?case by (fastforce simp: try_bind_Inr split: if_splits)
qed auto

lemma compile_agents_safe:
  "compile_agents ops scopes rs = Inr u \<Longrightarrow> r \<in> set rs \<Longrightarrow>
     scopes r = Some ''owned'' \<and> (\<exists>ids. ops r = Some ids \<and> (\<forall>i \<in> set ids. \<exists>e. allOps i = Some e \<and> ep_safe e))"
proof (induction rs)
  case (Cons x rs)
  then have "scopes x = Some ''owned'' \<and> (\<exists>ids. ops x = Some ids \<and> (\<forall>i \<in> set ids. \<exists>e. allOps i = Some e \<and> ep_safe e))
      \<and> compile_agents ops scopes rs = Inr u"
    by (auto simp: list_ex_iff split: option.splits if_splits)
  with Cons show ?case by auto
qed simp

lemma Compile_Inr:
  assumes "Compile p = Inr a"
  shows "au_all a = allOps \<and> rp_version p = ''1''
     \<and> (\<forall>r \<in> set (elems (rp_roles p)). \<exists>ids. au_ops a (trimmed_name r) = Some ids
          \<and> set ids = {i \<in> set all_ids. role_grants r i} \<and> au_scopes a (trimmed_name r) = Some (compiled_scope r))
     \<and> (\<forall>n. n \<notin> trimmed_name ` set (elems (rp_roles p)) \<longrightarrow> au_ops a n = None)
     \<and> (\<forall>b \<in> set (elems (rp_bindings p)). au_bindings a (rb_uid b) = Some (sort (rb_roles b)) \<and> rb_roles b \<noteq> [])
     \<and> (\<forall>u. u \<notin> rb_uid ` set (elems (rp_bindings p)) \<longrightarrow> au_bindings a u = None)
     \<and> (\<forall>r \<in> set (au_agents a). au_scopes a r = Some ''owned'' \<and> (\<exists>ids. au_ops a r = Some ids \<and> (\<forall>i \<in> set ids. \<exists>e. allOps i = Some e \<and> ep_safe e)))"
proof -
  obtain roles ops scopes bound where r: "compile_roles (elems (rp_roles p)) (\<lambda>_. None) (\<lambda>_. None) = Inr (roles, ops, scopes)"
      and b: "compile_bindings ops (elems (rp_bindings p)) (\<lambda>_. None) = Inr bound"
      and g: "compile_agents ops scopes (rp_agents p) = Inr ()"
      and a: "au_ops a = ops" "au_scopes a = scopes" "au_bindings a = bound" "au_agents a = rp_agents p" "au_all a = allOps" "rp_version p = ''1''"
    using assms by (auto simp: Compile_def Let_def try_bind_Inr split: if_splits)
  show ?thesis
    unfolding a using compile_roles_maps [OF r] compile_bindings_map [OF b] compile_agents_safe [OF g] by (intro conjI) (auto 0 3)
qed

subsection \<open>Decisions follow the policy\<close>

text \<open>The role, bound to the user, that grants the operation.\<close>

definition grants_to :: "role_policy \<Rightarrow> 32 word \<Rightarrow> string \<Rightarrow> role \<Rightarrow> bool" where
  "grants_to p uid operation r =
     (r \<in> set (elems (rp_roles p)) \<and> role_grants r operation \<and> operation \<in> set all_ids
      \<and> list_ex (\<lambda>b. rb_uid b = uid \<and> trimmed_name r \<in> set (rb_roles b)) (elems (rp_bindings p)))"

lemma Decide_granting:
  assumes "Compile p = Inr a"
  shows "(\<exists>n \<in> set (elems (au_bindings a uid)). operation \<in> set (elems (au_ops a n)) \<and> Q (au_scopes a n)) \<longleftrightarrow>
     (\<exists>r. grants_to p uid operation r \<and> Q (Some (compiled_scope r)))"
proof -
  note c = Compile_Inr [OF assms]
  have pick: "set (elems (au_bindings a (rb_uid b))) = set (rb_roles b)" if "b \<in> set (elems (rp_bindings p))" for b
    using c that by simp
  have "uid \<notin> rb_uid ` set (elems (rp_bindings p)) \<Longrightarrow> au_bindings a uid = None" using c by simp
  then have none: "au_bindings a uid = None" if "\<not> (\<exists>b \<in> set (elems (rp_bindings p)). rb_uid b = uid)"
    using that by auto
  have bound: "n \<in> set (elems (au_bindings a uid)) \<longleftrightarrow> (\<exists>b \<in> set (elems (rp_bindings p)). rb_uid b = uid \<and> n \<in> set (rb_roles b))" for n
    using pick none by (metis elems_simps(1) empty_iff list.set(1))
  have ops: "operation \<in> set (elems (au_ops a n)) \<and> Q (au_scopes a n) \<longleftrightarrow>
      (\<exists>r \<in> set (elems (rp_roles p)). trimmed_name r = n \<and> operation \<in> set all_ids \<and> role_grants r operation \<and> Q (Some (compiled_scope r)))" for n
  proof (cases "n \<in> trimmed_name ` set (elems (rp_roles p))")
    case True
    then obtain r where r: "r \<in> set (elems (rp_roles p))" "n = trimmed_name r" by blast
    obtain ids where ids: "au_ops a n = Some ids" "set ids = {i \<in> set all_ids. role_grants r i}" "au_scopes a n = Some (compiled_scope r)"
      using c r by blast
    have same: "(operation \<in> set ids \<longleftrightarrow> operation \<in> set all_ids \<and> role_grants r' operation) \<and> compiled_scope r' = compiled_scope r"
      if h: "r' \<in> set (elems (rp_roles p))" "trimmed_name r' = n" for r'
    proof -
      obtain ids' where "au_ops a n = Some ids'" "set ids' = {i \<in> set all_ids. role_grants r' i}" "au_scopes a n = Some (compiled_scope r')"
        using c h by blast
      then show ?thesis using ids by auto
    qed
    show ?thesis unfolding ids(1,3) elems_simps using same r by metis
  next
    case False
    then have none: "au_ops a n = None" using c by blast
    show ?thesis unfolding none using False by auto
  qed
  show ?thesis
    unfolding Bex_def [of "set (elems (au_bindings a uid))"] bound ops grants_to_def list_ex_iff by blast
qed

text \<open>C13. An operation is allowed exactly when the policy has a role, bound to the user, that lists the operation (or the
  star) and the operation is one of the contract; the scope is \<open>all\<close> exactly when one such role has it.\<close>

theorem decide_follows_policy:
  assumes "Compile p = Inr a"
  shows "(rd_allowed (Decide a uid operation) \<longleftrightarrow> (\<exists>r. grants_to p uid operation r))
     \<and> (rd_scope (Decide a uid operation) = ''all'' \<longleftrightarrow> (\<exists>r. grants_to p uid operation r \<and> compiled_scope r = ''all''))"
proof -
  let ?g = "filter (\<lambda>r. operation \<in> set (elems (au_ops a r))) (elems (au_bindings a uid))"
  have ex: "?g \<noteq> [] \<longleftrightarrow> (\<exists>r. grants_to p uid operation r)"
    using Decide_granting [OF assms, of uid operation "\<lambda>_. True"] by (auto simp: filter_empty_conv)
  have all: "list_ex (\<lambda>r. au_scopes a r = Some ''all'') ?g \<longleftrightarrow> (\<exists>r. grants_to p uid operation r \<and> compiled_scope r = ''all'')"
    using Decide_granting [OF assms, of uid operation "\<lambda>s. s = Some ''all''"] by (auto simp: list_ex_iff)
  have known: "au_all a operation = None \<Longrightarrow> \<not> (\<exists>r. grants_to p uid operation r)"
    using Compile_Inr [OF assms] by (auto simp: allOps_known grants_to_def)
  show ?thesis
    unfolding ex [symmetric] all [symmetric] using known unfolding ex [symmetric] by (auto simp: Decide_def Let_def)
qed

text \<open>Agents stay within the safe operations: when every role bound to a user is an agent role, whatever is allowed to it
  is an agent-safe operation of the contract, and only on its own transactions.\<close>

theorem agent_roles_are_safe:
  assumes "Compile p = Inr a" and "rd_allowed (Decide a uid operation)"
    and "list_all (IsAgentRole a) (rd_roles (Decide a uid operation))"
  shows "rd_scope (Decide a uid operation) = ''owned'' \<and> (\<exists>e \<in> set Current. ep_operation e = operation \<and> ep_safe e)"
proof -
  let ?g = "filter (\<lambda>r. operation \<in> set (elems (au_ops a r))) (elems (au_bindings a uid))"
  have d: "au_all a operation \<noteq> None" "?g \<noteq> []" "rd_roles (Decide a uid operation) = elems (au_bindings a uid)"
      "rd_scope (Decide a uid operation) = (if list_ex (\<lambda>r. au_scopes a r = Some ''all'') ?g then ''all'' else ''owned'')"
    using assms(2) by (auto simp: Decide_def Let_def split: if_splits)
  then obtain n where n: "n \<in> set (elems (au_bindings a uid))" "operation \<in> set (elems (au_ops a n))"
    by (auto simp: filter_empty_conv)
  have agent: "r \<in> set (au_agents a)" if "r \<in> set (elems (au_bindings a uid))" for r
    using assms(3) that d(3) by (auto simp: list_all_iff IsAgentRole_def)
  note c = Compile_Inr [OF assms(1)]
  obtain e where "allOps operation = Some e" "ep_safe e" using c agent [OF n(1)] n(2) by force
  moreover from this(1) have "e \<in> set Current \<and> ep_operation e = operation" by (auto simp: allOps_def dest!: map_of_SomeD)
  moreover have "\<not> list_ex (\<lambda>r. au_scopes a r = Some ''all'') ?g" using c agent by (fastforce simp: list_ex_iff)
  ultimately show ?thesis using d(4) by auto
qed

subsection \<open>A small policy\<close>

definition policy0 :: role_policy where
  "policy0 = \<lparr>rp_version = ''1'', rp_default = [], rp_agents = [''agent''],
     rp_roles = Some [\<lparr>ro_name = ''admin'', ro_operations = [''*''], ro_scope = ''all''\<rparr>, \<lparr>ro_name = '' agent'', ro_operations = [''health''], ro_scope = []\<rparr>],
     rp_bindings = Some [\<lparr>rb_uid = 7, rb_roles = [''admin'']\<rparr>, \<lparr>rb_uid = 8, rb_roles = [''agent'']\<rparr>]\<rparr>"

lemma trims0: "trim_space ''admin'' = ''admin''" "trim_space '' agent'' = ''agent''" "trim_space ''*'' = ''*''" "trim_space ''health'' = ''health''"
  "trim_space ''all'' = ''all''" "trim_space [] = []"
  by code_simp+

lemma health_safe: "\<exists>e. allOps ''health'' = Some e \<and> ep_safe e"
proof -
  have "''health'' \<in> set all_ids" by (simp add: set_all_ids endpoint_rows_def)
  then obtain e where e: "allOps ''health'' = Some e" using allOps_known by blast
  then have "e \<in> set Current" "ep_operation e = ''health''" by (auto simp: allOps_def dest!: map_of_SomeD)
  moreover have "list_all (\<lambda>(verb, path, operation, safe). operation = ''health'' \<longrightarrow> safe) endpoint_rows" by code_simp
  ultimately show ?thesis using e by (auto simp: Current_def list_all_iff)
qed

lemma policy0_compiles: "\<exists>a. Compile policy0 = Inr a \<and> au_agents a = [''agent'']"
proof -
  obtain e where e: "allOps ''health'' = Some e" "ep_safe e" using health_safe by blast
  have agent: "role_ops ''agent'' [''health''] [] = Inr [''health'']" by (simp add: trims0 e)
  have admin: "role_ops ''admin'' [''*''] [] = Inr all_ids" by (simp add: trims0)
  have scopes: "compiled_scope \<lparr>ro_name = ''admin'', ro_operations = [''*''], ro_scope = ''all''\<rparr> = ''all''"
      "compiled_scope \<lparr>ro_name = '' agent'', ro_operations = [''health''], ro_scope = []\<rparr> = ''owned''"
    by (simp_all add: compiled_scope_def trims0)
  have roles: "\<exists>rs. compile_roles (elems (rp_roles policy0)) (\<lambda>_. None) (\<lambda>_. None)
      = Inr (rs, [''admin'' \<mapsto> all_ids, ''agent'' \<mapsto> [''health'']], [''admin'' \<mapsto> ''all'', ''agent'' \<mapsto> ''owned''])"
    unfolding policy0_def by (simp add: trims0(1,2) admin agent scopes Let_def del: role_ops.simps)
  have bound: "\<exists>m. compile_bindings [''admin'' \<mapsto> all_ids, ''agent'' \<mapsto> [''health'']] (elems (rp_bindings policy0)) (\<lambda>_. None) = Inr m"
    by (simp add: policy0_def)
  have agents: "compile_agents [''admin'' \<mapsto> all_ids, ''agent'' \<mapsto> [''health'']] [''admin'' \<mapsto> ''all'', ''agent'' \<mapsto> ''owned''] [''agent''] = Inr ()"
    by (simp add: e)
  have "rp_version policy0 = ''1''" "rp_default policy0 = []" "rp_agents policy0 = [''agent'']" by (simp_all add: policy0_def)
  then show ?thesis using roles bound agents by (auto simp: Compile_def Let_def)
qed

lemma policy0_grants: "grants_to policy0 7 ''transaction_commit'' \<lparr>ro_name = ''admin'', ro_operations = [''*''], ro_scope = ''all''\<rparr>"
  "grants_to policy0 8 ''health'' \<lparr>ro_name = '' agent'', ro_operations = [''health''], ro_scope = []\<rparr>"
proof -
  have known: "''transaction_commit'' \<in> set all_ids" "''health'' \<in> set all_ids" by (simp_all add: set_all_ids endpoint_rows_def)
  show "grants_to policy0 7 ''transaction_commit'' \<lparr>ro_name = ''admin'', ro_operations = [''*''], ro_scope = ''all''\<rparr>"
    "grants_to policy0 8 ''health'' \<lparr>ro_name = '' agent'', ro_operations = [''health''], ro_scope = []\<rparr>"
    using known trims0 by (simp_all add: grants_to_def policy0_def role_grants_def)
qed

theorem decide_follows_policy_witness:
  "\<exists>a. Compile policy0 = Inr a \<and> rd_allowed (Decide a 7 ''transaction_commit'') \<and> rd_scope (Decide a 7 ''transaction_commit'') = ''all''"
proof -
  obtain a where a: "Compile policy0 = Inr a" using policy0_compiles by blast
  have "compiled_scope \<lparr>ro_name = ''admin'', ro_operations = [''*''], ro_scope = ''all''\<rparr> = ''all''" by code_simp
  then show ?thesis using decide_follows_policy [OF a, of 7 "''transaction_commit''"] policy0_grants(1) a by blast
qed

theorem agent_roles_are_safe_witness:
  "\<exists>a. Compile policy0 = Inr a \<and> rd_allowed (Decide a 8 ''health'') \<and> (\<exists>e \<in> set Current. ep_operation e = ''health'' \<and> ep_safe e)"
proof -
  obtain a where a: "Compile policy0 = Inr a" "au_agents a = [''agent'']" using policy0_compiles by blast
  obtain n where n: "n \<in> set (elems (au_bindings a 8))" "''health'' \<in> set (elems (au_ops a n))"
    using Decide_granting [OF a(1), of 8 "''health''" "\<lambda>_. True"] policy0_grants(2) by auto
  have known: "au_all a ''health'' \<noteq> None" using Compile_Inr [OF a(1)] by (simp add: allOps_known set_all_ids endpoint_rows_def)
  have some: "filter (\<lambda>r. ''health'' \<in> set (elems (au_ops a r))) (elems (au_bindings a 8)) \<noteq> []" using n by (auto simp: filter_empty_conv)
  have bound: "elems (au_bindings a 8) = [''agent'']" using Compile_Inr [OF a(1)] by (simp add: policy0_def)
  have allowed: "rd_allowed (Decide a 8 ''health'')" using known some bound by (simp add: Decide_def Let_def)
  have "list_all (IsAgentRole a) (rd_roles (Decide a 8 ''health''))"
    using known some bound a(2) by (simp add: Decide_def Let_def IsAgentRole_def)
  from agent_roles_are_safe [OF a(1) allowed this] allowed a(1) show ?thesis by blast
qed

end
