(* ===== verification/ApiGuards.thy ===== *)
theory ApiGuards
  imports Maintenance Authorization LedgerControlProperties OperatorApproval
begin

text \<open>
  The guards around the API handlers (\<open>internal/api/server.go\<close>, \<open>authorization.go\<close>,
  \<open>idempotency.go\<close>, \<open>operator_audit.go\<close>): peer identity, authorization, draining, maintenance mode and
  idempotent requests, in the order \<open>Handler\<close> composes them.  The rate limiter and the storage guard
  are switched off here, as in a server without their configuration.  The router behind the guards is a
  parameter (\<open>handler\<close>), as is the decoding of a capability header.  The body of a refusal is reduced
  to its error code; response headers other than the content type and \<open>Idempotency-Replayed\<close> are left out.
\<close>

subsection \<open>Requests, responses and the state behind the server\<close>

record peer_identity =
  pi_uid :: "32 word"
  pi_gid :: "32 word"
  pi_pid :: int
  pi_available :: bool

record http_request =
  rq_method :: string
  rq_path :: string
  rq_peer :: "peer_identity option"
  rq_capability :: string
  rq_key :: string
  rq_body :: string
  rq_id :: string

record http_response =
  rs_status :: int
  rs_type :: string
  rs_body :: string
  rs_replayed :: bool

record world =
  wd_ledger :: ledger
  wd_control :: control
  wd_trail :: trail
  wd_drain :: drain_state
  wd_maintenance :: maintenance_manager

type_synonym handler = "http_request \<Rightarrow> role_decision option \<Rightarrow> world \<Rightarrow> http_response \<times> world"

record server =
  sv_ledger :: bool
  sv_audit :: bool
  sv_drain :: bool
  sv_maintenance :: bool
  sv_require_peer :: bool
  sv_uids :: "32 word list"
  sv_authorizer :: "authorizer option"
  sv_keyring :: "keyring option"

text \<open>What one request reads from outside: the clock and, per call, the randomness and failures of the storage.\<close>

record guard_env =
  ge_now :: gotime
  ge_db :: "nat \<Rightarrow> env"
  ge_trail :: "nat \<Rightarrow> trail_env"
  ge_write :: bool

definition FromContext :: "http_request \<Rightarrow> peer_identity option" where
  "FromContext r = (case rq_peer r of None \<Rightarrow> None | Some p \<Rightarrow> if pi_available p then Some p else None)"

definition Principal :: "http_request \<Rightarrow> string" where
  "Principal r = (case FromContext r of None \<Rightarrow> ''local:unknown'' | Some p \<Rightarrow> ''uid:'' @ show_nat (unat (pi_uid p)))"

definition refusal :: "int \<Rightarrow> string \<Rightarrow> http_response" where
  "refusal status code = \<lparr>rs_status = status, rs_type = ''application/json'', rs_body = marshal (JObj [(''error'', JStr code)]), rs_replayed = False\<rparr>"

definition safe_method :: "string \<Rightarrow> bool" where
  "safe_method verb = (verb = ''GET'' \<or> verb = ''HEAD'' \<or> verb = ''OPTIONS'')"

subsection \<open>Audit records of refusals\<close>

definition auditActor :: "http_request \<Rightarrow> trail_actor" where
  "auditActor r = (case FromContext r of
      None \<Rightarrow> \<lparr>ta_principal = Principal r, ta_uid = 0, ta_source = ''local''\<rparr>
    | Some p \<Rightarrow> \<lparr>ta_principal = Principal r, ta_uid = pi_uid p, ta_source = ''unix-peer''\<rparr>)"

definition auditTargetForRequest :: "http_request \<Rightarrow> trail_target" where
  "auditTargetForRequest r =
     (case Match (rq_method r) (rq_path r) of
        None \<Rightarrow> \<lparr>tt_type = ''api_path'', tt_id = rq_path r\<rparr>
      | Some (e, params) \<Rightarrow>
          if param ''id'' params \<noteq> [] then \<lparr>tt_type = ''transaction'', tt_id = param ''id'' params\<rparr>
          else \<lparr>tt_type = ''api_operation'', tt_id = ep_operation e\<rparr>)"

definition audit_input :: "http_request \<Rightarrow> string \<Rightarrow> string \<Rightarrow> trail_target \<Rightarrow> string \<Rightarrow> trail_input" where
  "audit_input r tid kind target reason =
     \<lparr>ti_operation = rq_id r, ti_tx = tid, ti_actor = auditActor r,
      ti_context = \<lparr>xc_component = ''api'', xc_request = rq_id r, xc_method = rq_method r, xc_path = rq_path r\<rparr>,
      ti_type = kind, ti_target = target, ti_result = ''denied'', ti_policy = ''deny'', ti_metadata = [(''reason'', reason)]\<rparr>"

definition auditEvent :: "server \<Rightarrow> trail_env \<Rightarrow> trail_input \<Rightarrow> world \<Rightarrow> bool \<times> world" where
  "auditEvent sv te input w =
     (if \<not> sv_audit sv then (True, w)
      else let (result, t) = Record te input (wd_trail w) in (is_ok result, w\<lparr>wd_trail := t\<rparr>))"

definition deny :: "server \<Rightarrow> trail_env \<Rightarrow> trail_input \<Rightarrow> http_response \<Rightarrow> world \<Rightarrow> http_response \<times> world" where
  "deny sv te input response w =
     (let (recorded, w') = auditEvent sv te input w
      in (if recorded then response else refusal 503 ''operator_audit_failed'', w'))"

subsection \<open>Peer identity\<close>

definition peerGuard :: "server \<Rightarrow> guard_env \<Rightarrow> (http_request \<Rightarrow> world \<Rightarrow> http_response \<times> world) \<Rightarrow> http_request \<Rightarrow> world \<Rightarrow> http_response \<times> world" where
  "peerGuard sv ge continue r w =
     (if \<not> sv_require_peer sv then continue r w
      else case FromContext r of
             None \<Rightarrow> deny sv (ge_trail ge 0) (audit_input r [] ''peer_auth.denied'' (auditTargetForRequest r) ''peer_credentials_unavailable'')
                       (refusal 403 ''peer_credentials_unavailable'') w
           | Some p \<Rightarrow>
               if pi_uid p \<notin> set (sv_uids sv)
               then deny sv (ge_trail ge 0) (audit_input r [] ''peer_auth.denied'' (auditTargetForRequest r) ''peer_not_authorized'')
                      (refusal 403 ''peer_not_authorized'') w
               else continue r w)"

subsection \<open>Authorization\<close>

definition transactionAccessFor :: "endpoint \<Rightarrow> string" where
  "transactionAccessFor e =
     (if ep_operation e \<in> {''transaction_access_list'', ''transaction_access_grant'', ''transaction_access_revoke'', ''approval_material'',
           ''transaction_approve'', ''transaction_commit'', ''transaction_recover'', ''transaction_abort''} then AccessAdmin
      else if ep_method e = ''GET'' \<or> ep_method e = ''HEAD'' then AccessRead
      else AccessOperate)"

definition recordAuthorization :: "server \<Rightarrow> env \<Rightarrow> decision_input \<Rightarrow> world \<Rightarrow> world" where
  "recordAuthorization sv en di w =
     (if sv_ledger sv then w\<lparr>wd_control := snd (RecordAuthorizationDecision en di (wd_control w))\<rparr> else w)"

definition decision_of :: "http_request \<Rightarrow> string \<Rightarrow> string \<Rightarrow> bool \<Rightarrow> string \<Rightarrow> string \<Rightarrow> string \<Rightarrow> string list \<Rightarrow> string \<Rightarrow> decision_input" where
  "decision_of r operation resource allowed source reason policy roles cap =
     \<lparr>di_principal = Principal r, di_operation = operation, di_resource = resource, di_allowed = allowed, di_source = source,
      di_reason = reason, di_policy = policy, di_roles = roles, di_capability = cap, di_request = rq_id r\<rparr>"

text \<open>The use of a capability: the token when it was accepted, and the state after the attempt.\<close>

definition use_capability ::
  "ed25519 \<Rightarrow> keyring \<Rightarrow> (string \<Rightarrow> capability option) \<Rightarrow> guard_env \<Rightarrow> http_request \<Rightarrow> peer_identity \<Rightarrow> string \<Rightarrow> string \<Rightarrow> world
     \<Rightarrow> capability option \<times> world" where
  "use_capability ed ring decode ge r p operation resource w =
     (case decode (rq_capability r) of
        None \<Rightarrow> (None, w)
      | Some t \<Rightarrow>
          (case Verify_capability ed ring t (pi_uid p) operation resource (ge_now ge) of
             Inl _ \<Rightarrow> (None, w)
           | Inr _ \<Rightarrow>
               (case ConsumeAuthorizationCapability (ge_db ge 1) (cp_id t) (Principal r) operation resource (capability_digest t) (wd_control w) of
                  (Inl _, c) \<Rightarrow> (None, w\<lparr>wd_control := c\<rparr>)
                | (Inr _, c) \<Rightarrow> (Some t, w\<lparr>wd_control := c\<rparr>))))"

definition resource_allowed :: "server \<Rightarrow> http_request \<Rightarrow> endpoint \<Rightarrow> string \<Rightarrow> role_decision \<Rightarrow> ledger \<Rightarrow> bool" where
  "resource_allowed sv r e resource d l =
     (resource = [] \<or> rd_scope d = ''all''
      \<or> (rd_allowed d \<and> sv_ledger sv \<and> CheckTransactionAccess resource (Principal r) (transactionAccessFor e) l = Inr True))"

definition authorizationGuard ::
  "ed25519 \<Rightarrow> (string \<Rightarrow> capability option) \<Rightarrow> server \<Rightarrow> guard_env \<Rightarrow> (http_request \<Rightarrow> role_decision option \<Rightarrow> world \<Rightarrow> http_response \<times> world)
     \<Rightarrow> http_request \<Rightarrow> world \<Rightarrow> http_response \<times> world" where
  "authorizationGuard ed decode sv ge continue r w =
     (case sv_authorizer sv of
        None \<Rightarrow> continue r None w
      | Some a \<Rightarrow>
     (case Match (rq_method r) (rq_path r) of
        None \<Rightarrow> continue r None w
      | Some (e, params) \<Rightarrow>
     (case FromContext r of
        None \<Rightarrow>
          (let w1 = recordAuthorization sv (ge_db ge 0)
                 (decision_of r (ep_operation e) [] False ''rbac'' ''peer_identity_unavailable'' (au_digest a) [] []) w
           in deny sv (ge_trail ge 1) (audit_input r [] ''authorization.denied'' \<lparr>tt_type = ''api_operation'', tt_id = ep_operation e\<rparr> ''peer_identity_unavailable'')
                (refusal 403 ''authorization_denied'') w1)
      | Some p \<Rightarrow>
          (let resource = param ''id'' params; d = Decide a (pi_uid p) (ep_operation e);
               allowed = resource_allowed sv r e resource d (wd_ledger w);
               row = (\<lambda>ok source reason cap. decision_of r (ep_operation e) resource ok source reason (rd_policy d) (rd_roles d) cap)
           in if rd_allowed d \<and> allowed
              then continue r (Some d) (recordAuthorization sv (ge_db ge 0)
                     (row True ''rbac'' (if resource \<noteq> [] then ''role_grant_'' @ rd_scope d else rd_reason d) []) w)
              else if \<not> ep_safe e \<and> rq_capability r \<noteq> [] \<and> sv_keyring sv \<noteq> None \<and> sv_ledger sv
              then (case use_capability ed (the (sv_keyring sv)) decode ge r p (ep_operation e) resource w of
                      (Some t, w1) \<Rightarrow>
                        continue (r\<lparr>rq_capability := []\<rparr>) (Some (d\<lparr>rd_allowed := True, rd_scope := ''capability''\<rparr>))
                          (recordAuthorization sv (ge_db ge 0) (row True ''capability'' ''signed_capability'' (capability_digest t)) w1)
                    | (None, w1) \<Rightarrow>
                        deny sv (ge_trail ge 1) (audit_input r resource ''capability.denied'' (auditTargetForRequest r) ''capability_rejected'')
                          (refusal 403 ''authorization_denied'')
                          (recordAuthorization sv (ge_db ge 0) (row False ''capability'' ''capability_rejected'' []) w1))
              else (let reason = (if rd_allowed d \<and> \<not> allowed then ''resource_scope_denied'' else rd_reason d);
                        w1 = recordAuthorization sv (ge_db ge 0) (row False ''rbac'' reason []) w
                    in deny sv (ge_trail ge 1) (audit_input r resource ''authorization.denied'' (auditTargetForRequest r) reason)
                         (if rd_allowed d \<and> \<not> allowed then refusal 404 ''transaction_not_found'' else refusal 403 ''authorization_denied'') w1)))))"

subsection \<open>Draining and maintenance\<close>

definition drainGuard :: "server \<Rightarrow> guard_env \<Rightarrow> (http_request \<Rightarrow> world \<Rightarrow> http_response \<times> world) \<Rightarrow> http_request \<Rightarrow> world \<Rightarrow> http_response \<times> world" where
  "drainGuard sv ge continue r w =
     (if safe_method (rq_method r) \<or> \<not> sv_drain sv then continue r w
      else case BeginMutation (wd_drain w) of
             (None, _) \<Rightarrow> deny sv (ge_trail ge 2) (audit_input r [] ''drain.denied'' (auditTargetForRequest r) ''daemon_draining'')
                            (refusal 503 ''daemon_draining'') w
           | (Some i, d) \<Rightarrow>
               (let (response, w1) = continue r (w\<lparr>wd_drain := d\<rparr>) in (response, w1\<lparr>wd_drain := release i (wd_drain w1)\<rparr>)))"

definition maintenanceGuard :: "server \<Rightarrow> guard_env \<Rightarrow> (http_request \<Rightarrow> world \<Rightarrow> http_response \<times> world) \<Rightarrow> http_request \<Rightarrow> world \<Rightarrow> http_response \<times> world" where
  "maintenanceGuard sv ge continue r w =
     (if safe_method (rq_method r) \<or> \<not> sv_maintenance sv then continue r w
      else case MutationsAllowed (ge_write ge) (ge_now ge) (wd_maintenance w) of
             (Inl _, m) \<Rightarrow> deny sv (ge_trail ge 3) (audit_input r [] ''maintenance.denied'' (auditTargetForRequest r) ''maintenance_state_failed'')
                              (refusal 503 ''maintenance_state_failed'') (w\<lparr>wd_maintenance := m\<rparr>)
           | (Inr (False, _), m) \<Rightarrow>
               deny sv (ge_trail ge 3) (audit_input r [] ''maintenance.denied'' (auditTargetForRequest r) ''maintenance_mode'')
                 (refusal 503 ''maintenance_mode'') (w\<lparr>wd_maintenance := m\<rparr>)
           | (Inr (True, _), m) \<Rightarrow> continue r (w\<lparr>wd_maintenance := m\<rparr>))"

subsection \<open>Idempotent requests\<close>

definition requestSHA256 :: "string \<Rightarrow> string \<Rightarrow> string \<Rightarrow> string" where
  "requestSHA256 verb path body = sha256_hex (verb @ [CHR 0x00] @ path @ [CHR 0x00] @ body)"

definition digestText :: "string \<Rightarrow> string" where
  "digestText v = sha256_hex v"

definition key_char :: "char \<Rightarrow> bool" where
  "key_char c = (let n = of_char c :: nat in (48 \<le> n \<and> n \<le> 57) \<or> (65 \<le> n \<and> n \<le> 90) \<or> (97 \<le> n \<and> n \<le> 122) \<or> c \<in> set ''._:-'')"

definition idempotencyKeyPattern :: "string \<Rightarrow> bool" where
  "idempotencyKeyPattern key = (8 \<le> length key \<and> length key \<le> 128 \<and> list_all key_char key)"

definition mebibyte :: nat where "mebibyte = 1048576"

definition api_access :: "env \<Rightarrow> http_request \<Rightarrow> int \<Rightarrow> string \<Rightarrow> string \<Rightarrow> world \<Rightarrow> world" where
  "api_access en r status keyDigest requestDigest w =
     w\<lparr>wd_control := snd (RecordAPIAccess en (Principal r) (rq_method r) (rq_path r) status keyDigest requestDigest (rq_id r) (wd_control w))\<rparr>"

text \<open>
  The response of the handler is captured; a body over the limit is cut off where the write that exceeds
  it begins, which for a handler that writes its body at once is an empty body.
\<close>

definition captured :: "http_response \<Rightarrow> http_response" where
  "captured p = (if length (rs_body p) > mebibyte then p\<lparr>rs_body := []\<rparr> else p)"

definition idempotencyGuard ::
  "server \<Rightarrow> guard_env \<Rightarrow> (http_request \<Rightarrow> world \<Rightarrow> http_response \<times> world) \<Rightarrow> http_request \<Rightarrow> world \<Rightarrow> http_response \<times> world" where
  "idempotencyGuard sv ge continue r w =
     (if safe_method (rq_method r) \<or> \<not> sv_ledger sv then continue r w
      else if length (rq_body r) > mebibyte then (refusal 413 ''request_too_large'', api_access (ge_db ge 2) r 413 [] [] w)
      else let digest = requestSHA256 (rq_method r) (rq_path r) (rq_body r); key = trim_space (rq_key r)
           in if key = []
              then (let (p0, w1) = continue r w; p = captured p0 in (p, api_access (ge_db ge 2) r (rs_status p) [] digest w1))
              else if \<not> idempotencyKeyPattern key
              then (refusal 400 ''invalid_idempotency_key'', api_access (ge_db ge 2) r 400 (digestText key) digest w)
              else (case BeginAPIRequest (ge_db ge 3) (Principal r) key (rq_method r) (rq_path r) digest (wd_control w) of
                      (Inl _, c) \<Rightarrow> (refusal 500 ''idempotency_failed'', api_access (ge_db ge 2) r 500 (digestText key) digest (w\<lparr>wd_control := c\<rparr>))
                    | (Inr (rec, False), c) \<Rightarrow>
                        (let w1 = w\<lparr>wd_control := c\<rparr>
                         in if aq_method rec \<noteq> rq_method r \<or> aq_path rec \<noteq> rq_path r \<or> aq_digest rec \<noteq> digest
                            then (refusal 409 ''idempotency_conflict'', api_access (ge_db ge 2) r 409 (digestText key) digest w1)
                            else if aq_state rec = ''completed''
                            then (\<lparr>rs_status = aq_status rec, rs_type = aq_type rec, rs_body = aq_body rec, rs_replayed = True\<rparr>,
                                  api_access (ge_db ge 2) r (aq_status rec) (digestText key) digest w1)
                            else (refusal 425 ''idempotency_in_progress'', api_access (ge_db ge 2) r 425 (digestText key) digest w1))
                    | (Inr (rec, True), c) \<Rightarrow>
                        (let (p0, w1) = continue r (w\<lparr>wd_control := c\<rparr>); p = captured p0
                         in if rs_status p \<ge> 500
                            then (p, api_access (ge_db ge 2) r (rs_status p) (digestText key) digest
                                       (w1\<lparr>wd_control := snd (AbortAPIRequest (ge_db ge 5) (Principal r) key digest (wd_control w1))\<rparr>))
                            else (case CompleteAPIRequest (ge_db ge 4) (Principal r) key digest (rs_status p) (rs_type p) (rs_body p) (wd_control w1) of
                                    (Inr _, c1) \<Rightarrow> (p, api_access (ge_db ge 2) r (rs_status p) (digestText key) digest (w1\<lparr>wd_control := c1\<rparr>))
                                  | (Inl _, c1) \<Rightarrow>
                                      (refusal 500 ''idempotency_persist_failed'',
                                       api_access (ge_db ge 2) r 500 (digestText key) digest
                                         (w1\<lparr>wd_control := snd (AbortAPIRequest (ge_db ge 5) (Principal r) key digest c1)\<rparr>))))))"

subsection \<open>The chain of guards\<close>

definition Handler :: "ed25519 \<Rightarrow> (string \<Rightarrow> capability option) \<Rightarrow> handler \<Rightarrow> server \<Rightarrow> guard_env \<Rightarrow> http_request \<Rightarrow> world \<Rightarrow> http_response \<times> world" where
  "Handler ed decode mux sv ge =
     peerGuard sv ge (authorizationGuard ed decode sv ge (\<lambda>r d.
       drainGuard sv ge (maintenanceGuard sv ge (idempotencyGuard sv ge (\<lambda>r. mux r d))) r))"

end
