(* ===== verification/ApiGuardsProperties.thy ===== *)
theory ApiGuardsProperties
  imports ApiGuards
begin

text \<open>
  What the guards promise the handlers behind them: an unauthorized request that the contract knows never reaches a
  handler, a mutation is not started while the daemon drains, a repeated request is answered from its record until that is collected; and
  the method that slips past authorization.  That a guard does not run a handler is stated as: its result
  is the same whatever the handler is.
\<close>

subsection \<open>What the guards leave alone\<close>

lemma deny_status: "rs_status (fst (deny sv te input response w)) \<in> {rs_status response, 503}"
  by (simp add: deny_def refusal_def split: prod.splits)

lemma deny_world: "wd_ledger (snd (deny sv te input response w)) = wd_ledger w" "wd_control (snd (deny sv te input response w)) = wd_control w"
  by (simp_all add: deny_def auditEvent_def Let_def split: prod.splits)

lemma recordAuthorization_world [simp]:
  "wd_ledger (recordAuthorization sv en di w) = wd_ledger w" "wd_drain (recordAuthorization sv en di w) = wd_drain w"
  "wd_maintenance (recordAuthorization sv en di w) = wd_maintenance w" "wd_trail (recordAuthorization sv en di w) = wd_trail w"
  by (simp_all add: recordAuthorization_def)

lemma use_capability_world:
  "wd_ledger (snd (use_capability ed ring decode ge r p operation resource w)) = wd_ledger w"
  "wd_drain (snd (use_capability ed ring decode ge r p operation resource w)) = wd_drain w"
  by (simp_all add: use_capability_def split: option.splits sum.splits prod.splits)

lemma refusal_status [simp]: "rs_status (refusal n code) = n"
  by (simp add: refusal_def)

subsection \<open>Authorization\<close>

text \<open>The two ways to be authorized: a role with access to the transaction, or an unused signed capability.\<close>

definition by_role :: "server \<Rightarrow> authorizer \<Rightarrow> http_request \<Rightarrow> peer_identity \<Rightarrow> endpoint \<Rightarrow> string \<Rightarrow> ledger \<Rightarrow> bool" where
  "by_role sv a r p e tid l =
     (let d = Decide a (pi_uid p) (ep_operation e)
      in rd_allowed d \<and> (tid = [] \<or> rd_scope d = ''all'' \<or>
           (sv_ledger sv \<and> CheckTransactionAccess tid (Principal r) (transactionAccessFor e) l = Inr True)))"

definition by_capability ::
  "ed25519 \<Rightarrow> (string \<Rightarrow> capability option) \<Rightarrow> server \<Rightarrow> gotime \<Rightarrow> http_request \<Rightarrow> peer_identity \<Rightarrow> endpoint \<Rightarrow> string \<Rightarrow> control \<Rightarrow> bool" where
  "by_capability ed decode sv now r p e tid c =
     (\<not> ep_safe e \<and> (\<exists>ring t. sv_keyring sv = Some ring \<and> decode (rq_capability r) = Some t
        \<and> Verify_capability ed ring t (pi_uid p) (ep_operation e) tid now = Inr () \<and> \<not> has_key cu_id (cp_id t) (uses c)))"

definition permitted ::
  "ed25519 \<Rightarrow> (string \<Rightarrow> capability option) \<Rightarrow> server \<Rightarrow> authorizer \<Rightarrow> gotime \<Rightarrow> http_request \<Rightarrow> endpoint \<Rightarrow> string \<Rightarrow> world \<Rightarrow> bool" where
  "permitted ed decode sv a now r e tid w =
     (\<exists>p. FromContext r = Some p \<and> (by_role sv a r p e tid (wd_ledger w) \<or> by_capability ed decode sv now r p e tid (wd_control w)))"

lemma use_capability_Some:
  assumes "use_capability ed ring decode ge r p operation resource w = (Some t, w1)"
  shows "decode (rq_capability r) = Some t \<and> Verify_capability ed ring t (pi_uid p) operation resource (ge_now ge) = Inr ()
     \<and> \<not> has_key cu_id (cp_id t) (uses (wd_control w))"
  using assms
  by (auto simp: use_capability_def ConsumeAuthorizationCapability_def ConsumeAuthorizationCapability_tx_def WithTx_def require_def
      split: option.splits sum.splits prod.splits if_splits)

text \<open>What a refusal may have written: rows of the decision log and of the audit trail, nothing else.\<close>

definition only_logged :: "world \<Rightarrow> world \<Rightarrow> bool" where
  "only_logged w w' = (wd_ledger w' = wd_ledger w \<and> wd_drain w' = wd_drain w \<and> wd_maintenance w' = wd_maintenance w
     \<and> requests (wd_control w') = requests (wd_control w) \<and> uses (wd_control w') = uses (wd_control w)
     \<and> api_events (wd_control w') = api_events (wd_control w))"

lemma only_logged_refl: "only_logged w w"
  by (simp add: only_logged_def)

lemma deny_logged: "only_logged w w1 \<Longrightarrow> only_logged w (snd (deny sv te input response w1))"
  by (simp add: only_logged_def deny_def auditEvent_def Let_def split: prod.splits)

lemma recordAuthorization_logged: "only_logged w w1 \<Longrightarrow> only_logged w (recordAuthorization sv en di w1)"
  by (simp add: only_logged_def recordAuthorization_def ctl_other_tables)

lemma use_capability_refused:
  assumes "use_capability ed ring decode ge r p operation resource w = (None, w1)" shows "w1 = w"
  using assms
  by (auto simp: use_capability_def ConsumeAuthorizationCapability_def
      split: option.splits sum.splits prod.splits if_splits dest: WithTx_error)

lemma refused:
  assumes "\<And>h. authorizationGuard ed decode sv ge h r w = deny sv te input response w1"
    and "rs_status response = 403 \<or> rs_status response = 404" and "only_logged w w1"
  shows "authorizationGuard ed decode sv ge f r w = authorizationGuard ed decode sv ge g r w
     \<and> rs_status (fst (authorizationGuard ed decode sv ge f r w)) \<in> {403, 404, 503}
     \<and> only_logged w (snd (authorizationGuard ed decode sv ge f r w))"
  unfolding assms(1) using deny_logged [OF assms(3)] deny_status [of sv te input response w1] assms(2) by auto

text \<open>C8. An unauthorized request never reaches a handler, if the contract knows it: when the policy is on and method and
  path of the request match an endpoint of the contract, a peer without a role that gives access to the
  transaction and without an unused, verified capability gets a refusal that does not depend on the handler, and
  nothing but the decision log and the audit trail is written.  A request that matches no endpoint is handed on
  unchecked.\<close>

theorem unauthorized_never_reaches_handler:
  assumes "sv_authorizer sv = Some a"
  shows "case Match (rq_method r) (rq_path r) of
      None \<Rightarrow> authorizationGuard ed decode sv ge f r w = f r None w
    | Some (e, params) \<Rightarrow>
        permitted ed decode sv a (ge_now ge) r e (param ''id'' params) w
        \<or> (authorizationGuard ed decode sv ge f r w = authorizationGuard ed decode sv ge g r w
           \<and> rs_status (fst (authorizationGuard ed decode sv ge f r w)) \<in> {403, 404, 503}
           \<and> only_logged w (snd (authorizationGuard ed decode sv ge f r w)))"
proof (cases "Match (rq_method r) (rq_path r)")
  case None
  then show ?thesis by (simp add: authorizationGuard_def assms)
next
  case (Some m)
  obtain e params where m: "Match (rq_method r) (rq_path r) = Some (e, params)" using Some by (cases m) simp
  have "authorizationGuard ed decode sv ge f r w = authorizationGuard ed decode sv ge g r w
     \<and> rs_status (fst (authorizationGuard ed decode sv ge f r w)) \<in> {403, 404, 503}
     \<and> only_logged w (snd (authorizationGuard ed decode sv ge f r w))"
    if no: "\<not> permitted ed decode sv a (ge_now ge) r e (param ''id'' params) w"
  proof (cases "FromContext r")
    case None
    show ?thesis
      by (rule refused, simp add: authorizationGuard_def Let_def assms m None) (simp_all add: recordAuthorization_logged only_logged_refl)
  next
    case (Some p)
    let ?tid = "param ''id'' params" and ?d = "Decide a (pi_uid p) (ep_operation e)"
    have role: "\<not> (rd_allowed ?d \<and> resource_allowed sv r e ?tid ?d (wd_ledger w))"
      using no Some by (auto simp: permitted_def by_role_def resource_allowed_def Let_def)
    have cap: "fst (use_capability ed ring decode ge r p (ep_operation e) ?tid w) = None"
      if "\<not> ep_safe e" "sv_keyring sv = Some ring" for ring
    proof (cases "use_capability ed ring decode ge r p (ep_operation e) ?tid w")
      case (Pair t w1)
      then show ?thesis
        using use_capability_Some no Some that by (cases t) (fastforce simp: permitted_def by_capability_def)+
    qed
    show ?thesis
    proof (cases "\<not> ep_safe e \<and> rq_capability r \<noteq> [] \<and> sv_keyring sv \<noteq> None \<and> sv_ledger sv")
      case True
      then obtain ring w1 where ring: "sv_keyring sv = Some ring"
          and u: "use_capability ed ring decode ge r p (ep_operation e) ?tid w = (None, w1)"
        using cap by (metis option.exhaust_sel prod.collapse)
      have "w1 = w" using use_capability_refused [OF u] .
      then show ?thesis
        using True by (intro refused, simp add: authorizationGuard_def Let_def assms m Some role ring u)
          (simp_all add: recordAuthorization_logged only_logged_refl)
    next
      case False
      show ?thesis
        using False by (intro refused, simp only: authorizationGuard_def Let_def assms m Some role option.case prod.case if_False)
          (simp_all add: recordAuthorization_logged only_logged_refl)
    qed
  qed
  then show ?thesis using m by auto
qed

text \<open>A HEAD request slips past authorization: no endpoint of the contract has the method, so the guard hands every such
  request to the router unchecked and unrecorded, whatever the policy says; the router serves HEAD with the GET handlers.\<close>

theorem head_skips_authorization:
  "authorizationGuard ed decode sv ge f (r\<lparr>rq_method := ''HEAD''\<rparr>) w = f (r\<lparr>rq_method := ''HEAD''\<rparr>) None w"
proof -
  have none: "match_endpoints verb parts es = None" if "\<forall>e \<in> set es. ep_method e \<noteq> verb" for verb parts es
    using that by (induction es) auto
  have "list_all (\<lambda>(verb, path, operation, safe). verb \<noteq> ''HEAD'') endpoint_rows" by code_simp
  then have "\<forall>e \<in> set Current. ep_method e \<noteq> ''HEAD''" by (auto simp: Current_def list_all_iff)
  moreover have "to_upper (trim_space ''HEAD'') = ''HEAD''" by code_simp
  ultimately have "Match ''HEAD'' (rq_path r) = None" using none by (simp add: Match_def)
  then show ?thesis by (simp add: authorizationGuard_def split: option.splits)
qed

subsection \<open>Draining\<close>

lemma authorizationGuard_cong:
  assumes "\<And>r' d' w'. rq_method r' = rq_method r \<Longrightarrow> rq_peer r' = rq_peer r \<Longrightarrow> wd_drain w' = wd_drain w \<Longrightarrow> f r' d' w' = g r' d' w'"
  shows "authorizationGuard ed decode sv ge f r w = authorizationGuard ed decode sv ge g r w"
proof -
  have "wd_drain w1 = wd_drain w" if "use_capability ed ring decode ge r p operation resource w = (t, w1)" for ring p operation resource t w1
    using use_capability_world(2) that by (metis snd_conv)
  then show ?thesis
    using assms by (simp add: authorizationGuard_def Let_def split: option.splits prod.splits)
qed

lemma peerGuard_cong:
  assumes "f r w = g r w" shows "peerGuard sv ge f r w = peerGuard sv ge g r w"
  using assms by (simp add: peerGuard_def split: option.splits)

text \<open>Once the daemon drains, no mutation reaches a handler: the whole chain of guards answers the same whatever the
  handlers behind it are.\<close>

theorem draining_refuses_mutations:
  assumes "sv_drain sv" and "dr_draining (wd_drain w)" and "\<not> safe_method (rq_method r)"
  shows "Handler ed decode f sv ge r w = Handler ed decode g sv ge r w"
  unfolding Handler_def using assms
  by (intro peerGuard_cong authorizationGuard_cong) (simp add: drainGuard_def BeginMutation_def)

subsection \<open>Repeated requests\<close>

lemma RecordAPIAccess_requests [simp]: "requests (wd_control (api_access en r n kd rd w)) = requests (wd_control w)"
  by (simp add: api_access_def ctl_other_tables)

lemma api_access_ledger [simp]: "wd_ledger (api_access en r n kd rd w) = wd_ledger w"
  by (simp add: api_access_def)

lemma BeginAPIRequest_found:
  "find_row request_key (who, key) (requests c) = Some r \<Longrightarrow>
     \<exists>res c'. BeginAPIRequest en who key verb path digest c = (res, c') \<and> (res = Inr (r, False) \<or> (\<exists>e. res = Inl e))"
  by (auto simp: BeginAPIRequest_def WithTx_def split: option.splits)

lemma BeginAPIRequest_again:
  assumes "find_row request_key (who, key) (requests c) = Some r" and "who \<noteq> []" "key \<noteq> []" "verb \<noteq> []" "path \<noteq> []" "digest \<noteq> []"
  shows "\<exists>res c'. BeginAPIRequest en who key verb path digest c = (res, c')
     \<and> (res = Inr (r, False) \<or> ((\<exists>e. res = Inl e) \<and> \<not> calm en))"
  using assms by (auto simp: BeginAPIRequest_def WithTx_def calm_def split: option.splits)

text \<open>What the handler, and whatever else runs while it does, must leave alone: the reservation of the request and the
  uniqueness of the keys.\<close>

definition spares_reservation :: "string \<times> string \<Rightarrow> (http_request \<Rightarrow> world \<Rightarrow> http_response \<times> world) \<Rightarrow> http_request \<Rightarrow> bool" where
  "spares_reservation k f r = (\<forall>w. find_row request_key k (requests (wd_control (snd (f r w)))) = find_row request_key k (requests (wd_control w))
     \<and> (unique_key request_key (requests (wd_control w)) \<longrightarrow> unique_key request_key (requests (wd_control (snd (f r w))))))"

lemma first_answer:
  assumes "\<not> safe_method (rq_method r)" and "sv_ledger sv" and "length (rq_body r) \<le> mebibyte"
    and "idempotencyKeyPattern (trim_space (rq_key r))"
    and "find_row request_key (Principal r, trim_space (rq_key r)) (requests (wd_control w)) = None"
    and "unique_key request_key (requests (wd_control w))" and "spares_reservation (Principal r, trim_space (rq_key r)) f r"
    and "idempotencyGuard sv ge f r w = (p, w1)" and "rs_status p < 500"
  shows "\<exists>row. answered (Principal r) (trim_space (rq_key r)) row (wd_control w1) \<and> unique_key request_key (requests (wd_control w1))
     \<and> aq_method row = rq_method r \<and> aq_path row = rq_path r \<and> aq_digest row = requestSHA256 (rq_method r) (rq_path r) (rq_body r)
     \<and> aq_status row = rs_status p \<and> aq_type row = rs_type p \<and> aq_body row = rs_body p
     \<and> Principal r \<noteq> [] \<and> trim_space (rq_key r) \<noteq> [] \<and> rq_method r \<noteq> [] \<and> rq_path r \<noteq> [] \<and> requestSHA256 (rq_method r) (rq_path r) (rq_body r) \<noteq> []"
proof -
  let ?who = "Principal r" and ?key = "trim_space (rq_key r)" and ?dg = "requestSHA256 (rq_method r) (rq_path r) (rq_body r)"
  let ?new = "new_request (ge_db ge 3) ?who ?key (rq_method r) (rq_path r) ?dg"
  have key: "?key \<noteq> []" using assms(4) by (auto simp: idempotencyKeyPattern_def)
  note guard = assms(1-4) key
  obtain c where begun: "BeginAPIRequest (ge_db ge 3) ?who ?key (rq_method r) (rq_path r) ?dg (wd_control w) = (Inr (?new, True), c)"
      and c: "requests c = requests (wd_control w) @ [?new]" and full: "?who \<noteq> []" "rq_method r \<noteq> []" "rq_path r \<noteq> []" "?dg \<noteq> []"
  proof (cases "BeginAPIRequest (ge_db ge 3) ?who ?key (rq_method r) (rq_path r) ?dg (wd_control w)")
    case (Pair res c)
    have "res = Inr (?new, True) \<and> requests c = requests (wd_control w) @ [?new] \<and> ?who \<noteq> [] \<and> rq_method r \<noteq> [] \<and> rq_path r \<noteq> [] \<and> ?dg \<noteq> []
        \<or> (\<exists>e. res = Inl e)"
      using Pair assms(5) by (auto simp: BeginAPIRequest_def WithTx_def split: if_splits option.splits)
    moreover have False if "res = Inl e" for e
      using assms(8,9) Pair that guard by (auto simp: idempotencyGuard_def Let_def)
    ultimately show ?thesis using Pair that by blast
  qed
  obtain p0 w' where run: "f r (w\<lparr>wd_control := c\<rparr>) = (p0, w')" by (cases "f r (w\<lparr>wd_control := c\<rparr>)")
  have new: "find_row request_key (?who, ?key) (requests c) = Some ?new"
    using assms(5) c by (simp add: find_row_append table_simps request_key_def new_request_def)
  have "unique_key request_key (requests c)"
    using assms(5,6) c by (auto simp: unique_key_append has_key_find request_key_def new_request_def split: option.splits)
  then have w': "find_row request_key (?who, ?key) (requests (wd_control w')) = Some ?new" "unique_key request_key (requests (wd_control w'))"
    using assms(7) run new unfolding spares_reservation_def by (metis (no_types, lifting) snd_conv world.select_convs(2) world.surjective world.update_convs(2))+
  obtain c1 where finished: "CompleteAPIRequest (ge_db ge 4) ?who ?key ?dg (rs_status (captured p0)) (rs_type (captured p0)) (rs_body (captured p0)) (wd_control w') = (Inr (), c1)"
      and p: "p = captured p0" and w1: "w1 = api_access (ge_db ge 2) r (rs_status p) (digestText ?key) ?dg (w'\<lparr>wd_control := c1\<rparr>)"
  proof -
    let ?p = "captured p0"
    have g: "idempotencyGuard sv ge f r w =
        (if rs_status ?p \<ge> 500
         then (?p, api_access (ge_db ge 2) r (rs_status ?p) (digestText ?key) ?dg
                     (w'\<lparr>wd_control := snd (AbortAPIRequest (ge_db ge 5) ?who ?key ?dg (wd_control w'))\<rparr>))
         else (case CompleteAPIRequest (ge_db ge 4) ?who ?key ?dg (rs_status ?p) (rs_type ?p) (rs_body ?p) (wd_control w') of
                 (Inr _, c1) \<Rightarrow> (?p, api_access (ge_db ge 2) r (rs_status ?p) (digestText ?key) ?dg (w'\<lparr>wd_control := c1\<rparr>))
               | (Inl _, c1) \<Rightarrow> (refusal 500 ''idempotency_persist_failed'', api_access (ge_db ge 2) r 500 (digestText ?key) ?dg
                     (w'\<lparr>wd_control := snd (AbortAPIRequest (ge_db ge 5) ?who ?key ?dg c1)\<rparr>))))"
      unfolding idempotencyGuard_def Let_def using guard begun run by simp
    show ?thesis
    proof (cases "rs_status ?p \<ge> 500")
      case True
      then show ?thesis using g assms(8,9) by simp
    next
      case False
      then show ?thesis
        using g assms(8,9) that
        by (cases "CompleteAPIRequest (ge_db ge 4) ?who ?key ?dg (rs_status ?p) (rs_type ?p) (rs_body ?p) (wd_control w')") (auto split: sum.splits)
    qed
  qed
  define r1 where "r1 = ?new\<lparr>aq_state := ''completed'', aq_status := rs_status p, aq_type := rs_type p, aq_body := rs_body p, aq_updated := en_now (ge_db ge 4)\<rparr>"
  have "find_row request_key (?who, ?key) (requests c1) = Some r1 \<and> unique_key request_key (requests c1)"
    using finished p w' by (auto simp: CompleteAPIRequest_def WithTx_def find_row_update_where unique_key_update_where request_key_update reserved_def r1_def
        request_key_def new_request_def split: if_splits option.splits)
  then have "answered ?who ?key r1 (wd_control w1)" "unique_key request_key (requests (wd_control w1))"
    using w1 by (simp_all add: answered_def r1_def)
  then show ?thesis using full key by (intro exI [of _ r1]) (simp add: r1_def new_request_def)
qed


subsection \<open>Concrete requests\<close>

definition server0 :: server where
  "server0 = \<lparr>sv_ledger = True, sv_audit = False, sv_drain = True, sv_maintenance = False, sv_require_peer = False, sv_uids = [],
     sv_authorizer = None, sv_keyring = None\<rparr>"

definition world0 :: world where
  "world0 = \<lparr>wd_ledger = empty_ledger, wd_control = empty_control, wd_trail = empty_trail ''/'', wd_drain = new_drain,
     wd_maintenance = \<lparr>mm_path = [], mm_file = NoFile\<rparr>\<rparr>"

definition request0 :: "string \<Rightarrow> string \<Rightarrow> http_request" where
  "request0 verb path = \<lparr>rq_method = verb, rq_path = path, rq_peer = Some \<lparr>pi_uid = 9, pi_gid = 9, pi_pid = 1, pi_available = True\<rparr>,
     rq_capability = [], rq_key = ''12345678'', rq_body = [], rq_id = ''r''\<rparr>"

definition guard0 :: guard_env where
  "guard0 = \<lparr>ge_now = 0, ge_db = (\<lambda>_. env0), ge_trail = (\<lambda>_. env_t ''1'' None), ge_write = False\<rparr>"

definition fine :: http_response where
  "fine = \<lparr>rs_status = 200, rs_type = ''text/plain'', rs_body = ''ok'', rs_replayed = False\<rparr>"

lemma match_endpoints_some:
  "e \<in> set es \<Longrightarrow> ep_method e = verb \<Longrightarrow> match_parts (splitPath (ep_path e)) parts \<noteq> None \<Longrightarrow>
     \<exists>e' params. match_endpoints verb parts es = Some (e', params)"
  by (induction es) (auto split: option.splits)

lemma health_matches: "\<exists>e params. Match ''GET'' ''/v1/health'' = Some (e, params)"
proof -
  let ?e = "\<lparr>ep_method = ''GET'', ep_path = ''/v1/health'', ep_operation = ''health'', ep_safe = True\<rparr>"
  have mem: "?e \<in> set Current" by (simp add: Current_def endpoint_rows_def)
  have "match_parts (splitPath ''/v1/health'') (splitPath ''/v1/health'') \<noteq> None" by code_simp
  then have parts: "match_parts (splitPath (ep_path ?e)) (splitPath ''/v1/health'') \<noteq> None" by simp
  have "to_upper (trim_space ''GET'') = ''GET''" by code_simp
  then have "ep_method ?e = to_upper (trim_space ''GET'')" by simp
  from match_endpoints_some [OF mem this parts] show ?thesis by (simp only: Match_def)
qed

theorem unauthorized_never_reaches_handler_witness:
  "\<exists>a. Compile policy0 = Inr a \<and>
     rs_status (fst (authorizationGuard ed0 (\<lambda>_. None) (server0\<lparr>sv_authorizer := Some a\<rparr>) guard0 (\<lambda>r d w. (fine, w)) (request0 ''GET'' ''/v1/health'') world0)) \<noteq> 200"
proof -
  obtain a where a: "Compile policy0 = Inr a" using policy0_compiles by blast
  obtain e params where m: "Match ''GET'' ''/v1/health'' = Some (e, params)" using health_matches by blast
  let ?sv = "server0\<lparr>sv_authorizer := Some a\<rparr>" and ?r = "request0 ''GET'' ''/v1/health''"
  have "au_bindings a 9 = None" using Compile_Inr [OF a] by (simp add: policy0_def)
  then have "\<not> rd_allowed (Decide a 9 operation)" for operation by (simp add: Decide_def Let_def)
  then have "\<not> permitted ed0 (\<lambda>_. None) ?sv a (ge_now guard0) ?r e (param ''id'' params) world0"
    by (simp add: permitted_def by_role_def by_capability_def server0_def request0_def FromContext_def Let_def)
  moreover have "sv_authorizer ?sv = Some a" "Match (rq_method ?r) (rq_path ?r) = Some (e, params)" using m by (simp_all add: request0_def)
  ultimately have "rs_status (fst (authorizationGuard ed0 (\<lambda>_. None) ?sv guard0 (\<lambda>r d w. (fine, w)) ?r world0)) \<in> {403, 404, 503}"
    using unauthorized_never_reaches_handler [where sv = ?sv and a = a and r = ?r and ed = ed0 and decode = "\<lambda>_. None" and ge = guard0
        and f = "\<lambda>r d w. (fine, w)" and w = world0] by (simp add: option.case prod.case)
  then show ?thesis using a by (intro exI [of _ a]) auto
qed

theorem draining_refuses_mutations_witness:
  "Handler ed0 (\<lambda>_. None) (\<lambda>r d w. (fine, w)) server0 guard0 (request0 ''POST'' ''/v1/transactions'') (world0\<lparr>wd_drain := Start ''stop'' 0 new_drain\<rparr>)
   = Handler ed0 (\<lambda>_. None) (\<lambda>r d w. (refusal 500 ''x'', w)) server0 guard0 (request0 ''POST'' ''/v1/transactions'') (world0\<lparr>wd_drain := Start ''stop'' 0 new_drain\<rparr>)"
  by (rule draining_refuses_mutations) (simp_all add: server0_def Start_def new_drain_def request0_def safe_method_def)


end
