(* ===== verification/GoUrl.thy ===== *)
theory GoUrl
  imports Prelude
begin

text \<open>
  The parts of Go's standard library that decide where a credential may be sent: \<open>strings.Cut\<close> and
  \<open>strings.LastIndex\<close> for one character, \<open>path.Clean\<close>, \<open>url.Parse\<close> with \<open>Hostname\<close>, \<open>Port\<close> and
  \<open>EscapedPath\<close>, and \<open>net.ParseIP\<close>.  Strings are byte strings, as in Go.
\<close>

subsection \<open>Cutting strings\<close>

definition cut :: "char \<Rightarrow> string \<Rightarrow> string \<times> string" where
  "cut c s = (takeWhile (\<lambda>x. x \<noteq> c) s, drop 1 (dropWhile (\<lambda>x. x \<noteq> c) s))"

text \<open>The text before and after the last occurrence, \<open>None\<close> when there is none.\<close>

definition cut_last :: "char \<Rightarrow> string \<Rightarrow> (string \<times> string) option" where
  "cut_last c s =
     (if c \<notin> set s then None
      else Some (rev (snd (cut c (rev s))), rev (fst (cut c (rev s)))))"

definition trim_suffix :: "string \<Rightarrow> string \<Rightarrow> string" where
  "trim_suffix s p = (if has_suffix s p then take (length s - length p) s else s)"

lemma cut_append: "c \<notin> set a \<Longrightarrow> cut c (a @ c # b) = (a, b)"
  by (induction a) (auto simp: cut_def)

lemma cut_none: "c \<notin> set s \<Longrightarrow> cut c s = (s, [])"
  by (induction s) (auto simp: cut_def)

lemma cut_last_append: "c \<notin> set b \<Longrightarrow> cut_last c (a @ c # b) = Some (a, b)"
  using cut_append [of c "rev b" "rev a"] by (simp add: cut_last_def)

subsection \<open>path.Clean\<close>

text \<open>
  \<open>clean_segments\<close> walks the segments with the stack of segments kept so far (innermost first): an
  empty segment and \<open>.\<close> are dropped, \<open>..\<close> removes the last kept segment; at the front it is dropped in a
  rooted path and kept in a relative one.
\<close>

definition dotdot :: string where "dotdot = ''..''"

fun clean_segments :: "bool \<Rightarrow> string list \<Rightarrow> string list \<Rightarrow> string list" where
  "clean_segments rooted [] kept = kept"
| "clean_segments rooted (x # xs) kept =
     (if x = [] \<or> x = ''.'' then clean_segments rooted xs kept
      else if x = dotdot then
        (case kept of
           [] \<Rightarrow> clean_segments rooted xs (if rooted then [] else [dotdot])
         | k # ks \<Rightarrow> clean_segments rooted xs (if k = dotdot then dotdot # kept else ks))
      else clean_segments rooted xs (x # kept))"

definition path_clean :: "string \<Rightarrow> string" where
  "path_clean p =
     (if p = [] then ''.''
      else let rooted = (hd p = CHR ''/'');
               out = join ''/'' (rev (clean_segments rooted (split_on (CHR ''/'') p) []))
           in if rooted then CHR ''/'' # out else if out = [] then ''.'' else out)"

lemma clean_segments_rooted:
  "dotdot \<notin> set kept \<Longrightarrow> dotdot \<notin> set (clean_segments True xs kept)"
  by (induction True xs kept rule: clean_segments.induct) (auto split: list.splits)

lemma clean_segments_plain:
  "list_all (\<lambda>x. x \<noteq> [] \<and> x \<noteq> ''.'' \<and> CHR ''/'' \<notin> set x) kept \<Longrightarrow> list_all (\<lambda>x. CHR ''/'' \<notin> set x) xs \<Longrightarrow>
     list_all (\<lambda>x. x \<noteq> [] \<and> x \<noteq> ''.'' \<and> CHR ''/'' \<notin> set x) (clean_segments rooted xs kept)"
  by (induction rooted xs kept rule: clean_segments.induct) (auto simp: dotdot_def split: list.splits)

lemma split_on_free: "x \<in> set (split_on c s) \<Longrightarrow> c \<notin> set x"
  by (induction c s arbitrary: x rule: split_on.induct) (auto split: list.splits if_splits)

text \<open>A cleaned rooted path is a slash and proper segments: none is empty, a dot or a dot-dot.\<close>

lemma path_clean_rooted:
  assumes "hd p = CHR ''/''" "p \<noteq> []"
  shows "\<exists>xs. path_clean p = CHR ''/'' # join ''/'' xs
     \<and> (\<forall>x \<in> set xs. x \<noteq> [] \<and> x \<noteq> ''.'' \<and> x \<noteq> dotdot \<and> CHR ''/'' \<notin> set x)"
proof (intro exI conjI ballI)
  let ?xs = "rev (clean_segments True (split_on (CHR ''/'') p) [])"
  show "path_clean p = CHR ''/'' # join ''/'' ?xs" using assms by (simp add: path_clean_def Let_def)
  fix x assume x: "x \<in> set ?xs"
  have "list_all (\<lambda>x. x \<noteq> [] \<and> x \<noteq> ''.'' \<and> CHR ''/'' \<notin> set x) (clean_segments True (split_on (CHR ''/'') p) [])"
    by (rule clean_segments_plain) (auto simp: list_all_iff dest: split_on_free)
  with x show "x \<noteq> []" "x \<noteq> ''.''" "CHR ''/'' \<notin> set x" by (auto simp: list_all_iff)
  show "x \<noteq> dotdot" using x clean_segments_rooted [of "[]"] by auto
qed

lemma path_clean_examples:
  "path_clean ''/a/../b//c/.'' = ''/b/c''" "path_clean ''../a'' = ''../a''" "path_clean ''/..'' = ''/''" "path_clean '''' = ''.''"
  by code_simp+

subsection \<open>url.Parse\<close>

record url =
  url_scheme :: string
  url_opaque :: string
  url_user :: bool
  url_host :: string
  url_path :: string
  url_rawpath :: string
  url_query :: string
  url_fragment :: string

definition code :: "char \<Rightarrow> nat" where "code c = of_char c"

definition alnum :: "char \<Rightarrow> bool" where
  "alnum c = (code c \<in> {48..57} \<or> code c \<in> {65..90} \<or> code c \<in> {97..122})"

definition letter :: "char \<Rightarrow> bool" where
  "letter c = (code c \<in> {65..90} \<or> code c \<in> {97..122})"

datatype url_part = UrlHost | UrlZone | UrlPath | UrlSegment | UrlUser | UrlFragment

definition shouldEscape :: "char \<Rightarrow> url_part \<Rightarrow> bool" where
  "shouldEscape c part =
     (if alnum c \<or> c \<in> set ''-_.~'' then False
      else if part \<in> {UrlHost, UrlZone} \<and> c \<in> set (''!$&()*+,;=:[]<>'' @ [CHR 0x27, CHR 0x22]) then False
      else if c \<in> set ''$&+,/:;=?@'' then
        (case part of
           UrlPath \<Rightarrow> c = CHR ''?''
         | UrlUser \<Rightarrow> c \<in> set ''@/?:''
         | UrlFragment \<Rightarrow> False
         | UrlHost \<Rightarrow> True)
      else \<not> (part = UrlFragment \<and> c \<in> set ''!()*''))"

definition hex_value :: "char \<Rightarrow> nat option" where
  "hex_value c =
     (if code c \<in> {48..57} then Some (code c - 48)
      else if code c \<in> {97..102} then Some (code c - 87)
      else if code c \<in> {65..70} then Some (code c - 55) else None)"

text \<open>\<open>unescape\<close>: in a host only escapes of \<open>%\<close> itself and of bytes outside ASCII are accepted.\<close>

fun unescape :: "url_part \<Rightarrow> string \<Rightarrow> string option" where
  "unescape part [] = Some []"
| "unescape part (c # cs) =
     (if c = CHR ''%'' then
        (case cs of
           h # k # rest \<Rightarrow>
             (case (hex_value h, hex_value k) of
                (Some i, Some j) \<Rightarrow>
                  if part = UrlHost \<and> i < 8 \<and> \<not> (h = CHR ''2'' \<and> k = CHR ''5'') then None
                  else if part = UrlZone \<and> \<not> (h = CHR ''2'' \<and> k = CHR ''5'') \<and> 16 * i + j \<noteq> 32
                    \<and> shouldEscape (char_of (16 * i + j)) UrlHost then None
                  else map_option (\<lambda>r. char_of (16 * i + j) # r) (unescape part rest)
              | _ \<Rightarrow> None)
         | _ \<Rightarrow> None)
      else if part \<in> {UrlHost, UrlZone} \<and> code c < 128 \<and> shouldEscape c part then None
      else map_option (\<lambda>r. c # r) (unescape part cs))"

definition upper_hex :: "nat \<Rightarrow> char" where
  "upper_hex n = char_of (if n < 10 then 48 + n else 55 + n)"

fun url_escape :: "url_part \<Rightarrow> string \<Rightarrow> string" where
  "url_escape part [] = []"
| "url_escape part (c # cs) =
     (if shouldEscape c part then CHR ''%'' # upper_hex (code c div 16) # upper_hex (code c mod 16) # url_escape part cs
      else c # url_escape part cs)"

fun getScheme :: "string \<Rightarrow> string \<Rightarrow> string \<Rightarrow> (string \<times> string) option" where
  "getScheme raw seen [] = Some ([], raw)"
| "getScheme raw seen (c # cs) =
     (if letter c then getScheme raw (seen @ [c]) cs
      else if code c \<in> {48..57} \<or> c \<in> set ''+-.''
        then (if seen = [] then Some ([], raw) else getScheme raw (seen @ [c]) cs)
      else if c = CHR '':'' then (if seen = [] then None else Some (seen, cs))
      else Some ([], raw))"

definition validOptionalPort :: "string \<Rightarrow> bool" where
  "validOptionalPort p = (p = [] \<or> (hd p = CHR '':'' \<and> list_all (\<lambda>c. code c \<in> {48..57}) (tl p)))"

text \<open>\<open>parseHost\<close>; a bracketed address may carry a zone after \<open>%25\<close>.\<close>

fun cut_zone :: "string \<Rightarrow> (string \<times> string) option" where
  "cut_zone [] = None"
| "cut_zone (c # cs) =
     (if has_prefix (c # cs) ''%25'' then Some ([], c # cs)
      else map_option (\<lambda>(a, b). (c # a, b)) (cut_zone cs))"

definition parseHost :: "string \<Rightarrow> string option" where
  "parseHost h =
     (if has_prefix h ''['' then
        (case cut_last (CHR '']'') h of
           None \<Rightarrow> None
         | Some (a, b) \<Rightarrow>
             if \<not> validOptionalPort b then None
             else case cut_zone a of
                    None \<Rightarrow> unescape UrlHost h
                  | Some (x, z) \<Rightarrow>
                      (case (unescape UrlHost x, unescape UrlZone z, unescape UrlHost ('']'' @ b)) of
                         (Some x', Some z', Some b') \<Rightarrow> Some (x' @ z' @ b')
                       | _ \<Rightarrow> None))
      else case cut_last (CHR '':'') h of
             Some (a, b) \<Rightarrow> if validOptionalPort (CHR '':'' # b) then unescape UrlHost h else None
           | None \<Rightarrow> unescape UrlHost h)"

definition validUserinfo :: "string \<Rightarrow> bool" where
  "validUserinfo s = list_all (\<lambda>c. alnum c \<or> c \<in> set (''-._:~!$&()*+,;=%@'' @ [CHR 0x27])) s"

text \<open>The user is present (\<open>True\<close>) or nil, and the host.\<close>

definition parseAuthority :: "string \<Rightarrow> (bool \<times> string) option" where
  "parseAuthority a =
     (case cut_last (CHR ''@'') a of
        None \<Rightarrow> map_option (\<lambda>h. (False, h)) (parseHost a)
      | Some (u, h) \<Rightarrow>
          (case parseHost h of
             None \<Rightarrow> None
           | Some h' \<Rightarrow>
               if validUserinfo u \<and> unescape UrlUser (fst (cut (CHR '':'') u)) \<noteq> None
                  \<and> unescape UrlUser (snd (cut (CHR '':'') u)) \<noteq> None
               then Some (True, h') else None))"

definition with_path :: "url \<Rightarrow> string \<Rightarrow> url option" where
  "with_path u p =
     (case unescape UrlPath p of
        None \<Rightarrow> None
      | Some q \<Rightarrow> Some (u\<lparr>url_path := q, url_rawpath := (if p = url_escape UrlPath q then [] else p)\<rparr>))"

definition parse_body :: "string \<Rightarrow> url option" where
  "parse_body raw =
     (if list_ex (\<lambda>c. code c < 32 \<or> code c = 127) raw then None
      else if raw = ''*'' then Some \<lparr>url_scheme = [], url_opaque = [], url_user = False, url_host = [], url_path = ''*'',
        url_rawpath = [], url_query = [], url_fragment = []\<rparr>
      else case getScheme raw [] raw of
             None \<Rightarrow> None
           | Some (scheme0, rest0) \<Rightarrow>
               let scheme = map lower_char scheme0;
                   (rest, query) = cut (CHR ''?'') rest0;
                   u = \<lparr>url_scheme = scheme, url_opaque = [], url_user = False, url_host = [], url_path = [],
                        url_rawpath = [], url_query = query, url_fragment = []\<rparr>
               in if \<not> has_prefix rest ''/'' \<and> scheme \<noteq> [] then Some (u\<lparr>url_opaque := rest\<rparr>)
                  else if \<not> has_prefix rest ''/'' \<and> CHR '':'' \<in> set (fst (cut (CHR ''/'') rest)) then None
                  else if has_prefix rest ''//'' \<and> (scheme \<noteq> [] \<or> \<not> has_prefix rest ''///'')
                    then (case parseAuthority (takeWhile (\<lambda>c. c \<noteq> CHR ''/'') (drop 2 rest)) of
                            None \<Rightarrow> None
                          | Some (user, h) \<Rightarrow>
                              with_path (u\<lparr>url_user := user, url_host := h\<rparr>)
                                (dropWhile (\<lambda>c. c \<noteq> CHR ''/'') (drop 2 rest)))
                  else with_path u rest)"

definition url_parse :: "string \<Rightarrow> url option" where
  "url_parse raw =
     (let (body, frag) = cut (CHR ''#'') raw
      in case parse_body body of
           None \<Rightarrow> None
         | Some u \<Rightarrow>
             if frag = [] then Some u
             else map_option (\<lambda>f. u\<lparr>url_fragment := f\<rparr>) (unescape UrlFragment frag))"

definition split_host_port :: "string \<Rightarrow> string \<times> string" where
  "split_host_port hp =
     (let (h, p) = (case cut_last (CHR '':'') hp of
                      Some (a, b) \<Rightarrow> if validOptionalPort (CHR '':'' # b) then (a, b) else (hp, [])
                    | None \<Rightarrow> (hp, []))
      in (if has_prefix h ''['' \<and> has_suffix h '']'' then butlast (tl h) else h, p))"

definition Hostname :: "url \<Rightarrow> string" where
  "Hostname u = fst (split_host_port (url_host u))"

definition Port :: "url \<Rightarrow> string" where
  "Port u = snd (split_host_port (url_host u))"

definition validEncoded :: "string \<Rightarrow> bool" where
  "validEncoded s = list_all (\<lambda>c. c \<in> set (''!$&()*+,;=:@[]%'' @ [CHR 0x27]) \<or> \<not> shouldEscape c UrlPath) s"

definition EscapedPath :: "url \<Rightarrow> string" where
  "EscapedPath u =
     (if url_rawpath u \<noteq> [] \<and> validEncoded (url_rawpath u) \<and> unescape UrlPath (url_rawpath u) = Some (url_path u)
        then url_rawpath u
      else if url_path u = ''*'' then ''*''
      else url_escape UrlPath (url_path u))"

lemma url_parse_examples:
  "map_option (\<lambda>u. (url_scheme u, Hostname u, Port u, EscapedPath u)) (url_parse ''https://api.github.com:443/repos/a%2Fb!'')
     = Some (''https'', ''api.github.com'', ''443'', ''/repos/a%2Fb!'')"
  "map_option (\<lambda>u. (url_user u, Hostname u, url_query u, url_fragment u)) (url_parse ''HTTPS://me:x@h/p?q=1#f'')
     = Some (True, ''h'', ''q=1'', ''f'')"
  "url_parse ''https://h:8a/'' = None" "url_parse ''https://a b/'' = None" "url_parse ''a:b'' \<noteq> None" "url_parse ''/%zz'' = None"
  by code_simp+

text \<open>\<open>url.PathEscape\<close> and \<open>path.Join\<close>.\<close>

definition PathEscape :: "string \<Rightarrow> string" where
  "PathEscape s = url_escape UrlSegment s"

definition path_join :: "string list \<Rightarrow> string" where
  "path_join parts =
     (let ps = filter (\<lambda>p. p \<noteq> []) parts in if ps = [] then [] else path_clean (join ''/'' ps))"

subsection \<open>net.ParseIP\<close>

text \<open>Whether a text is an IP address without a zone: four decimal bytes without leading zeros, or hexadecimal groups.\<close>

definition octet :: "string \<Rightarrow> bool" where
  "octet s = (s \<noteq> [] \<and> length s \<le> 3 \<and> list_all (\<lambda>c. code c \<in> {48..57}) s
     \<and> (hd s = CHR ''0'' \<longrightarrow> length s = 1) \<and> foldl (\<lambda>v c. 10 * v + (code c - 48)) 0 s < 256)"

definition ipv4 :: "string \<Rightarrow> bool" where
  "ipv4 s = (let ps = split_on (CHR ''.'') s in length ps = 4 \<and> list_all octet ps)"

definition hextet :: "string \<Rightarrow> bool" where
  "hextet s = (s \<noteq> [] \<and> length s \<le> 4 \<and> list_all (\<lambda>c. hex_value c \<noteq> None) s)"

text \<open>The number of 16-bit groups a colon-separated list stands for; the last one may be an IPv4 address.\<close>

definition groups :: "bool \<Rightarrow> string list \<Rightarrow> nat option" where
  "groups final xs =
     (if xs = [] then Some 0
      else if list_all hextet (butlast xs) \<and> hextet (last xs) then Some (length xs)
      else if final \<and> list_all hextet (butlast xs) \<and> ipv4 (last xs) then Some (length xs + 1)
      else None)"

fun cut_ellipsis :: "string list \<Rightarrow> string list \<Rightarrow> (string list \<times> string list) option" where
  "cut_ellipsis seen [] = None"
| "cut_ellipsis seen (x # xs) = (if x = [] then Some (seen, xs) else cut_ellipsis (seen @ [x]) xs)"

definition ipv6 :: "string \<Rightarrow> bool" where
  "ipv6 s =
     (if CHR '':'' \<notin> set s \<or> (has_prefix s '':'' \<and> \<not> has_prefix s ''::'') \<or> (has_suffix s '':'' \<and> \<not> has_suffix s ''::'')
      then False
      else let ps = split_on (CHR '':'') s;
               ps1 = (if has_prefix s ''::'' then tl ps else ps);
               ps2 = (if has_suffix s ''::'' then butlast ps1 else ps1)
           in case cut_ellipsis [] ps2 of
                None \<Rightarrow> groups True ps2 = Some 8
              | Some (a, b) \<Rightarrow>
                  (case (groups False a, groups True b) of
                     (Some m, Some n) \<Rightarrow> m + n < 8
                   | _ \<Rightarrow> False))"

definition ParseIP :: "string \<Rightarrow> bool" where
  "ParseIP s = (ipv4 s \<or> ipv6 s)"

lemma ParseIP_examples:
  "ParseIP ''127.0.0.1''" "\<not> ParseIP ''127.0.0.01''" "\<not> ParseIP ''api.github.com''" "ParseIP ''::1''" "ParseIP ''::''"
  "ParseIP ''fe80::1:2''" "\<not> ParseIP ''fe80::1%eth0''" "ParseIP ''::ffff:1.2.3.4''" "\<not> ParseIP '':1''" "\<not> ParseIP ''1::2::3''"
  by code_simp+

end
