(* ===== verification/JsonDecode.thy ===== *)
theory JsonDecode
  imports Json "HOL-Library.AList"
begin

text \<open>
  \<open>json.Unmarshal\<close>: the scanner of \<open>encoding/json\<close> as a recursive-descent parser into generic
  values, and the decoding of a value into the fields of a Go struct (names match up to case, a
  \<open>null\<close> leaves a field as it is, a value of the wrong kind is an error, unknown members are skipped).
  The parser runs on fuel; the length of the text is enough, because every call consumes a character.
  A marshalled ASCII document parses back to itself.
\<close>

subsection \<open>Generic values\<close>

datatype jval =
    VNull
  | VBool bool
  | VNum string
  | VStr string
  | VArr "jval list"
  | VObj "(string \<times> jval) list"

definition json_space :: "char \<Rightarrow> bool" where
  "json_space c = (c \<in> {CHR '' '', CHR 0x09, CHR 0x0A, CHR 0x0D})"

definition skip_space :: "string \<Rightarrow> string" where
  "skip_space s = dropWhile json_space s"

subsection \<open>Strings\<close>

text \<open>The UTF-8 encoding of a code point; surrogates and values beyond Unicode become U+FFFD.\<close>

definition utf8_encode :: "nat \<Rightarrow> string" where
  "utf8_encode n =
     (if n < 0x80 then [char_of n]
      else if n < 0x800 then [char_of (0xC0 + n div 64), char_of (0x80 + n mod 64)]
      else if (0xD800 \<le> n \<and> n < 0xE000) \<or> n \<ge> 0x110000 then [CHR 0xEF, CHR 0xBF, CHR 0xBD]
      else if n < 0x10000 then [char_of (0xE0 + n div 4096), char_of (0x80 + n div 64 mod 64), char_of (0x80 + n mod 64)]
      else [char_of (0xF0 + n div 262144), char_of (0x80 + n div 4096 mod 64), char_of (0x80 + n div 64 mod 64), char_of (0x80 + n mod 64)])"

definition hex_digit :: "char \<Rightarrow> nat option" where
  "hex_digit c =
     (let n = of_char c
      in if n \<in> {48..57} then Some (n - 48) else if n \<in> {97..102} then Some (n - 87)
         else if n \<in> {65..70} then Some (n - 55) else None)"

definition hex4 :: "string \<Rightarrow> (nat \<times> string) option" where
  "hex4 s =
     (case s of
        a # b # c # d # rest \<Rightarrow>
          (case (hex_digit a, hex_digit b, hex_digit c, hex_digit d) of
             (Some i, Some j, Some k, Some l) \<Rightarrow> Some (((i * 16 + j) * 16 + k) * 16 + l, rest)
           | _ \<Rightarrow> None)
      | _ \<Rightarrow> None)"

text \<open>A \<open>\u\<close> escape after its \<open>u\<close>: a surrogate pair is one code point, a lone surrogate is U+FFFD.\<close>

definition unicode_escape :: "string \<Rightarrow> (string \<times> string) option" where
  "unicode_escape s =
     (case hex4 s of
        None \<Rightarrow> None
      | Some (n, rest) \<Rightarrow>
          if 0xD800 \<le> n \<and> n < 0xDC00 \<and> take 2 rest = [backslash, CHR ''u''] then
            (case hex4 (drop 2 rest) of
               Some (m, rest') \<Rightarrow>
                 if 0xDC00 \<le> m \<and> m < 0xE000 then Some (utf8_encode (0x10000 + (n - 0xD800) * 1024 + (m - 0xDC00)), rest')
                 else Some (utf8_encode n, rest)
             | None \<Rightarrow> Some (utf8_encode n, rest))
          else Some (utf8_encode n, rest))"

definition simple_escape :: "char \<Rightarrow> char option" where
  "simple_escape d =
     (if d \<in> {CHR 0x22, backslash, CHR ''/''} then Some d
      else if d = CHR ''b'' then Some (CHR 0x08) else if d = CHR ''f'' then Some (CHR 0x0C)
      else if d = CHR ''n'' then Some (CHR 0x0A) else if d = CHR ''r'' then Some (CHR 0x0D)
      else if d = CHR ''t'' then Some (CHR 0x09) else None)"

text \<open>One step of a string after its opening quote: the end, or some bytes and the rest.\<close>

definition string_step :: "string \<Rightarrow> (string \<times> string) option" where
  "string_step s =
     (case s of
        [] \<Rightarrow> None
      | c # cs \<Rightarrow>
          if c = backslash then
            (case cs of
               [] \<Rightarrow> None
             | d # ds \<Rightarrow> if d = CHR ''u'' then unicode_escape ds else map_option (\<lambda>x. ([x], ds)) (simple_escape d))
          else if of_char c < (32::nat) then None
          else if of_char c < (128::nat) then Some ([c], cs)
          else (let n = utf8_size (map of_char (take 4 s))
                in if n = 0 then Some ([CHR 0xEF, CHR 0xBF, CHR 0xBD], cs) else Some (take n s, drop n s)))"

fun parse_string :: "nat \<Rightarrow> string \<Rightarrow> (string \<times> string) option" where
  "parse_string 0 s = None"
| "parse_string (Suc n) s =
     (if s \<noteq> [] \<and> hd s = CHR 0x22 then Some ([], tl s)
      else case string_step s of
             None \<Rightarrow> None
           | Some (x, rest) \<Rightarrow> map_option (\<lambda>(y, r). (x @ y, r)) (parse_string n rest))"

subsection \<open>Numbers\<close>

definition digits_of :: "string \<Rightarrow> string \<times> string" where
  "digits_of s = (takeWhile is_digit s, dropWhile is_digit s)"

definition parse_int_part :: "string \<Rightarrow> (string \<times> string) option" where
  "parse_int_part s =
     (case s of
        [] \<Rightarrow> None
      | c # cs \<Rightarrow> if c = CHR ''0'' then Some ([c], cs) else if is_digit c then Some (digits_of s) else None)"

definition parse_fraction :: "string \<Rightarrow> (string \<times> string) option" where
  "parse_fraction s =
     (case s of
        c # cs \<Rightarrow>
          if c \<noteq> CHR ''.'' then Some ([], s)
          else let (d, r) = digits_of cs in if d = [] then None else Some (c # d, r)
      | [] \<Rightarrow> Some ([], []))"

definition parse_exponent :: "string \<Rightarrow> (string \<times> string) option" where
  "parse_exponent s =
     (case s of
        c # cs \<Rightarrow>
          if c \<noteq> CHR ''e'' \<and> c \<noteq> CHR ''E'' then Some ([], s)
          else let sign = (if cs \<noteq> [] \<and> hd cs \<in> {CHR ''+'', CHR ''-''} then [hd cs] else []);
                   (d, r) = digits_of (drop (length sign) cs)
               in if d = [] then None else Some (c # sign @ d, r)
      | [] \<Rightarrow> Some ([], []))"

definition parse_number :: "string \<Rightarrow> (string \<times> string) option" where
  "parse_number s =
     (let sign = (if s \<noteq> [] \<and> hd s = CHR ''-'' then ''-'' else [])
      in case parse_int_part (drop (length sign) s) of
           None \<Rightarrow> None
         | Some (a, r1) \<Rightarrow>
             (case parse_fraction r1 of
                None \<Rightarrow> None
              | Some (b, r2) \<Rightarrow>
                  (case parse_exponent r2 of
                     None \<Rightarrow> None
                   | Some (c, r3) \<Rightarrow> Some (sign @ a @ b @ c, r3))))"

subsection \<open>Values\<close>

definition maxNestingDepth :: nat where "maxNestingDepth = 10000"

text \<open>
  \<open>parse_value fuel depth\<close> reads one value at the front (white space skipped); \<open>parse_elems\<close> and
  \<open>parse_members\<close> read what follows an opening bracket or a comma, up to the closing bracket.
\<close>

fun parse_value :: "nat \<Rightarrow> nat \<Rightarrow> string \<Rightarrow> (jval \<times> string) option"
and parse_elems :: "nat \<Rightarrow> nat \<Rightarrow> string \<Rightarrow> (jval list \<times> string) option"
and parse_members :: "nat \<Rightarrow> nat \<Rightarrow> string \<Rightarrow> ((string \<times> jval) list \<times> string) option" where
  "parse_value 0 depth s = None"
| "parse_value (Suc n) depth s =
     (case skip_space s of
        [] \<Rightarrow> None
      | c # cs \<Rightarrow>
          if c = CHR 0x22 then map_option (\<lambda>(x, r). (VStr x, r)) (parse_string (Suc (length cs)) cs)
          else if c = CHR ''['' then
            (if depth = 0 then None
             else if has_prefix (skip_space cs) '']'' then Some (VArr [], tl (skip_space cs))
             else map_option (\<lambda>(x, r). (VArr x, r)) (parse_elems n (depth - 1) cs))
          else if c = CHR ''{'' then
            (if depth = 0 then None
             else if has_prefix (skip_space cs) ''}'' then Some (VObj [], tl (skip_space cs))
             else map_option (\<lambda>(x, r). (VObj x, r)) (parse_members n (depth - 1) cs))
          else if has_prefix (c # cs) ''null'' then Some (VNull, drop 4 (c # cs))
          else if has_prefix (c # cs) ''true'' then Some (VBool True, drop 4 (c # cs))
          else if has_prefix (c # cs) ''false'' then Some (VBool False, drop 5 (c # cs))
          else map_option (\<lambda>(x, r). (VNum x, r)) (parse_number (c # cs)))"
| "parse_elems 0 depth s = None"
| "parse_elems (Suc n) depth s =
     (case parse_value n depth s of
        None \<Rightarrow> None
      | Some (v, r) \<Rightarrow>
          (case skip_space r of
             [] \<Rightarrow> None
           | c # cs \<Rightarrow>
               if c = CHR '']'' then Some ([v], cs)
               else if c = CHR '','' then map_option (\<lambda>(vs, r). (v # vs, r)) (parse_elems n depth cs)
               else None))"
| "parse_members 0 depth s = None"
| "parse_members (Suc n) depth s =
     (case skip_space s of
        [] \<Rightarrow> None
      | q # ks \<Rightarrow>
          if q \<noteq> CHR 0x22 then None
          else case parse_string (Suc (length ks)) ks of
                 None \<Rightarrow> None
               | Some (k, r0) \<Rightarrow>
                   (case skip_space r0 of
                      [] \<Rightarrow> None
                    | colon # r1 \<Rightarrow>
                        if colon \<noteq> CHR '':'' then None
                        else case parse_value n depth r1 of
                               None \<Rightarrow> None
                             | Some (v, r) \<Rightarrow>
                                 (case skip_space r of
                                    [] \<Rightarrow> None
                                  | c # cs \<Rightarrow>
                                      if c = CHR ''}'' then Some ([(k, v)], cs)
                                      else if c = CHR '','' then map_option (\<lambda>(vs, r). ((k, v) # vs, r)) (parse_members n depth cs)
                                      else None)))"

definition parse_json :: "string \<Rightarrow> jval option" where
  "parse_json s =
     (case parse_value (Suc (length s)) maxNestingDepth s of
        Some (v, r) \<Rightarrow> if skip_space r = [] then Some v else None
      | None \<Rightarrow> None)"

lemma parse_json_examples:
  "parse_json (''{'' @ quote ''a'' @ '' : [1, -2.5e+3 ,null],'' @ quote ''b'' @ '':true}'')
     = Some (VObj [(''a'', VArr [VNum ''1'', VNum ''-2.5e+3'', VNull]), (''b'', VBool True)])"
  "parse_json ''[1,]'' = None" "parse_json ''01'' = None" "parse_json ''[] []'' = None" "parse_json ''{}'' = Some (VObj [])"
  by code_simp+

subsection \<open>Structs\<close>

text \<open>\<open>foldName\<close>: names are compared without case; the Kelvin sign and the long s fold to ASCII letters.\<close>

fun json_fold :: "string \<Rightarrow> string" where
  "json_fold [] = []"
| "json_fold (c # cs) =
     (if take 3 (c # cs) = [CHR 0xE2, CHR 0x84, CHR 0xAA] then CHR ''k'' # json_fold (drop 2 cs)
      else if take 2 (c # cs) = [CHR 0xC5, CHR 0xBF] then CHR ''s'' # json_fold (drop 1 cs)
      else lower_char c # json_fold cs)"

type_synonym 'a field_decoder = "jval \<Rightarrow> 'a \<Rightarrow> 'a option"

fun dec_fields :: "(string \<times> 'a field_decoder) list \<Rightarrow> (string \<times> jval) list \<Rightarrow> 'a \<Rightarrow> 'a option" where
  "dec_fields fs [] cur = Some cur"
| "dec_fields fs ((k, v) # kvs) cur =
     (case map_of fs (json_fold k) of
        None \<Rightarrow> dec_fields fs kvs cur
      | Some d \<Rightarrow> (case d v cur of None \<Rightarrow> None | Some cur' \<Rightarrow> dec_fields fs kvs cur'))"

definition dec_struct :: "(string \<times> 'a field_decoder) list \<Rightarrow> 'a field_decoder" where
  "dec_struct fs v cur = (case v of VNull \<Rightarrow> Some cur | VObj kvs \<Rightarrow> dec_fields fs kvs cur | _ \<Rightarrow> None)"

definition dec_string :: "(string \<Rightarrow> 'a \<Rightarrow> 'a) \<Rightarrow> 'a field_decoder" where
  "dec_string upd v cur = (case v of VNull \<Rightarrow> Some cur | VStr s \<Rightarrow> Some (upd s cur) | _ \<Rightarrow> None)"

definition dec_bool :: "(bool \<Rightarrow> 'a \<Rightarrow> 'a) \<Rightarrow> 'a field_decoder" where
  "dec_bool upd v cur = (case v of VNull \<Rightarrow> Some cur | VBool b \<Rightarrow> Some (upd b cur) | _ \<Rightarrow> None)"

text \<open>\<open>strconv.ParseInt\<close> of a number literal into 64 bits.\<close>

definition parse_int64 :: "string \<Rightarrow> int option" where
  "parse_int64 t =
     (let neg = has_prefix t ''-''; ds = (if neg then tl t else t);
          n = (if neg then - int (digits_value ds) else int (digits_value ds))
      in if ds = [] \<or> \<not> list_all is_digit ds \<or> n < - (2 ^ 63) \<or> n \<ge> 2 ^ 63 then None else Some n)"

definition dec_int :: "(int \<Rightarrow> 'a \<Rightarrow> 'a) \<Rightarrow> 'a field_decoder" where
  "dec_int upd v cur =
     (case v of VNull \<Rightarrow> Some cur
      | VNum t \<Rightarrow> (case parse_int64 t of None \<Rightarrow> None | Some n \<Rightarrow> Some (upd n cur))
      | _ \<Rightarrow> None)"

fun dec_texts :: "jval list \<Rightarrow> string list option" where
  "dec_texts [] = Some []"
| "dec_texts (v # vs) =
     (case v of VStr s \<Rightarrow> map_option ((#) s) (dec_texts vs) | VNull \<Rightarrow> map_option ((#) []) (dec_texts vs) | _ \<Rightarrow> None)"

definition dec_strings :: "(string list \<Rightarrow> 'a \<Rightarrow> 'a) \<Rightarrow> 'a field_decoder" where
  "dec_strings upd v cur =
     (case v of VNull \<Rightarrow> Some (upd [] cur) | VArr xs \<Rightarrow> map_option (\<lambda>ss. upd ss cur) (dec_texts xs) | _ \<Rightarrow> None)"

text \<open>A map from strings to strings, merged into the present one.\<close>

fun dec_pairs :: "(string \<times> jval) list \<Rightarrow> (string \<times> string) list \<Rightarrow> (string \<times> string) list option" where
  "dec_pairs [] m = Some m"
| "dec_pairs ((k, v) # kvs) m =
     (case v of
        VStr s \<Rightarrow> dec_pairs kvs (AList.update k s m)
      | VNull \<Rightarrow> dec_pairs kvs (AList.update k [] m)
      | _ \<Rightarrow> None)"

definition dec_map :: "('a \<Rightarrow> (string \<times> string) list option) \<Rightarrow> ((string \<times> string) list option \<Rightarrow> 'a \<Rightarrow> 'a) \<Rightarrow> 'a field_decoder" where
  "dec_map get upd v cur =
     (case v of
        VNull \<Rightarrow> Some (upd None cur)
      | VObj kvs \<Rightarrow> map_option (\<lambda>m. upd (Some m) cur) (dec_pairs kvs (case get cur of None \<Rightarrow> [] | Some m \<Rightarrow> m))
      | _ \<Rightarrow> None)"

definition dec_nested :: "('a \<Rightarrow> 'b) \<Rightarrow> ('b \<Rightarrow> 'a \<Rightarrow> 'a) \<Rightarrow> 'b field_decoder \<Rightarrow> 'a field_decoder" where
  "dec_nested get upd d v cur = map_option (\<lambda>x. upd x cur) (d v (get cur))"

definition Unmarshal :: "'a field_decoder \<Rightarrow> string \<Rightarrow> 'a \<Rightarrow> 'a option" where
  "Unmarshal d text cur = (case parse_json text of None \<Rightarrow> None | Some v \<Rightarrow> d v cur)"

subsection \<open>A marshalled document parses back\<close>

fun read_back :: "json \<Rightarrow> jval" where
  "read_back JNull = VNull"
| "read_back (JBool b) = VBool b"
| "read_back (JInt i) = VNum (show_int i)"
| "read_back (JStr s) = VStr s"
| "read_back (JArr xs) = VArr (map read_back xs)"
| "read_back (JObj kvs) = VObj (map (\<lambda>kv. (fst kv, read_back (snd kv))) kvs)"

fun nesting :: "json \<Rightarrow> nat" where
  "nesting (JArr xs) = Suc (fold max (map nesting xs) 0)"
| "nesting (JObj kvs) = Suc (fold max (map (\<lambda>kv. nesting (snd kv)) kvs) 0)"
| "nesting _ = 0"

lemma hex_digit_nibble: "n < 16 \<Longrightarrow> hex_digit (hex_nibble n) = Some n"
  by (auto simp: hex_digit_def hex_nibble_def Let_def)

lemma hex4_control: "of_char c < (128::nat) \<Longrightarrow>
    hex4 (CHR ''0'' # CHR ''0'' # hex_nibble (of_char c div 16) # hex_nibble (of_char c mod 16) # t) = Some (of_char c, t)"
proof -
  have "hex_digit (CHR ''0'') = Some 0" by (simp add: hex_digit_def)
  moreover assume "of_char c < (128::nat)"
  ultimately show ?thesis by (simp add: hex4_def hex_digit_nibble)
qed

lemma string_step_escape: "of_char c < (128::nat) \<Longrightarrow> string_step (escape_ascii c @ t) = Some ([c], t)"
  by (auto simp: escape_ascii_def string_step_def simple_escape_def unicode_escape_def hex4_control utf8_encode_def)

lemma parse_string_escape:
  "ascii s \<Longrightarrow> length (escape s) < n \<Longrightarrow> parse_string n (escape s @ CHR 0x22 # r) = Some (s, r)"
proof (induction s arbitrary: n)
  case Nil
  then show ?case by (cases n) auto
next
  case (Cons c s)
  then have c: "of_char c < (128::nat)" "ascii s" by (auto simp: ascii_def)
  obtain d ds where d: "escape_ascii c = d # ds" "d \<noteq> CHR 0x22" using escape_ascii_hd by blast
  obtain m where m: "n = Suc m" using Cons.prems by (cases n) auto
  have "length (escape s) < m" using Cons.prems(2) d c by (simp add: escape_ascii_Cons m)
  with Cons.IH [OF c(2)] have "parse_string m (escape s @ CHR 0x22 # r) = Some (s, r)" .
  moreover have "string_step (d # ds @ escape s @ CHR 0x22 # r) = Some ([c], escape s @ CHR 0x22 # r)"
    using string_step_escape [OF c(1)] d(1) by simp
  ultimately show ?case using d by (simp add: escape_ascii_Cons [OF c(1)] m)
qed

definition value_end :: "string \<Rightarrow> bool" where
  "value_end r = (r = [] \<or> hd r \<in> {CHR '','', CHR '']'', CHR ''}''})"

lemma show_nat_zero_head: "show_nat n = CHR ''0'' # cs \<Longrightarrow> cs = []"
proof (induction n arbitrary: cs rule: show_nat.induct)
  case (1 n)
  show ?case
  proof (cases "n < 10")
    case True
    with 1 show ?thesis by (simp add: show_nat.simps [of n])
  next
    case False
    then obtain x xs where x: "show_nat (n div 10) = x # xs" using show_nat_not_Nil by (cases "show_nat (n div 10)") auto
    then have "x = CHR ''0''" using 1(2) False by (simp add: show_nat.simps [of n])
    with 1(1) False x have "xs = []" by simp
    then have "digits_value (show_nat (n div 10)) = 0" using x \<open>x = CHR ''0''\<close> by (simp add: digits_value_def)
    then show ?thesis using False by (simp add: digits_value_show_nat)
  qed
qed

lemma take_digits: "\<forall>c \<in> set ds. is_digit c \<Longrightarrow> value_end r \<Longrightarrow> digits_of (ds @ r) = (ds, r)"
  by (cases r) (auto simp: digits_of_def value_end_def takeWhile_append dropWhile_append is_digit_def)

lemma parse_int_part_show: "value_end r \<Longrightarrow> parse_int_part (show_nat n @ r) = Some (show_nat n, r)"
proof -
  assume r: "value_end r"
  obtain c cs where c: "show_nat n = c # cs" using show_nat_not_Nil by (cases "show_nat n") auto
  then have "is_digit c" using show_nat_digits by (metis list.set_intros(1))
  then show ?thesis
    using c show_nat_zero_head [of n cs] take_digits [OF show_nat_digits r, of n] by (auto simp: parse_int_part_def)
qed

lemma value_end_stops: "value_end r \<Longrightarrow> parse_fraction r = Some ([], r)" "value_end r \<Longrightarrow> parse_exponent r = Some ([], r)"
  by (cases r; auto simp: value_end_def parse_fraction_def parse_exponent_def)+

lemma parse_number_show: "value_end r \<Longrightarrow> parse_number (show_int i @ r) = Some (show_int i, r)"
proof -
  assume r: "value_end r"
  obtain c cs where c: "show_nat (nat i) = c # cs" using show_nat_not_Nil by (cases "show_nat (nat i)") auto
  then have "is_digit c" using show_nat_digits by (metis list.set_intros(1))
  then have "c \<noteq> CHR ''-''" by (auto simp: is_digit_def)
  then show ?thesis
    using c parse_int_part_show [OF r, of "nat i"] parse_int_part_show [OF r, of "nat (- i)"] value_end_stops [OF r]
    by (auto simp: parse_number_def show_int_def)
qed

lemma skip_space_marshal: "skip_space (marshal v @ r) = marshal v @ r"
proof -
  obtain c cs where c: "marshal v = c # cs" "json_lead c = json_kind v" using marshal_head by blast
  have "\<not> json_space c"
  proof
    assume "json_space c"
    then have "json_lead c = 7" by (auto simp: json_space_def json_lead_def is_digit_def)
    with c(2) show False by (cases v) (auto split: if_splits)
  qed
  with c show ?thesis by (simp add: skip_space_def)
qed

declare parse_string.simps(2) [simp del]

lemma has_prefix_char: "has_prefix s [c] \<longleftrightarrow> s \<noteq> [] \<and> hd s = c"
  by (cases s) (auto simp: has_prefix_def)

text \<open>The elements of an array and the members of an object, given that each value parses back.\<close>

definition parses :: "json \<Rightarrow> bool" where
  "parses v = (\<forall>n d r. length (marshal v) < n \<longrightarrow> nesting v \<le> d \<longrightarrow> value_end r \<longrightarrow> parse_value n d (marshal v @ r) = Some (read_back v, r))"

lemma parsesD: "parses v \<Longrightarrow> length (marshal v) < n \<Longrightarrow> nesting v \<le> d \<Longrightarrow> value_end r \<Longrightarrow>
    parse_value n d (marshal v @ r) = Some (read_back v, r)"
  by (simp add: parses_def)

lemma value_end_simps [simp]: "value_end (CHR '','' # r)" "value_end (CHR '']'' # r)" "value_end (CHR ''}'' # r)"
  by (simp_all add: value_end_def)

lemma skip_space_stop [simp]:
  "skip_space (CHR '','' # r) = CHR '','' # r" "skip_space (CHR '']'' # r) = CHR '']'' # r" "skip_space (CHR ''}'' # r) = CHR ''}'' # r"
  "skip_space (CHR '':'' # r) = CHR '':'' # r" "skip_space (CHR 0x22 # r) = CHR 0x22 # r"
  by (simp_all add: skip_space_def json_space_def)

lemma parse_elems_join:
  "xs \<noteq> [] \<Longrightarrow> \<forall>x \<in> set xs. parses x \<and> nesting x \<le> d \<Longrightarrow> length (join '','' (map marshal xs)) + 1 < n \<Longrightarrow>
     parse_elems n d (join '','' (map marshal xs) @ CHR '']'' # r) = Some (map read_back xs, r)"
proof (induction xs arbitrary: n)
  case (Cons x xs)
  obtain m where m: "n = Suc m" using Cons.prems(3) by (cases n) auto
  show ?case
  proof (cases xs)
    case Nil
    then have "parse_value m d (marshal x @ CHR '']'' # r) = Some (read_back x, CHR '']'' # r)"
      using Cons.prems m by (intro parsesD) auto
    then show ?thesis by (simp add: Nil m)
  next
    case (Cons y ys)
    have "parse_value m d (marshal x @ CHR '','' # join '','' (map marshal xs) @ CHR '']'' # r)
        = Some (read_back x, CHR '','' # join '','' (map marshal xs) @ CHR '']'' # r)"
      using Cons.prems m Cons by (intro parsesD) auto
    moreover have "parse_elems m d (join '','' (map marshal xs) @ CHR '']'' # r) = Some (map read_back xs, r)"
      using Cons.prems m Cons by (intro Cons.IH) auto
    ultimately show ?thesis by (simp add: Cons m)
  qed
qed simp

lemma parse_member:
  assumes "ascii (fst kv)" and "parse_value m d (marshal (snd kv) @ c # t) = Some (x, c # t)"
  shows "c = CHR ''}'' \<Longrightarrow> parse_members (Suc m) d (field_text kv @ c # t) = Some ([(fst kv, x)], t)"
    and "c = CHR '','' \<Longrightarrow> parse_members (Suc m) d (field_text kv @ c # t) = map_option (\<lambda>(vs, r). ((fst kv, x) # vs, r)) (parse_members m d t)"
  using assms by (simp_all add: field_text_def quote_def parse_string_escape)

lemma parse_members_join:
  "kvs \<noteq> [] \<Longrightarrow> \<forall>kv \<in> set kvs. ascii (fst kv) \<and> parses (snd kv) \<and> nesting (snd kv) \<le> d \<Longrightarrow>
     length (join '','' (map field_text kvs)) + 1 < n \<Longrightarrow>
     parse_members n d (join '','' (map field_text kvs) @ CHR ''}'' # r) = Some (map (\<lambda>kv. (fst kv, read_back (snd kv))) kvs, r)"
proof (induction kvs arbitrary: n)
  case (Cons kv kvs)
  obtain m where m: "n = Suc m" using Cons.prems(3) by (cases n) auto
  have key: "ascii (fst kv)" using Cons.prems by simp
  show ?case
  proof (cases kvs)
    case Nil
    then have "parse_value m d (marshal (snd kv) @ CHR ''}'' # r) = Some (read_back (snd kv), CHR ''}'' # r)"
      using Cons.prems m by (intro parsesD) (auto simp: field_text_def)
    from parse_member(1) [OF key this] show ?thesis by (simp add: Nil m)
  next
    case (Cons y ys)
    let ?t = "join '','' (map field_text kvs) @ CHR ''}'' # r"
    have "parse_value m d (marshal (snd kv) @ CHR '','' # ?t) = Some (read_back (snd kv), CHR '','' # ?t)"
      using Cons.prems m Cons by (intro parsesD) (auto simp: field_text_def)
    from parse_member(2) [OF key this]
    have "parse_members n d (field_text kv @ CHR '','' # ?t) = map_option (\<lambda>(vs, r). ((fst kv, read_back (snd kv)) # vs, r)) (parse_members m d ?t)"
      by (simp add: m)
    moreover have "parse_members m d ?t = Some (map (\<lambda>kv. (fst kv, read_back (snd kv))) kvs, r)"
      using Cons.prems m Cons by (intro Cons.IH) (auto simp: field_text_def)
    moreover have "join '','' (map field_text (kv # kvs)) @ CHR ''}'' # r = field_text kv @ CHR '','' # ?t" by (simp add: Cons)
    ultimately show ?thesis by simp
  qed
qed simp

lemma fold_max_le: "(fold max xs (a::nat) \<le> b) = (a \<le> b \<and> (\<forall>x \<in> set xs. x \<le> b))"
  by (induction xs arbitrary: a) auto

lemma parses_ascii: "json_ascii v \<Longrightarrow> parses v"
proof (induction v)
  case (JInt i)
  obtain c cs where c: "show_int i = c # cs" "is_digit c \<or> c = CHR ''-''" using show_int_head by blast
  then have lead: "json_lead c = 6" by (intro json_lead_digit)
  show ?case unfolding parses_def
  proof (intro allI impI)
    fix n d r assume "length (marshal (JInt i)) < n" "value_end r"
    then obtain m where "n = Suc m" by (cases n) auto
    then show "parse_value n d (marshal (JInt i) @ r) = Some (read_back (JInt i), r)"
      using skip_space_marshal [of "JInt i" r] parse_number_show [OF \<open>value_end r\<close>, of i] c lead
      by (auto simp: json_lead_def has_prefix_def split: if_splits)
  qed
next
  case (JStr s)
  show ?case unfolding parses_def
  proof (intro allI impI)
    fix n d r assume "length (marshal (JStr s)) < n"
    then obtain m where "n = Suc m" by (cases n) auto
    moreover have "parse_string (Suc (length (escape s @ CHR 0x22 # r))) (escape s @ CHR 0x22 # r) = Some (s, r)"
      using JStr by (intro parse_string_escape) auto
    ultimately show "parse_value n d (marshal (JStr s) @ r) = Some (read_back (JStr s), r)" by (simp add: quote_def)
  qed
next
  case (JArr xs)
  then have all: "\<forall>x \<in> set xs. parses x" by (auto simp: list_all_iff)
  show ?case unfolding parses_def
  proof (intro allI impI)
    fix n d r assume n: "length (marshal (JArr xs)) < n" and d: "nesting (JArr xs) \<le> d"
    then obtain m where m: "n = Suc m" by (cases n) auto
    show "parse_value n d (marshal (JArr xs) @ r) = Some (read_back (JArr xs), r)"
    proof (cases xs)
      case Nil
      with d show ?thesis by (simp add: m skip_space_def json_space_def has_prefix_def)
    next
      case (Cons y ys)
      have "\<exists>z. join '','' (map marshal xs) @ CHR '']'' # r = marshal y @ z" by (cases ys) (simp_all add: Cons)
      then have "\<not> has_prefix (skip_space (join '','' (map marshal xs) @ CHR '']'' # r)) '']''"
        using marshal_close [of y] skip_space_marshal [of y] by (auto simp: has_prefix_char)
      moreover have "fold max (map nesting xs) 0 \<le> d - 1" using d by simp
      then have "parse_elems m (d - 1) (join '','' (map marshal xs) @ CHR '']'' # r) = Some (map read_back xs, r)"
        using n all unfolding fold_max_le by (intro parse_elems_join) (auto simp: m Cons)
      ultimately show ?thesis using d by (simp add: m skip_space_def json_space_def)
    qed
  qed
next
  case (JObj kvs)
  then have all: "\<forall>kv \<in> set kvs. ascii (fst kv) \<and> parses (snd kv)" by (force simp: list_all_iff)
  have obj: "marshal (JObj kvs) = CHR ''{'' # join '','' (map field_text kvs) @ ''}''" by (simp add: field_text_def [abs_def])
  show ?case unfolding parses_def
  proof (intro allI impI)
    fix n d r assume n: "length (marshal (JObj kvs)) < n" and d: "nesting (JObj kvs) \<le> d"
    then obtain m where m: "n = Suc m" by (cases n) auto
    show "parse_value n d (marshal (JObj kvs) @ r) = Some (read_back (JObj kvs), r)"
    proof (cases kvs)
      case Nil
      with d show ?thesis by (simp add: m skip_space_def json_space_def has_prefix_def)
    next
      case (Cons y ys)
      have "\<exists>z. join '','' (map field_text kvs) @ CHR ''}'' # r = CHR 0x22 # z" by (cases ys) (simp_all add: Cons field_text_def quote_def)
      then have "\<not> has_prefix (skip_space (join '','' (map field_text kvs) @ CHR ''}'' # r)) ''}''" by (auto simp: has_prefix_def)
      moreover have "fold max (map (\<lambda>kv. nesting (snd kv)) kvs) 0 \<le> d - 1" using d by simp
      then have "parse_members m (d - 1) (join '','' (map field_text kvs) @ CHR ''}'' # r) = Some (map (\<lambda>kv. (fst kv, read_back (snd kv))) kvs, r)"
        using n all unfolding obj fold_max_le
        by (intro parse_members_join) (auto simp: m Cons)
      ultimately show ?thesis using d unfolding obj by (simp add: m skip_space_def json_space_def)
    qed
  qed
qed (auto simp: parses_def skip_space_def json_space_def has_prefix_def neq_Nil_conv gr0_conv_Suc less_Suc_eq_0_disj Suc_less_eq2)

text \<open>A marshalled ASCII document parses back to itself: \<open>json.Unmarshal\<close> after \<open>json.Marshal\<close> loses nothing.\<close>

theorem parse_marshal:
  assumes "json_ascii v" and "nesting v \<le> maxNestingDepth"
  shows "parse_json (marshal v) = Some (read_back v)"
  using parsesD [OF parses_ascii [OF assms(1)], of "Suc (length (marshal v))" maxNestingDepth "[]"] assms(2)
  by (simp add: parse_json_def value_end_def skip_space_def)

end
