(* ===== verification/GithubBranch.thy ===== *)
theory GithubBranch
  imports GoUrl JsonDecode Domain
begin

text \<open>
  The adapter \<open>internal/adapters/githubbranch\<close> that publishes a commit on a new branch.  Its \<open>GitRunner\<close>
  interface is the record \<open>git_runner\<close> over an arbitrary state \<open>'w\<close> of the outside world: what
  \<open>git ls-remote\<close> reports and what \<open>git push\<close> with a lease on the absent branch does.
\<close>

subsection \<open>Errors of adapters\<close>

text \<open>
  The three adapters have error types of the same shape; a caller classifies an error by its type, so
  each has its own constructor.  \<open>pe_text\<close> is what \<open>Error()\<close> returns.
\<close>

record provider_error =
  pe_ambiguous :: bool
  pe_status :: int
  pe_class :: string
  pe_text :: string

datatype adapter_error =
    PlainError string
  | BranchError provider_error
  | DraftError provider_error
  | SlackError provider_error

fun adapter_text :: "adapter_error \<Rightarrow> string" where
  "adapter_text (PlainError s) = s"
| "adapter_text (BranchError p) = pe_text p"
| "adapter_text (DraftError p) = pe_text p"
| "adapter_text (SlackError p) = pe_text p"

subsection \<open>Types\<close>

record branch_input =
  bi_owner :: string
  bi_repo :: string
  bi_branch :: string
  bi_remote :: string
  bi_commit :: string
  bi_tree :: string
  bi_repository :: string

record branch_prepared =
  bp_input :: branch_input
  bp_absent :: bool
  bp_digest :: string
  bp_resources :: "(string \<times> string) list option"

record branch_preview =
  bv_repository :: string
  bv_branch :: string
  bv_commit :: string
  bv_tree :: string

record branch_receipt =
  bq_branch :: string
  bq_commit :: string
  bq_remote :: string
  bq_recovered :: bool
  bq_observed :: gotime

datatype branch_status =
    BranchNotFound
  | BranchCommitted branch_receipt string
  | BranchConflict string

record 'w git_runner =
  LSRemote :: "string \<Rightarrow> string \<Rightarrow> string \<Rightarrow> string \<Rightarrow> 'w \<Rightarrow> (string + string option) \<times> 'w"
  PushCreateOnly :: "string \<Rightarrow> string \<Rightarrow> string \<Rightarrow> string \<Rightarrow> string \<Rightarrow> 'w \<Rightarrow> (string + unit) \<times> 'w"

subsection \<open>JSON forms\<close>

definition branch_input_json :: "branch_input \<Rightarrow> json" where
  "branch_input_json i = JObj
     [(''owner'', JStr (bi_owner i)), (''repo'', JStr (bi_repo i)), (''branch'', JStr (bi_branch i)),
      (''remote_url'', JStr (bi_remote i)), (''commit_oid'', JStr (bi_commit i)), (''tree_oid'', JStr (bi_tree i)),
      (''repository'', JStr (bi_repository i))]"

definition branch_prepared_json :: "branch_prepared \<Rightarrow> json" where
  "branch_prepared_json p = JObj
     [(''input'', branch_input_json (bp_input p)), (''expected_absent'', JBool (bp_absent p)),
      (''request_digest'', JStr (bp_digest p)), (''resource_versions'', json_resources (bp_resources p))]"

definition branch_preview_json :: "branch_preview \<Rightarrow> json" where
  "branch_preview_json v = JObj
     [(''provider'', JStr ''github''), (''repository'', JStr (bv_repository v)), (''branch'', JStr (bv_branch v)),
      (''commit_oid'', JStr (bv_commit v)), (''tree_oid'', JStr (bv_tree v)), (''create_only'', JBool True)]"

definition branch_receipt_json :: "branch_receipt \<Rightarrow> json" where
  "branch_receipt_json r = JObj
     [(''branch'', JStr (bq_branch r)), (''commit_oid'', JStr (bq_commit r)), (''remote_url'', JStr (bq_remote r)),
      (''recovered'', JBool (bq_recovered r)), (''observed_at'', json_time (bq_observed r))]"

definition branch_input0 :: branch_input where
  "branch_input0 = \<lparr>bi_owner = [], bi_repo = [], bi_branch = [], bi_remote = [], bi_commit = [], bi_tree = [], bi_repository = []\<rparr>"

definition branch_prepared0 :: branch_prepared where
  "branch_prepared0 = \<lparr>bp_input = branch_input0, bp_absent = False, bp_digest = [], bp_resources = None\<rparr>"

definition dec_branch_input :: "branch_input field_decoder" where
  "dec_branch_input = dec_struct
     [(''owner'', dec_string (\<lambda>s i. i\<lparr>bi_owner := s\<rparr>)), (''repo'', dec_string (\<lambda>s i. i\<lparr>bi_repo := s\<rparr>)),
      (''branch'', dec_string (\<lambda>s i. i\<lparr>bi_branch := s\<rparr>)), (''remote_url'', dec_string (\<lambda>s i. i\<lparr>bi_remote := s\<rparr>)),
      (''commit_oid'', dec_string (\<lambda>s i. i\<lparr>bi_commit := s\<rparr>)), (''tree_oid'', dec_string (\<lambda>s i. i\<lparr>bi_tree := s\<rparr>)),
      (''repository'', dec_string (\<lambda>s i. i\<lparr>bi_repository := s\<rparr>))]"

definition dec_branch_prepared :: "branch_prepared field_decoder" where
  "dec_branch_prepared = dec_struct
     [(''input'', dec_nested bp_input (\<lambda>x p. p\<lparr>bp_input := x\<rparr>) dec_branch_input),
      (''expected_absent'', dec_bool (\<lambda>b p. p\<lparr>bp_absent := b\<rparr>)), (''request_digest'', dec_string (\<lambda>s p. p\<lparr>bp_digest := s\<rparr>)),
      (''resource_versions'', dec_map bp_resources (\<lambda>m p. p\<lparr>bp_resources := m\<rparr>))]"

subsection \<open>Normalization\<close>

definition safeName :: "string \<Rightarrow> bool" where
  "safeName v =
     (v \<noteq> [] \<and> \<not> has_prefix v ''.'' \<and> \<not> has_suffix v ''.'' \<and> \<not> contains v ''..'' \<and> set v \<inter> set (''/@?# '' @ [backslash]) = {}
      \<and> list_all (\<lambda>c. alnum c \<or> c \<in> set ''-_.'') v)"

definition safeBranch :: "string \<Rightarrow> bool" where
  "safeBranch v =
     (v \<noteq> [] \<and> v \<noteq> ''@'' \<and> \<not> has_prefix v ''-'' \<and> \<not> has_prefix v ''/'' \<and> \<not> has_suffix v ''/'' \<and> \<not> has_suffix v ''.''
      \<and> \<not> has_suffix v ''.lock'' \<and> \<not> contains v ''..'' \<and> \<not> contains v ''//'' \<and> \<not> contains v [CHR ''@'', CHR 0x7B]
      \<and> set v \<inter> set ('' ~^:?*['' @ [backslash]) = {} \<and> list_all (\<lambda>c. \<not> (of_char c < (32::nat) \<or> c = CHR 0x7F)) v)"

definition isOID :: "string \<Rightarrow> bool" where
  "isOID v = ((length v = 40 \<or> length v = 64) \<and> list_all (\<lambda>c. c \<in> set ''0123456789abcdef'') v)"

text \<open>\<open>filepath.Abs\<close> against the working directory.\<close>

definition abs_path :: "string \<Rightarrow> string \<Rightarrow> string" where
  "abs_path cwd p = (if has_prefix p ''/'' then path_clean p else path_join [cwd, p])"

definition branch_Normalize :: "string \<Rightarrow> branch_input \<Rightarrow> adapter_error + branch_input" where
  "branch_Normalize cwd i0 =
     (let i = \<lparr>bi_owner = trim_space (bi_owner i0), bi_repo = trim_space (bi_repo i0), bi_branch = trim_space (bi_branch i0),
               bi_remote = trim_space (bi_remote i0), bi_commit = to_lower (trim_space (bi_commit i0)),
               bi_tree = to_lower (trim_space (bi_tree i0)), bi_repository = trim_space (bi_repository i0)\<rparr>
      in try_bind (require (bi_owner i \<noteq> [] \<and> bi_repo i \<noteq> [] \<and> bi_repository i \<noteq> [])
           (PlainError ''owner, repo, and local repository are required'')) (\<lambda>_.
         try_bind (require (safeName (bi_owner i) \<and> safeName (bi_repo i)) (PlainError ''invalid GitHub owner or repository'')) (\<lambda>_.
         try_bind (require (safeBranch (bi_branch i) \<and> has_prefix (bi_branch i) ''futurediff/'')
           (PlainError ''branch must be a safe futurediff/* branch'')) (\<lambda>_.
         try_bind (require (isOID (bi_commit i) \<and> isOID (bi_tree i)) (PlainError ''full commit and tree object ids are required'')) (\<lambda>_.
         try_bind (case url_parse (bi_remote i) of
             None \<Rightarrow> Inl (PlainError ''remote_url must be a credential-free HTTPS URL'')
           | Some u \<Rightarrow>
               if url_scheme u \<noteq> ''https'' \<or> Hostname u = [] \<or> url_user u \<or> url_query u \<noteq> [] \<or> url_fragment u \<noteq> []
               then Inl (PlainError ''remote_url must be a credential-free HTTPS URL'') else Inr u) (\<lambda>u.
         try_bind (require (Port u = [] \<or> Port u = ''443'') (PlainError ''remote_url must use the default HTTPS port'')) (\<lambda>_.
         let want = ''/'' @ bi_owner i @ ''/'' @ bi_repo i @ ''.git''
         in try_bind (require (trim_suffix (EscapedPath u) ''/'' = want) (PlainError (''remote_url path must equal '' @ want))) (\<lambda>_.
            Inr (i\<lparr>bi_repository := abs_path cwd (bi_repository i)\<rparr>)))))))))"

definition branch_Destination :: "string \<Rightarrow> branch_input \<Rightarrow> adapter_error + string" where
  "branch_Destination cwd i = try_bind (branch_Normalize cwd i) (\<lambda>n. Inr (bi_remote n))"

subsection \<open>Provider calls\<close>

record 'w branch_adapter =
  ba_runner :: "'w git_runner"
  ba_cwd :: string

definition branch_Status ::
  "'w branch_adapter \<Rightarrow> gotime \<Rightarrow> branch_prepared \<Rightarrow> string \<Rightarrow> 'w \<Rightarrow> (adapter_error + branch_status) \<times> 'w" where
  "branch_Status a now p token w =
     (case branch_Normalize (ba_cwd a) (bp_input p) of
        Inl e \<Rightarrow> (Inl e, w)
      | Inr n \<Rightarrow>
          (case LSRemote (ba_runner a) (bi_repository n) (bi_remote n) (bi_branch n) token w of
             (Inl err, w1) \<Rightarrow> (Inl (BranchError \<lparr>pe_ambiguous = True, pe_status = 0, pe_class = ''status_unknown'', pe_text = err\<rparr>), w1)
           | (Inr None, w1) \<Rightarrow> (Inr BranchNotFound, w1)
           | (Inr (Some oid), w1) \<Rightarrow>
               (Inr (if map lower_char oid = map lower_char (bi_commit n)
                     then BranchCommitted \<lparr>bq_branch = bi_branch n, bq_commit = bi_commit n, bq_remote = bi_remote n,
                            bq_recovered = True, bq_observed = now\<rparr> oid
                     else BranchConflict oid), w1)))"

definition observed_oid :: "branch_status \<Rightarrow> string" where
  "observed_oid st = (case st of BranchNotFound \<Rightarrow> [] | BranchCommitted r oid \<Rightarrow> oid | BranchConflict oid \<Rightarrow> oid)"

definition branch_request_digest :: "branch_input \<Rightarrow> string" where
  "branch_request_digest n = Digest (json_map
     [(''remote_url'', JStr (bi_remote n)), (''branch'', JStr (bi_branch n)), (''commit_oid'', JStr (bi_commit n)),
      (''tree_oid'', JStr (bi_tree n)), (''expected_absent'', JBool True)])"

definition branch_resource :: "branch_input \<Rightarrow> string" where
  "branch_resource n = ''github://'' @ bi_owner n @ ''/'' @ bi_repo n @ ''/refs/heads/'' @ bi_branch n"

definition branch_Prepare ::
  "'w branch_adapter \<Rightarrow> gotime \<Rightarrow> branch_input \<Rightarrow> string \<Rightarrow> 'w \<Rightarrow> (adapter_error + branch_prepared \<times> branch_preview) \<times> 'w" where
  "branch_Prepare a now i token w =
     (case branch_Normalize (ba_cwd a) i of
        Inl e \<Rightarrow> (Inl e, w)
      | Inr n \<Rightarrow>
          (case branch_Status a now (branch_prepared0\<lparr>bp_input := n\<rparr>) token w of
             (Inl e, w1) \<Rightarrow> (Inl e, w1)
           | (Inr st, w1) \<Rightarrow>
               (if st \<noteq> BranchNotFound
                then (Inl (BranchError \<lparr>pe_ambiguous = False, pe_status = 0, pe_class = ''branch_already_exists'',
                       pe_text = ''remote branch '' @ bi_branch n @ '' already exists at '' @ observed_oid st\<rparr>), w1)
                else (Inr (\<lparr>bp_input = n, bp_absent = True, bp_digest = branch_request_digest n,
                            bp_resources = Some [(branch_resource n, ''absent'')]\<rparr>,
                           \<lparr>bv_repository = bi_owner n @ ''/'' @ bi_repo n, bv_branch = bi_branch n, bv_commit = bi_commit n,
                            bv_tree = bi_tree n\<rparr>), w1))))"

definition branch_VerifyFresh :: "'w branch_adapter \<Rightarrow> gotime \<Rightarrow> branch_prepared \<Rightarrow> string \<Rightarrow> 'w \<Rightarrow> (adapter_error + unit) \<times> 'w" where
  "branch_VerifyFresh a now p token w =
     (case branch_Status a now p token w of
        (Inl e, w1) \<Rightarrow> (Inl e, w1)
      | (Inr (BranchConflict oid), w1) \<Rightarrow>
          (Inl (BranchError \<lparr>pe_ambiguous = False, pe_status = 0, pe_class = ''stale_resource_version'',
             pe_text = ''remote branch '' @ bi_branch (bp_input p) @ '' appeared at '' @ oid\<rparr>), w1)
      | (Inr _, w1) \<Rightarrow> (Inr (), w1))"

definition branch_Publish :: "'w branch_adapter \<Rightarrow> gotime \<Rightarrow> branch_prepared \<Rightarrow> string \<Rightarrow> 'w \<Rightarrow> (adapter_error + branch_receipt) \<times> 'w" where
  "branch_Publish a now p token w =
     (if \<not> bp_absent p then (Inl (PlainError ''branch publication requires an absent-ref lease''), w)
      else let i = bp_input p
           in case PushCreateOnly (ba_runner a) (bi_repository i) (bi_remote i) (bi_branch i) (bi_commit i) token w of
                (Inl err, w1) \<Rightarrow>
                  (Inl (BranchError \<lparr>pe_ambiguous = True, pe_status = 0, pe_class = ''push_outcome_unknown'',
                     pe_text = ''Git branch publication outcome is unknown: '' @ err\<rparr>), w1)
              | (Inr _, w1) \<Rightarrow>
                  (case branch_Status a now p token w1 of
                     (Inl e, w2) \<Rightarrow>
                       (Inl (BranchError \<lparr>pe_ambiguous = True, pe_status = 0, pe_class = ''post_push_status_unknown'', pe_text = adapter_text e\<rparr>), w2)
                   | (Inr (BranchCommitted r oid), w2) \<Rightarrow> (Inr r, w2)
                   | (Inr st, w2) \<Rightarrow>
                       (Inl (BranchError \<lparr>pe_ambiguous = True, pe_status = 0, pe_class = ''post_push_mismatch'',
                          pe_text = ''remote branch did not resolve to approved commit; observed '' @ observed_oid st\<rparr>), w2)))"

subsection \<open>The default runner\<close>

text \<open>
  \<open>SecureGitRunner\<close> over a \<open>git\<close> command, which is outside the repository: from the working
  directory, the token and the arguments it gives the output, the exit code and whether it failed, with the
  error text.
\<close>

type_synonym 'w git_command = "string \<Rightarrow> string \<Rightarrow> string list \<Rightarrow> 'w \<Rightarrow> (string \<times> int \<times> string option) \<times> 'w"

fun fields_of :: "string \<Rightarrow> string \<Rightarrow> string list" where
  "fields_of cur [] = (if cur = [] then [] else [cur])"
| "fields_of cur (c # cs) =
     (if is_space c then (if cur = [] then fields_of [] cs else cur # fields_of [] cs) else fields_of (cur @ [c]) cs)"

definition SecureGitRunner :: "'w git_command \<Rightarrow> 'w git_runner" where
  "SecureGitRunner git = \<lparr>
     LSRemote = (\<lambda>repository remote branch token w.
       case git repository token [''ls-remote'', ''--exit-code'', remote, ''refs/heads/'' @ branch] w of
         ((out, exit_code, err), w1) \<Rightarrow>
           (if exit_code = 2 then (Inr None, w1)
            else (case err of
                    Some e \<Rightarrow> (Inl e, w1)
                  | None \<Rightarrow>
                      (let fs = fields_of [] out
                       in if length fs < 2 then (Inl ''git ls-remote returned malformed output'', w1)
                          else (Inr (Some (to_lower (hd fs))), w1))))),
     PushCreateOnly = (\<lambda>repository remote branch commit token w.
       case git repository token
           [''push'', ''--porcelain'', ''--force-with-lease=refs/heads/'' @ branch @ '':'', remote, commit @ '':refs/heads/'' @ branch] w of
         ((out, exit_code, err), w1) \<Rightarrow> ((case err of Some e \<Rightarrow> Inl e | None \<Rightarrow> Inr ()), w1))\<rparr>"

subsection \<open>What the calls guarantee\<close>

lemma branch_Normalize_ok:
  assumes "branch_Normalize cwd i = Inr n"
  shows "bi_owner n = trim_space (bi_owner i)" "safeName (bi_owner n)" "safeName (bi_repo n)" "safeBranch (bi_branch n)"
    "has_prefix (bi_branch n) ''futurediff/''" "isOID (bi_commit n)" "isOID (bi_tree n)"
    "\<exists>u. url_parse (bi_remote n) = Some u \<and> url_scheme u = ''https'' \<and> Hostname u \<noteq> [] \<and> \<not> url_user u \<and> (Port u = [] \<or> Port u = ''443'')
       \<and> trim_suffix (EscapedPath u) ''/'' = ''/'' @ bi_owner n @ ''/'' @ bi_repo n @ ''.git''"
  using assms unfolding branch_Normalize_def Let_def try_bind_Inr by (auto split: option.splits if_splits)

lemma branch_Prepare_ok:
  assumes "branch_Prepare a now i token w = (Inr (p, v), w')"
  shows "branch_Normalize (ba_cwd a) i = Inr (bp_input p)" "bp_absent p" "bp_digest p = branch_request_digest (bp_input p)"
    "bp_resources p = Some [(branch_resource (bp_input p), ''absent'')]"
  using assms by (auto simp: branch_Prepare_def split: sum.splits prod.splits if_splits)

text \<open>A publication that reports success was confirmed by a later read of the branch at the approved commit.\<close>

lemma branch_Publish_ok:
  assumes "branch_Publish a now p token w = (Inr r, w')"
  shows "bp_absent p" "\<exists>w1 oid. branch_Status a now p token w1 = (Inr (BranchCommitted r oid), w')"
  using assms by (auto simp: branch_Publish_def Let_def split: sum.splits prod.splits if_splits branch_status.splits)

lemma branch_Publish_error:
  assumes "branch_Publish a now p token w = (Inl e, w')" and "bp_absent p"
  shows "\<exists>x. e = BranchError x \<and> pe_ambiguous x"
  using assms by (auto simp: branch_Publish_def Let_def split: sum.splits prod.splits if_splits branch_status.splits)

end
