(* ===== verification/Actions.thy ===== *)
theory Actions
  imports Prelude
begin

text \<open>
  Code that runs in steps over a state and may fail: an action takes the state and gives an error
  or a value, with the state it leaves behind (an error does not undo the steps before it).  The combinators are
  those the sources use: one call after another, an early return, a call whose result is inspected or ignored, a
  loop.  The locale \<open>step_relation\<close> carries a reflexive and transitive relation between the states before and
  after through every combinator.
\<close>

type_synonym ('s, 'e, 'a) action = "'s \<Rightarrow> ('e + 'a) \<times> 's"

definition give :: "'a \<Rightarrow> ('s, 'e, 'a) action" where
  "give x s = (Inr x, s)"

definition fail :: "'e \<Rightarrow> ('s, 'e, 'a) action" where
  "fail e s = (Inl e, s)"

definition andThen :: "('s, 'e, 'a) action \<Rightarrow> ('a \<Rightarrow> ('s, 'e, 'b) action) \<Rightarrow> ('s, 'e, 'b) action" where
  "andThen m f s = (case m s of (Inl e, s') \<Rightarrow> (Inl e, s') | (Inr x, s') \<Rightarrow> f x s')"

definition result_of :: "('s, 'e, 'a) action \<Rightarrow> ('s, 'd, 'e + 'a) action" where
  "result_of m s = (Inr (fst (m s)), snd (m s))"

definition ignore :: "('s, 'e, 'a) action \<Rightarrow> ('s, 'd, unit) action" where
  "ignore m s = (Inr (), snd (m s))"

definition check :: "bool \<Rightarrow> 'e \<Rightarrow> ('s, 'e, unit) action" where
  "check c e s = ((if c then Inr () else Inl e), s)"

definition pass :: "'e + 'a \<Rightarrow> ('s, 'e, 'a) action" where
  "pass r s = (r, s)"

text \<open>On an error, run the handler and return the error.\<close>

definition on_error :: "('s, 'e, 'a) action \<Rightarrow> ('e \<Rightarrow> ('s, 'd, 'b) action) \<Rightarrow> ('s, 'e, 'a) action" where
  "on_error m h s = (case m s of (Inl e, s') \<Rightarrow> (Inl e, snd (h e s')) | (Inr x, s') \<Rightarrow> (Inr x, s'))"

fun each :: "('b \<Rightarrow> 'a \<Rightarrow> ('s, 'e, 'a) action) \<Rightarrow> 'b list \<Rightarrow> 'a \<Rightarrow> ('s, 'e, 'a) action" where
  "each f [] acc = give acc"
| "each f (x # xs) acc = andThen (f x acc) (each f xs)"

named_theorems action_simps \<open>unfold a successful action to the steps that succeeded\<close>

lemma give_Inr [action_simps]: "give x s = (Inr y, s') \<longleftrightarrow> y = x \<and> s' = s"
  by (auto simp: give_def)

lemma fail_Inr [action_simps]: "fail e s \<noteq> (Inr y, s')"
  by (simp add: fail_def)

lemma andThen_Inr [action_simps]:
  "andThen m f s = (Inr y, s') \<longleftrightarrow> (\<exists>x s1. m s = (Inr x, s1) \<and> f x s1 = (Inr y, s'))"
  by (auto simp: andThen_def split: prod.splits sum.splits)

lemma result_of_Inr [action_simps]: "result_of m s = (Inr r, s') \<longleftrightarrow> m s = (r, s')"
  by (auto simp: result_of_def prod_eq_iff)

lemma ignore_Inr [action_simps]: "ignore m s = (Inr u, s') \<longleftrightarrow> s' = snd (m s)"
  by (auto simp: ignore_def)

lemma check_Inr [action_simps]: "check c e s = (Inr u, s') \<longleftrightarrow> c \<and> s' = s"
  by (auto simp: check_def)

lemma pass_Inr [action_simps]: "pass r s = (Inr y, s') \<longleftrightarrow> r = Inr y \<and> s' = s"
  by (auto simp: pass_def)

lemma on_error_Inr [action_simps]: "on_error m h s = (Inr y, s') \<longleftrightarrow> m s = (Inr y, s')"
  by (auto simp: on_error_def split: prod.splits sum.splits)

subsection \<open>Relations that every step keeps\<close>

locale step_relation =
  fixes R :: "'s \<Rightarrow> 's \<Rightarrow> bool"
  assumes refl: "R s s"
    and trans: "R s t \<Longrightarrow> R t u \<Longrightarrow> R s u"
begin

definition keeps :: "('s, 'e, 'a) action \<Rightarrow> bool" where
  "keeps m = (\<forall>s. R s (snd (m s)))"

lemma keepsD: "keeps m \<Longrightarrow> R s (snd (m s))"
  by (simp add: keeps_def)

lemma keeps_run:
  assumes "keeps m" "m s = (r, s')"
  shows "R s s'"
  using keepsD[OF assms(1), of s] assms(2) by simp

lemma one_step: "\<forall>s. R s (snd (m s)) \<Longrightarrow> m s = (r, t) \<Longrightarrow> R s t"
  by (metis snd_conv)

lemma two_steps: "\<forall>s. R s (snd (m s)) \<Longrightarrow> m s = (r, t) \<Longrightarrow> R t u \<Longrightarrow> R s u"
  using trans[of s t u] by (metis snd_conv)

lemma keeps_give: "keeps (give x)" and keeps_fail: "keeps (fail e)" and keeps_check: "keeps (check c e')" and keeps_pass: "keeps (pass r)"
  by (simp_all add: keeps_def give_def fail_def check_def pass_def refl)

lemma keeps_andThen: "keeps m \<Longrightarrow> (\<And>x. keeps (f x)) \<Longrightarrow> keeps (andThen m f)"
  by (auto simp: keeps_def andThen_def split: prod.splits sum.splits intro: one_step two_steps)

lemma keeps_result_of: "keeps m \<Longrightarrow> keeps (result_of m)"
  by (simp add: keeps_def result_of_def)

lemma keeps_ignore: "keeps m \<Longrightarrow> keeps (ignore m)"
  by (simp add: keeps_def ignore_def)

lemma keeps_on_error: "keeps m \<Longrightarrow> (\<And>e. keeps (h e)) \<Longrightarrow> keeps (on_error m h)"
  by (auto simp: keeps_def on_error_def split: prod.splits sum.splits intro: one_step two_steps)

lemma keeps_each: "(\<And>x acc. keeps (f x acc)) \<Longrightarrow> keeps (each f xs acc)"
  by (induction xs arbitrary: acc) (simp_all add: keeps_give keeps_andThen)

lemmas keeps_rules = keeps_give keeps_fail keeps_check keeps_pass keeps_andThen keeps_result_of keeps_ignore keeps_on_error keeps_each

end

end
