(* ===== verification/Staging.thy ===== *)
theory Staging
  imports GithubBranch Actions
begin

text \<open>
  The staging manager \<open>internal/staging/git.go\<close>: inspecting a repository, creating a worktree for a
  transaction, capturing its patch, predicting and publishing the commit, and looking for a published reference.
  The \<open>git\<close> command and the file system are the record \<open>'w host\<close> over a state \<open>'w\<close> of the outside
  world, every call of which may fail.  The fault injector of \<open>Manager\<close> is used by tests only and is absent.
\<close>

subsection \<open>The host\<close>

text \<open>
  \<open>hs_git dir date args\<close> runs \<open>git\<close> in \<open>dir\<close> with the fixed environment of \<open>gitEnv\<close>, to
  which \<open>materializedCommitEnvironment\<close> adds author, committer and a \<open>date\<close>.
\<close>

record git_output =
  go_stdout :: string
  go_combined :: string
  go_stderr :: string
  go_failed :: "string option"

record 'w host =
  hs_git :: "string \<Rightarrow> string option \<Rightarrow> string list \<Rightarrow> 'w \<Rightarrow> git_output \<times> 'w"
  hs_links :: "string \<Rightarrow> 'w \<Rightarrow> string + string"
  hs_cwd :: string
  hs_exists :: "string \<Rightarrow> 'w \<Rightarrow> bool"
  hs_mkdir :: "string \<Rightarrow> 'w \<Rightarrow> (string + unit) \<times> 'w"
  hs_remove_all :: "string \<Rightarrow> 'w \<Rightarrow> 'w"
  hs_remove :: "string \<Rightarrow> 'w \<Rightarrow> 'w"
  hs_read :: "string \<Rightarrow> 'w \<Rightarrow> string + string"
  hs_write :: "string \<Rightarrow> string \<Rightarrow> 'w \<Rightarrow> (string + unit) \<times> 'w"
  hs_rename :: "string \<Rightarrow> string \<Rightarrow> 'w \<Rightarrow> (string + unit) \<times> 'w"

definition effectful :: "('w \<Rightarrow> 'w) \<Rightarrow> ('w, 'e, unit) action" where
  "effectful f w = (Inr (), f w)"

definition reading :: "('w \<Rightarrow> 'e + 'a) \<Rightarrow> ('w, 'e, 'a) action" where
  "reading f w = (f w, w)"

text \<open>Arguments that are the same in every call (\<open>gitCommand\<close>).\<close>

definition git_base :: "string list" where
  "git_base = [''--no-replace-objects'', ''-c'', ''core.hooksPath=/dev/null'', ''-c'', ''core.fsmonitor=false'', ''-c'', ''diff.external='',
     ''-c'', ''core.pager=cat'']"

definition runGit :: "'w host \<Rightarrow> string \<Rightarrow> string list \<Rightarrow> ('w, string, string) action" where
  "runGit h repo args w =
     (let (r, w1) = hs_git h repo None (git_base @ args) w
      in (case go_failed r of
            Some e \<Rightarrow> (Inl (''git ['' @ join '' '' args @ '']: '' @ e @ '': '' @ trim_space (go_stderr r)), w1)
          | None \<Rightarrow> (Inr (go_stdout r), w1)))"

definition gitText :: "'w host \<Rightarrow> string \<Rightarrow> string list \<Rightarrow> ('w, string, string) action" where
  "gitText h repo args = andThen (runGit h repo args) (\<lambda>b. give (trim_space b))"

subsection \<open>Inspecting a repository\<close>

datatype dirty_policy = RejectDirty | StageFromHead

fun dirty_text :: "dirty_policy \<Rightarrow> string" where
  "dirty_text RejectDirty = ''reject''"
| "dirty_text StageFromHead = ''stage_from_head''"

record inspect_result =
  in_root :: string
  in_common :: string
  in_head_ref :: string
  in_base :: string
  in_format :: string
  in_digest :: string
  in_dirty :: bool

definition nul :: char where "nul = CHR 0x00"

fun records_of :: "string \<Rightarrow> string list" where
  "records_of s = filter (\<lambda>r. r \<noteq> []) (split_on nul s)"

definition special_record :: "string \<Rightarrow> bool" where
  "special_record r = (case fields_of [] r of [] \<Rightarrow> False | f # _ \<Rightarrow> f = ''120000'' \<or> f = ''160000'')"

definition strictRepositoryChecks :: "'w host \<Rightarrow> string \<Rightarrow> ('w, string, unit) action" where
  "strictRepositoryChecks h root =
     andThen (runGit h root [''ls-files'', ''--stage'', ''-z'']) (\<lambda>staged.
     andThen (check (\<not> list_ex special_record (records_of staged)) ''strict mode rejects tracked symlinks and submodules'') (\<lambda>_.
     andThen (result_of (runGit h root [''check-attr'', ''-a'', ''--'', '':(top)**''])) (\<lambda>attrs.
     andThen (check (case attrs of Inl _ \<Rightarrow> True | Inr a \<Rightarrow> \<not> contains (to_lower a) ''filter:'') ''strict mode rejects Git content filters'') (\<lambda>_.
     each (\<lambda>scope _.
         andThen (result_of (runGit h root [''config'', ''--'' @ scope, ''--get-regexp'',
             ''^filter'' @ [backslash] @ ''..*'' @ [backslash] @ ''.(clean|smudge|process)$''])) (\<lambda>out.
         check (case out of Inl _ \<Rightarrow> True | Inr b \<Rightarrow> trim_space b = []) ''strict mode rejects configured Git filters''))
       [''local'', ''worktree''] ()))))"

definition Inspect :: "'w host \<Rightarrow> string \<Rightarrow> dirty_policy \<Rightarrow> ('w, string, inspect_result) action" where
  "Inspect h repository policy =
     andThen (gitText h repository [''rev-parse'', ''--show-toplevel'']) (\<lambda>root0.
     andThen (reading (hs_links h root0)) (\<lambda>root1.
     let root = abs_path (hs_cwd h) root1 in
     andThen (gitText h root [''rev-parse'', ''--git-common-dir'']) (\<lambda>common0.
     let common = abs_path (hs_cwd h) (if has_prefix common0 ''/'' then common0 else path_join [root, common0]) in
     andThen (gitText h root [''rev-parse'', ''HEAD^{commit}'']) (\<lambda>base.
     andThen (result_of (gitText h root [''symbolic-ref'', ''-q'', ''HEAD''])) (\<lambda>ref.
     andThen (gitText h root [''rev-parse'', ''--show-object-format'']) (\<lambda>format.
     andThen (runGit h root [''status'', ''--porcelain=v2'', ''-z'', ''--untracked-files=all'']) (\<lambda>status.
     andThen (check (status = [] \<or> policy \<noteq> RejectDirty) ''repository is dirty; use stage_from_head explicitly'') (\<lambda>_.
     andThen (strictRepositoryChecks h root) (\<lambda>_.
     give \<lparr>in_root = root, in_common = common, in_head_ref = (case ref of Inl _ \<Rightarrow> [] | Inr r \<Rightarrow> r), in_base = base,
           in_format = format, in_digest = SHA256Bytes status, in_dirty = (status \<noteq> [])\<rparr>)))))))))"

subsection \<open>Workspaces\<close>

definition staging_Create :: "'w host \<Rightarrow> string \<Rightarrow> gotime \<Rightarrow> string \<Rightarrow> inspect_result \<Rightarrow> dirty_policy \<Rightarrow> ('w, string, workspace) action" where
  "staging_Create h runtime now tid inspect policy =
     (let root = path_join [runtime, ''transactions'', tid]; worktree = path_join [root, ''workspace'']; artifacts = path_join [root, ''artifacts''] in
      andThen (reading (\<lambda>w. if hs_exists h root w then Inl ''transaction runtime path already exists'' else Inr ())) (\<lambda>_.
      andThen (hs_mkdir h artifacts) (\<lambda>_.
      andThen (on_error (runGit h (in_root inspect) [''worktree'', ''add'', ''--detach'', worktree, in_base inspect])
        (\<lambda>_. effectful (hs_remove_all h root) :: ('w, string, unit) action)) (\<lambda>_.
      give \<lparr>ws_tx = tid, ws_root = in_root inspect, ws_git_dir = in_common inspect, ws_head_ref = in_head_ref inspect,
            ws_base_oid = in_base inspect, ws_object_format = in_format inspect, ws_path = worktree, ws_artifacts = artifacts,
            ws_dirty_policy = dirty_text policy, ws_status_digest = in_digest inspect, ws_created = now\<rparr>))))"

definition patch_material :: "workspace \<Rightarrow> string \<Rightarrow> string \<Rightarrow> string list \<Rightarrow> json" where
  "patch_material ws sha tree paths = json_map
     [(''format_version'', JStr ''0.1''), (''transaction_id'', JStr (ws_tx ws)), (''base_oid'', JStr (ws_base_oid ws)),
      (''patch_sha256'', JStr sha), (''staged_tree_oid'', JStr tree), (''changed_paths'', json_strs paths)]"

definition Capture :: "'w host \<Rightarrow> gotime \<Rightarrow> workspace \<Rightarrow> ('w, string, patch) action" where
  "Capture h now ws =
     andThen (runGit h (ws_path ws) [''add'', ''-A'']) (\<lambda>_.
     andThen (runGit h (ws_path ws) [''diff'', ''--cached'', ''--binary'', ''--full-index'', ''--no-ext-diff'']) (\<lambda>diff.
     andThen (gitText h (ws_path ws) [''write-tree'']) (\<lambda>tree.
     andThen (runGit h (ws_path ws) [''diff'', ''--cached'', ''--name-only'', ''-z'']) (\<lambda>names.
     let paths = sort (records_of names); sha = SHA256Bytes diff; patch_path = path_join [ws_artifacts ws, ''staged.patch''] in
     andThen (hs_write h (patch_path @ ''.tmp'') diff) (\<lambda>_.
     andThen (hs_rename h (patch_path @ ''.tmp'') patch_path) (\<lambda>_.
     give \<lparr>pa_tx = ws_tx ws, pa_path = patch_path, pa_sha = sha, pa_size = int (length diff), pa_tree = tree, pa_changed = paths,
           pa_material = Digest (patch_material ws sha tree paths), pa_generated = now\<rparr>))))))"

text \<open>The \<open>Abort\<close> of the manager: an error of \<open>git\<close> is returned, but every caller discards it.\<close>

definition staging_Abort :: "'w host \<Rightarrow> workspace \<Rightarrow> ('w, string, unit) action" where
  "staging_Abort h ws =
     (if ws_path ws = [] then give ()
      else andThen (runGit h (ws_root ws) [''worktree'', ''remove'', ''--force'', ws_path ws]) (\<lambda>_.
           ignore (runGit h (ws_root ws) [''worktree'', ''prune'', ''--expire'', ''now''])))"

subsection \<open>The source branch\<close>

definition head_commit :: "'w host \<Rightarrow> workspace \<Rightarrow> ('w, string, string) action" where
  "head_commit h ws = gitText h (ws_root ws) [''rev-parse'', ''--verify'', ws_head_ref ws @ ''^{commit}'']"

definition verifySourcePinned :: "'w host \<Rightarrow> workspace \<Rightarrow> ('w, string, unit) action" where
  "verifySourcePinned h ws =
     (if ws_head_ref ws = [] then give ()
      else andThen (head_commit h ws) (\<lambda>current.
           check (current = ws_base_oid ws) (''source ref is stale: expected '' @ ws_base_oid ws @ '' got '' @ current)))"

definition SourcePinned :: "'w host \<Rightarrow> workspace \<Rightarrow> ('w, string, bool \<times> string) action" where
  "SourcePinned h ws =
     (if ws_head_ref ws = [] then give (True, ws_base_oid ws)
      else andThen (head_commit h ws) (\<lambda>current. give (current = ws_base_oid ws, current)))"

subsection \<open>The commit\<close>

definition integration_ref :: "string \<Rightarrow> string" where
  "integration_ref tid = ''refs/heads/futurediff/'' @ tid"

definition commit_stamp :: "gotime \<Rightarrow> string" where
  "commit_stamp at = show_int (at div 1000000000) @ '' +0000''"

definition PredictMaterializedRef :: "'w host \<Rightarrow> workspace \<Rightarrow> patch \<Rightarrow> ('w, string, materialized_ref) action" where
  "PredictMaterializedRef h ws p =
     andThen (reading (hs_read h (pa_path p))) (\<lambda>raw.
     andThen (check (SHA256Bytes raw = pa_sha p) ''stored patch digest mismatch'') (\<lambda>_.
     andThen (\<lambda>w. let (r, w1) = hs_git h (ws_root ws) (Some (commit_stamp (pa_generated p)))
                     (git_base @ [''commit-tree'', pa_tree p, ''-p'', ws_base_oid ws, ''-m'', ''FutureDiff transaction '' @ ws_tx ws]) w
                  in ((case go_failed r of Some e \<Rightarrow> Inl (''git commit-tree: '' @ e @ '': '' @ trim_space (go_combined r))
                       | None \<Rightarrow> Inr (trim_space (go_combined r))), w1)) (\<lambda>commit.
     andThen (check (commit \<noteq> []) ''git commit-tree returned an empty object id'') (\<lambda>_.
     give \<lparr>mr_tx = ws_tx ws, mr_ref = integration_ref (ws_tx ws), mr_commit = commit, mr_tree = pa_tree p, mr_at = pa_generated p\<rparr>))))"

text \<open>Run an action and then, whether it failed or not, the deferred clean-up.\<close>

definition deferring :: "('s, 'e, 'a) action \<Rightarrow> ('s \<Rightarrow> 's) \<Rightarrow> ('s, 'e, 'a) action" where
  "deferring m f s = (case m s of (r, s1) \<Rightarrow> (r, f s1))"

definition show_tree :: "'w host \<Rightarrow> string \<Rightarrow> string \<Rightarrow> ('w, string, string) action" where
  "show_tree h repo commit = gitText h repo [''show'', ''-s'', ''--format=%T'', commit]"

definition publish_ref :: "'w host \<Rightarrow> workspace \<Rightarrow> patch \<Rightarrow> string \<Rightarrow> materialized_ref \<Rightarrow> ('w, string, materialized_ref) action" where
  "publish_ref h ws p integration predicted =
     andThen (runGit h integration [''apply'', ''--index'', ''--binary'', ''--whitespace=nowarn'', pa_path p]) (\<lambda>_.
     andThen (gitText h integration [''write-tree'']) (\<lambda>tree.
     andThen (check (tree = pa_tree p) (''materialized tree mismatch: '' @ tree @ '' != '' @ pa_tree p)) (\<lambda>_.
     andThen (show_tree h (ws_root ws) (mr_commit predicted)) (\<lambda>verified.
     andThen (check (verified = pa_tree p) (''predicted commit tree mismatch: '' @ verified @ '' != '' @ pa_tree p)) (\<lambda>_.
     andThen (runGit h (ws_root ws) [''update-ref'', mr_ref predicted, mr_commit predicted, replicate (length (mr_commit predicted)) (CHR ''0'')]) (\<lambda>_.
     give predicted))))))"

definition Materialize :: "'w host \<Rightarrow> string \<Rightarrow> workspace \<Rightarrow> patch \<Rightarrow> ('w, string, materialized_ref) action" where
  "Materialize h runtime ws p =
     (let integration_root = path_join [runtime, ''integrations'', ws_tx ws]; integration = path_join [integration_root, ''workspace''] in
      andThen (verifySourcePinned h ws) (\<lambda>_.
      andThen (PredictMaterializedRef h ws p) (\<lambda>predicted.
      andThen (hs_mkdir h integration_root) (\<lambda>_.
      deferring
        (andThen (runGit h (ws_root ws) [''worktree'', ''add'', ''--detach'', integration, ws_base_oid ws]) (\<lambda>_.
         deferring (publish_ref h ws p integration predicted)
           (\<lambda>w. snd (runGit h (ws_root ws) [''worktree'', ''prune'', ''--expire'', ''now'']
              (snd (runGit h (ws_root ws) [''worktree'', ''remove'', ''--force'', integration] w))))))
        (hs_remove_all h integration_root)))))"

definition InspectIntegrationRef :: "'w host \<Rightarrow> gotime \<Rightarrow> workspace \<Rightarrow> patch \<Rightarrow> ('w, string, materialized_ref option) action" where
  "InspectIntegrationRef h now ws p =
     andThen (result_of (gitText h (ws_root ws) [''rev-parse'', ''--verify'', integration_ref (ws_tx ws) @ ''^{commit}''])) (\<lambda>found.
     case found of
       Inl _ \<Rightarrow> give None
     | Inr commit \<Rightarrow>
         andThen (show_tree h (ws_root ws) commit) (\<lambda>tree.
         andThen (check (tree = pa_tree p) ''existing integration ref has unexpected tree'') (\<lambda>_.
         give (Some \<lparr>mr_tx = ws_tx ws, mr_ref = integration_ref (ws_tx ws), mr_commit = commit, mr_tree = tree, mr_at = now\<rparr>))))"

subsection \<open>What the calls guarantee\<close>

text \<open>A published reference names the predicted commit, whose tree git itself reported to be the approved one.\<close>

lemma PredictMaterializedRef_ok:
  assumes "PredictMaterializedRef h ws p w = (Inr r, w')"
  shows "mr_tx r = ws_tx ws" "mr_ref r = integration_ref (ws_tx ws)" "mr_tree r = pa_tree p" "mr_commit r \<noteq> []"
    "\<exists>raw. hs_read h (pa_path p) w = Inr raw \<and> SHA256Bytes raw = pa_sha p"
  using assms by (auto simp: PredictMaterializedRef_def action_simps reading_def)

lemma deferring_Inr [action_simps]: "deferring m f s = (Inr y, s') \<longleftrightarrow> (\<exists>s1. m s = (Inr y, s1) \<and> s' = f s1)"
  by (auto simp: deferring_def split: prod.splits)

lemma Materialize_ok:
  assumes "Materialize h runtime ws p w = (Inr r, w')"
  shows "mr_tx r = ws_tx ws" "mr_ref r = integration_ref (ws_tx ws)" "mr_tree r = pa_tree p" "mr_commit r \<noteq> []"
    "\<exists>w1 w2. show_tree h (ws_root ws) (mr_commit r) w1 = (Inr (pa_tree p), w2)"
proof -
  obtain w1 w2 where "PredictMaterializedRef h ws p w1 = (Inr r, w2)" and "\<exists>w1 w2. show_tree h (ws_root ws) (mr_commit r) w1 = (Inr (pa_tree p), w2)"
    using assms unfolding Materialize_def Let_def publish_ref_def action_simps by blast
  with PredictMaterializedRef_ok [OF this(1)] show "mr_tx r = ws_tx ws" "mr_ref r = integration_ref (ws_tx ws)"
      "mr_tree r = pa_tree p" "mr_commit r \<noteq> []" "\<exists>w1 w2. show_tree h (ws_root ws) (mr_commit r) w1 = (Inr (pa_tree p), w2)"
    by auto
qed

lemma InspectIntegrationRef_ok:
  assumes "InspectIntegrationRef h now ws p w = (Inr (Some r), w')"
  shows "mr_tx r = ws_tx ws" "mr_ref r = integration_ref (ws_tx ws)" "mr_tree r = pa_tree p"
  proof -
  obtain found :: "string + string" and w1 where "(case found of Inl _ \<Rightarrow> give None
      | Inr commit \<Rightarrow> andThen (show_tree h (ws_root ws) commit) (\<lambda>tree.
          andThen (check (tree = pa_tree p) ''existing integration ref has unexpected tree'') (\<lambda>_.
          give (Some \<lparr>mr_tx = ws_tx ws, mr_ref = integration_ref (ws_tx ws), mr_commit = commit, mr_tree = tree, mr_at = now\<rparr>))))
        w1 = (Inr (Some r), w')"
    using assms unfolding InspectIntegrationRef_def action_simps by blast
  then show "mr_tx r = ws_tx ws" "mr_ref r = integration_ref (ws_tx ws)" "mr_tree r = pa_tree p"
    by (cases found; auto simp: action_simps)+
qed

text \<open>Any failure of \<open>git rev-parse\<close> is read as the absence of the reference.\<close>

lemma InspectIntegrationRef_failure:
  assumes "go_failed (fst (hs_git h (ws_root ws) None
      (git_base @ [''rev-parse'', ''--verify'', integration_ref (ws_tx ws) @ ''^{commit}'']) w)) = Some e"
  shows "\<exists>w'. InspectIntegrationRef h now ws p w = (Inr None, w')"
proof -
  have "\<exists>e w1. gitText h (ws_root ws) [''rev-parse'', ''--verify'', integration_ref (ws_tx ws) @ ''^{commit}''] w = (Inl e, w1)"
    using assms by (simp add: gitText_def andThen_def runGit_def case_prod_beta Let_def)
  then show ?thesis by (auto simp: InspectIntegrationRef_def andThen_def result_of_def give_def)
qed

end
