(* ===== verification/RuntimeOci.thy ===== *)
theory RuntimeOci
  imports Staging
begin

text \<open>
  The container runtime \<open>internal/runtimeoci/runtime.go\<close>: the policy, the command line of a run, the
  bounded capture of its output, the sanitized copy of the workspace into the container's directory and back, and
  a run from validation to evidence.  Processes, directories and the file system are the record \<open>'w oci_host\<close>.
  A directory tree is the list of its entries in the lexical order of \<open>filepath.WalkDir\<close>, each with its path
  relative to the root; permission bits are not modelled.
\<close>

subsection \<open>Types\<close>

datatype runtime_kind = Docker | Podman
datatype oci_purpose = Mutation | Verification
datatype termination_reason = Exited | TimedOut | Cancelled | RuntimeError

fun runtime_text :: "runtime_kind \<Rightarrow> string" where
  "runtime_text Docker = ''docker''" | "runtime_text Podman = ''podman''"

fun purpose_text :: "oci_purpose \<Rightarrow> string" where
  "purpose_text Mutation = ''mutation''" | "purpose_text Verification = ''verification''"

fun reason_text :: "termination_reason \<Rightarrow> string" where
  "reason_text Exited = ''exited''" | "reason_text TimedOut = ''timed_out''" | "reason_text Cancelled = ''cancelled''"
| "reason_text RuntimeError = ''runtime_error''"

record backend =
  bn_kind :: runtime_kind
  bn_binary :: string
  bn_version :: string
  bn_rootless :: bool
  bn_info :: string

record oci_policy =
  op_image :: string
  op_cpus :: string
  op_memory :: string
  op_pids :: int
  op_network :: string
  op_timeout :: int
  op_output :: int
  op_bytes :: int
  op_files :: int
  op_tmpfs :: string
  op_rootless :: bool
  op_readonly :: bool
  op_drop :: bool
  op_nonew :: bool

record oci_request =
  oq_tx :: string
  oq_execution :: string
  oq_workspace :: string
  oq_command :: "string list"
  oq_environment :: "(string \<times> string) list"
  oq_purpose :: oci_purpose
  oq_sync :: bool

record oci_evidence =
  oe_tx :: string
  oe_execution :: string
  oe_runtime :: backend
  oe_image :: string
  oe_image_digest :: string
  oe_command :: string
  oe_environment :: string
  oe_policy :: string
  oe_started :: gotime
  oe_finished :: gotime
  oe_exit :: int
  oe_reason :: termination_reason
  oe_stdout :: int
  oe_stderr :: int
  oe_stdout_cut :: bool
  oe_stderr_cut :: bool
  oe_synced :: bool

record oci_result =
  or_stdout :: string
  or_stderr :: string
  or_evidence :: oci_evidence

definition CombinedOutput :: "oci_result \<Rightarrow> string" where
  "CombinedOutput r = or_stdout r @ or_stderr r"

subsection \<open>JSON forms and digests\<close>

definition backend_json :: "backend \<Rightarrow> json" where
  "backend_json b = JObj
     ([(''kind'', JStr (runtime_text (bn_kind b))), (''binary'', JStr (bn_binary b)), (''version'', JStr (bn_version b)),
       (''rootless'', JBool (bn_rootless b))] @ opt_field ''server_info'' (bn_info b))"

definition oci_policy_json :: "oci_policy \<Rightarrow> json" where
  "oci_policy_json p = JObj
     [(''image'', JStr (op_image p)), (''cpus'', JStr (op_cpus p)), (''memory'', JStr (op_memory p)), (''pids'', JInt (op_pids p)),
      (''network'', JStr (op_network p)), (''timeout'', JInt (op_timeout p)), (''max_output_bytes'', JInt (op_output p)),
      (''max_workspace_bytes'', JInt (op_bytes p)), (''max_workspace_files'', JInt (op_files p)), (''tmpfs_size'', JStr (op_tmpfs p)),
      (''require_rootless'', JBool (op_rootless p)), (''read_only_root'', JBool (op_readonly p)),
      (''drop_all_capabilities'', JBool (op_drop p)), (''no_new_privileges'', JBool (op_nonew p))]"

definition evidence_json :: "oci_evidence \<Rightarrow> json" where
  "evidence_json e = JObj
     [(''transaction_id'', JStr (oe_tx e)), (''execution_id'', JStr (oe_execution e)), (''runtime'', backend_json (oe_runtime e)),
      (''image'', JStr (oe_image e)), (''image_digest'', JStr (oe_image_digest e)), (''command_digest'', JStr (oe_command e)),
      (''environment_digest'', JStr (oe_environment e)), (''policy_digest'', JStr (oe_policy e)),
      (''started_at'', json_time (oe_started e)), (''finished_at'', json_time (oe_finished e)),
      (''duration'', JInt (oe_finished e - oe_started e)), (''exit_code'', JInt (oe_exit e)),
      (''termination_reason'', JStr (reason_text (oe_reason e))), (''stdout_bytes'', JInt (oe_stdout e)),
      (''stderr_bytes'', JInt (oe_stderr e)), (''stdout_truncated'', JBool (oe_stdout_cut e)),
      (''stderr_truncated'', JBool (oe_stderr_cut e)), (''workspace_synchronized'', JBool (oe_synced e))]"

definition tagged_digest :: "string \<Rightarrow> string" where
  "tagged_digest b = ''sha256:'' @ sha256_hex b"

definition digestStrings :: "string list \<Rightarrow> string" where
  "digestStrings vs = tagged_digest (concat (map (\<lambda>v. v @ [nul]) vs))"

definition digestEnvironment :: "(string \<times> string) list \<Rightarrow> string" where
  "digestEnvironment env = tagged_digest (concat (map (\<lambda>(k, v). k @ [nul] @ v @ [nul]) (sort_key fst env)))"

subsection \<open>The policy and the command line\<close>

definition hex64 :: "string \<Rightarrow> bool" where
  "hex64 s = (length s = 64 \<and> list_all (\<lambda>c. c \<in> set ''0123456789abcdefABCDEF'') s)"

text \<open>\<open>^[^\s@]+@sha256:[a-fA-F0-9]{64}$\<close>\<close>

definition digestImage :: "string \<Rightarrow> bool" where
  "digestImage s =
     (let (name, rest) = cut (CHR ''@'') s
      in CHR ''@'' \<in> set s \<and> name \<noteq> [] \<and> list_all (\<lambda>c. c \<notin> {CHR '' '', CHR 0x09, CHR 0x0A, CHR 0x0C, CHR 0x0D}) name
         \<and> has_prefix rest ''sha256:'' \<and> hex64 (drop 7 rest))"

definition DefaultPolicy :: "string \<Rightarrow> oci_policy" where
  "DefaultPolicy img = \<lparr>op_image = img, op_cpus = ''2.0'', op_memory = ''2g'', op_pids = 256, op_network = ''none'',
     op_timeout = 600000000000, op_output = 1048576, op_bytes = 2147483648, op_files = 100000, op_tmpfs = ''256m'', op_rootless = True,
     op_readonly = True, op_drop = True, op_nonew = True\<rparr>"

definition Validate_oci :: "oci_policy \<Rightarrow> string + unit" where
  "Validate_oci p =
     try_bind (require (digestImage (op_image p)) ''image must be pinned by sha256 digest'') (\<lambda>_.
     try_bind (require (op_network p = ''none'') ''enforced mode requires network=none'') (\<lambda>_.
     try_bind (require (op_rootless p \<and> op_readonly p \<and> op_drop p \<and> op_nonew p)
       ''enforced mode requires rootless runtime, read-only root, dropped capabilities, and no-new-privileges'') (\<lambda>_.
     try_bind (require (op_pids p > 0 \<and> op_timeout p > 0 \<and> op_output p > 0 \<and> op_bytes p > 0 \<and> op_files p > 0)
       ''resource limits must be positive'') (\<lambda>_.
     require (op_cpus p \<noteq> [] \<and> op_memory p \<noteq> [] \<and> op_tmpfs p \<noteq> []) ''cpu, memory, and tmpfs limits are required''))))"

definition sandbox_args :: "string \<Rightarrow> oci_policy \<Rightarrow> string list" where
  "sandbox_args workspace p =
     [''run'', ''--rm'', ''--init'', ''--pull=never'', ''--read-only'', ''--network'', ''none'', ''--cap-drop'', ''ALL'', ''--security-opt'',
      ''no-new-privileges'', ''--pids-limit'', show_int (op_pids p), ''--memory'', op_memory p, ''--cpus'', op_cpus p, ''--tmpfs'',
      ''/tmp:rw,noexec,nosuid,nodev,size='' @ op_tmpfs p, ''--mount'', ''type=bind,src='' @ workspace @ '',dst=/workspace'',
      ''--workdir'', ''/workspace'']"

text \<open>\<open>ids\<close> is the user and group of the daemon, as text.\<close>

definition BuildPlan :: "string \<Rightarrow> string \<Rightarrow> backend \<Rightarrow> string \<Rightarrow> string list \<Rightarrow> oci_policy \<Rightarrow> string + string list" where
  "BuildPlan cwd ids b workspace0 command p =
     try_bind (Validate_oci p) (\<lambda>_.
     try_bind (require (bn_binary b \<noteq> []) ''runtime backend required'') (\<lambda>_.
     try_bind (require (op_rootless p \<longrightarrow> bn_rootless b) ''runtime is not rootless'') (\<lambda>_.
     try_bind (require (command \<noteq> []) ''command required'') (\<lambda>_.
     let workspace = abs_path cwd workspace0 in
     try_bind (require (set workspace \<inter> {CHR '','', CHR 0x0A, CHR 0x0D} = {}) ''workspace path is not safe for OCI mount syntax'') (\<lambda>_.
     Inr (sandbox_args workspace p
          @ (if bn_kind b = Podman then [''--userns'', ''keep-id'', ''--user'', ids] else [''--user'', ''0:0''])
          @ [''--env'', ''HOME=/tmp/futurediff-home'', ''--env'', ''TMPDIR=/tmp'', op_image p] @ command))))))"

text \<open>\<open>Execute\<close> puts the entries of the environment before the img.\<close>

definition with_environment :: "(string \<times> string) list \<Rightarrow> nat \<Rightarrow> string list \<Rightarrow> string list" where
  "with_environment env commands args =
     (if env = [] then args
      else let img = length args - commands - 1
           in take img args @ concat (map (\<lambda>(k, v). [''--env'', k @ ''='' @ v]) (sort_key fst env)) @ drop img args)"

definition sensitive_markers :: "string list" where
  "sensitive_markers = [''TOKEN'', ''SECRET'', ''PASSWORD'', ''PASSWD'', ''API_KEY'', ''PRIVATE_KEY'', ''CREDENTIAL'', ''AUTHORIZATION'',
     ''COOKIE'', ''AWS_'', ''GITHUB_'', ''SLACK_'']"

fun validateEnvironment :: "(string \<times> string) list \<Rightarrow> string + unit" where
  "validateEnvironment [] = Inr ()"
| "validateEnvironment ((k, v) # kvs) =
     (if list_ex (contains (to_upper k)) sensitive_markers then Inl (''sensitive environment '' @ k @ '' rejected'')
      else if nul \<in> set (k @ v) \<or> CHR ''='' \<in> set k then Inl ''invalid environment entry''
      else validateEnvironment kvs)"

subsection \<open>Bounded output\<close>

record bounded =
  bd_buf :: string
  bd_limit :: int
  bd_total :: int
  bd_truncated :: bool

definition newBounded :: "int \<Rightarrow> bounded" where
  "newBounded limit = \<lparr>bd_buf = [], bd_limit = limit, bd_total = 0, bd_truncated = False\<rparr>"

definition bounded_Write :: "string \<Rightarrow> bounded \<Rightarrow> bounded" where
  "bounded_Write p b =
     (let bytes = bd_total b + int (length p); remain = bd_limit b - int (length (bd_buf b));
          n = min (int (length p)) remain
      in b\<lparr>bd_total := bytes, bd_buf := (if remain > 0 then bd_buf b @ take (nat n) p else bd_buf b),
           bd_truncated := (bd_truncated b \<or> bytes > bd_limit b)\<rparr>)"

definition capture_output :: "int \<Rightarrow> string list \<Rightarrow> bounded" where
  "capture_output limit writes = fold bounded_Write writes (newBounded limit)"

subsection \<open>Copying the workspace\<close>

datatype file_node = DirNode | FileNode string | LinkNode | OtherNode

type_synonym file_tree = "(string list \<times> file_node) list"
type_synonym file_map = "string list \<Rightarrow> file_node option"

definition metadata_path :: "string list \<Rightarrow> bool" where
  "metadata_path p = (p \<noteq> [] \<and> (hd p = ''.git'' \<or> hd p = ''.futurediff''))"

text \<open>Whether the destination takes an entry: a directory is made unless a file is in the way, a file replaces a file.\<close>

definition fits :: "file_map \<Rightarrow> string list \<Rightarrow> file_node \<Rightarrow> bool" where
  "fits dst p node = (case dst p of None \<Rightarrow> True | Some old \<Rightarrow> (old = DirNode) = (node = DirNode))"

fun copy_walk :: "(string list \<Rightarrow> string option) \<Rightarrow> oci_policy \<Rightarrow> file_tree \<Rightarrow> int \<Rightarrow> int \<Rightarrow> file_map \<Rightarrow> (string + int) \<times> file_map" where
  "copy_walk fault pol [] files bytes dst = (Inr bytes, dst)"
| "copy_walk fault pol ((p, node) # es) files bytes dst =
     (if metadata_path p then copy_walk fault pol es files bytes dst
      else case node of
             LinkNode \<Rightarrow> (Inl (''symlink rejected: '' @ join ''/'' p), dst)
           | OtherNode \<Rightarrow> (Inl (''unsupported workspace entry: '' @ join ''/'' p), dst)
           | DirNode \<Rightarrow>
               (case fault p of
                  Some e \<Rightarrow> (Inl e, dst)
                | None \<Rightarrow> if fits dst p DirNode then copy_walk fault pol es files bytes (dst(p \<mapsto> DirNode)) else (Inl ''not a directory'', dst))
           | FileNode content \<Rightarrow>
               (let files' = files + 1; bytes' = bytes + int (length content)
                in if files' > op_files pol \<or> bytes' > op_bytes pol then (Inl ''workspace limit exceeded'', dst)
                   else case fault p of
                          Some e \<Rightarrow> (Inl e, dst)
                        | None \<Rightarrow> if fits dst p node then copy_walk fault pol es files' bytes' (dst(p \<mapsto> node)) else (Inl ''is a directory'', dst)))"

definition copySanitized :: "(string list \<Rightarrow> string option) \<Rightarrow> oci_policy \<Rightarrow> file_tree \<Rightarrow> file_map \<Rightarrow> (string + int) \<times> file_map" where
  "copySanitized fault pol src dst = copy_walk fault pol src 0 0 dst"

fun inventory :: "file_tree \<Rightarrow> string + string list list" where
  "inventory [] = Inr []"
| "inventory ((p, node) # es) =
     (if metadata_path p then inventory es
      else if node = LinkNode then Inl (''symlink rejected: '' @ join ''/'' p)
      else map_sum id ((#) p) (inventory es))"

definition map_of_tree :: "file_tree \<Rightarrow> file_map" where
  "map_of_tree t = map_of t"

text \<open>\<open>os.RemoveAll\<close> of the listed paths, with everything below them.\<close>

definition remove_paths :: "string list set \<Rightarrow> file_map \<Rightarrow> file_map" where
  "remove_paths gone dst = (\<lambda>p. if \<exists>n \<le> length p. take n p \<in> gone then None else dst p)"

text \<open>
  The destination tree is given as listed before; \<open>removal\<close> is a failure of one of the removals (which
  stops before the copy; what was removed until then is the worst case, everything).
\<close>

definition syncSanitized ::
  "(string list \<Rightarrow> string option) \<Rightarrow> string option \<Rightarrow> oci_policy \<Rightarrow> file_tree \<Rightarrow> file_tree \<Rightarrow> (string + int) \<times> file_map" where
  "syncSanitized fault removal pol src dst =
     (case inventory src of
        Inl e \<Rightarrow> (Inl e, map_of_tree dst)
      | Inr keep \<Rightarrow>
          (case inventory dst of
             Inl e \<Rightarrow> (Inl e, map_of_tree dst)
           | Inr old \<Rightarrow>
               (let dst1 = remove_paths (set old - set keep) (map_of_tree dst)
                in case removal of Some e \<Rightarrow> (Inl e, dst1) | None \<Rightarrow> copySanitized fault pol src dst1)))"

subsection \<open>The runner\<close>

text \<open>How a process ended, as far as the code tells: with an exit code, or not at all; and the context's end.\<close>

datatype process_end = Succeeded | ExitCode int | NotRun
datatype context_end = Running | DeadlineExceeded | ContextCanceled

record process =
  ps_stdout :: "string list"
  ps_stderr :: "string list"
  ps_end :: process_end
  ps_context :: context_end

record 'w oci_host =
  oh_lookpath :: "string \<Rightarrow> 'w \<Rightarrow> string + string"
  oh_output :: "string \<Rightarrow> string list \<Rightarrow> 'w \<Rightarrow> (string + string) \<times> 'w"
  oh_rootless_json :: "string \<Rightarrow> bool option"
  oh_scratch :: "string \<Rightarrow> 'w \<Rightarrow> (string + string) \<times> 'w"
  oh_remove :: "string \<Rightarrow> 'w \<Rightarrow> 'w"
  oh_tree :: "string \<Rightarrow> 'w \<Rightarrow> file_tree"
  oh_put :: "string \<Rightarrow> file_map \<Rightarrow> 'w \<Rightarrow> 'w"
  oh_fault :: "string \<Rightarrow> 'w \<Rightarrow> string list \<Rightarrow> string option"
  oh_removal :: "string \<Rightarrow> 'w \<Rightarrow> string option"
  oh_run :: "string \<Rightarrow> string list \<Rightarrow> int \<Rightarrow> 'w \<Rightarrow> process \<times> 'w"
  oh_cwd :: string
  oh_ids :: string

record 'w runner =
  rn_kind :: runtime_kind
  rn_binary :: string
  rn_policy :: oci_policy
  rn_scratch :: string
  rn_host :: "'w oci_host"

definition server_version :: "string list" where
  "server_version = [''version'', ''--format'', [CHR 0x7B, CHR 0x7B] @ ''.Server.Version'' @ [CHR 0x7D, CHR 0x7D]]"

text \<open>\<open>ProbeContext\<close>; the decoding of Podman's description of its host is the parameter \<open>oh_rootless_json\<close>.\<close>

definition ProbeContext :: "'w oci_host \<Rightarrow> runtime_kind \<Rightarrow> string \<Rightarrow> ('w, string, backend) action" where
  "ProbeContext h rkind binary =
     andThen (reading (oh_lookpath h (if binary = [] then runtime_text rkind else binary))) (\<lambda>path.
     andThen (case rkind of
         Docker \<Rightarrow>
           andThen (oh_output h path server_version) (\<lambda>version.
           andThen (oh_output h path [''info'', ''--format'', [CHR 0x7B, CHR 0x7B] @ ''json .SecurityOptions'' @ [CHR 0x7D, CHR 0x7D]]) (\<lambda>info.
           give \<lparr>bn_kind = Docker, bn_binary = path, bn_version = trim_space version, bn_rootless = contains (to_lower info) ''rootless'',
                 bn_info = trim_space info\<rparr>))
       | Podman \<Rightarrow>
           andThen (result_of (oh_output h path server_version)) (\<lambda>first.
           andThen (case first of Inr v \<Rightarrow> give v
             | Inl _ \<Rightarrow> oh_output h path [''version'', ''--format'', [CHR 0x7B, CHR 0x7B] @ ''.Version'' @ [CHR 0x7D, CHR 0x7D]]) (\<lambda>version.
           andThen (oh_output h path [''info'', ''--format'', ''json'']) (\<lambda>info.
           andThen (pass (fetch (oh_rootless_json h info) ''invalid runtime description'')) (\<lambda>rootless.
           give \<lparr>bn_kind = Podman, bn_binary = path, bn_version = trim_space version, bn_rootless = rootless, bn_info = trim_space info\<rparr>))))) (\<lambda>b.
     andThen (check (bn_version b \<noteq> []) ''runtime returned empty version'') (\<lambda>_. give b)))"

definition Ready :: "'w runner \<Rightarrow> ('w, string, backend) action" where
  "Ready r =
     andThen (ProbeContext (rn_host r) (rn_kind r) (rn_binary r)) (\<lambda>b.
     andThen (pass (Validate_oci (rn_policy r))) (\<lambda>_.
     andThen (check (op_rootless (rn_policy r) \<longrightarrow> bn_rootless b) ''runtime is not rootless'') (\<lambda>_. give b)))"

definition ensureImageAvailable :: "'w oci_host \<Rightarrow> backend \<Rightarrow> string \<Rightarrow> ('w, string, unit) action" where
  "ensureImageAvailable h b img =
     andThen (result_of (oh_output h (bn_binary b) [''image'', ''inspect'', img])) (\<lambda>first.
     case first of
       Inr _ \<Rightarrow> give ()
     | Inl _ \<Rightarrow>
         andThen (oh_output h (bn_binary b) [''pull'', img]) (\<lambda>_.
         andThen (oh_output h (bn_binary b) [''image'', ''inspect'', img]) (\<lambda>_. give ())))"

definition exit_of :: "process \<Rightarrow> int" where
  "exit_of p = (case ps_end p of Succeeded \<Rightarrow> 0 | ExitCode n \<Rightarrow> n | NotRun \<Rightarrow> -1)"

definition reason_of :: "process \<Rightarrow> termination_reason" where
  "reason_of p =
     (if ps_end p = Succeeded then Exited
      else if ps_context p = DeadlineExceeded then TimedOut
      else if ps_context p = ContextCanceled then Cancelled
      else if exit_of p \<in> {125, 126, 127} then RuntimeError
      else if ps_end p = NotRun then RuntimeError else Exited)"

definition evidence_of :: "'w runner \<Rightarrow> backend \<Rightarrow> oci_request \<Rightarrow> gotime \<Rightarrow> gotime \<Rightarrow> process \<Rightarrow> oci_evidence" where
  "evidence_of r b q started finished p =
     (let pol = rn_policy r; out = capture_output (op_output pol) (ps_stdout p); err = capture_output (op_output pol) (ps_stderr p)
      in \<lparr>oe_tx = oq_tx q, oe_execution = oq_execution q, oe_runtime = b, oe_image = op_image pol,
          oe_image_digest = snd (cut (CHR ''@'') (op_image pol)), oe_command = digestStrings (oq_command q),
          oe_environment = digestEnvironment (oq_environment q),
          oe_policy = tagged_digest (marshal (json_map [(''policy'', oci_policy_json pol), (''runtime'', backend_json b)])),
          oe_started = started, oe_finished = finished, oe_exit = exit_of p, oe_reason = reason_of p,
          oe_stdout = bd_total out, oe_stderr = bd_total err, oe_stdout_cut = bd_truncated out, oe_stderr_cut = bd_truncated err,
          oe_synced = False\<rparr>)"

definition copy_in :: "'w runner \<Rightarrow> string \<Rightarrow> string \<Rightarrow> ('w, string, unit) action" where
  "copy_in r source dest w =
     (let (res, dst) = copySanitized (oh_fault (rn_host r) dest w) (rn_policy r) (oh_tree (rn_host r) source w) Map.empty
      in ((case res of Inl e \<Rightarrow> Inl e | Inr _ \<Rightarrow> Inr ()), oh_put (rn_host r) dest dst w))"

definition sync_back :: "'w runner \<Rightarrow> string \<Rightarrow> string \<Rightarrow> ('w, string, unit) action" where
  "sync_back r source dest w =
     (let (res, dst) = syncSanitized (oh_fault (rn_host r) dest w) (oh_removal (rn_host r) dest w) (rn_policy r)
                         (oh_tree (rn_host r) source w) (oh_tree (rn_host r) dest w)
      in ((case res of Inl e \<Rightarrow> Inl e | Inr _ \<Rightarrow> Inr ()), oh_put (rn_host r) dest dst w))"

text \<open>
  \<open>Execute\<close>: an error before the command ran, or the result with the error that came with it.
  The clock readings are arguments.
\<close>

definition finish_run :: "'w runner \<Rightarrow> oci_request \<Rightarrow> string \<Rightarrow> process \<Rightarrow> oci_result \<Rightarrow> ('w, string, oci_result \<times> string option) action" where
  "finish_run r q workspace p res =
     (if ps_end p \<noteq> Succeeded
      then give (res, Some (''OCI command failed: reason='' @ reason_text (reason_of p) @ '' exit='' @ show_int (exit_of p)))
      else if \<not> oq_sync q then give (res, None)
      else if oq_purpose q \<noteq> Mutation then give (res, Some ''only mutation execution may synchronize workspace'')
      else andThen (result_of (sync_back r workspace (oq_workspace q))) (\<lambda>synced.
           give (case synced of Inl e \<Rightarrow> (res, Some e)
             | Inr _ \<Rightarrow> (res\<lparr>or_evidence := (or_evidence res)\<lparr>oe_synced := True\<rparr>\<rparr>, None))))"

definition run_in :: "'w runner \<Rightarrow> gotime \<Rightarrow> gotime \<Rightarrow> backend \<Rightarrow> oci_request \<Rightarrow> string \<Rightarrow> ('w, string, oci_result \<times> string option) action" where
  "run_in r started finished b q root =
     (let workspace = path_join [root, ''workspace'']; pol = rn_policy r in
      andThen (copy_in r (oq_workspace q) workspace) (\<lambda>_.
      andThen (pass (BuildPlan (oh_cwd (rn_host r)) (oh_ids (rn_host r)) b workspace (oq_command q) pol)) (\<lambda>plan.
      andThen (\<lambda>w. let (p, w1) = oh_run (rn_host r) (bn_binary b) (with_environment (oq_environment q) (length (oq_command q)) plan) (op_timeout pol) w
                   in (Inr p, w1)) (\<lambda>p.
      finish_run r q workspace p
        \<lparr>or_stdout = bd_buf (capture_output (op_output pol) (ps_stdout p)), or_stderr = bd_buf (capture_output (op_output pol) (ps_stderr p)),
         or_evidence = evidence_of r b q started finished p\<rparr>))))"

definition oci_Execute :: "'w runner \<Rightarrow> gotime \<Rightarrow> gotime \<Rightarrow> oci_request \<Rightarrow> ('w, string, oci_result \<times> string option) action" where
  "oci_Execute r started finished q =
     andThen (check (oq_tx q \<noteq> [] \<and> oq_execution q \<noteq> [] \<and> oq_workspace q \<noteq> [] \<and> oq_command q \<noteq> [])
       ''transaction_id, execution_id, workspace, and command are required'') (\<lambda>_.
     andThen (pass (validateEnvironment (oq_environment q))) (\<lambda>_.
     andThen (Ready r) (\<lambda>b.
     andThen (ensureImageAvailable (rn_host r) b (op_image (rn_policy r))) (\<lambda>_.
     andThen (oh_scratch (rn_host r) (rn_scratch r)) (\<lambda>root.
     deferring (run_in r started finished b q root) (oh_remove (rn_host r) root))))))"

subsection \<open>Bounds of the captured output\<close>

lemma bounded_Write_limit [simp]: "bd_limit (bounded_Write p b) = bd_limit b"
  by (simp add: bounded_Write_def Let_def)

definition bounded_ok :: "string \<Rightarrow> bounded \<Rightarrow> bool" where
  "bounded_ok seen b = (bd_buf b = take (nat (bd_limit b)) seen \<and> bd_total b = int (length seen)
     \<and> bd_truncated b = (int (length seen) > bd_limit b))"

lemma bounded_Write_ok:
  assumes "bounded_ok seen b" and "0 \<le> bd_limit b"
  shows "bounded_ok (seen @ p) (bounded_Write p b)"
proof (cases "int (length seen) < bd_limit b")
  case True
  then have "take (nat (bd_limit b)) seen = seen" "nat (min (int (length p)) (bd_limit b - int (length seen))) = min (length p) (nat (bd_limit b) - length seen)"
    using assms(2) by auto
  then show ?thesis using True assms by (auto simp: bounded_ok_def bounded_Write_def Let_def min_def)
next
  case False
  then have "length (bd_buf b) = nat (bd_limit b)" "\<not> bd_limit b - int (length (bd_buf b)) > 0"
    using assms by (auto simp: bounded_ok_def)
  with False assms show ?thesis by (auto simp: bounded_ok_def bounded_Write_def Let_def)
qed

lemma captured_ok: "bounded_ok seen b \<Longrightarrow> 0 \<le> bd_limit b \<Longrightarrow> bounded_ok (seen @ concat ws) (fold bounded_Write ws b)"
proof (induction ws arbitrary: seen b)
  case (Cons w ws)
  from Cons.IH [OF bounded_Write_ok [OF Cons.prems, of w]] Cons.prems(2) show ?case by simp
qed simp

text \<open>C30. Captured output is bounded: however a process cuts its output into writes, the result holds exactly the first
  \<open>limit\<close> bytes of it, the count is that of all of it, and it is marked truncated exactly when bytes are missing.\<close>

theorem output_is_bounded:
  assumes "0 \<le> limit"
  shows "bd_buf (capture_output limit writes) = take (nat limit) (concat writes)
    \<and> int (length (bd_buf (capture_output limit writes))) \<le> limit
    \<and> bd_total (capture_output limit writes) = int (length (concat writes))
    \<and> (bd_truncated (capture_output limit writes) \<longleftrightarrow> bd_buf (capture_output limit writes) \<noteq> concat writes)"
proof -
  have "bounded_ok ([] @ concat writes) (capture_output limit writes)" unfolding capture_output_def
    by (rule captured_ok) (use assms in \<open>simp_all add: bounded_ok_def newBounded_def\<close>)
  moreover have "bd_limit (capture_output limit writes) = limit"
    unfolding capture_output_def by (induction writes rule: rev_induct) (simp_all add: newBounded_def)
  ultimately show ?thesis using assms by (auto simp: bounded_ok_def min_def)
qed

theorem output_is_bounded_witness: "bd_buf (capture_output 3 [''ab'', ''cd'']) = ''abc'' \<and> bd_truncated (capture_output 3 [''ab'', ''cd''])"
  using output_is_bounded [of 3 "[''ab'', ''cd'']"] by simp

subsection \<open>The command line\<close>

definition user_args :: "string \<Rightarrow> backend \<Rightarrow> string list" where
  "user_args ids b = (if bn_kind b = Podman then [''--userns'', ''keep-id'', ''--user'', ids] else [''--user'', ''0:0''])"

lemma BuildPlan_Inr:
  "BuildPlan cwd ids b ws command p = Inr args \<longleftrightarrow>
     Validate_oci p = Inr () \<and> bn_binary b \<noteq> [] \<and> (op_rootless p \<longrightarrow> bn_rootless b) \<and> command \<noteq> []
     \<and> set (abs_path cwd ws) \<inter> {CHR '','', CHR 0x0A, CHR 0x0D} = {}
     \<and> args = sandbox_args (abs_path cwd ws) p @ user_args ids b
         @ [''--env'', ''HOME=/tmp/futurediff-home'', ''--env'', ''TMPDIR=/tmp'', op_image p] @ command"
  unfolding BuildPlan_def user_args_def try_bind_Inr require_Inr Let_def by auto

lemma Validate_oci_Inr:
  "Validate_oci p = Inr () \<Longrightarrow> digestImage (op_image p) \<and> op_network p = ''none'' \<and> op_rootless p \<and> op_readonly p \<and> op_drop p \<and> op_nonew p
     \<and> op_pids p > 0 \<and> op_output p > 0"
  unfolding Validate_oci_def try_bind_Inr require_Inr by blast

lemma with_environment_split:
  "with_environment env (length command) (xs @ img # command)
     = xs @ concat (map (\<lambda>(k, v). [''--env'', k @ ''='' @ v]) (sort_key fst env)) @ img # command"
  by (simp add: with_environment_def Let_def)

text \<open>C31. A run is always sandboxed: the command line of a run starts with the restrictions, written out here one by one
  (removal, no pull, read-only root, no network, no capabilities, no new privileges, the limits on processes, memory and
  processors, the restricted temporary file system, the one mount and the working directory), then has the user entries,
  then the environment, each entry of the request as the value of an \<open>--env\<close>, then the image pinned by digest, which the
  policy names; the request's command comes after the image, so nothing of it is read as an option.\<close>

theorem runs_are_sandboxed:
  assumes "BuildPlan cwd ids b ws command p = Inr args"
  shows "with_environment env (length command) args
      = [''run'', ''--rm'', ''--init'', ''--pull=never'', ''--read-only'', ''--network'', ''none'', ''--cap-drop'', ''ALL'',
         ''--security-opt'', ''no-new-privileges'', ''--pids-limit'', show_int (op_pids p), ''--memory'', op_memory p,
         ''--cpus'', op_cpus p, ''--tmpfs'', ''/tmp:rw,noexec,nosuid,nodev,size='' @ op_tmpfs p,
         ''--mount'', ''type=bind,src='' @ abs_path cwd ws @ '',dst=/workspace'', ''--workdir'', ''/workspace'']
        @ (if bn_kind b = Podman then [''--userns'', ''keep-id'', ''--user'', ids] else [''--user'', ''0:0''])
        @ [''--env'', ''HOME=/tmp/futurediff-home'', ''--env'', ''TMPDIR=/tmp'']
        @ concat (map (\<lambda>(k, v). [''--env'', k @ ''='' @ v]) (sort_key fst env)) @ op_image p # command
    \<and> digestImage (op_image p) \<and> bn_rootless b \<and> op_pids p > 0 \<and> CHR '','' \<notin> set (abs_path cwd ws)"
proof -
  note args = assms [unfolded BuildPlan_Inr]
  have "args = (sandbox_args (abs_path cwd ws) p @ user_args ids b @ [''--env'', ''HOME=/tmp/futurediff-home'', ''--env'', ''TMPDIR=/tmp''])
      @ op_image p # command" using args by simp
  then have "with_environment env (length command) args
      = (sandbox_args (abs_path cwd ws) p @ user_args ids b @ [''--env'', ''HOME=/tmp/futurediff-home'', ''--env'', ''TMPDIR=/tmp''])
        @ concat (map (\<lambda>(k, v). [''--env'', k @ ''='' @ v]) (sort_key fst env)) @ op_image p # command"
    by (simp only: with_environment_split)
  then show ?thesis using args Validate_oci_Inr [of p] by (auto simp: sandbox_args_def user_args_def)
qed

lemma front_part: "s = a @ b @ c @ d \<Longrightarrow> \<exists>front. s = front @ d"
  by (metis append_assoc)

definition image0 :: string where
  "image0 = ''img@sha256:'' @ replicate 64 (CHR ''0'')"

definition backend0 :: backend where
  "backend0 = \<lparr>bn_kind = Docker, bn_binary = ''/usr/bin/docker'', bn_version = ''1'', bn_rootless = True, bn_info = []\<rparr>"

theorem runs_are_sandboxed_witness:
  "\<exists>args front. BuildPlan ''/'' ''1:1'' backend0 ''/w'' [''ls'', ''--privileged''] (DefaultPolicy image0) = Inr args
     \<and> with_environment [(''A'', ''b'')] (length [''ls'', ''--privileged'']) args
       = front @ [''--env'', ''A=b''] @ op_image (DefaultPolicy image0) # [''ls'', ''--privileged'']"
proof -
  have "Validate_oci (DefaultPolicy image0) = Inr ()" by code_simp
  moreover have "set (abs_path ''/'' ''/w'') \<inter> {CHR '','', CHR 0x0A, CHR 0x0D} = {}" by code_simp
  ultimately obtain args where args: "BuildPlan ''/'' ''1:1'' backend0 ''/w'' [''ls'', ''--privileged''] (DefaultPolicy image0) = Inr args"
    by (auto simp: BuildPlan_Inr backend0_def)
  have "concat (map (\<lambda>(k, v). [''--env'', k @ ''='' @ v]) (sort_key fst [(''A'', ''b'')])) = [''--env'', ''A=b'']" by simp
  with front_part [OF conjunct1 [OF runs_are_sandboxed [OF args, of "[(''A'', ''b'')]"]]] args show ?thesis
    by (simp only: length_Cons) blast
qed

subsection \<open>Synchronization\<close>

lemma copy_walk_ok:
  assumes "copy_walk fault pol es files bytes dst = (Inr n, dst')" and "distinct (map fst es)"
  shows "dst' p = (if \<not> metadata_path p \<and> p \<in> fst ` set es then map_of es p else dst p)"
  using assms
proof (induction es arbitrary: files bytes dst)
  case (Cons e es)
  obtain q node where e: "e = (q, node)" by fastforce
  show ?case
  proof (cases "metadata_path q")
    case True
    then have "copy_walk fault pol es files bytes dst = (Inr n, dst')" using Cons.prems(1) e by simp
    from Cons.IH [OF this] Cons.prems(2) True show ?thesis by (auto simp: e)
  next
    case False
    then obtain files' bytes' where "copy_walk fault pol es files' bytes' (dst(q \<mapsto> node)) = (Inr n, dst')"
      using Cons.prems(1) by (auto simp: e Let_def split: file_node.splits option.splits if_splits)
    from Cons.IH [OF this] Cons.prems(2) False show ?thesis by (auto simp: e)
  qed
qed simp

lemma inventory_paths: "inventory es = Inr ps \<Longrightarrow> set ps = {p \<in> fst ` set es. \<not> metadata_path p}"
proof (induction es arbitrary: ps)
  case (Cons e es)
  obtain q node where e: "e = (q, node)" by fastforce
  have "\<exists>qs. inventory es = Inr qs \<and> ps = (if metadata_path q then qs else q # qs)"
    using Cons.prems by (cases "inventory es") (auto simp: e split: if_splits)
  then obtain qs where qs: "inventory es = Inr qs" "ps = (if metadata_path q then qs else q # qs)" by blast
  have "fst ` set (e # es) = insert q (fst ` set es)" by (simp add: e)
  moreover have "set ps = (if metadata_path q then set qs else insert q (set qs))" using qs(2) by simp
  ultimately show ?case using Cons.IH [OF qs(1)] by (simp split: if_splits) blast+
qed simp

lemma remove_paths_None: "dst p = None \<Longrightarrow> remove_paths gone dst p = None"
  by (simp add: remove_paths_def)

text \<open>A successful synchronization makes the workspace the mirror of the container's directory: outside \<open>.git\<close> and
  \<open>.futurediff\<close> exactly the source's entries with their content, and inside them exactly what was there.\<close>

theorem sync_mirrors_source:
  assumes "syncSanitized fault removal pol src dst = (Inr n, dst')"
    and "distinct (map fst src)" and "[] \<notin> fst ` set dst"
  shows "dst' p = (if metadata_path p then map_of_tree dst p else map_of_tree src p)"
proof -
  obtain keep old where inv: "inventory src = Inr keep" "inventory dst = Inr old"
      and copy: "copySanitized fault pol src (remove_paths (set old - set keep) (map_of_tree dst)) = (Inr n, dst')"
    using assms(1) by (auto simp: syncSanitized_def Let_def split: sum.splits option.splits)
  note paths = inventory_paths [OF inv(1)] inventory_paths [OF inv(2)]
  note dst' = copy_walk_ok [OF copy [unfolded copySanitized_def] assms(2), of p]
  show ?thesis
  proof (cases "metadata_path p")
    case True
    have "take m p \<notin> set old" for m
      using True paths(2) assms(3) by (cases m; cases p) (auto simp: metadata_path_def)
    then show ?thesis using dst' True by (simp add: remove_paths_def)
  next
    case False
    show ?thesis
    proof (cases "p \<in> fst ` set src")
      case True
      with False dst' show ?thesis by (simp add: map_of_tree_def)
    next
      case missing: False
      then have src: "map_of_tree src p = None" unfolding map_of_tree_def by (metis map_of_eq_None_iff)
      have "remove_paths (set old - set keep) (map_of_tree dst) p = None"
      proof (cases "map_of_tree dst p")
        case (Some node)
        then have "p \<in> fst ` set dst" unfolding map_of_tree_def by (metis map_of_eq_None_iff option.distinct(1))
        then have "take (length p) p \<in> set old - set keep" using False missing paths by auto
        then show ?thesis unfolding remove_paths_def by (metis order_refl)
      qed (simp add: remove_paths_def)
      with dst' missing src False show ?thesis by simp
    qed
  qed
qed

definition tree_src :: file_tree where "tree_src = [([''a''], FileNode ''new'')]"
definition tree_dst :: file_tree where "tree_dst = [([''.git''], DirNode), ([''b''], FileNode ''old'')]"

theorem sync_mirrors_source_witness:
  "\<exists>n dst'. syncSanitized (\<lambda>_. None) None (DefaultPolicy image0) tree_src tree_dst = (Inr n, dst')
     \<and> dst' [''a''] = Some (FileNode ''new'') \<and> dst' [''b''] = None \<and> dst' [''.git''] = Some DirNode"
proof -
  have meta: "metadata_path [''.git'']" "\<not> metadata_path [''a'']" "\<not> metadata_path [''b'']" by (simp_all add: metadata_path_def)
  obtain n dst' where run: "syncSanitized (\<lambda>_. None) None (DefaultPolicy image0) tree_src tree_dst = (Inr n, dst')"
    by (simp add: syncSanitized_def tree_src_def tree_dst_def meta copySanitized_def remove_paths_None map_of_tree_def fits_def
        DefaultPolicy_def)
  have "distinct (map fst tree_src)" "[] \<notin> fst ` set tree_dst" by (simp_all add: tree_src_def tree_dst_def)
  note m = sync_mirrors_source [OF run this]
  show ?thesis using run m [of "[''a'']"] m [of "[''b'']"] m [of "[''.git'']"] meta
    by (auto simp: tree_src_def tree_dst_def map_of_tree_def)
qed

text \<open>A failed synchronization is not undone: here an entry that cannot be copied stops it after the removals.\<close>

lemma failed_sync_removes:
  "\<exists>e dst'. syncSanitized (\<lambda>_. None) None (DefaultPolicy image0) [([''pipe''], OtherNode)] tree_dst = (Inl e, dst') \<and> dst' [''b''] = None"
  by (simp add: syncSanitized_def tree_dst_def copySanitized_def remove_paths_def map_of_tree_def metadata_path_def)

end
