(* ===== verification/RepoAdmission.thy ===== *)
theory RepoAdmission
  imports Staging
begin

text \<open>
  Repository admission, \<open>internal/repoadmission/policy.go\<close>: validating a policy and deciding whether a
  repository may be worked on.  The file system at the time of the decision is the parameter \<open>file_system\<close>; the
  directory below \<open>refs/replace\<close> is a finite tree.  Reading the policy file is not modelled.  Paths are those of Unix
  (no volume names).
\<close>

subsection \<open>The file system\<close>

datatype file_kind = RegularFile int | Directory | Symlink | SpecialFile

datatype file_lookup = NoFile | LookupFailed | FoundFile file_kind

datatype dir_entry = PlainEntry | LinkEntry | DirEntry string "dir_listing"
  and dir_listing = Unreadable | Listing "dir_entry list"

record file_system =
  fs_lstat :: "string \<Rightarrow> file_lookup"
  fs_stat :: "string \<Rightarrow> file_lookup"
  fs_resolve :: "string \<Rightarrow> string option"
  fs_read :: "string \<Rightarrow> string option"
  fs_tree :: "string \<Rightarrow> dir_listing"
  fs_cwd :: string

subsection \<open>Paths\<close>

definition components :: "string \<Rightarrow> string list" where
  "components p = filter (\<lambda>c. c \<noteq> []) (split_on (CHR ''/'') p)"

definition rooted :: "string list \<Rightarrow> string" where
  "rooted cs = ''/'' @ join ''/'' cs"

text \<open>The nearest ancestor that resolves, with the rest of the path below it; components are given innermost first.\<close>

fun resolve_up :: "file_system \<Rightarrow> string \<Rightarrow> string list \<Rightarrow> string list \<Rightarrow> string" where
  "resolve_up fs absolute [] rest =
     (case fs_resolve fs ''/'' of
        Some r \<Rightarrow> if rest = [] then r else path_join [r, join ''/'' rest]
      | None \<Rightarrow> absolute)"
| "resolve_up fs absolute (c # cs) rest =
     (case fs_resolve fs (rooted (rev (c # cs))) of
        Some r \<Rightarrow> if rest = [] then r else path_join [r, join ''/'' rest]
      | None \<Rightarrow> resolve_up fs absolute cs (c # rest))"

definition canonicalPath :: "file_system \<Rightarrow> string \<Rightarrow> string" where
  "canonicalPath fs p =
     (let absolute = abs_path (fs_cwd fs) (path_clean p) in resolve_up fs absolute (rev (components absolute)) [])"

fun strip_common :: "string list \<Rightarrow> string list \<Rightarrow> string list \<times> string list" where
  "strip_common (a # as) (b # bs) = (if a = b then strip_common as bs else (a # as, b # bs))"
| "strip_common as bs = (as, bs)"

text \<open>\<open>filepath.Rel\<close>: from one path to another of the same kind (both absolute or both relative).\<close>

definition path_rel :: "string \<Rightarrow> string \<Rightarrow> string option" where
  "path_rel base target =
     (let b = path_clean base; t = path_clean target
      in if b = t then Some ''.''
         else if has_prefix b ''/'' \<noteq> has_prefix t ''/'' then None
         else let (up, down) = strip_common (if b = ''.'' then [] else components b) (if t = ''.'' then [] else components t)
              in if ''..'' \<in> set up then None
                 else Some (join ''/'' (map (\<lambda>_. ''..'') up @ down)))"

definition pathWithinAny :: "string list \<Rightarrow> string \<Rightarrow> bool" where
  "pathWithinAny roots candidate =
     list_ex (\<lambda>root. case path_rel root candidate of None \<Rightarrow> False | Some rel \<Rightarrow> rel \<noteq> ''..'' \<and> \<not> has_prefix rel ''../'') roots"

subsection \<open>The policy\<close>

record admission_policy =
  ap_version :: string
  ap_policy :: string
  ap_roots :: "string list"
  ap_formats :: "string list"
  ap_refs :: "string list"
  ap_heads :: "string list"
  ap_detached :: bool
  ap_stage :: bool
  ap_outside :: bool
  ap_linked :: bool
  ap_nonlocal :: bool
  ap_shallow :: bool
  ap_replace :: bool
  ap_grafts :: bool
  ap_alternates :: bool
  ap_objects_link :: bool

record repository_facts =
  rf_common :: string
  rf_format :: string
  rf_linked :: bool
  rf_shallow :: bool
  rf_replace :: bool
  rf_grafts :: bool
  rf_alternates :: bool
  rf_objects_link :: bool

record admission =
  ad_allowed :: bool
  ad_policy :: string
  ad_root :: string
  ad_codes :: "string list"
  ad_reasons :: "string list"
  ad_facts :: repository_facts

definition admission_version :: string where "admission_version = ''0.2''"

text \<open>\<open>unicode.IsControl\<close> for some rune: an ASCII control, or U+0080 to U+009F, which is C2 followed by 80 to 9F.\<close>

fun has_control :: "string \<Rightarrow> bool" where
  "has_control [] = False"
| "has_control (c # cs) =
     (code c < 32 \<or> code c = 127 \<or> (code c = 194 \<and> (case cs of [] \<Rightarrow> False | d # _ \<Rightarrow> 128 \<le> code d \<and> code d < 160)) \<or> has_control cs)"

fun allowed_roots :: "file_system \<Rightarrow> bool \<Rightarrow> string list \<Rightarrow> string list \<Rightarrow> string + string list" where
  "allowed_roots fs current [] roots = Inr roots"
| "allowed_roots fs current (raw # raws) roots =
     (let root = canonicalPath fs raw
      in if \<not> has_prefix raw ''/'' then Inl (''allowed root must be absolute: '' @ raw)
         else if current \<and> fs_stat fs root \<in> {NoFile, LookupFailed} then Inl (''allowed root is unavailable: '' @ root)
         else if current \<and> fs_stat fs root \<noteq> FoundFile Directory then Inl (''allowed root is not a directory: '' @ root)
         else allowed_roots fs current raws (if root \<in> set roots then roots else roots @ [root]))"

fun allowlist_values :: "string list \<Rightarrow> string list \<Rightarrow> string list \<Rightarrow> string option + string list" where
  "allowlist_values supported [] out = Inr out"
| "allowlist_values supported (raw # raws) out =
     (let v = trim_space raw
      in if v \<notin> set supported then Inl (Some raw)
         else allowlist_values supported raws (if v \<in> set out then out else out @ [v]))"

definition normalizeAllowlist :: "string list \<Rightarrow> string list \<Rightarrow> string list \<Rightarrow> string \<Rightarrow> string + string list" where
  "normalizeAllowlist values defaults supported label =
     (case allowlist_values supported (if values = [] then defaults else values) [] of
        Inl _ \<Rightarrow> Inl (''unsupported '' @ label)
      | Inr out \<Rightarrow> Inr (sort out))"

definition validateHeadPrefix :: "string \<Rightarrow> bool" where
  "validateHeadPrefix prefix =
     (has_prefix prefix ''refs/heads/'' \<and> \<not> has_control prefix \<and> set prefix \<inter> set ('' ~^:?*['' @ [backslash]) = {}
      \<and> \<not> contains prefix ''..'' \<and> \<not> contains prefix ''//'' \<and> \<not> contains prefix [CHR ''@'', CHR 0x7B]
      \<and> \<not> has_suffix prefix ''.'' \<and> \<not> has_suffix prefix ''.lock'')"

definition Validate_admission :: "file_system \<Rightarrow> admission_policy \<Rightarrow> string + admission_policy" where
  "Validate_admission fs p0 =
     (let p = p0\<lparr>ap_policy := trim_space (ap_policy p0)\<rparr>; current = (ap_version p = admission_version)
      in try_bind (require (current \<or> ap_version p = ''0.1'') ''unsupported repository policy version'') (\<lambda>_.
         try_bind (require (ap_policy p \<noteq> []) ''policy_id is required'') (\<lambda>_.
         try_bind (require (length (ap_policy p) \<le> 128 \<and> \<not> has_control (ap_policy p))
           ''policy_id must be at most 128 bytes and contain no control characters'') (\<lambda>_.
         try_bind (require (ap_roots p \<noteq> []) ''at least one allowed root is required'') (\<lambda>_.
         try_bind (allowed_roots fs current (ap_roots p) []) (\<lambda>roots.
         try_bind (normalizeAllowlist (ap_formats p) [''sha1'', ''sha256''] [''sha1'', ''sha256''] ''object format'') (\<lambda>formats.
         let q = p\<lparr>ap_roots := sort roots, ap_formats := formats\<rparr> in
         if \<not> current then Inr q
         else try_bind (normalizeAllowlist (ap_refs p) [''files''] [''files'', ''reftable''] ''reference format'') (\<lambda>refs.
              let heads = (if ap_heads p = [] then [''refs/heads/''] else ap_heads p)
              in try_bind (require (list_all validateHeadPrefix heads) ''invalid allowed head prefix'') (\<lambda>_.
                 Inr (q\<lparr>ap_refs := refs, ap_heads := sort (remdups heads)\<rparr>))))))))))"

definition strict_policy :: "string list \<Rightarrow> admission_policy" where
  "strict_policy roots = \<lparr>ap_version = admission_version, ap_policy = ''stable-default-v0.2'', ap_roots = roots, ap_formats = [], ap_refs = [],
     ap_heads = [], ap_detached = False, ap_stage = False, ap_outside = False, ap_linked = False, ap_nonlocal = False, ap_shallow = False,
     ap_replace = False, ap_grafts = False, ap_alternates = False, ap_objects_link = False\<rparr>"

definition StableDefault :: "file_system \<Rightarrow> string list \<Rightarrow> string + admission_policy" where
  "StableDefault fs roots = Validate_admission fs (strict_policy roots)"

definition StableDefaultForPath :: "file_system \<Rightarrow> string \<Rightarrow> string + admission_policy" where
  "StableDefaultForPath fs path = StableDefault fs [''/'']"

subsection \<open>Repository metadata\<close>

definition detectRefFormat :: "file_system \<Rightarrow> string \<Rightarrow> string option" where
  "detectRefFormat fs common =
     (case fs_lstat fs (path_join [common, ''reftable'']) of
        FoundFile k \<Rightarrow> if k = Directory then Some ''reftable'' else None
      | LookupFailed \<Rightarrow> None
      | NoFile \<Rightarrow> if fs_lstat fs (path_join [common, ''refs'']) = FoundFile Directory then Some ''files'' else None)"

definition max_metadata :: int where "max_metadata = 64 * 1048576"

text \<open>\<open>None\<close> is an error.\<close>

definition regularMetadataPresence :: "file_system \<Rightarrow> string \<Rightarrow> bool \<Rightarrow> bool option" where
  "regularMetadataPresence fs path requireNonEmpty =
     (case fs_lstat fs path of
        NoFile \<Rightarrow> Some False
      | LookupFailed \<Rightarrow> None
      | FoundFile (RegularFile bytes) \<Rightarrow>
          if bytes > max_metadata then None else Some (\<not> requireNonEmpty \<or> bytes > 0)
      | FoundFile _ \<Rightarrow> None)"

fun tree_entries :: "dir_entry list \<Rightarrow> bool option"
  and tree_listing :: "dir_listing \<Rightarrow> bool option" where
  "tree_entries [] = Some False"
| "tree_entries (PlainEntry # es) = Some True"
| "tree_entries (LinkEntry # es) = Some True"
| "tree_entries (DirEntry name sub # es) =
     (case tree_listing sub of None \<Rightarrow> None | Some True \<Rightarrow> Some True | Some False \<Rightarrow> tree_entries es)"
| "tree_listing Unreadable = None"
| "tree_listing (Listing es) = tree_entries es"

definition treeHasEntry :: "file_system \<Rightarrow> string \<Rightarrow> bool option" where
  "treeHasEntry fs root =
     (case fs_lstat fs root of
        NoFile \<Rightarrow> Some False
      | LookupFailed \<Rightarrow> None
      | FoundFile k \<Rightarrow> if k = Directory then tree_listing (fs_tree fs root) else None)"

text \<open>
  The lines of a \<open>bufio.Scanner\<close>: without their end, the last one only when it is not empty; a line of
  a mebibyte does not fit in its buffer.
\<close>

definition scan_lines :: "string \<Rightarrow> string list" where
  "scan_lines s = (let ls = split_on (CHR 0x0A) s in if last ls = [] then butlast ls else ls)"

fun packed_replace :: "int \<Rightarrow> string list \<Rightarrow> bool option" where
  "packed_replace consumed [] = Some False"
| "packed_replace consumed (raw # raws) =
     (let scanned = trim_suffix raw [CHR 0x0D]; n = consumed + int (length scanned) + 1; line = trim_space scanned
      in if int (length raw) \<ge> 1048576 then None
         else if n > max_metadata then None
         else if line = [] \<or> has_prefix line ''#'' \<or> has_prefix line ''^'' then packed_replace n raws
         else case fields_of [] line of
                [oid, ref] \<Rightarrow> if has_prefix ref ''refs/replace/'' then Some True else packed_replace n raws
              | _ \<Rightarrow> None)"

definition hasReplaceRefs :: "file_system \<Rightarrow> string \<Rightarrow> bool option" where
  "hasReplaceRefs fs common =
     (case treeHasEntry fs (path_join [common, ''refs'', ''replace'']) of
        None \<Rightarrow> None
      | Some True \<Rightarrow> Some True
      | Some False \<Rightarrow>
          (let packed = path_join [common, ''packed-refs'']
           in case regularMetadataPresence fs packed False of
                None \<Rightarrow> None
              | Some False \<Rightarrow> Some False
              | Some True \<Rightarrow> (case fs_read fs packed of None \<Rightarrow> None | Some b \<Rightarrow> packed_replace 0 (scan_lines b))))"

subsection \<open>The decision\<close>

definition add_denial :: "string \<Rightarrow> string \<Rightarrow> admission \<Rightarrow> admission" where
  "add_denial code_text reason d = d\<lparr>ad_allowed := False, ad_codes := ad_codes d @ [code_text], ad_reasons := ad_reasons d @ [reason]\<rparr>"

definition deny_if :: "bool \<Rightarrow> string \<Rightarrow> string \<Rightarrow> admission \<Rightarrow> admission" where
  "deny_if c code_text reason d = (if c then add_denial code_text reason d else d)"

text \<open>A piece of metadata: unreadable is denied, present is a fact and denied unless the policy lets it.\<close>

definition with_metadata ::
  "bool option \<Rightarrow> (repository_facts \<Rightarrow> repository_facts) \<Rightarrow> bool \<Rightarrow> string \<Rightarrow> string \<Rightarrow> string \<Rightarrow> admission \<Rightarrow> admission" where
  "with_metadata found note lets code_text reason broken d =
     (case found of
        None \<Rightarrow> add_denial ''git_metadata_invalid'' broken d
      | Some b \<Rightarrow> deny_if (b \<and> \<not> lets) code_text reason (if b then d\<lparr>ad_facts := note (ad_facts d)\<rparr> else d))"

definition not_found :: "file_lookup \<Rightarrow> bool" where
  "not_found l = (l = NoFile \<or> l = LookupFailed)"

text \<open>The object directory, the last part of \<open>Evaluate\<close>.\<close>

definition evaluate_objects :: "file_system \<Rightarrow> admission_policy \<Rightarrow> string \<Rightarrow> admission \<Rightarrow> admission" where
  "evaluate_objects fs p common d =
     (let objects = path_join [common, ''objects'']; info = fs_lstat fs objects
      in if not_found info then add_denial ''git_objects_unavailable'' ''Git object directory is unavailable'' d
         else let d1 = (if info = FoundFile Symlink
                then deny_if (\<not> ap_objects_link p) ''symlinked_object_directory_not_allowed'' ''symlinked Git object directories are not allowed''
                       (d\<lparr>ad_facts := (ad_facts d)\<lparr>rf_objects_link := True\<rparr>\<rparr>)
                else d)
              in if fs_stat fs objects \<noteq> FoundFile Directory then add_denial ''git_objects_not_directory'' ''Git object directory is not a directory'' d1
                 else with_metadata (regularMetadataPresence fs (path_join [objects, ''info'', ''alternates'']) True) (\<lambda>f. f\<lparr>rf_alternates := True\<rparr>)
                   (ap_alternates p) ''alternate_object_database_not_allowed'' ''alternate Git object databases are not allowed''
                   ''Git alternate-object metadata is unavailable or malformed'' d1)"

definition evaluate_format :: "file_system \<Rightarrow> admission_policy \<Rightarrow> string \<Rightarrow> admission \<Rightarrow> admission" where
  "evaluate_format fs p common d =
     (case detectRefFormat fs common of
        None \<Rightarrow> add_denial ''git_metadata_invalid'' ''Git reference storage metadata is unavailable or malformed'' d
      | Some format \<Rightarrow> deny_if (format \<notin> set (ap_refs p)) ''ref_format_not_allowed'' ''Git reference format is not allowed''
          (d\<lparr>ad_facts := (ad_facts d)\<lparr>rf_format := format\<rparr>\<rparr>))"

definition head_allowed :: "admission_policy \<Rightarrow> string \<Rightarrow> bool" where
  "head_allowed p ref = (ref = [] \<or> ap_nonlocal p \<or> list_ex (\<lambda>prefix. has_prefix ref prefix) (ap_heads p))"

definition evaluate_metadata :: "file_system \<Rightarrow> admission_policy \<Rightarrow> inspect_result \<Rightarrow> string \<Rightarrow> string \<Rightarrow> admission \<Rightarrow> admission" where
  "evaluate_metadata fs p i root common d =
     (let linked = (common \<noteq> canonicalPath fs (path_join [root, ''.git'']));
          d1 = deny_if (\<not> ap_outside p \<and> \<not> pathWithinAny (ap_roots p) common)
                 ''git_common_dir_outside_allowed_roots'' ''Git common directory is outside every allowed root'' d;
          d2 = deny_if (linked \<and> \<not> ap_linked p) ''linked_worktree_not_allowed'' ''linked worktree source repositories are not allowed''
                 (d1\<lparr>ad_facts := (ad_facts d1)\<lparr>rf_linked := linked\<rparr>\<rparr>);
          d3 = evaluate_format fs p common d2;
          d4 = deny_if (\<not> head_allowed p (in_head_ref i)) ''head_ref_not_allowed'' ''source HEAD must be a permitted local branch reference'' d3;
          d5 = with_metadata (regularMetadataPresence fs (path_join [common, ''shallow'']) False) (\<lambda>f. f\<lparr>rf_shallow := True\<rparr>) (ap_shallow p)
                 ''shallow_repository_not_allowed'' ''shallow repositories are not allowed'' ''Git shallow metadata is unavailable or malformed'' d4;
          d6 = with_metadata (hasReplaceRefs fs common) (\<lambda>f. f\<lparr>rf_replace := True\<rparr>) (ap_replace p)
                 ''replace_refs_not_allowed'' ''Git replacement references are not allowed''
                 ''Git replacement-reference metadata is unavailable or malformed'' d5;
          d7 = with_metadata (regularMetadataPresence fs (path_join [common, ''info'', ''grafts'']) True) (\<lambda>f. f\<lparr>rf_grafts := True\<rparr>) (ap_grafts p)
                 ''grafts_not_allowed'' ''Git grafts are not allowed'' ''Git graft metadata is unavailable or malformed'' d6
      in evaluate_objects fs p common d7)"

definition evaluate_root :: "file_system \<Rightarrow> inspect_result \<Rightarrow> string \<Rightarrow> admission \<Rightarrow> admission" where
  "evaluate_root fs i root d =
     (if in_root i = [] then add_denial ''repository_root_missing'' ''repository root is missing'' d
      else if not_found (fs_stat fs root) then add_denial ''repository_root_unavailable'' ''repository root is unavailable'' d
      else deny_if (fs_stat fs root \<noteq> FoundFile Directory) ''repository_root_not_directory'' ''repository root is not a directory'' d)"

definition facts0 :: "string \<Rightarrow> repository_facts" where
  "facts0 common = \<lparr>rf_common = common, rf_format = [], rf_linked = False, rf_shallow = False, rf_replace = False, rf_grafts = False,
     rf_alternates = False, rf_objects_link = False\<rparr>"

text \<open>The part of \<open>Evaluate\<close> that both policy versions have.\<close>

definition evaluate_request :: "file_system \<Rightarrow> admission_policy \<Rightarrow> inspect_result \<Rightarrow> dirty_policy \<Rightarrow> admission" where
  "evaluate_request fs p i dirty =
     (let d0 = \<lparr>ad_allowed = True, ad_policy = ap_policy p, ad_root = in_root i, ad_codes = [], ad_reasons = [],
                ad_facts = facts0 (canonicalPath fs (in_common i))\<rparr>;
          d1 = deny_if (\<not> pathWithinAny (ap_roots p) (canonicalPath fs (in_root i)))
                 ''repository_outside_allowed_roots'' ''repository is outside every allowed root'' d0;
          d2 = deny_if (in_format i \<notin> set (ap_formats p)) ''object_format_not_allowed'' ''Git object format is not allowed'' d1;
          d3 = deny_if (in_head_ref i = [] \<and> \<not> ap_detached p) ''detached_head_not_allowed'' ''detached HEAD is not allowed'' d2
      in deny_if (dirty = StageFromHead \<and> \<not> ap_stage p) ''stage_from_head_not_allowed'' ''stage_from_head dirty policy is not allowed'' d3)"

definition Evaluate :: "file_system \<Rightarrow> admission_policy \<Rightarrow> inspect_result \<Rightarrow> dirty_policy \<Rightarrow> admission" where
  "Evaluate fs p i dirty =
     (let root = canonicalPath fs (in_root i); common = canonicalPath fs (in_common i); d4 = evaluate_request fs p i dirty
      in if ap_version p \<noteq> admission_version then d4
         else let d5 = evaluate_root fs i root d4; info = fs_lstat fs (in_common i)
              in if trim_space (in_common i) = [] then add_denial ''git_common_dir_missing'' ''Git common directory is missing'' d5
                 else if not_found info then add_denial ''git_common_dir_unavailable'' ''Git common directory is unavailable'' d5
                 else let d6 = deny_if (info = FoundFile Symlink) ''git_common_dir_symlink'' ''Git common directory must not be a symlink'' d5
                      in if fs_stat fs common \<noteq> FoundFile Directory
                         then add_denial ''git_common_dir_not_directory'' ''Git common directory is not a directory'' d6
                         else evaluate_metadata fs p i root common d6)"

subsection \<open>What an admitted repository looks like\<close>

named_theorems admission_simps \<open>when a decision is still to allow\<close>

lemma add_denial_allowed [admission_simps]: "ad_allowed (add_denial c r d) \<longleftrightarrow> False"
  by (simp add: add_denial_def)

lemma deny_if_allowed [admission_simps]: "ad_allowed (deny_if b c r d) \<longleftrightarrow> \<not> b \<and> ad_allowed d"
  by (simp add: deny_if_def add_denial_def)

lemma with_metadata_allowed [admission_simps]:
  "ad_allowed (with_metadata found note lets c r broken d) \<longleftrightarrow> found \<noteq> None \<and> (found = Some True \<longrightarrow> lets) \<and> ad_allowed d"
  by (auto simp: with_metadata_def admission_simps split: option.splits)

lemma facts_allowed [admission_simps]: "ad_allowed (d\<lparr>ad_facts := f\<rparr>) \<longleftrightarrow> ad_allowed d"
  by simp

lemma evaluate_objects_allowed [admission_simps]:
  "ad_allowed (evaluate_objects fs p common d) \<longleftrightarrow>
     ad_allowed d \<and> \<not> not_found (fs_lstat fs (path_join [common, ''objects'']))
     \<and> (fs_lstat fs (path_join [common, ''objects'']) = FoundFile Symlink \<longrightarrow> ap_objects_link p)
     \<and> fs_stat fs (path_join [common, ''objects'']) = FoundFile Directory
     \<and> regularMetadataPresence fs (path_join [path_join [common, ''objects''], ''info'', ''alternates'']) True \<noteq> None
     \<and> (regularMetadataPresence fs (path_join [path_join [common, ''objects''], ''info'', ''alternates'']) True = Some True \<longrightarrow> ap_alternates p)"
  by (auto simp: evaluate_objects_def Let_def admission_simps)

lemma evaluate_format_allowed [admission_simps]:
  "ad_allowed (evaluate_format fs p common d) \<longleftrightarrow> ad_allowed d \<and> (\<exists>format. detectRefFormat fs common = Some format \<and> format \<in> set (ap_refs p))"
  by (auto simp: evaluate_format_def admission_simps split: option.splits)

lemma evaluate_root_allowed [admission_simps]:
  "ad_allowed (evaluate_root fs i root d) \<longleftrightarrow> ad_allowed d \<and> in_root i \<noteq> [] \<and> fs_stat fs root = FoundFile Directory"
  by (auto simp: evaluate_root_def admission_simps not_found_def)

lemma evaluate_metadata_allowed:
  "ad_allowed (evaluate_metadata fs p i root c d) \<longleftrightarrow>
     ad_allowed d \<and> (ap_outside p \<or> pathWithinAny (ap_roots p) c) \<and> (c = canonicalPath fs (path_join [root, ''.git'']) \<or> ap_linked p)
     \<and> (\<exists>format. detectRefFormat fs c = Some format \<and> format \<in> set (ap_refs p)) \<and> head_allowed p (in_head_ref i)
     \<and> regularMetadataPresence fs (path_join [c, ''shallow'']) False \<noteq> None
     \<and> (regularMetadataPresence fs (path_join [c, ''shallow'']) False = Some True \<longrightarrow> ap_shallow p)
     \<and> hasReplaceRefs fs c \<noteq> None \<and> (hasReplaceRefs fs c = Some True \<longrightarrow> ap_replace p)
     \<and> regularMetadataPresence fs (path_join [c, ''info'', ''grafts'']) True \<noteq> None
     \<and> (regularMetadataPresence fs (path_join [c, ''info'', ''grafts'']) True = Some True \<longrightarrow> ap_grafts p)
     \<and> \<not> not_found (fs_lstat fs (path_join [c, ''objects'']))
     \<and> (fs_lstat fs (path_join [c, ''objects'']) = FoundFile Symlink \<longrightarrow> ap_objects_link p)
     \<and> fs_stat fs (path_join [c, ''objects'']) = FoundFile Directory
     \<and> regularMetadataPresence fs (path_join [path_join [c, ''objects''], ''info'', ''alternates'']) True \<noteq> None
     \<and> (regularMetadataPresence fs (path_join [path_join [c, ''objects''], ''info'', ''alternates'']) True = Some True \<longrightarrow> ap_alternates p)"
  unfolding evaluate_metadata_def Let_def admission_simps by blast

lemma Evaluate_allowed:
  assumes "ad_allowed (Evaluate fs p i dirty)" and "ap_version p = admission_version"
  shows "\<exists>d. pathWithinAny (ap_roots p) (canonicalPath fs (in_root i)) \<and> in_format i \<in> set (ap_formats p)
     \<and> (in_head_ref i = [] \<longrightarrow> ap_detached p) \<and> (dirty = StageFromHead \<longrightarrow> ap_stage p)
     \<and> fs_stat fs (canonicalPath fs (in_common i)) = FoundFile Directory
     \<and> ad_allowed (evaluate_metadata fs p i (canonicalPath fs (in_root i)) (canonicalPath fs (in_common i)) d)"
proof -
  let ?c = "canonicalPath fs (in_common i)"
  define d where "d = deny_if (fs_lstat fs (in_common i) = FoundFile Symlink) ''git_common_dir_symlink''
      ''Git common directory must not be a symlink'' (evaluate_root fs i (canonicalPath fs (in_root i)) (evaluate_request fs p i dirty))"
  have dir: "fs_stat fs ?c = FoundFile Directory" and all: "ad_allowed (evaluate_metadata fs p i (canonicalPath fs (in_root i)) ?c d)"
    using assms unfolding Evaluate_def Let_def d_def by (auto simp only: add_denial_allowed split: if_splits)
  then have "ad_allowed (evaluate_request fs p i dirty)" unfolding d_def by (simp add: evaluate_metadata_allowed admission_simps)
  then have "pathWithinAny (ap_roots p) (canonicalPath fs (in_root i)) \<and> in_format i \<in> set (ap_formats p)
     \<and> (in_head_ref i = [] \<longrightarrow> ap_detached p) \<and> (dirty = StageFromHead \<longrightarrow> ap_stage p)"
    by (simp add: evaluate_request_def Let_def admission_simps)
  with dir all show ?thesis by blast
qed

lemma components_clean:
  assumes "has_prefix p ''/''"
  shows "path_clean p = rooted (components (path_clean p))" "''..'' \<notin> set (components (path_clean p))"
    "\<forall>x \<in> set (components (path_clean p)). x \<noteq> [] \<and> CHR ''/'' \<notin> set x"
proof -
  obtain xs where xs: "path_clean p = CHR ''/'' # join ''/'' xs"
      "\<forall>x \<in> set xs. x \<noteq> [] \<and> x \<noteq> ''.'' \<and> x \<noteq> dotdot \<and> CHR ''/'' \<notin> set x"
    using path_clean_rooted [of p] assms by (cases p) (auto simp: has_prefix_def)
  have "components (path_clean p) = xs"
  proof (cases "xs = []")
    case False
    then have "split_on (CHR ''/'') (join ''/'' xs) = xs" using xs(2) by (intro split_on_join) auto
    then show ?thesis using xs by (simp add: components_def filter_id_conv)
  qed (simp add: xs components_def)
  then show "path_clean p = rooted (components (path_clean p))" "''..'' \<notin> set (components (path_clean p))"
    "\<forall>x \<in> set (components (path_clean p)). x \<noteq> [] \<and> CHR ''/'' \<notin> set x"
    using xs by (auto simp: rooted_def dotdot_def)
qed

lemma slash_first: "has_prefix (CHR ''/'' # x) ''/''"
  by (simp add: has_prefix_def)

lemma slash_firstE: "has_prefix p ''/'' \<Longrightarrow> \<exists>x. p = CHR ''/'' # x"
  by (cases p) (simp_all add: has_prefix_def)

lemma path_clean_absolute: "has_prefix p ''/'' \<Longrightarrow> has_prefix (path_clean p) ''/''"
  using path_clean_rooted [of p] slash_firstE [of p] slash_first by fastforce

lemma join_Cons_head: "join sep ((c # x) # ys) = c # join sep (x # ys)"
  by (cases ys) simp_all

lemma path_join_absolute:
  assumes "has_prefix p ''/''"
  shows "has_prefix (path_join (p # ps)) ''/''"
proof -
  obtain p' where p: "p = CHR ''/'' # p'" using slash_firstE [OF assms] by blast
  have "path_join (p # ps) = path_clean (CHR ''/'' # join ''/'' (p' # filter (\<lambda>p. p \<noteq> []) ps))"
    by (simp add: path_join_def p join_Cons_head)
  then show ?thesis by (simp only: path_clean_absolute slash_first)
qed

lemma rooted_absolute: "has_prefix (rooted cs) ''/''"
  unfolding rooted_def by (simp add: slash_first)

lemma resolve_up_rooted:
  assumes "\<forall>q r. has_prefix q ''/'' \<longrightarrow> fs_resolve fs q = Some r \<longrightarrow> has_prefix r ''/''"
  shows "has_prefix absolute ''/'' \<Longrightarrow> has_prefix (resolve_up fs absolute cs rest) ''/''"
  using assms
proof (induction fs absolute cs rest rule: resolve_up.induct)
  case (1 fs absolute rest)
  moreover have "has_prefix ''/'' ''/''" by (simp add: has_prefix_def)
  ultimately show ?case by (auto split: option.splits intro: path_join_absolute)
next
  case (2 fs absolute c cs rest)
  show ?case
  proof (cases "fs_resolve fs (rooted (rev (c # cs)))")
    case None
    with 2 show ?thesis by simp
  next
    case (Some r)
    with 2(3) have "has_prefix r ''/''" using rooted_absolute by blast
    with Some show ?thesis by (simp add: path_join_absolute)
  qed
qed

lemma canonicalPath_rooted:
  assumes "\<forall>q r. has_prefix q ''/'' \<longrightarrow> fs_resolve fs q = Some r \<longrightarrow> has_prefix r ''/''" and "has_prefix (fs_cwd fs) ''/''"
  shows "has_prefix (canonicalPath fs p) ''/''"
proof -
  have "has_prefix (abs_path (fs_cwd fs) (path_clean p)) ''/''"
    using assms(2) by (simp add: abs_path_def path_clean_absolute path_join_absolute)
  then show ?thesis unfolding canonicalPath_def Let_def by (rule resolve_up_rooted [OF assms(1)])
qed

text \<open>Whether a path is a directory or lies below it, component by component.\<close>

definition below :: "string \<Rightarrow> string \<Rightarrow> bool" where
  "below root p = (\<exists>rest. components (path_clean p) = components (path_clean root) @ rest)"

lemma strip_common_Nil: "fst (strip_common as bs) = [] \<Longrightarrow> bs = as @ snd (strip_common as bs)"
  by (induction as bs rule: strip_common.induct) (auto split: if_splits)

lemma updirs_first: "join ''/'' (''..'' # ys) = ''..'' \<or> has_prefix (join ''/'' (''..'' # ys)) ''../''"
  by (cases ys) (auto simp: has_prefix_def)

lemma pathWithinAny_below:
  assumes "pathWithinAny roots p" and "has_prefix p ''/''" and "\<forall>r \<in> set roots. has_prefix r ''/''"
  shows "\<exists>r \<in> set roots. below r p"
proof -
  obtain r rel where r: "r \<in> set roots" "path_rel r p = Some rel" "rel \<noteq> ''..''" "\<not> has_prefix rel ''../''"
    using assms(1) by (auto simp: pathWithinAny_def list_ex_iff split: option.splits)
  have dot: "path_clean r \<noteq> ''.''" "path_clean p \<noteq> ''.''"
    using components_clean(1) [OF assms(2)] components_clean(1) [of r] assms(3) r(1) by (auto simp: rooted_def)
  have "below r p"
  proof (cases "path_clean r = path_clean p")
    case True
    then show ?thesis by (simp add: below_def)
  next
    case False
    obtain up down where sc: "strip_common (components (path_clean r)) (components (path_clean p)) = (up, down)" by fastforce
    then have rel: "rel = join ''/'' (map (\<lambda>_. ''..'') up @ down)"
      using r(2) False dot by (auto simp: path_rel_def Let_def split: if_splits)
    have "up = []"
    proof (cases up)
      case (Cons u us)
      then show ?thesis using r(3,4) rel updirs_first [of "map (\<lambda>_. ''..'') us @ down"] by auto
    qed
    then show ?thesis using strip_common_Nil [of "components (path_clean r)" "components (path_clean p)"] sc
      by (auto simp: below_def)
  qed
  with r(1) show ?thesis ..
qed

lemma allowed_roots_set: "allowed_roots fs current raws roots = Inr out \<Longrightarrow> set out = set roots \<union> canonicalPath fs ` set raws"
  by (induction fs current raws roots rule: allowed_roots.induct) (auto simp: Let_def split: if_splits)

lemma StableDefault_Inr:
  assumes "StableDefault fs roots = Inr p"
  shows "ap_version p = admission_version" "set (ap_roots p) = canonicalPath fs ` set roots" "set (ap_formats p) = {''sha1'', ''sha256''}"
    "ap_refs p = [''files'']" "ap_heads p = [''refs/heads/'']" "\<not> ap_detached p" "\<not> ap_stage p" "\<not> ap_outside p" "\<not> ap_linked p"
    "\<not> ap_nonlocal p" "\<not> ap_shallow p" "\<not> ap_replace p" "\<not> ap_grafts p" "\<not> ap_alternates p" "\<not> ap_objects_link p"
proof -
  have lists: "normalizeAllowlist [] [''sha1'', ''sha256''] [''sha1'', ''sha256''] l = Inr [''sha1'', ''sha256'']"
      "normalizeAllowlist [] [''files''] [''files'', ''reftable''] l = Inr [''files'']" for l
    by (simp_all add: normalizeAllowlist_def trim_space_def is_space_def)
  obtain rs where rs: "allowed_roots fs True roots [] = Inr rs"
      and p: "p = (strict_policy roots)\<lparr>ap_policy := trim_space (ap_policy (strict_policy roots)), ap_roots := sort rs, ap_formats := [''sha1'', ''sha256''],
        ap_refs := [''files''], ap_heads := [''refs/heads/'']\<rparr>"
    using assms by (auto simp: StableDefault_def Validate_admission_def strict_policy_def Let_def try_bind_Inr lists)
  show "ap_version p = admission_version" "set (ap_roots p) = canonicalPath fs ` set roots" "set (ap_formats p) = {''sha1'', ''sha256''}"
    "ap_refs p = [''files'']" "ap_heads p = [''refs/heads/'']" "\<not> ap_detached p" "\<not> ap_stage p" "\<not> ap_outside p" "\<not> ap_linked p"
    "\<not> ap_nonlocal p" "\<not> ap_shallow p" "\<not> ap_replace p" "\<not> ap_grafts p" "\<not> ap_alternates p" "\<not> ap_objects_link p"
    using allowed_roots_set [OF rs] by (simp_all add: p strict_policy_def)
qed

text \<open>Repository metadata that cannot change the history under review.\<close>

definition plain_git_metadata :: "file_system \<Rightarrow> string \<Rightarrow> bool" where
  "plain_git_metadata fs common =
     (let objects = path_join [common, ''objects'']
      in fs_stat fs common = FoundFile Directory \<and> detectRefFormat fs common = Some ''files''
         \<and> regularMetadataPresence fs (path_join [common, ''shallow'']) False = Some False
         \<and> hasReplaceRefs fs common = Some False
         \<and> regularMetadataPresence fs (path_join [common, ''info'', ''grafts'']) True = Some False
         \<and> fs_lstat fs objects \<noteq> FoundFile Symlink \<and> fs_stat fs objects = FoundFile Directory
         \<and> regularMetadataPresence fs (path_join [objects, ''info'', ''alternates'']) True = Some False)"

lemma Evaluate_metadata:
  assumes "StableDefault fs roots = Inr p" and "ad_allowed (Evaluate fs p i dirty)"
  shows "plain_git_metadata fs (canonicalPath fs (in_common i))"
proof -
  note p = StableDefault_Inr [OF assms(1)]
  obtain d where *: "fs_stat fs (canonicalPath fs (in_common i)) = FoundFile Directory"
      "ad_allowed (evaluate_metadata fs p i (canonicalPath fs (in_root i)) (canonicalPath fs (in_common i)) d)"
    using Evaluate_allowed [OF assms(2) p(1)] by blast
  have no: "x = Some False" if "x \<noteq> None" "x = Some True \<longrightarrow> False" for x :: "bool option"
    using that by (cases x) auto
  define c where "c = canonicalPath fs (in_common i)"
  show ?thesis
    using * p unfolding c_def [symmetric] plain_git_metadata_def Let_def evaluate_metadata_allowed
    by (intro conjI no) auto
qed

text \<open>C29. A repository that the stable default policy admits is a plain one: a clean source on a local branch, inside
  one of the roots component by component, its metadata in its own \<open>.git\<close> directory, stored as files, and nothing in
  it that changes the history under review: no shallow, graft, replacement or alternate-object metadata and no linked
  object directory.\<close>

theorem admitted_repository_is_plain:
  assumes "StableDefault fs roots = Inr p" and "ad_allowed (Evaluate fs p i dirty)"
    and "\<forall>q r. has_prefix q ''/'' \<longrightarrow> fs_resolve fs q = Some r \<longrightarrow> has_prefix r ''/''" and "has_prefix (fs_cwd fs) ''/''"
  shows "dirty = RejectDirty \<and> has_prefix (in_head_ref i) ''refs/heads/'' \<and> in_format i \<in> {''sha1'', ''sha256''}
    \<and> (\<exists>r \<in> set roots. below (canonicalPath fs r) (canonicalPath fs (in_root i)))
    \<and> canonicalPath fs (in_common i) = canonicalPath fs (path_join [canonicalPath fs (in_root i), ''.git''])
    \<and> plain_git_metadata fs (canonicalPath fs (in_common i))"
proof -
  note p = StableDefault_Inr [OF assms(1)]
  obtain d where facts: "pathWithinAny (ap_roots p) (canonicalPath fs (in_root i))" "in_format i \<in> set (ap_formats p)"
      "in_head_ref i = [] \<longrightarrow> ap_detached p" "dirty = StageFromHead \<longrightarrow> ap_stage p"
      and "ad_allowed (evaluate_metadata fs p i (canonicalPath fs (in_root i)) (canonicalPath fs (in_common i)) d)"
    using Evaluate_allowed [OF assms(2) p(1)] by blast
  then have git: "canonicalPath fs (in_common i) = canonicalPath fs (path_join [canonicalPath fs (in_root i), ''.git''])"
      and head: "head_allowed p (in_head_ref i)" using p(9) unfolding evaluate_metadata_allowed by blast+
  have "dirty = RejectDirty" using facts(4) p(7) by (cases dirty) auto
  then show ?thesis
    using facts p head git Evaluate_metadata [OF assms(1,2)] pathWithinAny_below [OF facts(1)] canonicalPath_rooted [OF assms(3,4)] by (simp add: head_allowed_def)
qed

definition fs0 :: file_system where
  "fs0 = \<lparr>fs_lstat = (\<lambda>p. if p \<in> {''/r/.git'', ''/r/.git/refs'', ''/r/.git/objects''} then FoundFile Directory else NoFile),
     fs_stat = (\<lambda>p. if p \<in> {''/'', ''/r'', ''/r/.git'', ''/r/.git/objects''} then FoundFile Directory else NoFile),
     fs_resolve = Some, fs_read = (\<lambda>_. None), fs_tree = (\<lambda>_. Listing []), fs_cwd = ''/''\<rparr>"

definition inspect0 :: inspect_result where
  "inspect0 = \<lparr>in_root = ''/r'', in_common = ''/r/.git'', in_head_ref = ''refs/heads/main'', in_base = ''b'', in_format = ''sha1'', in_digest = ''d'',
     in_dirty = False\<rparr>"

text \<open>The hypotheses hold of this file system: every path resolves to itself.\<close>

lemma fs0_resolves: "fs_resolve fs0 q = Some q" "fs_cwd fs0 = ''/''" by (simp_all add: fs0_def)

definition admission0 :: admission_policy where
  "admission0 = (strict_policy [''/''])\<lparr>ap_formats := [''sha1'', ''sha256''], ap_refs := [''files''], ap_heads := [''refs/heads/'']\<rparr>"

lemma admission0_compiles: "StableDefault fs0 [''/''] = Inr admission0" by code_simp

lemma admission0_allows: "ad_allowed (Evaluate fs0 admission0 inspect0 RejectDirty)" by code_simp

theorem admitted_repository_is_plain_witness:
  "plain_git_metadata fs0 (canonicalPath fs0 (in_common inspect0))"
proof -
  have "\<forall>q r. has_prefix q ''/'' \<longrightarrow> fs_resolve fs0 q = Some r \<longrightarrow> has_prefix r ''/''" "has_prefix (fs_cwd fs0) ''/''"
    by (simp_all add: fs0_resolves has_prefix_def)
  from admitted_repository_is_plain [OF admission0_compiles admission0_allows this] show ?thesis by blast
qed

end
