(* ===== verification/Verification.thy ===== *)
theory Verification
  imports RuntimeOci RepoAdmission LedgerRepository "HOL-Library.Multiset" "HOL-Library.AList"
begin

text \<open>
  The verification engine \<open>internal/verification/verification.go\<close>: contracts and their validation, the
  layered topological order of the checks, the executors and a run with its report.  Local commands and the secret
  scanner are parameters of the engine, as is the file system.
\<close>

subsection \<open>Contracts\<close>

record contract_check =
  kc_id :: string
  kc_required :: bool
  kc_depends :: "string list"
  kc_executor :: string
  kc_type :: string
  kc_path :: string
  kc_digest :: string
  kc_command :: "string list"
  kc_timeout :: int

record contract =
  kt_format :: string
  kt_id :: string
  kt_policy :: string
  kt_checks :: "contract_check list"

definition opt_strs :: "string \<Rightarrow> string list \<Rightarrow> (string \<times> json) list" where
  "opt_strs k xs = (if xs = [] then [] else [(k, json_strs xs)])"

definition contract_check_json :: "contract_check \<Rightarrow> json" where
  "contract_check_json c = JObj
     ([(''check_id'', JStr (kc_id c)), (''required'', JBool (kc_required c))] @ opt_strs ''depends_on'' (kc_depends c)
      @ [(''executor'', JStr (kc_executor c)), (''type'', JStr (kc_type c))] @ opt_field ''path'' (kc_path c)
      @ opt_field ''digest'' (kc_digest c) @ opt_strs ''command'' (kc_command c)
      @ (if kc_timeout c = 0 then [] else [(''timeout_seconds'', JInt (kc_timeout c))]))"

definition contract_json :: "contract \<Rightarrow> json" where
  "contract_json k = JObj
     [(''format_version'', JStr (kt_format k)), (''contract_id'', JStr (kt_id k)), (''policy_version'', JStr (kt_policy k)),
      (''checks'', JArr (map contract_check_json (kt_checks k)))]"

definition executor_ok :: "contract_check \<Rightarrow> bool" where
  "executor_ok c =
     (if kc_executor c = ''workspace_assertion'' then kc_type c \<in> {''file_exists'', ''file_absent'', ''file_sha256''}
      else if kc_executor c = ''local_command'' \<or> kc_executor c = ''oci_command'' then kc_command c \<noteq> [] else False)"

fun contract_ids :: "contract_check list \<Rightarrow> string list \<Rightarrow> string + string list" where
  "contract_ids [] ids = Inr ids"
| "contract_ids (c # cs) ids =
     (if kc_id c = [] then Inl ''check_id is required''
      else if kc_id c \<in> set ids then Inl (''duplicate check '' @ kc_id c)
      else if \<not> executor_ok c then Inl (''unsupported executor or assertion of '' @ kc_id c)
      else contract_ids cs (kc_id c # ids))"

subsection \<open>Order of the checks\<close>

text \<open>
  \<open>pending\<close> maps the checks that are left to the dependencies they wait for.  A round takes all that wait
  for nothing, in the order of their names, and removes them from the dependencies of the others.
\<close>

definition ready_ids :: "(string \<times> string list) list \<Rightarrow> string list" where
  "ready_ids pending = sort (map fst (filter (\<lambda>(i, ds). ds = []) pending))"

definition next_pending :: "string list \<Rightarrow> (string \<times> string list) list \<Rightarrow> (string \<times> string list) list" where
  "next_pending ready pending =
     map (\<lambda>(i, ds). (i, filter (\<lambda>d. d \<notin> set ready) ds)) (filter (\<lambda>(i, ds). i \<notin> set ready) pending)"

function topo_loop ::
  "(string \<Rightarrow> contract_check) \<Rightarrow> (string \<times> string list) list \<Rightarrow> contract_check list \<Rightarrow> string + contract_check list" where
  "topo_loop byID pending order =
     (if pending = [] then Inr order
      else let ready = ready_ids pending
           in if ready = [] then Inl ''verification graph contains a cycle''
              else topo_loop byID (next_pending ready pending) (order @ map byID ready))"
  by pat_completeness auto
termination
proof (relation "measure (\<lambda>(byID, pending, order). length pending)")
  fix pending :: "(string \<times> string list) list" and byID :: "string \<Rightarrow> contract_check" and order :: "contract_check list" and ready
  assume ready: "ready = ready_ids pending" "ready \<noteq> []"
  then obtain i where "i \<in> set ready" using list.set_intros(1) by (metis neq_Nil_conv)
  moreover from this have "\<exists>ds. (i, ds) \<in> set pending" using ready(1) by (auto simp: ready_ids_def)
  ultimately have "\<exists>x \<in> set pending. \<not> (case x of (i, ds) \<Rightarrow> i \<notin> set ready)" by auto
  then have "length (filter (\<lambda>(i, ds). i \<notin> set ready) pending) < length pending"
    by (metis (no_types, lifting) length_filter_less)
  then show "((byID, next_pending ready pending, order @ map byID ready), byID, pending, order)
      \<in> measure (\<lambda>(byID, pending, order). length pending)"
    by (simp add: next_pending_def)
qed simp

declare topo_loop.simps [simp del]

definition Topological :: "contract_check list \<Rightarrow> string + contract_check list" where
  "Topological cs =
     topo_loop (\<lambda>i. the (find_row kc_id i (rev cs))) (fold (\<lambda>c. AList.update (kc_id c) (kc_depends c)) cs []) []"

definition Validate_contract :: "contract \<Rightarrow> string + unit" where
  "Validate_contract k =
     try_bind (require (kt_format k = ''0.1'') ''only verification contract 0.1 is supported'') (\<lambda>_.
     try_bind (require (kt_id k \<noteq> [] \<and> kt_policy k \<noteq> []) ''contract_id and policy_version are required'') (\<lambda>_.
     try_bind (require (kt_checks k \<noteq> []) ''at least one check is required'') (\<lambda>_.
     try_bind (contract_ids (kt_checks k) []) (\<lambda>ids.
     try_bind (require (list_ex kc_required (kt_checks k)) ''at least one required check is required'') (\<lambda>_.
     try_bind (require (list_all (\<lambda>c. set (kc_depends c) \<subseteq> set ids) (kt_checks k)) ''unknown dependency'') (\<lambda>_.
     try_bind (Topological (kt_checks k)) (\<lambda>_. Inr ())))))))"

subsection \<open>Executors\<close>

datatype command_outcome = CommandPassed | CommandFailed | CommandTimedOut

record secret_finding =
  sf_rule :: string
  sf_severity :: string
  sf_line :: int
  sf_fingerprint :: string
  sf_preview :: string

record secret_report =
  sr_policy :: string
  sr_lines :: int
  sr_findings :: "secret_finding list"
  sr_blocking :: bool
  sr_digest :: string

definition secret_report_json :: "secret_report \<Rightarrow> json" where
  "secret_report_json r = JObj
     [(''policy_version'', JStr (sr_policy r)), (''scanned_lines'', JInt (sr_lines r)),
      (''findings'', (if sr_findings r = [] then JNull else JArr (map (\<lambda>f. JObj
         [(''rule_id'', JStr (sf_rule f)), (''severity'', JStr (sf_severity f)), (''line'', JInt (sf_line f)),
          (''fingerprint'', JStr (sf_fingerprint f)), (''preview'', JStr (sf_preview f))]) (sr_findings r)))),
      (''blocking'', JBool (sr_blocking r)), (''digest'', JStr (sr_digest r))]"

text \<open>The text of \<open>json.MarshalIndent\<close> with two blanks is a parameter of the engine: evidence files are only written.\<close>

record 'w engine =
  vg_local :: bool
  vg_oci :: "'w runner option"
  vg_scanner :: "(string \<Rightarrow> 'w \<Rightarrow> string + secret_report) option"
  vg_files :: "'w \<Rightarrow> file_system"
  vg_host :: "'w host"
  vg_command :: "string \<Rightarrow> string list \<Rightarrow> int \<Rightarrow> 'w \<Rightarrow> (string \<times> command_outcome) \<times> 'w"
  vg_indent :: "json \<Rightarrow> string"

definition no_evidence :: oci_evidence where
  "no_evidence = \<lparr>oe_tx = [], oe_execution = [], oe_runtime = \<lparr>bn_kind = Docker, bn_binary = [], bn_version = [], bn_rootless = False, bn_info = []\<rparr>,
     oe_image = [], oe_image_digest = [], oe_command = [], oe_environment = [], oe_policy = [], oe_started = 0, oe_finished = 0, oe_exit = 0,
     oe_reason = Exited, oe_stdout = 0, oe_stderr = 0, oe_stdout_cut = False, oe_stderr_cut = False, oe_synced = False\<rparr>"

fun lead_links :: "file_system \<Rightarrow> string \<Rightarrow> string list \<Rightarrow> (string \<times> bool)" where
  "lead_links fs current [] = (current, False)"
| "lead_links fs current [p] = (path_join [current, p], False)"
| "lead_links fs current (p # q # ps) =
     (let next = path_join [current, p]
      in if fs_lstat fs next = FoundFile Symlink then (next, True) else lead_links fs next (q # ps))"

definition safePath :: "file_system \<Rightarrow> string \<Rightarrow> string \<Rightarrow> string + string" where
  "safePath fs root rel =
     (if rel = [] \<or> has_prefix rel ''/'' then Inl ''invalid assertion path''
      else let clean = path_clean rel; parts = split_on (CHR ''/'') clean
           in if clean = ''.'' \<or> has_prefix clean ''../'' \<or> clean = ''..'' then Inl ''path traversal rejected''
              else if ''.git'' \<in> set parts then Inl ''.git assertions rejected''
              else (case lead_links fs root parts of
                      (_, True) \<Rightarrow> Inl ''symlinked path component rejected''
                    | (p, False) \<Rightarrow> Inr p))"

definition executeAssertion :: "file_system \<Rightarrow> string \<Rightarrow> contract_check \<Rightarrow> string + string \<times> string" where
  "executeAssertion fs root c =
     try_bind (safePath fs root (kc_path c)) (\<lambda>p.
       case fs_lstat fs p of
         LookupFailed \<Rightarrow> Inr (''error'', ''lstat failed'')
       | found \<Rightarrow>
           (let there = (found \<noteq> NoFile)
            in if found = FoundFile Symlink then Inl ''assertion target is symlink''
               else if kc_type c = ''file_exists'' \<and> \<not> there then Inr (''fail'', ''expected file to exist: '' @ kc_path c)
               else if kc_type c = ''file_absent'' \<and> there then Inr (''fail'', ''expected file to be absent: '' @ kc_path c)
               else if kc_type c = ''file_sha256'' then
                 (case found of
                    FoundFile (RegularFile _) \<Rightarrow>
                      (case fs_read fs p of
                         None \<Rightarrow> Inr (''error'', ''read failed'')
                       | Some b \<Rightarrow> if SHA256Bytes b \<noteq> to_lower (kc_digest c) then Inr (''fail'', ''SHA-256 mismatch: '' @ kc_path c)
                                    else Inr (''pass'', []))
                  | _ \<Rightarrow> Inr (''fail'', ''expected regular file: '' @ kc_path c))
               else Inr (''pass'', [])))"

definition executeCommand :: "'w engine \<Rightarrow> string \<Rightarrow> contract_check \<Rightarrow> ('w, string, string \<times> string) action" where
  "executeCommand eng root c w =
     (let ((out, res), w1) = vg_command eng root (kc_command c) (if kc_timeout c > 0 then kc_timeout c else 60) w
      in (Inr (case res of CommandTimedOut \<Rightarrow> (''timeout'', ''command timed out'') | CommandFailed \<Rightarrow> (''fail'', take 4096 out)
               | CommandPassed \<Rightarrow> (''pass'', take 4096 out)), w1))"

text \<open>
  A run that never started gives the zero result, whose termination reason is empty; it is classified as a
  failure like a command that exited.
\<close>

definition oci_status :: "oci_result \<times> string option \<Rightarrow> string \<times> string" where
  "oci_status r =
     (let message = take 4096 (CombinedOutput (fst r)); reason = oe_reason (or_evidence (fst r))
      in if snd r = None then (''pass'', message)
         else if reason = TimedOut then (''timeout'', ''command timed out'')
         else if reason = RuntimeError \<or> reason = Cancelled then (''error'', message)
         else (''fail'', message))"

definition no_evidence_json :: json where
  "no_evidence_json = JObj
     [(''transaction_id'', JStr []), (''execution_id'', JStr []),
      (''runtime'', JObj [(''kind'', JStr []), (''binary'', JStr []), (''version'', JStr []), (''rootless'', JBool False)]),
      (''image'', JStr []), (''image_digest'', JStr []), (''command_digest'', JStr []), (''environment_digest'', JStr []),
      (''policy_digest'', JStr []), (''started_at'', JStr ''0001-01-01T00:00:00Z''), (''finished_at'', JStr ''0001-01-01T00:00:00Z''),
      (''duration'', JInt 0), (''exit_code'', JInt 0), (''termination_reason'', JStr []), (''stdout_bytes'', JInt 0),
      (''stderr_bytes'', JInt 0), (''stdout_truncated'', JBool False), (''stderr_truncated'', JBool False),
      (''workspace_synchronized'', JBool False)]"

definition executeOCI :: "'w engine \<Rightarrow> env \<Rightarrow> nat \<Rightarrow> string \<Rightarrow> workspace \<Rightarrow> contract_check \<Rightarrow> ('w, string, string \<times> string \<times> string) action" where
  "executeOCI eng en i tid ws c =
     (case vg_oci eng of
        None \<Rightarrow> give (''error'', ''OCI runtime is not configured'', [])
      | Some r0 \<Rightarrow>
          (let r = (if kc_timeout c > 0 then r0\<lparr>rn_policy := (rn_policy r0)\<lparr>op_timeout := kc_timeout c * 1000000000\<rparr>\<rparr> else r0);
               eid = NewID en i ''verifyexec'';
               dir = path_join [ws_artifacts ws, ''verification-runtime'', kc_id c, eid]
           in andThen (result_of (oci_Execute r (en_now en) (en_check en)
                \<lparr>oq_tx = tid, oq_execution = eid, oq_workspace = ws_path ws, oq_command = kc_command c, oq_environment = [],
                 oq_purpose = Verification, oq_sync = False\<rparr>)) (\<lambda>run.
              let res = (case run of Inl e \<Rightarrow> (\<lparr>or_stdout = [], or_stderr = [], or_evidence = no_evidence\<rparr>, Some e) | Inr x \<Rightarrow> x);
                  evidence = (case run of Inl _ \<Rightarrow> no_evidence_json | Inr x \<Rightarrow> evidence_json (or_evidence (fst x)))
              in andThen (hs_mkdir (vg_host eng) dir) (\<lambda>_.
                 andThen (hs_write (vg_host eng) (path_join [dir, ''stdout.log'']) (or_stdout (fst res))) (\<lambda>_.
                 andThen (hs_write (vg_host eng) (path_join [dir, ''stderr.log'']) (or_stderr (fst res))) (\<lambda>_.
                 andThen (hs_write (vg_host eng) (path_join [dir, ''evidence.json'']) (vg_indent eng evidence @ [CHR 0x0A])) (\<lambda>_.
                 let (status, message) = oci_status res in give (status, message, Digest evidence))))))))"

definition execute_check :: "'w engine \<Rightarrow> env \<Rightarrow> nat \<Rightarrow> string \<Rightarrow> workspace \<Rightarrow> contract_check \<Rightarrow> ('w, string, string \<times> string \<times> string) action" where
  "execute_check eng en i tid ws c =
     (if kc_executor c = ''workspace_assertion''
      then (\<lambda>w. (map_sum id (\<lambda>(s, m). (s, m, [])) (executeAssertion (vg_files eng w) (ws_path ws) c), w))
      else if kc_executor c = ''local_command''
      then (if \<not> vg_local eng then give (''error'', ''local commands disabled'', [])
            else andThen (executeCommand eng (ws_path ws) c) (\<lambda>(s, m). give (s, m, [])))
      else if kc_executor c = ''oci_command'' then executeOCI eng en i tid ws c
      else fail ''unsupported executor'')"

subsection \<open>A run\<close>

definition result_status :: "string \<Rightarrow> check_result list \<Rightarrow> string" where
  "result_status d results = (case find_row ck_id d (rev results) of None \<Rightarrow> [] | Some r \<Rightarrow> ck_status r)"

definition check_evidence :: "contract_check \<Rightarrow> patch \<Rightarrow> string \<Rightarrow> string \<Rightarrow> string" where
  "check_evidence c p status message = Digest (json_map
     [(''check_id'', JStr (kc_id c)), (''status'', JStr status), (''message'', JStr message), (''patch_sha256'', JStr (pa_sha p))])"

definition check_outcome :: "contract_check \<Rightarrow> patch \<Rightarrow> string \<times> string \<times> string \<Rightarrow> check_result" where
  "check_outcome c p out =
     (let (status, message, evidence) = out; spec = Digest (contract_check_json c)
      in \<lparr>ck_id = kc_id c, ck_required = kc_required c, ck_status = status, ck_spec = spec,
          ck_cache = Digest (json_map [(''check_spec'', JStr spec), (''patch'', JStr (pa_sha p)), (''executor'', JStr (kc_executor c))]),
          ck_evidence = (if evidence = [] then check_evidence c p status message else evidence), ck_message = message\<rparr>)"

fun run_checks ::
  "'w engine \<Rightarrow> env \<Rightarrow> string \<Rightarrow> workspace \<Rightarrow> patch \<Rightarrow> bool \<Rightarrow> nat \<Rightarrow> contract_check list \<Rightarrow> check_result list
     \<Rightarrow> ('w, string, check_result list) action" where
  "run_checks eng en tid ws p secretBlocked i [] results = give results"
| "run_checks eng en tid ws p secretBlocked i (c # cs) results =
     andThen (if secretBlocked \<or> list_ex (\<lambda>d. result_status d results \<noteq> ''pass'') (kc_depends c)
              then give (''blocked'', ''one or more dependencies did not pass'', [])
              else execute_check eng en i tid ws c) (\<lambda>out.
     run_checks eng en tid ws p secretBlocked (i + 1) cs (results @ [check_outcome c p out]))"

definition secret_result :: "secret_report \<Rightarrow> string \<Rightarrow> check_result" where
  "secret_result report path =
     \<lparr>ck_id = ''futurediff.secret_scan'', ck_required = True, ck_status = (if sr_blocking report then ''fail'' else ''pass''),
      ck_spec = Digest (json_map [(''check_id'', JStr ''futurediff.secret_scan''), (''policy_version'', JStr (sr_policy report))]),
      ck_cache = [], ck_evidence = sr_digest report,
      ck_message = (if sr_blocking report
        then show_int (int (length (sr_findings report))) @ '' secret finding(s) detected; review '' @ path
        else ''no blocking secret patterns detected'')\<rparr>"

definition scan_secrets :: "'w engine \<Rightarrow> workspace \<Rightarrow> patch \<Rightarrow> ('w, string, check_result list \<times> bool) action" where
  "scan_secrets eng ws p =
     (case vg_scanner eng of
        None \<Rightarrow> give ([], False)
      | Some scan \<Rightarrow>
          (let path = path_join [ws_artifacts ws, ''verification'', ''secret-scan.json''] in
           andThen (reading (\<lambda>w. map_sum (\<lambda>e. ''secret scan: '' @ e) id (scan (pa_path p) w))) (\<lambda>report.
           andThen (hs_mkdir (vg_host eng) (path_join [ws_artifacts ws, ''verification''])) (\<lambda>_.
           andThen (hs_write (vg_host eng) path (vg_indent eng (secret_report_json report) @ [CHR 0x0A])) (\<lambda>_.
           give ([secret_result report path], sr_blocking report))))))"

definition verification_Outcome :: "check_result list \<Rightarrow> string" where
  "verification_Outcome results = outcome_loop results 0 True"

definition RunWithMaterial ::
  "'w engine \<Rightarrow> env \<Rightarrow> string \<Rightarrow> workspace \<Rightarrow> patch \<Rightarrow> contract \<Rightarrow> string \<Rightarrow> ('w, string, verification_report) action" where
  "RunWithMaterial eng en tid ws p k material =
     andThen (check (trim_space material \<noteq> []) ''verification material digest is required'') (\<lambda>_.
     andThen (pass (Validate_contract k)) (\<lambda>_.
     andThen (pass (Topological (kt_checks k))) (\<lambda>order.
     andThen (scan_secrets eng ws p) (\<lambda>(results0, blocked).
     andThen (run_checks eng en tid ws p blocked 1 order results0) (\<lambda>results.
     let res = verification_Outcome results; contractDigest = Digest (contract_json k) in
     give \<lparr>vr_id = NewID en 0 ''verify'', vr_tx = tid, vr_contract = kt_id k, vr_contract_digest = contractDigest, vr_material = material,
           vr_outcome = res, vr_results = results,
           vr_digest = Digest (json_map
             [(''format_version'', JStr ''0.2''), (''transaction_id'', JStr tid), (''contract_digest'', JStr contractDigest),
              (''material_digest'', JStr material), (''outcome'', JStr res), (''results'', JArr (map check_json results))]),
           vr_policy = kt_policy k, vr_created = en_now en\<rparr>)))))"

end
