(* ===== verification/VerificationOrder.thy ===== *)
theory VerificationOrder
  imports Verification
begin

text \<open>
  The order of verification checks: the rounds of \<open>Topological\<close> find one exactly when the dependencies have no
  cycle, and every check comes after those it depends on.
\<close>

definition depends_rel :: "contract_check list \<Rightarrow> (string \<times> string) set" where
  "depends_rel cs = {(d, kc_id c) | c d. c \<in> set cs \<and> d \<in> set (kc_depends c)}"

text \<open>Every check comes after all its dependencies.\<close>

fun ordered_checks :: "string set \<Rightarrow> contract_check list \<Rightarrow> bool" where
  "ordered_checks seen [] = True"
| "ordered_checks seen (c # cs) = (set (kc_depends c) \<subseteq> seen \<and> ordered_checks (insert (kc_id c) seen) cs)"

lemma ordered_checks_append:
  "ordered_checks seen (xs @ ys) \<longleftrightarrow> ordered_checks seen xs \<and> ordered_checks (seen \<union> kc_id ` set xs) ys"
  by (induction xs arbitrary: seen) auto

lemma ordered_checks_free:
  "(\<And>c. c \<in> set ys \<Longrightarrow> set (kc_depends c) \<subseteq> seen) \<Longrightarrow> ordered_checks seen ys"
proof (induction ys arbitrary: seen)
  case (Cons y ys)
  have "ordered_checks (insert (kc_id y) seen) ys" by (rule Cons.IH) (use Cons.prems in fastforce)
  with Cons.prems show ?case by simp
qed simp

text \<open>What is left when \<open>order\<close> has been taken.\<close>

definition left_checks :: "contract_check list \<Rightarrow> contract_check list \<Rightarrow> (string \<times> string list) list" where
  "left_checks cs order =
     map (\<lambda>c. (kc_id c, filter (\<lambda>d. d \<notin> kc_id ` set order) (kc_depends c))) (filter (\<lambda>c. kc_id c \<notin> kc_id ` set order) cs)"

lemma lookup_id:
  "distinct (map kc_id cs) \<Longrightarrow> c \<in> set cs \<Longrightarrow> the (find_row kc_id (kc_id c) (rev cs)) = c"
  using find_row_unique [of kc_id "rev cs" c] by (simp add: unique_key_def rev_map [symmetric])

lemma update_absent: "k \<notin> fst ` set al \<Longrightarrow> AList.update k v al = al @ [(k, v)]"
  by (induction al) auto

lemma pending_start:
  "distinct (map kc_id cs) \<Longrightarrow> fst ` set al \<inter> kc_id ` set cs = {} \<Longrightarrow>
     fold (\<lambda>c. AList.update (kc_id c) (kc_depends c)) cs al = al @ left_checks cs []"
proof (induction cs arbitrary: al)
  case (Cons c cs)
  have "fst ` set (al @ [(kc_id c, kc_depends c)]) \<inter> kc_id ` set cs = {}" using Cons.prems by auto
  from Cons.IH [OF _ this] Cons.prems show ?case by (simp add: update_absent left_checks_def)
qed (simp add: left_checks_def)

lemma left_ids: "map fst (left_checks cs order) = filter (\<lambda>i. i \<notin> kc_id ` set order) (map kc_id cs)"
  by (simp add: left_checks_def filter_map comp_def)

lemma ready_in:
  "i \<in> set (ready_ids (left_checks cs order)) \<longleftrightarrow>
     (\<exists>c \<in> set cs. i = kc_id c \<and> i \<notin> kc_id ` set order \<and> set (kc_depends c) \<subseteq> kc_id ` set order)"
proof -
  have "i \<in> set (ready_ids (left_checks cs order)) \<longleftrightarrow> (i, []) \<in> set (left_checks cs order)"
    by (force simp: ready_ids_def)
  also have "\<dots> \<longleftrightarrow> (\<exists>c \<in> set cs. kc_id c \<notin> kc_id ` set order \<and> i = kc_id c \<and> filter (\<lambda>d. d \<notin> kc_id ` set order) (kc_depends c) = [])"
    unfolding left_checks_def set_map set_filter by (auto simp del: set_map)
  finally show ?thesis by (auto simp: filter_empty_conv)
qed

lemma taken_ids:
  assumes "distinct (map kc_id cs)"
  shows "map kc_id (map (\<lambda>i. the (find_row kc_id i (rev cs))) (ready_ids (left_checks cs order))) = ready_ids (left_checks cs order)"
proof -
  have "kc_id (the (find_row kc_id i (rev cs))) = i" if "i \<in> set (ready_ids (left_checks cs order))" for i
    using that lookup_id [OF assms] unfolding ready_in by auto
  then show ?thesis by (simp add: map_idI)
qed

lemma next_round:
  assumes "distinct (map kc_id cs)"
  shows "next_pending (ready_ids (left_checks cs order)) (left_checks cs order)
    = left_checks cs (order @ map (\<lambda>i. the (find_row kc_id i (rev cs))) (ready_ids (left_checks cs order)))"
proof -
  define ready where "ready = ready_ids (left_checks cs order)"
  have "kc_id ` set (map (\<lambda>i. the (find_row kc_id i (rev cs))) ready) = set (map kc_id (map (\<lambda>i. the (find_row kc_id i (rev cs))) ready))"
    by (rule set_map [symmetric])
  also have "\<dots> = set ready" unfolding ready_def taken_ids [OF assms] ..
  finally have "kc_id ` set (map (\<lambda>i. the (find_row kc_id i (rev cs))) ready) = set ready" .
  then have "kc_id ` set (order @ map (\<lambda>i. the (find_row kc_id i (rev cs))) ready) = kc_id ` set order \<union> set ready"
    by (simp add: image_Un)
  then show ?thesis unfolding ready_def [symmetric]
    by (simp add: next_pending_def left_checks_def filter_map comp_def conj_commute cong: conj_cong)
qed

lemma stuck_cyclic:
  assumes "distinct (map kc_id cs)" and "\<forall>c \<in> set cs. set (kc_depends c) \<subseteq> kc_id ` set cs"
    and "left_checks cs order \<noteq> []" and "ready_ids (left_checks cs order) = []"
  shows "\<not> acyclic (depends_rel cs)"
proof
  assume "acyclic (depends_rel cs)"
  moreover have "depends_rel cs = (\<Union>c \<in> set cs. (\<lambda>d. (d, kc_id c)) ` set (kc_depends c))" by (auto simp: depends_rel_def)
  then have "finite (depends_rel cs)" by simp
  ultimately have wf: "wf (depends_rel cs)" by (rule finite_acyclic_wf [rotated])
  let ?Q = "{kc_id c | c. c \<in> set cs \<and> kc_id c \<notin> kc_id ` set order}"
  obtain q where "q \<in> ?Q" using assms(3) by (auto simp: left_checks_def filter_empty_conv)
  from wfE_min [OF wf this] obtain z where z: "z \<in> ?Q" "\<And>y. (y, z) \<in> depends_rel cs \<Longrightarrow> y \<notin> ?Q" by blast
  then obtain c where c: "c \<in> set cs" "z = kc_id c" "kc_id c \<notin> kc_id ` set order" by blast
  then have "\<not> set (kc_depends c) \<subseteq> kc_id ` set order" using ready_in [of z cs order] assms(4) by auto
  then obtain d where d: "d \<in> set (kc_depends c)" "d \<notin> kc_id ` set order" by blast
  then have "(d, z) \<in> depends_rel cs" using c by (auto simp: depends_rel_def)
  moreover have "d \<in> kc_id ` set cs" using assms(2) c(1) d(1) by blast
  with d(2) have "d \<in> ?Q" by blast
  ultimately show False using z(2) by blast
qed

lemma topo_loop_spec:
  assumes "distinct (map kc_id cs)" and "\<forall>c \<in> set cs. set (kc_depends c) \<subseteq> kc_id ` set cs"
  shows "set order \<subseteq> set cs \<Longrightarrow> distinct (map kc_id order) \<Longrightarrow> ordered_checks {} order \<Longrightarrow>
    (case topo_loop (\<lambda>i. the (find_row kc_id i (rev cs))) (left_checks cs order) order of
       Inr out \<Rightarrow> mset out = mset cs \<and> ordered_checks {} out
     | Inl e \<Rightarrow> \<not> acyclic (depends_rel cs))"
proof (induction "length (left_checks cs order)" arbitrary: order rule: less_induct)
  case less
  let ?look = "\<lambda>i. the (find_row kc_id i (rev cs))"
  let ?ready = "ready_ids (left_checks cs order)"
  show ?case
  proof (cases "left_checks cs order = []")
    case True
    then have "\<forall>c \<in> set cs. kc_id c \<in> kc_id ` set order" by (auto simp: left_checks_def filter_empty_conv)
    moreover have "inj_on kc_id (set cs)" using assms(1) by (simp add: distinct_map)
    ultimately have "set order = set cs" using less.prems(1) by (auto simp: inj_on_def)
    moreover have "distinct order" "distinct cs" using less.prems(2) assms(1) by (simp_all add: distinct_map)
    ultimately have "mset order = mset cs" by (simp add: set_eq_iff_mset_eq_distinct)
    with True less.prems(3) show ?thesis by (simp add: topo_loop.simps)
  next
    case left: False
    show ?thesis
    proof (cases "?ready = []")
      case True
      then show ?thesis using left stuck_cyclic [OF assms left True] by (simp add: topo_loop.simps)
    next
      case False
      let ?taken = "map ?look ?ready"
      have ids: "map kc_id ?taken = ?ready" by (rule taken_ids [OF assms(1)])
      have taken: "c \<in> set cs \<and> set (kc_depends c) \<subseteq> kc_id ` set order" if "c \<in> set ?taken" for c
      proof -
        obtain i where i: "i \<in> set ?ready" "c = the (find_row kc_id i (rev cs))" using \<open>c \<in> set ?taken\<close> by auto
        then obtain c' where "c' \<in> set cs" "i = kc_id c'" "set (kc_depends c') \<subseteq> kc_id ` set order" unfolding ready_in by blast
        then show ?thesis using i(2) lookup_id [OF assms(1)] by simp
      qed
      have fresh: "set ?ready \<inter> kc_id ` set order = {}" using ready_in [of _ cs order] by blast
      have "distinct ?ready"
        using assms(1) by (auto simp: ready_ids_def left_checks_def filter_map comp_def distinct_map inj_on_def)
      then have dist: "distinct (map kc_id (order @ ?taken))" using less.prems(2) fresh ids by auto
      have sub: "set (order @ ?taken) \<subseteq> set cs" using less.prems(1) taken by auto
      have ord: "ordered_checks {} (order @ ?taken)"
        unfolding ordered_checks_append by (intro conjI less.prems(3) ordered_checks_free) (use taken in blast)
      have round: "next_pending ?ready (left_checks cs order) = left_checks cs (order @ ?taken)" by (rule next_round [OF assms(1)])
      have "length (left_checks cs (order @ ?taken)) < length (left_checks cs order)"
      proof -
        obtain i where i: "i \<in> set ?ready" using False list.set_intros(1) by (metis neq_Nil_conv)
        then have "\<exists>x \<in> set (left_checks cs order). \<not> (case x of (i, ds) \<Rightarrow> i \<notin> set ?ready)" by (fastforce simp: ready_ids_def)
        then show ?thesis unfolding round [symmetric] next_pending_def length_map by (metis (no_types, lifting) length_filter_less)
      qed
      from less.hyps [OF this sub dist ord] show ?thesis
        using left False by (simp add: topo_loop.simps [of _ "left_checks cs order"] Let_def round)
    qed
  qed
qed

lemma takeWhile_shorter: "x \<in> set xs \<Longrightarrow> \<not> P x \<Longrightarrow> length (takeWhile P xs) < length xs"
  by (induction xs) auto

lemma ordered_acyclic:
  assumes "ordered_checks {} out" and "distinct (map kc_id out)" and "set out = set cs"
  shows "acyclic (depends_rel cs)"
proof -
  define f where "f = (\<lambda>i. length (takeWhile (\<lambda>c. kc_id c \<noteq> i) out))"
  have "f d < f (kc_id c)" if c: "c \<in> set out" and d: "d \<in> set (kc_depends c)" for c d
  proof -
    obtain xs ys where out: "out = xs @ c # ys" using split_list [OF c] by blast
    then have "d \<in> kc_id ` set xs" using assms(1) d by (auto simp: ordered_checks_append)
    then obtain x where x: "x \<in> set xs" "kc_id x = d" by blast
    then have "f d < length xs" using takeWhile_shorter [of x xs "\<lambda>c. kc_id c \<noteq> d"] by (simp add: f_def out)
    moreover have "f (kc_id c) = length xs"
    proof -
      have other: "kc_id c \<notin> kc_id ` set xs" using assms(2) by (simp add: out)
      have "takeWhile (\<lambda>x. kc_id x \<noteq> kc_id c) (xs @ c # ys) = xs @ takeWhile (\<lambda>x. kc_id x \<noteq> kc_id c) (c # ys)"
        by (rule takeWhile_append2) (metis other image_eqI)
      then show ?thesis by (simp add: f_def out)
    qed
    ultimately show ?thesis by simp
  qed
  then have "depends_rel cs \<subseteq> measure f" using assms(3) by (auto simp: depends_rel_def)
  then show ?thesis by (metis wf_measure wf_subset wf_acyclic)
qed

text \<open>C32. The order of the checks is found exactly when the dependencies have no cycle: for checks with distinct names
  that depend on each other only, the rounds end with an order if and only if the dependency relation is acyclic, and the
  order holds every check once, after all its dependencies.\<close>

theorem topological_terminates_ordered:
  assumes "distinct (map kc_id cs)" and "\<forall>c \<in> set cs. set (kc_depends c) \<subseteq> kc_id ` set cs"
  shows "((\<exists>order. Topological cs = Inr order) \<longleftrightarrow> acyclic (depends_rel cs))
    \<and> (\<forall>order. Topological cs = Inr order \<longrightarrow> mset order = mset cs \<and> ordered_checks {} order)"
proof -
  have start: "Topological cs = topo_loop (\<lambda>i. the (find_row kc_id i (rev cs))) (left_checks cs []) []"
    using pending_start [OF assms(1), of "[]"] by (simp add: Topological_def)
  note spec = topo_loop_spec [OF assms, of "[]", folded start, simplified]
  have found: "mset order = mset cs \<and> ordered_checks {} order" if "Topological cs = Inr order" for order
    using spec that by simp
  have "acyclic (depends_rel cs)" if "Topological cs = Inr order" for order
  proof (rule ordered_acyclic)
    have same: "mset order = mset cs" using found [OF that] by simp
    then have "mset (map kc_id order) = mset (map kc_id cs)" by simp
    then show "distinct (map kc_id order)" using assms(1) by (metis mset_eq_imp_distinct_iff)
    show "ordered_checks {} order" using found [OF that] by simp
    show "set order = set cs" using same by (rule mset_eq_setD)
  qed
  then show ?thesis using found spec by (cases "Topological cs") auto
qed

definition diamond0 :: "contract_check list" where
  "diamond0 = map (\<lambda>(i, ds). \<lparr>kc_id = i, kc_required = True, kc_depends = ds, kc_executor = ''workspace_assertion'', kc_type = ''file_exists'',
     kc_path = ''a'', kc_digest = [], kc_command = [], kc_timeout = 0\<rparr>) [(''d'', [''b'', ''c'']), (''b'', [''a'']), (''c'', [''a'']), (''a'', [])]"

theorem topological_terminates_ordered_witness:
  "acyclic (depends_rel diamond0)"
proof -
  have "Topological diamond0 = Inr (map (\<lambda>i. the (find_row kc_id i diamond0)) [''a'', ''b'', ''c'', ''d''])" by code_simp
  moreover have "distinct (map kc_id diamond0)" "\<forall>c \<in> set diamond0. set (kc_depends c) \<subseteq> kc_id ` set diamond0"
    by (simp_all add: diamond0_def)
  ultimately show ?thesis using topological_terminates_ordered [of diamond0] by blast
qed

end
