(* ===== verification/GithubDraft.thy ===== *)
theory GithubDraft
  imports GithubBranch
begin

text \<open>
  The adapter \<open>internal/adapters/githubdraft\<close> that creates a draft pull request.  The HTTP client of the
  standard library and the server behind it are one function \<open>'w http\<close> from a request and the state of the
  outside world to a reply or a transport error.  Error texts of the standard library are shortened.  Pull requests
  are sorted by number; where numbers repeat the order of the reply is kept (Go leaves it open).
\<close>

subsection \<open>HTTP\<close>

record wire_request =
  wq_method :: string
  wq_url :: string
  wq_token :: string
  wq_body :: string

record wire_reply =
  wr_status :: int
  wr_body :: "string + string"

type_synonym 'w http = "wire_request \<Rightarrow> 'w \<Rightarrow> (string + wire_reply) \<times> 'w"

text \<open>A request whose URL does not parse is not sent; at most \<open>limit\<close> bytes of the body are read.\<close>

datatype wire_outcome =
    WireInvalid
  | WireLost string
  | WireUnread int string
  | WireReply int string

definition wire :: "'w http \<Rightarrow> nat \<Rightarrow> wire_request \<Rightarrow> 'w \<Rightarrow> wire_outcome \<times> 'w" where
  "wire http limit q w =
     (if url_parse (wq_url q) = None then (WireInvalid, w)
      else case http q w of
             (Inl err, w1) \<Rightarrow> (WireLost err, w1)
           | (Inr r, w1) \<Rightarrow>
               ((case wr_body r of Inl err \<Rightarrow> WireUnread (wr_status r) err
                 | Inr b \<Rightarrow> WireReply (wr_status r) (take limit b)), w1))"

definition success_status :: "int \<Rightarrow> bool" where
  "success_status st = (200 \<le> st \<and> st < 300)"

definition safeProviderMessage :: "string \<Rightarrow> string" where
  "safeProviderMessage b =
     (let m = trim_space b in if length m > 1024 then take 1024 m @ [CHR 0xE2, CHR 0x80, CHR 0xA6] else m)"

definition mebibytes :: "nat \<Rightarrow> nat" where "mebibytes n = n * 1048576"

text \<open>\<open>url.QueryEscape\<close>, and \<open>Encode\<close> of a map given in key order.\<close>

definition query_escape :: "string \<Rightarrow> string" where
  "query_escape s = concat (map (\<lambda>c. if c = CHR '' '' then ''+''
     else if alnum c \<or> c \<in> set ''-_.~'' then [c]
     else [CHR ''%'', upper_hex (code c div 16), upper_hex (code c mod 16)]) s)"

definition query_encode :: "(string \<times> string) list \<Rightarrow> string" where
  "query_encode kvs = join ''&'' (map (\<lambda>(k, v). query_escape k @ ''='' @ query_escape v) kvs)"

subsection \<open>Types\<close>

record draft_input =
  di_owner :: string
  di_repo :: string
  di_title :: string
  di_body :: string
  di_head :: string
  di_base :: string
  di_sha :: string
  di_depends :: string

record draft_prepared =
  dp_input :: draft_input
  dp_marker :: string
  dp_body :: string
  dp_head_sha :: string
  dp_base_sha :: string
  dp_resources :: "(string \<times> string) list option"
  dp_digest :: string

record draft_preview =
  dv_repository :: string
  dv_title :: string
  dv_body :: string
  dv_head :: string
  dv_base :: string
  dv_head_sha :: string
  dv_base_sha :: string
  dv_published :: bool
  dv_limitation :: string

record draft_receipt =
  dq_number :: int
  dq_node :: string
  dq_url :: string
  dq_head_sha :: string
  dq_base_sha :: string
  dq_recovered :: bool
  dq_observed :: gotime

datatype draft_status = DraftNotFound | DraftCommitted draft_receipt

record pull =
  pl_number :: int
  pl_node :: string
  pl_url :: string
  pl_title :: string
  pl_body :: string
  pl_draft :: bool
  pl_head_ref :: string
  pl_head_sha :: string
  pl_base_ref :: string
  pl_base_sha :: string

record 'w draft_adapter =
  da_base :: string
  da_http :: "'w http"

subsection \<open>JSON forms\<close>

definition draft_input_json :: "draft_input \<Rightarrow> json" where
  "draft_input_json i = JObj
     ([(''owner'', JStr (di_owner i)), (''repo'', JStr (di_repo i)), (''title'', JStr (di_title i))]
      @ opt_field ''body'' (di_body i)
      @ [(''head'', JStr (di_head i)), (''base'', JStr (di_base i))]
      @ opt_field ''expected_head_sha'' (di_sha i) @ opt_field ''depends_on_effect_id'' (di_depends i))"

definition draft_prepared_json :: "draft_prepared \<Rightarrow> json" where
  "draft_prepared_json p = JObj
     [(''input'', draft_input_json (dp_input p)), (''effect_marker'', JStr (dp_marker p)), (''rendered_body'', JStr (dp_body p)),
      (''expected_head_sha'', JStr (dp_head_sha p)), (''expected_base_sha'', JStr (dp_base_sha p)),
      (''resource_versions'', json_resources (dp_resources p)), (''request_digest'', JStr (dp_digest p))]"

definition draft_preview_json :: "draft_preview \<Rightarrow> json" where
  "draft_preview_json v = JObj
     [(''provider'', JStr ''github''), (''repository'', JStr (dv_repository v)), (''title'', JStr (dv_title v)),
      (''body'', JStr (dv_body v)), (''head'', JStr (dv_head v)), (''base'', JStr (dv_base v)),
      (''expected_head_sha'', JStr (dv_head_sha v)), (''expected_base_sha'', JStr (dv_base_sha v)), (''draft'', JBool True),
      (''support_level'', JStr ''exact_payload_with_ref_freshness_check''), (''local_patch_published'', JBool (dv_published v)),
      (''head_binding_limitation'', JStr (dv_limitation v))]"

definition draft_receipt_json :: "draft_receipt \<Rightarrow> json" where
  "draft_receipt_json r = JObj
     ([(''pull_number'', JInt (dq_number r))] @ opt_field ''node_id'' (dq_node r) @ [(''html_url'', JStr (dq_url r))]
      @ opt_field ''head_sha'' (dq_head_sha r) @ opt_field ''base_sha'' (dq_base_sha r)
      @ [(''recovered'', JBool (dq_recovered r)), (''observed_at'', json_time (dq_observed r))])"

definition createPayload :: "draft_prepared \<Rightarrow> json" where
  "createPayload p = JObj
     [(''title'', JStr (di_title (dp_input p))), (''head'', JStr (di_head (dp_input p))), (''base'', JStr (di_base (dp_input p))),
      (''body'', JStr (dp_body p)), (''draft'', JBool True)]"

definition draft_input0 :: draft_input where
  "draft_input0 = \<lparr>di_owner = [], di_repo = [], di_title = [], di_body = [], di_head = [], di_base = [], di_sha = [], di_depends = []\<rparr>"

definition draft_prepared0 :: draft_prepared where
  "draft_prepared0 = \<lparr>dp_input = draft_input0, dp_marker = [], dp_body = [], dp_head_sha = [], dp_base_sha = [], dp_resources = None, dp_digest = []\<rparr>"

definition pull0 :: pull where
  "pull0 = \<lparr>pl_number = 0, pl_node = [], pl_url = [], pl_title = [], pl_body = [], pl_draft = False, pl_head_ref = [], pl_head_sha = [],
     pl_base_ref = [], pl_base_sha = []\<rparr>"

definition dec_draft_input :: "draft_input field_decoder" where
  "dec_draft_input = dec_struct
     [(''owner'', dec_string (\<lambda>s i. i\<lparr>di_owner := s\<rparr>)), (''repo'', dec_string (\<lambda>s i. i\<lparr>di_repo := s\<rparr>)),
      (''title'', dec_string (\<lambda>s i. i\<lparr>di_title := s\<rparr>)), (''body'', dec_string (\<lambda>s i. i\<lparr>di_body := s\<rparr>)),
      (''head'', dec_string (\<lambda>s i. i\<lparr>di_head := s\<rparr>)), (''base'', dec_string (\<lambda>s i. i\<lparr>di_base := s\<rparr>)),
      (''expected_head_sha'', dec_string (\<lambda>s i. i\<lparr>di_sha := s\<rparr>)), (''depends_on_effect_id'', dec_string (\<lambda>s i. i\<lparr>di_depends := s\<rparr>))]"

definition dec_draft_prepared :: "draft_prepared field_decoder" where
  "dec_draft_prepared = dec_struct
     [(''input'', dec_nested dp_input (\<lambda>x p. p\<lparr>dp_input := x\<rparr>) dec_draft_input),
      (''effect_marker'', dec_string (\<lambda>s p. p\<lparr>dp_marker := s\<rparr>)), (''rendered_body'', dec_string (\<lambda>s p. p\<lparr>dp_body := s\<rparr>)),
      (''expected_head_sha'', dec_string (\<lambda>s p. p\<lparr>dp_head_sha := s\<rparr>)), (''expected_base_sha'', dec_string (\<lambda>s p. p\<lparr>dp_base_sha := s\<rparr>)),
      (''resource_versions'', dec_map dp_resources (\<lambda>m p. p\<lparr>dp_resources := m\<rparr>)), (''request_digest'', dec_string (\<lambda>s p. p\<lparr>dp_digest := s\<rparr>))]"

definition dec_ref :: "(string \<Rightarrow> pull \<Rightarrow> pull) \<Rightarrow> (string \<Rightarrow> pull \<Rightarrow> pull) \<Rightarrow> pull field_decoder" where
  "dec_ref ref sha = dec_struct [(''ref'', dec_string ref), (''sha'', dec_string sha)]"

definition dec_pull :: "pull field_decoder" where
  "dec_pull = dec_struct
     [(''number'', dec_int (\<lambda>n p. p\<lparr>pl_number := n\<rparr>)), (''node_id'', dec_string (\<lambda>s p. p\<lparr>pl_node := s\<rparr>)),
      (''html_url'', dec_string (\<lambda>s p. p\<lparr>pl_url := s\<rparr>)), (''title'', dec_string (\<lambda>s p. p\<lparr>pl_title := s\<rparr>)),
      (''body'', dec_string (\<lambda>s p. p\<lparr>pl_body := s\<rparr>)), (''draft'', dec_bool (\<lambda>b p. p\<lparr>pl_draft := b\<rparr>)),
      (''head'', dec_ref (\<lambda>s p. p\<lparr>pl_head_ref := s\<rparr>) (\<lambda>s p. p\<lparr>pl_head_sha := s\<rparr>)),
      (''base'', dec_ref (\<lambda>s p. p\<lparr>pl_base_ref := s\<rparr>) (\<lambda>s p. p\<lparr>pl_base_sha := s\<rparr>))]"

fun dec_list :: "'a field_decoder \<Rightarrow> 'a \<Rightarrow> jval list \<Rightarrow> 'a list option" where
  "dec_list d zero [] = Some []"
| "dec_list d zero (v # vs) =
     (case d v zero of None \<Rightarrow> None | Some x \<Rightarrow> map_option ((#) x) (dec_list d zero vs))"

definition dec_slice :: "'a field_decoder \<Rightarrow> 'a \<Rightarrow> 'a list field_decoder" where
  "dec_slice d zero v cur = (case v of VNull \<Rightarrow> Some [] | VArr vs \<Rightarrow> dec_list d zero vs | _ \<Rightarrow> None)"

definition dec_ref_response :: "string field_decoder" where
  "dec_ref_response = dec_struct [(''object'', dec_struct [(''sha'', dec_string (\<lambda>s _. s))])]"

subsection \<open>Normalization and destinations\<close>

definition repoPart :: "string \<Rightarrow> bool" where
  "repoPart s = (1 \<le> length s \<and> length s \<le> 100 \<and> list_all (\<lambda>c. alnum c \<or> c \<in> set ''_.-'') s)"

definition isFullSHA :: "string \<Rightarrow> bool" where
  "isFullSHA v = ((length v = 40 \<or> length v = 64) \<and> list_all (\<lambda>c. c \<in> set ''0123456789abcdefABCDEF'') v)"

definition draft_Normalize :: "draft_input \<Rightarrow> adapter_error + draft_input" where
  "draft_Normalize i0 =
     (let i = i0\<lparr>di_owner := trim_space (di_owner i0), di_repo := trim_space (di_repo i0), di_title := trim_space (di_title i0),
               di_head := trim_space (di_head i0), di_base := trim_space (di_base i0),
               di_sha := to_lower (trim_space (di_sha i0)), di_depends := trim_space (di_depends i0)\<rparr>
      in try_bind (require (repoPart (di_owner i) \<and> repoPart (di_repo i))
           (PlainError ''github owner and repository must use safe GitHub name characters'')) (\<lambda>_.
         try_bind (require (di_title i \<noteq> [] \<and> length (di_title i) \<le> 256) (PlainError ''pull-request title must be 1-256 characters'')) (\<lambda>_.
         try_bind (require (di_head i \<noteq> [] \<and> di_base i \<noteq> [] \<and> length (di_head i) \<le> 255 \<and> length (di_base i) \<le> 255)
           (PlainError ''head and base branches are required and must be at most 255 characters'')) (\<lambda>_.
         try_bind (require (safeBranch (di_head i) \<and> safeBranch (di_base i)) (PlainError ''unsafe Git branch name'')) (\<lambda>_.
         try_bind (require (di_sha i = [] \<or> isFullSHA (di_sha i)) (PlainError ''expected_head_sha must be a full Git object id'')) (\<lambda>_.
         try_bind (require ((di_sha i = []) = (di_depends i = []))
           (PlainError ''expected_head_sha and depends_on_effect_id must be provided together'')) (\<lambda>_.
         try_bind (require (length (di_body i) \<le> 64 * 1024) (PlainError ''pull-request body exceeds 64 KiB'')) (\<lambda>_.
         Inr i))))))))"

definition trim_right_slash :: "string \<Rightarrow> string" where
  "trim_right_slash s = rev (dropWhile (\<lambda>c. c = CHR ''/'') (rev s))"

definition draft_endpoint :: "'w draft_adapter \<Rightarrow> string list \<Rightarrow> string" where
  "draft_endpoint a parts =
     (let b = trim_right_slash (trim_space (da_base a)); base = (if b = [] then ''https://api.github.com'' else b)
      in base @ ''/'' @ path_join (map PathEscape parts))"

definition draft_Destination :: "'w draft_adapter \<Rightarrow> draft_input \<Rightarrow> adapter_error + string" where
  "draft_Destination a i = try_bind (draft_Normalize i) (\<lambda>n. Inr (draft_endpoint a [''repos'', di_owner n, di_repo n, ''pulls'']))"

definition draft_ReadDestination :: "'w draft_adapter \<Rightarrow> draft_input \<Rightarrow> adapter_error + string" where
  "draft_ReadDestination a i = try_bind (draft_Normalize i)
     (\<lambda>n. Inr (draft_endpoint a [''repos'', di_owner n, di_repo n, ''git'', ''ref'', ''heads'']))"

subsection \<open>Provider calls\<close>

definition draft_error :: "bool \<Rightarrow> int \<Rightarrow> string \<Rightarrow> string \<Rightarrow> adapter_error" where
  "draft_error ambiguous status cls msg =
     DraftError \<lparr>pe_ambiguous = ambiguous, pe_status = status, pe_class = cls, pe_text = msg\<rparr>"

definition readRef :: "'w draft_adapter \<Rightarrow> draft_input \<Rightarrow> string \<Rightarrow> string \<Rightarrow> 'w \<Rightarrow> (adapter_error + string) \<times> 'w" where
  "readRef a i branch token w =
     (case wire (da_http a) (256 * 1024)
        \<lparr>wq_method = ''GET'', wq_url = draft_endpoint a [''repos'', di_owner i, di_repo i, ''git'', ''ref'', ''heads'', branch],
         wq_token = token, wq_body = []\<rparr> w of
        (WireInvalid, w1) \<Rightarrow> (Inl (PlainError ''invalid request URL''), w1)
      | (WireLost err, w1) \<Rightarrow> (Inl (draft_error True 0 ''ref_transport_error'' (''github ref query failed: '' @ err)), w1)
      | (WireUnread st err, w1) \<Rightarrow> (Inl (PlainError err), w1)
      | (WireReply st body, w1) \<Rightarrow>
          (if \<not> success_status st
           then (Inl (draft_error False st ''ref_rejected''
                  (''github ref query returned '' @ show_int st @ '': '' @ safeProviderMessage body)), w1)
           else case Unmarshal dec_ref_response body [] of
                  None \<Rightarrow> (Inl (PlainError ''decode github ref response''), w1)
                | Some sha \<Rightarrow>
                    if isFullSHA sha then (Inr (to_lower sha), w1)
                    else (Inl (PlainError ''github ref response did not contain a full object SHA''), w1)))"

text \<open>A reference that the server does not know (404) is absent; every other error is an error.\<close>

definition readRefOptional :: "'w draft_adapter \<Rightarrow> draft_input \<Rightarrow> string \<Rightarrow> string \<Rightarrow> 'w \<Rightarrow> (adapter_error + string option) \<times> 'w" where
  "readRefOptional a i branch token w =
     (case readRef a i branch token w of
        (Inr sha, w1) \<Rightarrow> (Inr (Some sha), w1)
      | (Inl e, w1) \<Rightarrow>
          ((case e of DraftError p \<Rightarrow> if pe_status p = 404 then Inr None else Inl e | _ \<Rightarrow> Inl e), w1))"

definition effect_marker :: "string \<Rightarrow> string" where
  "effect_marker eid = ''<!-- futurediff-effect:'' @ eid @ '' -->''"

definition rendered_body :: "string \<Rightarrow> string \<Rightarrow> string" where
  "rendered_body eid body0 =
     (let marker = effect_marker eid; body = trim_space body0
      in if body = [] then marker else if contains body marker then body else body @ [CHR 0x0A, CHR 0x0A] @ marker)"

definition head_resource :: "draft_input \<Rightarrow> string \<Rightarrow> string" where
  "head_resource i branch = ''github://'' @ di_owner i @ ''/'' @ di_repo i @ ''/refs/heads/'' @ branch"

definition prepared_draft :: "string \<Rightarrow> draft_input \<Rightarrow> string \<Rightarrow> string \<Rightarrow> draft_prepared" where
  "prepared_draft eid i headSHA baseSHA =
     (let p = \<lparr>dp_input = i, dp_marker = effect_marker eid, dp_body = rendered_body eid (di_body i), dp_head_sha = headSHA,
               dp_base_sha = baseSHA,
               dp_resources = Some (AList.update (head_resource i (di_base i)) baseSHA [(head_resource i (di_head i), headSHA)]),
               dp_digest = []\<rparr>
      in p\<lparr>dp_digest := Digest (createPayload p)\<rparr>)"

definition preview_draft :: "draft_prepared \<Rightarrow> draft_preview" where
  "preview_draft p =
     (let i = dp_input p; published = (di_depends i \<noteq> [])
      in \<lparr>dv_repository = di_owner i @ ''/'' @ di_repo i, dv_title = di_title i, dv_body = dp_body p, dv_head = di_head i,
          dv_base = di_base i, dv_head_sha = dp_head_sha p, dv_base_sha = dp_base_sha p, dv_published = published,
          dv_limitation = (if published then ''head is bound to the exact commit published by the declared dependency''
                           else ''existing remote head is pinned'')\<rparr>)"

definition draft_Prepare ::
  "'w draft_adapter \<Rightarrow> string \<Rightarrow> draft_input \<Rightarrow> string \<Rightarrow> 'w \<Rightarrow> (adapter_error + draft_prepared \<times> draft_preview) \<times> 'w" where
  "draft_Prepare a eid i0 token w =
     (if trim_space eid = [] then (Inl (PlainError ''effect id is required''), w)
      else case draft_Normalize i0 of
             Inl e \<Rightarrow> (Inl e, w)
           | Inr i \<Rightarrow>
               (case (if di_sha i \<noteq> [] then (Inr (di_sha i), w) else readRef a i (di_head i) token w) of
                  (Inl e, w1) \<Rightarrow> (Inl e, w1)
                | (Inr headSHA, w1) \<Rightarrow>
                    (case readRef a i (di_base i) token w1 of
                       (Inl e, w2) \<Rightarrow> (Inl e, w2)
                     | (Inr baseSHA, w2) \<Rightarrow>
                         (let p = prepared_draft eid i headSHA baseSHA in (Inr (p, preview_draft p), w2)))))"

definition draft_VerifyPreCommit :: "'w draft_adapter \<Rightarrow> draft_prepared \<Rightarrow> string \<Rightarrow> 'w \<Rightarrow> (adapter_error + unit) \<times> 'w" where
  "draft_VerifyPreCommit a p token w =
     (let i = dp_input p
      in case readRef a i (di_base i) token w of
           (Inl e, w1) \<Rightarrow> (Inl e, w1)
         | (Inr baseSHA, w1) \<Rightarrow>
             (if baseSHA \<noteq> dp_base_sha p
              then (Inl (draft_error False 0 ''stale_resource_version'' (''github base ref changed: '' @ dp_base_sha p @ ''->'' @ baseSHA)), w1)
              else if di_depends i = []
              then (case readRef a i (di_head i) token w1 of
                      (Inl e, w2) \<Rightarrow> (Inl e, w2)
                    | (Inr headSHA, w2) \<Rightarrow>
                        (if headSHA \<noteq> dp_head_sha p
                         then (Inl (draft_error False 0 ''stale_resource_version'' (''github head ref changed: '' @ dp_head_sha p @ ''->'' @ headSHA)), w2)
                         else (Inr (), w2)))
              else (case readRefOptional a i (di_head i) token w1 of
                      (Inl e, w2) \<Rightarrow> (Inl e, w2)
                    | (Inr found, w2) \<Rightarrow>
                        (case found of
                           Some headSHA \<Rightarrow>
                             if headSHA \<noteq> dp_head_sha p
                             then (Inl (draft_error False 0 ''stale_resource_version'' (''dependency-bound head exists at unexpected SHA '' @ headSHA)), w2)
                             else (Inr (), w2)
                         | None \<Rightarrow> (Inr (), w2)))))"

definition draft_VerifyFresh :: "'w draft_adapter \<Rightarrow> draft_prepared \<Rightarrow> string \<Rightarrow> 'w \<Rightarrow> (adapter_error + unit) \<times> 'w" where
  "draft_VerifyFresh a p token w =
     (let i = dp_input p
      in case readRef a i (di_head i) token w of
           (Inl e, w1) \<Rightarrow> (Inl e, w1)
         | (Inr headSHA, w1) \<Rightarrow>
             (case readRef a i (di_base i) token w1 of
                (Inl e, w2) \<Rightarrow> (Inl e, w2)
              | (Inr baseSHA, w2) \<Rightarrow>
                  (if headSHA \<noteq> dp_head_sha p \<or> baseSHA \<noteq> dp_base_sha p
                   then (Inl (draft_error False 0 ''stale_resource_version''
                          (''github refs changed: head '' @ dp_head_sha p @ ''->'' @ headSHA @ '' base '' @ dp_base_sha p @ ''->'' @ baseSHA)), w2)
                   else (Inr (), w2))))"

definition receiptFromPull :: "gotime \<Rightarrow> pull \<Rightarrow> bool \<Rightarrow> draft_receipt" where
  "receiptFromPull now p recovered =
     \<lparr>dq_number = pl_number p, dq_node = pl_node p, dq_url = pl_url p, dq_head_sha = pl_head_sha p, dq_base_sha = pl_base_sha p,
      dq_recovered = recovered, dq_observed = now\<rparr>"

definition draft_Create :: "'w draft_adapter \<Rightarrow> gotime \<Rightarrow> draft_prepared \<Rightarrow> string \<Rightarrow> 'w \<Rightarrow> (adapter_error + draft_receipt) \<times> 'w" where
  "draft_Create a now p token w =
     (case wire (da_http a) (mebibytes 1)
        \<lparr>wq_method = ''POST'', wq_url = draft_endpoint a [''repos'', di_owner (dp_input p), di_repo (dp_input p), ''pulls''],
         wq_token = token, wq_body = marshal (createPayload p)\<rparr> w of
        (WireInvalid, w1) \<Rightarrow> (Inl (PlainError ''invalid request URL''), w1)
      | (WireLost err, w1) \<Rightarrow>
          (Inl (draft_error True 0 ''transport_unknown'' (''github create draft pull request outcome is unknown: '' @ err)), w1)
      | (WireUnread st err, w1) \<Rightarrow>
          (Inl (draft_error True st ''response_read_unknown'' (''github response outcome is unknown: '' @ err)), w1)
      | (WireReply st body, w1) \<Rightarrow>
          (if \<not> success_status st
           then (Inl (draft_error False st ''provider_rejected''
                  (''github rejected draft pull request with status '' @ show_int st @ '': '' @ safeProviderMessage body)), w1)
           else case Unmarshal dec_pull body pull0 of
                  None \<Rightarrow> (Inl (draft_error True st ''response_decode_unknown'' ''github created a resource but response decoding failed''), w1)
                | Some r \<Rightarrow>
                    if pl_number r \<le> 0 \<or> pl_url r = []
                    then (Inl (draft_error True st ''incomplete_receipt_unknown'' ''github returned an incomplete creation receipt''), w1)
                    else (Inr (receiptFromPull now r False), w1)))"

definition pull_matches :: "draft_prepared \<Rightarrow> pull \<Rightarrow> bool" where
  "pull_matches p r =
     (pl_title r = di_title (dp_input p) \<and> pl_head_ref r = di_head (dp_input p) \<and> pl_base_ref r = di_base (dp_input p)
      \<and> contains (pl_body r) (dp_marker p))"

definition draft_Status :: "'w draft_adapter \<Rightarrow> gotime \<Rightarrow> draft_prepared \<Rightarrow> string \<Rightarrow> 'w \<Rightarrow> (adapter_error + draft_status) \<times> 'w" where
  "draft_Status a now p token w =
     (let i = dp_input p
      in case wire (da_http a) (mebibytes 1)
           \<lparr>wq_method = ''GET'',
            wq_url = draft_endpoint a [''repos'', di_owner i, di_repo i, ''pulls''] @ ''?''
              @ query_encode [(''base'', di_base i), (''head'', di_owner i @ '':'' @ di_head i), (''state'', ''all'')],
            wq_token = token, wq_body = []\<rparr> w of
           (WireInvalid, w1) \<Rightarrow> (Inl (PlainError ''invalid request URL''), w1)
         | (WireLost err, w1) \<Rightarrow> (Inl (draft_error True 0 ''status_transport_error'' (''github status query failed: '' @ err)), w1)
         | (WireUnread st err, w1) \<Rightarrow> (Inl (PlainError err), w1)
         | (WireReply st body, w1) \<Rightarrow>
             (if \<not> success_status st
              then (Inl (draft_error False st ''status_rejected''
                     (''github status query returned '' @ show_int st @ '': '' @ safeProviderMessage body)), w1)
              else case Unmarshal (dec_slice dec_pull pull0) body [] of
                     None \<Rightarrow> (Inl (PlainError ''decode github status response''), w1)
                   | Some pulls \<Rightarrow>
                       (Inr (case filter (pull_matches p) (sort_key pl_number pulls) of
                               [] \<Rightarrow> DraftNotFound
                             | r # _ \<Rightarrow> DraftCommitted (receiptFromPull now r True)), w1)))"

end
