(* ===== verification/SlackOutbox.thy ===== *)
theory SlackOutbox
  imports GithubDraft
begin

text \<open>
  The adapter \<open>internal/adapters/slackoutbox\<close> that posts a prepared message and looks for it in the
  channel history.  HTTP is the parameter \<open>'w http\<close> of the pull-request adapter.
\<close>

subsection \<open>Types\<close>

record slack_input =
  si_channel :: string
  si_text :: string
  si_depends :: "string list"

record slack_metadata =
  sm_type :: string
  sm_payload :: "(string \<times> string) list option"

record slack_payload =
  sp_channel :: string
  sp_text :: string
  sp_client :: string
  sp_metadata :: slack_metadata

record slack_prepared =
  sl_input :: slack_input
  sl_payload :: slack_payload
  sl_digest :: string

record slack_preview =
  sv_channel :: string
  sv_text :: string
  sv_client :: string
  sv_key :: string

record slack_receipt =
  sq_channel :: string
  sq_timestamp :: string
  sq_message :: string
  sq_recovered :: bool
  sq_observed :: gotime

datatype slack_status = SlackNotFound | SlackCommitted slack_receipt

record 'w slack_adapter =
  sa_base :: string
  sa_http :: "'w http"

subsection \<open>JSON forms\<close>

definition slack_input_json :: "slack_input \<Rightarrow> json" where
  "slack_input_json i = JObj
     ([(''channel'', JStr (si_channel i)), (''text'', JStr (si_text i))]
      @ (if si_depends i = [] then [] else [(''depends_on'', json_strs (si_depends i))]))"

definition slack_metadata_json :: "slack_metadata \<Rightarrow> json" where
  "slack_metadata_json m = JObj [(''event_type'', JStr (sm_type m)), (''event_payload'', json_resources (sm_payload m))]"

definition slack_payload_json :: "slack_payload \<Rightarrow> json" where
  "slack_payload_json p = JObj
     [(''channel'', JStr (sp_channel p)), (''text'', JStr (sp_text p)), (''client_msg_id'', JStr (sp_client p)),
      (''metadata'', slack_metadata_json (sp_metadata p))]"

definition slack_prepared_json :: "slack_prepared \<Rightarrow> json" where
  "slack_prepared_json p = JObj
     [(''input'', slack_input_json (sl_input p)), (''payload'', slack_payload_json (sl_payload p)), (''request_digest'', JStr (sl_digest p))]"

definition slack_preview_json :: "slack_preview \<Rightarrow> json" where
  "slack_preview_json v = JObj
     [(''provider'', JStr ''slack''), (''channel'', JStr (sv_channel v)), (''text'', JStr (sv_text v)),
      (''client_msg_id'', JStr (sv_client v)), (''metadata_key'', JStr (sv_key v))]"

definition slack_receipt_json :: "slack_receipt \<Rightarrow> json" where
  "slack_receipt_json r = JObj
     ([(''channel'', JStr (sq_channel r)), (''timestamp'', JStr (sq_timestamp r))] @ opt_field ''message_id'' (sq_message r)
      @ [(''recovered'', JBool (sq_recovered r)), (''observed_at'', json_time (sq_observed r))])"

definition slack_input0 :: slack_input where
  "slack_input0 = \<lparr>si_channel = [], si_text = [], si_depends = []\<rparr>"

definition slack_metadata0 :: slack_metadata where
  "slack_metadata0 = \<lparr>sm_type = [], sm_payload = None\<rparr>"

definition slack_prepared0 :: slack_prepared where
  "slack_prepared0 = \<lparr>sl_input = slack_input0,
     sl_payload = \<lparr>sp_channel = [], sp_text = [], sp_client = [], sp_metadata = slack_metadata0\<rparr>, sl_digest = []\<rparr>"

definition dec_slack_input :: "slack_input field_decoder" where
  "dec_slack_input = dec_struct
     [(''channel'', dec_string (\<lambda>s i. i\<lparr>si_channel := s\<rparr>)), (''text'', dec_string (\<lambda>s i. i\<lparr>si_text := s\<rparr>)),
      (''depends_on'', dec_strings (\<lambda>ss i. i\<lparr>si_depends := ss\<rparr>))]"

definition dec_slack_metadata :: "slack_metadata field_decoder" where
  "dec_slack_metadata = dec_struct
     [(''event_type'', dec_string (\<lambda>s m. m\<lparr>sm_type := s\<rparr>)), (''event_payload'', dec_map sm_payload (\<lambda>x m. m\<lparr>sm_payload := x\<rparr>))]"

definition dec_slack_payload :: "slack_payload field_decoder" where
  "dec_slack_payload = dec_struct
     [(''channel'', dec_string (\<lambda>s p. p\<lparr>sp_channel := s\<rparr>)), (''text'', dec_string (\<lambda>s p. p\<lparr>sp_text := s\<rparr>)),
      (''client_msg_id'', dec_string (\<lambda>s p. p\<lparr>sp_client := s\<rparr>)),
      (''metadata'', dec_nested sp_metadata (\<lambda>m p. p\<lparr>sp_metadata := m\<rparr>) dec_slack_metadata)]"

definition dec_slack_prepared :: "slack_prepared field_decoder" where
  "dec_slack_prepared = dec_struct
     [(''input'', dec_nested sl_input (\<lambda>x p. p\<lparr>sl_input := x\<rparr>) dec_slack_input),
      (''payload'', dec_nested sl_payload (\<lambda>x p. p\<lparr>sl_payload := x\<rparr>) dec_slack_payload),
      (''request_digest'', dec_string (\<lambda>s p. p\<lparr>sl_digest := s\<rparr>))]"

text \<open>The replies of \<open>chat.postMessage\<close> and \<open>conversations.history\<close>.\<close>

record post_reply =
  po_ok :: bool
  po_error :: string
  po_channel :: string
  po_ts :: string
  po_client :: string

record slack_message =
  ms_ts :: string
  ms_client :: string
  ms_metadata :: slack_metadata

record history_reply =
  hi_ok :: bool
  hi_error :: string
  hi_messages :: "slack_message list"

definition post_reply0 :: post_reply where
  "post_reply0 = \<lparr>po_ok = False, po_error = [], po_channel = [], po_ts = [], po_client = []\<rparr>"

definition slack_message0 :: slack_message where
  "slack_message0 = \<lparr>ms_ts = [], ms_client = [], ms_metadata = slack_metadata0\<rparr>"

definition history_reply0 :: history_reply where
  "history_reply0 = \<lparr>hi_ok = False, hi_error = [], hi_messages = []\<rparr>"

definition dec_post_reply :: "post_reply field_decoder" where
  "dec_post_reply = dec_struct
     [(''ok'', dec_bool (\<lambda>b r. r\<lparr>po_ok := b\<rparr>)), (''error'', dec_string (\<lambda>s r. r\<lparr>po_error := s\<rparr>)),
      (''channel'', dec_string (\<lambda>s r. r\<lparr>po_channel := s\<rparr>)), (''ts'', dec_string (\<lambda>s r. r\<lparr>po_ts := s\<rparr>)),
      (''message'', dec_struct [(''client_msg_id'', dec_string (\<lambda>s r. r\<lparr>po_client := s\<rparr>))])]"

definition dec_slack_message :: "slack_message field_decoder" where
  "dec_slack_message = dec_struct
     [(''ts'', dec_string (\<lambda>s m. m\<lparr>ms_ts := s\<rparr>)), (''client_msg_id'', dec_string (\<lambda>s m. m\<lparr>ms_client := s\<rparr>)),
      (''metadata'', dec_nested ms_metadata (\<lambda>x m. m\<lparr>ms_metadata := x\<rparr>) dec_slack_metadata)]"

definition dec_history_reply :: "history_reply field_decoder" where
  "dec_history_reply = dec_struct
     [(''ok'', dec_bool (\<lambda>b r. r\<lparr>hi_ok := b\<rparr>)), (''error'', dec_string (\<lambda>s r. r\<lparr>hi_error := s\<rparr>)),
      (''messages'', dec_nested hi_messages (\<lambda>x r. r\<lparr>hi_messages := x\<rparr>) (dec_slice dec_slack_message slack_message0))]"

subsection \<open>Normalization and destinations\<close>

definition channelID :: "string \<Rightarrow> bool" where
  "channelID s =
     (s \<noteq> [] \<and> code (hd s) \<in> {65..90} \<and> 8 \<le> length (tl s) \<and> length (tl s) \<le> 30
      \<and> list_all (\<lambda>c. code c \<in> {65..90} \<or> code c \<in> {48..57}) (tl s))"

fun unique_depends :: "string list \<Rightarrow> string list \<Rightarrow> string list option" where
  "unique_depends [] seen = Some []"
| "unique_depends (d # ds) seen =
     (let t = trim_space d
      in if t = [] \<or> t \<in> set seen then None else map_option ((#) t) (unique_depends ds (t # seen)))"

definition slack_Normalize :: "slack_input \<Rightarrow> adapter_error + slack_input" where
  "slack_Normalize i =
     (let channel = to_upper (trim_space (si_channel i)); msg = trim_space (si_text i)
      in try_bind (require (channelID channel) (PlainError ''Slack channel must be a channel ID, not a name'')) (\<lambda>_.
         try_bind (require (msg \<noteq> [] \<and> length msg \<le> 40000) (PlainError ''Slack text must be 1-40000 characters'')) (\<lambda>_.
         try_bind (fetch (unique_depends (si_depends i) []) (PlainError ''Slack dependencies must be unique and non-empty'')) (\<lambda>ds.
         Inr \<lparr>si_channel = channel, si_text = msg, si_depends = ds\<rparr>))))"

definition slack_endpoint :: "'w slack_adapter \<Rightarrow> string \<Rightarrow> adapter_error + string" where
  "slack_endpoint a endpoint_name =
     (let b = trim_right_slash (trim_space (sa_base a)); base = (if b = [] then ''https://slack.com/api'' else b)
      in case url_parse base of
           None \<Rightarrow> Inl (PlainError ''Slack API base must be a credential-free HTTPS URL'')
         | Some u \<Rightarrow>
             if url_scheme u \<noteq> ''https'' \<or> Hostname u = [] \<or> url_user u \<or> url_query u \<noteq> [] \<or> url_fragment u \<noteq> []
             then Inl (PlainError ''Slack API base must be a credential-free HTTPS URL'')
             else Inr (base @ ''/'' @ endpoint_name))"

definition CommitDestination :: "'w slack_adapter \<Rightarrow> adapter_error + string" where
  "CommitDestination a = slack_endpoint a ''chat.postMessage''"

definition StatusDestination :: "'w slack_adapter \<Rightarrow> adapter_error + string" where
  "StatusDestination a = slack_endpoint a ''conversations.history''"

definition clientMessageID :: "string \<Rightarrow> string" where
  "clientMessageID eid =
     (let h = take 32 (sha256_hex eid)
      in take 8 h @ ''-'' @ take 4 (drop 8 h) @ ''-'' @ take 4 (drop 12 h) @ ''-'' @ take 4 (drop 16 h) @ ''-'' @ drop 20 h)"

subsection \<open>Provider calls\<close>

definition slack_error :: "bool \<Rightarrow> int \<Rightarrow> string \<Rightarrow> string \<Rightarrow> adapter_error" where
  "slack_error ambiguous status cls msg =
     SlackError \<lparr>pe_ambiguous = ambiguous, pe_status = status, pe_class = cls, pe_text = msg\<rparr>"

definition slack_Prepare :: "string \<Rightarrow> slack_input \<Rightarrow> adapter_error + slack_prepared \<times> slack_preview" where
  "slack_Prepare eid i =
     (if trim_space eid = [] then Inl (PlainError ''effect id is required'')
      else try_bind (slack_Normalize i) (\<lambda>n.
        let payload = \<lparr>sp_channel = si_channel n, sp_text = si_text n, sp_client = clientMessageID eid,
                       sp_metadata = \<lparr>sm_type = ''futurediff_effect'', sm_payload = Some [(''effect_id'', eid)]\<rparr>\<rparr>
        in Inr (\<lparr>sl_input = n, sl_payload = payload, sl_digest = Digest (slack_payload_json payload)\<rparr>,
                \<lparr>sv_channel = si_channel n, sv_text = si_text n, sv_client = sp_client payload, sv_key = ''futurediff_effect:'' @ eid\<rparr>)))"

definition slack_Post :: "'w slack_adapter \<Rightarrow> gotime \<Rightarrow> slack_prepared \<Rightarrow> string \<Rightarrow> 'w \<Rightarrow> (adapter_error + slack_receipt) \<times> 'w" where
  "slack_Post a now p token w =
     (case CommitDestination a of
        Inl e \<Rightarrow> (Inl e, w)
      | Inr endpoint \<Rightarrow>
     (case wire (sa_http a) (mebibytes 1)
        \<lparr>wq_method = ''POST'', wq_url = endpoint, wq_token = token, wq_body = marshal (slack_payload_json (sl_payload p))\<rparr> w of
        (WireInvalid, w1) \<Rightarrow> (Inl (PlainError ''invalid request URL''), w1)
      | (WireLost err, w1) \<Rightarrow> (Inl (slack_error True 0 ''transport_unknown'' (''Slack message outcome is unknown: '' @ err)), w1)
      | (WireUnread st err, w1) \<Rightarrow> (Inl (slack_error True st ''response_read_unknown'' err), w1)
      | (WireReply st body, w1) \<Rightarrow>
          (if \<not> success_status st
           then (Inl (slack_error False st ''provider_rejected'' (''Slack HTTP '' @ show_int st @ '': '' @ safeProviderMessage body)), w1)
           else case Unmarshal dec_post_reply body post_reply0 of
                  None \<Rightarrow> (Inl (slack_error True st ''response_decode_unknown'' ''decode''), w1)
                | Some r \<Rightarrow>
                    if \<not> po_ok r then (Inl (slack_error False st ''provider_rejected'' (''Slack rejected message: '' @ po_error r)), w1)
                    else if po_channel r = [] \<or> po_ts r = []
                    then (Inl (slack_error True st ''incomplete_receipt_unknown'' ''Slack returned incomplete receipt''), w1)
                    else (Inr \<lparr>sq_channel = po_channel r, sq_timestamp = po_ts r, sq_message = po_client r, sq_recovered = False,
                               sq_observed = now\<rparr>, w1))))"

definition payload_id :: "slack_metadata \<Rightarrow> string" where
  "payload_id m = (case sm_payload m of None \<Rightarrow> [] | Some kvs \<Rightarrow> (case map_of kvs ''effect_id'' of None \<Rightarrow> [] | Some v \<Rightarrow> v))"

definition message_matches :: "slack_prepared \<Rightarrow> slack_message \<Rightarrow> bool" where
  "message_matches p m =
     (ms_client m = sp_client (sl_payload p)
      \<or> (sm_type (ms_metadata m) = ''futurediff_effect'' \<and> payload_id (ms_metadata m) = payload_id (sp_metadata (sl_payload p))))"

definition slack_Status :: "'w slack_adapter \<Rightarrow> gotime \<Rightarrow> slack_prepared \<Rightarrow> string \<Rightarrow> 'w \<Rightarrow> (adapter_error + slack_status) \<times> 'w" where
  "slack_Status a now p token w =
     (case StatusDestination a of
        Inl e \<Rightarrow> (Inl e, w)
      | Inr base \<Rightarrow>
     (case wire (sa_http a) (mebibytes 2)
        \<lparr>wq_method = ''GET'',
         wq_url = base @ ''?'' @ query_encode [(''channel'', si_channel (sl_input p)), (''include_all_metadata'', ''true''), (''limit'', ''100'')],
         wq_token = token, wq_body = []\<rparr> w of
        (WireInvalid, w1) \<Rightarrow> (Inl (PlainError ''invalid request URL''), w1)
      | (WireLost err, w1) \<Rightarrow> (Inl (slack_error True 0 ''status_transport_error'' err), w1)
      | (WireUnread st err, w1) \<Rightarrow> (Inl (PlainError err), w1)
      | (WireReply st body, w1) \<Rightarrow>
          (if \<not> success_status st
           then (Inl (slack_error False st ''status_rejected'' (''Slack history HTTP '' @ show_int st @ '': '' @ safeProviderMessage body)), w1)
           else case Unmarshal dec_history_reply body history_reply0 of
                  None \<Rightarrow> (Inl (PlainError ''decode''), w1)
                | Some r \<Rightarrow>
                    if \<not> hi_ok r then (Inl (slack_error False 0 ''status_rejected'' (''Slack history rejected: '' @ hi_error r)), w1)
                    else (Inr (case filter (message_matches p) (hi_messages r) of
                                 [] \<Rightarrow> SlackNotFound
                               | m # _ \<Rightarrow> SlackCommitted \<lparr>sq_channel = si_channel (sl_input p), sq_timestamp = ms_ts m,
                                     sq_message = ms_client m, sq_recovered = True, sq_observed = now\<rparr>), w1))))"

end
