(* ===== verification/Credentials.thy ===== *)
theory Credentials
  imports GoUrl GoTime LedgerDb
begin

text \<open>
  The credential broker: \<open>internal/credentials\<close> (adapter identities, credential bindings, destination
  rules, the broker that hands a secret to a trusted adapter) and its tables in
  \<open>internal/ledger/credentials.go\<close>.  The process environment is the only secret source of the sources;
  it is a function from variable names to values.  Text is compared as ASCII where the code lowers or trims it.
\<close>

subsection \<open>Types and their validation\<close>

record adapter_identity =
  ai_id :: string
  ai_version :: string
  ai_trust :: string
  ai_digest :: string
  ai_enabled :: bool

record secret_source =
  so_kind :: string
  so_reference :: string

record destination_rule =
  dr_scheme :: string
  dr_host :: string
  dr_port :: string
  dr_path :: string

record credential_binding =
  cb_id :: string
  cb_provider :: string
  cb_account :: string
  cb_source :: secret_source
  cb_adapters :: "string list"
  cb_operations :: "string list"
  cb_destinations :: "destination_rule list"
  cb_expires :: "gotime option"
  cb_enabled :: bool

record credential_config =
  cc_version :: string
  cc_adapters :: "adapter_identity list"
  cc_credentials :: "credential_binding list"

datatype credential_error =
    CredentialInvalid string
  | CredentialChanged string string
  | CredentialLedger ledger_error
  | CredentialUnavailable

definition blank :: "string \<Rightarrow> bool" where
  "blank s = (trim_space s = [])"

definition Validate_identity :: "adapter_identity \<Rightarrow> credential_error + unit" where
  "Validate_identity a =
     try_bind (require (\<not> blank (ai_id a) \<and> \<not> blank (ai_version a)) (CredentialInvalid ''adapter id and version'')) (\<lambda>_.
     try_bind (require (ai_trust a \<in> {''built_in'', ''verified'', ''untrusted''}) (CredentialInvalid ''trust level'')) (\<lambda>_.
     require (ai_trust a \<noteq> ''untrusted'' \<longrightarrow> \<not> blank (ai_digest a)) (CredentialInvalid ''executable digest'')))"

definition Validate_source :: "secret_source \<Rightarrow> credential_error + unit" where
  "Validate_source s =
     try_bind (require (so_kind s = ''environment'') (CredentialInvalid ''secret source kind'')) (\<lambda>_.
     require (\<not> blank (so_reference s)) (CredentialInvalid ''secret source reference''))"

definition Normalize_rule :: "destination_rule \<Rightarrow> credential_error + destination_rule" where
  "Normalize_rule d =
     (let scheme = to_lower (trim_space (dr_scheme d));
          host = to_lower (trim_suffix (trim_space (dr_host d)) ''.'');
          port = trim_space (dr_port d);
          prefix = (if dr_path d = [] then ''/'' else dr_path d)
      in try_bind (require (scheme = ''https'') (CredentialInvalid ''scheme'')) (\<lambda>_.
         try_bind (require (host \<noteq> []) (CredentialInvalid ''host'')) (\<lambda>_.
         try_bind (require (set host \<inter> set ''/@?#'' = {}) (CredentialInvalid ''host'')) (\<lambda>_.
         try_bind (require (\<not> ParseIP host) (CredentialInvalid ''IP literal'')) (\<lambda>_.
         try_bind (require (port = [] \<or> port = ''443'') (CredentialInvalid ''port'')) (\<lambda>_.
         try_bind (require (has_prefix prefix ''/'') (CredentialInvalid ''path prefix'')) (\<lambda>_.
         Inr \<lparr>dr_scheme = scheme, dr_host = host, dr_port = port, dr_path = path_clean prefix\<rparr>)))))))"

definition host_matches :: "destination_rule \<Rightarrow> url \<Rightarrow> bool" where
  "host_matches n u =
     (\<not> url_user u \<and> url_fragment u = [] \<and> url_query u = []
      \<and> map lower_char (url_scheme u) = dr_scheme n
      \<and> to_lower (trim_suffix (Hostname u) ''.'') = dr_host n
      \<and> (Port u = [] \<or> Port u = ''443''))"

definition path_matches :: "string \<Rightarrow> string \<Rightarrow> bool" where
  "path_matches prefix escaped =
     (let c = path_clean escaped; p = (if c = ''.'' then ''/'' else c)
      in prefix = ''/'' \<or> p = prefix \<or> has_prefix p (trim_suffix prefix ''/'' @ ''/''))"

definition Matches :: "destination_rule \<Rightarrow> string \<Rightarrow> bool" where
  "Matches d raw =
     (case Normalize_rule d of
        Inl _ \<Rightarrow> False
      | Inr n \<Rightarrow>
          (case url_parse raw of
             None \<Rightarrow> False
           | Some u \<Rightarrow> host_matches n u \<and> path_matches (dr_path n) (EscapedPath u)))"

fun unique_nonblank :: "string list \<Rightarrow> string list \<Rightarrow> bool" where
  "unique_nonblank [] seen = True"
| "unique_nonblank (x # xs) seen =
     (trim_space x \<noteq> [] \<and> trim_space x \<notin> set seen \<and> unique_nonblank xs (trim_space x # seen))"

fun all_rules :: "destination_rule list \<Rightarrow> credential_error + unit" where
  "all_rules [] = Inr ()"
| "all_rules (d # ds) = try_bind (Normalize_rule d) (\<lambda>_. all_rules ds)"

definition Validate_binding :: "credential_binding \<Rightarrow> credential_error + unit" where
  "Validate_binding b =
     try_bind (require (\<not> blank (cb_id b) \<and> \<not> blank (cb_provider b)) (CredentialInvalid ''credential id and provider'')) (\<lambda>_.
     try_bind (Validate_source (cb_source b)) (\<lambda>_.
     try_bind (require (cb_adapters b \<noteq> [] \<and> cb_operations b \<noteq> [] \<and> cb_destinations b \<noteq> []) (CredentialInvalid ''scope'')) (\<lambda>_.
     try_bind (require (unique_nonblank (cb_adapters b) []) (CredentialInvalid ''allowed adapters'')) (\<lambda>_.
     try_bind (require (unique_nonblank (cb_operations b) []) (CredentialInvalid ''allowed operations'')) (\<lambda>_.
     all_rules (cb_destinations b))))))"

fun validate_adapters :: "adapter_identity list \<Rightarrow> string list \<Rightarrow> credential_error + string list" where
  "validate_adapters [] ids = Inr ids"
| "validate_adapters (a # as) ids =
     try_bind (Validate_identity a) (\<lambda>_.
     try_bind (require (ai_id a \<notin> set ids) (CredentialInvalid ''duplicate adapter'')) (\<lambda>_.
     validate_adapters as (ai_id a # ids)))"

fun validate_bindings :: "string list \<Rightarrow> credential_binding list \<Rightarrow> string list \<Rightarrow> credential_error + unit" where
  "validate_bindings adapters [] ids = Inr ()"
| "validate_bindings adapters (b # bs) ids =
     try_bind (Validate_binding b) (\<lambda>_.
     try_bind (require (cb_id b \<notin> set ids) (CredentialInvalid ''duplicate credential'')) (\<lambda>_.
     try_bind (require (set (cb_adapters b) \<subseteq> set adapters) (CredentialInvalid ''unknown adapter'')) (\<lambda>_.
     validate_bindings adapters bs (cb_id b # ids))))"

definition Validate_config :: "credential_config \<Rightarrow> credential_error + unit" where
  "Validate_config c =
     try_bind (require (cc_version c = ''0.1'') (CredentialInvalid ''version'')) (\<lambda>_.
     try_bind (validate_adapters (cc_adapters c) []) (\<lambda>ids. validate_bindings ids (cc_credentials c) []))"

subsection \<open>The tables of the broker\<close>

record identity_row =
  ir_identity :: adapter_identity
  ir_registered :: gotime
  ir_updated :: gotime

record binding_row =
  br_binding :: credential_binding
  br_source_digest :: string
  br_registered :: gotime
  br_updated :: gotime

record credential_event =
  ce_id :: string
  ce_tx :: string
  ce_effect :: string
  ce_adapter :: string
  ce_credential :: string
  ce_operation :: string
  ce_destination :: string
  ce_decision :: string
  ce_reason :: string
  ce_created :: gotime

record credential_tables =
  identity_rows :: "identity_row list"
  binding_rows :: "binding_row list"
  credential_events :: "credential_event list"

definition empty_credentials :: credential_tables where
  "empty_credentials = \<lparr>identity_rows = [], binding_rows = [], credential_events = []\<rparr>"

definition RegisterAdapterIdentity_tx :: "gotime \<Rightarrow> adapter_identity \<Rightarrow> credential_tables \<Rightarrow> credential_error + credential_tables" where
  "RegisterAdapterIdentity_tx now a t =
     (case find_row (\<lambda>r. ai_id (ir_identity r)) (ai_id a) (identity_rows t) of
        Some r \<Rightarrow>
          try_bind (require (ai_trust (ir_identity r) = ai_trust a \<and> ai_digest (ir_identity r) = ai_digest a)
            (CredentialChanged ''adapter'' (ai_id a))) (\<lambda>_.
          Inr (t\<lparr>identity_rows := modify_row (\<lambda>r. ai_id (ir_identity r)) (ai_id a)
             (\<lambda>r. r\<lparr>ir_identity := (ir_identity r)\<lparr>ai_version := ai_version a, ai_enabled := ai_enabled a\<rparr>, ir_updated := now\<rparr>)
             (identity_rows t)\<rparr>))
      | None \<Rightarrow> Inr (t\<lparr>identity_rows := identity_rows t @ [\<lparr>ir_identity = a, ir_registered = now, ir_updated = now\<rparr>]\<rparr>))"

definition source_digest :: "secret_source \<Rightarrow> string" where
  "source_digest s = ''sha256:'' @ sha256_hex (so_reference s)"

text \<open>The row of a binding holds a digest of the source reference, not the reference.\<close>

definition stored_binding :: "credential_binding \<Rightarrow> credential_binding" where
  "stored_binding b = b\<lparr>cb_source := (cb_source b)\<lparr>so_reference := []\<rparr>\<rparr>"

definition RegisterCredentialBinding_tx :: "gotime \<Rightarrow> credential_binding \<Rightarrow> credential_tables \<Rightarrow> credential_error + credential_tables" where
  "RegisterCredentialBinding_tx now b t =
     (case find_row (\<lambda>r. cb_id (br_binding r)) (cb_id b) (binding_rows t) of
        Some r \<Rightarrow>
          try_bind (require (so_kind (cb_source (br_binding r)) = so_kind (cb_source b)
              \<and> br_source_digest r = source_digest (cb_source b)) (CredentialChanged ''credential'' (cb_id b))) (\<lambda>_.
          Inr (t\<lparr>binding_rows := modify_row (\<lambda>r. cb_id (br_binding r)) (cb_id b)
             (\<lambda>r. r\<lparr>br_binding := stored_binding b, br_updated := now\<rparr>) (binding_rows t)\<rparr>))
      | None \<Rightarrow> Inr (t\<lparr>binding_rows := binding_rows t @ [\<lparr>br_binding = stored_binding b, br_source_digest = source_digest (cb_source b),
            br_registered = now, br_updated = now\<rparr>]\<rparr>))"

text \<open>A write transaction of these tables: the storage faults are the environment's.\<close>

definition credential_write ::
  "env \<Rightarrow> (credential_tables \<Rightarrow> credential_error + credential_tables) \<Rightarrow> credential_tables \<Rightarrow> (credential_error + unit) \<times> credential_tables" where
  "credential_write en body t =
     (case en_begin en of
        Some f \<Rightarrow> (Inl (CredentialLedger (SqlFault f)), t)
      | None \<Rightarrow>
          (case body t of
             Inl e \<Rightarrow> (Inl e, t)
           | Inr t' \<Rightarrow>
               (case en_commit en of
                  Some f \<Rightarrow> (Inl (CredentialLedger (SqlFault f)), t)
                | None \<Rightarrow> (Inr (), t'))))"

definition RegisterAdapterIdentity :: "env \<Rightarrow> adapter_identity \<Rightarrow> credential_tables \<Rightarrow> (credential_error + unit) \<times> credential_tables" where
  "RegisterAdapterIdentity en a t =
     (case Validate_identity a of
        Inl e \<Rightarrow> (Inl e, t)
      | Inr _ \<Rightarrow> credential_write en (RegisterAdapterIdentity_tx (en_now en) a) t)"

definition RegisterCredentialBinding :: "env \<Rightarrow> credential_binding \<Rightarrow> credential_tables \<Rightarrow> (credential_error + unit) \<times> credential_tables" where
  "RegisterCredentialBinding en b t =
     (case Validate_binding b of
        Inl e \<Rightarrow> (Inl e, t)
      | Inr _ \<Rightarrow> credential_write en (RegisterCredentialBinding_tx (en_now en) b) t)"

definition RecordCredentialAccess :: "env \<Rightarrow> credential_event \<Rightarrow> credential_tables \<Rightarrow> (credential_error + unit) \<times> credential_tables" where
  "RecordCredentialAccess en e t =
     (if ce_id e = [] \<or> ce_adapter e = [] \<or> ce_credential e = [] \<or> ce_operation e = [] \<or> ce_destination e = [] \<or> ce_reason e = []
        then (Inl (CredentialInvalid ''incomplete event''), t)
      else if ce_decision e \<notin> {''granted'', ''denied'', ''error''} then (Inl (CredentialInvalid ''decision''), t)
      else credential_write en (\<lambda>t.
        try_bind (require (\<not> has_key ce_id (ce_id e) (credential_events t))
          (CredentialLedger (SqlConstraint ''credential_access_events.event_id''))) (\<lambda>_.
        Inr (t\<lparr>credential_events := credential_events t @ [e\<lparr>ce_created := or_now (en_now en) (ce_created e)\<rparr>]\<rparr>))) t)"

definition CredentialAccessEvents :: "string \<Rightarrow> credential_tables \<Rightarrow> credential_event list" where
  "CredentialAccessEvents c t = filter (\<lambda>e. ce_credential e = c) (credential_events t)"

definition CredentialMetadataCounts :: "credential_tables \<Rightarrow> int \<times> int \<times> int" where
  "CredentialMetadataCounts t =
     (int (length (filter (\<lambda>r. ai_enabled (ir_identity r)) (identity_rows t))),
      int (length (filter (\<lambda>r. cb_enabled (br_binding r)) (binding_rows t))),
      int (length (credential_events t)))"

subsection \<open>The broker\<close>

record broker =
  bk_adapters :: "string \<Rightarrow> adapter_identity option"
  bk_bindings :: "string \<Rightarrow> credential_binding option"
  bk_environment :: "string \<Rightarrow> string option"

definition normalized_binding :: "credential_binding \<Rightarrow> credential_binding" where
  "normalized_binding b =
     b\<lparr>cb_destinations := map (\<lambda>d. case Normalize_rule d of Inr n \<Rightarrow> n
        | Inl _ \<Rightarrow> \<lparr>dr_scheme = [], dr_host = [], dr_port = [], dr_path = []\<rparr>) (cb_destinations b)\<rparr>"

text \<open>The loops of \<open>NewBroker\<close>; the broker that failed to register its metadata is not returned.\<close>

fun register_adapters ::
  "(nat \<Rightarrow> env) \<Rightarrow> nat \<Rightarrow> adapter_identity list \<Rightarrow> credential_tables \<Rightarrow> (credential_error + nat) \<times> credential_tables" where
  "register_adapters ens n [] t = (Inr n, t)"
| "register_adapters ens n (a # as) t =
     (case RegisterAdapterIdentity (ens n) a t of
        (Inl e, t') \<Rightarrow> (Inl e, t')
      | (Inr _, t') \<Rightarrow> register_adapters ens (n + 1) as t')"

fun register_bindings ::
  "(nat \<Rightarrow> env) \<Rightarrow> nat \<Rightarrow> credential_binding list \<Rightarrow> credential_tables \<Rightarrow> (credential_error + nat) \<times> credential_tables" where
  "register_bindings ens n [] t = (Inr n, t)"
| "register_bindings ens n (b # bs) t =
     (case RegisterCredentialBinding (ens n) (normalized_binding b) t of
        (Inl e, t') \<Rightarrow> (Inl e, t')
      | (Inr _, t') \<Rightarrow> register_bindings ens (n + 1) bs t')"

definition NewBroker ::
  "(nat \<Rightarrow> env) \<Rightarrow> credential_config \<Rightarrow> (string \<Rightarrow> string option) \<Rightarrow> credential_tables \<Rightarrow> (credential_error + broker) \<times> credential_tables" where
  "NewBroker ens c environment t =
     (case Validate_config c of
        Inl e \<Rightarrow> (Inl e, t)
      | Inr _ \<Rightarrow>
          (case register_adapters ens 0 (cc_adapters c) t of
             (Inl e, t') \<Rightarrow> (Inl e, t')
           | (Inr n, t') \<Rightarrow>
               (case register_bindings ens n (cc_credentials c) t' of
                  (Inl e, t'') \<Rightarrow> (Inl e, t'')
                | (Inr _, t'') \<Rightarrow>
                    (Inr \<lparr>bk_adapters = (\<lambda>i. find_row ai_id i (cc_adapters c)),
                          bk_bindings = (\<lambda>i. map_option normalized_binding (find_row cb_id i (cc_credentials c))),
                          bk_environment = environment\<rparr>, t''))))"

definition Resolve :: "(string \<Rightarrow> string option) \<Rightarrow> secret_source \<Rightarrow> credential_error + string" where
  "Resolve environment s =
     try_bind (Validate_source s) (\<lambda>_.
       case environment (so_reference s) of
         None \<Rightarrow> Inl CredentialUnavailable
       | Some v \<Rightarrow> if v = [] then Inl CredentialUnavailable else Inr v)"

record access_request =
  ar_tx :: string
  ar_effect :: string
  ar_adapter :: string
  ar_credential :: string
  ar_operation :: string
  ar_destination :: string

text \<open>\<open>strings.ReplaceAll\<close> for a non-empty text: \<open>n\<close> more characters belong to the occurrence just replaced.\<close>

fun replace_skip :: "nat \<Rightarrow> string \<Rightarrow> string \<Rightarrow> string \<Rightarrow> string" where
  "replace_skip n old new [] = []"
| "replace_skip n old new (c # cs) =
     (if n > 0 then replace_skip (n - 1) old new cs
      else if has_prefix (c # cs) old then new @ replace_skip (length old - 1) old new cs
      else c # replace_skip 0 old new cs)"

definition redactSecret :: "string \<Rightarrow> string \<Rightarrow> string" where
  "redactSecret message secret = (if secret = [] then message else replace_skip 0 secret ''[REDACTED]'' message)"

text \<open>
  Why an access failed: refused (with or without its audit record), the secret unavailable, the grant
  not recorded, or the adapter's own error \<open>'e\<close> with its redacted message.
\<close>

datatype 'e access_failure =
    AccessDenied string
  | DenialNotAudited string
  | SourceFailed
  | SourceNotAudited
  | GrantNotAudited
  | UseFailed string 'e

text \<open>The checks of \<open>WithCredential\<close> in their order; \<open>None\<close> means that the scope is validated.\<close>

definition denial_reason :: "broker \<Rightarrow> gotime \<Rightarrow> access_request \<Rightarrow> string option" where
  "denial_reason bk now r =
     (if blank (ar_adapter r) \<or> blank (ar_credential r) \<or> blank (ar_operation r) \<or> blank (ar_destination r)
        then Some ''incomplete access request''
      else case bk_adapters bk (ar_adapter r) of
             None \<Rightarrow> Some ''adapter is unknown or disabled''
           | Some a \<Rightarrow>
               if \<not> ai_enabled a then Some ''adapter is unknown or disabled''
               else if ai_trust a \<noteq> ''built_in'' then Some ''only built-in adapters may access credentials in protocol 0.1''
               else case bk_bindings bk (ar_credential r) of
                      None \<Rightarrow> Some ''credential is unknown or disabled''
                    | Some b \<Rightarrow>
                        if \<not> cb_enabled b then Some ''credential is unknown or disabled''
                        else if (case cb_expires b of None \<Rightarrow> False | Some x \<Rightarrow> \<not> now < x) then Some ''credential binding has expired''
                        else if ar_adapter r \<notin> set (cb_adapters b) then Some ''adapter is outside credential scope''
                        else if ar_operation r \<notin> set (cb_operations b) then Some ''operation is outside credential scope''
                        else if \<not> list_ex (\<lambda>d. Matches d (ar_destination r)) (cb_destinations b)
                          then Some ''destination is outside credential scope''
                        else None)"

definition broker_event :: "string \<Rightarrow> gotime \<Rightarrow> access_request \<Rightarrow> string \<Rightarrow> string \<Rightarrow> credential_event" where
  "broker_event eid now r decision reason =
     \<lparr>ce_id = eid, ce_tx = ar_tx r, ce_effect = ar_effect r, ce_adapter = ar_adapter r, ce_credential = ar_credential r,
      ce_operation = ar_operation r, ce_destination = ar_destination r, ce_decision = decision, ce_reason = reason,
      ce_created = now\<rparr>"

text \<open>
  \<open>WithCredential\<close> over any state \<open>'s\<close>: \<open>audit\<close> appends to the audit sink (and tells whether it did),
  \<open>use\<close> is the adapter call, \<open>text\<close> its error message.
\<close>

definition WithCredential ::
  "broker \<Rightarrow> string \<Rightarrow> gotime \<Rightarrow> gotime \<Rightarrow> (credential_event \<Rightarrow> 's \<Rightarrow> bool \<times> 's) \<Rightarrow> ('e \<Rightarrow> string) \<Rightarrow> access_request
     \<Rightarrow> (string \<Rightarrow> 's \<Rightarrow> ('e + 'a) \<times> 's) \<Rightarrow> 's \<Rightarrow> ('e access_failure + 'a) \<times> 's" where
  "WithCredential bk eid now check audit text r use s =
     (case denial_reason bk check r of
        Some reason \<Rightarrow>
          (let (ok, s1) = audit (broker_event eid now r ''denied'' reason) s
           in (Inl (if ok then AccessDenied reason else DenialNotAudited reason), s1))
      | None \<Rightarrow>
          (case Resolve (bk_environment bk) (cb_source (the (bk_bindings bk (ar_credential r)))) of
             Inl _ \<Rightarrow>
               (let (ok, s1) = audit (broker_event eid now r ''error'' ''secret source resolution failed'') s
                in (Inl (if ok then SourceFailed else SourceNotAudited), s1))
           | Inr secret \<Rightarrow>
               (let (ok, s1) = audit (broker_event eid now r ''granted'' ''scope validated'') s
                in if \<not> ok then (Inl GrantNotAudited, s1)
                   else (case use secret s1 of
                           (Inl e, s2) \<Rightarrow> (Inl (UseFailed (redactSecret (text e) secret) e), s2)
                         | (Inr x, s2) \<Rightarrow> (Inr x, s2)))))"

definition WithCredential_audited ::
  "broker \<Rightarrow> env \<Rightarrow> string \<Rightarrow> ('e \<Rightarrow> string) \<Rightarrow> access_request \<Rightarrow> (string \<Rightarrow> credential_tables \<Rightarrow> ('e + 'a) \<times> credential_tables)
     \<Rightarrow> credential_tables \<Rightarrow> ('e access_failure + 'a) \<times> credential_tables" where
  "WithCredential_audited bk en eid text r use t =
     WithCredential bk eid (en_now en) (en_check en)
       (\<lambda>e t. let (res, t') = RecordCredentialAccess en e t in (is_ok res, t')) text r use t"

end
