(* ===== verification/Quota.thy ===== *)
theory Quota
  imports LedgerEffects
begin

text \<open>
  Quotas: the policy of \<open>internal/quota/quota.go\<close> and the counts it is compared with,
  \<open>internal/ledger/quota.go\<close>.  The values are 64-bit integers that are only compared.  Reading the policy file is
  not modelled.
\<close>

record quota_policy =
  qt_version :: string
  qt_open :: int
  qt_effects :: int
  qt_executions :: int
  qt_bytes :: int
  qt_paths :: int
  qt_checks :: int

definition quota_version :: string where "quota_version = ''0.1''"

definition quota_Default :: quota_policy where
  "quota_Default = \<lparr>qt_version = quota_version, qt_open = 32, qt_effects = 32, qt_executions = 128, qt_bytes = 64 * 1048576, qt_paths = 5000,
     qt_checks = 128\<rparr>"

definition Validate_quota :: "quota_policy \<Rightarrow> string + unit" where
  "Validate_quota p =
     try_bind (require (qt_version p = quota_version) ''unsupported quota policy version'') (\<lambda>_.
     require (list_all (\<lambda>v. v > 0) [qt_open p, qt_effects p, qt_executions p, qt_bytes p, qt_paths p, qt_checks p])
       ''quota must be greater than zero'')"

definition quotaPolicy :: "quota_policy \<Rightarrow> quota_policy" where
  "quotaPolicy p = (if qt_version p = [] then quota_Default else p)"

definition CountOpenTransactions :: "ledger \<Rightarrow> int" where
  "CountOpenTransactions l = int (length (filter
     (\<lambda>t. tx_status t \<notin> {StateCommitted, StateAborted, StateCompensated, StateManualIntervention}) (transactions l)))"

definition CountEffects :: "string \<Rightarrow> ledger \<Rightarrow> int" where
  "CountEffects tid l = int (length (filter (\<lambda>e. ef_tx e = tid \<and> ef_status e \<noteq> EffectSuperseded) (effects l)))"

definition CountRuntimeExecutions :: "string \<Rightarrow> ledger \<Rightarrow> int" where
  "CountRuntimeExecutions tid l = int (length (filter (\<lambda>r. rx_tx r = tid) (executions l)))"

end
