(* ===== verification/AppState.thy ===== *)
theory AppState
  imports Verification LedgerBinding SlackOutbox Credentials OperatorApproval Quota
begin

text \<open>
  The state and the plumbing of the application service \<open>internal/app\<close>.  A service method runs in
  steps: calls of the ledger, accesses to credentials, calls of the staging manager and of the providers.  Other
  requests may use the ledger between any two steps: \<open>sv_others n\<close> are the operations they run before step
  \<open>n\<close>.  The trace records what happened; it is not state of the program, properties are stated over it.
\<close>

subsection \<open>Errors\<close>

text \<open>Error texts are kept where the code stores them; a text of the storage is shortened.\<close>

datatype app_error =
    AppText string
  | AppLedger ledger_error
  | AppAdapter adapter_error
  | AppAccess "adapter_error access_failure"
  | AppApproval approval_error

fun access_text :: "adapter_error access_failure \<Rightarrow> string" where
  "access_text (AccessDenied reason) = ''credential access denied: '' @ reason"
| "access_text (DenialNotAudited reason) = ''credential access denied ('' @ reason @ ''); audit failed''"
| "access_text SourceFailed = ''credential source resolution failed''"
| "access_text SourceNotAudited = ''secret resolution and audit failed''"
| "access_text GrantNotAudited = ''credential access audit failed''"
| "access_text (UseFailed msg e) = ''trusted adapter credential use failed: '' @ msg"

fun app_text :: "app_error \<Rightarrow> string" where
  "app_text (AppText s) = s"
| "app_text (AppLedger e) = ''ledger error''"
| "app_text (AppAdapter e) = adapter_text e"
| "app_text (AppAccess f) = access_text f"
| "app_text (AppApproval e) = ''approval error''"

text \<open>The adapter's own error behind a failed access, which the callers classify.\<close>

fun raw_error :: "app_error \<Rightarrow> adapter_error option" where
  "raw_error (AppAccess (UseFailed msg e)) = Some e"
| "raw_error (AppAdapter e) = Some e"
| "raw_error _ = None"

subsection \<open>State\<close>

datatype app_step =
    Interleaved "(env \<times> ledger_op) list"
  | Did env ledger_op bool
  | Queried string bool
  | QueryFailed string
  | Wrote string string bool

record 'w app =
  app_ledger :: ledger
  app_credentials :: credential_tables
  app_world :: 'w
  app_calls :: nat
  app_trace :: "app_step list"

record 'w service =
  sv_env :: "nat \<Rightarrow> env"
  sv_others :: "nat \<Rightarrow> (env \<times> ledger_op) list"
  sv_runtime :: string
  sv_host :: "'w host"
  sv_files :: "'w \<Rightarrow> file_system"
  sv_engine :: "'w engine"
  sv_oci :: "'w runner option"
  sv_indent :: "json \<Rightarrow> string"
  sv_cipher :: "(string \<Rightarrow> string \<Rightarrow> string \<Rightarrow> 'w \<Rightarrow> (string + unit) \<times> 'w) option"
  sv_broker :: "broker option"
  sv_branch :: "'w branch_adapter"
  sv_draft :: "'w draft_adapter"
  sv_slack :: "'w slack_adapter"
  sv_coordinator :: string
  sv_ed :: ed25519
  sv_keys :: "keyring option"
  sv_quorum :: "quorum_policy option"
  sv_signed :: bool
  sv_quotas :: quota_policy
  sv_admission :: "admission_policy option"

type_synonym ('w, 'a) step = "('w app, app_error, 'a) action"

subsection \<open>Steps\<close>

definition env_of :: "'w service \<Rightarrow> 'w app \<Rightarrow> env" where
  "env_of sv s = sv_env sv (app_calls s)"

definition next_call :: "'w app \<Rightarrow> 'w app" where
  "next_call s = s\<lparr>app_calls := app_calls s + 1\<rparr>"

definition remark :: "app_step \<Rightarrow> 'w app \<Rightarrow> 'w app" where
  "remark x s = s\<lparr>app_trace := app_trace s @ [x]\<rparr>"

definition interleave :: "'w service \<Rightarrow> 'w app \<Rightarrow> 'w app" where
  "interleave sv s =
     (let ops = sv_others sv (app_calls s)
      in remark (Interleaved ops) (s\<lparr>app_ledger := run ops (app_ledger s)\<rparr>))"

text \<open>One call of a ledger operation; \<open>op\<close> names the operation that \<open>f\<close> is.\<close>

definition ledger_write :: "'w service \<Rightarrow> ledger_op \<Rightarrow> (env \<Rightarrow> ledger \<Rightarrow> (ledger_error + 'a) \<times> ledger) \<Rightarrow> ('w, 'a) step" where
  "ledger_write sv op f s0 =
     (let s = interleave sv s0; (r, l) = f (env_of sv s) (app_ledger s)
      in ((case r of Inl e \<Rightarrow> Inl (AppLedger e) | Inr x \<Rightarrow> Inr x),
          next_call (remark (Did (env_of sv s) op (is_ok r)) (s\<lparr>app_ledger := l\<rparr>))))"

text \<open>A query of the ledger, which the storage may refuse.\<close>

definition ledger_read :: "'w service \<Rightarrow> (ledger \<Rightarrow> ledger_error + 'a) \<Rightarrow> ('w, 'a) step" where
  "ledger_read sv f s0 =
     (let s = interleave sv s0
      in ((case en_read (env_of sv s) of
             Some e \<Rightarrow> Inl (AppLedger (SqlFault e))
           | None \<Rightarrow> (case f (app_ledger s) of Inl e \<Rightarrow> Inl (AppLedger e) | Inr x \<Rightarrow> Inr x)),
          next_call s))"

text \<open>A call that works on the outside world only.\<close>

definition in_world :: "(string \<Rightarrow> app_error) \<Rightarrow> ('w, string, 'a) action \<Rightarrow> ('w, 'a) step" where
  "in_world err m s =
     (let (r, w) = m (app_world s)
      in ((case r of Inl e \<Rightarrow> Inl (err e) | Inr x \<Rightarrow> Inr x), s\<lparr>app_world := w\<rparr>))"

definition staged :: "('w, string, 'a) action \<Rightarrow> ('w, 'a) step" where
  "staged m = in_world AppText m"

definition clock :: "'w service \<Rightarrow> ('w, gotime) step" where
  "clock sv s = (Inr (en_now (env_of sv s)), next_call s)"

definition new_id :: "'w service \<Rightarrow> string \<Rightarrow> ('w, string) step" where
  "new_id sv idp s = (Inr (NewID (env_of sv s) 0 idp), next_call s)"

text \<open>Reading the file system as it is now.\<close>

definition files :: "'w service \<Rightarrow> (file_system \<Rightarrow> string + 'a) \<Rightarrow> ('w, 'a) step" where
  "files sv f s = ((case f (sv_files sv (app_world s)) of Inl e \<Rightarrow> Inl (AppText e) | Inr x \<Rightarrow> Inr x), s)"

subsection \<open>Credentials\<close>

definition record_access :: "env \<Rightarrow> credential_event \<Rightarrow> 'w app \<Rightarrow> bool \<times> 'w app" where
  "record_access en e s =
     (let (r, t) = RecordCredentialAccess en e (app_credentials s) in (is_ok r, s\<lparr>app_credentials := t\<rparr>))"

definition withCredential :: "'w service \<Rightarrow> access_request \<Rightarrow> (string \<Rightarrow> 'w app \<Rightarrow> (adapter_error + 'a) \<times> 'w app) \<Rightarrow> ('w, 'a) step" where
  "withCredential sv r use s0 =
     (case sv_broker sv of
        None \<Rightarrow> (Inl (AppText ''credential broker is not configured''), s0)
      | Some bk \<Rightarrow>
          (let en = env_of sv s0;
               (res, s) = WithCredential bk (NewID en 0 ''cred_evt'') (en_now en) (en_check en) (record_access en) adapter_text r use (next_call s0)
           in ((case res of Inl f \<Rightarrow> Inl (AppAccess f) | Inr x \<Rightarrow> Inr x), s)))"

text \<open>A provider call with the token: \<open>seen\<close> is what the trace says of its result.\<close>

definition provider ::
  "('a \<Rightarrow> app_step) \<Rightarrow> app_step \<Rightarrow> (string \<Rightarrow> 'w \<Rightarrow> (adapter_error + 'a) \<times> 'w) \<Rightarrow> string \<Rightarrow> 'w app \<Rightarrow> (adapter_error + 'a) \<times> 'w app" where
  "provider seen failed f token s =
     (let (r, w) = f token (app_world s)
      in (r, remark (case r of Inl _ \<Rightarrow> failed | Inr x \<Rightarrow> seen x) (s\<lparr>app_world := w\<rparr>)))"

definition coordinatorID :: "'w service \<Rightarrow> string" where
  "coordinatorID sv = (if sv_coordinator sv \<noteq> [] then sv_coordinator sv else ''local-daemon'')"

definition five_minutes :: int where "five_minutes = 300000000000"

definition acquireTransactionLease :: "'w service \<Rightarrow> string \<Rightarrow> ('w, int) step" where
  "acquireTransactionLease sv tid =
     ledger_write sv (OpAcquireLease (lease_name tid) (coordinatorID sv) five_minutes)
       (\<lambda>en. AcquireLease en (lease_name tid) (coordinatorID sv) five_minutes)"

definition markNeedsReconciliation :: "'w service \<Rightarrow> string \<Rightarrow> string \<Rightarrow> ('w, unit) step" where
  "markNeedsReconciliation sv tid reason =
     ignore (ledger_write sv (OpNeedsReconciliation tid reason) (\<lambda>en. MarkNeedsReconciliation en tid reason))"

definition transition :: "'w service \<Rightarrow> string \<Rightarrow> tx_state \<Rightarrow> tx_state \<Rightarrow> string \<Rightarrow> string \<Rightarrow> bool \<Rightarrow> bool \<Rightarrow> ('w, transaction) step" where
  "transition sv tid a b actor reason m i =
     ledger_write sv (OpTransition tid a b actor reason m i) (\<lambda>en. Transition en tid a b actor reason m i)"

end
