(* ===== verification/AppService.thy ===== *)
theory AppService
  imports AppState
begin

text \<open>
  The transaction methods of \<open>internal/app/service.go\<close> up to the commit: creation, execution in the
  container, sealing, verification, the three kinds of approval and the abort.  Status queries are not modelled.
\<close>

definition with_env :: "'w service \<Rightarrow> (env \<Rightarrow> ('w, 'a) step) \<Rightarrow> ('w, 'a) step" where
  "with_env sv f s = f (env_of sv s) (next_call s)"

subsection \<open>Create\<close>

record create_request =
  cq_repository :: string
  cq_mode :: string
  cq_adapter :: string
  cq_session :: string
  cq_policy :: string
  cq_dirty :: string

record transaction_view =
  tv_tx :: transaction
  tv_workspace :: workspace
  tv_patch :: "patch option"
  tv_effects :: "external_effect list"
  tv_receipts :: "effect_receipt list"

definition or_default :: "string \<Rightarrow> string \<Rightarrow> string" where
  "or_default d s = (if s = [] then d else s)"

definition open_quota :: "'w service \<Rightarrow> ('w, unit) step" where
  "open_quota sv =
     andThen (ledger_read sv (\<lambda>l. Inr (CountOpenTransactions l))) (\<lambda>n.
     check (n < qt_open (quotaPolicy (sv_quotas sv))) (AppText ''open transaction quota exceeded''))"

definition enforced_ready :: "'w service \<Rightarrow> string \<Rightarrow> ('w, unit) step" where
  "enforced_ready sv mode =
     (if mode \<noteq> ''enforced'' then give ()
      else case sv_oci sv of
             None \<Rightarrow> fail (AppText ''enforced mode requires configured OCI runtime'')
           | Some r \<Rightarrow> andThen (in_world (\<lambda>e. AppText (''enforced runtime is not ready: '' @ e)) (Ready r)) (\<lambda>_. give ()))"

definition admission_of :: "'w service \<Rightarrow> inspect_result \<Rightarrow> ('w, admission_policy) step" where
  "admission_of sv inspect =
     (case sv_admission sv of
        Some p \<Rightarrow> give p
      | None \<Rightarrow> files sv (\<lambda>fs. map_sum (\<lambda>e. ''configure stable repository admission: '' @ e) id (StableDefaultForPath fs (in_root inspect))))"

definition admit :: "'w service \<Rightarrow> inspect_result \<Rightarrow> dirty_policy \<Rightarrow> ('w, unit) step" where
  "admit sv inspect dirty =
     andThen (admission_of sv inspect) (\<lambda>p.
     files sv (\<lambda>fs. let d = Evaluate fs p inspect dirty
       in if ad_allowed d then Inr ()
          else Inl (''repository admission rejected by '' @ ad_policy d @ '': ''
                 @ join ''; '' (map2 (\<lambda>c r. c @ '': '' @ r) (ad_codes d) (ad_reasons d)))))"

definition new_transaction :: "create_request \<Rightarrow> string \<Rightarrow> string \<Rightarrow> string \<Rightarrow> gotime \<Rightarrow> transaction" where
  "new_transaction q tid who mode now =
     \<lparr>tx_id = tid, tx_owner = who, tx_protocol = [], tx_mode = mode, tx_agent_adapter = cq_adapter q, tx_agent_session = cq_session q,
      tx_workspace_identity = [], tx_base_revision = [], tx_status = StateCreated, tx_policy = or_default ''policy-0.1'' (cq_policy q),
      tx_revision = 0, tx_material = 0, tx_approval = None, tx_created = now, tx_sealed = None, tx_updated = now\<rparr>"

definition CreateForPrincipal :: "'w service \<Rightarrow> create_request \<Rightarrow> string \<Rightarrow> ('w, transaction_view) step" where
  "CreateForPrincipal sv q who =
     (let mode = or_default ''cooperative'' (cq_mode q);
          dirty = (if cq_dirty q = ''stage_from_head'' then StageFromHead else RejectDirty) in
      andThen (check (cq_repository q \<noteq> []) (AppText ''repository is required'')) (\<lambda>_.
      andThen (open_quota sv) (\<lambda>_.
      andThen (enforced_ready sv mode) (\<lambda>_.
      andThen (staged (Inspect (sv_host sv) (cq_repository q) dirty)) (\<lambda>inspect.
      andThen (admit sv inspect dirty) (\<lambda>_.
      andThen (new_id sv ''tx'') (\<lambda>tid.
      andThen (with_env sv (\<lambda>en. staged (staging_Create (sv_host sv) (sv_runtime sv) (en_now en) tid inspect dirty))) (\<lambda>ws.
      andThen (check (who \<noteq> []) (AppText ''transaction owner principal is required'')) (\<lambda>_.
      andThen (clock sv) (\<lambda>now.
      let t = new_transaction q tid who mode now in
      andThen (on_error (ledger_write sv (OpCreate t ws) (\<lambda>en. Create en t ws)) (\<lambda>_. staged (staging_Abort (sv_host sv) ws))) (\<lambda>created.
      give \<lparr>tv_tx = created, tv_workspace = ws, tv_patch = None, tv_effects = [], tv_receipts = []\<rparr>)))))))))))"

subsection \<open>Get\<close>

definition receipts_of :: "'w service \<Rightarrow> external_effect list \<Rightarrow> ('w, effect_receipt list) step" where
  "receipts_of sv es =
     each (\<lambda>e acc. andThen (result_of (ledger_read sv (EffectReceipt (ef_id e)))) (\<lambda>r.
       give (case r of Inl _ \<Rightarrow> acc | Inr x \<Rightarrow> acc @ [x]))) es []"

definition ok_list :: "'e + 'a list \<Rightarrow> 'a list" where
  "ok_list r = (case r of Inl _ \<Rightarrow> [] | Inr xs \<Rightarrow> xs)"

definition service_Get :: "'w service \<Rightarrow> string \<Rightarrow> ('w, transaction_view) step" where
  "service_Get sv tid =
     andThen (ledger_read sv (Get tid)) (\<lambda>t.
     andThen (ledger_read sv (Workspace tid)) (\<lambda>ws.
     andThen (result_of (ledger_read sv (Patch tid))) (\<lambda>p.
     andThen (result_of (ledger_read sv (\<lambda>l. Inr (ExternalEffects tid l)))) (\<lambda>es.
     andThen (receipts_of sv (ok_list es)) (\<lambda>rs.
     give \<lparr>tv_tx = t, tv_workspace = ws, tv_patch = (case p of Inl _ \<Rightarrow> None | Inr x \<Rightarrow> Some x), tv_effects = ok_list es,
           tv_receipts = rs\<rparr>)))))"

subsection \<open>Execute\<close>

definition evidence_write ::
  "'w service \<Rightarrow> string \<Rightarrow> string \<Rightarrow> string \<Rightarrow> ('w, unit) step" where
  "evidence_write sv path content aad =
     staged (case sv_cipher sv of Some enc \<Rightarrow> enc path content aad | None \<Rightarrow> hs_write (sv_host sv) path content)"

definition execution_row :: "oci_evidence \<Rightarrow> string \<Rightarrow> string \<Rightarrow> string \<Rightarrow> runtime_execution" where
  "execution_row e out err evidence =
     \<lparr>rx_id = oe_execution e, rx_tx = oe_tx e, rx_purpose = ''mutation'', rx_command = oe_command e, rx_environment = oe_environment e,
      rx_policy = oe_policy e, rx_image = oe_image e, rx_image_digest = oe_image_digest e, rx_kind = runtime_text (bn_kind (oe_runtime e)),
      rx_version = bn_version (oe_runtime e), rx_exit = oe_exit e, rx_reason = reason_text (oe_reason e), rx_stdout = out,
      rx_stderr = err, rx_evidence = evidence, rx_synced = oe_synced e, rx_started = oe_started e, rx_finished = oe_finished e\<rparr>"

definition persistRuntimeEvidence :: "'w service \<Rightarrow> string \<Rightarrow> oci_result \<Rightarrow> ('w, runtime_execution) step" where
  "persistRuntimeEvidence sv artifacts res =
     (let e = or_evidence res; dir = path_join [artifacts, ''executions'', oe_execution e];
          suffix = (if sv_cipher sv = None then [] else ''.fde''); aad = oe_tx e @ '':'' @ oe_execution e @ '':'';
          out = path_join [dir, ''stdout.log'' @ suffix]; err = path_join [dir, ''stderr.log'' @ suffix];
          evidence = path_join [dir, ''evidence.json'' @ suffix] in
      andThen (staged (hs_mkdir (sv_host sv) dir)) (\<lambda>_.
      andThen (evidence_write sv out (or_stdout res) (aad @ ''stdout'')) (\<lambda>_.
      andThen (evidence_write sv err (or_stderr res) (aad @ ''stderr'')) (\<lambda>_.
      andThen (evidence_write sv evidence (sv_indent sv (evidence_json e) @ [CHR 0x0A]) (aad @ ''evidence'')) (\<lambda>_.
      give (execution_row e out err evidence))))))"

text \<open>The last component is the error that the code returns together with the view of the execution.\<close>

definition service_Execute :: "'w service \<Rightarrow> string \<Rightarrow> string list \<Rightarrow> (string \<times> string) list \<Rightarrow> ('w, runtime_execution \<times> string \<times> string \<times> string option) step" where
  "service_Execute sv tid command environment =
     andThen (check (command \<noteq> []) (AppText ''command is required'')) (\<lambda>_.
     andThen (ledger_read sv (Get tid)) (\<lambda>t.
     andThen (check (tx_status t = StateActive) (AppText ''transaction is not active'')) (\<lambda>_.
     andThen (check (tx_mode t = ''enforced'') (AppText ''daemon command execution is available only for enforced transactions'')) (\<lambda>_.
     andThen (pass (fetch (sv_oci sv) (AppText ''OCI runtime is not configured''))) (\<lambda>runner.
     andThen (ledger_read sv (Workspace tid)) (\<lambda>ws.
     andThen (ledger_read sv (\<lambda>l. Inr (CountRuntimeExecutions tid l))) (\<lambda>n.
     andThen (check (n < qt_executions (quotaPolicy (sv_quotas sv))) (AppText ''runtime execution quota exceeded'')) (\<lambda>_.
     andThen (new_id sv ''exec'') (\<lambda>eid.
     andThen (with_env sv (\<lambda>en. staged (oci_Execute runner (en_now en) (en_check en)
       \<lparr>oq_tx = tid, oq_execution = eid, oq_workspace = ws_path ws, oq_command = command, oq_environment = environment,
        oq_purpose = Mutation, oq_sync = True\<rparr>))) (\<lambda>(res, err).
     andThen (persistRuntimeEvidence sv (ws_artifacts ws) res) (\<lambda>row.
     andThen (ledger_write sv (OpRecordExecution row) (\<lambda>en. RecordRuntimeExecution en row)) (\<lambda>_.
     give (row, or_stdout res, or_stderr res, err)))))))))))))"

subsection \<open>Seal and verify\<close>

definition service_Seal :: "'w service \<Rightarrow> string \<Rightarrow> ('w, transaction_view) step" where
  "service_Seal sv tid =
     andThen (ledger_read sv (Workspace tid)) (\<lambda>ws.
     andThen (with_env sv (\<lambda>en. staged (Capture (sv_host sv) (en_now en) ws))) (\<lambda>p.
     let limits = quotaPolicy (sv_quotas sv) in
     andThen (if pa_size p > qt_bytes limits \<or> int (length (pa_changed p)) > qt_paths limits
              then andThen (staged (effectful (hs_remove (sv_host sv) (pa_path p)))) (\<lambda>_. fail (AppText ''staged patch exceeds quota''))
              else give ()) (\<lambda>_.
     andThen (ledger_write sv (OpRecordPatch tid p) (\<lambda>en. RecordPatch en tid p)) (\<lambda>_.
     service_Get sv tid))))"

definition service_Verify :: "'w service \<Rightarrow> string \<Rightarrow> contract \<Rightarrow> ('w, transaction_view) step" where
  "service_Verify sv tid k =
     andThen (check (int (length (kt_checks k)) \<le> qt_checks (quotaPolicy (sv_quotas sv))) (AppText ''verification check quota exceeded'')) (\<lambda>_.
     andThen (ledger_read sv (Get tid)) (\<lambda>t.
     andThen (check (tx_status t = StateSealed \<or> tx_status t = StateStale) (AppText ''transaction is not sealed or stale'')) (\<lambda>_.
     andThen (ledger_read sv (Workspace tid)) (\<lambda>ws.
     andThen (ledger_read sv (Patch tid)) (\<lambda>p.
     andThen (ledger_read sv (VerificationMaterial tid)) (\<lambda>material.
     andThen (with_env sv (\<lambda>en. staged (RunWithMaterial (sv_engine sv) en tid ws p k material))) (\<lambda>report.
     andThen (ledger_write sv (OpRecordVerification tid report) (\<lambda>en. RecordVerification en tid report)) (\<lambda>_.
     service_Get sv tid))))))))"

subsection \<open>Approval\<close>

definition service_ApprovalMaterial :: "'w service \<Rightarrow> string \<Rightarrow> ('w, string) step" where
  "service_ApprovalMaterial sv tid = ledger_read sv (ApprovalMaterial tid)"

definition approve_write :: "'w service \<Rightarrow> string \<Rightarrow> string \<Rightarrow> string \<Rightarrow> string \<Rightarrow> gotime option \<Rightarrow> ('w, transaction_view) step" where
  "approve_write sv tid digest who sig expires =
     andThen (ledger_write sv (OpApprove tid digest who sig expires) (\<lambda>en. ApproveWithEvidence en tid digest who sig expires)) (\<lambda>_.
     service_Get sv tid)"

definition service_Approve :: "'w service \<Rightarrow> string \<Rightarrow> string \<Rightarrow> string \<Rightarrow> ('w, transaction_view) step" where
  "service_Approve sv tid digest who =
     andThen (check (\<not> sv_signed sv \<and> sv_quorum sv = None) (AppText ''signed approval envelope or quorum bundle required'')) (\<lambda>_.
     approve_write sv tid digest (or_default ''local-user'' who) [] None)"

text \<open>The earliest expiry of the envelopes.\<close>

definition bundle_expiry :: "envelope list \<Rightarrow> gotime" where
  "bundle_expiry es = fold (\<lambda>e t. if nv_expires e < t then nv_expires e else t) (tl es) (nv_expires (hd es))"

definition ApproveSignedQuorum :: "'w service \<Rightarrow> string \<Rightarrow> approval_bundle \<Rightarrow> ('w, transaction_view) step" where
  "ApproveSignedQuorum sv tid b =
     (case (sv_keys sv, sv_quorum sv) of
        (Some ring, Some policy) \<Rightarrow>
          andThen (ledger_read sv (ApprovalMaterial tid)) (\<lambda>expected.
          andThen (clock sv) (\<lambda>now.
          andThen (pass (map_sum AppApproval id (VerifyQuorum (sv_ed sv) ring policy b tid expected now))) (\<lambda>r.
          approve_write sv tid expected (''quorum:'' @ join '','' (qr_approvers r)) (QuorumSignatureReference r)
            (Some (bundle_expiry (bu_envelopes b))))))
      | _ \<Rightarrow> fail (AppText ''approval quorum is not configured''))"

definition ApproveSigned :: "'w service \<Rightarrow> string \<Rightarrow> envelope \<Rightarrow> ('w, transaction_view) step" where
  "ApproveSigned sv tid e =
     (if sv_quorum sv \<noteq> None
      then andThen (pass (map_sum AppApproval id (NewBundle [e]))) (ApproveSignedQuorum sv tid)
      else case sv_keys sv of
             None \<Rightarrow> fail (AppText ''approval keyring is not configured'')
           | Some ring \<Rightarrow>
               andThen (ledger_read sv (ApprovalMaterial tid)) (\<lambda>expected.
               andThen (clock sv) (\<lambda>now.
               andThen (pass (map_sum AppApproval id (Verify_envelope (sv_ed sv) ring e tid expected now))) (\<lambda>_.
               approve_write sv tid expected (nv_approver e) (SignatureReference e) (Some (nv_expires e))))))"

subsection \<open>Abort\<close>

definition abortable :: "tx_state set" where
  "abortable = {StateCreated, StateActive, StateSealed, StateFailedVerification, StateReady, StateStale}"

definition AbortWithReason :: "'w service \<Rightarrow> string \<Rightarrow> string \<Rightarrow> string \<Rightarrow> ('w, transaction_view) step" where
  "AbortWithReason sv tid actor reason =
     andThen (ledger_read sv (Get tid)) (\<lambda>t.
     andThen (check (tx_status t \<in> abortable) (AppText ''cannot abort transaction'')) (\<lambda>_.
     andThen (ledger_read sv (\<lambda>l. Inr (ExternalEffects tid l))) (\<lambda>es.
     andThen (check (list_all (\<lambda>e. ef_status e \<notin> {EffectCommitted, EffectCommitting, EffectUnknown}) es)
       (AppText ''cannot abort while an external effect is committed or in doubt'')) (\<lambda>_.
     andThen (transition sv tid (tx_status t) StateAborting (or_default ''user'' actor) (or_default ''abort requested'' reason) False True) (\<lambda>_.
     andThen (ledger_write sv (OpAbortEffects tid ''transaction aborted before provider release'')
       (\<lambda>en. AbortPreparedEffects en tid ''transaction aborted before provider release'')) (\<lambda>_.
     andThen (result_of (ledger_read sv (Workspace tid))) (\<lambda>ws.
     andThen (case ws of Inl _ \<Rightarrow> give () | Inr w \<Rightarrow> ignore (staged (staging_Abort (sv_host sv) w))) (\<lambda>_.
     andThen (transition sv tid StateAborting StateAborted ''daemon'' ''workspace removed'' False True) (\<lambda>_.
     service_Get sv tid)))))))))"

end
