(* ===== verification/AppEffects.thy ===== *)
theory AppEffects
  imports AppService
begin

text \<open>
  The external effects of the application service, \<open>internal/app/external_effects.go\<close>: preparing and refreshing
  them, the checks before a commit, releasing them to the providers and reconciling those in doubt.
\<close>

subsection \<open>Calls of the adapters\<close>

definition branch_adapter_id :: string where "branch_adapter_id = ''builtin.github.branch-publish''"
definition draft_adapter_id :: string where "draft_adapter_id = ''builtin.github.draft-pull-request''"
definition slack_adapter_id :: string where "slack_adapter_id = ''builtin.slack.message-outbox''"

definition access :: "string \<Rightarrow> string \<Rightarrow> string \<Rightarrow> string \<Rightarrow> string \<Rightarrow> string \<Rightarrow> access_request" where
  "access tid eid adapter credential operation destination =
     \<lparr>ar_tx = tid, ar_effect = eid, ar_adapter = adapter, ar_credential = credential, ar_operation = operation, ar_destination = destination\<rparr>"

definition quietly :: "(string \<Rightarrow> 'w \<Rightarrow> (adapter_error + 'a) \<times> 'w) \<Rightarrow> string \<Rightarrow> 'w app \<Rightarrow> (adapter_error + 'a) \<times> 'w app" where
  "quietly f token s = (let (r, w) = f token (app_world s) in (r, s\<lparr>app_world := w\<rparr>))"

definition query_branch :: "'w service \<Rightarrow> external_effect \<Rightarrow> branch_prepared \<Rightarrow> ('w, branch_status) step" where
  "query_branch sv e p = with_env sv (\<lambda>en.
     withCredential sv (access (ef_tx e) (ef_id e) branch_adapter_id (ef_credential e) ''github.query_git_ref'' (ef_destination e))
       (provider (\<lambda>st. Queried (ef_id e) (st \<noteq> BranchNotFound)) (QueryFailed (ef_id e)) (branch_Status (sv_branch sv) (en_now en) p)))"

definition query_draft :: "'w service \<Rightarrow> external_effect \<Rightarrow> draft_prepared \<Rightarrow> ('w, draft_status) step" where
  "query_draft sv e p = with_env sv (\<lambda>en.
     withCredential sv (access (ef_tx e) (ef_id e) draft_adapter_id (ef_credential e) ''github.query_pull_requests'' (ef_destination e))
       (provider (\<lambda>st. Queried (ef_id e) (st \<noteq> DraftNotFound)) (QueryFailed (ef_id e)) (draft_Status (sv_draft sv) (en_now en) p)))"

definition query_slack :: "'w service \<Rightarrow> external_effect \<Rightarrow> slack_prepared \<Rightarrow> string \<Rightarrow> ('w, slack_status) step" where
  "query_slack sv e p destination = with_env sv (\<lambda>en.
     withCredential sv (access (ef_tx e) (ef_id e) slack_adapter_id (ef_credential e) ''slack.query_channel_history'' destination)
       (provider (\<lambda>st. Queried (ef_id e) (st \<noteq> SlackNotFound)) (QueryFailed (ef_id e)) (slack_Status (sv_slack sv) (en_now en) p)))"

definition release_effect ::
  "'w service \<Rightarrow> external_effect \<Rightarrow> string \<Rightarrow> string \<Rightarrow> (gotime \<Rightarrow> string \<Rightarrow> 'w \<Rightarrow> (adapter_error + 'a) \<times> 'w) \<Rightarrow> ('w, 'a) step" where
  "release_effect sv e adapter operation f = with_env sv (\<lambda>en.
     withCredential sv (access (ef_tx e) (ef_id e) adapter (ef_credential e) operation (ef_destination e))
       (provider (\<lambda>_. Wrote adapter (ef_id e) True) (Wrote adapter (ef_id e) False) (f (en_now en))))"

definition decoded :: "'a field_decoder \<Rightarrow> 'a \<Rightarrow> string \<Rightarrow> ('w, 'a) step" where
  "decoded dec zero text_json = pass (fetch (Unmarshal dec text_json zero) (AppText ''invalid JSON''))"

definition from_adapter :: "adapter_error + 'a \<Rightarrow> ('w, 'a) step" where
  "from_adapter r = pass (map_sum AppAdapter id r)"

subsection \<open>Preparing an effect\<close>

definition enforceEffectQuota :: "'w service \<Rightarrow> string \<Rightarrow> ('w, unit) step" where
  "enforceEffectQuota sv tid =
     andThen (ledger_read sv (\<lambda>l. Inr (CountEffects tid l))) (\<lambda>n.
     check (n < qt_effects (quotaPolicy (sv_quotas sv))) (AppText ''external effect quota exceeded''))"

definition persistPreparedEffect :: "'w service \<Rightarrow> external_effect \<Rightarrow> json \<Rightarrow> json \<Rightarrow> json \<Rightarrow> ('w, external_effect) step" where
  "persistPreparedEffect sv e0 input prepared preview =
     (let e = e0\<lparr>ef_input_json := marshal input, ef_input_digest := SHA256Bytes (marshal input),
                 ef_prepared_json := marshal prepared, ef_prepared_digest := SHA256Bytes (marshal prepared),
                 ef_preview_json := marshal preview, ef_preview_digest := SHA256Bytes (marshal preview)\<rparr>
      in ledger_write sv (OpCreateEffect e) (\<lambda>en. CreateExternalEffect en e))"

definition blank_effect :: "string \<Rightarrow> string \<Rightarrow> string \<Rightarrow> string \<Rightarrow> external_effect" where
  "blank_effect eid tid adapter credential =
     \<lparr>ef_id = eid, ef_tx = tid, ef_tool = [], ef_adapter = adapter, ef_class = [], ef_risk = [], ef_credential = credential,
      ef_operation = [], ef_destination = [], ef_input_json = [], ef_input_digest = [], ef_prepared_json = [], ef_prepared_digest = [],
      ef_preview_json = [], ef_preview_digest = [], ef_resources = None, ef_idem = [], ef_commit_request = [], ef_commit_fence = 0,
      ef_status = EffectVerified, ef_reversibility = [], ef_rank = 0, ef_support = [], ef_depends = [], ef_revision = 0,
      ef_created = 0, ef_updated = 0\<rparr>"

definition broker_required :: "'w service \<Rightarrow> string \<Rightarrow> ('w, unit) step" where
  "broker_required sv msg = check (sv_broker sv \<noteq> None) (AppText msg)"

definition state_required :: "'w service \<Rightarrow> string \<Rightarrow> tx_state set \<Rightarrow> string \<Rightarrow> ('w, unit) step" where
  "state_required sv tid states msg =
     andThen (ledger_read sv (Get tid)) (\<lambda>t. check (tx_status t \<in> states) (AppText (msg @ state_text (tx_status t))))"

definition slack_dependencies :: "'w service \<Rightarrow> string \<Rightarrow> string list \<Rightarrow> ('w, unit) step" where
  "slack_dependencies sv tid ds =
     each (\<lambda>d _. andThen (ledger_read sv (ExternalEffect d)) (\<lambda>e.
       check (ef_tx e = tid) (AppText ''Slack dependency belongs to another transaction''))) ds ()"

definition PrepareSlackMessage :: "'w service \<Rightarrow> string \<Rightarrow> string \<Rightarrow> slack_input \<Rightarrow> ('w, external_effect) step" where
  "PrepareSlackMessage sv tid credential input =
     andThen (enforceEffectQuota sv tid) (\<lambda>_.
     andThen (broker_required sv ''Slack outbox is not configured'') (\<lambda>_.
     andThen (check (credential \<noteq> []) (AppText ''credential_id is required'')) (\<lambda>_.
     andThen (state_required sv tid {StateActive, StateSealed} ''Slack effects may be prepared only while transaction is active or sealed, found '') (\<lambda>_.
     andThen (slack_dependencies sv tid (si_depends input)) (\<lambda>_.
     andThen (new_id sv ''eff'') (\<lambda>eid.
     andThen (from_adapter (slack_Prepare eid input)) (\<lambda>(p, preview).
     andThen (from_adapter (CommitDestination (sv_slack sv))) (\<lambda>destination.
     persistPreparedEffect sv
       ((blank_effect eid tid slack_adapter_id credential)
          \<lparr>ef_tool := ''slack.post_message'', ef_class := ''outbox'', ef_risk := ''medium'', ef_operation := ''slack.post_message'',
           ef_destination := destination, ef_resources := Some [(''slack://'' @ si_channel (sl_input p), ''prepared'')],
           ef_idem := ''slack-message:'' @ eid, ef_reversibility := ''irreversible_social'', ef_rank := 300,
           ef_support := ''durable_outbox_with_metadata_reconciliation'', ef_depends := si_depends (sl_input p)\<rparr>)
       (slack_input_json (sl_input p)) (slack_prepared_json p) (slack_preview_json preview)))))))))"

record branch_request =
  br_credential :: string
  br_owner :: string
  br_repo :: string
  br_branch :: string
  br_remote :: string

definition PrepareGitHubBranch :: "'w service \<Rightarrow> string \<Rightarrow> branch_request \<Rightarrow> ('w, external_effect) step" where
  "PrepareGitHubBranch sv tid q =
     andThen (enforceEffectQuota sv tid) (\<lambda>_.
     andThen (broker_required sv ''GitHub branch credential path is not configured'') (\<lambda>_.
     andThen (check (br_credential q \<noteq> []) (AppText ''credential_id is required'')) (\<lambda>_.
     andThen (state_required sv tid {StateSealed} ''GitHub branch effects require a sealed transaction, found '') (\<lambda>_.
     andThen (ledger_read sv (Workspace tid)) (\<lambda>ws.
     andThen (ledger_read sv (Patch tid)) (\<lambda>patch.
     andThen (staged (PredictMaterializedRef (sv_host sv) ws patch)) (\<lambda>predicted.
     let input = \<lparr>bi_owner = br_owner q, bi_repo = br_repo q, bi_branch = br_branch q, bi_remote = br_remote q,
                  bi_commit = mr_commit predicted, bi_tree = mr_tree predicted, bi_repository = ws_root ws\<rparr> in
     andThen (from_adapter (branch_Destination (ba_cwd (sv_branch sv)) input)) (\<lambda>destination.
     andThen (new_id sv ''eff'') (\<lambda>eid.
     andThen (with_env sv (\<lambda>en. withCredential sv (access tid eid branch_adapter_id (br_credential q) ''github.query_git_ref'' destination)
       (quietly (branch_Prepare (sv_branch sv) (en_now en) input)))) (\<lambda>(p, preview).
     persistPreparedEffect sv
       ((blank_effect eid tid branch_adapter_id (br_credential q))
          \<lparr>ef_tool := ''github.publish_branch'', ef_class := ''external_api'', ef_risk := ''high'', ef_operation := ''github.publish_branch'',
           ef_destination := destination, ef_resources := bp_resources p, ef_idem := ''github-branch:'' @ eid,
           ef_reversibility := ''compensatable'', ef_rank := 100, ef_support := ''built_in_v0.1_create_only''\<rparr>)
       (branch_input_json (bp_input p)) (branch_prepared_json p) (branch_preview_json preview)))))))))))"

text \<open>With a branch effect to depend on, the head and its commit are those of the branch.\<close>

definition draft_dependency :: "'w service \<Rightarrow> string \<Rightarrow> draft_input \<Rightarrow> ('w, draft_input \<times> string list) step" where
  "draft_dependency sv tid i =
     (if di_depends i = [] then give (i, [])
      else andThen (ledger_read sv (ExternalEffect (di_depends i))) (\<lambda>d.
           andThen (check (ef_tx d = tid \<and> ef_adapter d = branch_adapter_id)
             (AppText ''draft PR dependency must be a GitHub branch effect in the same transaction'')) (\<lambda>_.
           andThen (decoded dec_branch_prepared branch_prepared0 (ef_prepared_json d)) (\<lambda>b.
           andThen (check (di_owner i = bi_owner (bp_input b) \<and> di_repo i = bi_repo (bp_input b))
             (AppText ''draft PR and branch dependency must target the same repository'')) (\<lambda>_.
           give (i\<lparr>di_head := bi_branch (bp_input b), di_sha := bi_commit (bp_input b)\<rparr>, [ef_id d]))))))"

definition prepare_draft :: "'w service \<Rightarrow> string \<Rightarrow> string \<Rightarrow> string \<Rightarrow> draft_input \<Rightarrow> ('w, draft_prepared \<times> draft_preview) step" where
  "prepare_draft sv tid eid credential i =
     andThen (from_adapter (draft_ReadDestination (sv_draft sv) i)) (\<lambda>destination.
     withCredential sv (access tid eid draft_adapter_id credential ''github.read_refs'' destination)
       (quietly (draft_Prepare (sv_draft sv) eid i)))"

definition PrepareGitHubDraftPR :: "'w service \<Rightarrow> string \<Rightarrow> string \<Rightarrow> draft_input \<Rightarrow> ('w, external_effect) step" where
  "PrepareGitHubDraftPR sv tid credential i0 =
     andThen (enforceEffectQuota sv tid) (\<lambda>_.
     andThen (broker_required sv ''GitHub adapter is not configured'') (\<lambda>_.
     andThen (check (credential \<noteq> []) (AppText ''credential_id is required'')) (\<lambda>_.
     andThen (state_required sv tid {StateActive, StateSealed} ''GitHub effects may be prepared only while transaction is active or sealed, found '') (\<lambda>_.
     andThen (draft_dependency sv tid i0) (\<lambda>(i, depends).
     andThen (new_id sv ''eff'') (\<lambda>eid.
     andThen (prepare_draft sv tid eid credential i) (\<lambda>(p, preview).
     andThen (from_adapter (draft_Destination (sv_draft sv) (dp_input p))) (\<lambda>destination.
     persistPreparedEffect sv
       ((blank_effect eid tid draft_adapter_id credential)
          \<lparr>ef_tool := ''github.create_draft_pull_request'', ef_class := ''external_api'', ef_risk := ''medium'',
           ef_operation := ''github.create_draft_pull_request'', ef_destination := destination, ef_resources := dp_resources p,
           ef_idem := ''github-draft-pr:'' @ eid, ef_reversibility := ''compensatable'', ef_rank := 200,
           ef_support := ''exact_payload_with_ref_freshness_check'', ef_depends := depends\<rparr>)
       (draft_input_json (dp_input p)) (draft_prepared_json p) (draft_preview_json preview)))))))))"

definition RefreshGitHubEffect :: "'w service \<Rightarrow> string \<Rightarrow> string \<Rightarrow> ('w, external_effect) step" where
  "RefreshGitHubEffect sv tid eid =
     andThen (ledger_read sv (ExternalEffect eid)) (\<lambda>e.
     andThen (check (ef_tx e = tid) (AppText ''effect does not belong to transaction'')) (\<lambda>_.
     andThen (check (ef_adapter e = draft_adapter_id) (AppText ''only GitHub draft-PR effects are refreshable in protocol 0.1'')) (\<lambda>_.
     andThen (decoded dec_draft_input draft_input0 (ef_input_json e)) (\<lambda>i.
     andThen (prepare_draft sv tid eid (ef_credential e) i) (\<lambda>(p, preview).
     let pj = marshal (draft_prepared_json p); vj = marshal (draft_preview_json preview) in
     ledger_write sv (OpRefreshEffect eid pj (SHA256Bytes pj) vj (SHA256Bytes vj) (dp_resources p))
       (\<lambda>en. RefreshExternalEffect en eid pj (SHA256Bytes pj) vj (SHA256Bytes vj) (dp_resources p)))))))"

definition service_ExternalEffects :: "'w service \<Rightarrow> string \<Rightarrow> ('w, external_effect list) step" where
  "service_ExternalEffects sv tid =
     andThen (ledger_read sv (Get tid)) (\<lambda>_. ledger_read sv (\<lambda>l. Inr (ExternalEffects tid l)))"

subsection \<open>The checks before a commit\<close>

definition isStaleProviderError :: "app_error \<Rightarrow> bool" where
  "isStaleProviderError err =
     (case raw_error err of
        Some (DraftError p) \<Rightarrow> pe_class p = ''stale_resource_version''
      | Some (BranchError p) \<Rightarrow> pe_class p = ''stale_resource_version'' \<or> pe_class p = ''branch_already_exists''
      | _ \<Rightarrow> False)"

text \<open>An error of the outer action ends the preflight as it is, the inner one is classified.\<close>

definition fresh_check :: "'w service \<Rightarrow> string \<Rightarrow> external_effect \<Rightarrow> ('w, app_error + unit) step" where
  "fresh_check sv tid e =
     (if ef_adapter e = branch_adapter_id
      then andThen (decoded dec_branch_prepared branch_prepared0 (ef_prepared_json e)) (\<lambda>p.
           result_of (with_env sv (\<lambda>en.
             withCredential sv (access tid (ef_id e) branch_adapter_id (ef_credential e) ''github.query_git_ref'' (ef_destination e))
               (quietly (branch_VerifyFresh (sv_branch sv) (en_now en) p)))))
      else if ef_adapter e = draft_adapter_id
      then andThen (decoded dec_draft_prepared draft_prepared0 (ef_prepared_json e)) (\<lambda>p.
           andThen (from_adapter (draft_ReadDestination (sv_draft sv) (dp_input p))) (\<lambda>destination.
           result_of (withCredential sv (access tid (ef_id e) draft_adapter_id (ef_credential e) ''github.read_refs'' destination)
             (quietly (draft_VerifyPreCommit (sv_draft sv) p)))))
      else if ef_adapter e = slack_adapter_id
      then andThen (decoded dec_slack_prepared slack_prepared0 (ef_prepared_json e)) (\<lambda>p.
           andThen (from_adapter (StatusDestination (sv_slack sv))) (\<lambda>destination.
           result_of (andThen (query_slack sv (e\<lparr>ef_tx := tid\<rparr>) p destination) (\<lambda>_. give ()))))
      else fail (AppText (''unsupported built-in adapter '' @ ef_adapter e)))"

definition preflight_effect :: "'w service \<Rightarrow> string \<Rightarrow> external_effect \<Rightarrow> ('w, unit) step" where
  "preflight_effect sv tid e =
     (if ef_status e = EffectCommitted then give ()
      else andThen (fresh_check sv tid e) (\<lambda>r.
           case r of
             Inr _ \<Rightarrow> give ()
           | Inl err \<Rightarrow>
               andThen (if isStaleProviderError err
                        then andThen (result_of (transition sv tid StateReady StateStale ''provider-preflight'' (app_text err) False True)) (\<lambda>t.
                             check (is_ok t) (AppText ''provider changed and stale transition failed''))
                        else give ()) (\<lambda>_.
               fail err)))"

definition preflightExternalEffects :: "'w service \<Rightarrow> string \<Rightarrow> ('w, unit) step" where
  "preflightExternalEffects sv tid =
     andThen (ledger_read sv (\<lambda>l. Inr (ExternalEffects tid l))) (\<lambda>es. each (\<lambda>e _. preflight_effect sv tid e) es ())"

subsection \<open>Releasing an effect\<close>

definition begin_attempt :: "'w service \<Rightarrow> string \<Rightarrow> string \<Rightarrow> string \<Rightarrow> int \<Rightarrow> ('w, effect_attempt) step" where
  "begin_attempt sv eid phase digest token =
     ledger_write sv (OpBeginAttempt eid phase digest token) (\<lambda>en. BeginEffectAttempt en eid phase digest token)"

definition mark_unknown :: "'w service \<Rightarrow> effect_attempt \<Rightarrow> string \<Rightarrow> app_error \<Rightarrow> ('w, unit) step" where
  "mark_unknown sv a cls err =
     ignore (ledger_write sv (OpEffectUnknown a cls (app_text err)) (\<lambda>en. MarkEffectUnknown en a cls (app_text err)))"

definition effectUnknown :: "'w service \<Rightarrow> effect_attempt \<Rightarrow> string \<Rightarrow> app_error \<Rightarrow> ('w, 'a) step" where
  "effectUnknown sv a cls err =
     andThen (mark_unknown sv a cls err) (\<lambda>_.
     andThen (markNeedsReconciliation sv (at_tx a) ''external effect outcome is unknown'') (\<lambda>_. fail err))"

definition effectDefiniteFailure :: "'w service \<Rightarrow> effect_attempt \<Rightarrow> string \<Rightarrow> app_error \<Rightarrow> ('w, 'a) step" where
  "effectDefiniteFailure sv a cls err =
     andThen (ignore (ledger_write sv (OpEffectFailure a 0 cls (app_text err)) (\<lambda>en. MarkEffectDefiniteFailure en a 0 cls (app_text err))) :: ('w, unit) step) (\<lambda>_.
     andThen (markNeedsReconciliation sv (at_tx a) ''external effect was definitely not committed'') (\<lambda>_. fail err))"

definition record_committed :: "'w service \<Rightarrow> effect_attempt \<Rightarrow> external_effect \<Rightarrow> effect_receipt \<Rightarrow> string \<Rightarrow> ('w, unit) step" where
  "record_committed sv a e r reason =
     andThen (on_error (ledger_write sv (OpEffectCommitted a r) (\<lambda>en. RecordEffectCommitted en a r))
       (\<lambda>_. markNeedsReconciliation sv (ef_tx e) reason)) (\<lambda>_. give ())"

definition provider_receipt :: "string \<Rightarrow> string \<Rightarrow> string \<Rightarrow> json \<Rightarrow> string \<Rightarrow> gotime \<Rightarrow> effect_receipt" where
  "provider_receipt operation resource digest body status_ref at =
     \<lparr>rc_id = [], rc_effect = [], rc_operation = operation, rc_resource = resource, rc_request = digest,
      rc_response = SHA256Bytes (marshal body), rc_status_ref = status_ref, rc_fence = 0, rc_committed = at, rc_created = 0\<rparr>"

definition recordBranchReceipt :: "'w service \<Rightarrow> effect_attempt \<Rightarrow> external_effect \<Rightarrow> branch_prepared \<Rightarrow> branch_receipt \<Rightarrow> ('w, unit) step" where
  "recordBranchReceipt sv a e p r =
     record_committed sv a e (provider_receipt ''github.git.push'' (branch_resource (bp_input p)) (bp_digest p) (branch_receipt_json r)
       (ef_destination e) (bq_observed r)) ''branch published but receipt persistence failed''"

definition recordGitHubReceipt :: "'w service \<Rightarrow> effect_attempt \<Rightarrow> external_effect \<Rightarrow> draft_prepared \<Rightarrow> draft_receipt \<Rightarrow> ('w, unit) step" where
  "recordGitHubReceipt sv a e p r =
     record_committed sv a e (provider_receipt (''github.pull_request.'' @ show_int (dq_number r))
       (''github://'' @ di_owner (dp_input p) @ ''/'' @ di_repo (dp_input p) @ ''/pulls/'' @ show_int (dq_number r)) (dp_digest p)
       (draft_receipt_json r) (ef_destination e) (dq_observed r)) ''provider committed but receipt persistence failed''"

definition recordSlackReceipt :: "'w service \<Rightarrow> effect_attempt \<Rightarrow> external_effect \<Rightarrow> slack_prepared \<Rightarrow> slack_receipt \<Rightarrow> ('w, unit) step" where
  "recordSlackReceipt sv a e p r =
     record_committed sv a e (provider_receipt ''slack.chat.postMessage''
       (''slack://'' @ sq_channel r @ ''/messages/'' @ sq_timestamp r) (sl_digest p) (slack_receipt_json r) (ef_destination e) (sq_observed r))
       ''Slack posted but receipt persistence failed''"

text \<open>After a failed release: an ambiguous error of the adapter's own type leaves the effect in doubt.\<close>

fun branch_failure :: "adapter_error \<Rightarrow> provider_error option" where
  "branch_failure (BranchError p) = Some p" | "branch_failure _ = None"

fun draft_failure :: "adapter_error \<Rightarrow> provider_error option" where
  "draft_failure (DraftError p) = Some p" | "draft_failure _ = None"

fun slack_failure :: "adapter_error \<Rightarrow> provider_error option" where
  "slack_failure (SlackError p) = Some p" | "slack_failure _ = None"

definition release_failed ::
  "'w service \<Rightarrow> effect_attempt \<Rightarrow> (adapter_error \<Rightarrow> provider_error option) \<Rightarrow> string \<Rightarrow> app_error \<Rightarrow> ('w, unit) step" where
  "release_failed sv a own cls err =
     (case Option.bind (raw_error err) own of
        Some p \<Rightarrow> if pe_ambiguous p then effectUnknown sv a (pe_class p) err else effectDefiniteFailure sv a cls err
      | None \<Rightarrow> effectDefiniteFailure sv a cls err)"

definition commitGitHubBranch :: "'w service \<Rightarrow> external_effect \<Rightarrow> int \<Rightarrow> ('w, unit) step" where
  "commitGitHubBranch sv e token =
     andThen (decoded dec_branch_prepared branch_prepared0 (ef_prepared_json e)) (\<lambda>p.
     andThen (begin_attempt sv (ef_id e) ''commit'' (bp_digest p) token) (\<lambda>a.
     andThen (result_of (query_branch sv e p)) (\<lambda>st.
     case st of
       Inl err \<Rightarrow> effectUnknown sv a ''branch_status_unknown'' err
     | Inr (BranchCommitted r oid) \<Rightarrow> recordBranchReceipt sv a e p r
     | Inr (BranchConflict oid) \<Rightarrow> effectDefiniteFailure sv a ''branch_conflict'' (AppText (''remote branch exists at '' @ oid))
     | Inr BranchNotFound \<Rightarrow>
         andThen (result_of (release_effect sv e branch_adapter_id ''github.publish_branch'' (\<lambda>now. branch_Publish (sv_branch sv) now p))) (\<lambda>res.
         case res of
           Inl err \<Rightarrow> release_failed sv a branch_failure ''branch_publish_failed'' err
         | Inr r \<Rightarrow> recordBranchReceipt sv a e p r))))"

definition commitGitHubPR :: "'w service \<Rightarrow> external_effect \<Rightarrow> int \<Rightarrow> ('w, unit) step" where
  "commitGitHubPR sv e token =
     andThen (decoded dec_draft_prepared draft_prepared0 (ef_prepared_json e)) (\<lambda>p.
     andThen (begin_attempt sv (ef_id e) ''commit'' (dp_digest p) token) (\<lambda>a.
     andThen (from_adapter (draft_ReadDestination (sv_draft sv) (dp_input p))) (\<lambda>readDestination.
     andThen (result_of (withCredential sv (access (ef_tx e) (ef_id e) draft_adapter_id (ef_credential e) ''github.read_refs'' readDestination)
       (quietly (draft_VerifyFresh (sv_draft sv) p)))) (\<lambda>fresh.
     case fresh of
       Inl err \<Rightarrow>
         if isStaleProviderError err then effectDefiniteFailure sv a ''stale_resource_version'' err
         else effectUnknown sv a ''precommit_ref_read_unknown'' err
     | Inr _ \<Rightarrow>
         andThen (result_of (query_draft sv e p)) (\<lambda>st.
         case st of
           Inl err \<Rightarrow> effectUnknown sv a ''precommit_status_unknown'' err
         | Inr (DraftCommitted r) \<Rightarrow> recordGitHubReceipt sv a e p r
         | Inr DraftNotFound \<Rightarrow>
             andThen (result_of (release_effect sv e draft_adapter_id ''github.create_draft_pull_request''
               (\<lambda>now. draft_Create (sv_draft sv) now p))) (\<lambda>res.
             case res of
               Inl err \<Rightarrow> release_failed sv a draft_failure ''github_pr_failed'' err
             | Inr r \<Rightarrow> recordGitHubReceipt sv a e p r))))))"

definition commitSlackMessage :: "'w service \<Rightarrow> external_effect \<Rightarrow> int \<Rightarrow> ('w, unit) step" where
  "commitSlackMessage sv e token =
     andThen (decoded dec_slack_prepared slack_prepared0 (ef_prepared_json e)) (\<lambda>p.
     andThen (begin_attempt sv (ef_id e) ''commit'' (sl_digest p) token) (\<lambda>a.
     andThen (from_adapter (StatusDestination (sv_slack sv))) (\<lambda>statusDestination.
     andThen (result_of (query_slack sv e p statusDestination)) (\<lambda>st.
     case st of
       Inl err \<Rightarrow> effectUnknown sv a ''slack_status_unknown'' err
     | Inr (SlackCommitted r) \<Rightarrow> recordSlackReceipt sv a e p r
     | Inr SlackNotFound \<Rightarrow>
         andThen (result_of (release_effect sv e slack_adapter_id ''slack.post_message'' (\<lambda>now. slack_Post (sv_slack sv) now p))) (\<lambda>res.
         case res of
           Inl err \<Rightarrow> release_failed sv a slack_failure ''slack_post_failed'' err
         | Inr r \<Rightarrow> recordSlackReceipt sv a e p r)))))"

definition commit_effect :: "'w service \<Rightarrow> int \<Rightarrow> external_effect \<Rightarrow> ('w, unit) step" where
  "commit_effect sv token e =
     (if ef_adapter e = branch_adapter_id then commitGitHubBranch sv e token
      else if ef_adapter e = draft_adapter_id then commitGitHubPR sv e token
      else if ef_adapter e = slack_adapter_id then commitSlackMessage sv e token
      else fail (AppText (''unsupported built-in adapter '' @ ef_adapter e)))"

definition commit_next :: "'w service \<Rightarrow> int \<Rightarrow> external_effect \<Rightarrow> string list \<Rightarrow> ('w, string list) step" where
  "commit_next sv token e committed =
     (if ef_status e = EffectCommitted then give committed
      else andThen (check (ef_status e = EffectVerified \<or> ef_status e = EffectPrepared) (AppText ''effect cannot be committed'')) (\<lambda>_.
           andThen (check (set (ef_depends e) \<subseteq> set committed) (AppText ''effect dependency is not committed'')) (\<lambda>_.
           andThen (commit_effect sv token e) (\<lambda>_. give (ef_id e # committed)))))"

definition commitExternalEffects :: "'w service \<Rightarrow> string \<Rightarrow> int \<Rightarrow> ('w, unit) step" where
  "commitExternalEffects sv tid token =
     andThen (ledger_read sv (\<lambda>l. Inr (ExternalEffects tid l))) (\<lambda>es.
     andThen (each (commit_next sv token) es (map ef_id (filter (\<lambda>e. ef_status e = EffectCommitted) es))) (\<lambda>_. give ()))"

subsection \<open>Reconciling effects in doubt\<close>

definition status_request_digest :: "external_effect \<Rightarrow> string" where
  "status_request_digest e = Digest (json_map
     [(''phase'', JStr ''status''), (''prepared_digest'', JStr (ef_prepared_digest e)), (''idempotency_key'', JStr (ef_idem e))])"

definition rearm :: "'w service \<Rightarrow> external_effect \<Rightarrow> effect_attempt \<Rightarrow> string \<Rightarrow> ('w, unit) step" where
  "rearm sv e a reason =
     andThen (ledger_write sv (OpRearm (ef_id e) (Some a) reason) (\<lambda>en. RearmEffect en (ef_id e) (Some a) reason)) (\<lambda>_. give ())"

definition query_or_unknown :: "'w service \<Rightarrow> effect_attempt \<Rightarrow> ('w, 'a) step \<Rightarrow> ('w, 'a) step" where
  "query_or_unknown sv a m = on_error m (\<lambda>err. mark_unknown sv a ''status_query_failed'' err)"

text \<open>The result tells whether the effect is committed.\<close>

definition reconcile_branch :: "'w service \<Rightarrow> string \<Rightarrow> external_effect \<Rightarrow> effect_attempt \<Rightarrow> ('w, bool) step" where
  "reconcile_branch sv tid e a =
     andThen (decoded dec_branch_prepared branch_prepared0 (ef_prepared_json e)) (\<lambda>p.
     andThen (query_or_unknown sv a (query_branch sv (e\<lparr>ef_tx := tid\<rparr>) p)) (\<lambda>st.
     case st of
       BranchNotFound \<Rightarrow> andThen (rearm sv e a ''remote branch is absent'') (\<lambda>_. give False)
     | BranchConflict oid \<Rightarrow>
         andThen (ignore (transition sv tid StateNeedsReconciliation StateManualIntervention ''github-branch''
           ''remote branch conflicts with approved commit'' False False) :: ('w, unit) step) (\<lambda>_.
         fail (AppText ''manual intervention required: remote branch conflict''))
     | BranchCommitted r oid \<Rightarrow> andThen (recordBranchReceipt sv a e p r) (\<lambda>_. give True)))"

definition reconcile_draft :: "'w service \<Rightarrow> string \<Rightarrow> external_effect \<Rightarrow> effect_attempt \<Rightarrow> ('w, bool) step" where
  "reconcile_draft sv tid e a =
     andThen (decoded dec_draft_prepared draft_prepared0 (ef_prepared_json e)) (\<lambda>p.
     andThen (query_or_unknown sv a (query_draft sv (e\<lparr>ef_tx := tid\<rparr>) p)) (\<lambda>st.
     case st of
       DraftNotFound \<Rightarrow> andThen (rearm sv e a ''no matching draft pull request exists'') (\<lambda>_. give False)
     | DraftCommitted r \<Rightarrow> andThen (recordGitHubReceipt sv a e p r) (\<lambda>_. give True)))"

definition reconcile_slack :: "'w service \<Rightarrow> string \<Rightarrow> external_effect \<Rightarrow> effect_attempt \<Rightarrow> ('w, bool) step" where
  "reconcile_slack sv tid e a =
     andThen (decoded dec_slack_prepared slack_prepared0 (ef_prepared_json e)) (\<lambda>p.
     andThen (from_adapter (StatusDestination (sv_slack sv))) (\<lambda>destination.
     andThen (query_or_unknown sv a (query_slack sv (e\<lparr>ef_tx := tid\<rparr>) p destination)) (\<lambda>st.
     case st of
       SlackNotFound \<Rightarrow> andThen (rearm sv e a ''no matching Slack message exists'') (\<lambda>_. give False)
     | SlackCommitted r \<Rightarrow> andThen (recordSlackReceipt sv a e p r) (\<lambda>_. give True))))"

definition reconcile_effect :: "'w service \<Rightarrow> string \<Rightarrow> int \<Rightarrow> external_effect \<Rightarrow> ('w, bool) step" where
  "reconcile_effect sv tid token e =
     (if ef_status e = EffectCommitted then give True
      else if ef_status e = EffectVerified \<or> ef_status e = EffectPrepared then give False
      else if ef_status e = EffectUnknown \<or> ef_status e = EffectCommitting
      then andThen (begin_attempt sv (ef_id e) ''status'' (status_request_digest e) token) (\<lambda>a.
           if ef_adapter e = branch_adapter_id then reconcile_branch sv tid e a
           else if ef_adapter e = draft_adapter_id then reconcile_draft sv tid e a
           else if ef_adapter e = slack_adapter_id then reconcile_slack sv tid e a
           else fail (AppText (''unsupported adapter during reconciliation: '' @ ef_adapter e)))
      else fail (AppText ''effect requires manual intervention''))"

text \<open>Whether all effects are committed, and whether any is.\<close>

definition reconcileExternalEffects :: "'w service \<Rightarrow> string \<Rightarrow> int \<Rightarrow> ('w, bool \<times> bool) step" where
  "reconcileExternalEffects sv tid token =
     andThen (ledger_read sv (\<lambda>l. Inr (ExternalEffects tid l))) (\<lambda>es.
     each (\<lambda>e (allCommitted, anyCommitted).
       andThen (reconcile_effect sv tid token e) (\<lambda>c. give (allCommitted \<and> c, anyCommitted \<or> c))) es (True, False))"

end
