(* ===== verification/AppCommit.thy ===== *)
theory AppCommit
  imports AppEffects
begin

text \<open>
  \<open>CommitContext\<close> and \<open>Recover\<close> of \<open>internal/app/service.go\<close>: the commit of a transaction from the checks of
  the source and the providers over the durable start, the repository reference and the external effects to the
  final mark, and the recovery of one that stopped on the way.
\<close>

definition stale_source :: "'w service \<Rightarrow> string \<Rightarrow> string \<Rightarrow> ('w, 'a) step" where
  "stale_source sv tid current =
     andThen (ignore (transition sv tid StateReady StateStale ''git-staging'' (''source moved to '' @ current) False True) :: ('w, unit) step) (\<lambda>_.
     fail (AppText ''transaction became stale because the source branch moved''))"

definition integration_of :: "'w service \<Rightarrow> workspace \<Rightarrow> patch \<Rightarrow> ('w, materialized_ref option) step" where
  "integration_of sv ws p = with_env sv (\<lambda>en. staged (InspectIntegrationRef (sv_host sv) (en_now en) ws p))"

definition record_ref :: "'w service \<Rightarrow> string \<Rightarrow> materialized_ref \<Rightarrow> ('w, unit) step" where
  "record_ref sv tid r = ledger_write sv (OpMaterialize tid r) (\<lambda>en. RecordMaterializedRef en tid r)"

definition begin_commit :: "'w service \<Rightarrow> string \<Rightarrow> string \<Rightarrow> ('w, transaction) step" where
  "begin_commit sv tid digest = ledger_write sv (OpBeginCommit tid digest) (\<lambda>en. BeginCommit en tid digest)"

definition finalize :: "'w service \<Rightarrow> string \<Rightarrow> ('w, transaction) step" where
  "finalize sv tid = ledger_write sv (OpFinalize tid) (\<lambda>en. FinalizeTransactionCommit en tid)"

text \<open>What is done with an error after the commit began: mark the transaction, return the error.\<close>

definition or_reconcile :: "'w service \<Rightarrow> string \<Rightarrow> (app_error \<Rightarrow> string) \<Rightarrow> ('w, 'a) step \<Rightarrow> ('w, 'a) step" where
  "or_reconcile sv tid reason m = on_error m (\<lambda>err. markNeedsReconciliation sv tid (reason err))"

definition effects_or_reconcile :: "'w service \<Rightarrow> string \<Rightarrow> int \<Rightarrow> ('w, unit) step" where
  "effects_or_reconcile sv tid token =
     on_error (commitExternalEffects sv tid token) (\<lambda>_.
       andThen (result_of (ledger_read sv (Get tid)) :: ('w, app_error + transaction) step) (\<lambda>t.
       case t of
         Inr cur \<Rightarrow> if tx_status cur = StateCommitting then markNeedsReconciliation sv tid ''external effect commit did not complete'' else give ()
       | Inl _ \<Rightarrow> give ()))"

text \<open>From the durable start of the commit on.\<close>

definition commit_durable :: "'w service \<Rightarrow> string \<Rightarrow> workspace \<Rightarrow> int \<Rightarrow> ('w, transaction_view) step" where
  "commit_durable sv tid ws token =
     andThen (or_reconcile sv tid (\<lambda>_. ''durable patch lookup failed after commit began'') (ledger_read sv (Patch tid))) (\<lambda>p.
     andThen (or_reconcile sv tid app_text (integration_of sv ws p)) (\<lambda>found.
     andThen (case found of Some r \<Rightarrow> give r
       | None \<Rightarrow> or_reconcile sv tid app_text (staged (Materialize (sv_host sv) (sv_runtime sv) ws p))) (\<lambda>r.
     andThen (or_reconcile sv tid (\<lambda>_. ''repository ref was published but its receipt could not be persisted'') (record_ref sv tid r)) (\<lambda>_.
     andThen (effects_or_reconcile sv tid token) (\<lambda>_.
     andThen (or_reconcile sv tid (\<lambda>_. ''commit receipts exist but transaction finalization failed'') (finalize sv tid)) (\<lambda>_.
     service_Get sv tid))))))"

definition CommitContext :: "'w service \<Rightarrow> string \<Rightarrow> string \<Rightarrow> ('w, transaction_view) step" where
  "CommitContext sv tid digest =
     andThen (ledger_read sv (Get tid)) (\<lambda>t.
     andThen (check (tx_status t = StateReady) (AppText ''transaction is not ready'')) (\<lambda>_.
     andThen (ledger_read sv (Workspace tid)) (\<lambda>ws.
     andThen (staged (SourcePinned (sv_host sv) ws)) (\<lambda>(pinned, current).
     andThen (if pinned then give () else stale_source sv tid current) (\<lambda>_.
     andThen (preflightExternalEffects sv tid) (\<lambda>_.
     andThen (acquireTransactionLease sv tid) (\<lambda>token.
     andThen (begin_commit sv tid digest) (\<lambda>_.
     commit_durable sv tid ws token))))))))"

subsection \<open>Recovery\<close>

definition back_to_ready :: "'w service \<Rightarrow> string \<Rightarrow> workspace \<Rightarrow> ('w, transaction_view) step" where
  "back_to_ready sv tid ws =
     andThen (staged (SourcePinned (sv_host sv) ws)) (\<lambda>(pinned, current).
     andThen (if pinned
              then transition sv tid StateNeedsReconciliation StateReady ''recovery'' ''all unresolved effects proved absent or remain prepared'' False False
              else transition sv tid StateNeedsReconciliation StateStale ''recovery'' (''source moved to '' @ current) False True) (\<lambda>_.
     service_Get sv tid))"

definition recover_decision :: "'w service \<Rightarrow> string \<Rightarrow> workspace \<Rightarrow> int \<Rightarrow> bool \<Rightarrow> bool \<Rightarrow> bool \<Rightarrow> ('w, transaction_view) step" where
  "recover_decision sv tid ws token exists allCommitted anyCommitted =
     (if exists \<and> allCommitted then andThen (finalize sv tid) (\<lambda>_. service_Get sv tid)
      else if exists \<and> anyCommitted
      then andThen (commitExternalEffects sv tid token) (\<lambda>_. andThen (finalize sv tid) (\<lambda>_. service_Get sv tid))
      else if anyCommitted \<and> \<not> exists
      then andThen (ignore (transition sv tid StateNeedsReconciliation StateManualIntervention ''recovery''
             ''external effect committed but repository ref is absent'' False False) :: ('w, unit) step) (\<lambda>_.
           fail (AppText ''manual intervention required: external effect committed but repository ref is absent''))
      else back_to_ready sv tid ws)"

definition Recover :: "'w service \<Rightarrow> string \<Rightarrow> ('w, transaction_view) step" where
  "Recover sv tid =
     andThen (ledger_read sv (Get tid)) (\<lambda>t.
     andThen (check (tx_status t = StateCommitting \<or> tx_status t = StateNeedsReconciliation) (AppText ''transaction is not recoverable'')) (\<lambda>_.
     andThen (if tx_status t = StateCommitting
              then andThen (ledger_write sv (OpNeedsReconciliation tid ''recovery started'') (\<lambda>en. MarkNeedsReconciliation en tid ''recovery started'')) (\<lambda>_. give ())
              else give ()) (\<lambda>_.
     andThen (acquireTransactionLease sv tid) (\<lambda>token.
     andThen (ledger_read sv (Workspace tid)) (\<lambda>ws.
     andThen (ledger_read sv (Patch tid)) (\<lambda>p.
     andThen (integration_of sv ws p) (\<lambda>found.
     andThen (case found of Some r \<Rightarrow> record_ref sv tid r | None \<Rightarrow> give ()) (\<lambda>_.
     andThen (reconcileExternalEffects sv tid token) (\<lambda>(allCommitted, anyCommitted).
     recover_decision sv tid ws token (found \<noteq> None) allCommitted anyCommitted)))))))))"

end
