(* ===== verification/AppTrace.thy ===== *)
theory AppTrace
  imports AppCommit
begin

text \<open>
  What every method of the application service keeps, whatever it does and wherever it stops.  The locale
  \<open>plain_steps\<close> asks for a relation on states that the steps without a write of the ledger keep, \<open>service_steps\<close>
  also for the writes; all methods but those that write approvals or release effects keep it then.  \<open>service_relation\<close> adds those, \<open>writing_relation\<close> is the case in which
  every step keeps the relation.
\<close>

subsection \<open>Calls of the service\<close>

datatype service_call =
    CallCreate create_request string
  | CallGet string
  | CallExecute string "string list" "(string \<times> string) list"
  | CallSeal string
  | CallVerify string contract
  | CallMaterial string
  | CallApprove string string string
  | CallApproveSigned string envelope
  | CallApproveQuorum string approval_bundle
  | CallCommit string string
  | CallRecover string
  | CallAbort string string string
  | CallPrepareSlack string string slack_input
  | CallPrepareBranch string branch_request
  | CallPrepareDraft string string draft_input
  | CallRefresh string string
  | CallEffects string

fun perform :: "'w service \<Rightarrow> service_call \<Rightarrow> 'w app \<Rightarrow> 'w app" where
  "perform sv (CallCreate q who) s = snd (CreateForPrincipal sv q who s)"
| "perform sv (CallGet tid) s = snd (service_Get sv tid s)"
| "perform sv (CallExecute tid command environment) s = snd (service_Execute sv tid command environment s)"
| "perform sv (CallSeal tid) s = snd (service_Seal sv tid s)"
| "perform sv (CallVerify tid k) s = snd (service_Verify sv tid k s)"
| "perform sv (CallMaterial tid) s = snd (service_ApprovalMaterial sv tid s)"
| "perform sv (CallApprove tid digest who) s = snd (service_Approve sv tid digest who s)"
| "perform sv (CallApproveSigned tid e) s = snd (ApproveSigned sv tid e s)"
| "perform sv (CallApproveQuorum tid b) s = snd (ApproveSignedQuorum sv tid b s)"
| "perform sv (CallCommit tid digest) s = snd (CommitContext sv tid digest s)"
| "perform sv (CallRecover tid) s = snd (Recover sv tid s)"
| "perform sv (CallAbort tid actor reason) s = snd (AbortWithReason sv tid actor reason s)"
| "perform sv (CallPrepareSlack tid credential i) s = snd (PrepareSlackMessage sv tid credential i s)"
| "perform sv (CallPrepareBranch tid q) s = snd (PrepareGitHubBranch sv tid q s)"
| "perform sv (CallPrepareDraft tid credential i) s = snd (PrepareGitHubDraftPR sv tid credential i s)"
| "perform sv (CallRefresh tid eid) s = snd (RefreshGitHubEffect sv tid eid s)"
| "perform sv (CallEffects tid) s = snd (service_ExternalEffects sv tid s)"

definition perform_all :: "'w service \<Rightarrow> service_call list \<Rightarrow> 'w app \<Rightarrow> 'w app" where
  "perform_all sv cs s = fold (perform sv) cs s"

subsection \<open>Relations kept by the steps\<close>

lemma WithCredential_snd:
  "(\<exists>e. snd (WithCredential bk eid now chk aud msg r use s) = snd (aud e s))
     \<or> (\<exists>e token. snd (WithCredential bk eid now chk aud msg r use s) = snd (use token (snd (aud e s))))"
proof (cases "denial_reason bk chk r")
  case None
  show ?thesis
  proof (cases "Resolve (bk_environment bk) (cb_source (the (bk_bindings bk (ar_credential r))))")
    case (Inl x)
    have "snd (WithCredential bk eid now chk aud msg r use s) = snd (aud (broker_event eid now r ''error'' ''secret source resolution failed'') s)"
      by (simp add: WithCredential_def None Inl case_prod_beta)
    then show ?thesis by blast
  next
    case (Inr secret)
    obtain ok s1 where a: "aud (broker_event eid now r ''granted'' ''scope validated'') s = (ok, s1)" by fastforce
    have "snd (WithCredential bk eid now chk aud msg r use s) = (if ok then snd (use secret s1) else s1)"
      by (simp add: WithCredential_def None Inr a split: prod.split sum.split)
    with a show ?thesis by (metis snd_conv)
  qed
next
  case (Some reason)
  have "snd (WithCredential bk eid now chk aud msg r use s) = snd (aud (broker_event eid now r ''denied'' reason) s)"
    by (simp add: WithCredential_def Some case_prod_beta)
  then show ?thesis by blast
qed

definition ordinary :: "ledger_op \<Rightarrow> bool" where
  "ordinary op = (careful op \<and> (case op of OpApprove tid d who sig ex \<Rightarrow> False | _ \<Rightarrow> True))"

lemma is_ok_outcome: "is_ok (fst (outcome r)) = is_ok (fst r)"
  by (simp add: is_ok_iff)

locale plain_steps = step_relation R for R :: "'w app \<Rightarrow> 'w app \<Rightarrow> bool" +
  fixes sv :: "'w service"
  assumes call: "R s (next_call s)"
    and others: "R s (interleave sv s)"
    and world: "R s (s\<lparr>app_world := w\<rparr>)"
    and audit: "R s (s\<lparr>app_credentials := t\<rparr>)"
    and queried: "R s (remark (Queried eid b) s)"
    and query_failed: "R s (remark (QueryFailed eid) s)"
begin

lemma keeps_with_env: "(\<And>en. keeps (f en)) \<Longrightarrow> keeps (with_env sv f)"
  unfolding keeps_def with_env_def using call trans by blast

lemma keeps_ledger_read: "keeps (ledger_read sv f)"
  unfolding keeps_def ledger_read_def Let_def snd_conv by (rule allI, rule trans [OF others call])

lemma keeps_write:
  assumes "\<And>en s. R s (remark (Did en op (is_ok (fst (f en (app_ledger s))))) (s\<lparr>app_ledger := snd (f en (app_ledger s))\<rparr>))"
  shows "keeps (ledger_write sv op f)"
  unfolding keeps_def ledger_write_def Let_def case_prod_beta snd_conv
  by (rule allI, rule trans [OF others], rule trans [OF assms call])

lemma keeps_world: "keeps (in_world err m)" "keeps (staged m)"
  by (simp_all add: keeps_def staged_def in_world_def case_prod_beta Let_def world)

lemma keeps_small: "keeps (clock sv)" "keeps (new_id sv p)" "keeps (files sv g)"
  by (simp_all add: keeps_def clock_def new_id_def files_def call refl)

lemma record_access_R: "R s (snd (record_access en e s))"
  by (simp add: record_access_def case_prod_beta Let_def audit)

lemma use_R:
  assumes "\<And>token s. R s (snd (use token s))"
  shows "R s (snd (use token (snd (record_access en e s))))"
  using assms record_access_R trans by blast

lemma keeps_withCredential:
  assumes "\<And>token s. R s (snd (use token s))"
  shows "keeps (withCredential sv r use)"
proof -
  have "R s (snd (WithCredential bk eid now chk (record_access en) msg r use s))" for s bk eid now chk en msg
    using WithCredential_snd [of bk eid now chk "record_access en" msg r use s]
    by (elim disjE exE) (simp_all only: record_access_R use_R [where use = use, OF assms])
  then have "R s (snd (WithCredential bk eid now chk (record_access en) msg r use (next_call s)))" for s bk eid now chk en msg
    using call trans by blast
  then show ?thesis
    by (simp add: keeps_def withCredential_def case_prod_beta Let_def refl split: option.splits)
qed

lemma quietly_R: "R s (snd (quietly f token s))"
  by (simp add: quietly_def case_prod_beta Let_def world)

lemma provider_R:
  assumes "\<And>x s. R s (remark (seen x) s)" and "\<And>s. R s (remark failed s)"
  shows "R s (snd (provider seen failed f token s))"
proof -
  have w: "R (s\<lparr>app_world := w\<rparr>) (remark (case r of Inl _ \<Rightarrow> failed | Inr x \<Rightarrow> seen x) (s\<lparr>app_world := w\<rparr>))" for r w
    by (cases r) (simp_all add: assms)
  show ?thesis unfolding provider_def case_prod_beta Let_def snd_conv by (rule trans [OF world w])
qed

lemma keeps_case_option: "(y = None \<Longrightarrow> keeps m) \<Longrightarrow> (\<And>x. y = Some x \<Longrightarrow> keeps (f x)) \<Longrightarrow> keeps (case_option m f y)"
  by (cases y) auto

lemma keeps_case_prod: "(\<And>x y. keeps (f x y)) \<Longrightarrow> keeps (case_prod f z)"
  by (cases z) auto

lemma keeps_case_sum: "(\<And>x. keeps (f x)) \<Longrightarrow> (\<And>x. keeps (g x)) \<Longrightarrow> keeps (case_sum f g z)"
  by (cases z) auto

lemma keeps_if: "keeps m \<Longrightarrow> keeps n \<Longrightarrow> keeps (if c then m else n)"
  by simp

lemma keeps_statuses:
  "keeps m1 \<Longrightarrow> (\<And>r oid. keeps (m2 r oid)) \<Longrightarrow> (\<And>oid. keeps (m3 oid)) \<Longrightarrow> keeps (case_branch_status m1 m2 m3 st)"
  "keeps m1 \<Longrightarrow> (\<And>r. keeps (m4 r)) \<Longrightarrow> keeps (case_draft_status m1 m4 st')"
  "keeps m1 \<Longrightarrow> (\<And>r. keeps (m5 r)) \<Longrightarrow> keeps (case_slack_status m1 m5 st'')"
  by (cases st, simp_all) (cases st', simp_all, cases st'', simp_all)

lemma keeps_query:
  "keeps (query_branch sv e p)" "keeps (query_draft sv e p')" "keeps (query_slack sv e p'' destination)"
  by (auto simp: query_branch_def query_draft_def query_slack_def
    intro!: keeps_with_env keeps_withCredential provider_R queried query_failed)

lemma keeps_provider_read: "keeps (withCredential sv r (quietly f))"
  by (rule keeps_withCredential) (rule quietly_R)

lemma keeps_decoded: "keeps (decoded dec zero text_json)" "keeps (from_adapter r)"
  by (simp_all add: decoded_def from_adapter_def keeps_pass)

lemmas plain_parts = keeps_rules keeps_with_env keeps_ledger_read keeps_world keeps_small keeps_provider_read keeps_query keeps_decoded

lemmas keeps_cases = keeps_case_option keeps_case_prod keeps_case_sum keeps_if keeps_statuses

text \<open>The methods that only read.\<close>

lemma keeps_reads:
  "keeps (service_Get sv tid)" "keeps (service_ApprovalMaterial sv tid)" "keeps (service_ExternalEffects sv tid)"
  by (auto simp: service_Get_def receipts_of_def service_ApprovalMaterial_def service_ExternalEffects_def
    intro!: plain_parts keeps_cases)

lemma keeps_preflight_from:
  assumes "\<And>who why. keeps (transition sv tid StateReady StateStale who why False True)"
  shows "keeps (preflightExternalEffects sv tid)"
  unfolding preflightExternalEffects_def preflight_effect_def fresh_check_def
  by (intro plain_parts keeps_cases assms; simp)+

lemma keeps_integration: "keeps (integration_of sv ws p)"
  unfolding integration_of_def by (intro plain_parts)

end

locale service_steps = plain_steps +
  assumes did: "ordinary op \<Longrightarrow> ok = is_ok (fst (exec en op (app_ledger s))) \<Longrightarrow>
      R s (remark (Did en op ok) (s\<lparr>app_ledger := snd (exec en op (app_ledger s))\<rparr>))"
begin

lemma keeps_ledger_write:
  assumes "ordinary op" and exec: "\<And>en l. exec en op l = outcome (f en l)"
  shows "keeps (ledger_write sv op f)"
proof (rule keeps_write)
  fix en s
  show "R s (remark (Did en op (is_ok (fst (f en (app_ledger s))))) (s\<lparr>app_ledger := snd (f en (app_ledger s))\<rparr>))"
    using did [OF assms(1), of "is_ok (fst (f en (app_ledger s)))" en s]
    by (simp add: exec is_ok_outcome)
qed

lemma keeps_transition: "\<not> m \<Longrightarrow> keeps (transition sv tid a b actor reason m i)"
  unfolding transition_def by (rule keeps_ledger_write) (simp_all add: ordinary_def careful_def)

lemma keeps_preflight: "keeps (preflightExternalEffects sv tid)"
  by (rule keeps_preflight_from) (simp add: keeps_transition)

lemma keeps_lease: "keeps (acquireTransactionLease sv tid)"
  unfolding acquireTransactionLease_def by (rule keeps_ledger_write) (simp_all add: ordinary_def careful_def)

lemma keeps_mark: "keeps (markNeedsReconciliation sv tid reason)"
  unfolding markNeedsReconciliation_def
  by (intro keeps_ignore keeps_ledger_write) (simp_all add: ordinary_def careful_def)

lemma keeps_begin_attempt: "keeps (begin_attempt sv eid phase digest token)"
  unfolding begin_attempt_def by (rule keeps_ledger_write) (simp_all add: ordinary_def careful_def)

lemma keeps_mark_unknown: "keeps (mark_unknown sv a cls err)"
  unfolding mark_unknown_def by (intro keeps_ignore keeps_ledger_write) (simp_all add: ordinary_def careful_def)

lemmas keeps_parts = plain_parts keeps_transition keeps_lease keeps_mark keeps_begin_attempt keeps_mark_unknown

text \<open>The methods, but for approvals and the release of effects.\<close>

lemma keeps_create: "keeps (CreateForPrincipal sv q who)"
  unfolding CreateForPrincipal_def Let_def open_quota_def enforced_ready_def admit_def admission_of_def
  by (intro keeps_parts keeps_cases keeps_ledger_write) (simp_all add: ordinary_def careful_def)

lemma keeps_execute: "keeps (service_Execute sv tid command environment)"
  unfolding service_Execute_def persistRuntimeEvidence_def evidence_write_def Let_def
  by (intro keeps_parts keeps_cases keeps_ledger_write) (simp_all add: ordinary_def careful_def)

lemma keeps_seal: "keeps (service_Seal sv tid)" and keeps_verify: "keeps (service_Verify sv tid k)"
  unfolding service_Seal_def service_Verify_def Let_def
  by (intro keeps_parts keeps_cases keeps_reads keeps_ledger_write; simp add: ordinary_def careful_def)+

lemma keeps_abort: "keeps (AbortWithReason sv tid actor reason)"
  unfolding AbortWithReason_def
  by (intro keeps_parts keeps_cases keeps_reads keeps_ledger_write; simp add: ordinary_def careful_def)+

lemma keeps_persist: "keeps (persistPreparedEffect sv e input prepared preview)"
  unfolding persistPreparedEffect_def Let_def by (rule keeps_ledger_write) (simp_all add: ordinary_def careful_def)

lemmas effect_parts = enforceEffectQuota_def broker_required_def state_required_def slack_dependencies_def draft_dependency_def
  prepare_draft_def

lemma keeps_prepare:
  "keeps (PrepareSlackMessage sv tid credential i)" "keeps (PrepareGitHubBranch sv tid q)"
  "keeps (PrepareGitHubDraftPR sv tid credential i')"
  unfolding PrepareSlackMessage_def PrepareGitHubBranch_def PrepareGitHubDraftPR_def effect_parts Let_def
  by (intro keeps_parts keeps_cases keeps_persist; simp)+

lemma keeps_refresh: "keeps (RefreshGitHubEffect sv tid eid)"
  unfolding RefreshGitHubEffect_def prepare_draft_def Let_def
  by (intro keeps_parts keeps_cases keeps_ledger_write; simp add: ordinary_def careful_def)+

lemma keeps_failures:
  "keeps (effectUnknown sv a cls err)" "keeps (effectDefiniteFailure sv a cls err)" "keeps (record_committed sv a e r reason)"
  unfolding effectUnknown_def effectDefiniteFailure_def record_committed_def
  by (intro keeps_parts keeps_cases keeps_ledger_write; simp add: ordinary_def careful_def)+

lemma keeps_receipts:
  "keeps (recordBranchReceipt sv a e p r)" "keeps (recordGitHubReceipt sv a e p' r')" "keeps (recordSlackReceipt sv a e p'' r'')"
  by (simp_all add: recordBranchReceipt_def recordGitHubReceipt_def recordSlackReceipt_def keeps_failures)

lemma keeps_release_failed: "keeps (release_failed sv a own cls err)"
  unfolding release_failed_def by (intro keeps_cases keeps_failures)

lemma keeps_reconcile: "keeps (reconcileExternalEffects sv tid token)"
  unfolding reconcileExternalEffects_def reconcile_effect_def reconcile_branch_def reconcile_draft_def reconcile_slack_def rearm_def
    query_or_unknown_def
  by (intro keeps_parts keeps_cases keeps_receipts keeps_ledger_write; simp add: ordinary_def careful_def)+

lemma keeps_ends:
  "keeps (integration_of sv ws p)" "keeps (record_ref sv tid r)" "keeps (begin_commit sv tid digest)" "keeps (finalize sv tid)"
  "keeps (stale_source sv tid current)" "keeps (back_to_ready sv tid ws)"
  unfolding integration_of_def record_ref_def begin_commit_def finalize_def stale_source_def back_to_ready_def
  by (intro keeps_parts keeps_cases keeps_reads keeps_ledger_write; simp add: ordinary_def careful_def)+

end

subsection \<open>Approvals and releases\<close>

locale service_relation = service_steps +
  assumes approve: "R s (snd (approve_write sv tid digest who sig expires s))"
    and release: "R s (snd (commit_effect sv token e s))"
begin

lemma keeps_approvals:
  "keeps (service_Approve sv tid digest who)" "keeps (ApproveSignedQuorum sv tid b)" "keeps (ApproveSigned sv tid e)"
proof -
  have w: "keeps (approve_write sv tid digest who sig expires)" for digest who sig expires
    by (simp add: keeps_def approve)
  show q: "keeps (ApproveSignedQuorum sv tid b)" for b
    unfolding ApproveSignedQuorum_def by (intro keeps_parts keeps_cases w)
  show "keeps (service_Approve sv tid digest who)" "keeps (ApproveSigned sv tid e)"
    unfolding service_Approve_def ApproveSigned_def by (intro keeps_parts keeps_cases w q)+
qed

lemma keeps_effects: "keeps (commitExternalEffects sv tid token)"
proof -
  have "keeps (commit_effect sv token e)" for e
    by (simp add: keeps_def release)
  then show ?thesis unfolding commitExternalEffects_def commit_next_def by (intro keeps_parts keeps_cases)
qed

lemma keeps_durable: "keeps (commit_durable sv tid ws token)"
  unfolding commit_durable_def or_reconcile_def effects_or_reconcile_def
  by (intro keeps_parts keeps_cases keeps_ends keeps_reads keeps_effects)

lemma keeps_commit: "keeps (CommitContext sv tid digest)"
  unfolding CommitContext_def
  by (intro keeps_parts keeps_cases keeps_ends keeps_reads keeps_preflight keeps_durable)

lemma keeps_recover: "keeps (Recover sv tid)"
  unfolding Recover_def recover_decision_def
  by (intro keeps_parts keeps_cases keeps_ends keeps_reads keeps_reconcile keeps_effects keeps_ledger_write;
    simp add: ordinary_def careful_def)+

theorem perform_keeps: "R s (perform sv c s)"
  by (cases c) (simp_all add: keepsD keeps_reads keeps_create keeps_execute keeps_seal keeps_verify keeps_approvals keeps_commit
    keeps_recover keeps_abort keeps_prepare keeps_refresh)

lemma perform_all_keeps: "R s (perform_all sv cs s)"
proof (induction cs arbitrary: s)
  case (Cons c cs)
  then show ?case using trans perform_keeps by (fastforce simp: perform_all_def)
qed (simp add: perform_all_def refl)

end

text \<open>A relation that every step keeps, approvals and writes to providers included.\<close>

locale writing_relation = service_steps +
  assumes approved: "ok = is_ok (fst (exec en (OpApprove tid d who sig ex) (app_ledger s))) \<Longrightarrow>
      R s (remark (Did en (OpApprove tid d who sig ex) ok) (s\<lparr>app_ledger := snd (exec en (OpApprove tid d who sig ex) (app_ledger s))\<rparr>))"
    and wrote: "R s (remark (Wrote adapter eid ok) s)"
begin

lemma keeps_approve_write: "keeps (approve_write sv tid digest who sig expires)"
proof -
  have "keeps (ledger_write sv (OpApprove tid digest who sig expires) (\<lambda>en. ApproveWithEvidence en tid digest who sig expires))"
  proof (rule keeps_write)
    fix en s
    show "R s (remark (Did en (OpApprove tid digest who sig expires) (is_ok (fst (ApproveWithEvidence en tid digest who sig expires (app_ledger s)))))
        (s\<lparr>app_ledger := snd (ApproveWithEvidence en tid digest who sig expires (app_ledger s))\<rparr>))"
      using approved [of "is_ok (fst (ApproveWithEvidence en tid digest who sig expires (app_ledger s)))" en tid digest who sig expires s]
      by (simp add: is_ok_iff)
  qed
  then show ?thesis unfolding approve_write_def by (intro keeps_parts keeps_reads)
qed

lemma keeps_release: "keeps (release_effect sv e adapter operation f)"
  unfolding release_effect_def by (intro keeps_with_env keeps_withCredential provider_R wrote)

lemma keeps_commit_effect: "keeps (commit_effect sv token e)"
  unfolding commit_effect_def commitGitHubBranch_def commitGitHubPR_def commitSlackMessage_def
  by (intro keeps_parts keeps_cases keeps_release keeps_release_failed keeps_failures keeps_receipts)

end

sublocale writing_relation \<subseteq> service_relation
  by unfold_locales (rule keepsD [OF keeps_approve_write], rule keepsD [OF keeps_commit_effect])

end
