(* ===== verification/AppProperties.thy ===== *)
theory AppProperties
  imports AppTrace LedgerProperties
begin

text \<open>
  What the application service guarantees as a whole: its effect on the ledger is a run of ledger operations, the
  invariants of the ledger hold under any calls and any interleaving, and a provider is written to only after a
  durable intent and a negative answer to a status query, and after the repository reference is recorded.
\<close>

subsection \<open>A concrete service\<close>

text \<open>The witnesses run a service without providers over a host whose commands all succeed.\<close>

definition host0 :: "unit host" where
  "host0 = \<lparr>hs_git = (\<lambda>dir date args w. (\<lparr>go_stdout = ''r'', go_combined = ''r'', go_stderr = [], go_failed = None\<rparr>, w)),
     hs_links = (\<lambda>path w. Inr path), hs_cwd = ''/'', hs_exists = (\<lambda>path w. False), hs_mkdir = (\<lambda>path w. (Inr (), w)),
     hs_remove_all = (\<lambda>path w. w), hs_remove = (\<lambda>path w. w), hs_read = (\<lambda>path w. Inr []),
     hs_write = (\<lambda>path content w. (Inr (), w)), hs_rename = (\<lambda>a b w. (Inr (), w))\<rparr>"

definition files0 :: file_system where
  "files0 = \<lparr>fs_lstat = (\<lambda>path. NoFile), fs_stat = (\<lambda>path. NoFile), fs_resolve = Some, fs_read = (\<lambda>path. None),
     fs_tree = (\<lambda>path. Unreadable), fs_cwd = ''/''\<rparr>"

definition service0 :: "unit service" where
  "service0 = \<lparr>sv_env = (\<lambda>n. env0\<lparr>en_ids := (\<lambda>k. replicate n (CHR ''x'') @ show_nat k)\<rparr>), sv_others = (\<lambda>n. []), sv_runtime = ''/run'',
     sv_host = host0, sv_files = (\<lambda>w. files0),
     sv_engine = \<lparr>vg_local = False, vg_oci = None, vg_scanner = None, vg_files = (\<lambda>w. files0), vg_host = host0,
       vg_command = (\<lambda>dir args t w. (([], CommandPassed), w)), vg_indent = marshal\<rparr>,
     sv_oci = None, sv_indent = marshal, sv_cipher = None, sv_broker = None,
     sv_branch = \<lparr>ba_runner = \<lparr>LSRemote = (\<lambda>a b c d w. (Inr None, w)), PushCreateOnly = (\<lambda>a b c d e w. (Inr (), w))\<rparr>, ba_cwd = ''/''\<rparr>,
     sv_draft = \<lparr>da_base = [], da_http = (\<lambda>rq w. (Inl ''offline'', w))\<rparr>, sv_slack = \<lparr>sa_base = [], sa_http = (\<lambda>rq w. (Inl ''offline'', w))\<rparr>,
     sv_coordinator = [], sv_ed = \<lparr>ed_key = (\<lambda>k. False), ed_sign = (\<lambda>k m. []), ed_verify = (\<lambda>k m sig. False)\<rparr>,
     sv_keys = None, sv_quorum = None, sv_signed = False, sv_quotas = quota_Default, sv_admission = None\<rparr>"

definition workspace0 :: workspace where
  "workspace0 = \<lparr>ws_tx = ''t'', ws_root = ''/repo'', ws_git_dir = ''/repo/.git'', ws_head_ref = ''refs/heads/main'', ws_base_oid = ''r'',
     ws_object_format = ''sha1'', ws_path = ''/run/w'', ws_artifacts = ''/run/a'', ws_dirty_policy = ''reject'', ws_status_digest = [],
     ws_created = 5\<rparr>"

definition app0 :: "unit app" where
  "app0 = \<lparr>app_ledger = ledger0\<lparr>workspaces := [workspace0], effects := [], leases := []\<rparr>, app_credentials = \<lparr>identity_rows = [], binding_rows = [], credential_events = []\<rparr>,
     app_world = (), app_calls = 0, app_trace = []\<rparr>"

subsection \<open>The ledger under the service\<close>

text \<open>A trace explains a change of the ledger: every own operation was run on the ledger at that point.\<close>

fun replays :: "app_step list \<Rightarrow> ledger \<Rightarrow> ledger \<Rightarrow> bool" where
  "replays [] l l' = (l' = l)"
| "replays (Interleaved ops # tr) l l' = replays tr (run ops l) l'"
| "replays (Did en op ok # tr) l l' = (careful op \<and> ok = is_ok (fst (exec en op l)) \<and> replays tr (snd (exec en op l)) l')"
| "replays (Queried eid b # tr) l l' = replays tr l l'"
| "replays (QueryFailed eid # tr) l l' = replays tr l l'"
| "replays (Wrote adapter eid ok # tr) l l' = replays tr l l'"

lemma replays_append: "replays tr l l1 \<Longrightarrow> replays tr' l1 l2 \<Longrightarrow> replays (tr @ tr') l l2"
  by (induction tr l l1 rule: replays.induct) auto

definition traced :: "'w app \<Rightarrow> 'w app \<Rightarrow> bool" where
  "traced s s' = (\<exists>tr. app_trace s' = app_trace s @ tr \<and> replays tr (app_ledger s) (app_ledger s'))"

lemma traced_remark: "replays [x] (app_ledger s) l \<Longrightarrow> traced s (remark x (s\<lparr>app_ledger := l\<rparr>))"
  unfolding traced_def remark_def by (intro exI [of _ "[x]"]) simp

lemma traced_quiet: "app_trace s' = app_trace s \<Longrightarrow> app_ledger s' = app_ledger s \<Longrightarrow> traced s s'"
  unfolding traced_def by (intro exI [of _ "[]"]) simp

lemma traced_event: "replays [x] (app_ledger s) (app_ledger s) \<Longrightarrow> traced s (remark x s)"
  using traced_remark [of x s "app_ledger s"] by simp

interpretation tr: writing_relation traced sv for sv
proof (unfold_locales, goal_cases)
  case (1 s) then show ?case by (rule traced_quiet) simp_all
next
  case (2 s t u) then show ?case unfolding traced_def using replays_append by (metis append_assoc)
next
  case (3 s) then show ?case by (rule traced_quiet) (simp_all add: next_call_def)
next
  case (4 s) then show ?case unfolding interleave_def Let_def by (rule traced_remark) simp
next
  case (9 op ok en s) then show ?case by (intro traced_remark) (simp add: ordinary_def)
next
  case (10 ok en tid d who sig ex s) then show ?case by (intro traced_remark) (simp add: careful_def)
qed (simp_all add: traced_quiet traced_event)

text \<open>Whatever calls the service serves, the ledger it leaves is the one that the operations in its trace produce from
  the ledger it found, and each of them succeeded exactly when it is recorded as a success.\<close>

lemma service_refines_ledger:
  "\<exists>tr. app_trace (perform_all sv cs s) = app_trace s @ tr \<and> replays tr (app_ledger s) (app_ledger (perform_all sv cs s))"
  using tr.perform_all_keeps [of s sv cs] by (simp add: traced_def)

text \<open>The interleaved requests obey the same rule as the service: they do not change material and keep the approval.\<close>

definition careful_others :: "'w service \<Rightarrow> bool" where
  "careful_others sv = (\<forall>n. list_all (\<lambda>x. careful (snd x)) (sv_others sv n))"

interpretation bd: writing_relation
  "\<lambda>s s'. careful_others sv \<longrightarrow> bound_state (app_ledger s) \<longrightarrow> bound_state (app_ledger s')" sv for sv
proof (unfold_locales, goal_cases)
  case (4 s)
  have "bound_state l \<Longrightarrow> list_all (\<lambda>x. careful (snd x)) ops \<Longrightarrow> bound_state (run ops l)" for ops l
    by (induction ops l rule: run.induct) (auto intro: bound_state_exec)
  then show ?case by (simp add: interleave_def Let_def remark_def careful_others_def)
next
  case (9 op ok en s) then show ?case by (simp add: remark_def ordinary_def bound_state_exec)
next
  case (10 ok en tid d who sig ex s) then show ?case by (simp add: remark_def careful_def bound_state_exec del: exec.simps)
qed (auto simp: next_call_def remark_def)

text \<open>C2. Approvals stay bound to what they approve in the running service: from a ledger with the binding (an empty
  one has it), any calls of the service, whatever they do and wherever they fail, with any careful requests of
  others in between, keep every stored approval the digest of the present patch, verification and effects.\<close>

theorem service_keeps_binding:
  assumes "careful_others sv" and "bound_state (app_ledger s)"
  shows "bound_state (app_ledger (perform_all sv cs s))"
  using bd.perform_all_keeps [where s = s and sv = sv and cs = cs] assms by blast

theorem service_keeps_binding_witness:
  "bound_state (app_ledger (perform_all service0 [CallApprove ''t'' digest0 ''u'', CallCommit ''t'' digest0, CallRecover ''t'']
     (app0\<lparr>app_ledger := ledger0\<rparr>)))"
  by (rule service_keeps_binding) (simp_all add: careful_others_def service0_def ledger0_bound)

subsection \<open>Writes to providers\<close>

text \<open>
  The guard of a trace: the effects with an open commit attempt that no write has used yet, and the effect whose
  status query just gave \<open>not found\<close>.  A write needs both.
\<close>

definition opened :: "ledger_op \<Rightarrow> bool \<Rightarrow> string list \<Rightarrow> string list" where
  "opened op ok A = (case op of OpBeginAttempt eid phase d token \<Rightarrow> if ok \<and> phase = ''commit'' then eid # A else A | _ \<Rightarrow> A)"

fun guard_step :: "app_step \<Rightarrow> string list \<times> string option \<Rightarrow> (string list \<times> string option) option" where
  "guard_step (Interleaved ops) (A, q) = Some (A, None)"
| "guard_step (Did en op ok) (A, q) = Some (opened op ok A, None)"
| "guard_step (Queried eid b) (A, q) = Some (A, if b then None else Some eid)"
| "guard_step (QueryFailed eid) (A, q) = Some (A, None)"
| "guard_step (Wrote adapter eid ok) (A, q) = (if q = Some eid \<and> eid \<in> set A then Some (removeAll eid A, None) else None)"

definition guard_of :: "app_step list \<Rightarrow> (string list \<times> string option) option" where
  "guard_of tr = fold (\<lambda>x g. Option.bind g (guard_step x)) tr (Some ([], None))"

lemma guard_of_snoc: "guard_of (tr @ [x]) = Option.bind (guard_of tr) (guard_step x)"
  by (simp add: guard_of_def)

definition guarded :: "'w app \<Rightarrow> bool" where
  "guarded s = (guard_of (app_trace s) \<noteq> None)"

lemma guard_frame [simp]:
  "app_trace (next_call s) = app_trace s" "app_trace (s\<lparr>app_world := w\<rparr>) = app_trace s"
  "app_trace (remark x s) = app_trace s @ [x]" "app_trace (snd (record_access en e s)) = app_trace s"
  by (simp_all add: next_call_def remark_def record_access_def case_prod_beta Let_def)

lemma guarded_quiet: "guarded s \<Longrightarrow> (\<And>A q. guard_step x (A, q) \<noteq> None) \<Longrightarrow> guarded (remark x s)"
  by (auto simp: guarded_def guard_of_snoc bind_eq_None_conv)

interpretation gs: service_steps "\<lambda>s s'. guarded s \<longrightarrow> guarded s'" sv for sv
proof (unfold_locales, goal_cases)
  case (4 s) then show ?case by (auto simp: interleave_def Let_def guarded_def guard_of_snoc)
next
  case (9 op ok en s) then show ?case by (auto simp: guarded_def guard_of_snoc)
next
  case (7 s eid b) then show ?case by (auto intro: guarded_quiet)
next
  case (8 s eid) then show ?case by (auto intro: guarded_quiet)
qed (simp_all add: guarded_def)

text \<open>What the steps of a release do to the guard.\<close>

definition ready_for :: "string \<Rightarrow> 'w app \<Rightarrow> bool" where
  "ready_for eid s = (\<exists>A q. guard_of (app_trace s) = Some (A, q) \<and> eid \<in> set A)"

definition clear_for :: "string \<Rightarrow> 'w app \<Rightarrow> bool" where
  "clear_for eid s = (\<exists>A. guard_of (app_trace s) = Some (A, Some eid) \<and> eid \<in> set A)"

lemma begin_attempt_ready:
  assumes "begin_attempt sv eid ''commit'' d token s = (Inr a, s')" and "guarded s"
  shows "ready_for eid s'"
proof -
  obtain A q where g: "guard_of (app_trace (interleave sv s)) = Some (A, q)"
    using assms(2) gs.others [of s sv] by (auto simp: guarded_def)
  have "\<exists>en. app_trace s' = app_trace (interleave sv s) @ [Did en (OpBeginAttempt eid ''commit'' d token) True]"
    using assms(1) unfolding begin_attempt_def ledger_write_def Let_def
    by (auto simp: is_ok_iff split: prod.splits sum.splits)
  with g show ?thesis by (auto simp: ready_for_def guard_of_snoc opened_def)
qed

lemma ready_guarded: "ready_for eid s \<Longrightarrow> guarded s" "clear_for eid s \<Longrightarrow> guarded s"
  by (auto simp: ready_for_def clear_for_def guarded_def)

lemma withCredential_Inr:
  assumes "withCredential sv r use s = (Inr x, s')"
  shows "\<exists>token s1. app_trace s1 = app_trace s \<and> use token s1 = (Inr x, s')"
proof (cases "sv_broker sv")
  case None with assms show ?thesis by (simp add: withCredential_def)
next
  case (Some bk)
  let ?en = "env_of sv s"
  obtain res where w: "WithCredential bk (NewID ?en 0 ''cred_evt'') (en_now ?en) (en_check ?en) (record_access ?en) adapter_text r use (next_call s) = (Inr x, s')"
    using assms Some by (auto simp: withCredential_def Let_def split: prod.splits sum.splits)
  then have "\<exists>token e. use token (snd (record_access ?en e (next_call s))) = (Inr x, s')"
    unfolding WithCredential_def by (auto simp: Let_def split: option.splits sum.splits prod.splits if_splits) (metis snd_conv)
  then show ?thesis using guard_frame by metis
qed

lemma provider_Inr: "provider seen failed f token s = (Inr x, s') \<Longrightarrow> app_trace s' = app_trace s @ [seen x]"
  by (auto simp: provider_def Let_def remark_def split: prod.splits)

lemma query_clear:
  "query_branch sv e p s = (Inr BranchNotFound, s') \<Longrightarrow> ready_for (ef_id e) s \<Longrightarrow> clear_for (ef_id e) s'"
  "query_draft sv e p' s = (Inr DraftNotFound, s') \<Longrightarrow> ready_for (ef_id e) s \<Longrightarrow> clear_for (ef_id e) s'"
  "query_slack sv e p'' destination s = (Inr SlackNotFound, s') \<Longrightarrow> ready_for (ef_id e) s \<Longrightarrow> clear_for (ef_id e) s'"
  by (auto simp: query_branch_def query_draft_def query_slack_def with_env_def ready_for_def clear_for_def guard_of_snoc
    dest!: withCredential_Inr provider_Inr)

lemma withCredential_trace:
  "app_trace (snd (withCredential sv r use s)) = app_trace s
     \<or> (\<exists>token s1. app_trace s1 = app_trace s \<and> snd (withCredential sv r use s) = snd (use token s1))"
proof (cases "sv_broker sv")
  case None then show ?thesis by (simp add: withCredential_def)
next
  case (Some bk)
  let ?en = "env_of sv s"
  have "snd (withCredential sv r use s)
      = snd (WithCredential bk (NewID ?en 0 ''cred_evt'') (en_now ?en) (en_check ?en) (record_access ?en) adapter_text r use (next_call s))"
    by (simp add: withCredential_def Some Let_def case_prod_beta)
  with WithCredential_snd [of bk "NewID ?en 0 ''cred_evt''" "en_now ?en" "en_check ?en" "record_access ?en" adapter_text r use "next_call s"]
  show ?thesis by (metis guard_frame(1) guard_frame(4))
qed

lemma quietly_trace: "app_trace (snd (withCredential sv r (quietly f) s)) = app_trace s"
  using withCredential_trace [of sv r "quietly f" s] by (auto simp: quietly_def case_prod_beta Let_def)

lemma release_guarded:
  assumes "clear_for (ef_id e) s"
  shows "guarded (snd (release_effect sv e adapter operation f s))"
proof -
  have "guarded (snd (provider (\<lambda>_. Wrote adapter (ef_id e) True) (Wrote adapter (ef_id e) False) g token s1))"
    if "app_trace s1 = app_trace s" for g token and s1 :: "'a app"
    using assms that by (auto simp: provider_def clear_for_def guarded_def guard_of_snoc case_prod_beta Let_def split: sum.splits)
  moreover have "guarded s1" if "app_trace s1 = app_trace s" for s1 :: "'a app"
    using that ready_guarded(2) [OF assms] by (simp add: guarded_def)
  ultimately show ?thesis
    unfolding release_effect_def with_env_def using withCredential_trace guard_frame(1) by metis
qed

subsection \<open>Releases are guarded\<close>

lemma andThen_pass: "andThen (pass r) f s = (case r of Inl e \<Rightarrow> (Inl e, s) | Inr x \<Rightarrow> f x s)"
  by (simp add: andThen_def pass_def split: sum.split)

lemma andThen_result_of: "andThen (result_of m) f s = f (fst (m s)) (snd (m s))"
  by (simp add: andThen_def result_of_def)

lemma guarded_andThen:
  "guarded (snd (m s)) \<Longrightarrow> (\<And>x s'. m s = (Inr x, s') \<Longrightarrow> guarded (snd (f x s'))) \<Longrightarrow> guarded (snd (andThen m f s))"
  by (cases "m s"; cases "fst (m s)") (auto simp: andThen_def)

lemma guarded_step: "gs.keeps m \<Longrightarrow> guarded s \<Longrightarrow> guarded (snd (m s))"
  using gs.keepsD by blast

lemma commit_start:
  assumes "guarded s" and "\<And>p a s'. ready_for eid s' \<Longrightarrow> guarded (snd (f p a s'))"
  shows "guarded (snd (andThen (decoded dec zero js) (\<lambda>p. andThen (begin_attempt sv eid ''commit'' (d p) token) (f p)) s))"
proof (cases "fetch (Unmarshal dec js zero) (AppText ''invalid JSON'')")
  case (Inr p)
  have "guarded (snd (andThen (begin_attempt sv eid ''commit'' (d p) token) (f p) s))"
    by (rule guarded_andThen) (use assms begin_attempt_ready guarded_step [OF gs.keeps_begin_attempt] in blast)+
  then show ?thesis by (simp only: decoded_def andThen_pass Inr sum.case)
qed (simp add: decoded_def andThen_pass assms(1))

lemma release_end:
  assumes "clear_for (ef_id e) s" and "\<And>res. gs.keeps (f res)"
  shows "guarded (snd (andThen (result_of (release_effect sv e adapter operation g)) f s))"
  unfolding andThen_result_of by (rule guarded_step [OF assms(2) release_guarded [OF assms(1)]])

lemma guarded_cases:
  "(\<And>e. r = Inl e \<Longrightarrow> guarded (snd (f e s))) \<Longrightarrow> (\<And>x. r = Inr x \<Longrightarrow> guarded (snd (g x s))) \<Longrightarrow> guarded (snd (case_sum f g r s))"
  "(b = BranchNotFound \<Longrightarrow> guarded (snd (m1 s))) \<Longrightarrow> (\<And>x y. guarded (snd (m2 x y s))) \<Longrightarrow> (\<And>x. guarded (snd (m3 x s)))
     \<Longrightarrow> guarded (snd (case_branch_status m1 m2 m3 b s))"
  "(d = DraftNotFound \<Longrightarrow> guarded (snd (m1 s))) \<Longrightarrow> (\<And>x. guarded (snd (m4 x s))) \<Longrightarrow> guarded (snd (case_draft_status m1 m4 d s))"
  "(k = SlackNotFound \<Longrightarrow> guarded (snd (m1 s))) \<Longrightarrow> (\<And>x. guarded (snd (m5 x s))) \<Longrightarrow> guarded (snd (case_slack_status m1 m5 k s))"
  by (cases r, simp_all) (cases b, simp_all, cases d, simp_all, cases k, simp_all)

text \<open>After a successful query the state is guarded, and clear for the effect when it was not found.\<close>

lemma commitGitHubBranch_guarded:
  assumes "guarded s" shows "guarded (snd (commitGitHubBranch sv e token s))"
  unfolding commitGitHubBranch_def
proof (rule commit_start [OF assms], goal_cases)
  case (1 p a s1)
  obtain st s2 where q: "query_branch sv e p s1 = (st, s2)" by fastforce
  then have s2: "guarded s2" using guarded_step [OF gs.keeps_query(1) ready_guarded(1) [OF 1]] by (metis snd_conv)
  have clear: "clear_for (ef_id e) s2" if "st = Inr BranchNotFound" using query_clear(1) q 1 that by blast
  show ?case
    by (subst andThen_result_of, unfold q fst_conv snd_conv, intro guarded_cases release_end clear gs.keeps_cases gs.keeps_release_failed gs.keeps_receipts
        guarded_step [OF gs.keeps_receipts(1) s2] guarded_step [OF gs.keeps_failures(1) s2] guarded_step [OF gs.keeps_failures(2) s2], simp_all)
qed

lemma commitSlackMessage_guarded:
  assumes "guarded s" shows "guarded (snd (commitSlackMessage sv e token s))"
  unfolding commitSlackMessage_def
proof (rule commit_start [OF assms], goal_cases)
  case (1 p a s1)
  have "guarded (snd (andThen (result_of (query_slack sv e p destination)) (\<lambda>st.
     case st of
       Inl err \<Rightarrow> effectUnknown sv a ''slack_status_unknown'' err
     | Inr (SlackCommitted r) \<Rightarrow> recordSlackReceipt sv a e p r
     | Inr SlackNotFound \<Rightarrow>
         andThen (result_of (release_effect sv e slack_adapter_id ''slack.post_message'' (\<lambda>now. slack_Post (sv_slack sv) now p))) (\<lambda>res.
         case res of
           Inl err \<Rightarrow> release_failed sv a slack_failure ''slack_post_failed'' err
         | Inr r \<Rightarrow> recordSlackReceipt sv a e p r)) s1))" for destination
  proof -
    obtain st s2 where q: "query_slack sv e p destination s1 = (st, s2)" by fastforce
    then have s2: "guarded s2" using guarded_step [OF gs.keeps_query(3) ready_guarded(1) [OF 1]] by (metis snd_conv)
    have clear: "clear_for (ef_id e) s2" if "st = Inr SlackNotFound" using query_clear(3) q 1 that by blast
    show ?thesis
      by (subst andThen_result_of, unfold q fst_conv snd_conv, intro guarded_cases release_end clear gs.keeps_cases gs.keeps_release_failed gs.keeps_receipts
          guarded_step [OF gs.keeps_receipts(3) s2] guarded_step [OF gs.keeps_failures(1) s2], simp_all)
  qed
  then show ?case using ready_guarded(1) [OF 1] by (simp add: from_adapter_def andThen_pass split: sum.split)
qed

lemma query_then_create_guarded:
  assumes "ready_for (ef_id e) s1"
  shows "guarded (snd (andThen (result_of (query_draft sv e p)) (\<lambda>st.
         case st of
           Inl err \<Rightarrow> effectUnknown sv a cls err
         | Inr (DraftCommitted r) \<Rightarrow> recordGitHubReceipt sv a e p r
         | Inr DraftNotFound \<Rightarrow>
             andThen (result_of (release_effect sv e adapter operation g)) (\<lambda>res.
             case res of
               Inl err \<Rightarrow> release_failed sv a draft_failure cls' err
             | Inr r \<Rightarrow> recordGitHubReceipt sv a e p r)) s1))"
proof -
  obtain st s2 where q: "query_draft sv e p s1 = (st, s2)" by fastforce
  then have s2: "guarded s2" using guarded_step [OF gs.keeps_query(2) ready_guarded(1) [OF assms]] by (metis snd_conv)
  have clear: "clear_for (ef_id e) s2" if "st = Inr DraftNotFound" using query_clear(2) q assms that by blast
  show ?thesis
    by (subst andThen_result_of, unfold q fst_conv snd_conv, intro guarded_cases release_end clear gs.keeps_cases gs.keeps_release_failed gs.keeps_receipts
        guarded_step [OF gs.keeps_receipts(2) s2] guarded_step [OF gs.keeps_failures(1) s2], simp_all)
qed

lemma commitGitHubPR_guarded:
  assumes "guarded s" shows "guarded (snd (commitGitHubPR sv e token s))"
  unfolding commitGitHubPR_def
proof (rule commit_start [OF assms], goal_cases)
  case (1 p a s1)
  have ready: "ready_for (ef_id e) (snd (withCredential sv r (quietly f) s1))" for r and f :: "string \<Rightarrow> _ \<Rightarrow> (adapter_error + unit) \<times> _"
    using 1 by (simp add: ready_for_def quietly_trace)
  show ?case
  proof (cases "draft_ReadDestination (sv_draft sv) (dp_input p)")
    case (Inl x) with ready_guarded(1) [OF 1] show ?thesis by (simp add: from_adapter_def andThen_pass)
  next
    case (Inr destination)
    show ?thesis unfolding from_adapter_def andThen_pass Inr
      by (simp, subst andThen_result_of, rule guarded_cases(1), rule guarded_step)
        (simp_all add: gs.keeps_if gs.keeps_failures query_then_create_guarded ready ready_guarded(1) [OF ready])
  qed
qed

lemma commit_effect_guarded: "guarded s \<Longrightarrow> guarded (snd (commit_effect sv token e s))"
  by (simp add: commit_effect_def commitGitHubBranch_guarded commitGitHubPR_guarded commitSlackMessage_guarded fail_def)

interpretation gd: service_relation "\<lambda>s s'. guarded s \<longrightarrow> guarded s'" sv for sv
proof (unfold_locales, goal_cases)
  case (1 s tid digest who sig expires)
  have "gs.keeps (approve_write sv tid digest who sig expires)"
    unfolding approve_write_def
    by (intro gs.keeps_parts gs.keeps_reads gs.keeps_write) (auto simp: guarded_def guard_of_snoc)
  then show ?case using gs.keepsD by blast
next
  case (2 s token e) then show ?case by (simp add: commit_effect_guarded)
qed

definition begun :: "string \<Rightarrow> app_step list \<Rightarrow> bool" where
  "begun eid tr = (\<exists>before en d token between. tr = before @ Did en (OpBeginAttempt eid ''commit'' d token) True # between
     \<and> (\<forall>adapter ok. Wrote adapter eid ok \<notin> set between))"

lemma begun_snoc: "begun eid tr \<Longrightarrow> (\<And>adapter ok. x \<noteq> Wrote adapter eid ok) \<Longrightarrow> begun eid (tr @ [x])"
  unfolding begun_def by (elim exE conjE, intro exI conjI, simp) auto

lemma begun_now: "begun eid (tr @ [Did en (OpBeginAttempt eid ''commit'' d token) True])"
  unfolding begun_def by (intro exI [of _ "[]"] exI conjI) auto

definition writes_guarded :: "app_step list \<Rightarrow> bool" where
  "writes_guarded tr = (\<forall>before adapter eid ok later. tr = before @ Wrote adapter eid ok # later \<longrightarrow>
     begun eid before \<and> before \<noteq> [] \<and> last before = Queried eid False)"

lemma writes_guarded_snoc:
  "writes_guarded (tr @ [x]) \<longleftrightarrow> writes_guarded tr
     \<and> (\<forall>adapter eid ok. x = Wrote adapter eid ok \<longrightarrow> begun eid tr \<and> tr \<noteq> [] \<and> last tr = Queried eid False)"
proof
  assume *: "writes_guarded (tr @ [x])"
  then have "writes_guarded tr" unfolding writes_guarded_def by (metis append_Cons append_assoc)
  then show "writes_guarded tr \<and> (\<forall>adapter eid ok. x = Wrote adapter eid ok \<longrightarrow> begun eid tr \<and> tr \<noteq> [] \<and> last tr = Queried eid False)"
    using * unfolding writes_guarded_def by blast
next
  assume *: "writes_guarded tr \<and> (\<forall>adapter eid ok. x = Wrote adapter eid ok \<longrightarrow> begun eid tr \<and> tr \<noteq> [] \<and> last tr = Queried eid False)"
  show "writes_guarded (tr @ [x])" unfolding writes_guarded_def
  proof (intro allI impI)
    fix before adapter eid ok later
    assume eq: "tr @ [x] = before @ Wrote adapter eid ok # later"
    show "begun eid before \<and> before \<noteq> [] \<and> last before = Queried eid False"
    proof (cases later rule: rev_cases)
      case Nil with eq * show ?thesis by simp
    next
      case (snoc ys y)
      with eq have "tr = before @ Wrote adapter eid ok # ys" by simp
      with * show ?thesis unfolding writes_guarded_def by blast
    qed
  qed
qed

lemma guard_sound:
  "guard_of tr = Some (A, q) \<Longrightarrow> writes_guarded tr \<and> (\<forall>eid \<in> set A. begun eid tr)
     \<and> (\<forall>eid. q = Some eid \<longrightarrow> tr \<noteq> [] \<and> last tr = Queried eid False)"
proof (induction tr arbitrary: A q rule: rev_induct)
  case Nil
  then show ?case by (simp add: guard_of_def writes_guarded_def)
next
  case (snoc x tr)
  then obtain A0 q0 where g: "guard_of tr = Some (A0, q0)" "guard_step x (A0, q0) = Some (A, q)"
    by (cases "guard_of tr") (auto simp: guard_of_snoc)
  note ih = snoc.IH [OF g(1)]
  from g(2) ih show ?case
    by (cases x) (auto simp: writes_guarded_snoc opened_def begun_now begun_snoc split: if_splits ledger_op.splits)
qed

text \<open>C1. No provider is written to blindly or twice: in every trace of the service, each write of an effect comes right
  after a status query that did not find the effect, and after a durable commit attempt for it which no other
  write has used.\<close>

theorem provider_writes_guarded:
  assumes "app_trace s = []"
  shows "writes_guarded (app_trace (perform_all sv cs s))"
proof -
  have "guarded s" using assms by (simp add: guarded_def guard_of_def)
  then have "guarded (perform_all sv cs s)" using gd.perform_all_keeps [where s = s and sv = sv and cs = cs] by blast
  then show ?thesis using guard_sound by (auto simp: guarded_def)
qed

theorem provider_writes_guarded_witness:
  "writes_guarded (app_trace (perform_all service0 [CallApprove ''t'' digest0 ''u'', CallCommit ''t'' digest0, CallRecover ''t'']
     (app0\<lparr>app_ledger := ledger0\<rparr>)))"
  by (rule provider_writes_guarded) (simp add: app0_def)

subsection \<open>The repository comes first\<close>

text \<open>
  What has to stand in a trace before the first write to a provider: a recorded repository reference, and for a
  commit a durable start before that.  Only a commit and a recovery write at all.
\<close>

definition reference_in :: "string \<Rightarrow> app_step list \<Rightarrow> bool" where
  "reference_in tid before = (\<exists>en r. Did en (OpMaterialize tid r) True \<in> set before)"

definition started_in :: "string \<Rightarrow> string \<Rightarrow> app_step list \<Rightarrow> bool" where
  "started_in tid digest before = (\<exists>u en later. before = u @ Did en (OpBeginCommit tid digest) True # later \<and> reference_in tid later)"

fun may_write :: "service_call \<Rightarrow> app_step list \<Rightarrow> bool" where
  "may_write (CallCommit tid digest) before = started_in tid digest before"
| "may_write (CallRecover tid) before = reference_in tid before"
| "may_write _ before = False"

definition writes_after :: "(app_step list \<Rightarrow> bool) \<Rightarrow> app_step list \<Rightarrow> bool" where
  "writes_after P tr = (\<forall>before adapter eid ok later. tr = before @ Wrote adapter eid ok # later \<longrightarrow> P before)"

fun is_write :: "app_step \<Rightarrow> bool" where
  "is_write (Wrote adapter eid ok) = True"
| "is_write _ = False"

definition no_write :: "app_step list \<Rightarrow> bool" where
  "no_write tr = list_all (\<lambda>x. \<not> is_write x) tr"

definition silent :: "'w app \<Rightarrow> 'w app \<Rightarrow> bool" where
  "silent s s' = (\<exists>tr. app_trace s' = app_trace s @ tr \<and> no_write tr)"

lemma silent_quiet: "app_trace s' = app_trace s \<Longrightarrow> silent s s'"
  by (simp add: silent_def no_write_def)

lemma silent_remark: "\<not> is_write x \<Longrightarrow> silent s (remark x (s\<lparr>app_ledger := l\<rparr>))"
  unfolding silent_def no_write_def by (intro exI [of _ "[x]"]) simp

lemma silent_event: "\<not> is_write x \<Longrightarrow> silent s (remark x s)"
  using silent_remark [of x s "app_ledger s"] by simp

interpretation si: service_steps silent sv for sv
proof (unfold_locales, goal_cases)
  case (2 s t u) then show ?case unfolding silent_def no_write_def by (metis append_assoc list_all_append)
next
  case (4 s) then show ?case by (simp add: interleave_def Let_def silent_remark)
next
  case (9 op ok en s) then show ?case by (simp add: silent_remark)
qed (simp_all add: silent_quiet silent_event)

lemma silent_approvals:
  "si.keeps (service_Approve sv tid digest who)" "si.keeps (ApproveSignedQuorum sv tid b)" "si.keeps (ApproveSigned sv tid e)"
proof -
  have w: "si.keeps (approve_write sv tid digest who sig expires)" for digest who sig expires
    unfolding approve_write_def by (intro si.keeps_parts si.keeps_reads si.keeps_write) (simp add: silent_remark)
  show q: "si.keeps (ApproveSignedQuorum sv tid b)" for b
    unfolding ApproveSignedQuorum_def by (intro si.keeps_parts si.keeps_cases w)
  show "si.keeps (service_Approve sv tid digest who)" "si.keeps (ApproveSigned sv tid e)"
    unfolding service_Approve_def ApproveSigned_def by (intro si.keeps_parts si.keeps_cases w q)+
qed

text \<open>A step whose writes all come after \<open>P\<close>.\<close>

definition writing_after :: "(app_step list \<Rightarrow> bool) \<Rightarrow> ('w, 'a) step \<Rightarrow> bool" where
  "writing_after P m = (\<forall>s. \<exists>tr. app_trace (snd (m s)) = app_trace s @ tr \<and> writes_after P tr)"

lemma writes_after_append:
  assumes "no_write u" and "writes_after Q tr" and "\<And>b. Q b \<Longrightarrow> P (u @ b)"
  shows "writes_after P (u @ tr)"
  unfolding writes_after_def
proof (intro allI impI)
  fix before adapter eid ok later
  assume eq: "u @ tr = before @ Wrote adapter eid ok # later"
  then obtain b where "before = u @ b" "tr = b @ Wrote adapter eid ok # later"
    using assms(1) by (auto simp: append_eq_append_conv2 append_eq_Cons_conv Cons_eq_append_conv no_write_def)
  with assms(2,3) show "P before" by (auto simp: writes_after_def)
qed

lemma silent_writing: "si.keeps m \<Longrightarrow> writing_after P m"
  unfolding writing_after_def
proof
  fix s assume "si.keeps m"
  then obtain tr where "app_trace (snd (m s)) = app_trace s @ tr" "no_write tr" using si.keepsD [of m s] by (auto simp: silent_def)
  then show "\<exists>tr. app_trace (snd (m s)) = app_trace s @ tr \<and> writes_after P tr" by (intro exI [of _ tr]) (auto simp: writes_after_def no_write_def)
qed

lemma traced_writing: "tr.keeps m \<Longrightarrow> writing_after (\<lambda>_. True) m"
  using tr.keepsD [of m] by (fastforce simp: writing_after_def writes_after_def traced_def)

text \<open>A first step that writes to no provider, and that leaves the mark \<open>M\<close> when it succeeds.\<close>

lemma writing_andThen:
  assumes "si.keeps m" and "\<And>x. writing_after Q (f x)"
    and "\<And>s x s' u. m s = (Inr x, s') \<Longrightarrow> app_trace s' = app_trace s @ u \<Longrightarrow> \<forall>b. Q b \<longrightarrow> P (u @ b)"
  shows "writing_after P (andThen m f)"
  unfolding writing_after_def
proof
  fix s
  obtain r s1 where m: "m s = (r, s1)" by fastforce
  obtain u where u: "app_trace s1 = app_trace s @ u" "no_write u" using si.keeps_run [OF assms(1) m] by (auto simp: silent_def)
  show "\<exists>tr. app_trace (snd (andThen m f s)) = app_trace s @ tr \<and> writes_after P tr"
  proof (cases r)
    case (Inl e)
    with m u show ?thesis by (intro exI [of _ u]) (auto simp: andThen_def writes_after_def no_write_def)
  next
    case (Inr x)
    obtain tr where tr: "app_trace (snd (f x s1)) = app_trace s1 @ tr" "writes_after Q tr"
      using assms(2) by (auto simp: writing_after_def)
    with m u Inr writes_after_append [OF u(2) tr(2)] assms(3) [OF m [unfolded Inr] u(1)] show ?thesis
      by (intro exI [of _ "u @ tr"]) (auto simp: andThen_def)
  qed
qed

lemma reference_append: "reference_in tid b \<Longrightarrow> reference_in tid (u @ b)"
  by (auto simp: reference_in_def)

lemma started_append: "started_in tid digest b \<Longrightarrow> started_in tid digest (u @ b)"
  unfolding started_in_def by (metis append_assoc)

lemma write_marks:
  assumes "ledger_write sv op f s = (Inr x, s')" "app_trace s' = app_trace s @ u"
  shows "\<exists>v en. u = v @ [Did en op True]"
  using assms unfolding ledger_write_def interleave_def by (auto simp: Let_def is_ok_iff split: prod.splits sum.splits)

lemma record_marks:
  assumes "record_ref sv tid r s = (Inr x, s')" "app_trace s' = app_trace s @ u"
  shows "reference_in tid (u @ b)"
proof -
  obtain v en where "u = v @ [Did en (OpMaterialize tid r) True]" using write_marks [OF assms(1) [unfolded record_ref_def] assms(2)] by blast
  then have "Did en (OpMaterialize tid r) True \<in> set (u @ b)" by simp
  then show ?thesis unfolding reference_in_def by blast
qed

lemma begin_marks:
  assumes "begin_commit sv tid digest s = (Inr x, s')" "app_trace s' = app_trace s @ u" "reference_in tid b"
  shows "started_in tid digest (u @ b)"
proof -
  obtain v en where "u @ b = v @ Did en (OpBeginCommit tid digest) True # b" using write_marks [OF assms(1) [unfolded begin_commit_def] assms(2)] by auto
  with assms(3) show ?thesis unfolding started_in_def by blast
qed

lemma started_first:
  "si.keeps m \<Longrightarrow> (\<And>x. writing_after (started_in tid digest) (f x)) \<Longrightarrow> writing_after (started_in tid digest) (andThen m f)"
  by (rule writing_andThen) (auto intro: started_append)

lemma reference_first:
  "si.keeps m \<Longrightarrow> (\<And>x. writing_after (reference_in tid) (f x)) \<Longrightarrow> writing_after (reference_in tid) (andThen m f)"
  by (rule writing_andThen) (auto intro: reference_append)

lemma begin_first:
  "(\<And>x. writing_after (reference_in tid) (f x)) \<Longrightarrow> writing_after (started_in tid digest) (andThen (begin_commit sv tid digest) f)"
  by (rule writing_andThen [OF si.keeps_ends(3), where Q = "reference_in tid"]) (auto intro: begin_marks)

lemma record_first:
  assumes "\<And>x. tr.keeps (f x)"
  shows "writing_after (reference_in tid) (andThen (record_ref sv tid r) f)"
    and "writing_after (reference_in tid) (andThen (or_reconcile sv tid reason (record_ref sv tid r)) f)"
  using assms
  by (auto simp: or_reconcile_def on_error_Inr intro!: writing_andThen [where Q = "\<lambda>_. True"] si.keeps_ends si.keeps_parts traced_writing
    dest: record_marks)

lemma writing_prod: "(\<And>x y. writing_after P (f x y)) \<Longrightarrow> writing_after P (case_prod f z)"
  by (cases z) simp

lemma commit_writing: "writing_after (started_in tid digest) (CommitContext sv tid digest)"
proof -
  have stale: "si.keeps (if pinned then give () else stale_source sv tid current)" for pinned current
    by (intro si.keeps_if si.keeps_rules si.keeps_ends)
  have rec: "si.keeps (or_reconcile sv tid reason m)" if "si.keeps m" for reason m
    unfolding or_reconcile_def using that by (intro si.keeps_parts)
  have "si.keeps (case f of Some r \<Rightarrow> give r | None \<Rightarrow> or_reconcile sv tid app_text (staged (Materialize (sv_host sv) (sv_runtime sv) ws p)))"
    for f ws p by (intro si.keeps_cases si.keeps_rules rec si.keeps_world)
  moreover have "tr.keeps (andThen (effects_or_reconcile sv tid token) (\<lambda>_.
     andThen (or_reconcile sv tid (\<lambda>_. ''commit receipts exist but transaction finalization failed'') (finalize sv tid)) (\<lambda>_. service_Get sv tid)))" for token
    unfolding effects_or_reconcile_def or_reconcile_def by (intro tr.keeps_parts tr.keeps_cases tr.keeps_effects tr.keeps_ends tr.keeps_reads)
  ultimately have "writing_after (reference_in tid) (commit_durable sv tid ws token)" for ws token
    unfolding commit_durable_def by (intro reference_first record_first rec si.keeps_ledger_read si.keeps_integration)
  then show ?thesis
    unfolding CommitContext_def
    by (intro started_first writing_prod begin_first stale si.keeps_ledger_read si.keeps_rules si.keeps_world si.keeps_preflight si.keeps_lease)
qed

lemma recover_writing: "writing_after (reference_in tid) (Recover sv tid)"
proof -
  have decide: "tr.keeps (recover_decision sv tid ws token exists all any)" for ws token exists all any
    unfolding recover_decision_def by (intro tr.keeps_parts tr.keeps_cases tr.keeps_effects tr.keeps_ends tr.keeps_reads) simp_all
  have quiet: "si.keeps (recover_decision sv tid ws token False all any)" for ws token all any
    by (cases any) (simp_all add: recover_decision_def si.keeps_ends si.keeps_rules si.keeps_transition)
  have tail: "writing_after (reference_in tid) (andThen (case found of Some r \<Rightarrow> record_ref sv tid r | None \<Rightarrow> give ()) (\<lambda>_.
     andThen (reconcileExternalEffects sv tid token) (\<lambda>(allCommitted, anyCommitted).
     recover_decision sv tid ws token (found \<noteq> None) allCommitted anyCommitted)))" for found ws token
  proof (cases found)
    case None
    then show ?thesis by (auto intro!: silent_writing si.keeps_rules si.keeps_reconcile si.keeps_cases quiet)
  next
    case (Some r)
    then show ?thesis by (auto intro!: record_first tr.keeps_rules tr.keeps_reconcile tr.keeps_cases decide)
  qed
  have mark: "si.keeps (if c then andThen (ledger_write sv (OpNeedsReconciliation tid ''recovery started'')
      (\<lambda>en. MarkNeedsReconciliation en tid ''recovery started'')) (\<lambda>_. give ()) else give ())" for c
    by (intro si.keeps_cases si.keeps_rules si.keeps_ledger_write) (simp_all add: ordinary_def careful_def)
  show ?thesis
    unfolding Recover_def
    by (rule tail mark si.keeps_ledger_read si.keeps_check si.keeps_lease si.keeps_integration reference_first)+
qed

lemma may_write_calls: "may_write (CallCommit tid digest) = started_in tid digest" "may_write (CallRecover tid) = reference_in tid"
  by (rule ext, simp)+

text \<open>C7. The repository comes first: whatever a call of the service does and wherever it fails, and whatever other
  requests do in between, it writes to a provider only if it is a commit that has, in this call, started durably
  with the given digest and then recorded the reference of the transaction in the ledger, or a recovery that
  has found that reference and recorded it; every other call writes to no provider.\<close>

theorem writes_follow_reference:
  "\<exists>tr. app_trace (perform sv c s) = app_trace s @ tr \<and> writes_after (may_write c) tr"
proof (cases "\<exists>tid digest. c = CallCommit tid digest")
  case True
  then show ?thesis by (elim exE) (simp add: may_write_calls commit_writing [unfolded writing_after_def, rule_format])
next
  case False
  have quiet: "\<exists>tr. app_trace (snd (m s)) = app_trace s @ tr \<and> writes_after P tr" if "si.keeps m" for m :: "('a, 'b) step" and P
    using silent_writing [OF that] by (simp add: writing_after_def)
  from False show ?thesis
    using recover_writing [of _ sv]
    by (cases c) (simp_all add: may_write_calls writing_after_def quiet si.keeps_reads si.keeps_create si.keeps_execute si.keeps_seal si.keeps_verify
      silent_approvals si.keeps_abort si.keeps_prepare si.keeps_refresh)
qed

end
