(* ===== verification/AppOutcome.thy ===== *)
theory AppOutcome
  imports AppProperties
begin

text \<open>
  How a commit of the application service ends: a reported success means that the approved material is committed
  and the reference is recorded, and whatever fails after the durable start, the transaction does not stay committing.
\<close>

subsection \<open>A successful step\<close>

lemma ledger_write_Inr:
  "ledger_write sv op f s = (Inr x, s') \<Longrightarrow>
     \<exists>en. f en (app_ledger (interleave sv s)) = (Inr x, app_ledger s') \<and> app_trace s' = app_trace (interleave sv s) @ [Did en op True]"
  by (auto simp: ledger_write_def Let_def is_ok_iff remark_def next_call_def split: prod.splits sum.splits)

lemma ledger_read_Inr:
  "ledger_read sv f s = (Inr x, s') \<Longrightarrow> f (app_ledger (interleave sv s)) = Inr x \<and> app_ledger s' = app_ledger (interleave sv s)"
  by (auto simp: ledger_read_def Let_def next_call_def split: option.splits sum.splits)

subsection \<open>Settled transactions\<close>

definition settled :: "string \<Rightarrow> ledger \<Rightarrow> bool" where
  "settled tid l = ((\<exists>t. get_tx tid l = Some t \<and> tx_status t = StateCommitted) \<and> has_key mr_tx tid (refs l))"

lemma settled_exec:
  assumes "settled tid l" shows "settled tid (snd (exec en op l))"
proof -
  from assms obtain t where t: "get_tx tid l = Some t" "tx_status t = StateCommitted" by (auto simp: settled_def)
  have "terminal StateCommitted" by (simp add: terminal_def)
  from terminal_moves [OF this] exec_status [OF t(1), of en op] t(2)
  have "\<exists>t. get_tx tid (snd (exec en op l)) = Some t \<and> tx_status t = StateCommitted" by auto
  moreover have "has_key mr_tx tid (refs (snd (exec en op l)))"
    using assms exec_grows [of l en op] by (auto simp: settled_def grows_def has_key_def prefix_def)
  ultimately show ?thesis by (simp add: settled_def)
qed

lemma settled_run: "settled tid l \<Longrightarrow> settled tid (run ops l)"
  by (induction ops l rule: run.induct) (auto intro: settled_exec)

interpretation st: writing_relation "\<lambda>s s'. settled tid (app_ledger s) \<longrightarrow> settled tid (app_ledger s')" sv for tid sv
proof (unfold_locales, goal_cases)
  case (4 s) then show ?case by (simp add: interleave_def Let_def remark_def settled_run)
next
  case (9 op ok en s) then show ?case by (simp add: remark_def settled_exec)
next
  case (10 ok en tid d who sig ex s) then show ?case by (simp add: remark_def settled_exec del: exec.simps)
qed (auto simp: next_call_def remark_def)

lemma finalize_settles: "finalize sv tid s = (Inr t, s') \<Longrightarrow> settled tid (app_ledger s')"
  unfolding finalize_def by (auto simp: settled_def dest!: ledger_write_Inr Finalize_ok)

lemma Get_settled:
  assumes "service_Get sv tid s = (Inr v, s')" and "settled tid (app_ledger s)"
  shows "tx_status (tv_tx v) = StateCommitted \<and> settled tid (app_ledger s')"
proof
  show "settled tid (app_ledger s')"
    using st.keepsD [OF st.keeps_reads(1)] assms by (metis snd_conv)
  have "settled tid (app_ledger (interleave sv s))" using assms(2) st.others by blast
  then show "tx_status (tv_tx v) = StateCommitted"
    using assms(1) unfolding service_Get_def action_simps
    by (auto simp: settled_def Get_def fetch_simps dest!: ledger_read_Inr)
qed

text \<open>What a recorded success of an own operation says of the ledger it ran on.\<close>

lemma ledger_write_ran:
  assumes "ledger_write sv op f s = (Inr x, s')"
  shows "\<exists>tr en l. app_trace s' = app_trace s @ tr @ [Did en op True] \<and> replays tr (app_ledger s) l \<and> f en l = (Inr x, app_ledger s')"
proof -
  obtain en where en: "f en (app_ledger (interleave sv s)) = (Inr x, app_ledger s')" "app_trace s' = app_trace (interleave sv s) @ [Did en op True]"
    using ledger_write_Inr [OF assms] by blast
  moreover obtain tr where "app_trace (interleave sv s) = app_trace s @ tr" "replays tr (app_ledger s) (app_ledger (interleave sv s))"
    using tr.others [of s sv] by (auto simp: traced_def)
  ultimately show ?thesis by (intro exI [of _ tr] exI [of _ en] exI [of _ "app_ledger (interleave sv s)"]) simp
qed

lemma commit_parts:
  assumes "CommitContext sv tid digest s = (Inr v, s')"
  shows "\<exists>s0 t0 s1 ws token. traced s s0 \<and> begin_commit sv tid digest s0 = (Inr t0, s1) \<and> commit_durable sv tid ws token s1 = (Inr v, s')"
proof -
  have stale: "tr.keeps (if pinned then give () else stale_source sv tid current)" for pinned current
    by (intro tr.keeps_if tr.keeps_rules tr.keeps_ends)
  obtain t a b ws pc c d e token f t0 s1 where run: "ledger_read sv (Get tid) s = (Inr t, a)"
      "ledger_read sv (Workspace tid) a = (Inr ws, b)" "staged (SourcePinned (sv_host sv) ws) b = (Inr pc, c)"
      "(if fst pc then give () else stale_source sv tid (snd pc)) c = (Inr (), d)" "preflightExternalEffects sv tid d = (Inr (), e)"
      "acquireTransactionLease sv tid e = (Inr token, f)" and rest: "begin_commit sv tid digest f = (Inr t0, s1)"
      "commit_durable sv tid ws token s1 = (Inr v, s')"
    using assms unfolding CommitContext_def by (auto simp: action_simps case_prod_beta)
  have "traced s a" "traced a b" "traced b c" "traced c d" "traced d e" "traced e f"
    using tr.keeps_run [OF tr.keeps_ledger_read run(1)] tr.keeps_run [OF tr.keeps_ledger_read run(2)] tr.keeps_run [OF tr.keeps_world(2) run(3)]
      tr.keeps_run [OF stale run(4)] tr.keeps_run [OF tr.keeps_preflight run(5)] tr.keeps_run [OF tr.keeps_lease run(6)] by blast+
  then have "traced s f" using tr.trans by blast
  with rest show ?thesis by blast
qed

lemma durable_parts:
  assumes "commit_durable sv tid ws token s = (Inr v, s')"
  shows "\<exists>s1 r s2 s3 t s4. traced s s1 \<and> record_ref sv tid r s1 = (Inr (), s2) \<and> traced s2 s3 \<and> finalize sv tid s3 = (Inr t, s4)
     \<and> service_Get sv tid s4 = (Inr v, s')"
proof -
  have pub: "tr.keeps (case f of Some r \<Rightarrow> give r | None \<Rightarrow> or_reconcile sv tid app_text (staged (Materialize (sv_host sv) (sv_runtime sv) ws p)))"
    for f p unfolding or_reconcile_def by (intro tr.keeps_parts tr.keeps_cases)
  have eff: "tr.keeps (effects_or_reconcile sv tid token)"
    unfolding effects_or_reconcile_def by (intro tr.keeps_parts tr.keeps_cases tr.keeps_effects)
  obtain p a f b r s1 s2 s3 t s4 where run: "ledger_read sv (Patch tid) s = (Inr p, a)" "integration_of sv ws p a = (Inr f, b)"
      "(case f of Some r \<Rightarrow> give r | None \<Rightarrow> or_reconcile sv tid app_text (staged (Materialize (sv_host sv) (sv_runtime sv) ws p))) b = (Inr r, s1)"
      "effects_or_reconcile sv tid token s2 = (Inr (), s3)"
      and rest: "record_ref sv tid r s1 = (Inr (), s2)" "finalize sv tid s3 = (Inr t, s4)" "service_Get sv tid s4 = (Inr v, s')"
    using assms unfolding commit_durable_def by (auto simp: andThen_Inr or_reconcile_def on_error_Inr)
  have "traced s a" "traced a b" "traced b s1" "traced s2 s3"
    using tr.keeps_run [OF tr.keeps_ledger_read run(1)] tr.keeps_run [OF tr.keeps_integration run(2)] tr.keeps_run [OF pub run(3)]
      tr.keeps_run [OF eff run(4)] by blast+
  then have "traced s s1" "traced s2 s3" using tr.trans by blast+
  with rest show ?thesis by blast
qed

text \<open>C6. A reported commit is a commit: when \<open>CommitContext\<close> returns a view, the transaction is committed, in the view
  and in the ledger, and its repository reference is recorded there; and the ledger got there in this order: the
  durable start, on a ledger (the one that the operations recorded before it produce) where the transaction is ready,
  its stored approval is the given digest and no live effect is in doubt, then the record of the
  reference, then the final mark.\<close>

theorem commit_success:
  assumes "CommitContext sv tid digest s = (Inr v, s')"
  shows "tx_status (tv_tx v) = StateCommitted \<and> settled tid (app_ledger s')
     \<and> (\<exists>tr1 en1 tr2 en2 r tr3 en3 tr4 l cur.
          app_trace s' = app_trace s @ tr1 @ Did en1 (OpBeginCommit tid digest) True # tr2
            @ Did en2 (OpMaterialize tid r) True # tr3 @ Did en3 (OpFinalize tid) True # tr4
        \<and> replays tr1 (app_ledger s) l \<and> get_tx tid l = Some cur \<and> tx_status cur = StateReady
        \<and> approval_text cur = digest \<and> digest \<noteq> []
        \<and> (\<forall>e \<in> set (live_effects tid l). ef_status e \<in> {EffectVerified, EffectCommitted}))"
proof -
  obtain s0 t0 s1 ws token where pre: "traced s s0" and b: "begin_commit sv tid digest s0 = (Inr t0, s1)"
      and d: "commit_durable sv tid ws token s1 = (Inr v, s')"
    using commit_parts [OF assms] by blast
  obtain s2 r s3 s4 t s5 where mid: "traced s1 s2" "record_ref sv tid r s2 = (Inr (), s3)" "traced s3 s4"
      and f: "finalize sv tid s4 = (Inr t, s5)" and g: "service_Get sv tid s5 = (Inr v, s')"
    using durable_parts [OF d] by blast
  have post: "traced s5 s'" using tr.keeps_run [OF tr.keeps_reads(1) g] .
  obtain ub eb l where b': "app_trace s1 = app_trace s0 @ ub @ [Did eb (OpBeginCommit tid digest) True]" "replays ub (app_ledger s0) l"
      "BeginCommit eb tid digest l = (Inr t0, app_ledger s1)"
    using ledger_write_ran [OF b [unfolded begin_commit_def]] by blast
  obtain um em where m': "app_trace s3 = app_trace s2 @ um @ [Did em (OpMaterialize tid r) True]"
    using ledger_write_ran [OF mid(2) [unfolded record_ref_def]] by blast
  obtain uf ef where f': "app_trace s5 = app_trace s4 @ uf @ [Did ef (OpFinalize tid) True]"
    using ledger_write_ran [OF f [unfolded finalize_def]] by blast
  obtain u0 where u0: "app_trace s0 = app_trace s @ u0" "replays u0 (app_ledger s) (app_ledger s0)" using pre by (auto simp: traced_def)
  obtain u1 u3 u5 where u: "app_trace s2 = app_trace s1 @ u1" "app_trace s4 = app_trace s3 @ u3" "app_trace s' = app_trace s5 @ u5"
    using mid post by (auto simp: traced_def)
  obtain cur where cur: "get_tx tid l = Some cur" "tx_status cur = StateReady" "approval_text cur = digest" "digest \<noteq> []"
      "\<forall>e \<in> set (live_effects tid l). ef_status e \<in> {EffectVerified, EffectCommitted}"
    using BeginCommit_ok [OF b'(3)] by blast
  have "app_trace s' = app_trace s @ (u0 @ ub) @ Did eb (OpBeginCommit tid digest) True # (u1 @ um)
            @ Did em (OpMaterialize tid r) True # (u3 @ uf) @ Did ef (OpFinalize tid) True # u5"
    using u0 u b' m' f' by simp
  moreover have "replays (u0 @ ub) (app_ledger s) l" using u0 b' replays_append by blast
  ultimately show ?thesis using Get_settled [OF g finalize_settles [OF f]] cur by blast
qed

subsection \<open>A commit that succeeds\<close>

text \<open>The transaction of the example is approved, has no external effects, and its reference is already published.\<close>

lemma quiet_service:
  "ledger_read service0 f s = (case f (app_ledger s) of Inl e \<Rightarrow> Inl (AppLedger e) | Inr x \<Rightarrow> Inr x, next_call (remark (Interleaved []) s))"
  "ledger_write service0 op g s = (let (r, l) = g (env_of service0 s) (app_ledger s)
     in (case r of Inl e \<Rightarrow> Inl (AppLedger e) | Inr x \<Rightarrow> Inr x,
         next_call (remark (Did (env_of service0 s) op (is_ok r)) (remark (Interleaved []) (s\<lparr>app_ledger := l\<rparr>)))))"
  "sv_host service0 = host0" "coordinatorID service0 = ''local-daemon''"
  "en_read (env_of service0 s) = None" "en_begin (env_of service0 s) = None" "en_commit (env_of service0 s) = None"
  by (simp_all add: ledger_read_def ledger_write_def interleave_def service0_def env_of_def env0_def remark_def next_call_def coordinatorID_def Let_def
      split: prod.split)

lemma ledger_frame: "app_ledger (next_call s) = app_ledger s" "app_ledger (remark x s) = app_ledger s"
  by (simp_all add: next_call_def remark_def)

lemma pinned0: "staged (SourcePinned host0 workspace0) s = (Inr (True, ''r''), s)"
  by (simp add: staged_def in_world_def SourcePinned_def head_commit_def gitText_def runGit_def andThen_def give_def host0_def workspace0_def trim_space_def is_space_def)

lemma ledger_app0:
  "Get ''t'' (app_ledger app0) = Inr tx0" "Workspace ''t'' (app_ledger app0) = Inr workspace0" "ExternalEffects ''t'' (app_ledger app0) = []"
  "app_trace app0 = []"
  by (simp_all add: app0_def example Get_def Workspace_def ExternalEffects_def live_effects_def fetch_simps workspace0_def)

definition approved_tx :: transaction where
  "approved_tx = tx0\<lparr>tx_approval := Some ''d''\<rparr>"

definition approved_app :: "unit app" where
  "approved_app = app0\<lparr>app_ledger := (app_ledger app0)\<lparr>transactions := [approved_tx]\<rparr>\<rparr>"

definition ref0 :: materialized_ref where
  "ref0 = \<lparr>mr_tx = ''t'', mr_ref = integration_ref ''t'', mr_commit = ''r'', mr_tree = ''r'', mr_at = 1000000000000\<rparr>"

text \<open>The three events of the commit; the storage would refuse one whose hash is already there.\<close>

definition event_id0 :: "nat \<Rightarrow> string" where
  "event_id0 n = ''event_'' @ replicate n (CHR ''x'') @ show_nat 0"

definition started0 :: event_row where
  "started0 = chained_row (event_id0 4) ''t'' [] ''transaction.committing'' (JObj [(''approval_digest'', JStr ''d'')]) 0 1000000000000 []"

definition published0 :: event_row where
  "published0 = chained_row (event_id0 7) ''t'' [] ''repository.materialized'' (ref_json ref0) 0 1000000000000 [started0]"

definition committed0 :: event_row where
  "committed0 = chained_row (event_id0 9) ''t'' [] ''transaction.committed'' (JObj [(''external_effects_complete'', JBool True)]) 0
     1000000000000 [started0, published0]"

lemma env_service0: "env_of service0 s = env0\<lparr>en_ids := (\<lambda>k. replicate (app_calls s) (CHR ''x'') @ show_nat k)\<rparr>"
  by (simp add: env_of_def service0_def)

lemma new_id0: "NewID (env_of service0 s) 0 ''event'' = event_id0 (app_calls s)"
  by (simp add: NewID_def env_service0 event_id0_def)

definition commit_ledger :: "transaction \<Rightarrow> lease list \<Rightarrow> event_row list \<Rightarrow> materialized_ref list \<Rightarrow> ledger" where
  "commit_ledger t ls es rs = (app_ledger app0)\<lparr>transactions := [t], leases := ls, events := es, refs := rs\<rparr>"

definition committing_tx :: transaction where
  "committing_tx = approved_tx\<lparr>tx_status := StateCommitting, tx_revision := 4, tx_updated := 1000000000000\<rparr>"

definition committed_tx :: transaction where
  "committed_tx = approved_tx\<lparr>tx_status := StateCommitted, tx_revision := 5, tx_updated := 1000000000000\<rparr>"

lemma commit_ledger_reads:
  "Get ''t'' (commit_ledger approved_tx ls es rs) = Inr approved_tx" "Get ''t'' (commit_ledger committed_tx ls es rs) = Inr committed_tx"
  "Workspace ''t'' (commit_ledger t ls es rs) = Inr workspace0" "Patch ''t'' (commit_ledger t ls es rs) = Inr patch0"
  "ExternalEffects ''t'' (commit_ledger t ls es rs) = []"
  by (simp_all add: commit_ledger_def committed_tx_def approved_tx_def app0_def example Get_def Workspace_def Patch_def ExternalEffects_def
      live_effects_def fetch_simps workspace0_def)

lemma event_id0_inj: "event_id0 n = event_id0 m \<longleftrightarrow> n = m"
proof
  assume "event_id0 n = event_id0 m"
  then have "length (event_id0 n) = length (event_id0 m)" by simp
  then show "n = m" by (simp add: event_id0_def)
qed simp

lemma started0_hash: "ev_hash started0 \<noteq> []" "ev_tx started0 = ''t''" "ev_id started0 = event_id0 4"
   "ev_hash published0 \<noteq> []" "ev_tx published0 = ''t''" "ev_id published0 = event_id0 7"
  by (simp_all add: started0_def published0_def chained_row_hash chained_row_id)

lemma chained_prev: "ev_prev (chained_row eid ''t'' eff kind payload fence at [started0]) \<noteq> []"
  "ev_prev (chained_row eid ''t'' eff kind payload fence at [started0, published0]) \<noteq> []"
  by (simp_all add: chained_row_prev chain_head_def started0_hash)

lemma now0: "en_now (env_of service0 s) = 1000000000000"
  by (simp add: env_service0 env0_def)

lemma commit_ledger_rows:
  "effects (commit_ledger t ls es rs) = []" "refs (commit_ledger t ls es rs) = rs" "events (commit_ledger t ls es rs) = es"
  "(commit_ledger t ls es rs)\<lparr>refs := rs'\<rparr> = commit_ledger t ls es rs'"
  "tx_id t = ''t'' \<Longrightarrow> get_tx ''t'' (commit_ledger t ls es rs) = Some t"
  "tx_id t = ''t'' \<Longrightarrow> update_tx ''t'' (tx_revision t) f (commit_ledger t ls es rs) = Inr (commit_ledger (f t) ls es rs)"
  by (simp_all add: commit_ledger_def app0_def get_tx_def find_row_def update_tx_def changes_code update_where_Cons update_where_Nil)

lemma append_run:
  assumes "row = chained_row eid ''t'' [] kind payload 0 at es" and "tx_id t = ''t''" and "\<forall>e \<in> set es. ev_tx e = ''t'' \<and> ev_hash e \<noteq> []"
    and "eid \<notin> set (map ev_id es)" "ev_hash row \<notin> set (map ev_hash es)"
  shows "appendEvent eid ''t'' kind payload at (commit_ledger t ls es rs) = Inr (commit_ledger t ls (es @ [row]) rs)"
proof -
  have "ev_prev row \<noteq> []" if "es \<noteq> []"
    using assms(1,3) that by (simp add: chained_row_prev chain_head_def filter_id_conv [THEN iffD2])
  moreover have "filter (\<lambda>e. ev_tx e = ''t'') es = es" using assms(3) by (simp add: filter_id_conv)
  moreover have "(commit_ledger t ls es rs)\<lparr>events := es'\<rparr> = commit_ledger t ls es' rs" for es' by (simp add: commit_ledger_def)
  ultimately show ?thesis
    using assms(2-5) by (auto simp: appendEvent_def appendChainedEvent_def assms(1) [symmetric] commit_ledger_rows tx_events_def
      has_key_def require_def list_ex_iff image_iff Let_def try_bind_def)
qed

lemma fixture_ids: "tx_id approved_tx = ''t''" "tx_id committing_tx = ''t''" "tx_id committed_tx = ''t''"
  "tx_status approved_tx = StateReady" "tx_status committing_tx = StateCommitting" "tx_status committed_tx = StateCommitted"
  "approval_text approved_tx = ''d''"
  by (simp_all add: approved_tx_def committing_tx_def committed_tx_def tx0_def approval_text_def)

lemma begin_run:
  assumes "app_calls s = 4"
  shows "BeginCommit (env_of service0 s) ''t'' ''d'' (commit_ledger approved_tx ls [] []) = (Inr committing_tx, commit_ledger committing_tx ls [started0] [])"
proof -
  have "appendEvent (event_id0 4) ''t'' ''transaction.committing'' (JObj [(''approval_digest'', JStr ''d'')]) 1000000000000 (commit_ledger committing_tx ls [] [])
      = Inr (commit_ledger committing_tx ls ([] @ [started0]) [])"
    by (rule append_run) (simp_all add: started0_def fixture_ids)
  moreover have "approved_tx\<lparr>tx_status := StateCommitting, tx_revision := tx_revision approved_tx + 1, tx_updated := 1000000000000\<rparr> = committing_tx"
    by (simp add: committing_tx_def approved_tx_def tx0_def)
  ultimately show ?thesis
    using assms by (simp add: BeginCommit_def BeginCommit_tx_def then_read_def WithTx_def quiet_service new_id0 now0 commit_ledger_rows
      fixture_ids Get_def fetch_simps require_simps try_bind_def)
qed

lemma record_run:
  assumes "app_calls s = 7" and "ev_hash published0 \<noteq> ev_hash started0"
  shows "RecordMaterializedRef (env_of service0 s) ''t'' ref0 (commit_ledger committing_tx ls [started0] [])
     = (Inr (), commit_ledger committing_tx ls [started0, published0] [ref0])"
proof -
  have "appendEvent (event_id0 7) ''t'' ''repository.materialized'' (ref_json ref0) 1000000000000 (commit_ledger committing_tx ls [started0] [ref0])
      = Inr (commit_ledger committing_tx ls ([started0] @ [published0]) [ref0])"
    using assms(2) by (intro append_run) (simp_all add: published0_def fixture_ids started0_hash event_id0_inj)
  then show ?thesis
    using assms(1) by (simp add: RecordMaterializedRef_def RecordMaterializedRef_tx_def WithTx_def quiet_service new_id0 now0 commit_ledger_rows
      fixture_ids fetch_simps require_simps try_bind_def has_key_def find_row_def ref0_def or_now_def Let_def)
qed

lemma finalize_run:
  assumes "app_calls s = 9" and "ev_hash committed0 \<noteq> ev_hash started0" "ev_hash committed0 \<noteq> ev_hash published0"
  shows "FinalizeTransactionCommit (env_of service0 s) ''t'' (commit_ledger committing_tx ls [started0, published0] [ref0])
     = (Inr committed_tx, commit_ledger committed_tx ls [started0, published0, committed0] [ref0])"
proof -
  have "appendEvent (event_id0 9) ''t'' ''transaction.committed'' (JObj [(''external_effects_complete'', JBool True)]) 1000000000000
        (commit_ledger committed_tx ls [started0, published0] [ref0])
      = Inr (commit_ledger committed_tx ls ([started0, published0] @ [committed0]) [ref0])"
    using assms by (intro append_run) (simp_all add: committed0_def fixture_ids started0_hash event_id0_inj)
  moreover have "committing_tx\<lparr>tx_status := StateCommitted, tx_revision := tx_revision committing_tx + 1, tx_updated := 1000000000000\<rparr> = committed_tx"
    by (simp add: committed_tx_def committing_tx_def approved_tx_def tx0_def)
  ultimately show ?thesis
    using assms(1) by (simp add: FinalizeTransactionCommit_def FinalizeTransactionCommit_tx_def then_read_def WithTx_def quiet_service new_id0 now0
      commit_ledger_rows fixture_ids Get_def fetch_simps require_simps try_bind_def has_key_def ref0_def)
qed

lemma lease_run:
  "\<exists>x. AcquireLease (env_of service0 s) (lease_name ''t'') ''local-daemon'' five_minutes (commit_ledger t [] es rs) = (Inr 1, commit_ledger t [x] es rs)"
  by (simp add: AcquireLease_def AcquireLease_tx_def WithTx_def quiet_service lease_name_def five_minutes_def commit_ledger_def app0_def example Let_def next_token_def)

lemma integration_run: "staged (InspectIntegrationRef host0 1000000000000 workspace0 patch0) s = (Inr (Some ref0), s)"
  by (simp add: staged_def in_world_def InspectIntegrationRef_def result_of_def show_tree_def gitText_def runGit_def andThen_def give_def check_def
    host0_def workspace0_def patch0_def ref0_def trim_space_def is_space_def)

lemma approved_ledger: "app_ledger approved_app = commit_ledger approved_tx [] [] []" "app_calls approved_app = 0" "app_trace approved_app = []"
  by (simp_all add: approved_app_def commit_ledger_def app0_def ledger0_def empty_ledger_def)

lemma counted: "app_calls (next_call s) = app_calls s + 1" "app_calls (remark x s) = app_calls s"
  "app_calls (s\<lparr>app_ledger := l\<rparr>) = app_calls s" "app_ledger (s\<lparr>app_ledger := l\<rparr>) = l"
  by (simp_all add: next_call_def remark_def)

lemma approved_run:
  assumes "distinct (map ev_hash [started0, published0, committed0])"
  shows "\<exists>v s'. CommitContext service0 ''t'' ''d'' approved_app = (Inr v, s')"
proof -
  define s where "s = next_call (remark (Interleaved []) (next_call (remark (Interleaved []) (next_call (remark (Interleaved []) approved_app)))))"
  obtain x where x: "AcquireLease (env_of service0 s) (lease_name ''t'') ''local-daemon'' five_minutes (commit_ledger approved_tx [] [] [])
      = (Inr 1, commit_ledger approved_tx [x] [] [])"
    using lease_run by blast
  from assms have h: "ev_hash published0 \<noteq> ev_hash started0" "ev_hash committed0 \<noteq> ev_hash started0" "ev_hash committed0 \<noteq> ev_hash published0" by auto
  show ?thesis
    using x unfolding s_def
    by (simp add: CommitContext_def commit_durable_def andThen_def quiet_service ledger_frame counted check_def pinned0 approved_ledger commit_ledger_reads
      fixture_ids preflightExternalEffects_def acquireTransactionLease_def give_def begin_commit_def begin_run or_reconcile_def on_error_def
      integration_of_def with_env_def now0 integration_run record_ref_def record_run [OF _ h(1)] effects_or_reconcile_def commitExternalEffects_def
      finalize_def finalize_run [OF _ h(2,3)] service_Get_def receipts_of_def result_of_def ok_list_def)
qed

lemma event_text_id:
  assumes "event_text e = event_text e'" and "digest_like (ev_prev e)" "digest_like (ev_prev e')"
    and "CHR 0x00 \<notin> set (ev_id e)" "CHR 0x00 \<notin> set (ev_id e')"
  shows "ev_id e = ev_id e'"
proof -
  have "ev_prev e = ev_prev e'" using assms(1) by (auto simp: event_text_def intro: nul_field [OF digest_like_nul digest_like_nul] assms(2,3))
  with assms(1) show ?thesis by (auto simp: event_text_def intro: nul_field [OF assms(4,5)])
qed

lemma commit_row_ids: "ev_id started0 = event_id0 4" "ev_id published0 = event_id0 7" "ev_id committed0 = event_id0 9"
  by (simp_all add: started0_def published0_def committed0_def chained_row_id)

lemma event_id0_nul: "CHR 0x00 \<notin> set (event_id0 n)"
proof -
  have "CHR 0x00 \<noteq> (char_of (48::nat) :: char)" by code_simp
  then show ?thesis by (simp add: event_id0_def show_nat.simps)
qed

lemma commit_rows:
  assumes "e \<in> {started0, published0, committed0}"
  shows "digest_like (ev_prev e)" "CHR 0x00 \<notin> set (ev_id e)" "ev_hash e = sha256_hex (event_text e)"
proof -
  have hash: "ev_hash started0 = sha256_hex (event_text started0)" "ev_hash published0 = sha256_hex (event_text published0)"
      "ev_hash committed0 = sha256_hex (event_text committed0)"
    by (simp_all add: started0_def published0_def committed0_def chained_row_hash)
  then show "ev_hash e = sha256_hex (event_text e)" using assms by auto
  have "ev_prev started0 = []" by (simp add: started0_def chained_row_prev chain_head_def)
  moreover have "ev_prev published0 = ev_hash started0" by (simp add: published0_def chained_row_prev chain_head_def started0_hash)
  moreover have "ev_prev committed0 = ev_hash published0" by (simp add: committed0_def chained_row_prev chain_head_def started0_hash)
  ultimately show "digest_like (ev_prev e)" using assms hash by (auto simp: digest_like_def [of "[]"])
  show "CHR 0x00 \<notin> set (ev_id e)" using assms event_id0_nul by (auto simp: commit_row_ids)
qed

lemma commit_texts_differ:
  assumes "e \<in> {started0, published0, committed0}" "e' \<in> {started0, published0, committed0}" "ev_id e \<noteq> ev_id e'"
  shows "event_text e \<noteq> event_text e'"
  using event_text_id [of e e'] commit_rows [OF assms(1)] commit_rows [OF assms(2)] assms(3) by blast

text \<open>The run commits, unless two of its three events, whose texts differ, have the same SHA-256 hash.\<close>

theorem commit_success_witness:
  "(\<exists>v s'. CommitContext service0 ''t'' ''d'' approved_app = (Inr v, s') \<and> tx_status (tv_tx v) = StateCommitted \<and> settled ''t'' (app_ledger s'))
   \<or> (\<exists>e \<in> {started0, published0}. \<exists>e' \<in> {published0, committed0}.
        event_text e \<noteq> event_text e' \<and> sha256_hex (event_text e) = sha256_hex (event_text e'))"
proof (cases "distinct (map ev_hash [started0, published0, committed0])")
  case True
  then obtain v s' where "CommitContext service0 ''t'' ''d'' approved_app = (Inr v, s')" using approved_run by blast
  with commit_success [OF this] show ?thesis by blast
next
  case False
  then consider "ev_hash started0 = ev_hash published0" | "ev_hash started0 = ev_hash committed0" | "ev_hash published0 = ev_hash committed0" by auto
  then show ?thesis
  proof cases
    case 1
    with commit_texts_differ [of started0 published0] commit_rows(3) show ?thesis by (auto simp: commit_row_ids event_id0_inj)
  next
    case 2
    with commit_texts_differ [of started0 committed0] commit_rows(3) show ?thesis by (auto simp: commit_row_ids event_id0_inj)
  next
    case 3
    with commit_texts_differ [of published0 committed0] commit_rows(3) show ?thesis by (auto simp: commit_row_ids event_id0_inj)
  qed
qed

subsection \<open>No commit is left half way\<close>

definition committing :: "string \<Rightarrow> ledger \<Rightarrow> bool" where
  "committing tid l = (\<exists>t. get_tx tid l = Some t \<and> tx_status t = StateCommitting)"

text \<open>Other requests leave the transaction alone, and the storage answers every query.\<close>

definition leaves_alone :: "'w service \<Rightarrow> string \<Rightarrow> bool" where
  "leaves_alone sv tid = (\<forall>n l. list_all (\<lambda>x. op_target (snd x) l \<noteq> Some tid) (sv_others sv n))"

definition reads_work :: "'w service \<Rightarrow> bool" where
  "reads_work sv = (\<forall>n. en_read (sv_env sv n) = None)"

text \<open>Every attempt to mark the transaction for reconciliation succeeded.\<close>

definition marks_ok :: "string \<Rightarrow> app_step list \<Rightarrow> bool" where
  "marks_ok tid tr = list_all (\<lambda>x. case x of Did en (OpNeedsReconciliation tid' reason) ok \<Rightarrow> tid' = tid \<longrightarrow> ok | _ \<Rightarrow> True) tr"

lemma run_alone: "(\<And>l. list_all (\<lambda>x. op_target (snd x) l \<noteq> Some tid) ops) \<Longrightarrow> get_tx tid (run ops l) = get_tx tid l"
  by (induction ops l rule: run.induct) (auto simp: exec_other)

lemma interleave_alone: "leaves_alone sv tid \<Longrightarrow> committing tid (app_ledger (interleave sv s)) = committing tid (app_ledger s)"
  unfolding leaves_alone_def committing_def interleave_def Let_def remark_def by (subst run_alone [symmetric]) simp_all

interpretation idle: plain_steps
  "\<lambda>s s'. leaves_alone sv tid \<longrightarrow> \<not> committing tid (app_ledger s) \<longrightarrow> \<not> committing tid (app_ledger s')" sv for tid sv
  by unfold_locales (simp_all add: next_call_def remark_def interleave_alone)

definition ends :: "'w service \<Rightarrow> string \<Rightarrow> ('w, 'a) step \<Rightarrow> bool" where
  "ends sv tid m = (\<forall>s. marks_ok tid (app_trace (snd (m s))) \<longrightarrow> \<not> committing tid (app_ledger (snd (m s))))"

definition fails_idle :: "'w service \<Rightarrow> string \<Rightarrow> ('w, 'a) step \<Rightarrow> bool" where
  "fails_idle sv tid m = (\<forall>s e s'. m s = (Inl e, s') \<longrightarrow> marks_ok tid (app_trace s') \<longrightarrow> \<not> committing tid (app_ledger s'))"

lemma ends_andThen: "fails_idle sv tid m \<Longrightarrow> (\<And>x. ends sv tid (f x)) \<Longrightarrow> ends sv tid (andThen m f)"
  by (force simp: ends_def fails_idle_def andThen_def split: prod.splits sum.splits)

lemma Transition_status:
  assumes "Transition_tx en tid a b actor reason m i l = Inr l'" shows "\<exists>t. get_tx tid l' = Some t \<and> tx_status t = b"
  using assms unfolding Transition_tx_def appendEvent_def try_bind_Inr fetch_Inr require_Inr
  by (elim exE conjE) (simp add: append_event_get_tx, drule update_tx_get [where x = tid], assumption, auto)

lemma mark_idle:
  assumes "marks_ok tid (app_trace (snd (markNeedsReconciliation sv tid reason s)))"
  shows "\<not> committing tid (app_ledger (snd (markNeedsReconciliation sv tid reason s)))"
proof -
  let ?en = "env_of sv (interleave sv s)" and ?l = "app_ledger (interleave sv s)"
  obtain r l where m: "MarkNeedsReconciliation ?en tid reason ?l = (r, l)" by fastforce
  have "is_ok r" "app_ledger (snd (markNeedsReconciliation sv tid reason s)) = l"
    using assms by (simp_all add: markNeedsReconciliation_def ignore_def ledger_write_def Let_def m marks_ok_def remark_def next_call_def)
  moreover from m \<open>is_ok r\<close> obtain cur :: transaction where
    "Transition_tx ?en tid (tx_status cur) StateNeedsReconciliation ''daemon'' reason False False ?l = Inr l"
    by (auto simp: MarkNeedsReconciliation_def Transition_def is_ok_iff split: sum.splits dest!: then_read_WithTx_ok)
  then have "\<not> committing tid l"
    by (auto simp: committing_def dest!: Transition_status)
  ultimately show ?thesis by simp
qed

lemma or_reconcile_idle: "fails_idle sv tid (or_reconcile sv tid reason m)"
  unfolding fails_idle_def or_reconcile_def on_error_def
  by (auto split: prod.splits sum.splits) (metis mark_idle snd_conv)

lemma effects_idle:
  assumes "leaves_alone sv tid" and "reads_work sv"
  shows "fails_idle sv tid (effects_or_reconcile sv tid token)"
  unfolding fails_idle_def effects_or_reconcile_def on_error_def
proof (intro allI impI, goal_cases)
  case (1 s e s')
  obtain s1 where s1: "s' = snd (andThen (result_of (ledger_read sv (Get tid))) (\<lambda>t.
       case t of
         Inr cur \<Rightarrow> if tx_status cur = StateCommitting then markNeedsReconciliation sv tid ''external effect commit did not complete'' else give ()
       | Inl _ \<Rightarrow> give ()) s1)"
    using 1(1) by (auto split: prod.splits sum.splits)
  obtain r s2 where r: "ledger_read sv (Get tid) s1 = (r, s2)" by fastforce
  have "r = (case Get tid (app_ledger s2) of Inl e \<Rightarrow> Inl (AppLedger e) | Inr x \<Rightarrow> Inr x)"
    using r assms(2) by (auto simp: ledger_read_def Let_def reads_work_def env_of_def next_call_def split: option.splits)
  then have idle: "\<not> committing tid (app_ledger s2)" if "\<forall>cur. r = Inr cur \<longrightarrow> tx_status cur \<noteq> StateCommitting"
    using that by (auto simp: committing_def Get_def fetch_simps)
  show ?case
  proof (cases "\<exists>cur. r = Inr cur \<and> tx_status cur = StateCommitting")
    case True
    then have "s' = snd (markNeedsReconciliation sv tid ''external effect commit did not complete'' s2)"
      using s1 r by (auto simp: andThen_def result_of_def)
    then show ?thesis using mark_idle 1(2) by metis
  next
    case False
    then have "s' = s2" using s1 r by (auto simp: andThen_def result_of_def give_def split: sum.splits)
    then show ?thesis using idle False by blast
  qed
qed

lemma settled_idle: "settled tid l \<Longrightarrow> \<not> committing tid l"
  by (auto simp: settled_def committing_def)

lemma finalize_ends: "ends sv tid (andThen (or_reconcile sv tid reason (finalize sv tid)) (\<lambda>_. service_Get sv tid))"
  unfolding ends_def
proof (intro allI impI)
  fix s :: "'a app"
  assume marks: "marks_ok tid (app_trace (snd (andThen (or_reconcile sv tid reason (finalize sv tid)) (\<lambda>_. service_Get sv tid) s)))"
  obtain r s1 where r: "or_reconcile sv tid reason (finalize sv tid) s = (r, s1)" by fastforce
  show "\<not> committing tid (app_ledger (snd (andThen (or_reconcile sv tid reason (finalize sv tid)) (\<lambda>_. service_Get sv tid) s)))"
  proof (cases r)
    case (Inl e)
    then show ?thesis using marks r or_reconcile_idle [of sv tid reason "finalize sv tid"] by (auto simp: andThen_def fails_idle_def)
  next
    case (Inr t)
    then have "finalize sv tid s = (Inr t, s1)" using r by (simp add: or_reconcile_def on_error_Inr)
    then have "settled tid (app_ledger s1)" by (rule finalize_settles)
    then have "settled tid (app_ledger (snd (service_Get sv tid s1)))" using st.keepsD [OF st.keeps_reads(1)] by blast
    then show ?thesis using r Inr by (simp add: andThen_def settled_idle)
  qed
qed

lemma durable_ends:
  assumes "leaves_alone sv tid" and "reads_work sv"
  shows "ends sv tid (commit_durable sv tid ws token)"
proof -
  have found: "fails_idle sv tid (case f of Some r \<Rightarrow> give r | None \<Rightarrow> or_reconcile sv tid app_text m)" for f m
    using or_reconcile_idle [of sv tid app_text m] by (cases f) (auto simp: fails_idle_def give_def)
  show ?thesis
    unfolding commit_durable_def
    by (intro ends_andThen or_reconcile_idle found effects_idle [OF assms] finalize_ends)
qed

text \<open>The steps before the durable start cannot begin a commit.\<close>

definition stays_idle :: "'w service \<Rightarrow> string \<Rightarrow> ('w, 'a) step \<Rightarrow> bool" where
  "stays_idle sv tid m = (\<forall>s. \<not> committing tid (app_ledger s) \<longrightarrow> marks_ok tid (app_trace (snd (m s)))
     \<longrightarrow> \<not> committing tid (app_ledger (snd (m s))))"

lemma stays_idle_andThen:
  assumes "leaves_alone sv tid" and "idle.keeps sv tid m" and "\<And>x. stays_idle sv tid (f x)"
  shows "stays_idle sv tid (andThen m f)"
  unfolding stays_idle_def
proof (intro allI impI)
  fix s assume s: "\<not> committing tid (app_ledger s)" and marks: "marks_ok tid (app_trace (snd (andThen m f s)))"
  obtain r s1 where m: "m s = (r, s1)" by fastforce
  have "\<not> committing tid (app_ledger s1)" using idle.keeps_run [OF assms(2) m] assms(1) s by blast
  then show "\<not> committing tid (app_ledger (snd (andThen m f s)))"
    using assms(3) m marks by (cases r) (simp_all add: andThen_def stays_idle_def)
qed

lemma stays_idle_prod: "(\<And>x y. stays_idle sv tid (f x y)) \<Longrightarrow> stays_idle sv tid (case_prod f z)"
  by (cases z) simp

lemma write_idle:
  assumes "\<And>en l. \<not> committing tid l \<Longrightarrow> \<not> committing tid (snd (f en l))"
  shows "idle.keeps sv tid (ledger_write sv op f)"
  by (rule idle.keeps_write) (simp add: remark_def assms)

lemma stale_idle: "idle.keeps sv tid (transition sv tid StateReady StateStale who why False True)"
  unfolding transition_def
proof (rule write_idle)
  fix en l assume "\<not> committing tid l"
  then show "\<not> committing tid (snd (Transition en tid StateReady StateStale who why False True l))"
    using WithTx_snd [of en "Transition_tx en tid StateReady StateStale who why False True" l]
    by (auto simp: Transition_def committing_def split: sum.split dest!: Transition_status)
qed

lemma lease_idle: "idle.keeps sv tid (acquireTransactionLease sv tid)"
  unfolding acquireTransactionLease_def
proof (rule write_idle)
  fix en l assume "\<not> committing tid l"
  moreover have "get_tx tid (snd (exec en (OpAcquireLease (lease_name tid) (coordinatorID sv) five_minutes) l)) = get_tx tid l"
    by (rule exec_other) simp
  ultimately show "\<not> committing tid (snd (AcquireLease en (lease_name tid) (coordinatorID sv) five_minutes l))"
    by (simp add: committing_def)
qed

lemma begin_idle:
  assumes "leaves_alone sv tid" and "reads_work sv" and "begin_commit sv tid digest s = (Inl e, s')"
    and "\<not> committing tid (app_ledger s)"
  shows "\<not> committing tid (app_ledger s')"
proof -
  let ?s = "interleave sv s"
  obtain x where "BeginCommit (env_of sv ?s) tid digest (app_ledger ?s) = (Inl x, app_ledger s')"
    using assms(3) by (auto simp: begin_commit_def ledger_write_def Let_def remark_def next_call_def split: prod.splits sum.splits)
  moreover have "en_read (env_of sv ?s) = None" using assms(2) by (simp add: reads_work_def env_of_def)
  ultimately have "app_ledger s' = app_ledger ?s"
    unfolding BeginCommit_def by (rule then_read_error) (rule moves_read [OF BeginCommit_moves])
  with assms(4) interleave_alone [OF assms(1)] show ?thesis by simp
qed

lemma begin_then_durable:
  assumes "leaves_alone sv tid" and "reads_work sv"
  shows "stays_idle sv tid (andThen (begin_commit sv tid digest) (\<lambda>_. commit_durable sv tid ws token))"
  unfolding stays_idle_def
proof (intro allI impI)
  fix s :: "'a app"
  assume s: "\<not> committing tid (app_ledger s)"
    and marks: "marks_ok tid (app_trace (snd (andThen (begin_commit sv tid digest) (\<lambda>_. commit_durable sv tid ws token) s)))"
  obtain r s1 where b: "begin_commit sv tid digest s = (r, s1)" by fastforce
  show "\<not> committing tid (app_ledger (snd (andThen (begin_commit sv tid digest) (\<lambda>_. commit_durable sv tid ws token) s)))"
  proof (cases r)
    case (Inl e)
    with begin_idle [OF assms b [unfolded Inl] s] b show ?thesis by (simp add: andThen_def)
  next
    case (Inr t)
    with durable_ends [OF assms] b marks show ?thesis by (simp add: andThen_def ends_def)
  qed
qed

text \<open>C5. No commit is left half way: when other requests leave the transaction alone, the storage answers queries, and
  the attempts to mark the transaction for reconciliation succeed, then \<open>CommitContext\<close> never leaves a transaction
  in the state committing that was not committing before, whichever of its steps fails.\<close>

theorem commit_never_stuck:
  assumes "leaves_alone sv tid" and "reads_work sv" and "\<not> committing tid (app_ledger s)"
    and "marks_ok tid (app_trace (snd (CommitContext sv tid digest s)))"
  shows "\<not> committing tid (app_ledger (snd (CommitContext sv tid digest s)))"
proof -
  have stale: "idle.keeps sv tid (if pinned then give () else stale_source sv tid current)" for pinned current
    unfolding stale_source_def by (intro idle.keeps_if idle.keeps_rules stale_idle)
  have "stays_idle sv tid (CommitContext sv tid digest)"
    unfolding CommitContext_def
    by (intro stays_idle_andThen [OF assms(1)] stays_idle_prod begin_then_durable [OF assms(1,2)] idle.plain_parts stale lease_idle
      idle.keeps_preflight_from stale_idle)
  with assms(3,4) show ?thesis by (simp add: stays_idle_def)
qed

text \<open>A commit without an approval fails at its durable start.\<close>

lemma lease_app0:
  "\<exists>x. AcquireLease (env_of service0 s) (lease_name ''t'') ''local-daemon'' five_minutes (app_ledger app0) = (Inr 1, (app_ledger app0)\<lparr>leases := [x]\<rparr>)"
  by (simp add: AcquireLease_def AcquireLease_tx_def WithTx_def quiet_service lease_name_def five_minutes_def app0_def example Let_def next_token_def)

lemma begin_app0:
  "BeginCommit (env_of service0 s) ''t'' ''d'' ((app_ledger app0)\<lparr>leases := ls\<rparr>) = (Inl ApprovalRequired, (app_ledger app0)\<lparr>leases := ls\<rparr>)"
  by (simp add: BeginCommit_def BeginCommit_tx_def then_read_def WithTx_def quiet_service app0_def example fetch_simps require_simps approval_text_def)

lemma unapproved_run:
  "marks_ok ''t'' (app_trace (snd (CommitContext service0 ''t'' ''d'' app0)))"
proof -
  define s where "s = next_call (remark (Interleaved []) (next_call (remark (Interleaved []) (next_call (remark (Interleaved []) app0)))))"
  obtain x where x: "AcquireLease (env_of service0 s) (lease_name ''t'') ''local-daemon'' five_minutes (app_ledger app0) = (Inr 1, (app_ledger app0)\<lparr>leases := [x]\<rparr>)"
    using lease_app0 by blast
  show ?thesis
    using x unfolding s_def
    by (simp add: CommitContext_def andThen_def quiet_service ledger_frame check_def pinned0 ledger_app0 tx0_def
      preflightExternalEffects_def acquireTransactionLease_def give_def begin_commit_def begin_app0 marks_ok_def)
qed

theorem commit_never_stuck_witness:
  "\<not> committing ''t'' (app_ledger (snd (CommitContext service0 ''t'' ''d'' app0)))"
proof (rule commit_never_stuck)
  show "leaves_alone service0 ''t''" "reads_work service0" by (simp_all add: leaves_alone_def reads_work_def service0_def env0_def)
  show "\<not> committing ''t'' (app_ledger app0)" by (simp add: committing_def app0_def example)
qed (rule unapproved_run)

end
