(* ===== verification/Egress.thy ===== *)
theory Egress
  imports GoUrl Actions "HOL-Library.Word"
begin

text \<open>
  The egress policy of the provider transport (\<open>internal/egress/policy.go\<close>): which requests may leave the daemon,
  which hosts and addresses it connects to.  DNS and the connections are parameters.  \<open>strings.EqualFold\<close> folds the
  ASCII letters and the two other code points that fold to ASCII letters, which is all that a host name or a
  method of ASCII text can meet.
\<close>

subsection \<open>Case folding and addresses\<close>

fun fold_text :: "string \<Rightarrow> string" where
  "fold_text [] = []"
| "fold_text (c # cs) =
     (if take 3 (c # cs) = [CHR 0xE2, CHR 0x84, CHR 0xAA] then CHR ''k'' # fold_text (drop 2 cs)
      else if take 2 (c # cs) = [CHR 0xC5, CHR 0xBF] then CHR ''s'' # fold_text (drop 1 cs)
      else lower_char c # fold_text cs)"

definition EqualFold :: "string \<Rightarrow> string \<Rightarrow> bool" where
  "EqualFold a b = (fold_text a = fold_text b)"

text \<open>\<open>netip.Addr\<close> without a zone.\<close>

datatype ip_addr = V4 "32 word" | V6 "128 word"

definition AddrFromSlice :: "8 word list \<Rightarrow> ip_addr option" where
  "AddrFromSlice bs =
     (if length bs = 4 then Some (V4 (word_rcat bs)) else if length bs = 16 then Some (V6 (word_rcat bs)) else None)"

fun Unmap :: "ip_addr \<Rightarrow> ip_addr" where
  "Unmap (V4 w) = V4 w"
| "Unmap (V6 w) = (if drop_bit 32 w = 0xFFFF then V4 (ucast w) else V6 w)"

definition byte4 :: "nat \<Rightarrow> 32 word \<Rightarrow> nat" where
  "byte4 i w = unat (drop_bit (8 * (3 - i)) w) mod 256"

definition group6 :: "nat \<Rightarrow> 128 word \<Rightarrow> nat" where
  "group6 i w = unat (drop_bit (16 * (7 - i)) w) mod 65536"

fun show_hex :: "nat \<Rightarrow> string" where
  "show_hex n = (if n < 16 then [''0123456789abcdef'' ! n] else show_hex (n div 16) @ [''0123456789abcdef'' ! (n mod 16)])"

declare show_hex.simps [simp del]

text \<open>The first longest run of at least two zero groups, as start and length.\<close>

definition zero_run :: "nat list \<Rightarrow> nat \<times> nat" where
  "zero_run gs = fold (\<lambda>i best. let n = length (takeWhile (\<lambda>g. g = 0) (drop i gs)) in if 2 \<le> n \<and> snd best < n then (i, n) else best)
     [0..<length gs] (0, 0)"

fun ip_text :: "ip_addr \<Rightarrow> string" where
  "ip_text (V4 w) = join ''.'' (map (\<lambda>i. show_nat (byte4 i w)) [0..<4])"
| "ip_text (V6 w) =
     (let gs = map (\<lambda>i. group6 i w) [0..<8]; (s, n) = zero_run gs; hex = (\<lambda>xs. join '':'' (map show_hex xs))
      in if n = 0 then hex gs else hex (take s gs) @ ''::'' @ hex (drop (s + n) gs))"

lemma ip_text_examples:
  "ip_text (V4 0xC0A80001) = ''192.168.0.1''" "ip_text (V6 1) = ''::1''" "ip_text (V6 0x20010DB8000000000001000000000001) = ''2001:db8::1:0:0:1''"
  by (simp_all add: byte4_def group6_def zero_run_def show_nat.simps show_hex.simps upt_conv_Cons Let_def) code_simp

text \<open>Membership in a prefix of \<open>n\<close> bits; of an IPv6 prefix the leading bits are given.\<close>

definition in4 :: "32 word \<Rightarrow> nat \<Rightarrow> 32 word \<Rightarrow> bool" where
  "in4 base n w = (drop_bit (32 - n) w = drop_bit (32 - n) base)"

definition in6 :: "128 word \<Rightarrow> nat \<Rightarrow> 128 word \<Rightarrow> bool" where
  "in6 base n w = (drop_bit (128 - n) w = base)"

text \<open>The classes of \<open>netip\<close>: unspecified, loopback, multicast, link-local and private.\<close>

fun special :: "ip_addr \<Rightarrow> bool" where
  "special (V4 w) = (w = 0 \<or> in4 0x7F000000 8 w \<or> in4 0xE0000000 4 w \<or> in4 0xA9FE0000 16 w \<or> in4 0xE0000000 24 w
     \<or> in4 0x0A000000 8 w \<or> in4 0xAC100000 12 w \<or> in4 0xC0A80000 16 w)"
| "special (V6 w) = (w = 0 \<or> w = 1 \<or> in6 0xFF 8 w \<or> in6 0x3FA 10 w \<or> group6 0 w mod 16 = 2 \<and> in6 0xFF 8 w \<or> in6 0x7E 7 w)"

fun blocked :: "ip_addr \<Rightarrow> bool" where
  "blocked (V4 w) = (in4 0x64400000 10 w \<or> in4 0xC0000000 24 w \<or> in4 0xC0000200 24 w \<or> in4 0xC6120000 15 w
     \<or> in4 0xC6336400 24 w \<or> in4 0xCB007100 24 w)"
| "blocked (V6 w) = (drop_bit 96 w = 0x20010DB8)"

definition forbidden :: "ip_addr \<Rightarrow> bool" where
  "forbidden a = (special a \<or> blocked a)"

lemma forbidden_examples:
  "forbidden (V4 0x7F000001)" "forbidden (V4 0xAC1F0001)" "\<not> forbidden (V4 0x8C527003)" "forbidden (V6 1)" "forbidden (V6 0xFE800000000000000000000000000001)"
  "\<not> forbidden (V6 0x260650C0000000000000000000000153)"
  by (simp_all add: forbidden_def in4_def in6_def group6_def)

subsection \<open>The policy\<close>

record egress_rule =
  er_host :: string
  er_port :: string
  er_prefixes :: "string list"
  er_methods :: "string list"
  er_private :: bool

definition containsFold :: "string list \<Rightarrow> string \<Rightarrow> bool" where
  "containsFold vs c = list_ex (\<lambda>v. EqualFold v c) vs"

definition normalizeMethods :: "string list \<Rightarrow> string list" where
  "normalizeMethods ms =
     (let ms1 = (if ms = [] then [''GET'', ''POST''] else ms)
      in sort (remdups (filter (\<lambda>m. m \<noteq> []) (map (\<lambda>m. to_upper (trim_space m)) ms1))))"

definition rooted_clean :: "string \<Rightarrow> string" where
  "rooted_clean p = path_clean (CHR ''/'' # (if has_prefix p ''/'' then tl p else p))"

definition RuleFromBase :: "string \<Rightarrow> string list \<Rightarrow> string + egress_rule" where
  "RuleFromBase raw methods =
     try_bind (fetch (url_parse (trim_space raw)) ''invalid URL'') (\<lambda>u.
     try_bind (require (url_scheme u = ''https'' \<and> Hostname u \<noteq> [] \<and> \<not> url_user u \<and> url_query u = [] \<and> url_fragment u = [])
       ''provider base must be a credential-free HTTPS URL'') (\<lambda>_.
     try_bind (require (Port u = [] \<or> Port u = ''443'') ''provider base must use the default HTTPS port'') (\<lambda>_.
     try_bind (require (\<not> ParseIP (Hostname u)) ''provider base must use a DNS hostname, not an IP literal'') (\<lambda>_.
     Inr \<lparr>er_host = to_lower (Hostname u), er_port = ''443'', er_prefixes = [rooted_clean (EscapedPath u)],
          er_methods = normalizeMethods methods, er_private = False\<rparr>))))"

definition rule_port :: "egress_rule \<Rightarrow> string" where
  "rule_port r = (if er_port r = [] then ''443'' else er_port r)"

definition Validate_rule :: "egress_rule \<Rightarrow> string + unit" where
  "Validate_rule r =
     try_bind (require (trim_space (er_host r) \<noteq> [] \<and> \<not> ParseIP (er_host r)) ''rule requires a DNS hostname'') (\<lambda>_.
     try_bind (require (rule_port r = ''443'') ''rule permits only HTTPS port 443'') (\<lambda>_.
     try_bind (require (er_prefixes r \<noteq> [] \<and> er_methods r \<noteq> []) ''rule requires path prefixes and methods'') (\<lambda>_.
     require (list_all (\<lambda>p. has_prefix p ''/'' \<and> \<not> contains p ''..'') (er_prefixes r)) ''rule has unsafe path prefix'')))"

fun all_egress :: "egress_rule list \<Rightarrow> string + unit" where
  "all_egress [] = Inr ()"
| "all_egress (r # rs) = try_bind (Validate_rule r) (\<lambda>_. all_egress rs)"

definition Validate_egress :: "egress_rule list \<Rightarrow> string + unit" where
  "Validate_egress rules = try_bind (require (rules \<noteq> []) ''at least one egress rule is required'') (\<lambda>_. all_egress rules)"

subsection \<open>Requests\<close>

definition under_prefix :: "string \<Rightarrow> string \<Rightarrow> bool" where
  "under_prefix prefix p = (let c = path_clean prefix in p = c \<or> has_prefix p (trim_suffix c ''/'' @ ''/''))"

definition rule_admits :: "string \<Rightarrow> url \<Rightarrow> egress_rule \<Rightarrow> bool" where
  "rule_admits method u r = (EqualFold (er_host r) (Hostname u) \<and> containsFold (er_methods r) method
     \<and> list_ex (\<lambda>p. under_prefix p (rooted_clean (EscapedPath u))) (er_prefixes r))"

definition ValidateRequest :: "egress_rule list \<Rightarrow> string \<Rightarrow> url option \<Rightarrow> string + unit" where
  "ValidateRequest rules method target =
     try_bind (fetch target ''request URL is required'') (\<lambda>u.
     try_bind (require (url_scheme u = ''https'' \<and> Hostname u \<noteq> [] \<and> \<not> url_user u \<and> url_fragment u = [])
       ''egress request must use credential-free HTTPS'') (\<lambda>_.
     try_bind (require (Port u = [] \<or> Port u = ''443'') ''egress request must use port 443'') (\<lambda>_.
     try_bind (require (\<not> ParseIP (Hostname u)) ''egress request cannot use an IP literal'') (\<lambda>_.
     require (list_ex (rule_admits method u) rules) ''request is outside the provider egress policy''))))"

text \<open>\<open>RoundTrip\<close> over what the base transport does with a request.\<close>

definition RoundTrip :: "egress_rule list \<Rightarrow> (string \<Rightarrow> url \<Rightarrow> 'w \<Rightarrow> (string + 'r) \<times> 'w) \<Rightarrow> string \<Rightarrow> url option \<Rightarrow> ('w, string, 'r) action" where
  "RoundTrip rules base method target =
     andThen (pass (ValidateRequest rules method target)) (\<lambda>_.
     andThen (pass (fetch target ''request URL is required'')) (\<lambda>u. base method u))"

subsection \<open>Connections\<close>

text \<open>\<open>net.SplitHostPort\<close>.\<close>

definition SplitHostPort :: "string \<Rightarrow> string + string \<times> string" where
  "SplitHostPort s =
     (case cut_last (CHR '':'') s of
        None \<Rightarrow> Inl ''missing port in address''
      | Some (before, port) \<Rightarrow>
          if has_prefix s ''['' then
            (let (inside, rest) = cut (CHR '']'') (tl s) in
             if CHR '']'' \<notin> set s then Inl ''missing ']' in address''
             else if rest = [] then Inl ''missing port in address''
             else if rest \<noteq> CHR '':'' # port then Inl (if hd rest = CHR '':'' then ''too many colons in address'' else ''missing port in address'')
             else if CHR ''['' \<in> set (tl s) then Inl ''unexpected '[' in address''
             else if CHR '']'' \<in> set rest then Inl ''unexpected ']' in address''
             else Inr (inside, port))
          else if CHR '':'' \<in> set before then Inl ''too many colons in address''
          else if CHR ''['' \<in> set s then Inl ''unexpected '[' in address''
          else if CHR '']'' \<in> set s then Inl ''unexpected ']' in address''
          else Inr (before, port))"

definition ruleForHost :: "egress_rule list \<Rightarrow> string \<Rightarrow> string \<Rightarrow> egress_rule option" where
  "ruleForHost rules host port = List.find (\<lambda>r. EqualFold (er_host r) host \<and> rule_port r = port) rules"

fun checked_addresses :: "bool \<Rightarrow> 8 word list list \<Rightarrow> string + ip_addr list" where
  "checked_addresses private [] = Inr []"
| "checked_addresses private (bs # rest) =
     try_bind (fetch (AddrFromSlice bs) ''provider DNS answer is invalid'') (\<lambda>a.
     try_bind (require (private \<or> \<not> forbidden (Unmap a)) ''provider DNS answer is not globally routable'') (\<lambda>_.
     try_bind (checked_addresses private rest) (\<lambda>as. Inr (Unmap a # as))))"

text \<open>The addresses of a destination in the order they are tried.\<close>

definition dial_targets :: "egress_rule list \<Rightarrow> (string \<Rightarrow> string + 8 word list list) \<Rightarrow> string \<Rightarrow> string \<Rightarrow> string + ip_addr list" where
  "dial_targets rules lookup host port =
     try_bind (fetch (ruleForHost rules host port) ''dial destination is outside the provider egress policy'') (\<lambda>r.
     try_bind (map_sum (\<lambda>e. ''resolve provider host: '' @ e) id (lookup host)) (\<lambda>answers.
     try_bind (require (answers \<noteq> []) ''provider host resolved to no addresses'') (\<lambda>_.
     try_bind (checked_addresses (er_private r) answers) (\<lambda>ips. Inr (sort_key ip_text ips)))))"

fun dial_all :: "(ip_addr \<Rightarrow> string \<Rightarrow> 'w \<Rightarrow> (string + 'c) \<times> 'w) \<Rightarrow> string \<Rightarrow> string \<Rightarrow> ip_addr list \<Rightarrow> ('w, string, 'c) action" where
  "dial_all dial port err [] w = (Inl (''connect to provider: '' @ err), w)"
| "dial_all dial port err (a # as) w =
     (case dial a port w of (Inr c, w1) \<Rightarrow> (Inr c, w1) | (Inl e, w1) \<Rightarrow> dial_all dial port e as w1)"

definition dialContext ::
  "egress_rule list \<Rightarrow> (string \<Rightarrow> string + 8 word list list) \<Rightarrow> (ip_addr \<Rightarrow> string \<Rightarrow> 'w \<Rightarrow> (string + 'c) \<times> 'w) \<Rightarrow> string \<Rightarrow> ('w, string, 'c) action" where
  "dialContext rules lookup dial address =
     andThen (pass (SplitHostPort address)) (\<lambda>(host, port).
     andThen (pass (dial_targets rules lookup host port)) (\<lambda>ips. dial_all dial port [] ips))"

subsection \<open>What the policy guarantees\<close>

text \<open>A path is below another one segment by segment.\<close>

lemma split_on_append: "split_on c (a @ c # b) = split_on c a @ split_on c b"
  by (induction a) (auto split: list.splits)

definition below :: "string \<Rightarrow> string \<Rightarrow> bool" where
  "below prefix p = (\<exists>ps zs. prefix = CHR ''/'' # join ''/'' ps \<and> p = CHR ''/'' # join ''/'' (ps @ zs) \<and> dotdot \<notin> set (ps @ zs))"

lemma join_last:
  "xs \<noteq> [] \<Longrightarrow> \<forall>x \<in> set xs. x \<noteq> [] \<and> c \<notin> set x \<Longrightarrow> join [c] xs \<noteq> [] \<and> last (join [c] xs) \<noteq> c"
  by (induction "[c]" xs rule: join.induct) auto

lemma has_prefixD: "has_prefix s p \<Longrightarrow> \<exists>rest. s = p @ rest"
  unfolding has_prefix_def by (metis append_take_drop_id)

lemma under_prefix_below:
  assumes "under_prefix prefix (rooted_clean p)" and "has_prefix prefix ''/''"
  shows "below (path_clean prefix) (rooted_clean p)"
proof -
  let ?c = "CHR ''/''"
  obtain xs where xs: "rooted_clean p = ?c # join ''/'' xs" "\<forall>x \<in> set xs. x \<noteq> [] \<and> x \<noteq> ''.'' \<and> x \<noteq> dotdot \<and> ?c \<notin> set x"
    using path_clean_rooted [of "?c # (if has_prefix p ''/'' then tl p else p)"] by (auto simp: rooted_clean_def)
  have "prefix \<noteq> []" "hd prefix = ?c" using assms(2) by (cases prefix; simp add: has_prefix_def)+
  then obtain ps where ps: "path_clean prefix = ?c # join ''/'' ps" "\<forall>x \<in> set ps. x \<noteq> [] \<and> x \<noteq> ''.'' \<and> x \<noteq> dotdot \<and> ?c \<notin> set x"
    using path_clean_rooted by blast
  have free: "dotdot \<notin> set xs" "dotdot \<notin> set ps" using xs(2) ps(2) by blast+
  show ?thesis
  proof (cases "rooted_clean p = path_clean prefix")
    case True
    with ps(1) free(2) show ?thesis unfolding below_def by (intro exI [of _ ps] exI [of _ "[]"]) simp
  next
    case False
    then have pre: "has_prefix (rooted_clean p) (trim_suffix (path_clean prefix) ''/'' @ ''/'')"
      using assms(1) by (simp add: under_prefix_def Let_def)
    show ?thesis
    proof (cases "ps = []")
      case True
      with xs(1) ps(1) free(1) show ?thesis unfolding below_def by (intro exI [of _ "[]"] exI [of _ xs]) simp
    next
      case ne: False
      then have "join ''/'' ps \<noteq> []" "last (join ''/'' ps) \<noteq> ?c" using join_last [of ps ?c] ps(2) by auto
      then have "\<not> has_suffix (path_clean prefix) ''/''"
        by (cases "join ''/'' ps" rule: rev_cases) (auto simp: ps(1) has_suffix_def has_prefix_def)
      then have trim: "trim_suffix (path_clean prefix) ''/'' = path_clean prefix" by (simp add: trim_suffix_def)
      obtain rest where "rooted_clean p = (path_clean prefix @ ''/'') @ rest"
        using has_prefixD [OF pre [unfolded trim]] by blast
      then have eq: "join ''/'' xs = join ''/'' ps @ ?c # rest" by (simp add: xs(1) ps(1))
      then have "xs \<noteq> []" by auto
      with xs(2) ps(2) ne eq have "xs = ps @ split_on ?c rest"
        using split_on_join [of xs ?c] split_on_join [of ps ?c] split_on_append [of ?c "join ''/'' ps" rest] by auto
      with xs(1) ps(1) free(1) show ?thesis unfolding below_def by blast
    qed
  qed
qed

text \<open>What is known of an answer that passed, and of the address made of it.\<close>

definition answer_address :: "8 word list \<Rightarrow> ip_addr option" where
  "answer_address bs = map_option Unmap (AddrFromSlice bs)"

lemma checked_public:
  "checked_addresses private bss = Inr as \<Longrightarrow>
     (\<forall>a \<in> set as. \<exists>bs \<in> set bss. answer_address bs = Some a)
     \<and> (\<forall>bs \<in> set bss. \<exists>a. answer_address bs = Some a \<and> (private \<or> \<not> forbidden a))"
proof (induction bss arbitrary: as)
  case (Cons b bss)
  then obtain x rest where x: "AddrFromSlice b = Some x" "private \<or> \<not> forbidden (Unmap x)" "checked_addresses private bss = Inr rest" "as = Unmap x # rest"
    by (auto simp: try_bind_Inr fetch_Inr require_Inr)
  have b: "answer_address b = Some (Unmap x)" using x(1) by (simp add: answer_address_def)
  from Cons.IH [OF x(3)] show ?case unfolding x(4) using b x(2) by (metis (no_types, lifting) list.set_intros(1) list.set_intros(2) set_ConsD)
qed simp

lemma dial_targets_ok:
  assumes "dial_targets rules lookup host port = Inr ips"
  shows "\<exists>r answers. ruleForHost rules host port = Some r \<and> lookup host = Inr answers
     \<and> (\<forall>a \<in> set ips. \<exists>bs \<in> set answers. answer_address bs = Some a)
     \<and> (\<forall>bs \<in> set answers. \<exists>a. answer_address bs = Some a \<and> (er_private r \<or> \<not> forbidden a))"
proof -
  obtain r answers as where r: "ruleForHost rules host port = Some r" "map_sum (\<lambda>e. ''resolve provider host: '' @ e) id (lookup host) = Inr answers"
      "checked_addresses (er_private r) answers = Inr as" "ips = sort_key ip_text as"
    using assms by (auto simp: dial_targets_def try_bind_Inr fetch_Inr)
  then have "lookup host = Inr answers" by (cases "lookup host") auto
  with r checked_public [OF r(3)] show ?thesis by (intro exI [of _ r] exI [of _ answers]) auto
qed

lemma ruleForHost_Some:
  "ruleForHost rules host port = Some r \<Longrightarrow> r \<in> set rules \<and> EqualFold (er_host r) host \<and> rule_port r = port"
  by (auto simp: ruleForHost_def find_Some_iff)

text \<open>A connection that keeps a log of the attempts.\<close>

definition logged :: "(ip_addr \<Rightarrow> string \<Rightarrow> string + 'c) \<Rightarrow> ip_addr \<Rightarrow> string \<Rightarrow> (ip_addr \<times> string) list \<Rightarrow> (string + 'c) \<times> (ip_addr \<times> string) list" where
  "logged f a port w = (f a port, w @ [(a, port)])"

lemma dial_all_log: "set (snd (dial_all (logged f) port e as w)) \<subseteq> set w \<union> (\<lambda>a. (a, port)) ` set as"
proof (induction as arbitrary: e w)
  case (Cons a as)
  show ?case using Cons.IH [of _ "w @ [(a, port)]"] by (cases "f a port") (fastforce simp: logged_def)+
qed simp

lemma valid_rules: "all_egress rules = Inr u \<Longrightarrow> r \<in> set rules \<Longrightarrow> Validate_rule r = Inr ()"
  by (induction rules) (auto simp: try_bind_Inr)

text \<open>A base transport that keeps a log of the requests it is given.\<close>

definition recorded :: "(string \<Rightarrow> url \<Rightarrow> string + 'r) \<Rightarrow> string \<Rightarrow> url \<Rightarrow> (string \<times> url) list \<Rightarrow> (string + 'r) \<times> (string \<times> url) list" where
  "recorded f method u w = (f method u, w @ [(method, u)])"

lemma RoundTrip_sent:
  "(m, u) \<in> set (snd (RoundTrip rules (recorded f) method target [])) \<Longrightarrow>
     ValidateRequest rules method target = Inr () \<and> m = method \<and> target = Some u"
  by (auto simp: RoundTrip_def andThen_def pass_def recorded_def fetch_def split: sum.splits option.splits)

text \<open>C33. No request leaves the policy: under a valid policy, every request that the round trip hands to the base
  transport, whatever that answers, is the one it was given, and is HTTPS to port 443 of a host by name, without user
  information, and one rule has its host, its method and a prefix such that the cleaned path lies segment by segment
  below the prefix and has no \<open>..\<close> segment.\<close>

theorem requests_stay_in_policy:
  assumes "Validate_egress rules = Inr ()" and "(m, u) \<in> set (snd (RoundTrip rules (recorded f) method target []))"
  shows "m = method \<and> target = Some u \<and> url_scheme u = ''https'' \<and> \<not> url_user u \<and> Port u \<in> {[], ''443''} \<and> \<not> ParseIP (Hostname u)
     \<and> (\<exists>r \<in> set rules. EqualFold (er_host r) (Hostname u) \<and> containsFold (er_methods r) method
          \<and> (\<exists>prefix \<in> set (er_prefixes r). below (path_clean prefix) (rooted_clean (EscapedPath u))))"
proof -
  note sent = RoundTrip_sent [OF assms(2)]
  have u: "url_scheme u = ''https''" "\<not> url_user u" "Port u \<in> {[], ''443''}" "\<not> ParseIP (Hostname u)"
      "list_ex (rule_admits method u) rules"
    using sent by (auto simp: ValidateRequest_def try_bind_Inr)
  from u(5) obtain r prefix where r: "r \<in> set rules" "EqualFold (er_host r) (Hostname u)" "containsFold (er_methods r) method"
      "prefix \<in> set (er_prefixes r)" "under_prefix prefix (rooted_clean (EscapedPath u))"
    by (auto simp: list_ex_iff rule_admits_def)
  have "has_prefix prefix ''/''"
    using valid_rules [OF _ r(1)] assms(1) r(4) by (auto simp: Validate_egress_def Validate_rule_def try_bind_Inr list_all_iff)
  with u r sent under_prefix_below show ?thesis by blast
qed

definition rules0 :: "egress_rule list" where
  "rules0 = [\<lparr>er_host = ''api.github.com'', er_port = ''443'', er_prefixes = [''/repos''], er_methods = [''GET''], er_private = False\<rparr>]"

definition target0 :: url where
  "target0 = \<lparr>url_scheme = ''https'', url_opaque = [], url_user = False, url_host = ''api.github.com'', url_path = ''/repos/a/../b'',
     url_rawpath = [], url_query = [], url_fragment = []\<rparr>"

theorem requests_stay_in_policy_witness:
  "snd (RoundTrip rules0 (recorded (\<lambda>m u. Inr ())) ''GET'' (Some target0) []) = [(''GET'', target0)]
   \<and> (\<exists>r \<in> set rules0. EqualFold (er_host r) (Hostname target0) \<and> containsFold (er_methods r) ''GET''
     \<and> (\<exists>prefix \<in> set (er_prefixes r). below (path_clean prefix) (rooted_clean (EscapedPath target0))))"
proof -
  have valid: "Validate_egress rules0 = Inr ()" by code_simp
  have "ValidateRequest rules0 ''GET'' (Some target0) = Inr ()" by code_simp
  then have sent: "snd (RoundTrip rules0 (recorded (\<lambda>m u. Inr ())) ''GET'' (Some target0) []) = [(''GET'', target0)]"
    by (simp add: RoundTrip_def andThen_def pass_def recorded_def fetch_def)
  then have "(''GET'', target0) \<in> set (snd (RoundTrip rules0 (recorded (\<lambda>m u. Inr ())) ''GET'' (Some target0) []))" by simp
  with requests_stay_in_policy [OF valid this] sent show ?thesis by blast
qed

text \<open>C34. Where the transport connects to: under a valid policy, every address that it tries is one that DNS answered
  for the host of the dialled address, on port 443, under the rule that the policy selects for that host; and unless
  that rule allows private ones, neither this address nor any other answer for the host is in one of the special
  ranges (unspecified, loopback, multicast, link-local, private, shared, documentation and benchmark addresses).\<close>

theorem connections_stay_public:
  assumes "Validate_egress rules = Inr ()" and "(a, port) \<in> set (snd (dialContext rules lookup (logged f) address []))"
  shows "port = ''443'' \<and> (\<exists>host r answers. SplitHostPort address = Inr (host, port)
     \<and> ruleForHost rules host port = Some r \<and> r \<in> set rules \<and> EqualFold (er_host r) host
     \<and> lookup host = Inr answers \<and> (\<exists>bs \<in> set answers. answer_address bs = Some a)
     \<and> (er_private r \<or> \<not> forbidden a)
     \<and> (\<forall>bs \<in> set answers. \<exists>b. answer_address bs = Some b \<and> (er_private r \<or> \<not> forbidden b)))"
proof -
  obtain host p where hp: "SplitHostPort address = Inr (host, p)"
    using assms(2) by (cases "SplitHostPort address") (auto simp: dialContext_def andThen_def pass_def)
  obtain ips where ips: "dial_targets rules lookup host p = Inr ips"
    using assms(2) hp by (cases "dial_targets rules lookup host p") (auto simp: dialContext_def andThen_def pass_def)
  then have "(a, port) \<in> set (snd (dial_all (logged f) p [] ips []))"
    using assms(2) hp by (simp add: dialContext_def andThen_def pass_def)
  then have a: "a \<in> set ips" "port = p" using dial_all_log [of f p "[]" ips "[]"] by auto
  obtain r answers where r: "ruleForHost rules host p = Some r" "lookup host = Inr answers"
      "\<exists>bs \<in> set answers. answer_address bs = Some a"
      "\<forall>bs \<in> set answers. \<exists>b. answer_address bs = Some b \<and> (er_private r \<or> \<not> forbidden b)"
    using dial_targets_ok [OF ips] a(1) by blast
  have "er_private r \<or> \<not> forbidden a" using r(3,4) by fastforce
  moreover have "rule_port r = ''443''"
    using valid_rules [of rules _ r] ruleForHost_Some [OF r(1)] assms(1) by (auto simp: Validate_egress_def Validate_rule_def try_bind_Inr)
  ultimately show ?thesis using hp a(2) r ruleForHost_Some [OF r(1)] by blast
qed

theorem connections_stay_public_witness:
  "\<exists>r. ruleForHost rules0 ''api.github.com'' ''443'' = Some r \<and> (er_private r \<or> \<not> forbidden (V4 0x8C527003))"
proof -
  have valid: "Validate_egress rules0 = Inr ()" by code_simp
  have split: "SplitHostPort ''api.github.com:443'' = Inr (''api.github.com'', ''443'')" by code_simp
  have "AddrFromSlice [140, 82, 112, 3] = Some (V4 0x8C527003)" by (simp add: AddrFromSlice_def word_rcat_def)
  then have checked: "checked_addresses False [[140, 82, 112, 3]] = Inr [V4 0x8C527003]"
    by (simp add: try_bind_def fetch_def require_def forbidden_examples)
  have "ruleForHost rules0 ''api.github.com'' ''443'' = Some (hd rules0)" "er_private (hd rules0) = False"
    by (simp_all add: ruleForHost_def rules0_def EqualFold_def rule_port_def)
  then have "dial_targets rules0 (\<lambda>h. Inr [[140, 82, 112, 3]]) ''api.github.com'' ''443'' = Inr [V4 0x8C527003]"
    using checked by (simp add: dial_targets_def try_bind_def fetch_def require_def del: checked_addresses.simps)
  then have "(V4 0x8C527003, ''443'') \<in> set (snd (dialContext rules0 (\<lambda>h. Inr [[140, 82, 112, 3]]) (logged (\<lambda>a p. Inr ())) ''api.github.com:443'' []))"
    by (simp add: dialContext_def andThen_def pass_def split logged_def)
  from connections_stay_public [OF valid this] split show ?thesis by auto
qed

end
