(* ===== verification/PolicySim.thy ===== *)
theory PolicySim
  imports VerificationOrder LedgerProperties
begin

text \<open>
  The explanation of a verification contract (\<open>internal/policysim/policy.go\<close>): the order of its checks, warnings, and
  the outcome that given statuses would lead to.  The simulation and the engine agree up to the secret scan:
  fed with the statuses that the executed checks of a run gave, it predicts every status and the outcome of the run
  unless the scan, of which it knows nothing, blocked it.
\<close>

subsection \<open>Explain\<close>

record check_explanation =
  ce_check :: string
  ce_required :: bool
  ce_executor :: string
  ce_type :: string
  ce_depends :: "string list"
  ce_simulated :: string
  ce_explanation :: string

record simulation =
  sm_contract :: string
  sm_policy :: string
  sm_order :: "string list"
  sm_checks :: "check_explanation list"
  sm_warnings :: "string list"
  sm_simulated :: bool
  sm_outcome :: string

definition simulated_statuses :: "string list" where
  "simulated_statuses = [''pass'', ''fail'', ''error'', ''timeout'', ''blocked'', ''cancelled'']"

text \<open>The statuses decided so far are a list of pairs, the latest first.\<close>

definition decided :: "string \<Rightarrow> (string \<times> string) list \<Rightarrow> string" where
  "decided i result = (case map_of result i of None \<Rightarrow> [] | Some s \<Rightarrow> s)"

definition simulated_status :: "(string \<times> string) list \<Rightarrow> bool \<Rightarrow> (string \<times> string) list \<Rightarrow> contract_check \<Rightarrow> string" where
  "simulated_status statuses assumePass result c =
     (if list_ex (\<lambda>d. decided d result \<noteq> ''pass'') (kc_depends c) then ''blocked''
      else case map_of statuses (kc_id c) of
             Some s \<Rightarrow> s
           | None \<Rightarrow> if assumePass then ''pass'' else ''error'')"

fun simulate :: "(string \<times> string) list \<Rightarrow> bool \<Rightarrow> contract_check list \<Rightarrow> (string \<times> string) list \<Rightarrow> (contract_check \<times> string) list" where
  "simulate statuses assumePass [] result = []"
| "simulate statuses assumePass (c # cs) result =
     (let s = simulated_status statuses assumePass result c
      in (c, s) # simulate statuses assumePass cs ((kc_id c, s) # result))"

definition explain_check :: "contract_check \<Rightarrow> string \<Rightarrow> check_explanation" where
  "explain_check c s =
     \<lparr>ce_check = kc_id c, ce_required = kc_required c, ce_executor = kc_executor c, ce_type = kc_type c, ce_depends = kc_depends c,
      ce_simulated = s,
      ce_explanation = kc_type c @ '' check using '' @ kc_executor c
        @ (if kc_required c then ''; required for transaction readiness'' else ''; advisory only'')\<rparr>"

definition check_warnings :: "contract_check \<Rightarrow> string list" where
  "check_warnings c =
     (if kc_executor c = ''local_command'' then [kc_id c @ '' uses local_command and must remain disabled in enforced mode''] else [])
     @ (if (kc_executor c = ''local_command'' \<or> kc_executor c = ''oci_command'') \<and> kc_timeout c \<le> 0
        then [kc_id c @ '' has no explicit timeout''] else [])
     @ (if \<not> kc_required c then [kc_id c @ '' cannot block readiness because it is optional''] else [])"

fun simulated_loop :: "(contract_check \<times> string) list \<Rightarrow> nat \<Rightarrow> string \<Rightarrow> nat \<times> string" where
  "simulated_loop [] required res = (required, res)"
| "simulated_loop ((c, s) # rest) required res =
     (if \<not> kc_required c then simulated_loop rest required res
      else if s = ''error'' \<or> s = ''cancelled'' then (required + 1, ''error'')
      else simulated_loop rest (required + 1) (if s \<noteq> ''pass'' \<and> res = ''pass'' then ''fail'' else res))"

definition simulated_outcome :: "(contract_check \<times> string) list \<Rightarrow> string" where
  "simulated_outcome rs = (let (required, res) = simulated_loop rs 0 ''pass'' in if required = 0 then ''error'' else res)"

definition Explain :: "contract \<Rightarrow> (string \<times> string) list option \<Rightarrow> bool \<Rightarrow> string + simulation" where
  "Explain k statuses assumePass =
     try_bind (Validate_contract k) (\<lambda>_.
     try_bind (Topological (kt_checks k)) (\<lambda>order.
     let given = (case statuses of None \<Rightarrow> [] | Some xs \<Rightarrow> xs); simulated = (statuses \<noteq> None \<or> assumePass);
         results = (if simulated then simulate given assumePass order [] else map (\<lambda>c. (c, [])) order) in
     try_bind (require (list_all (\<lambda>(i, s). s \<in> set simulated_statuses) given) ''unsupported simulated status'') (\<lambda>_.
     Inr \<lparr>sm_contract = kt_id k, sm_policy = kt_policy k, sm_order = map kc_id order, sm_checks = map (\<lambda>(c, s). explain_check c s) results,
          sm_warnings = sort (concat (map check_warnings order)), sm_simulated = simulated,
          sm_outcome = (if simulated then simulated_outcome results else [])\<rparr>)))"

subsection \<open>The simulation and the engine\<close>

lemma simulated_loop_spec:
  "res \<in> {''pass'', ''fail''} \<Longrightarrow> list_all2 (\<lambda>(c, s) r. kc_required c = ck_required r \<and> s = ck_status r) xs rs \<Longrightarrow>
     (let (n', res') = simulated_loop xs n res in if n' = 0 then ''error'' else res') = outcome_loop rs n (res = ''pass'')"
proof (induction xs n res arbitrary: rs rule: simulated_loop.induct)
  case (2 c s rest n res)
  from 2(4) obtain r rs' where rs: "rs = r # rs'" "kc_required c = ck_required r" "s = ck_status r"
      "list_all2 (\<lambda>(c, s) r. kc_required c = ck_required r \<and> s = ck_status r) rest rs'"
    by (auto simp: list_all2_Cons1)
  consider "\<not> kc_required c" | "kc_required c" "s = ''error'' \<or> s = ''cancelled''"
    | "kc_required c" "\<not> (s = ''error'' \<or> s = ''cancelled'')" by blast
  then show ?case
  proof cases
    case 1 with 2(1) [OF _ 2(3) rs(4)] rs show ?thesis by simp
  next
    case 2 with rs show ?thesis by simp
  next
    case 3
    have "(if s \<noteq> ''pass'' \<and> res = ''pass'' then ''fail'' else res) \<in> {''pass'', ''fail''}" using 2(3) by auto
    from 2(2) [OF _ 3(2) this rs(4)] 3 rs 2(3) show ?thesis by auto
  qed
qed (auto simp: list_all2_Nil)

lemma assertion_status: "executeAssertion fs root c = Inr (s, m) \<Longrightarrow> s \<noteq> ''blocked''"
  unfolding executeAssertion_def try_bind_Inr Let_def
  by (elim exE conjE) (auto split: if_splits option.splits file_lookup.splits file_kind.splits)

lemma oci_status_blocked: "fst (oci_status r) \<noteq> ''blocked''"
  by (simp add: oci_status_def Let_def)

lemma execute_check_status:
  assumes "execute_check eng en i tid ws c w = (Inr (s, m, e), w')" shows "s \<noteq> ''blocked''"
proof -
  have "executeOCI eng en i tid ws c w = (Inr (s, m, e), w') \<Longrightarrow> s \<noteq> ''blocked''" for w
    unfolding executeOCI_def Let_def
    by (cases "vg_oci eng") (auto simp: action_simps case_prod_beta oci_status_blocked)
  moreover have "executeCommand eng root c w = (Inr (s, m), w') \<Longrightarrow> s \<noteq> ''blocked''" for root w w' m
    by (auto simp: executeCommand_def Let_def split: prod.splits command_outcome.splits)
  moreover have "map_sum id (\<lambda>(s, m). (s, m, [])) (executeAssertion fs root c) = Inr (s, m, e) \<Longrightarrow> s \<noteq> ''blocked''" for fs root
    by (cases "executeAssertion fs root c") (auto dest: assertion_status)
  ultimately show ?thesis
    using assms by (auto simp: execute_check_def action_simps split: if_splits)
qed

definition mirrors :: "contract_check \<times> string \<Rightarrow> check_result \<Rightarrow> bool" where
  "mirrors x r = (kc_id (fst x) = ck_id r \<and> kc_required (fst x) = ck_required r \<and> snd x = ck_status r)"

lemma result_status_snoc: "result_status d (rs @ [r]) = (if d = ck_id r then ck_status r else result_status d rs)"
  by (simp add: result_status_def table_simps)

lemma decided_Cons: "decided d ((i, s) # xs) = (if d = i then s else decided d xs)"
  by (simp add: decided_def)

lemma run_checks_appends:
  "run_checks eng en tid ws p b i cs acc w = (Inr rs, w') \<Longrightarrow> \<exists>new. rs = acc @ new \<and> map ck_id new = map kc_id cs
     \<and> map ck_required new = map kc_required cs \<and> (b \<longrightarrow> (\<forall>r \<in> set new. ck_status r = ''blocked''))"
proof (induction cs arbitrary: i acc w)
  case (Cons c cs)
  from Cons.prems obtain out w1 where out: "b \<Longrightarrow> fst out = ''blocked''"
      and rest: "run_checks eng en tid ws p b (i + 1) cs (acc @ [check_outcome c p out]) w1 = (Inr rs, w')"
    by (auto simp: action_simps split: if_splits)
  obtain new where new: "rs = (acc @ [check_outcome c p out]) @ new" "map ck_id new = map kc_id cs" "map ck_required new = map kc_required cs"
      "b \<longrightarrow> (\<forall>r \<in> set new. ck_status r = ''blocked'')"
    using Cons.IH [OF rest] by blast
  have "ck_id (check_outcome c p out) = kc_id c" "ck_required (check_outcome c p out) = kc_required c" "ck_status (check_outcome c p out) = fst out"
    by (simp_all add: check_outcome_def Let_def split: prod.splits)
  with new out show ?case by (intro exI [of _ "check_outcome c p out # new"]) auto
qed (simp add: action_simps)

lemma run_checks_mirrored:
  assumes "run_checks eng en tid ws p False i cs results w = (Inr rs, w')"
    and "\<And>d. d \<in> seen \<Longrightarrow> decided d given = result_status d results" and "ordered_checks seen cs"
    and "\<And>r. r \<in> set (drop (length results) rs) \<Longrightarrow> ck_status r \<noteq> ''blocked'' \<Longrightarrow> map_of st (ck_id r) = Some (ck_status r)"
  shows "\<exists>new. rs = results @ new \<and> list_all2 mirrors (simulate st assumePass cs given) new"
  using assms
proof (induction cs arbitrary: i results given w seen)
  case Nil
  then show ?case by (simp add: action_simps)
next
  case (Cons c cs)
  let ?blocked = "list_ex (\<lambda>d. result_status d results \<noteq> ''pass'') (kc_depends c)"
  obtain s m e w1 where out: "(if ?blocked then give (''blocked'', ''one or more dependencies did not pass'', []) else execute_check eng en i tid ws c) w
        = (Inr (s, m, e), w1)"
      and rest: "run_checks eng en tid ws p False (i + 1) cs (results @ [check_outcome c p (s, m, e)]) w1 = (Inr rs, w')"
    using Cons.prems(1) by (auto simp: action_simps)
  let ?r = "check_outcome c p (s, m, e)"
  have r: "ck_id ?r = kc_id c" "ck_required ?r = kc_required c" "ck_status ?r = s" by (simp_all add: check_outcome_def Let_def)
  obtain new0 where rs: "rs = (results @ [?r]) @ new0" using run_checks_appends [OF rest] by blast
  then have "s \<noteq> ''blocked'' \<Longrightarrow> map_of st (kc_id c) = Some s" using Cons.prems(4) [of ?r] r by simp
  moreover have "\<forall>d \<in> set (kc_depends c). decided d given = result_status d results" using Cons.prems(2,3) by auto
  then have "?blocked = list_ex (\<lambda>d. decided d given \<noteq> ''pass'') (kc_depends c)" by (simp add: list_ex_iff)
  ultimately have status: "simulated_status st assumePass given c = s"
    using out execute_check_status [of eng en i tid ws c w s m e w1] by (cases ?blocked) (auto simp: simulated_status_def action_simps)
  have decide: "decided d ((kc_id c, s) # given) = result_status d (results @ [?r])" if "d \<in> insert (kc_id c) seen" for d
    using that Cons.prems(2) by (auto simp: decided_Cons result_status_snoc r)
  have "ordered_checks (insert (kc_id c) seen) cs" using Cons.prems(3) by simp
  moreover have "map_of st (ck_id x) = Some (ck_status x)"
    if "x \<in> set (drop (length (results @ [?r])) rs)" "ck_status x \<noteq> ''blocked''" for x
    using that rs Cons.prems(4) [of x] by simp
  ultimately obtain new where
    "rs = (results @ [?r]) @ new" "list_all2 mirrors (simulate st assumePass cs ((kc_id c, s) # given)) new"
    using Cons.IH [OF rest decide] by blast
  then show ?case by (intro exI [of _ "?r # new"]) (simp add: status Let_def r mirrors_def [of "(c, s)"])
qed

text \<open>What a valid contract fixes for its checks.\<close>

lemma contract_ids_distinct:
  "contract_ids cs ids = Inr out \<Longrightarrow> distinct ids \<Longrightarrow> distinct (map kc_id cs) \<and> set (map kc_id cs) \<inter> set ids = {} \<and> set out = set ids \<union> kc_id ` set cs"
  by (induction cs ids rule: contract_ids.induct) (auto split: if_splits)

lemma Topological_ordered:
  assumes "Validate_contract k = Inr ()" and "Topological (kt_checks k) = Inr order"
  shows "mset order = mset (kt_checks k) \<and> ordered_checks {} order \<and> list_ex kc_required order"
proof -
  obtain ids where ids: "contract_ids (kt_checks k) [] = Inr ids" "list_all (\<lambda>c. set (kc_depends c) \<subseteq> set ids) (kt_checks k)"
      and required: "list_ex kc_required (kt_checks k)"
    using assms(1) by (auto simp: Validate_contract_def try_bind_Inr)
  then have d: "distinct (map kc_id (kt_checks k))" "\<forall>c \<in> set (kt_checks k). set (kc_depends c) \<subseteq> kc_id ` set (kt_checks k)"
    using contract_ids_distinct [OF ids(1)] by (auto simp: list_all_iff)
  have "topo_loop (\<lambda>i. the (find_row kc_id i (rev (kt_checks k)))) (left_checks (kt_checks k) []) [] = Inr order"
    using pending_start [OF d(1), of "[]"] assms(2) by (simp add: Topological_def)
  then have "mset order = mset (kt_checks k) \<and> ordered_checks {} order"
    using topo_loop_spec [OF d, of "[]"] by simp
  moreover from this required have "list_ex kc_required order" by (metis list_ex_iff mset_eq_setD)
  ultimately show ?thesis by blast
qed

lemma secret_result_fields:
  "ck_id (secret_result report path) = ''futurediff.secret_scan''" "ck_required (secret_result report path)"
  "ck_status (secret_result report path) = (if sr_blocking report then ''fail'' else ''pass'')"
  by (simp_all add: secret_result_def)

lemma scan_secrets_ok:
  assumes "scan_secrets eng ws p w = (Inr (first, blocked), w')"
  shows "(vg_scanner eng = None \<longrightarrow> first = [] \<and> \<not> blocked)
     \<and> (vg_scanner eng \<noteq> None \<longrightarrow> (\<exists>r. first = [r] \<and> ck_id r = ''futurediff.secret_scan'' \<and> ck_required r
          \<and> ck_status r = (if blocked then ''fail'' else ''pass'')))"
proof (cases "vg_scanner eng")
  case None
  with assms show ?thesis by (simp add: scan_secrets_def give_Inr)
next
  case (Some scan)
  then obtain report path where "first = [secret_result report path]" "blocked = sr_blocking report"
    using assms unfolding scan_secrets_def Let_def by (simp add: andThen_Inr give_Inr) blast
  then show ?thesis using Some secret_result_fields by simp
qed

lemma run_parts:
  assumes "RunWithMaterial eng en tid ws p k material w = (Inr report, w')"
  shows "\<exists>order first blocked w1 w2. Validate_contract k = Inr () \<and> Topological (kt_checks k) = Inr order
     \<and> scan_secrets eng ws p w1 = (Inr (first, blocked), w2)
     \<and> run_checks eng en tid ws p blocked 1 order first w2 = (Inr (vr_results report), w')
     \<and> vr_outcome report = verification_Outcome (vr_results report)"
proof -
  obtain u order x rs w1 w2 w3 where "Validate_contract k = Inr u" "Topological (kt_checks k) = Inr order"
      "scan_secrets eng ws p w1 = (Inr x, w2)" "run_checks eng en tid ws p (snd x) 1 order (fst x) w2 = (Inr rs, w3)" "w' = w3"
      "vr_results report = rs \<and> vr_outcome report = verification_Outcome rs"
    using assms unfolding RunWithMaterial_def Let_def andThen_Inr pass_Inr check_Inr give_Inr case_prod_unfold
    by (elim exE conjE) (rule that; (assumption | simp))
  then show ?thesis by (cases x) auto
qed

lemma Outcome_scanned:
  assumes "ck_required r"
  shows "ck_status r = ''fail'' \<Longrightarrow> (\<And>x. x \<in> set rs \<Longrightarrow> ck_status x = ''blocked'') \<Longrightarrow> verification_Outcome (r # rs) = ''fail''"
    and "ck_status r = ''pass'' \<Longrightarrow> list_ex ck_required rs \<Longrightarrow> verification_Outcome (r # rs) = verification_Outcome rs"
  using assms by (auto simp: verification_Outcome_def outcome_loop_spec list_ex_iff)

text \<open>The results of the contract's own checks: the secret scan, when the engine has a scanner, adds one in front.\<close>

definition contract_results :: "'w engine \<Rightarrow> verification_report \<Rightarrow> check_result list" where
  "contract_results eng report = (if vg_scanner eng = None then vr_results report else tl (vr_results report))"

definition scan_failed :: "'w engine \<Rightarrow> verification_report \<Rightarrow> bool" where
  "scan_failed eng report = (vg_scanner eng \<noteq> None \<and> ck_status (hd (vr_results report)) \<noteq> ''pass'')"

text \<open>C35. What the simulation predicts of the engine.  Whenever a verification completes, its results are, after the one
  of the secret scan if a scanner is set, those of the contract's checks in the order that the simulation reports.
  If the scan found nothing to block (or there is none) and the simulation is given for every check that was
  executed the status it had, it reports the same statuses, the blocked checks included, and the same outcome.  If the
  scan blocked, every check of the contract is blocked and the outcome is \<open>fail\<close>, which the simulation, knowing nothing
  of the scan, does not show.\<close>

theorem simulation_predicts_outcome:
  assumes "RunWithMaterial eng en tid ws p k material w = (Inr report, w')" and "Explain k (Some st) assumePass = Inr sim"
    and "\<And>r. r \<in> set (contract_results eng report) \<Longrightarrow> ck_status r \<noteq> ''blocked'' \<Longrightarrow> map_of st (ck_id r) = Some (ck_status r)"
  shows "sm_order sim = map ck_id (contract_results eng report)
     \<and> (vg_scanner eng \<noteq> None \<longrightarrow> vr_results report = hd (vr_results report) # contract_results eng report
          \<and> ck_id (hd (vr_results report)) = ''futurediff.secret_scan'')
     \<and> (if scan_failed eng report
        then vr_outcome report = ''fail'' \<and> (\<forall>r \<in> set (contract_results eng report). ck_status r = ''blocked'')
        else map ce_simulated (sm_checks sim) = map ck_status (contract_results eng report) \<and> sm_outcome sim = vr_outcome report)"
proof -
  obtain order first blocked w1 w2 where valid: "Validate_contract k = Inr ()" and order: "Topological (kt_checks k) = Inr order"
      and scan: "scan_secrets eng ws p w1 = (Inr (first, blocked), w2)"
      and run: "run_checks eng en tid ws p blocked 1 order first w2 = (Inr (vr_results report), w')"
      and outcome: "vr_outcome report = verification_Outcome (vr_results report)"
    using run_parts [OF assms(1)] by blast
  note topo = Topological_ordered [OF valid order] and scanned = scan_secrets_ok [OF scan]
  obtain rs where rs: "vr_results report = first @ rs" "map ck_id rs = map kc_id order" "map ck_required rs = map kc_required order"
      "blocked \<longrightarrow> (\<forall>r \<in> set rs. ck_status r = ''blocked'')"
    using run_checks_appends [OF run] by blast
  have own: "contract_results eng report = rs" using scanned rs(1) by (auto simp: contract_results_def)
  have failed: "scan_failed eng report = blocked" using scanned rs(1)
    by (cases "vg_scanner eng = None"; cases blocked) (auto simp: scan_failed_def)
  have "list_ex ck_required rs = list_ex id (map ck_required rs)" "list_ex kc_required order = list_ex id (map kc_required order)"
    by (simp_all add: list_ex_iff)
  then have required: "list_ex ck_required rs" using topo rs(3) by simp
  have sim: "sm_outcome sim = simulated_outcome (simulate st assumePass order [])"
      "sm_checks sim = map (\<lambda>(c, s). explain_check c s) (simulate st assumePass order [])" "sm_order sim = map kc_id order"
    using assms(2) order by (auto simp: Explain_def try_bind_Inr Let_def)
  have agree: "map ce_simulated (sm_checks sim) = map ck_status rs \<and> sm_outcome sim = vr_outcome report" if "\<not> blocked"
  proof -
    have "run_checks eng en tid ws p False 1 order first w2 = (Inr (vr_results report), w')" using run that by simp
    moreover have "map_of st (ck_id r) = Some (ck_status r)"
      if "r \<in> set (drop (length first) (vr_results report))" "ck_status r \<noteq> ''blocked''" for r
      using that assms(3) own rs(1) by simp
    ultimately have m: "list_all2 mirrors (simulate st assumePass order []) rs"
      using run_checks_mirrored [of eng en tid ws p 1 order first w2 "vr_results report" w' "{}" "[]" st assumePass] topo rs(1) by simp
    have "list_all2 (\<lambda>(c, s) r. kc_required c = ck_required r \<and> s = ck_status r) (simulate st assumePass order []) rs"
      by (rule list_all2_mono [OF m]) (auto simp: mirrors_def)
    then have "simulated_outcome (simulate st assumePass order []) = verification_Outcome rs"
      using simulated_loop_spec [of "''pass''" _ rs 0] by (simp add: simulated_outcome_def verification_Outcome_def)
    moreover have "verification_Outcome rs = verification_Outcome (first @ rs)"
      using scanned that required Outcome_scanned(2) by (cases "vg_scanner eng = None") auto
    moreover have "map snd xs = map ck_status rs" if "list_all2 mirrors xs rs" for xs
      using that by (induction xs rs rule: list_all2_induct) (auto simp: mirrors_def)
    moreover have "map ce_simulated (map (\<lambda>(c, s). explain_check c s) xs) = map snd xs" for xs
      by (induction xs) (auto simp: explain_check_def)
    ultimately show ?thesis using m by (simp only: sim outcome rs(1))
  qed
  have "vr_outcome report = ''fail''" if blocked
    using scanned that rs(1,4) outcome Outcome_scanned(1) by (cases "vg_scanner eng = None") auto
  moreover have "vg_scanner eng \<noteq> None \<longrightarrow> vr_results report = hd (vr_results report) # rs \<and> ck_id (hd (vr_results report)) = ''futurediff.secret_scan''"
    using scanned rs(1) by auto
  ultimately show ?thesis unfolding own failed using agree rs(2,4) sim(3) by simp
qed

text \<open>A run with a failed check and one that depends on it, after a scan that found nothing.\<close>

definition contract0 :: contract where
  "contract0 = \<lparr>kt_format = ''0.1'', kt_id = ''k'', kt_policy = ''p'', kt_checks =
     [\<lparr>kc_id = ''a'', kc_required = True, kc_depends = [], kc_executor = ''workspace_assertion'', kc_type = ''file_absent'', kc_path = ''f'',
       kc_digest = [], kc_command = [], kc_timeout = 0\<rparr>,
      \<lparr>kc_id = ''b'', kc_required = True, kc_depends = [''a''], kc_executor = ''workspace_assertion'', kc_type = ''file_exists'', kc_path = ''f'',
       kc_digest = [], kc_command = [], kc_timeout = 0\<rparr>]\<rparr>"

definition engine0 :: "unit engine" where
  "engine0 = \<lparr>vg_local = False, vg_oci = None,
     vg_scanner = Some (\<lambda>path w. Inr \<lparr>sr_policy = ''s'', sr_lines = 1, sr_findings = [], sr_blocking = False, sr_digest = ''sd''\<rparr>),
     vg_files = (\<lambda>w. \<lparr>fs_lstat = (\<lambda>path. FoundFile (RegularFile 0)), fs_stat = (\<lambda>path. FoundFile (RegularFile 0)), fs_resolve = Some,
       fs_read = (\<lambda>path. Some []), fs_tree = (\<lambda>path. Unreadable), fs_cwd = ''/''\<rparr>),
     vg_host = \<lparr>hs_git = (\<lambda>dir date args w. (\<lparr>go_stdout = [], go_combined = [], go_stderr = [], go_failed = None\<rparr>, w)),
       hs_links = (\<lambda>path w. Inr path), hs_cwd = ''/'', hs_exists = (\<lambda>path w. False), hs_mkdir = (\<lambda>path w. (Inr (), w)),
       hs_remove_all = (\<lambda>path w. w), hs_remove = (\<lambda>path w. w), hs_read = (\<lambda>path w. Inr []),
       hs_write = (\<lambda>path content w. (Inr (), w)), hs_rename = (\<lambda>a b w. (Inr (), w))\<rparr>,
     vg_command = (\<lambda>dir args t w. (([], CommandPassed), w)), vg_indent = marshal\<rparr>"

definition tree0 :: workspace where
  "tree0 = \<lparr>ws_tx = ''t'', ws_root = ''/repo'', ws_git_dir = ''/repo/.git'', ws_head_ref = [], ws_base_oid = ''r'', ws_object_format = ''sha1'',
     ws_path = ''/w'', ws_artifacts = ''/a'', ws_dirty_policy = ''reject'', ws_status_digest = [], ws_created = 5\<rparr>"

lemma contract0_valid: "Validate_contract contract0 = Inr ()" "Topological (kt_checks contract0) = Inr (kt_checks contract0)"
  by code_simp+

lemma assertion0:
  "executeAssertion (vg_files engine0 ()) (ws_path tree0) (hd (kt_checks contract0)) = Inr (''fail'', ''expected file to be absent: f'')"
  by code_simp

lemma scan0: "\<exists>r. scan_secrets engine0 tree0 patch0 () = (Inr ([r], False), ()) \<and> ck_id r = ''futurediff.secret_scan'' \<and> ck_status r = ''pass''"
proof -
  have e: "vg_scanner engine0 = Some (\<lambda>path w. Inr \<lparr>sr_policy = ''s'', sr_lines = 1, sr_findings = [], sr_blocking = False, sr_digest = ''sd''\<rparr>)"
    "hs_mkdir (vg_host engine0) = (\<lambda>path w. (Inr (), w))" "hs_write (vg_host engine0) = (\<lambda>path content w. (Inr (), w))"
    by (simp_all add: engine0_def)
  show ?thesis by (simp add: scan_secrets_def e andThen_def reading_def give_def Let_def secret_result_def)
qed

lemma run0_ok:
  "\<exists>report. RunWithMaterial engine0 env0 ''t'' tree0 patch0 contract0 ''m'' () = (Inr report, ())
     \<and> map (\<lambda>r. (ck_id r, ck_status r)) (vr_results report) = [(''futurediff.secret_scan'', ''pass''), (''a'', ''fail''), (''b'', ''blocked'')]"
proof -
  obtain a b where ab: "kt_checks contract0 = [a, b]" "kc_id a = ''a''" "kc_id b = ''b''" "kc_depends a = []" "kc_depends b = [''a'']"
      "kc_executor a = ''workspace_assertion''"
    by (simp add: contract0_def)
  obtain r where scan: "scan_secrets engine0 tree0 patch0 () = (Inr ([r], False), ())" "ck_id r = ''futurediff.secret_scan''" "ck_status r = ''pass''"
    using scan0 by blast
  have "execute_check engine0 env0 1 ''t'' tree0 a () = (Inr (''fail'', ''expected file to be absent: f'', []), ())"
    using assertion0 by (simp add: ab execute_check_def)
  then obtain rs where rs: "run_checks engine0 env0 ''t'' tree0 patch0 False 1 [a, b] [r] () = (Inr rs, ())"
      "map (\<lambda>r. (ck_id r, ck_status r)) rs = [(''futurediff.secret_scan'', ''pass''), (''a'', ''fail''), (''b'', ''blocked'')]"
    by (simp add: andThen_def give_def ab result_status_def table_simps check_outcome_def Let_def scan)
  have "Topological (kt_checks contract0) = Inr [a, b]" "trim_space ''m'' = ''m''"
    using contract0_valid(2) by (simp_all add: ab(1) trim_space_def is_space_def)
  with rs show ?thesis
    by (simp add: RunWithMaterial_def andThen_def check_def pass_def contract0_valid(1) scan(1) give_def Let_def del: run_checks.simps)
qed

theorem simulation_predicts_outcome_witness:
  "\<exists>sim. \<exists>report :: verification_report. Explain contract0 (Some [(''a'', ''fail'')]) False = Inr sim \<and> sm_outcome sim = vr_outcome report
     \<and> map ck_status (vr_results report) = [''pass'', ''fail'', ''blocked'']"
proof -
  obtain report where run: "RunWithMaterial engine0 env0 ''t'' tree0 patch0 contract0 ''m'' () = (Inr report, ())"
      and rs: "map (\<lambda>r. (ck_id r, ck_status r)) (vr_results report)
        = [(''futurediff.secret_scan'', ''pass''), (''a'', ''fail''), (''b'', ''blocked'')]" using run0_ok by (elim exE conjE)
  have "\<exists>sim. Explain contract0 (Some [(''a'', ''fail'')]) False = Inr sim"
    unfolding Explain_def contract0_valid try_bind_simps Let_def
    by (simp only: try_bind_def require_def) (simp add: simulated_statuses_def)
  then obtain sim where sim: "Explain contract0 (Some [(''a'', ''fail'')]) False = Inr sim" by blast
  have scanner: "vg_scanner engine0 \<noteq> None" by (simp add: engine0_def)
  obtain r1 r2 r3 where three: "vr_results report = [r1, r2, r3]" "ck_status r1 = ''pass''" "ck_id r2 = ''a''" "ck_status r2 = ''fail''" "ck_status r3 = ''blocked''"
    using rs by (auto simp: map_eq_Cons_conv)
  then have own: "contract_results engine0 report = [r2, r3]" and "\<not> scan_failed engine0 report"
    using scanner by (simp_all add: contract_results_def scan_failed_def)
  moreover have "map_of [(''a'', ''fail'')] (ck_id r) = Some (ck_status r)"
    if "r \<in> set (contract_results engine0 report)" "ck_status r \<noteq> ''blocked''" for r
    using that three own by auto
  ultimately have "sm_outcome sim = vr_outcome report"
    using conjunct2 [OF conjunct2 [OF simulation_predicts_outcome [OF run sim]]] by (metis (no_types, lifting))
  then have "Explain contract0 (Some [(''a'', ''fail'')]) False = Inr sim \<and> sm_outcome sim = vr_outcome report
     \<and> map ck_status (vr_results report) = [''pass'', ''fail'', ''blocked'']" using sim three by simp
  then show ?thesis by (intro exI)
qed

end
