(* ===== verification/LedgerAudit.thy ===== *)
theory LedgerAudit
  imports LedgerProperties LedgerControl
begin

text \<open>
  The audit of the ledger (\<open>internal/ledger/audit.go\<close>): the verification of the chains, the consistency queries and the
  search for dependency cycles.  The integrity check of SQLite is a parameter, as is the order in which Go runs
  through the keys of a map.
\<close>

subsection \<open>Dependency cycles\<close>

definition deps_of :: "(string \<times> string) list \<Rightarrow> string \<Rightarrow> string list" where
  "deps_of g x = map snd (filter (\<lambda>(a, b). a = x) g)"

text \<open>
  The recursive \<open>visit\<close>: \<open>path\<close> holds the nodes being visited, \<open>seen\<close> those visited without finding a cycle.  The
  first argument bounds the depth; it is chosen larger than the number of nodes and never runs out.
\<close>

fun visit :: "nat \<Rightarrow> (string \<times> string) list \<Rightarrow> string list \<Rightarrow> string list \<Rightarrow> string \<Rightarrow> bool \<times> string list"
  and visit_deps :: "nat \<Rightarrow> (string \<times> string) list \<Rightarrow> string list \<Rightarrow> string list \<Rightarrow> string list \<Rightarrow> bool \<times> string list" where
  "visit 0 g path seen x = (False, seen)"
| "visit (Suc n) g path seen x =
     (if x \<in> set path then (True, seen)
      else if x \<in> set seen then (False, seen)
      else let (found, seen') = visit_deps n g (x # path) seen (deps_of g x) in (found, if found then seen' else x # seen'))"
| "visit_deps n g path seen [] = (False, seen)"
| "visit_deps n g path seen (d # ds) =
     (let (found, seen') = visit n g path seen d in if found then (True, seen') else visit_deps n g path seen' ds)"

fun first_cycle :: "nat \<Rightarrow> (string \<times> string) list \<Rightarrow> string list \<Rightarrow> string list \<Rightarrow> string option" where
  "first_cycle n g seen [] = None"
| "first_cycle n g seen (x # xs) =
     (let (found, seen') = visit n g [] seen x in if found then Some x else first_cycle n g seen' xs)"

definition graph_nodes :: "(string \<times> string) list \<Rightarrow> string set" where
  "graph_nodes g = fst ` set g \<union> snd ` set g"

definition depth_bound :: "(string \<times> string) list \<Rightarrow> nat" where
  "depth_bound g = Suc (length g + length g)"

definition find_cycle :: "(string list \<Rightarrow> string list) \<Rightarrow> (string \<times> string) list \<Rightarrow> string option" where
  "find_cycle order g = first_cycle (depth_bound g) g [] (order (remdups (map fst g)))"

lemma deps_of_in: "d \<in> set (deps_of g x) \<longleftrightarrow> (x, d) \<in> set g"
  by (force simp: deps_of_def)

text \<open>What is found is a cycle: every node on the path leads to the node visited.\<close>

lemma visit_cyclic:
  "fst (visit n g path seen x) \<Longrightarrow> \<forall>p \<in> set path. (p, x) \<in> (set g)\<^sup>+ \<Longrightarrow> \<exists>y. (y, y) \<in> (set g)\<^sup>+"
  "fst (visit_deps n g path seen ds) \<Longrightarrow> \<forall>p \<in> set path. \<forall>d \<in> set ds. (p, d) \<in> (set g)\<^sup>+ \<Longrightarrow> \<exists>y. (y, y) \<in> (set g)\<^sup>+"
proof (induction n g path seen x and n g path seen ds rule: visit_visit_deps.induct)
  case (2 n g path seen x)
  show ?case
  proof (cases "x \<in> set path")
    case True with 2(3) show ?thesis by blast
  next
    case False
    then have "x \<notin> set seen" and found: "fst (visit_deps n g (x # path) seen (deps_of g x))"
      using 2(2) by (auto simp: Let_def split: prod.splits if_splits)
    have "\<forall>p \<in> set (x # path). \<forall>d \<in> set (deps_of g x). (p, d) \<in> (set g)\<^sup>+"
      using 2(3) by (auto simp: deps_of_in intro: trancl_into_trancl)
    with 2(1) [OF False \<open>x \<notin> set seen\<close> found] show ?thesis by blast
  qed
next
  case (4 n g path seen d ds)
  then show ?case by (cases "visit n g path seen d"; cases "fst (visit n g path seen d)") (auto simp: Let_def)
qed simp_all

text \<open>What is seen is closed under dependencies, free of cycles and off the path.\<close>

definition clean :: "(string \<times> string) list \<Rightarrow> string list \<Rightarrow> string list \<Rightarrow> bool" where
  "clean g path seen = (set path \<inter> set seen = {} \<and> (\<forall>y \<in> set seen. (\<forall>z. (y, z) \<in> set g \<longrightarrow> z \<in> set seen) \<and> (y, y) \<notin> (set g)\<^sup>+))"

lemma clean_reach: "clean g path seen \<Longrightarrow> (a, b) \<in> (set g)\<^sup>+ \<Longrightarrow> a \<in> set seen \<Longrightarrow> b \<in> set seen"
  by (rotate_tac 1, induction rule: trancl_induct) (auto simp: clean_def)

lemma clean_add:
  assumes "clean g (x # path) seen" and "\<forall>d. (x, d) \<in> set g \<longrightarrow> d \<in> set seen" and "x \<notin> set path"
  shows "clean g path (x # seen)"
proof -
  have "(x, x) \<notin> (set g)\<^sup>+"
  proof
    assume "(x, x) \<in> (set g)\<^sup>+"
    then obtain d where d: "(x, d) \<in> set g" "d = x \<or> (d, x) \<in> (set g)\<^sup>+" by (blast elim: converse_tranclE)
    then have "x \<in> set seen" using assms(2) clean_reach [OF assms(1), of d x] by blast
    with assms(1) show False by (auto simp: clean_def)
  qed
  with assms show ?thesis by (auto simp: clean_def)
qed

lemma visit_clean:
  "visit n g path seen x = (False, seen') \<Longrightarrow> clean g path seen \<Longrightarrow> card (graph_nodes g - set path) < n \<Longrightarrow> x \<in> graph_nodes g
     \<Longrightarrow> clean g path seen' \<and> set seen \<subseteq> set seen' \<and> x \<in> set seen'"
  "visit_deps n g path seen ds = (False, seen') \<Longrightarrow> clean g path seen \<Longrightarrow> card (graph_nodes g - set path) < n \<Longrightarrow> set ds \<subseteq> graph_nodes g
     \<Longrightarrow> clean g path seen' \<and> set seen \<subseteq> set seen' \<and> set ds \<subseteq> set seen'"
proof (induction n g path seen x and n g path seen ds arbitrary: seen' and seen' rule: visit_visit_deps.induct)
  case (2 n g path seen x)
  have off: "x \<notin> set path" using 2(2) by auto
  show ?case
  proof (cases "x \<in> set seen")
    case True with 2(2,3) off show ?thesis by auto
  next
    case False
    then obtain s where s: "visit_deps n g (x # path) seen (deps_of g x) = (False, s)" "seen' = x # s"
      using 2(2) off by (auto simp: Let_def split: prod.splits if_splits)
    have "clean g (x # path) seen" using 2(3) False by (auto simp: clean_def)
    moreover have "card (graph_nodes g - set (x # path)) < n"
    proof -
      have "card (graph_nodes g - set (x # path)) < card (graph_nodes g - set path)"
        by (rule psubset_card_mono) (use 2(5) off in \<open>auto simp: graph_nodes_def\<close>)
      with 2(4) show ?thesis by linarith
    qed
    moreover have deps: "set (deps_of g x) \<subseteq> graph_nodes g" by (force simp: deps_of_def graph_nodes_def)
    ultimately have s': "clean g (x # path) s" "set seen \<subseteq> set s" "set (deps_of g x) \<subseteq> set s"
      using 2(1) [OF off False s(1)] by blast+
    then have "clean g path (x # s)" using clean_add [OF s'(1) _ off] deps_of_in by fast
    with s' s(2) show ?thesis by auto
  qed
next
  case (4 n g path seen d ds)
  obtain s where s: "visit n g path seen d = (False, s)" "visit_deps n g path s ds = (False, seen')"
    using 4(3) by (auto simp: Let_def split: prod.splits if_splits)
  have "clean g path s \<and> set seen \<subseteq> set s \<and> d \<in> set s" using 4(1) [OF s(1)] 4(4-6) by simp
  moreover have "clean g path seen' \<and> set s \<subseteq> set seen' \<and> set ds \<subseteq> set seen'"
    using 4(2) [OF s(1) [symmetric] refl _ s(2)] calculation 4(5,6) by simp
  ultimately show ?case by auto
qed simp_all

lemma first_cycle_sound: "first_cycle n g seen xs = Some x \<Longrightarrow> \<exists>y. (y, y) \<in> (set g)\<^sup>+"
proof (induction xs arbitrary: seen)
  case (Cons a xs)
  obtain found s where v: "visit n g [] seen a = (found, s)" by fastforce
  show ?case
  proof (cases found)
    case True
    with v have "fst (visit n g [] seen a)" by simp
    then show ?thesis using visit_cyclic(1) by fastforce
  next
    case False with Cons v show ?thesis by simp
  qed
qed simp

lemma first_cycle_complete:
  "first_cycle n g seen xs = None \<Longrightarrow> clean g [] seen \<Longrightarrow> card (graph_nodes g) < n \<Longrightarrow> set xs \<subseteq> graph_nodes g
     \<Longrightarrow> \<forall>x \<in> set xs. (x, x) \<notin> (set g)\<^sup>+"
proof (induction xs arbitrary: seen)
  case (Cons x xs)
  obtain s where s: "visit n g [] seen x = (False, s)" "first_cycle n g s xs = None"
    using Cons.prems(1) by (auto simp: Let_def split: prod.splits if_splits)
  have "clean g [] s \<and> x \<in> set s" using visit_clean(1) [OF s(1) Cons.prems(2)] Cons.prems(3,4) by simp
  then show ?case using Cons.IH [OF s(2)] Cons.prems(3,4) by (auto simp: clean_def)
qed simp

lemma find_cycle_iff:
  assumes "\<And>xs. set (order xs) = set xs"
  shows "find_cycle order g \<noteq> None \<longleftrightarrow> \<not> acyclic (set g)"
proof
  assume "find_cycle order g \<noteq> None"
  then show "\<not> acyclic (set g)" using first_cycle_sound by (auto simp: find_cycle_def acyclic_def)
next
  assume "\<not> acyclic (set g)"
  then obtain y where y: "(y, y) \<in> (set g)\<^sup>+" by (auto simp: acyclic_def)
  then have "y \<in> fst ` set g" by (force dest: tranclD)
  show "find_cycle order g \<noteq> None"
  proof
    assume "find_cycle order g = None"
    moreover have "card (graph_nodes g) < depth_bound g"
    proof -
      have "card (graph_nodes g) \<le> card (fst ` set g) + card (snd ` set g)" unfolding graph_nodes_def by (rule card_Un_le)
      moreover have "card (fst ` set g) \<le> length g" "card (snd ` set g) \<le> length g"
        using card_image_le [of "set g" fst] card_image_le [of "set g" snd] card_length [of g] by simp_all
      ultimately show ?thesis by (simp add: depth_bound_def)
    qed
    moreover have "set (order (remdups (map fst g))) \<subseteq> graph_nodes g" using assms by (auto simp: graph_nodes_def)
    ultimately have "\<forall>x \<in> set (order (remdups (map fst g))). (x, x) \<notin> (set g)\<^sup>+"
      unfolding find_cycle_def by (intro first_cycle_complete) (auto simp: clean_def)
    with y \<open>y \<in> fst ` set g\<close> assms show False by auto
  qed
qed

subsection \<open>The report\<close>

datatype audit_severity = AuditError | AuditWarning

fun severity_text :: "audit_severity \<Rightarrow> string" where
  "severity_text AuditError = ''error''"
| "severity_text AuditWarning = ''warning''"

record audit_finding =
  af_code :: string
  af_severity :: audit_severity
  af_tx :: string
  af_effect :: string
  af_message :: string

record audit_report =
  rp_generated :: gotime
  rp_healthy :: bool
  rp_chain :: event_chain_report
  rp_authorization :: string
  rp_access :: string
  rp_errors :: nat
  rp_warnings :: nat
  rp_findings :: "audit_finding list"

definition finding :: "string \<Rightarrow> audit_severity \<Rightarrow> string \<Rightarrow> string \<Rightarrow> string \<Rightarrow> audit_finding" where
  "finding code sev tid eid msg = \<lparr>af_code = code, af_severity = sev, af_tx = tid, af_effect = eid, af_message = msg\<rparr>"

text \<open>Queries that report transactions, and queries that report effects.\<close>

definition tx_findings :: "string \<Rightarrow> audit_severity \<Rightarrow> string \<Rightarrow> (transaction \<Rightarrow> bool) \<Rightarrow> ledger \<Rightarrow> audit_finding list" where
  "tx_findings code sev msg P l = map (\<lambda>t. finding code sev (tx_id t) [] msg) (filter P (transactions l))"

definition effect_findings :: "string \<Rightarrow> string \<Rightarrow> (external_effect \<Rightarrow> bool) \<Rightarrow> ledger \<Rightarrow> audit_finding list" where
  "effect_findings code msg P l = map (\<lambda>e. finding code AuditError (ef_tx e) (ef_id e) msg) (filter P (effects l))"

text \<open>The status of the transaction of an effect, as the join sees it.\<close>

definition tx_state_in :: "ledger \<Rightarrow> external_effect \<Rightarrow> tx_state set \<Rightarrow> bool" where
  "tx_state_in l e S = (\<exists>t \<in> set (transactions l). tx_id t = ef_tx e \<and> tx_status t \<in> S)"

definition a_day :: int where "a_day = 86400000"

definition query_findings :: "gotime \<Rightarrow> ledger \<Rightarrow> audit_finding list" where
  "query_findings now l =
     tx_findings ''missing_transaction_owner'' AuditError ''transaction has no durable owner principal'' (\<lambda>t. tx_owner t = []) l
     @ map (\<lambda>g. finding ''owner_redundant_grant'' AuditError (gr_tx g) [] ''transaction owner must not also have an explicit grant'')
         (filter (\<lambda>g. list_ex (\<lambda>t. tx_id t = gr_tx g \<and> tx_owner t = gr_principal g) (transactions l)) (grants l))
     @ tx_findings ''approval_binding'' AuditError ''transaction approval digest has no matching approval record''
         (\<lambda>t. case tx_approval t of None \<Rightarrow> False
           | Some d \<Rightarrow> \<not> list_ex (\<lambda>a. ap_tx a = tx_id t \<and> ap_digest a = d \<and> ap_material a = tx_material t) (approvals l)) l
     @ tx_findings ''committed_without_repository_ref'' AuditError ''committed transaction has no materialized repository reference''
         (\<lambda>t. tx_status t = StateCommitted \<and> \<not> has_key mr_tx (tx_id t) (refs l)) l
     @ effect_findings ''committed_effect_without_receipt'' ''committed effect has no provider receipt''
         (\<lambda>e. ef_status e = EffectCommitted \<and> \<not> has_key rc_effect (ef_id e) (receipts l)) l
     @ effect_findings ''receipt_state_mismatch'' ''provider receipt exists for an effect not marked committed''
         (\<lambda>e. ef_status e \<noteq> EffectCommitted \<and> has_key rc_effect (ef_id e) (receipts l)) l
     @ effect_findings ''unknown_effect_without_reconciliation'' ''unknown effect is not protected by reconciliation state''
         (\<lambda>e. ef_status e = EffectUnknown \<and> tx_state_in l e (- {StateNeedsReconciliation, StateManualIntervention})) l
     @ effect_findings ''terminal_transaction_with_live_effect'' ''terminal transaction still contains a non-terminal effect''
         (\<lambda>e. ef_status e \<in> {EffectPreparing, EffectPrepared, EffectVerified, EffectCommitting, EffectUnknown, EffectAborting, EffectCompensating}
            \<and> tx_state_in l e {StateCommitted, StateAborted, StateCompensated}) l
     @ tx_findings ''stale_unresolved_transaction'' AuditWarning ''transaction has remained unresolved for more than 24 hours''
         (\<lambda>t. tx_status t \<in> {StateCommitting, StateNeedsReconciliation, StateCompensating}
            \<and> unix_milli (tx_updated t) < unix_milli now - a_day) l"

definition edges_of :: "string \<Rightarrow> ledger \<Rightarrow> (string \<times> string) list" where
  "edges_of tid l = filter (\<lambda>d. list_ex (\<lambda>e. ef_id e = fst d \<and> ef_tx e = tid) (effects l)) (dependencies l)"

definition auditDependencyCycles :: "(string list \<Rightarrow> string list) \<Rightarrow> ledger \<Rightarrow> audit_finding list" where
  "auditDependencyCycles order l = concat (map (\<lambda>tid.
     case find_cycle order (edges_of tid l) of
       None \<Rightarrow> []
     | Some x \<Rightarrow> [finding ''effect_dependency_cycle'' AuditError tid x ''effect dependency graph contains a cycle''])
     (remdups (map ef_tx (filter (\<lambda>e. has_key fst (ef_id e) (dependencies l)) (effects l)))))"

definition chain_findings_of :: "string option \<Rightarrow> ledger \<Rightarrow> control \<Rightarrow> audit_finding list" where
  "chain_findings_of health l c =
     (case health of None \<Rightarrow> [] | Some e \<Rightarrow> [finding ''sqlite_integrity'' AuditError [] [] e])
     @ (if snd (VerifyEventChains l) then [] else map (finding ''event_chain'' AuditError [] []) (er_findings (fst (VerifyEventChains l))))
     @ (if snd (VerifyAuthorizationDecisionChain c) = None then [] else [finding ''authorization_chain'' AuditError [] [] ''chain error''])
     @ (if snd (VerifyTransactionAccessChain l) = None then [] else [finding ''transaction_access_chain'' AuditError [] [] ''chain error''])"

text \<open>The texts of the last two chain errors are shortened.\<close>

definition Audit :: "(string list \<Rightarrow> string list) \<Rightarrow> string option \<Rightarrow> env \<Rightarrow> ledger \<Rightarrow> control \<Rightarrow> ledger_error + audit_report" where
  "Audit order health en l c =
     (case en_read en of
        Some e \<Rightarrow> Inl (SqlFault e)
      | None \<Rightarrow>
          (let fs = sort_key (\<lambda>f. (severity_text (af_severity f), af_tx f, af_effect f, af_code f))
                 (chain_findings_of health l c @ query_findings (en_now en) l @ auditDependencyCycles order l);
               errors = filter (\<lambda>f. af_severity f = AuditError) fs
           in Inr \<lparr>rp_generated = en_now en,
                   rp_healthy = (health = None \<and> snd (VerifyEventChains l) \<and> snd (VerifyAuthorizationDecisionChain c) = None
                     \<and> snd (VerifyTransactionAccessChain l) = None \<and> errors = []),
                   rp_chain = fst (VerifyEventChains l), rp_authorization = fst (VerifyAuthorizationDecisionChain c),
                   rp_access = fst (VerifyTransactionAccessChain l), rp_errors = length errors,
                   rp_warnings = length fs - length errors, rp_findings = fs\<rparr>))"

subsection \<open>Ledgers of the program pass\<close>

definition structural :: "string set" where
  "structural = {''event_chain'', ''transaction_access_chain'', ''missing_transaction_owner'', ''owner_redundant_grant'',
     ''committed_effect_without_receipt'', ''effect_dependency_cycle''}"

lemma wf_chains: "ledger_wf l \<Longrightarrow> snd (VerifyEventChains l) \<and> snd (VerifyTransactionAccessChain l) = None"
  by (simp add: ledger_wf_def logs_ok_def VerifyEventChains_iff VerifyTransactionAccessChain_def access_ok_def)

lemma wf_cycles: "ledger_wf l \<Longrightarrow> auditDependencyCycles order l = []"
proof -
  assume "ledger_wf l"
  then have "acyclic (set (dependencies l))" using deps_acyclic by (simp add: ledger_wf_def)
  then have "acyclic (set (edges_of tid l))" for tid by (rule acyclic_subset) (auto simp: edges_of_def)
  then have "find_cycle order (edges_of tid l) = None" for tid
    using first_cycle_sound by (force simp: find_cycle_def acyclic_def)
  then show ?thesis by (simp add: auditDependencyCycles_def)
qed

lemma wf_queries:
  assumes "ledger_wf l" and "f \<in> set (query_findings now l)"
  shows "af_code f \<notin> structural"
proof -
  have owner: "\<forall>t \<in> set (transactions l). tx_owner t \<noteq> []"
    and grants: "\<forall>g \<in> set (grants l). \<exists>t. get_tx (gr_tx g) l = Some t \<and> tx_owner t \<noteq> gr_principal g"
    and receipt: "\<forall>e \<in> set (effects l). ef_status e = EffectCommitted \<longrightarrow> has_key rc_effect (ef_id e) (receipts l)"
    and keys: "unique_key tx_id (transactions l)"
    using assms(1) by (auto simp: ledger_wf_def sharing_ok_def records_ok_def keys_ok_def)
  have "\<not> list_ex (\<lambda>t. tx_id t = gr_tx g \<and> tx_owner t = gr_principal g) (transactions l)" if "g \<in> set (grants l)" for g
  proof -
    obtain t where t: "find_row tx_id (gr_tx g) (transactions l) = Some t" "tx_owner t \<noteq> gr_principal g"
      using grants \<open>g \<in> set (grants l)\<close> by (auto simp: get_tx_def)
    have "u = t" if "u \<in> set (transactions l)" "tx_id u = gr_tx g" for u
      using find_row_unique [OF keys that(1)] t(1) that(2) by simp
    with t(2) show ?thesis by (auto simp: list_ex_iff)
  qed
  then show ?thesis
    using assms(2) owner receipt
    by (auto simp: query_findings_def tx_findings_def effect_findings_def finding_def structural_def)
qed

text \<open>C36. The cycle search of the audit is exact: whatever order Go takes the nodes in, it reports a cycle if and only if
  the dependency graph has one.\<close>

theorem cycle_search_exact:
  assumes "\<And>xs. set (order xs) = set xs"
  shows "find_cycle order g \<noteq> None \<longleftrightarrow> (\<exists>x. (x, x) \<in> (set g)\<^sup>+)"
  using find_cycle_iff [of order g, OF assms] by (simp add: acyclic_def)

theorem cycle_search_exact_witness:
  "\<exists>x. (x, x) \<in> (set [(''a'', ''b''), (''b'', ''c''), (''c'', ''a'')])\<^sup>+"
proof -
  have "find_cycle rev [(''a'', ''b''), (''b'', ''c''), (''c'', ''a'')] \<noteq> None" by code_simp
  then show ?thesis using cycle_search_exact [of rev] by simp
qed

text \<open>The audit accepts what the program writes: after any operations on a new ledger, whatever failed or was
  interrupted, the audit reports no broken event or access chain, no missing owner, no grant to an owner, no
  committed effect without a receipt and no dependency cycle.\<close>

theorem audit_accepts_ledgers:
  assumes "Audit order health en (run ops empty_ledger) c = Inr report" and "f \<in> set (rp_findings report)"
  shows "af_code f \<notin> structural"
proof -
  let ?l = "run ops empty_ledger"
  have wf: "ledger_wf ?l" by (rule ledger_wf_run [OF ledger_wf_empty])
  have "f \<in> set (chain_findings_of health ?l c @ query_findings (en_now en) ?l @ auditDependencyCycles order ?l)"
    using assms by (auto simp: Audit_def Let_def split: option.splits)
  then show ?thesis
    using wf_queries [OF wf] wf_chains [OF wf] wf_cycles [OF wf]
    by (auto simp: chain_findings_of_def finding_def structural_def split: option.splits if_splits)
qed

theorem audit_accepts_ledgers_witness:
  "af_code (finding ''sqlite_integrity'' AuditError [] [] ''disk'') \<notin> structural"
proof -
  obtain report where r: "Audit rev (Some ''disk'') env0 (run [] empty_ledger) empty_control = Inr report"
      "finding ''sqlite_integrity'' AuditError [] [] ''disk'' \<in> set (rp_findings report)"
    by (simp add: Audit_def env0_def Let_def chain_findings_of_def set_insort_key)
  from audit_accepts_ledgers [OF this] show ?thesis by simp
qed

end
