(* ===== verification/Housekeeping.thy ===== *)
theory Housekeeping
  imports AppOutcome LedgerControl "HOL-Library.Word"
begin

text \<open>
  The housekeeping jobs over the ledger: the expiry of stale transactions (\<open>internal/transactionexpiry/expiry.go\<close>), which
  aborts through the application service, and the garbage collection of idempotency records
  (\<open>internal/idempotencygc/gc.go\<close>).  Each has a policy, a plan with a digest and an application that needs the
  exact confirmation.  Reading policy files is not modelled.
\<close>

subsection \<open>Durations\<close>

text \<open>\<open>-time.Duration(h) * time.Hour\<close> is computed in 64 bits and wraps.\<close>

definition minus_hours :: "int \<Rightarrow> int" where
  "minus_hours h = sint (word_of_int (- h * 3600000000000) :: 64 word)"

lemma minus_hours_exact: "\<bar>h\<bar> \<le> 2562047 \<Longrightarrow> minus_hours h = - h * 3600000000000"
  unfolding minus_hours_def by (simp only: signed_of_int) (simp add: signed_take_bit_int_eq_self)

text \<open>From 2562048 hours on (292 years) the cut-off lies in the future.\<close>

lemma hours_overflow: "minus_hours 2562048 > 0"
  by (simp add: minus_hours_def)

subsection \<open>Expiry of transactions\<close>

record expiry_policy =
  xp_version :: string
  xp_apply :: bool
  xp_max :: int
  xp_hours :: "(string \<times> int) list"

record expiry_candidate =
  xc_tx :: string
  xc_status :: tx_state
  xc_updated :: gotime
  xc_before :: gotime
  xc_age :: int

record expiry_plan =
  xl_policy_digest :: string
  xl_planned :: gotime
  xl_candidates :: "expiry_candidate list"
  xl_within :: bool
  xl_digest :: string
  xl_policy :: expiry_policy

definition safeStates :: "tx_state list" where
  "safeStates = [StateActive, StateSealed, StateFailedVerification, StateReady, StateStale]"

definition state_named :: "string \<Rightarrow> tx_state option" where
  "state_named raw = List.find (\<lambda>st. state_text st = raw) safeStates"

definition Validate_expiry :: "expiry_policy \<Rightarrow> string + unit" where
  "Validate_expiry p =
     try_bind (require (xp_version p = ''0.1'') ''unsupported transaction-expiry policy version'') (\<lambda>_.
     try_bind (require (xp_hours p \<noteq> []) ''state_after_hours is required'') (\<lambda>_.
     try_bind (require (xp_max p \<ge> 0) ''maximum_candidates must be non-negative'') (\<lambda>_.
     require (list_all (\<lambda>(raw, h). state_named raw \<noteq> None \<and> h > 0) (xp_hours p)) ''state not safe or hours not positive'')))"

definition expiry_policy_json :: "expiry_policy \<Rightarrow> json" where
  "expiry_policy_json p = JObj
     ([(''version'', JStr (xp_version p)), (''apply_enabled'', JBool (xp_apply p))]
      @ (if xp_max p = 0 then [] else [(''maximum_candidates'', JInt (xp_max p))])
      @ [(''state_after_hours'', json_map (map (\<lambda>(k, h). (k, JInt h)) (xp_hours p)))])"

definition expiry_candidate_json :: "expiry_candidate \<Rightarrow> json" where
  "expiry_candidate_json c = JObj
     [(''transaction_id'', JStr (xc_tx c)), (''status'', JStr (state_text (xc_status c))), (''updated_at'', json_time (xc_updated c)),
      (''expires_before'', json_time (xc_before c)), (''age_hours'', JInt (xc_age c))]"

definition candidates_json :: "json list \<Rightarrow> json" where
  "candidates_json js = (if js = [] then JNull else JArr js)"

text \<open>\<open>AgeHours\<close> is a truncated quotient; the float that Go uses agrees but for ages a rounding error below a full hour.\<close>

definition candidates_of :: "gotime \<Rightarrow> string \<Rightarrow> int \<Rightarrow> ledger \<Rightarrow> expiry_candidate list" where
  "candidates_of now raw h l =
     (case state_named raw of
        None \<Rightarrow> []
      | Some st \<Rightarrow> map (\<lambda>t. \<lparr>xc_tx = tx_id t, xc_status = tx_status t, xc_updated = tx_updated t, xc_before = now + minus_hours h,
           xc_age = sgn (now - tx_updated t) * (\<bar>now - tx_updated t\<bar> div 3600000000000)\<rparr>)
           (TransactionsByStatusBefore st (now + minus_hours h) l))"

definition BuildPlan_expiry :: "env \<Rightarrow> expiry_policy \<Rightarrow> gotime \<Rightarrow> ledger \<Rightarrow> app_error + expiry_plan" where
  "BuildPlan_expiry en p now l =
     try_bind (map_sum AppText id (Validate_expiry p)) (\<lambda>_.
     case en_read en of
       Some e \<Rightarrow> Inl (AppLedger (SqlFault e))
     | None \<Rightarrow>
         (let cs = sort_key (\<lambda>c. (xc_updated c, xc_tx c)) (concat (map (\<lambda>(raw, h). candidates_of now raw h l) (sort_key fst (xp_hours p))));
              pd = Digest (expiry_policy_json p)
          in Inr \<lparr>xl_policy_digest = pd, xl_planned = now, xl_candidates = cs,
                  xl_within = (\<not> (xp_max p > 0 \<and> int (length cs) > xp_max p)),
                  xl_digest = Digest (JObj [(''version'', JStr ''0.1''), (''policy_digest'', JStr pd), (''planned_at'', json_time now),
                    (''candidates'', candidates_json (map expiry_candidate_json cs))]),
                  xl_policy = p\<rparr>))"

definition expiry_confirmation :: string where
  "expiry_confirmation = ''EXPIRE_STALE_FUTUREDIFF_TRANSACTIONS''"

text \<open>The service and the control tables side by side.\<close>

type_synonym ('w, 'a) job = "('w app \<times> control, app_error, 'a) action"

definition on_app :: "('w, 'a) step \<Rightarrow> ('w, 'a) job" where
  "on_app m st = (let (r, s) = m (fst st) in (r, (s, snd st)))"

definition record_expiry :: "'w service \<Rightarrow> expiry_action \<Rightarrow> ('w, unit) job" where
  "record_expiry sv a st =
     (let s = fst st; (r, c) = RecordExpiryAction (env_of sv s) a (app_ledger s) (snd st)
      in (map_sum AppLedger id r, (next_call s, c)))"

definition expire_one :: "'w service \<Rightarrow> expiry_plan \<Rightarrow> gotime \<Rightarrow> expiry_candidate \<Rightarrow> ('w, unit) job" where
  "expire_one sv plan now c =
     andThen (on_app (ledger_read sv (Get (xc_tx c)))) (\<lambda>current.
     andThen (check (tx_status current = xc_status c \<and> tx_updated current = xc_updated c) (AppText ''transaction changed after planning'')) (\<lambda>_.
     andThen (on_app (AbortWithReason sv (xc_tx c) ''expiry'' (''expired by policy '' @ xl_policy_digest plan))) (\<lambda>_.
     record_expiry sv \<lparr>xa_id = [], xa_tx = xc_tx c, xa_prior = xc_status c, xa_policy = xl_policy_digest plan, xa_applied = now\<rparr>)))"

text \<open>The result holds the transactions expired so far, also when an error ends the loop.\<close>

fun expire_all ::
  "'w service \<Rightarrow> expiry_plan \<Rightarrow> gotime \<Rightarrow> expiry_candidate list \<Rightarrow> string list \<Rightarrow> 'w app \<times> control
     \<Rightarrow> (string list \<times> app_error option) \<times> ('w app \<times> control)" where
  "expire_all sv plan now [] ids st = ((ids, None), st)"
| "expire_all sv plan now (c # cs) ids st =
     (case expire_one sv plan now c st of
        (Inl e, st1) \<Rightarrow> ((ids, Some e), st1)
      | (Inr _, st1) \<Rightarrow> expire_all sv plan now cs (ids @ [xc_tx c]) st1)"

definition Apply_expiry ::
  "'w service \<Rightarrow> expiry_plan \<Rightarrow> string \<Rightarrow> gotime \<Rightarrow> 'w app \<times> control \<Rightarrow> (string list \<times> app_error option) \<times> ('w app \<times> control)" where
  "Apply_expiry sv plan confirmation now st =
     (if \<not> xp_apply (xl_policy plan) then (([], Some (AppText ''transaction-expiry policy does not allow apply'')), st)
      else if \<not> xl_within plan then (([], Some (AppText ''transaction-expiry plan exceeds maximum_candidates'')), st)
      else if confirmation \<noteq> expiry_confirmation then (([], Some (AppText ''exact expiry confirmation is required'')), st)
      else expire_all sv plan now (xl_candidates plan) [] st)"

subsection \<open>What an expiry touches\<close>

text \<open>A terminal state stays.\<close>

definition rests :: "tx_state \<Rightarrow> string \<Rightarrow> ledger \<Rightarrow> bool" where
  "rests st tid l = (terminal st \<and> (\<exists>t. get_tx tid l = Some t \<and> tx_status t = st))"

lemma rests_exec: "rests st tid l \<Longrightarrow> rests st tid (snd (exec en op l))"
  using exec_status [of tid l _ en op] terminal_moves by (fastforce simp: rests_def)

lemma rests_run: "rests st tid l \<Longrightarrow> rests st tid (run ops l)"
  by (induction ops l rule: run.induct) (auto intro: rests_exec)

interpretation rs: writing_relation "\<lambda>s s'. rests st tid (app_ledger s) \<longrightarrow> rests st tid (app_ledger s')" sv for st tid sv
proof (unfold_locales, goal_cases)
  case (4 s) then show ?case by (simp add: interleave_def Let_def remark_def rests_run)
next
  case (9 op ok en s) then show ?case by (simp add: remark_def rests_exec)
next
  case (10 ok en tid d who sig ex s) then show ?case by (simp add: remark_def rests_exec del: exec.simps)
qed (auto simp: next_call_def remark_def)

lemma transition_rests:
  assumes "transition sv tid a b actor reason m i s = (Inr t, s')" and "terminal b"
  shows "rests b tid (app_ledger s')"
proof -
  obtain en where "Transition en tid a b actor reason m i (app_ledger (interleave sv s)) = (Inr t, app_ledger s')"
    using ledger_write_Inr [OF assms(1) [unfolded transition_def]] by blast
  then have "Transition_tx en tid a b actor reason m i (app_ledger (interleave sv s)) = Inr (app_ledger s')"
    by (auto simp: Transition_def split: sum.splits dest!: then_read_WithTx_ok)
  with Transition_status assms(2) show ?thesis by (fastforce simp: rests_def)
qed

lemma abort_rests:
  assumes "AbortWithReason sv tid actor reason s = (Inr v, s')"
  shows "rests StateAborted tid (app_ledger s')"
proof -
  obtain s1 s2 t where "transition sv tid StateAborting StateAborted ''daemon'' ''workspace removed'' False True s1 = (Inr t, s2)"
      and g: "service_Get sv tid s2 = (Inr v, s')"
    using assms unfolding AbortWithReason_def by (auto simp: action_simps)
  then have "rests StateAborted tid (app_ledger s2)" by (rule_tac transition_rests) (simp_all add: terminal_def)
  then show ?thesis using rs.keepsD [OF rs.keeps_reads(1)] g by (metis snd_conv)
qed

text \<open>What leaves another transaction as it is.\<close>

definition same_row :: "string \<Rightarrow> ledger \<Rightarrow> ledger \<Rightarrow> bool" where
  "same_row x l l' = (get_tx x l' = get_tx x l)"

lemma interleave_same: "leaves_alone sv x \<Longrightarrow> get_tx x (app_ledger (interleave sv s)) = get_tx x (app_ledger s)"
  by (simp add: interleave_def Let_def remark_def run_alone leaves_alone_def)

interpretation al: plain_steps "\<lambda>s s'. leaves_alone sv x \<longrightarrow> same_row x (app_ledger s) (app_ledger s')" sv for x sv
  by unfold_locales (simp_all add: same_row_def next_call_def remark_def interleave_same)

lemma write_elsewhere:
  assumes "\<And>en l. exec en op l = outcome (f en l)" and "\<And>l. op_target op l \<noteq> Some x"
  shows "al.keeps (sv :: 'a service) x (ledger_write sv op f)"
proof (rule al.keeps_write)
  fix en and s :: "'a app"
  have "snd (f en (app_ledger s)) = snd (exec en op (app_ledger s))" by (simp add: assms(1))
  then show "leaves_alone sv x \<longrightarrow> same_row x (app_ledger s)
      (app_ledger (remark (Did en op (is_ok (fst (f en (app_ledger s))))) (s\<lparr>app_ledger := snd (f en (app_ledger s))\<rparr>)))"
    using exec_other [OF assms(2)] by (simp add: remark_def same_row_def)
qed

lemma abort_elsewhere: "x \<noteq> tid \<Longrightarrow> al.keeps sv x (AbortWithReason sv tid actor reason)"
  unfolding AbortWithReason_def transition_def
  by (intro al.plain_parts al.keeps_cases al.keeps_reads write_elsewhere; simp)

text \<open>The same for jobs.\<close>

definition aside :: "'w service \<Rightarrow> string \<Rightarrow> 'w app \<times> control \<Rightarrow> 'w app \<times> control \<Rightarrow> bool" where
  "aside sv x st st' = (leaves_alone sv x \<longrightarrow> same_row x (app_ledger (fst st)) (app_ledger (fst st')))"

interpretation aj: step_relation "aside sv x" for sv x
  by unfold_locales (simp_all add: aside_def same_row_def)

lemma on_app_keeps: "al.keeps sv x m \<Longrightarrow> aj.keeps sv x (on_app m)"
  by (simp add: aj.keeps_def aside_def on_app_def al.keeps_def case_prod_beta Let_def)

lemma record_expiry_app: "app_ledger (fst (snd (record_expiry sv a st))) = app_ledger (fst st)"
  by (simp add: record_expiry_def next_call_def case_prod_beta Let_def)

lemma expire_one_elsewhere: "x \<noteq> xc_tx c \<Longrightarrow> aj.keeps sv x (expire_one sv plan now c)"
  unfolding expire_one_def
  by (intro aj.keeps_rules on_app_keeps al.keeps_ledger_read abort_elsewhere) (simp_all add: aj.keeps_def aside_def record_expiry_app same_row_def)

lemma expire_all_elsewhere:
  "leaves_alone sv x \<Longrightarrow> x \<notin> xc_tx ` set cs \<Longrightarrow> same_row x (app_ledger (fst st)) (app_ledger (fst (snd (expire_all sv plan now cs ids st))))"
proof (induction cs arbitrary: ids st)
  case (Cons c cs)
  obtain r st1 where one: "expire_one sv plan now c st = (r, st1)" by (cases "expire_one sv plan now c st")
  have "same_row x (app_ledger (fst st)) (app_ledger (fst st1))"
    using aj.keeps_run [OF expire_one_elsewhere one] Cons.prems by (auto simp: aside_def)
  moreover have "same_row x (app_ledger (fst st1)) (app_ledger (fst (snd (expire_all sv plan now cs (ids @ [xc_tx c]) st1))))"
    using Cons by simp
  ultimately show ?case using one by (cases r) (auto simp: same_row_def)
qed (simp add: same_row_def)

text \<open>What is expired stays aborted while the loop goes on.\<close>

definition stays :: "tx_state \<Rightarrow> string \<Rightarrow> 'w app \<times> control \<Rightarrow> 'w app \<times> control \<Rightarrow> bool" where
  "stays s tid st st' = (rests s tid (app_ledger (fst st)) \<longrightarrow> rests s tid (app_ledger (fst st')))"

interpretation rj: step_relation "stays s tid" for s tid
  by unfold_locales (simp_all add: stays_def)

lemma on_app_rests: "rs.keeps s tid m \<Longrightarrow> rj.keeps s tid (on_app m)"
  by (simp add: rj.keeps_def stays_def on_app_def rs.keeps_def case_prod_beta Let_def)

lemma expire_one_rests: "rj.keeps s tid (expire_one sv plan now c)"
  unfolding expire_one_def
  by (intro rj.keeps_rules on_app_rests rs.keeps_ledger_read rs.keeps_abort) (simp_all add: rj.keeps_def stays_def record_expiry_app)

lemma expire_one_aborts:
  "expire_one sv plan now c st = (Inr u, st') \<Longrightarrow> rests StateAborted (xc_tx c) (app_ledger (fst st'))"
proof -
  assume "expire_one sv plan now c st = (Inr u, st')"
  then obtain v st1 st2 where a: "on_app (AbortWithReason sv (xc_tx c) ''expiry'' (''expired by policy '' @ xl_policy_digest plan)) st1 = (Inr v, st2)"
      and r: "record_expiry sv \<lparr>xa_id = [], xa_tx = xc_tx c, xa_prior = xc_status c, xa_policy = xl_policy_digest plan, xa_applied = now\<rparr> st2 = (Inr u, st')"
    unfolding expire_one_def action_simps by blast
  obtain s2 where "AbortWithReason sv (xc_tx c) ''expiry'' (''expired by policy '' @ xl_policy_digest plan) (fst st1) = (Inr v, s2)" "fst st2 = s2"
    using a by (auto simp: on_app_def Let_def split: prod.splits)
  moreover have "app_ledger (fst st') = app_ledger (fst st2)" using record_expiry_app [of sv _ st2] r by (metis snd_conv)
  ultimately show ?thesis using abort_rests by metis
qed

lemma expire_all_aborts:
  "expire_all sv plan now cs ids st = ((done_ids, e), st') \<Longrightarrow> \<forall>i \<in> set ids. rests StateAborted i (app_ledger (fst st))
     \<Longrightarrow> set done_ids \<subseteq> set ids \<union> xc_tx ` set cs \<and> (\<forall>i \<in> set done_ids. rests StateAborted i (app_ledger (fst st')))"
proof (induction cs arbitrary: ids st)
  case (Cons c cs)
  obtain r st1 where one: "expire_one sv plan now c st = (r, st1)" by (cases "expire_one sv plan now c st")
  have old: "\<forall>i \<in> set ids. rests StateAborted i (app_ledger (fst st1))"
    using rj.keeps_run [OF expire_one_rests one] Cons.prems(2) by (simp add: stays_def)
  show ?case
  proof (cases r)
    case (Inl x) with one old Cons.prems(1) show ?thesis by auto
  next
    case (Inr u)
    then have "\<forall>i \<in> set (ids @ [xc_tx c]). rests StateAborted i (app_ledger (fst st1))"
      using old expire_one_aborts [OF one [unfolded Inr]] by auto
    with Cons.IH [of "ids @ [xc_tx c]" st1] one Inr Cons.prems(1) show ?thesis by auto
  qed
qed auto

text \<open>C37. An expiry does what its plan says and nothing else: without the confirmation, against the policy or beyond its
  limit nothing happens; otherwise every transaction reported as expired is one of the plan and is aborted in the
  end, and a transaction outside the plan, left alone by other requests, keeps its row unchanged.\<close>

theorem expiry_follows_plan:
  assumes "Apply_expiry sv plan confirmation now st = ((ids, e), st')" and "leaves_alone sv x" and "x \<notin> xc_tx ` set (xl_candidates plan)"
  shows "(confirmation \<noteq> expiry_confirmation \<or> \<not> xp_apply (xl_policy plan) \<or> \<not> xl_within plan \<longrightarrow> st' = st \<and> ids = [])
     \<and> set ids \<subseteq> xc_tx ` set (xl_candidates plan)
     \<and> (\<forall>i \<in> set ids. \<exists>t. get_tx i (app_ledger (fst st')) = Some t \<and> tx_status t = StateAborted)
     \<and> get_tx x (app_ledger (fst st')) = get_tx x (app_ledger (fst st))"
proof (cases "confirmation \<noteq> expiry_confirmation \<or> \<not> xp_apply (xl_policy plan) \<or> \<not> xl_within plan")
  case True
  with assms(1) show ?thesis by (auto simp: Apply_expiry_def split: if_splits)
next
  case False
  then have all: "expire_all sv plan now (xl_candidates plan) [] st = ((ids, e), st')" using assms(1) by (simp add: Apply_expiry_def)
  from expire_all_aborts [OF all] expire_all_elsewhere [OF assms(2,3), of st plan now "[]"] all False
  show ?thesis by (auto simp: rests_def same_row_def)
qed

definition expiry0 :: expiry_plan where
  "expiry0 = \<lparr>xl_policy_digest = ''d'', xl_planned = 0, xl_candidates = [\<lparr>xc_tx = ''t'', xc_status = StateReady, xc_updated = 5, xc_before = 9, xc_age = 0\<rparr>],
     xl_within = True, xl_digest = ''p'', xl_policy = \<lparr>xp_version = ''0.1'', xp_apply = True, xp_max = 1, xp_hours = [(''ready'', 1)]\<rparr>\<rparr>"

theorem expiry_follows_plan_witness:
  "get_tx ''other'' (app_ledger (fst (snd (Apply_expiry service0 expiry0 expiry_confirmation 9 (app0, empty_control))))) = get_tx ''other'' (app_ledger app0)"
proof -
  obtain ids e st' where a: "Apply_expiry service0 expiry0 expiry_confirmation 9 (app0, empty_control) = ((ids, e), st')" by (metis prod.collapse)
  have "leaves_alone service0 ''other''" by (simp add: leaves_alone_def service0_def)
  moreover have "''other'' \<notin> xc_tx ` set (xl_candidates expiry0)" by (simp add: expiry0_def)
  ultimately show ?thesis using expiry_follows_plan [OF a] a by simp
qed

subsection \<open>Garbage collection of idempotency records\<close>

record gc_policy =
  gy_version :: string
  gy_apply :: bool
  gy_completed :: int
  gy_progress :: int
  gy_max :: int

record gc_plan =
  gp_policy :: gc_policy
  gp_policy_digest :: string
  gp_planned :: gotime
  gp_completed_before :: gotime
  gp_progress_before :: gotime
  gp_records :: "api_request list"
  gp_within :: bool
  gp_digest :: string

record gc_result =
  gr_applied :: gotime
  gr_completed :: int
  gr_progress :: int
  gr_plan :: string

definition Validate_gc :: "gc_policy \<Rightarrow> string + unit" where
  "Validate_gc p =
     try_bind (require (gy_version p = ''0.1'') ''unsupported idempotency retention policy version'') (\<lambda>_.
     try_bind (require (gy_completed p > 0 \<and> gy_progress p > 0) ''retention hours must be positive'') (\<lambda>_.
     require (gy_max p \<ge> 0) ''maximum_candidates must be non-negative''))"

definition gc_policy_json :: "gc_policy \<Rightarrow> json" where
  "gc_policy_json p = JObj
     ([(''version'', JStr (gy_version p)), (''apply_enabled'', JBool (gy_apply p)), (''completed_after_hours'', JInt (gy_completed p)),
       (''in_progress_after_hours'', JInt (gy_progress p))]
      @ (if gy_max p = 0 then [] else [(''maximum_candidates'', JInt (gy_max p))]))"

text \<open>A candidate names principal and key by digest only.\<close>

definition gc_candidate_json :: "api_request \<Rightarrow> json" where
  "gc_candidate_json r = JObj
     [(''principal_digest'', JStr (SHA256Bytes (aq_principal r))), (''key_digest'', JStr (SHA256Bytes (aq_key r))),
      (''request_digest'', JStr (aq_digest r)), (''state'', JStr (aq_state r)), (''updated_at'', json_time (aq_updated r))]"

definition BuildPlan_gc :: "env \<Rightarrow> gc_policy \<Rightarrow> gotime \<Rightarrow> control \<Rightarrow> app_error + gc_plan" where
  "BuildPlan_gc en p now c =
     try_bind (map_sum AppText id (Validate_gc p)) (\<lambda>_.
     case en_read en of
       Some e \<Rightarrow> Inl (AppLedger (SqlFault e))
     | None \<Rightarrow>
         (let cb = now + minus_hours (gy_completed p); ib = now + minus_hours (gy_progress p);
              records = sort_key (\<lambda>r. (aq_updated r, aq_principal r, aq_key r)) (IdempotencyBefore ''completed'' cb c @ IdempotencyBefore ''in_progress'' ib c);
              pd = Digest (gc_policy_json p)
          in Inr \<lparr>gp_policy = p, gp_policy_digest = pd, gp_planned = now, gp_completed_before = cb, gp_progress_before = ib, gp_records = records,
                  gp_within = (\<not> (gy_max p > 0 \<and> int (length records) > gy_max p)),
                  gp_digest = Digest (JObj [(''version'', JStr ''0.1''), (''policy_digest'', JStr pd), (''completed_before'', json_time cb),
                    (''in_progress_before'', json_time ib), (''candidates'', candidates_json (map gc_candidate_json records))])\<rparr>))"

definition gc_confirmation :: string where
  "gc_confirmation = ''DELETE_EXPIRED_FUTUREDIFF_IDEMPOTENCY_RECORDS''"

text \<open>The deletion and its record are two transactions of the storage; \<open>en'\<close> is the environment of the second.\<close>

definition Apply_gc :: "env \<Rightarrow> env \<Rightarrow> gc_plan \<Rightarrow> string \<Rightarrow> gotime \<Rightarrow> control \<Rightarrow> (app_error + gc_result) \<times> control" where
  "Apply_gc en en' plan confirmation now c =
     (if \<not> gy_apply (gp_policy plan) then (Inl (AppText ''idempotency retention policy does not allow apply''), c)
      else if \<not> gp_within plan then (Inl (AppText ''idempotency GC plan exceeds maximum_candidates''), c)
      else if confirmation \<noteq> gc_confirmation then (Inl (AppText ''exact idempotency GC confirmation is required''), c)
      else case DeleteIdempotencyRecords en (gp_records plan) c of
             (Inl e, c1) \<Rightarrow> (Inl (AppLedger e), c1)
           | (Inr (n, m), c1) \<Rightarrow>
               (case RecordIdempotencyGC en' \<lparr>ga_id = [], ga_completed = n, ga_progress = m, ga_completed_before = gp_completed_before plan,
                      ga_progress_before = gp_progress_before plan, ga_plan = gp_digest plan, ga_applied = now\<rparr> c1 of
                  (Inl e, c2) \<Rightarrow> (Inl (AppLedger e), c2)
                | (Inr _, c2) \<Rightarrow> (Inr \<lparr>gr_applied = now, gr_completed = n, gr_progress = m, gr_plan = gp_digest plan\<rparr>, c2)))"

lemma delete_planned_rows:
  "delete_planned recs rows = Inr rows' \<Longrightarrow>
     rows' = filter (\<lambda>r. \<not> list_ex (\<lambda>rec. planned rec r) recs) rows \<and> (\<forall>rec \<in> set recs. \<exists>r \<in> set rows. planned rec r)
       \<and> length rows' + length recs = length rows"
proof (induction recs arbitrary: rows)
  case (Cons rec recs)
  then have one: "changes (planned rec) rows = 1" and rest: "delete_planned recs (filter (\<lambda>r. \<not> planned rec r) rows) = Inr rows'"
    by (auto split: if_splits)
  have "length (filter (planned rec) rows) = 1" using one by (simp add: changes_def)
  moreover from this obtain r where "r \<in> set rows" "planned rec r" by (metis One_nat_def filter_empty_conv length_0_conv zero_neq_one)
  moreover have "length (filter (\<lambda>r. \<not> planned rec r) rows) + length (filter (planned rec) rows) = length rows"
    using sum_length_filter_compl [of "planned rec" rows] by simp
  ultimately show ?case using Cons.IH [OF rest] by (auto simp: conj_commute)
qed simp

lemma delete_ok:
  assumes "DeleteIdempotencyRecords en recs c = (Inr (n, m), c1)"
  shows "delete_planned recs (requests c) = Inr (requests c1)" "collections c1 = collections c"
    "n = int (length (filter (\<lambda>r. aq_state r = ''completed'') recs))" "m = int (length (filter (\<lambda>r. aq_state r = ''in_progress'') recs))"
  using assms by (auto simp: DeleteIdempotencyRecords_def WithTx_def try_bind_Inr split: option.splits sum.splits)

text \<open>When the second transaction fails, the records are gone and nothing says so.\<close>

lemma gc_unrecorded:
  assumes "gy_apply (gp_policy plan)" "gp_within plan" and "DeleteIdempotencyRecords en (gp_records plan) c = (Inr nm, c1)" "en_begin en' = Some f"
  shows "Apply_gc en en' plan gc_confirmation now c = (Inl (AppLedger (SqlFault f)), c1)"
  using assms by (cases nm) (simp add: Apply_gc_def RecordIdempotencyGC_def WithTx_def Let_def)

text \<open>A garbage collection deletes its plan and nothing else: when it reports success, the confirmation was exact, the
  policy allowed it, the records of the plan and only they are gone, one row for each, and the counts reported are
  those recorded.\<close>

theorem gc_deletes_exactly_its_plan:
  assumes "Apply_gc en en' plan confirmation now c = (Inr res, c')"
  shows "confirmation = gc_confirmation \<and> gy_apply (gp_policy plan) \<and> gp_within plan
     \<and> requests c' = filter (\<lambda>q. \<not> list_ex (\<lambda>rec. planned rec q) (gp_records plan)) (requests c)
     \<and> length (requests c') + length (gp_records plan) = length (requests c)
     \<and> (\<exists>a \<in> set (collections c'). ga_plan a = gp_digest plan \<and> ga_completed a = gr_completed res \<and> ga_progress a = gr_progress res)"
proof -
  obtain n m c1 where d: "DeleteIdempotencyRecords en (gp_records plan) c = (Inr (n, m), c1)"
      and r: "RecordIdempotencyGC en' \<lparr>ga_id = [], ga_completed = n, ga_progress = m, ga_completed_before = gp_completed_before plan,
                ga_progress_before = gp_progress_before plan, ga_plan = gp_digest plan, ga_applied = now\<rparr> c1 = (Inr (), c')"
      and res: "gr_completed res = n" "gr_progress res = m"
      and guards: "confirmation = gc_confirmation" "gy_apply (gp_policy plan)" "gp_within plan"
    using assms by (auto simp: Apply_gc_def split: if_splits sum.splits prod.splits)
  have same: "requests c' = requests c1" and log: "\<exists>a \<in> set (collections c'). ga_plan a = gp_digest plan \<and> ga_completed a = n \<and> ga_progress a = m"
    using r by (auto simp: RecordIdempotencyGC_def WithTx_def try_bind_Inr Let_def split: option.splits sum.splits)
  from delete_planned_rows [OF delete_ok(1) [OF d]] log guards show ?thesis unfolding res same by blast
qed

definition request1 :: api_request where
  "request1 = \<lparr>aq_principal = ''u'', aq_key = ''k'', aq_method = ''POST'', aq_path = ''/v1/x'', aq_digest = ''d'', aq_state = ''completed'',
     aq_status = 200, aq_type = ''json'', aq_body = [], aq_created = 1, aq_updated = 1\<rparr>"

definition gc0 :: gc_plan where
  "gc0 = \<lparr>gp_policy = \<lparr>gy_version = ''0.1'', gy_apply = True, gy_completed = 1, gy_progress = 1, gy_max = 0\<rparr>, gp_policy_digest = ''pd'', gp_planned = 9,
     gp_completed_before = 5, gp_progress_before = 5, gp_records = [request1], gp_within = True, gp_digest = ''plan''\<rparr>"

theorem gc_deletes_exactly_its_plan_witness:
  "\<exists>res c'. Apply_gc env0 env0 gc0 gc_confirmation 9 (empty_control\<lparr>requests := [request1, request1\<lparr>aq_key := ''other''\<rparr>]\<rparr>) = (Inr res, c')
     \<and> length (requests c') = 1"
proof -
  have "\<exists>res c'. Apply_gc env0 env0 gc0 gc_confirmation 9 (empty_control\<lparr>requests := [request1, request1\<lparr>aq_key := ''other''\<rparr>]\<rparr>) = (Inr res, c')"
    by (simp add: Apply_gc_def gc0_def DeleteIdempotencyRecords_def WithTx_def env0_def changes_def planned_def request_key_def request1_def
        empty_control_def RecordIdempotencyGC_def has_key_def require_simps Let_def)
  then obtain res c' where a: "Apply_gc env0 env0 gc0 gc_confirmation 9 (empty_control\<lparr>requests := [request1, request1\<lparr>aq_key := ''other''\<rparr>]\<rparr>) = (Inr res, c')"
    by (elim exE)
  moreover have "length (requests c') = 1" using gc_deletes_exactly_its_plan [OF a] by (simp add: gc0_def planned_def request_key_def request1_def)
  ultimately show ?thesis by (intro exI conjI)
qed

end
