(* ===== verification/DurableFiles.thy ===== *)
theory DurableFiles
  imports LedgerProperties LedgerControl Actions
begin

text \<open>
  Files that survive a crash.  A disk keeps what the running system sees and what a crash may bring back: an entry
  that changed since the last synchronization of its directory may come back as it was, and a file that was not
  synchronized may have any content.  Every call of the operating system may fail, after part of its writing, or be
  the one during which the machine stops.  Over it, \<open>internal/durablewrite/durablewrite.go\<close> and the backups of
  \<open>internal/ledger/maintenance.go\<close>.  The fault injector of the sources exists for tests only; the faults of the calls
  cover what it injects.  Permission bits are not modelled.
\<close>

subsection \<open>Disks\<close>

type_synonym file_path = "string \<times> string"

text \<open>A file with its content and whether it was synchronized since it was written; paths are a directory and a name.\<close>

datatype file_node = File string bool | Folder | Special

record disk =
  dk_now :: "file_path \<Rightarrow> file_node option"
  dk_old :: "(file_path \<times> file_node option) list"
  dk_calls :: nat
  dk_halted :: bool

text \<open>The contents a path may have after a crash.\<close>

fun outcomes :: "file_node option \<Rightarrow> string option set" where
  "outcomes (Some (File c synced)) = (if synced then {Some c} else range Some)"
| "outcomes _ = {None}"

definition possible :: "disk \<Rightarrow> file_path \<Rightarrow> string option set" where
  "possible k p = outcomes (dk_now k p) \<union> (\<Union>n \<in> {n. (p, n) \<in> set (dk_old k)}. outcomes n)"

definition set_entry :: "file_path \<Rightarrow> file_node option \<Rightarrow> disk \<Rightarrow> disk" where
  "set_entry p n k = k\<lparr>dk_now := (dk_now k)(p := n), dk_old := (p, dk_now k p) # dk_old k\<rparr>"

definition put_content :: "file_path \<Rightarrow> string \<Rightarrow> disk \<Rightarrow> disk" where
  "put_content p c k =
     (case dk_now k p of
        Some _ \<Rightarrow> k\<lparr>dk_now := (dk_now k)(p \<mapsto> File c False)\<rparr>
      | None \<Rightarrow> set_entry p (Some (File c False)) k)"

subsection \<open>Calls of the operating system\<close>

datatype io_error = NotExist | IoError string | FaultError string io_error

datatype fault = Fails string nat | Halts nat

type_synonym os = "nat \<Rightarrow> fault option"

type_synonym 'a io = "(disk, io_error, 'a) action"

definition syscall :: "os \<Rightarrow> (nat \<Rightarrow> disk \<Rightarrow> disk) \<Rightarrow> (disk \<Rightarrow> (io_error + 'a) \<times> disk) \<Rightarrow> 'a io" where
  "syscall os partial body k =
     (if dk_halted k then (Inl (IoError ''halted''), k)
      else let k1 = k\<lparr>dk_calls := Suc (dk_calls k)\<rparr> in
        case os (dk_calls k) of
          None \<Rightarrow> body k1
        | Some (Fails e n) \<Rightarrow> (Inl (IoError e), partial n k1)
        | Some (Halts n) \<Rightarrow> (Inl (IoError ''halted''), (partial n k1)\<lparr>dk_halted := True\<rparr>))"

definition intact :: "nat \<Rightarrow> disk \<Rightarrow> disk" where "intact n k = k"

definition Lstat :: "os \<Rightarrow> file_path \<Rightarrow> file_node io" where
  "Lstat os p = syscall os intact (\<lambda>k. (fetch (dk_now k p) NotExist, k))"

definition ReadFile :: "os \<Rightarrow> file_path \<Rightarrow> string io" where
  "ReadFile os p = syscall os intact (\<lambda>k.
     ((case dk_now k p of None \<Rightarrow> Inl NotExist | Some (File c _) \<Rightarrow> Inr c | Some _ \<Rightarrow> Inl (IoError ''not a regular file'')), k))"

definition CreateTemp :: "os \<Rightarrow> file_path \<Rightarrow> unit io" where
  "CreateTemp os p = syscall os intact (\<lambda>k.
     if dk_now k p = None then (Inr (), set_entry p (Some (File [] False)) k) else (Inl (IoError ''file exists''), k))"

definition WriteFile :: "os \<Rightarrow> file_path \<Rightarrow> string \<Rightarrow> unit io" where
  "WriteFile os p c = syscall os (\<lambda>n k. put_content p (take n c) k) (\<lambda>k. (Inr (), put_content p c k))"

definition SyncFile :: "os \<Rightarrow> file_path \<Rightarrow> unit io" where
  "SyncFile os p = syscall os intact (\<lambda>k.
     (case dk_now k p of
        None \<Rightarrow> (Inl NotExist, k)
      | Some (File c _) \<Rightarrow> (Inr (), k\<lparr>dk_now := (dk_now k)(p \<mapsto> File c True)\<rparr>)
      | Some _ \<Rightarrow> (Inl (IoError ''not a regular file''), k)))"

definition Chmod :: "os \<Rightarrow> file_path \<Rightarrow> unit io" where
  "Chmod os p = syscall os intact (\<lambda>k. (map_sum id (\<lambda>_. ()) (fetch (dk_now k p) NotExist), k))"

definition Rename :: "os \<Rightarrow> file_path \<Rightarrow> file_path \<Rightarrow> unit io" where
  "Rename os src dst = syscall os intact (\<lambda>k.
     (case dk_now k src of
        None \<Rightarrow> (Inl NotExist, k)
      | Some n \<Rightarrow> (Inr (), set_entry dst (Some n) (set_entry src None k))))"

definition Remove :: "os \<Rightarrow> file_path \<Rightarrow> unit io" where
  "Remove os p = syscall os intact (\<lambda>k. if dk_now k p = None then (Inl NotExist, k) else (Inr (), set_entry p None k))"

definition Mkdir :: "os \<Rightarrow> file_path \<Rightarrow> unit io" where
  "Mkdir os p = syscall os intact (\<lambda>k.
     if dk_now k p = None then (Inr (), set_entry p (Some Folder) k) else (Inl (IoError ''file exists''), k))"

definition SyncDir :: "os \<Rightarrow> string \<Rightarrow> unit io" where
  "SyncDir os d = syscall os intact (\<lambda>k. (Inr (), k\<lparr>dk_old := filter (\<lambda>(p, _). fst p \<noteq> d) (dk_old k)\<rparr>))"

text \<open>A deferred clean-up runs whether the action failed or not, and its own failure is ignored.\<close>

definition cleaning :: "('s, 'e, 'a) action \<Rightarrow> ('s, 'd, 'b) action \<Rightarrow> ('s, 'e, 'a) action" where
  "cleaning m c s = (let (r, s1) = m s in (r, snd (c s1)))"

text \<open>Removing a file that need not exist.\<close>

definition RemoveIfThere :: "os \<Rightarrow> file_path \<Rightarrow> unit io" where
  "RemoveIfThere os p = andThen (result_of (Remove os p)) (\<lambda>r. pass (if r = Inl NotExist then Inr () else r))"

subsection \<open>Atomic replacement\<close>

fun Code :: "io_error \<Rightarrow> string" where
  "Code (FaultError op e) =
     (if op = ''create'' then ''create_failure'' else if op = ''write'' then ''write_failure'' else if op = ''short_write'' then ''short_write''
      else if op = ''file_sync'' then ''sync_failure'' else if op = ''rename'' then ''rename_failure''
      else if op = ''directory_sync'' then ''dir_sync_failure'' else ''durable_write_failed'')"
| "Code _ = ''durable_write_failed''"

fun root_error :: "io_error \<Rightarrow> io_error" where
  "root_error (FaultError op e) = root_error e"
| "root_error e = e"

definition Classify_write :: "io_error \<Rightarrow> string" where
  "Classify_write e =
     (let r = root_error e in
      if r = IoError ''durablewrite: disk full'' then ''disk_full''
      else if r = IoError ''durablewrite: quota exceeded'' then ''quota_exceeded''
      else if r = IoError ''durablewrite: read-only filesystem'' then ''filesystem_read_only''
      else ''durable_write_failed'')"

definition wrapFault :: "string \<Rightarrow> 'a io \<Rightarrow> 'a io" where
  "wrapFault op m k = (let (r, k1) = m k in (map_sum (FaultError op) id r, k1))"

definition temp_of :: "file_path \<Rightarrow> string \<Rightarrow> file_path" where
  "temp_of dest rnd = (fst dest, snd dest @ ''.tmp-'' @ rnd)"

text \<open>The suffix \<open>rnd\<close> stands for the random part of the temporary name.\<close>

definition ReplaceFileVia :: "os \<Rightarrow> file_path \<Rightarrow> string \<Rightarrow> (file_path \<Rightarrow> unit io) \<Rightarrow> unit io" where
  "ReplaceFileVia os dest rnd produce =
     (let tmp = temp_of dest rnd in
      andThen (check (snd dest \<noteq> []) (IoError ''destination path required'')) (\<lambda>_.
      andThen (wrapFault ''create'' (CreateTemp os tmp)) (\<lambda>_.
      cleaning
        (andThen (wrapFault ''write'' (produce tmp)) (\<lambda>_.
         andThen (wrapFault ''file_sync'' (SyncFile os tmp)) (\<lambda>_.
         andThen (wrapFault ''file_sync'' (Chmod os tmp)) (\<lambda>_.
         andThen (wrapFault ''rename'' (Rename os tmp dest)) (\<lambda>_.
         wrapFault ''directory_sync'' (SyncDir os (fst dest)))))))
        (Remove os tmp))))"

definition ReplaceFile :: "os \<Rightarrow> file_path \<Rightarrow> string \<Rightarrow> string \<Rightarrow> unit io" where
  "ReplaceFile os dest rnd data = ReplaceFileVia os dest rnd (\<lambda>tmp. WriteFile os tmp data)"

subsection \<open>What a call leaves alone\<close>

text \<open>The paths of a set keep their entry, and a crash can bring back nothing that it could not bring back before.\<close>

definition untouched :: "file_path set \<Rightarrow> disk \<Rightarrow> disk \<Rightarrow> bool" where
  "untouched P k k' = (\<forall>p \<in> P. dk_now k' p = dk_now k p \<and> (\<forall>n. (p, n) \<in> set (dk_old k') \<longrightarrow> (p, n) \<in> set (dk_old k)))"

interpretation ut: step_relation "untouched P" for P
  by unfold_locales (auto simp: untouched_def)

lemma untouched_possible: "untouched P k k' \<Longrightarrow> p \<in> P \<Longrightarrow> possible k' p \<subseteq> possible k p"
  by (auto simp: untouched_def possible_def)

lemma untouched_mono: "untouched P k k' \<Longrightarrow> Q \<subseteq> P \<Longrightarrow> untouched Q k k'"
  by (auto simp: untouched_def)

lemma untouched_fields [simp]:
  "untouched P (k\<lparr>dk_calls := n\<rparr>) k' = untouched P k k'" "untouched P k (k'\<lparr>dk_calls := n\<rparr>) = untouched P k k'"
  "untouched P k (k'\<lparr>dk_halted := b\<rparr>) = untouched P k k'" "untouched P k k"
  by (auto simp: untouched_def)

lemma untouched_set_entry [simp]: "p \<notin> P \<Longrightarrow> untouched P k (set_entry p n k') = untouched P k k'"
  unfolding untouched_def set_entry_def by (intro ball_cong) auto

lemma untouched_put [simp]: "p \<notin> P \<Longrightarrow> untouched P k (put_content p c k') = untouched P k k'"
  by (cases "dk_now k' p") (simp add: put_content_def, unfold untouched_def put_content_def, intro ball_cong, auto)

lemma keeps_syscall:
  "(\<And>n k. untouched P k (partial n k)) \<Longrightarrow> (\<And>k. untouched P k (snd (body k))) \<Longrightarrow> ut.keeps P (syscall os partial body)"
proof (unfold ut.keeps_def, intro allI)
  fix k
  assume a: "\<And>n k. untouched P k (partial n k)" "\<And>k. untouched P k (snd (body k))"
  have "untouched P k (partial n (k\<lparr>dk_calls := m\<rparr>))" "untouched P k (snd (body (k\<lparr>dk_calls := m\<rparr>)))" for n m
    using a [of "k\<lparr>dk_calls := m\<rparr>"] a(1) [of _ n] by (metis untouched_fields(1))+
  then show "untouched P k (snd (syscall os partial body k))"
    by (simp add: syscall_def Let_def split: option.splits fault.splits)
qed

lemma intact_untouched [simp]: "untouched P k (intact n k')  = untouched P k k'" "intact n k = k"
  by (simp_all add: intact_def)

lemma keeps_calls:
  "ut.keeps P (Lstat os p)" "ut.keeps P (ReadFile os p)" "ut.keeps P (Chmod os p)" "ut.keeps P (SyncDir os d)"
  by (auto simp: Lstat_def ReadFile_def Chmod_def SyncDir_def untouched_def intro!: keeps_syscall)

lemma keeps_writes:
  assumes "p \<notin> P"
  shows "ut.keeps P (CreateTemp os p)" "ut.keeps P (WriteFile os p c)" "ut.keeps P (SyncFile os p)" "ut.keeps P (Remove os p)" "ut.keeps P (Mkdir os p)"
    and "ut.keeps P (RemoveIfThere os p)"
proof -
  show "ut.keeps P (Remove os p)" using assms unfolding Remove_def by (intro keeps_syscall) auto
  then show "ut.keeps P (RemoveIfThere os p)"
    unfolding RemoveIfThere_def by (intro ut.keeps_andThen ut.keeps_result_of ut.keeps_pass)
  show "ut.keeps P (SyncFile os p)" using assms unfolding SyncFile_def
    by (intro keeps_syscall) (auto simp: untouched_def split: option.splits file_node.splits)
qed (use assms in \<open>auto simp: CreateTemp_def WriteFile_def Mkdir_def intro!: keeps_syscall\<close>)

lemma keeps_Rename: "src \<notin> P \<Longrightarrow> dst \<notin> P \<Longrightarrow> ut.keeps P (Rename os src dst)"
  unfolding Rename_def by (intro keeps_syscall) (auto split: option.splits)

lemma keeps_wrapFault: "ut.keeps P m \<Longrightarrow> ut.keeps P (wrapFault op m)"
  by (simp add: ut.keeps_def wrapFault_def Let_def case_prod_unfold)

lemma keeps_cleaning: "ut.keeps P m \<Longrightarrow> ut.keeps P c \<Longrightarrow> ut.keeps P (cleaning m c)"
  unfolding ut.keeps_def cleaning_def Let_def case_prod_unfold snd_conv by (blast intro: ut.trans)

lemmas keeps_io = keeps_calls keeps_writes keeps_Rename keeps_wrapFault keeps_cleaning ut.keeps_rules

lemma keeps_ReplaceFileVia:
  assumes "dest \<notin> P" "temp_of dest rnd \<notin> P" "ut.keeps P (produce (temp_of dest rnd))"
  shows "ut.keeps P (ReplaceFileVia os dest rnd produce)"
  unfolding ReplaceFileVia_def Let_def using assms by (intro keeps_io) auto

subsection \<open>Replacement is atomic across crashes\<close>

lemma syscall_Inr [action_simps]:
  assumes "partial = intact"
  shows "syscall os partial body k = (Inr x, k') \<longleftrightarrow> \<not> dk_halted k \<and> os (dk_calls k) = None \<and> body (k\<lparr>dk_calls := Suc (dk_calls k)\<rparr>) = (Inr x, k')"
  by (auto simp: syscall_def Let_def split: option.splits fault.splits)

lemma wrapFault_Inr [action_simps]: "wrapFault op m k = (Inr x, k') \<longleftrightarrow> m k = (Inr x, k')"
  by (auto simp: wrapFault_def Let_def split: prod.splits sum.splits) (metis Inl_Inr_False id_apply map_sum.simps sum.exhaust)

text \<open>A renaming either happened as a whole or not at all.\<close>

lemma Rename_cases:
  "(\<exists>n. dk_now k src = Some n \<and> snd (Rename os src dst k) = set_entry dst (Some n) (set_entry src None (k\<lparr>dk_calls := Suc (dk_calls k)\<rparr>)))
     \<or> untouched UNIV k (snd (Rename os src dst k)) \<and> \<not> is_ok (fst (Rename os src dst k))"
  by (auto simp: Rename_def syscall_def Let_def untouched_def intact_def split: option.splits fault.splits)

lemma possible_fresh: "possible (set_entry p n k) p = outcomes n \<union> possible k p"
  by (auto simp: possible_def set_entry_def)

lemma possible_calls [simp]: "possible (k\<lparr>dk_calls := m\<rparr>) p = possible k p"
  by (simp add: possible_def)

lemma possible_other: "p \<noteq> q \<Longrightarrow> possible (set_entry q n k) p = possible k p"
  by (auto simp: possible_def set_entry_def)

lemma SyncDir_Inr:
  "SyncDir os (fst p) k = (Inr u, k') \<Longrightarrow> dk_now k' = dk_now k \<and> possible k' p = outcomes (dk_now k p)"
  by (auto simp: SyncDir_def action_simps possible_def)

text \<open>The temporary file after the steps before the renaming.\<close>

definition produces :: "(file_path \<Rightarrow> unit io) \<Rightarrow> file_path \<Rightarrow> (string \<Rightarrow> bool) \<Rightarrow> bool" where
  "produces produce tmp Q = (\<forall>k k'. produce tmp k = (Inr (), k') \<longrightarrow> (\<exists>c b. dk_now k' tmp = Some (File c b) \<and> Q c))"

lemma staged:
  assumes "produces produce tmp Q" and "produce tmp k = (Inr (), k1)" "SyncFile os tmp k1 = (Inr (), k2)" "Chmod os tmp k2 = (Inr u, k3)"
  shows "\<exists>c. dk_now k3 tmp = Some (File c True) \<and> Q c"
  using assms by (fastforce simp: produces_def SyncFile_def Chmod_def action_simps split: option.splits file_node.splits)

lemma temp_differs [simp]: "temp_of dest rnd \<noteq> dest" "dest \<noteq> temp_of dest rnd"
  by (cases dest, simp add: temp_of_def)+

text \<open>The renaming and the synchronization of the directory.\<close>

definition replaced :: "file_path \<Rightarrow> (string \<Rightarrow> bool) \<Rightarrow> disk \<Rightarrow> io_error + unit \<Rightarrow> disk \<Rightarrow> bool" where
  "replaced dest Q k r k' =
     (possible k' dest \<subseteq> possible k dest \<union> Some ` Collect Q
      \<and> (dk_now k' dest = dk_now k dest \<or> (\<exists>c. Q c \<and> dk_now k' dest = Some (File c True)))
      \<and> (r = Inr () \<longrightarrow> (\<exists>c. Q c \<and> dk_now k' dest = Some (File c True) \<and> possible k' dest = {Some c})))"

lemma replaced_untouched: "untouched P k k' \<Longrightarrow> dest \<in> P \<Longrightarrow> replaced dest Q k (Inl e) k'"
  using untouched_possible [of P k k' dest] by (auto simp: replaced_def untouched_def)

lemma replaced_before: "untouched P k k1 \<Longrightarrow> dest \<in> P \<Longrightarrow> replaced dest Q k1 r k' \<Longrightarrow> replaced dest Q k r k'"
  using untouched_possible [of P k k1 dest] by (auto simp: replaced_def untouched_def)

lemma outcomes_nonempty: "outcomes n \<noteq> {}"
  by (cases n rule: outcomes.cases) auto

lemma replaced_after: "replaced dest Q k r k1 \<Longrightarrow> untouched P k1 k' \<Longrightarrow> dest \<in> P \<Longrightarrow> replaced dest Q k r k'"
proof -
  assume a: "replaced dest Q k r k1" "untouched P k1 k'" "dest \<in> P"
  have "possible k' dest \<subseteq> possible k1 dest" "dk_now k' dest = dk_now k1 dest" "possible k' dest \<noteq> {}"
    using untouched_possible [OF a(2,3)] a(2,3) outcomes_nonempty by (auto simp: untouched_def possible_def)
  with a(1) show ?thesis unfolding replaced_def by (auto 0 3)
qed

lemma publish_steps:
  assumes "dk_now k tmp = Some (File c True)" "Q c" "tmp \<noteq> dest"
    and "andThen (wrapFault f (Rename os tmp dest)) (\<lambda>_. wrapFault g (SyncDir os (fst dest))) k = (r, k')"
  shows "replaced dest Q k r k'"
proof -
  obtain r1 k1 where r1: "Rename os tmp dest k = (r1, k1)" by fastforce
  from Rename_cases [of k tmp os dest]
  show ?thesis
  proof (elim disjE exE conjE)
    fix n assume n: "dk_now k tmp = Some n" "snd (Rename os tmp dest k) = set_entry dest (Some n) (set_entry tmp None (k\<lparr>dk_calls := Suc (dk_calls k)\<rparr>))"
    then have k1: "k1 = set_entry dest (Some (File c True)) (set_entry tmp None (k\<lparr>dk_calls := Suc (dk_calls k)\<rparr>))" using r1 assms(1) by simp
    then have one: "dk_now k1 dest = Some (File c True)" "possible k1 dest = insert (Some c) (possible k dest)"
      using assms(3) by (simp_all add: possible_fresh possible_other) (simp add: set_entry_def)
    obtain r2 k2 where r2: "SyncDir os (fst dest) k1 = (r2, k2)" by fastforce
    have u: "untouched UNIV k1 k2" using ut.keeps_run [OF keeps_calls(4) r2] .
    show ?thesis
    proof (cases r1)
      case (Inl e)
      with assms(2,4) r1 one show ?thesis by (auto simp: andThen_def wrapFault_def replaced_def)
    next
      case (Inr u1)
      then have r: "r = map_sum (FaultError g) id r2" "k' = k2" using assms(4) r1 r2 by (simp_all add: andThen_def wrapFault_def)
      have sync: "r2 = Inr () \<Longrightarrow> possible k2 dest = {Some c}" using SyncDir_Inr [of os dest k1 _ k2] r2 one by (cases r2) auto
      have "possible k2 dest \<subseteq> insert (Some c) (possible k dest)" "dk_now k2 dest = Some (File c True)"
        using untouched_possible [OF u UNIV_I, of dest] u [unfolded untouched_def, THEN bspec, OF UNIV_I, of dest] one by simp_all
      with sync assms(2) r show ?thesis by (cases r2) (auto simp: replaced_def)
    qed
  next
    assume "untouched UNIV k (snd (Rename os tmp dest k))" "\<not> is_ok (fst (Rename os tmp dest k))"
    then obtain e where "r1 = Inl e" "untouched UNIV k k1" using r1 by (cases r1) auto
    then show ?thesis using assms(4) r1 by (auto simp: andThen_def wrapFault_def intro: replaced_untouched)
  qed
qed

lemma ReplaceFileVia_replaces:
  assumes "ReplaceFileVia os dest rnd produce k = (r, k')"
    and contract: "produces produce (temp_of dest rnd) Q" and keeps: "ut.keeps P (produce (temp_of dest rnd))"
    and P: "dest \<in> P" "temp_of dest rnd \<notin> P"
  shows "replaced dest Q k r k'"
proof -
  let ?tmp = "temp_of dest rnd"
  let ?stage = "andThen (wrapFault ''write'' (produce ?tmp)) (\<lambda>_. andThen (wrapFault ''file_sync'' (SyncFile os ?tmp)) (\<lambda>_. wrapFault ''file_sync'' (Chmod os ?tmp)))"
  let ?publish = "andThen (wrapFault ''rename'' (Rename os ?tmp dest)) (\<lambda>_. wrapFault ''directory_sync'' (SyncDir os (fst dest)))"
  have assoc: "ReplaceFileVia os dest rnd produce = andThen (check (snd dest \<noteq> []) (IoError ''destination path required''))
      (\<lambda>_. andThen (wrapFault ''create'' (CreateTemp os ?tmp)) (\<lambda>_. cleaning (andThen ?stage (\<lambda>_. ?publish)) (Remove os ?tmp)))"
    by (auto simp: ReplaceFileVia_def Let_def andThen_def fun_eq_iff cleaning_def split: sum.splits prod.splits)
  have stage: "ut.keeps P ?stage" using keeps P by (intro keeps_io)
  have body: "replaced dest Q k1 r1 k2" if "andThen ?stage (\<lambda>_. ?publish) k1 = (r1, k2)" for k1 r1 k2
  proof -
    obtain rs ks where s: "?stage k1 = (rs, ks)" by fastforce
    have u: "untouched P k1 ks" using ut.keeps_run [OF stage s] .
    show ?thesis
    proof (cases rs)
      case (Inl e)
      then have "r1 = Inl e" "k2 = ks" using that s by (simp_all add: andThen_def)
      with replaced_untouched [OF u P(1)] show ?thesis by simp
    next
      case (Inr v)
      then obtain ka kb where "produce ?tmp k1 = (Inr (), ka)" "SyncFile os ?tmp ka = (Inr (), kb)" "Chmod os ?tmp kb = (Inr v, ks)"
        using s by (auto simp: action_simps)
      from staged [OF contract this] obtain c where c: "dk_now ks ?tmp = Some (File c True)" "Q c" by auto
      have "?publish ks = (r1, k2)" using that s Inr by (simp add: andThen_def)
      then have "replaced dest Q ks r1 k2" by (rule publish_steps [where Q = Q, OF c temp_differs(1)])
      with replaced_before [OF u P(1)] show ?thesis by blast
    qed
  qed
  obtain r1 k1 where c: "CreateTemp os ?tmp k = (r1, k1)" by fastforce
  have u: "untouched P k k1" using ut.keeps_run [OF keeps_writes(1) c] P(2) by simp
  show ?thesis
  proof (cases "snd dest \<noteq> [] \<and> is_ok r1")
    case False
    then have "\<exists>e. r = Inl e \<and> (k' = k \<or> k' = k1)"
      using assms(1) c by (cases "snd dest \<noteq> []"; cases r1) (simp_all add: assoc andThen_def check_def wrapFault_def split: if_splits, auto)
    with replaced_untouched u P(1) untouched_fields(4) show ?thesis by (metis UNIV_I)
  next
    case True
    then obtain v where "r1 = Inr v" "snd dest \<noteq> []" by (cases r1) auto
    then have clean: "cleaning (andThen ?stage (\<lambda>_. ?publish)) (Remove os ?tmp) k1 = (r, k')"
      using assms(1) c by (simp add: assoc andThen_def check_def wrapFault_def)
    obtain r2 k2 where b: "andThen ?stage (\<lambda>_. ?publish) k1 = (r2, k2)" by fastforce
    then have "r2 = r" "k' = snd (Remove os ?tmp k2)" using clean by (simp_all add: cleaning_def Let_def)
    moreover have "untouched P k2 (snd (Remove os ?tmp k2))" by (rule ut.keepsD [OF keeps_writes(4) [OF P(2)]])
    ultimately show ?thesis using replaced_after [OF replaced_before [OF u P(1) body [OF b]] _ P(1)] by simp
  qed
qed

text \<open>C39. A durable replacement is atomic whatever call fails and wherever the machine stops: after a crash the file is one
  it could have been before, or the new content as a whole; when success was reported it is the new content; and
  no other file but the temporary one is touched.\<close>

theorem replacement_survives_crash:
  assumes "ReplaceFile os dest rnd data k = (r, k')"
  shows "possible k' dest \<subseteq> insert (Some data) (possible k dest)
     \<and> (r = Inr () \<longrightarrow> possible k' dest = {Some data})
     \<and> (dk_now k' dest = dk_now k dest \<or> dk_now k' dest = Some (File data True))
     \<and> (\<forall>p. p \<noteq> dest \<longrightarrow> p \<noteq> temp_of dest rnd \<longrightarrow> dk_now k' p = dk_now k p \<and> possible k' p \<subseteq> possible k p)"
proof -
  let ?tmp = "temp_of dest rnd"
  have run: "ReplaceFileVia os dest rnd (\<lambda>tmp. WriteFile os tmp data) k = (r, k')" using assms by (simp add: ReplaceFile_def)
  have writes: "produces (\<lambda>tmp. WriteFile os tmp data) ?tmp (\<lambda>c. c = data)"
    by (auto simp: produces_def WriteFile_def syscall_def put_content_def set_entry_def Let_def split: option.splits fault.splits if_splits)
  have "replaced dest (\<lambda>c. c = data) k r k'"
    using ReplaceFileVia_replaces [OF run writes keeps_writes(2), of "- {?tmp}"] by simp
  moreover have "untouched (- {dest, ?tmp}) k k'"
    by (rule ut.keeps_run [OF keeps_ReplaceFileVia run]) (simp_all add: keeps_writes)
  ultimately show ?thesis
    using untouched_possible [of "- {dest, ?tmp}" k k'] by (auto simp: replaced_def untouched_def)
qed

definition disk0 :: disk where
  "disk0 = \<lparr>dk_now = [(''/d'', ''f'') \<mapsto> File ''old'' True], dk_old = [], dk_calls = 0, dk_halted = False\<rparr>"

text \<open>The machine stops during the second call, the writing.\<close>

theorem replacement_survives_crash_witness:
  "possible (snd (ReplaceFile (\<lambda>n. if n = 1 then Some (Halts 2) else None) (''/d'', ''f'') ''x'' ''new'' disk0)) (''/d'', ''f'') \<subseteq> {Some ''new'', Some ''old''}"
proof -
  let ?os = "\<lambda>n. if n = 1 then Some (Halts 2) else None"
  obtain r k' where r: "ReplaceFile ?os (''/d'', ''f'') ''x'' ''new'' disk0 = (r, k')" by fastforce
  have "possible disk0 (''/d'', ''f'') = {Some ''old''}" by (simp add: possible_def disk0_def)
  with replacement_survives_crash [OF r] r show ?thesis by simp
qed

subsection \<open>Backups of the ledger\<close>

text \<open>
  \<open>Backup\<close>: \<open>online\<close> is what the online backup of SQLite writes, \<open>checked\<close> what opening that file and checking its integrity
  leaves in it or the error; side files of the database next to the temporary file are removed.
\<close>

definition side_file :: "file_path \<Rightarrow> string \<Rightarrow> file_path" where
  "side_file p rnd = (fst p, snd p @ rnd)"

definition produce_backup :: "os \<Rightarrow> string \<Rightarrow> (string \<Rightarrow> string + string) \<Rightarrow> file_path \<Rightarrow> string io" where
  "produce_backup os online checked tmp =
     cleaning
       (andThen (WriteFile os tmp online) (\<lambda>_.
        andThen (pass (map_sum IoError id (checked online))) (\<lambda>c.
        andThen (WriteFile os tmp c) (\<lambda>_. ReadFile os tmp))))
       (cleaning (Remove os (side_file tmp ''-wal'')) (Remove os (side_file tmp ''-shm'')))"

definition backup_record :: "env \<Rightarrow> string \<Rightarrow> string \<Rightarrow> backup_row" where
  "backup_record en path data =
     \<lparr>bk_id = NewID en 0 ''backup'', bk_path = path, bk_sha = SHA256Bytes data, bk_size = int (length data), bk_created = en_now en\<rparr>"

definition full_path :: "file_path \<Rightarrow> string" where
  "full_path p = fst p @ ''/'' @ snd p"

text \<open>The record is made from what was read back in \<open>produce\<close>, the checked bytes just written; it is inserted after the replacement.\<close>

definition Backup :: "os \<Rightarrow> env \<Rightarrow> string \<Rightarrow> (string \<Rightarrow> string + string) \<Rightarrow> file_path \<Rightarrow> string \<Rightarrow> disk \<times> control
    \<Rightarrow> (string + backup_row) \<times> (disk \<times> control)" where
  "Backup os en online checked path rnd st =
     (case ReplaceFileVia os path rnd (\<lambda>tmp. andThen (produce_backup os online checked tmp) (\<lambda>_. give ())) (fst st) of
        (Inl e, k) \<Rightarrow> (Inl ''backup failed'', (k, snd st))
      | (Inr _, k) \<Rightarrow>
          (let b = backup_record en (full_path path) (case checked online of Inr c \<Rightarrow> c | Inl _ \<Rightarrow> []) in
           case WithTx en (\<lambda>c. try_bind (require (\<not> has_key bk_id (bk_id b) (backups c)) (SqlConstraint ''ledger_backups''))
                  (\<lambda>_. Inr (c\<lparr>backups := backups c @ [b]\<rparr>))) (snd st) of
             (Inl e, c) \<Rightarrow> (Inl ''backup record failed'', (k, c))
           | (Inr _, c) \<Rightarrow> (Inr b, (k, c))))"

lemma cleaning_Inr [action_simps]: "cleaning m c s = (Inr x, s') \<longleftrightarrow> (\<exists>s1. m s = (Inr x, s1) \<and> s' = snd (c s1))"
  by (auto simp: cleaning_def Let_def split: prod.splits)

lemma WriteFile_Inr: "WriteFile os p c k = (Inr u, k') \<Longrightarrow> dk_now k' p = Some (File c False)"
  by (auto simp: WriteFile_def syscall_def put_content_def set_entry_def Let_def split: option.splits fault.splits if_splits)

lemma side_differs [simp]: "rnd \<noteq> [] \<Longrightarrow> side_file p rnd \<noteq> p" "rnd \<noteq> [] \<Longrightarrow> p \<noteq> side_file p rnd"
  by (cases p, simp add: side_file_def)+

lemma produce_backup_ok:
  "produces (\<lambda>tmp. andThen (produce_backup os online checked tmp) (\<lambda>_. give ())) tmp (\<lambda>c. checked online = Inr c)"
  unfolding produces_def
proof (intro allI impI)
  fix k k' assume "andThen (produce_backup os online checked tmp) (\<lambda>_. give ()) k = (Inr (), k')"
  then obtain c k1 k2 u v where c: "checked online = Inr c" "WriteFile os tmp c k1 = (Inr v, k2)" and r: "\<exists>x. ReadFile os tmp k2 = (Inr x, u)"
      and k': "k' = snd (cleaning (Remove os (side_file tmp ''-wal'')) (Remove os (side_file tmp ''-shm'')) u)"
    by (auto simp: produce_backup_def action_simps) (cases "checked online"; auto)
  have "untouched {tmp} k2 u" using r ut.keeps_run [OF keeps_calls(2)] by blast
  moreover have "ut.keeps {tmp} (cleaning (Remove os (side_file tmp ''-wal'')) (Remove os (side_file tmp ''-shm'')))"
    by (intro keeps_io) simp_all
  from ut.keepsD [OF this, of u] have "untouched {tmp} u k'" using k' by simp
  ultimately show "\<exists>c b. dk_now k' tmp = Some (File c b) \<and> checked online = Inr c"
    using WriteFile_Inr [OF c(2)] c(1) by (auto simp: untouched_def)
qed

lemma keeps_produce_backup:
  "tmp \<notin> P \<Longrightarrow> side_file tmp ''-wal'' \<notin> P \<Longrightarrow> side_file tmp ''-shm'' \<notin> P \<Longrightarrow>
     ut.keeps P (andThen (produce_backup os online checked tmp) (\<lambda>_. give ()))"
  unfolding produce_backup_def by (intro keeps_io)

text \<open>C40. A backup that is reported is on the disk to stay and is what the catalog says: after any crash its file has exactly
  the bytes that passed the integrity check, with the digest and the size of the catalog row; a backup that failed
  while writing leaves the former file or the whole new one, and the catalog as it was.\<close>

theorem backup_matches_catalog:
  assumes "Backup os en online checked path rnd (k, c) = (r, (k', c'))"
  shows "(\<forall>b. r = Inr b \<longrightarrow> b \<in> set (backups c')
        \<and> (\<exists>data. checked online = Inr data \<and> possible k' path = {Some data} \<and> bk_sha b = SHA256Bytes data \<and> bk_size b = int (length data)))
     \<and> possible k' path \<subseteq> possible k path \<union> Some ` {data. checked online = Inr data}
     \<and> (r = Inl ''backup failed'' \<longrightarrow> c' = c)"
proof -
  let ?tmp = "temp_of path rnd"
  let ?P = "- {?tmp, side_file ?tmp ''-wal'', side_file ?tmp ''-shm''}"
  obtain r1 k1 where run: "ReplaceFileVia os path rnd (\<lambda>tmp. andThen (produce_backup os online checked tmp) (\<lambda>_. give ())) k = (r1, k1)" by fastforce
  have "path \<in> ?P" by (cases path) (simp add: temp_of_def side_file_def)
  then have rep: "replaced path (\<lambda>c. checked online = Inr c) k r1 k1"
    using ReplaceFileVia_replaces [OF run produce_backup_ok keeps_produce_backup, of ?P] by simp
  show ?thesis
  proof (cases r1)
    case (Inl e)
    with assms run rep show ?thesis by (auto simp: Backup_def replaced_def)
  next
    case (Inr u)
    then obtain data where d: "checked online = Inr data" "possible k1 path = {Some data}" using rep by (auto simp: replaced_def)
    let ?b = "backup_record en (full_path path) data"
    let ?tx = "WithTx en (\<lambda>c. try_bind (require (\<not> has_key bk_id (bk_id ?b) (backups c)) (SqlConstraint ''ledger_backups''))
                  (\<lambda>_. Inr (c\<lparr>backups := backups c @ [?b]\<rparr>))) c"
    obtain r2 c2 where tx: "?tx = (r2, c2)" by fastforce
    have res: "k' = k1" "c' = c2" "r = (case r2 of Inl e \<Rightarrow> Inl ''backup record failed'' | Inr _ \<Rightarrow> Inr ?b)"
      using assms run Inr d(1) tx by (simp_all add: Backup_def Let_def split: sum.splits)
    have "?b \<in> set (backups c2)" if "r2 = Inr v" for v
      using tx that by (auto simp: WithTx_def try_bind_Inr split: option.splits sum.splits)
    with res d rep show ?thesis by (cases r2) (auto simp: replaced_def backup_record_def)
  qed
qed

theorem backup_matches_catalog_witness:
  "possible (fst (snd (Backup (\<lambda>n. if n = 3 then Some (Fails ''disk full'' 0) else None) env0 ''new'' Inr (''/d'', ''f'') ''x'' (disk0, empty_control)))) (''/d'', ''f'')
     \<subseteq> {Some ''new'', Some ''old''}"
proof -
  let ?os = "\<lambda>n. if n = 3 then Some (Fails ''disk full'' 0) else None"
  obtain r k' c' where r: "Backup ?os env0 ''new'' Inr (''/d'', ''f'') ''x'' (disk0, empty_control) = (r, (k', c'))" by (metis prod.collapse)
  have "possible disk0 (''/d'', ''f'') = {Some ''old''}" by (simp add: possible_def disk0_def)
  with backup_matches_catalog [OF r] r show ?thesis by auto
qed

end
