(* ===== verification/RestoreReconcile.thy ===== *)
theory RestoreReconcile
  imports LedgerProperties
begin

text \<open>
  The comparison of external effects after a restore (\<open>internal/ledgerrestore/reconcile.go\<close>, with the reads of
  \<open>internal/ledger/effect_read.go\<close>): what the restored ledger proves about each effect, and which effects are
  newer than the backup.  A ledger that cannot be copied or opened is an error of its reader, and each query of an
  open one may fail.
\<close>

subsection \<open>Reads\<close>

definition TransactionsWithEffects :: "ledger \<Rightarrow> transaction list" where
  "TransactionsWithEffects l =
     rev (sort_key (\<lambda>t. ts (tx_created t)) (rev (sort_key tx_id
       (filter (\<lambda>t. list_ex (\<lambda>e. ef_tx e = tx_id t \<and> ef_status e \<noteq> EffectSuperseded) (effects l)) (transactions l)))))"

definition EffectAttempts :: "string \<Rightarrow> ledger \<Rightarrow> effect_attempt list" where
  "EffectAttempts tid l = sort_key (\<lambda>a. (ts (at_started a), at_id a)) (filter (\<lambda>a. at_tx a = tid) (attempts l))"

text \<open>An open snapshot, and the queries on it that fail: the list, the effects or attempts of a transaction, a receipt.\<close>

record reader =
  rd_ledger :: ledger
  rd_list_fails :: bool
  rd_effects_fail :: "string \<Rightarrow> bool"
  rd_attempts_fail :: "string \<Rightarrow> bool"
  rd_receipt_fails :: "string \<Rightarrow> string option"

definition receiptFor :: "reader \<Rightarrow> string \<Rightarrow> ledger_error + effect_receipt" where
  "receiptFor rd eid = (case rd_receipt_fails rd eid of Some e \<Rightarrow> Inl (SqlFault e) | None \<Rightarrow> EffectReceipt eid (rd_ledger rd))"

subsection \<open>Classification\<close>

datatype external_state =
    NoExternalEffect | KnownAbsent | KnownPresent | ReconciliationRequired | ExternalStateAmbiguous | EvidenceUnavailable

fun external_text :: "external_state \<Rightarrow> string" where
  "external_text NoExternalEffect = ''no_external_effect''"
| "external_text KnownAbsent = ''known_absent''"
| "external_text KnownPresent = ''known_present''"
| "external_text ReconciliationRequired = ''reconciliation_required''"
| "external_text ExternalStateAmbiguous = ''external_state_ambiguous''"
| "external_text EvidenceUnavailable = ''evidence_unavailable''"

record effect_status =
  es_effect :: string
  es_tx :: string
  es_state :: external_state
  es_reason :: string

definition missing_receipt :: "ledger_error + effect_receipt \<Rightarrow> external_state \<times> string" where
  "missing_receipt receipt =
     (EvidenceUnavailable, if receipt = Inl ErrNotFound then ''receipt_missing'' else ''receipt_unreadable'')"

definition classifyFromAttempt :: "effect_attempt option \<Rightarrow> ledger_error + effect_receipt \<Rightarrow> external_state \<times> string" where
  "classifyFromAttempt latest receipt =
     (case latest of
        None \<Rightarrow> (ExternalStateAmbiguous, ''in_flight'')
      | Some a \<Rightarrow>
          if at_outcome a = ''success'' then (if is_ok receipt then (KnownPresent, ''receipt'') else missing_receipt receipt)
          else if at_outcome a = ''not_found'' then (KnownAbsent, ''provider_absent'')
          else if at_outcome a = ''definite_failure'' then (KnownAbsent, ''provider_rejected'')
          else if at_outcome a = ''unknown'' then (ExternalStateAmbiguous, ''dispatch_outcome_unknown'')
          else (ExternalStateAmbiguous, ''in_flight''))"

text \<open>The state by the status of the effect alone.\<close>

definition status_state :: "effect_state \<Rightarrow> effect_attempt option \<Rightarrow> ledger_error + effect_receipt \<Rightarrow> external_state \<times> string" where
  "status_state st latest receipt =
     (case st of
        EffectCommitted \<Rightarrow> if is_ok receipt then (KnownPresent, ''receipt'') else missing_receipt receipt
      | EffectUnknown \<Rightarrow> classifyFromAttempt latest receipt
      | EffectCommitting \<Rightarrow> classifyFromAttempt latest receipt
      | EffectFailed \<Rightarrow> (case latest of
            Some a \<Rightarrow> if at_outcome a = ''definite_failure'' then (KnownAbsent, ''provider_rejected'') else (ExternalStateAmbiguous, ''unhandled_state'')
          | None \<Rightarrow> (ExternalStateAmbiguous, ''unhandled_state''))
      | EffectManual \<Rightarrow> (ExternalStateAmbiguous, ''manual_intervention'')
      | _ \<Rightarrow> if st \<in> {EffectVerified, EffectPrepared, EffectDiscovered, EffectPreparing, EffectAborted}
             then (if latest = None then (NoExternalEffect, ''never_dispatched'') else classifyFromAttempt latest receipt)
             else (ExternalStateAmbiguous, ''unhandled_state''))"

definition conflicting :: "ledger_error + effect_receipt \<Rightarrow> external_state \<times> string \<Rightarrow> external_state \<times> string" where
  "conflicting receipt s =
     (if fst s \<noteq> KnownPresent \<and> is_ok receipt then (EvidenceUnavailable, ''conflicting_receipt'') else s)"

definition by_transaction :: "tx_state \<Rightarrow> external_state \<times> string \<Rightarrow> external_state \<times> string" where
  "by_transaction st s =
     (if st = StateNeedsReconciliation \<and> fst s \<in> {NoExternalEffect, ExternalStateAmbiguous}
      then (ReconciliationRequired, ''requires_canonical_recovery'')
      else if st = StateCommitting \<and> fst s = NoExternalEffect then (ExternalStateAmbiguous, ''in_flight'')
      else s)"

definition classifyEffect :: "external_effect \<Rightarrow> tx_state \<Rightarrow> ledger_error + effect_receipt \<Rightarrow> effect_attempt list \<Rightarrow> effect_status" where
  "classifyEffect e st receipt atts =
     (let s = by_transaction st (conflicting receipt (status_state (ef_status e) (if atts = [] then None else Some (last atts)) receipt))
      in \<lparr>es_effect = ef_id e, es_tx = ef_tx e, es_state = fst s, es_reason = snd s\<rparr>)"

subsection \<open>The report\<close>

record reconciliation =
  rr_txs :: "string list"
  rr_effects :: "string list"
  rr_required :: bool
  rr_counts :: "external_state \<Rightarrow> nat"
  rr_newer :: "string list"
  rr_resume :: bool
  rr_action :: string
  rr_summary :: string
  rr_commands :: "string list"
  rr_statuses :: "effect_status list"

definition gap :: "string \<Rightarrow> string \<Rightarrow> effect_status" where
  "gap tid reason = \<lparr>es_effect = [], es_tx = tid, es_state = EvidenceUnavailable, es_reason = reason\<rparr>"

definition count_state :: "effect_status list \<Rightarrow> external_state \<Rightarrow> nat" where
  "count_state xs st = length (filter (\<lambda>s. es_state s = st) xs)"

definition summary_of :: "effect_status list \<Rightarrow> string \<times> string" where
  "summary_of xs =
     (if count_state xs EvidenceUnavailable > 0 then
        (''restore complete; external-effect evidence is insufficient'',
         ''manual review required: durable external-effect evidence is insufficient; verify provider state before any retry'')
      else if count_state xs ExternalStateAmbiguous > 0 \<or> count_state xs ReconciliationRequired > 0 then
        (''restore complete; reconciliation is required before further publication'',
         ''run the canonical recovery command for each affected change before further publication'')
      else if count_state xs KnownPresent > 0 then
        (''restore complete; known external effects were found'',
         ''known external effects were found; do not re-run publication automatically; inspect each affected change before further publication'')
      else if count_state xs KnownAbsent > 0 then
        (''restore complete; known external effects were found'',
         ''affected effects were proved absent; retry only through the canonical recovery path'')
      else (''restore complete; no external reconciliation identified'', []))"

definition affected :: "effect_status list \<Rightarrow> effect_status list" where
  "affected xs = filter (\<lambda>s. es_state s \<noteq> NoExternalEffect) xs"

definition finish :: "effect_status list \<Rightarrow> string list \<Rightarrow> string list \<Rightarrow> reconciliation" where
  "finish xs later commands =
     \<lparr>rr_txs = sort (remdups (filter (\<lambda>i. i \<noteq> []) (map es_tx (affected xs)))),
      rr_effects = sort (remdups (filter (\<lambda>i. i \<noteq> []) (map es_effect (affected xs)))),
      rr_required = (affected xs \<noteq> []), rr_counts = count_state xs, rr_newer = later, rr_resume = (affected xs = []),
      rr_action = snd (summary_of xs), rr_summary = fst (summary_of xs), rr_commands = commands, rr_statuses = xs\<rparr>"

subsection \<open>The comparison\<close>

text \<open>Effects are keyed by their identifier, the primary key of their table, so a list of them serves as the map.\<close>

definition restored_tx :: "reader \<Rightarrow> transaction \<Rightarrow> effect_status list \<times> effect_status list" where
  "restored_tx rd t =
     (if rd_effects_fail rd (tx_id t) \<or> rd_attempts_fail rd (tx_id t) then ([gap (tx_id t) ''ledger_unreadable''], [])
      else ([], map (\<lambda>e. classifyEffect e (tx_status t) (receiptFor rd (ef_id e)) (EffectAttempts (tx_id t) (rd_ledger rd)))
                  (ExternalEffects (tx_id t) (rd_ledger rd))))"

definition newer_than :: "string list \<Rightarrow> reader \<Rightarrow> effect_status list \<times> effect_status list" where
  "newer_than seen rb =
     (if rd_list_fails rb then ([gap [] ''pre_restore_ledger_unreadable''], [])
      else (concat (map (\<lambda>t. if rd_effects_fail rb (tx_id t) then [gap (tx_id t) ''pre_restore_ledger_unreadable''] else [])
              (TransactionsWithEffects (rd_ledger rb))),
            map (\<lambda>(tid, eid). \<lparr>es_effect = eid, es_tx = tid, es_state = ExternalStateAmbiguous, es_reason = ''newer_than_backup''\<rparr>)
              (filter (\<lambda>(tid, eid). eid \<notin> set seen)
                (concat (map (\<lambda>t. if rd_effects_fail rb (tx_id t) then []
                    else map (\<lambda>e. (tx_id t, ef_id e)) (ExternalEffects (tx_id t) (rd_ledger rb)))
                  (TransactionsWithEffects (rd_ledger rb)))))))"

definition recovery_commands :: "transaction list \<Rightarrow> string list \<Rightarrow> string list" where
  "recovery_commands txs affected_ids =
     sort (remdups (concat (map (\<lambda>tid. case find_row tx_id tid txs of
         Some t \<Rightarrow> if tx_status t \<in> {StateCommitting, StateNeedsReconciliation} then [''fdif recover '' @ tid @ '' --yes'']
                   else if tx_status t = StateManualIntervention then [''fdif status '' @ tid] else []
       | None \<Rightarrow> []) affected_ids)))"

text \<open>
  The first argument reads the restored ledger, the second is what is found of the ledger preserved before the restore: no
  quarantine was made, the \<open>Lstat\<close> of its \<open>ledger.db\<close> failed (the code then goes on as if there were none), or its reader.
\<close>

datatype preserved_ledger = NoQuarantine | LstatFailed | PreservedLedger "string + reader"

definition evaluateExternalEffects :: "string + reader \<Rightarrow> preserved_ledger \<Rightarrow> reconciliation" where
  "evaluateExternalEffects restored before =
     (case restored of
        Inl _ \<Rightarrow> finish [gap [] ''ledger_unreadable''] [] []
      | Inr rd \<Rightarrow>
          if rd_list_fails rd then finish [gap [] ''ledger_unreadable''] [] []
          else
            (let txs = TransactionsWithEffects (rd_ledger rd); parts = map (restored_tx rd) txs;
                 known = concat (map snd parts);
                 (gaps, later) = (case before of
                     NoQuarantine \<Rightarrow> ([], [])
                   | LstatFailed \<Rightarrow> ([], [])
                   | PreservedLedger (Inl _) \<Rightarrow> ([gap [] ''pre_restore_ledger_unreadable''], [])
                   | PreservedLedger (Inr rb) \<Rightarrow> newer_than (map es_effect known) rb);
                 all = sort_key (\<lambda>s. (es_tx s, es_effect s)) (concat (map fst parts) @ gaps @ known @ later);
                 r = finish all (sort (map es_effect later)) []
             in r\<lparr>rr_commands := recovery_commands txs (rr_txs r)\<rparr>))"

subsection \<open>Nothing is resumed that may have been dispatched\<close>

lemma finish_resume: "rr_resume (finish xs later cs) \<longleftrightarrow> (\<forall>s \<in> set xs. es_state s = NoExternalEffect)"
  by (auto simp: finish_def affected_def filter_empty_conv)

lemma gap_state [simp]: "es_state (gap tid reason) = EvidenceUnavailable"
  by (simp add: gap_def)

lemma classifyFromAttempt_some: "fst (classifyFromAttempt latest receipt) \<noteq> NoExternalEffect"
  by (auto simp: classifyFromAttempt_def missing_receipt_def split: option.splits)

definition never_dispatched :: "reader \<Rightarrow> external_effect \<Rightarrow> bool" where
  "never_dispatched rd e =
     (ef_status e \<in> {EffectVerified, EffectPrepared, EffectDiscovered, EffectPreparing, EffectAborted}
      \<and> (\<forall>a \<in> set (attempts (rd_ledger rd)). at_tx a \<noteq> ef_tx e) \<and> \<not> is_ok (receiptFor rd (ef_id e)))"

lemma status_state_none:
  assumes "fst (status_state st latest receipt) = NoExternalEffect"
  shows "latest = None \<and> st \<in> {EffectVerified, EffectPrepared, EffectDiscovered, EffectPreparing, EffectAborted}"
  using assms classifyFromAttempt_some [of latest receipt]
  by (auto simp: status_state_def missing_receipt_def split: effect_state.splits option.splits if_splits)

lemma classify_none:
  assumes "es_state (classifyEffect e st receipt atts) = NoExternalEffect"
  shows "atts = [] \<and> \<not> is_ok receipt \<and> ef_status e \<in> {EffectVerified, EffectPrepared, EffectDiscovered, EffectPreparing, EffectAborted}"
proof -
  let ?s = "status_state (ef_status e) (if atts = [] then None else Some (last atts)) receipt"
  have "fst (conflicting receipt ?s) = NoExternalEffect"
    using assms by (auto simp: classifyEffect_def by_transaction_def Let_def split: if_splits)
  then have "fst ?s = NoExternalEffect" "\<not> is_ok receipt" by (auto simp: conflicting_def split: if_splits)
  with status_state_none [OF this(1)] show ?thesis by (auto split: if_splits)
qed

lemma live_effects_in: "e \<in> set (live_effects tid l) \<longleftrightarrow> e \<in> set (effects l) \<and> ef_tx e = tid \<and> ef_status e \<noteq> EffectSuperseded"
  by (auto simp: live_effects_def)

lemma ExternalEffects_in:
  "e \<in> set (effects l) \<Longrightarrow> ef_status e \<noteq> EffectSuperseded \<Longrightarrow>
     \<exists>e' \<in> set (ExternalEffects (ef_tx e) l). ef_id e' = ef_id e \<and> ef_status e' = ef_status e \<and> ef_tx e' = ef_tx e"
  by (force simp: ExternalEffects_def live_effects_in)

lemma ExternalEffects_from:
  "e' \<in> set (ExternalEffects tid l) \<Longrightarrow> \<exists>e \<in> set (effects l). ef_id e = ef_id e' \<and> ef_tx e = tid \<and> ef_status e \<noteq> EffectSuperseded"
  by (force simp: ExternalEffects_def live_effects_in)

lemma TransactionsWithEffects_in:
  "e \<in> set (effects l) \<Longrightarrow> ef_status e \<noteq> EffectSuperseded \<Longrightarrow> has_key tx_id (ef_tx e) (transactions l) \<Longrightarrow>
     \<exists>t \<in> set (TransactionsWithEffects l). tx_id t = ef_tx e"
  by (force simp: TransactionsWithEffects_def has_key_iff list_ex_iff)

lemma restored_tx_none:
  assumes "\<forall>s \<in> set (fst (restored_tx rd t)) \<union> set (snd (restored_tx rd t)). es_state s = NoExternalEffect"
    and "e \<in> set (effects (rd_ledger rd))" "ef_status e \<noteq> EffectSuperseded" "tx_id t = ef_tx e"
  shows "never_dispatched rd e"
proof -
  obtain e' where e': "e' \<in> set (ExternalEffects (ef_tx e) (rd_ledger rd))" "ef_id e' = ef_id e" "ef_status e' = ef_status e"
    using ExternalEffects_in [OF assms(2,3)] by auto
  have ok: "\<not> (rd_effects_fail rd (tx_id t) \<or> rd_attempts_fail rd (tx_id t))" using assms(1) by (auto simp: restored_tx_def split: if_splits)
  then have "es_state (classifyEffect e' (tx_status t) (receiptFor rd (ef_id e')) (EffectAttempts (tx_id t) (rd_ledger rd))) = NoExternalEffect"
    using assms(1,4) e'(1) by (auto simp: restored_tx_def)
  from classify_none [OF this] e' assms(4) show ?thesis
    by (auto simp: never_dispatched_def EffectAttempts_def filter_empty_conv set_empty [symmetric] simp del: set_empty)
qed

lemma newer_in:
  assumes "\<not> rd_list_fails rb" "\<not> rd_effects_fail rb (tx_id t)" "t \<in> set (TransactionsWithEffects (rd_ledger rb))"
    and "x \<in> set (ExternalEffects (tx_id t) (rd_ledger rb))" "ef_id x \<notin> set seen"
  shows "\<exists>s \<in> set (snd (newer_than seen rb)). es_state s = ExternalStateAmbiguous"
  using assms by (force simp: newer_than_def)

lemma preserved_known:
  assumes "newer_than (map es_effect (concat (map snd (map (restored_tx rd) txs)))) rb = (gaps, later)"
    and none: "\<forall>s \<in> set (xs @ gaps @ known @ later). es_state s = NoExternalEffect"
    and e: "e \<in> set (effects (rd_ledger rb))" "ef_status e \<noteq> EffectSuperseded" "has_key tx_id (ef_tx e) (transactions (rd_ledger rb))"
  shows "\<exists>x \<in> set (effects (rd_ledger rd)). ef_id x = ef_id e"
proof -
  let ?seen = "map es_effect (concat (map snd (map (restored_tx rd) txs)))"
  obtain t where t: "t \<in> set (TransactionsWithEffects (rd_ledger rb))" "tx_id t = ef_tx e" using TransactionsWithEffects_in [OF e] by auto
  obtain e' where e': "e' \<in> set (ExternalEffects (ef_tx e) (rd_ledger rb))" "ef_id e' = ef_id e" using ExternalEffects_in [OF e(1,2)] by auto
  have nl: "\<not> rd_list_fails rb" using assms(1) none by (auto simp: newer_than_def split: if_splits)
  then have parts: "gaps = concat (map (\<lambda>t. if rd_effects_fail rb (tx_id t) then [gap (tx_id t) ''pre_restore_ledger_unreadable''] else [])
      (TransactionsWithEffects (rd_ledger rb)))"
    and later: "later = snd (newer_than ?seen rb)" using assms(1) by (auto simp: newer_than_def)
  have nf: "\<not> rd_effects_fail rb (tx_id t)"
  proof
    assume "rd_effects_fail rb (tx_id t)"
    then have "gap (tx_id t) ''pre_restore_ledger_unreadable'' \<in> set gaps" using t(1) unfolding parts by auto
    with none have "es_state (gap (tx_id t) ''pre_restore_ledger_unreadable'') = NoExternalEffect" unfolding set_append by blast
    then show False by simp
  qed
  have "ef_id e' \<in> set ?seen"
  proof (rule ccontr)
    assume new: "ef_id e' \<notin> set ?seen"
    obtain s where "s \<in> set later" "es_state s = ExternalStateAmbiguous"
      using newer_in [OF nl nf t(1) _ new] e'(1) t(2) later by auto
    with none have "es_state s = NoExternalEffect" unfolding set_append by blast
    with \<open>es_state s = ExternalStateAmbiguous\<close>
    show False by simp
  qed
  then obtain u s where u: "u \<in> set txs" "s \<in> set (snd (restored_tx rd u))" "es_effect s = ef_id e'" by auto
  then obtain y where "y \<in> set (ExternalEffects (tx_id u) (rd_ledger rd))" "ef_id y = ef_id e'"
    by (auto simp: restored_tx_def classifyEffect_def Let_def split: if_splits)
  with ExternalEffects_from e'(2) show ?thesis by fastforce
qed


definition reader0 :: reader where
  "reader0 = \<lparr>rd_ledger = ledger0, rd_list_fails = False, rd_effects_fail = (\<lambda>_. False), rd_attempts_fail = (\<lambda>_. False), rd_receipt_fails = (\<lambda>_. None)\<rparr>"

lemma reader0_parts:
  "TransactionsWithEffects ledger0 = [tx0]" "ExternalEffects ''t'' ledger0 = [effect0]" "EffectAttempts ''t'' ledger0 = []"
  "receiptFor reader0 i = Inl ErrNotFound"
  by (simp_all add: TransactionsWithEffects_def ExternalEffects_def live_effects_def EffectAttempts_def effectDependencies_def receiptFor_def
      EffectReceipt_def find_row_def fetch_def reader0_def example)

lemma reader0_state: "es_state (classifyEffect effect0 StateReady (Inl ErrNotFound) []) = NoExternalEffect"
  by (simp add: classifyEffect_def status_state_def conflicting_def by_transaction_def effect0_def)


text \<open>A preserved ledger whose \<open>Lstat\<close> fails is passed over without a gap: the answer is the one for no quarantine at all.\<close>

lemma unseen_ledger_ignored: "evaluateExternalEffects restored LstatFailed = evaluateExternalEffects restored NoQuarantine"
  by (simp add: evaluateExternalEffects_def split: sum.splits)

text \<open>
  The attempts that \<open>classifyEffect\<close> gets are those of the whole transaction, so the last attempt of a sibling decides: an
  effect whose own outcome is unknown is reported as known to be absent when the last attempt of the transaction, for
  another effect, was rejected.
\<close>

lemma sibling_attempt_decides:
  assumes "ef_status e = EffectUnknown" "receipt = Inl ErrNotFound" "st \<noteq> StateNeedsReconciliation" "at_outcome a = ''definite_failure''"
  shows "es_state (classifyEffect e st receipt (own @ [a])) = KnownAbsent"
  using assms by (simp add: classifyEffect_def status_state_def classifyFromAttempt_def conflicting_def by_transaction_def)

end
