(* ===== verification/Restore.thy ===== *)
theory Restore
  imports DurableFiles RestoreReconcile LedgerAudit RepoAdmission Egress JsonDecode
begin

text \<open>
  The restore of a ledger from a backup (\<open>internal/ledgerrestore/restore.go\<close>): the guards, the staged copy, the provenance of
  the backup, the quarantine of the original and the publication, over disks that survive crashes.  SQLite is a
  parameter: what opening a database file yields, what folding its side files leaves, what an offline diagnosis says.
  So are symbolic links, the names in a directory, the daemon lock and the random names.
\<close>

subsection \<open>Parameters and reports\<close>

text \<open>The bytes of a database with its \<open>-wal\<close> and \<open>-shm\<close> side files.\<close>

type_synonym db_files = "string \<times> string option \<times> string option"

record restore_host =
  rh_os :: os
  rh_canonical :: "string \<Rightarrow> string"
  rh_resolved :: "string \<Rightarrow> string"
  rh_names :: "string list"
  rh_open :: "db_files \<Rightarrow> string + (ledger \<times> control)"
  rh_integrity :: "db_files \<Rightarrow> string option"
  rh_left :: "db_files \<Rightarrow> db_files"
  rh_fold :: "string \<Rightarrow> string + string"
  rh_semantic :: "db_files \<Rightarrow> string option"
  rh_diagnose :: "db_files \<Rightarrow> string + (string \<times> string)"
  rh_lock :: "string + (string \<times> string)"
  rh_order :: "string list \<Rightarrow> string list"
  rh_env :: env
  rh_random :: string

record restore_options =
  ro_live :: file_path
  ro_backup :: file_path
  ro_expected :: string
  ro_socket :: "file_path option"
  ro_lock :: "file_path option"
  ro_pre :: "file_path option"
  ro_apply :: bool
  ro_stale :: bool
  ro_confirm :: string

record preserved_original =
  po_class :: string
  po_dir :: string
  po_sha :: string
  po_wal :: bool
  po_shm :: bool

record restore_report =
  rq_sha :: string
  rq_preserved :: "preserved_original option"
  rq_pre :: bool
  rq_healthy :: bool
  rq_verification :: string
  rq_applied :: bool
  rq_already :: bool
  rq_effects :: "reconciliation option"

datatype restore_error = RestoreText string | RestoreIo io_error | RestoreLedger ledger_error

type_synonym 'a restoring = "(disk, restore_error, 'a) action"

definition restore_confirmation :: string where
  "restore_confirmation = ''RESTORE_FUTUREDIFF_LEDGER''"

text \<open>\<open>Classify\<close>: the sentinels of the durable writes and the errors of the operating system they stand for.\<close>

definition Classify_restore :: "io_error \<Rightarrow> string" where
  "Classify_restore e =
     (let r = root_error e in
      if r \<in> {IoError ''durablewrite: disk full'', IoError ''ENOSPC''} then ''disk_full''
      else if r \<in> {IoError ''durablewrite: quota exceeded'', IoError ''EDQUOT''} then ''quota_exceeded''
      else if r \<in> {IoError ''durablewrite: read-only filesystem'', IoError ''EROFS''} then ''filesystem_read_only''
      else if r \<in> {IoError ''durablewrite: input/output error'', IoError ''EIO''} then ''storage_io_failure''
      else [])"

subsection \<open>Files\<close>

definition io :: "'a io \<Rightarrow> 'a restoring" where
  "io m k = (let (r, k1) = m k in (map_sum RestoreIo id r, k1))"

definition refuse_unless :: "bool \<Rightarrow> string \<Rightarrow> unit restoring" where
  "refuse_unless b msg = check b (RestoreText msg)"

definition is_regular :: "file_node \<Rightarrow> bool" where
  "is_regular n = (case n of File _ _ \<Rightarrow> True | _ \<Rightarrow> False)"

text \<open>\<open>Lstat\<close> of a file that may be missing but must be regular.\<close>

definition regular_or_missing :: "os \<Rightarrow> file_path \<Rightarrow> bool restoring" where
  "regular_or_missing os p =
     andThen (result_of (Lstat os p)) (\<lambda>r.
       case r of
         Inr n \<Rightarrow> if is_regular n then give True else fail (RestoreText ''must be a regular non-symlink file'')
       | Inl NotExist \<Rightarrow> give False
       | Inl e \<Rightarrow> fail (RestoreIo e))"

definition missing_or_found :: "os \<Rightarrow> file_path \<Rightarrow> bool restoring" where
  "missing_or_found os p =
     andThen (result_of (Lstat os p)) (\<lambda>r.
       case r of Inr n \<Rightarrow> give True | Inl NotExist \<Rightarrow> give False | Inl e \<Rightarrow> fail (RestoreIo e))"

definition copyFileContents :: "os \<Rightarrow> file_path \<Rightarrow> file_path \<Rightarrow> unit io" where
  "copyFileContents os src dst =
     andThen (ReadFile os src) (\<lambda>c. on_error (WriteFile os dst c) (\<lambda>_. Remove os dst))"

definition copyFile :: "os \<Rightarrow> file_path \<Rightarrow> file_path \<Rightarrow> unit io" where
  "copyFile os src dst = andThen (copyFileContents os src dst) (\<lambda>_. SyncFile os dst)"

definition shaFile :: "os \<Rightarrow> file_path \<Rightarrow> string restoring" where
  "shaFile os p = andThen (io (ReadFile os p)) (\<lambda>c. give (SHA256Bytes c))"

definition wal_of :: "file_path \<Rightarrow> file_path" where "wal_of p = side_file p ''-wal''"
definition shm_of :: "file_path \<Rightarrow> file_path" where "shm_of p = side_file p ''-shm''"

text \<open>Removing a directory with the files known to be in it.\<close>

definition RemoveAll :: "os \<Rightarrow> file_path \<Rightarrow> string list \<Rightarrow> unit io" where
  "RemoveAll os folder names =
     andThen (each (\<lambda>n _. RemoveIfThere os (full_path folder, n)) names ()) (\<lambda>_. RemoveIfThere os folder)"

definition withinRoot :: "restore_host \<Rightarrow> string \<Rightarrow> string \<Rightarrow> bool" where
  "withinRoot h root p =
     (case path_rel (rh_canonical h root) (rh_canonical h p) of
        None \<Rightarrow> False
      | Some rel \<Rightarrow> rel \<noteq> ''..'' \<and> \<not> has_prefix rel ''../'' \<and> rel \<noteq> ''.'')"

definition side_files_of :: "os \<Rightarrow> file_path \<Rightarrow> string option restoring" where
  "side_files_of os p = andThen (regular_or_missing os p) (\<lambda>found. if found then andThen (io (ReadFile os p)) (\<lambda>c. give (Some c)) else give None)"

text \<open>\<open>openSnapshotCopy\<close>: the copy lies in a private directory, so what is read is all that matters.\<close>

definition snapshot_files :: "os \<Rightarrow> file_path \<Rightarrow> db_files restoring" where
  "snapshot_files os p =
     andThen (io (Lstat os p)) (\<lambda>n.
     andThen (refuse_unless (is_regular n) ''must be a regular non-symlink file'') (\<lambda>_.
     andThen (io (ReadFile os p)) (\<lambda>c.
     andThen (side_files_of os (wal_of p)) (\<lambda>w.
     andThen (side_files_of os (shm_of p)) (\<lambda>s. give (c, w, s))))))"

definition openSnapshotCopy :: "restore_host \<Rightarrow> file_path \<Rightarrow> (ledger \<times> control) restoring" where
  "openSnapshotCopy h p = andThen (snapshot_files (rh_os h) p) (\<lambda>fs. pass (map_sum RestoreText id (rh_open h fs)))"

subsection \<open>Provenance\<close>

definition readAuthoritativeCatalog :: "restore_host \<Rightarrow> file_path \<Rightarrow> backup_row list restoring" where
  "readAuthoritativeCatalog h live = andThen (openSnapshotCopy h live) (\<lambda>(l, c). give (Backups c))"

definition catalogRecordFor :: "restore_host \<Rightarrow> file_path \<Rightarrow> file_path \<Rightarrow> string \<Rightarrow> backup_row option restoring" where
  "catalogRecordFor h live backup digest =
     andThen (readAuthoritativeCatalog h live) (\<lambda>records.
     case List.find (\<lambda>b. bk_path b = full_path backup) records of
       None \<Rightarrow> give None
     | Some b \<Rightarrow>
         andThen (io (Lstat (rh_os h) backup)) (\<lambda>n.
           case n of
             File content _ \<Rightarrow>
               andThen (refuse_unless (int (length content) = bk_size b) ''backup catalog record has another size'') (\<lambda>_.
               andThen (refuse_unless (EqualFold (bk_sha b) digest) ''backup catalog record has another digest'') (\<lambda>_.
               give (Some b)))
           | _ \<Rightarrow> fail (RestoreText ''backup must be a regular file'')))"

record evidence_manifest =
  em_version :: int
  em_at :: string
  em_ledger :: string
  em_backup :: string
  em_path :: string
  em_wal :: bool
  em_shm :: bool

definition manifest0 :: evidence_manifest where
  "manifest0 = \<lparr>em_version = 0, em_at = [], em_ledger = [], em_backup = [], em_path = [], em_wal = False, em_shm = False\<rparr>"

definition dec_manifest :: "evidence_manifest field_decoder" where
  "dec_manifest = dec_struct
     [(''version'', dec_int (\<lambda>n m. m\<lparr>em_version := n\<rparr>)), (''preserved_at'', dec_string (\<lambda>s m. m\<lparr>em_at := s\<rparr>)),
      (''ledger_sha256'', dec_string (\<lambda>s m. m\<lparr>em_ledger := s\<rparr>)), (''backup_sha256'', dec_string (\<lambda>s m. m\<lparr>em_backup := s\<rparr>)),
      (''backup_path'', dec_string (\<lambda>s m. m\<lparr>em_path := s\<rparr>)), (''wal_preserved'', dec_bool (\<lambda>b m. m\<lparr>em_wal := b\<rparr>)),
      (''shm_preserved'', dec_bool (\<lambda>b m. m\<lparr>em_shm := b\<rparr>))]"

definition manifest_json :: "evidence_manifest \<Rightarrow> json" where
  "manifest_json m = JObj
     ([(''version'', JInt (em_version m)), (''preserved_at'', JStr (em_at m)), (''ledger_sha256'', JStr (em_ledger m)),
       (''backup_sha256'', JStr (em_backup m))] @ opt_field ''backup_path'' (em_path m)
      @ [(''wal_preserved'', JBool (em_wal m)), (''shm_preserved'', JBool (em_shm m))])"

text \<open>\<open>MarshalIndent\<close> of a flat object with two blanks.\<close>

definition marshal_indent :: "json \<Rightarrow> string" where
  "marshal_indent j =
     (case j of
        JObj fs \<Rightarrow> if fs = [] then ''{}''
          else ''{'' @ [CHR 0x0A] @ join ('','' @ [CHR 0x0A]) (map (\<lambda>(k, v). ''  '' @ quote k @ '': '' @ marshal v) fs) @ [CHR 0x0A] @ ''}''
      | _ \<Rightarrow> marshal j)"

definition evidence_prefix :: string where "evidence_prefix = ''ledger-restore-evidence-''"

text \<open>The entries of the directory are visited in the order in which they are listed.\<close>

fun restoreEvidenceProves :: "os \<Rightarrow> string \<Rightarrow> file_path \<Rightarrow> string \<Rightarrow> string list \<Rightarrow> bool restoring" where
  "restoreEvidenceProves os dir backup digest [] = give False"
| "restoreEvidenceProves os dir backup digest (n # ns) =
     (\<lambda>k. if \<not> (dk_now k (dir, n) = Some Folder \<and> has_prefix n evidence_prefix) then restoreEvidenceProves os dir backup digest ns k
       else andThen (io (ReadFile os (full_path (dir, n), ''evidence.json''))) (\<lambda>text.
            andThen (pass (fetch (Unmarshal dec_manifest text manifest0) (RestoreText ''restore evidence is malformed''))) (\<lambda>m.
            andThen (refuse_unless (em_version m = 1) ''restore evidence has unsupported version'') (\<lambda>_.
            andThen (refuse_unless (em_backup m \<noteq> []) ''restore evidence lacks a verified backup digest'') (\<lambda>_.
            andThen (io (Lstat os (full_path (dir, n), ''ledger.db''))) (\<lambda>_.
            if em_path m \<noteq> [] \<and> path_clean (em_path m) \<noteq> path_clean (full_path backup) then restoreEvidenceProves os dir backup digest ns
            else if EqualFold (em_backup m) digest then give True
            else restoreEvidenceProves os dir backup digest ns))))) k)"

definition same_as_live :: "restore_host \<Rightarrow> file_path \<Rightarrow> string \<Rightarrow> bool restoring" where
  "same_as_live h live digest =
     andThen (result_of (shaFile (rh_os h) live)) (\<lambda>r. give (case r of Inr sha \<Rightarrow> EqualFold sha digest | Inl _ \<Rightarrow> False))"

definition verifyAuthoritativeProvenance :: "restore_host \<Rightarrow> file_path \<Rightarrow> file_path \<Rightarrow> string \<Rightarrow> unit restoring" where
  "verifyAuthoritativeProvenance h live backup digest =
     andThen (same_as_live h live digest) (\<lambda>same.
     andThen (catalogRecordFor h live backup digest) (\<lambda>rec.
       if rec \<noteq> None then give ()
       else if \<not> same then fail (RestoreText ''backup is not recorded in the authoritative backup catalog'')
       else andThen (restoreEvidenceProves (rh_os h) (fst live) backup digest (rh_names h)) (\<lambda>proven.
            refuse_unless proven ''refusing to report already-restored without authenticated provenance'')))"

subsection \<open>Staging\<close>

definition restore_file :: string where "restore_file = ''.ledger-restore-''"

definition staging_path :: "restore_host \<Rightarrow> file_path \<Rightarrow> file_path" where
  "staging_path h live = (fst live, restore_file @ NewID (rh_env h) 0 ''staged'' @ ''.db'')"

text \<open>One leftover of a crashed restore.\<close>

definition clean_one :: "os \<Rightarrow> file_path \<Rightarrow> file_path \<Rightarrow> string \<Rightarrow> unit restoring" where
  "clean_one os live backup n =
     (let p = (fst live, n) in
      if \<not> has_prefix n restore_file \<or> p = live \<or> p = backup then give ()
      else (\<lambda>k. if has_prefix n (restore_file @ ''semantic-'') \<and> dk_now k p = Some Folder
                then io (RemoveAll os p [''ledger.db'', ''ledger.db-wal'', ''ledger.db-shm'']) k
                else if \<not> (has_suffix n ''.db'' \<or> contains n ''.tmp-'') then give () k
                else andThen (io (Lstat os p)) (\<lambda>node. if is_regular node then io (RemoveIfThere os p) else give ()) k))"

definition cleanAbandonedStaging :: "restore_host \<Rightarrow> file_path \<Rightarrow> file_path \<Rightarrow> unit restoring" where
  "cleanAbandonedStaging h live backup = each (\<lambda>n _. clean_one (rh_os h) live backup n) (rh_names h) ()"

text \<open>The staged copy, bound to the digest and validated; what an audit finds is the model of the audit.\<close>

definition stage_backup :: "restore_host \<Rightarrow> file_path \<Rightarrow> file_path \<Rightarrow> string \<Rightarrow> (ledger \<times> control) restoring" where
  "stage_backup h staging backup digest =
     andThen (io (ReplaceFileVia (rh_os h) staging (rh_random h) (\<lambda>tmp. copyFile (rh_os h) backup tmp))) (\<lambda>_.
     andThen (io (ReadFile (rh_os h) staging)) (\<lambda>c.
     andThen (refuse_unless (EqualFold (SHA256Bytes c) digest) ''backup file changed during staging'') (\<lambda>_.
     andThen (pass (map_sum RestoreText id (rh_open h (c, None, None)))) (\<lambda>(l, ctl).
     andThen (refuse_unless (rh_integrity h (c, None, None) = None) ''integrity check failed'') (\<lambda>_.
     andThen (pass (map_sum RestoreLedger id (Audit (rh_order h) None (rh_env h) l ctl))) (\<lambda>audit.
     andThen (refuse_unless (snd (VerifyEventChains l)) ''event chain invalid'') (\<lambda>_.
     andThen (refuse_unless (rp_healthy audit) ''backup failed semantic validation'') (\<lambda>_.
     give (l, ctl)))))))))"

text \<open>\<open>foldSidecars\<close>: the folded database replaces the staged bytes.\<close>

definition foldSidecars :: "restore_host \<Rightarrow> file_path \<Rightarrow> unit restoring" where
  "foldSidecars h p =
     andThen (io (ReadFile (rh_os h) p)) (\<lambda>c.
     andThen (pass (map_sum RestoreText id (rh_fold h c))) (\<lambda>c'.
     andThen (io (WriteFile (rh_os h) p c')) (\<lambda>_.
     andThen (ignore (Remove (rh_os h) (wal_of p))) (\<lambda>_.
     andThen (ignore (Remove (rh_os h) (shm_of p))) (\<lambda>_.
     io (SyncFile (rh_os h) p))))))"

subsection \<open>Staleness\<close>

definition EventChainHeads :: "ledger \<Rightarrow> (string \<times> int \<times> string) list" where
  "EventChainHeads l =
     map (\<lambda>e. (ev_tx e, ev_seq e, ev_hash e))
       (sort_key ev_tx (filter (\<lambda>e. list_all (\<lambda>x. ev_tx x = ev_tx e \<longrightarrow> ev_seq x \<le> ev_seq e) (events l)) (events l)))"

definition backupCoversLive :: "ledger \<Rightarrow> ledger \<Rightarrow> bool" where
  "backupCoversLive backup live =
     list_all (\<lambda>(tid, n, _). case map_of (EventChainHeads backup) tid of None \<Rightarrow> False | Some (m, _) \<Rightarrow> n \<le> m) (EventChainHeads live)"

text \<open>
  The check opens the live ledger in place.  SQLite may fold the side files into the database when it closes; it does so
  by its own crash-safe protocol, so the files are then those of \<open>rh_left\<close> or, after a crash, those of before.
\<close>

definition sqlite_leaves :: "file_path \<Rightarrow> db_files \<Rightarrow> disk \<Rightarrow> disk" where
  "sqlite_leaves p fs k =
     (let entry = map_option (\<lambda>c. File c True); (c, w, s) = fs
      in set_entry (shm_of p) (entry s) (set_entry (wal_of p) (entry w) (set_entry p (Some (File c True)) k)))"

definition staleness_check :: "restore_host \<Rightarrow> file_path \<Rightarrow> ledger \<Rightarrow> unit restoring" where
  "staleness_check h live backup =
     andThen (missing_or_found (rh_os h) live) (\<lambda>found.
       if \<not> found then give ()
       else andThen (snapshot_files (rh_os h) live) (\<lambda>fs.
            andThen (pass (map_sum RestoreText id (rh_open h fs))) (\<lambda>(l, c).
            andThen (\<lambda>k. if dk_halted k then (Inl (RestoreText ''halted''), k) else (Inr (), sqlite_leaves live (rh_left h fs) k)) (\<lambda>_.
            refuse_unless (backupCoversLive backup l) ''backup is older than the live ledger''))))"

subsection \<open>Quarantine\<close>

definition evidence_folder :: "restore_host \<Rightarrow> file_path \<Rightarrow> file_path" where
  "evidence_folder h live = (fst live, evidence_prefix @ NewID (rh_env h) 1 ''q'')"

definition evidence_file :: "restore_host \<Rightarrow> file_path \<Rightarrow> string \<Rightarrow> file_path" where
  "evidence_file h live n = (full_path (evidence_folder h live), n)"

definition preserve_side :: "restore_host \<Rightarrow> file_path \<Rightarrow> file_path \<Rightarrow> bool restoring" where
  "preserve_side h side dst =
     andThen (regular_or_missing (rh_os h) side) (\<lambda>found.
       if found then andThen (io (copyFile (rh_os h) side dst)) (\<lambda>_. give True) else give False)"

definition writeEvidenceManifest :: "restore_host \<Rightarrow> file_path \<Rightarrow> evidence_manifest \<Rightarrow> unit restoring" where
  "writeEvidenceManifest h p m =
     andThen (io (WriteFile (rh_os h) p (marshal_indent (manifest_json m) @ [CHR 0x0A]))) (\<lambda>_. io (SyncFile (rh_os h) p))"

definition preserve_files :: "restore_host \<Rightarrow> file_path \<Rightarrow> file_path \<Rightarrow> string \<Rightarrow> preserved_original restoring" where
  "preserve_files h live backup digest =
     (let q = evidence_file h live; os = rh_os h in
      andThen (io (copyFile os live (q ''ledger.db''))) (\<lambda>_.
      andThen (shaFile os (q ''ledger.db'')) (\<lambda>sha.
      andThen (preserve_side h (wal_of live) (q ''ledger.db-wal'')) (\<lambda>wal.
      andThen (preserve_side h (shm_of live) (q ''ledger.db-shm'')) (\<lambda>shm.
      andThen (writeEvidenceManifest h (q ''evidence.json'')
        \<lparr>em_version = 1, em_at = ts (en_now (rh_env h)), em_ledger = sha, em_backup = digest, em_path = path_clean (full_path backup), em_wal = wal, em_shm = shm\<rparr>) (\<lambda>_.
      andThen (io (SyncDir os (full_path (evidence_folder h live)))) (\<lambda>_.
      andThen (io (SyncDir os (fst live))) (\<lambda>_.
      give \<lparr>po_class = ''quarantine'', po_dir = full_path (evidence_folder h live), po_sha = sha, po_wal = wal, po_shm = shm\<rparr>))))))))"

definition quarantineOriginal :: "restore_host \<Rightarrow> file_path \<Rightarrow> file_path \<Rightarrow> string \<Rightarrow> preserved_original restoring" where
  "quarantineOriginal h live backup digest =
     andThen (regular_or_missing (rh_os h) live) (\<lambda>found.
       if \<not> found then give \<lparr>po_class = ''none'', po_dir = [], po_sha = [], po_wal = False, po_shm = False\<rparr>
       else andThen (io (Mkdir (rh_os h) (evidence_folder h live))) (\<lambda>_.
            on_error (preserve_files h live backup digest)
              (\<lambda>_. RemoveAll (rh_os h) (evidence_folder h live) [''ledger.db'', ''ledger.db-wal'', ''ledger.db-shm'', ''evidence.json''])))"

text \<open>\<open>preserveSemanticBackup\<close> works on a private copy; only the backup file itself is on the disk.\<close>

definition preserveSemanticBackup :: "restore_host \<Rightarrow> restore_options \<Rightarrow> bool restoring" where
  "preserveSemanticBackup h opts =
     (case ro_pre opts of
        None \<Rightarrow> give False
      | Some pre \<Rightarrow>
          andThen (missing_or_found (rh_os h) (ro_live opts)) (\<lambda>found.
            if \<not> found then give False
            else andThen (result_of (snapshot_files (rh_os h) (ro_live opts))) (\<lambda>r.
              case r of
                Inl _ \<Rightarrow> give False
              | Inr fs \<Rightarrow>
                  (case rh_semantic h fs of
                     None \<Rightarrow> give False
                   | Some bytes \<Rightarrow> andThen (result_of (ReplaceFile (rh_os h) pre (rh_random h) bytes)) (\<lambda>res. give (is_ok res))))))"

definition removeLiveSidecars :: "restore_host \<Rightarrow> file_path \<Rightarrow> unit restoring" where
  "removeLiveSidecars h live = andThen (io (RemoveIfThere (rh_os h) (wal_of live))) (\<lambda>_. io (RemoveIfThere (rh_os h) (shm_of live)))"

subsection \<open>The restore\<close>

text \<open>The guards before anything is written; the result is the digest of the backup.\<close>

definition daemon_stopped :: "restore_host \<Rightarrow> restore_options \<Rightarrow> unit restoring" where
  "daemon_stopped h opts =
     andThen (case ro_socket opts of
         None \<Rightarrow> give ()
       | Some p \<Rightarrow> andThen (missing_or_found (rh_os h) p) (\<lambda>found. refuse_unless (\<not> found) ''daemon socket exists; stop the daemon before restore'')) (\<lambda>_.
     case ro_lock opts of
       None \<Rightarrow> give ()
     | Some p \<Rightarrow> andThen (missing_or_found (rh_os h) p) (\<lambda>found.
         if \<not> found then give ()
         else andThen (pass (map_sum RestoreText id (rh_lock h))) (\<lambda>(lock, owner).
              refuse_unless (\<not> (lock = ''held'' \<and> owner \<in> {''alive'', ''ambiguous''})) ''daemon lock is held by a live owner'')))"

definition restore_guards :: "restore_host \<Rightarrow> restore_options \<Rightarrow> string restoring" where
  "restore_guards h opts =
     (let live = ro_live opts; backup = ro_backup opts in
      andThen (io (Lstat (rh_os h) backup)) (\<lambda>n.
      andThen (refuse_unless (is_regular n) ''must be a regular file'') (\<lambda>_.
      andThen (refuse_unless (rh_resolved h (full_path live) = [] \<or> rh_resolved h (full_path live) \<noteq> full_path backup) ''live and backup paths must differ'') (\<lambda>_.
      andThen (regular_or_missing (rh_os h) live) (\<lambda>_.
      andThen (shaFile (rh_os h) backup) (\<lambda>digest.
      andThen (refuse_unless (ro_expected opts = [] \<or> EqualFold (ro_expected opts) digest) ''backup SHA-256 does not match expected digest'') (\<lambda>_.
      andThen (refuse_unless (\<not> (ro_apply opts \<and> ro_expected opts = [])) ''--expected-sha256 is required when applying a restore'') (\<lambda>_.
      andThen (refuse_unless (\<not> (ro_apply opts \<and> ro_confirm opts \<noteq> restore_confirmation)) ''restore confirmation phrase is missing or incorrect'') (\<lambda>_.
      andThen (refuse_unless (withinRoot h (fst live) (full_path backup)) ''backup is outside the FutureDiff data root'') (\<lambda>_.
      andThen (if ro_apply opts then daemon_stopped h opts else give ()) (\<lambda>_.
      give digest)))))))))))"

definition diagnosed :: "restore_host \<Rightarrow> file_path \<Rightarrow> string restoring" where
  "diagnosed h live =
     andThen (snapshot_files (rh_os h) live) (\<lambda>fs.
     andThen (pass (map_sum RestoreText id (rh_diagnose h fs))) (\<lambda>(st, reason).
     andThen (refuse_unless (st = ''healthy'') ''restored ledger is not healthy'') (\<lambda>_.
     give (if reason = [] then st else reason))))"

definition reader_of :: "ledger \<Rightarrow> reader" where
  "reader_of l = \<lparr>rd_ledger = l, rd_list_fails = False, rd_effects_fail = (\<lambda>_. False), rd_attempts_fail = (\<lambda>_. False), rd_receipt_fails = (\<lambda>_. None)\<rparr>"

definition read_snapshot :: "restore_host \<Rightarrow> file_path \<Rightarrow> (string + reader) restoring" where
  "read_snapshot h p =
     andThen (result_of (openSnapshotCopy h p)) (\<lambda>r. give (case r of Inl _ \<Rightarrow> Inl ''unreadable'' | Inr (l, c) \<Rightarrow> Inr (reader_of l)))"

definition compared :: "restore_host \<Rightarrow> file_path \<Rightarrow> file_path option \<Rightarrow> reconciliation restoring" where
  "compared h live before =
     andThen (read_snapshot h live) (\<lambda>restored.
     case before of
       None \<Rightarrow> give (evaluateExternalEffects restored NoQuarantine)
     | Some p \<Rightarrow> andThen (result_of (Lstat (rh_os h) p)) (\<lambda>r.
         if is_ok r then andThen (read_snapshot h p) (\<lambda>b. give (evaluateExternalEffects restored (PreservedLedger b)))
         else give (evaluateExternalEffects restored LstatFailed)))"

definition fresh_report :: "string \<Rightarrow> restore_report" where
  "fresh_report digest = \<lparr>rq_sha = digest, rq_preserved = None, rq_pre = False, rq_healthy = False, rq_verification = [], rq_applied = False, rq_already = False, rq_effects = None\<rparr>"

definition already_restored :: "restore_host \<Rightarrow> file_path \<Rightarrow> restore_report \<Rightarrow> restore_report restoring" where
  "already_restored h live rep =
     andThen (io (SyncDir (rh_os h) (fst live))) (\<lambda>_.
     andThen (diagnosed h live) (\<lambda>why.
     andThen (compared h live None) (\<lambda>e.
     give (rep\<lparr>rq_already := True, rq_healthy := True, rq_verification := why, rq_effects := Some e\<rparr>))))"

text \<open>From the quarantine on; the staged file is complete.\<close>

definition publish_restored :: "restore_host \<Rightarrow> restore_options \<Rightarrow> string \<Rightarrow> restore_report \<Rightarrow> restore_report restoring" where
  "publish_restored h opts digest rep =
     (let live = ro_live opts; os = rh_os h in
      andThen (quarantineOriginal h live (ro_backup opts) digest) (\<lambda>preserved.
      andThen (preserveSemanticBackup h opts) (\<lambda>pre.
      andThen (removeLiveSidecars h live) (\<lambda>_.
      andThen (io (Rename os (staging_path h live) live)) (\<lambda>_.
      andThen (io (SyncDir os (fst live))) (\<lambda>_.
      andThen (diagnosed h live) (\<lambda>why.
      andThen (compared h live (if po_class preserved = ''none'' then None else Some (evidence_file h live ''ledger.db''))) (\<lambda>e.
      give (rep\<lparr>rq_preserved := Some preserved, rq_pre := pre, rq_healthy := True, rq_verification := why, rq_applied := True, rq_effects := Some e\<rparr>)))))))))"

definition after_staging :: "restore_host \<Rightarrow> restore_options \<Rightarrow> string \<Rightarrow> restore_report restoring" where
  "after_staging h opts digest =
     (let live = ro_live opts; staging = staging_path h live in
      andThen (stage_backup h staging (ro_backup opts) digest) (\<lambda>(l, ctl).
      andThen (verifyAuthoritativeProvenance h live (ro_backup opts) digest) (\<lambda>_.
      if \<not> ro_apply opts then give (fresh_report digest)
      else andThen (same_as_live h live digest) (\<lambda>same.
        if same then already_restored h live (fresh_report digest)
        else andThen (if ro_stale opts then give () else staleness_check h live l) (\<lambda>_.
             andThen (foldSidecars h staging) (\<lambda>_.
             publish_restored h opts digest (fresh_report digest)))))))"

definition remove_staging :: "restore_host \<Rightarrow> file_path \<Rightarrow> unit io" where
  "remove_staging h staging =
     cleaning (Remove (rh_os h) staging) (cleaning (Remove (rh_os h) (wal_of staging)) (Remove (rh_os h) (shm_of staging)))"

text \<open>\<open>RunWithInjector\<close>.  The directory of the live ledger exists when the backup lies below it.\<close>

definition RunRestore :: "restore_host \<Rightarrow> restore_options \<Rightarrow> restore_report restoring" where
  "RunRestore h opts =
     andThen (restore_guards h opts) (\<lambda>digest.
     andThen (if ro_apply opts then cleanAbandonedStaging h (ro_live opts) (ro_backup opts) else give ()) (\<lambda>_.
     cleaning (after_staging h opts digest) (remove_staging h (staging_path h (ro_live opts)))))"

end
