(* ===== verification/RestoreRuns.thy ===== *)
theory RestoreRuns
  imports Restore
begin

text \<open>
  Runs of the restore in which no call fails, as rules of total correctness: each rule gives what a step needs and
  what it leaves, and \<open>calm_publish\<close> composes them from the quarantine to the report.
\<close>

lemmas calls = Lstat_def ReadFile_def CreateTemp_def WriteFile_def SyncFile_def Chmod_def Rename_def Remove_def Mkdir_def SyncDir_def RemoveIfThere_def
  syscall_def intact_def set_entry_def put_content_def fetch_def
lemmas glue = andThen_def result_of_def ignore_def give_def fail_def check_def pass_def on_error_def cleaning_def wrapFault_def io_def refuse_unless_def
  regular_or_missing_def missing_or_found_def shaFile_def is_regular_def
lemmas paths = Let_def side_file_def wal_of_def shm_of_def temp_of_def full_path_def

lemma EqualFold_refl [simp]: "EqualFold a a" by (simp add: EqualFold_def)

subsection \<open>Runs without failures\<close>

text \<open>An action succeeds, and what holds of its value and the state it leaves.\<close>

definition succeeds :: "('s, 'e, 'a) action \<Rightarrow> 's \<Rightarrow> ('a \<Rightarrow> 's \<Rightarrow> bool) \<Rightarrow> bool" where
  "succeeds m s Q = (\<exists>x s'. m s = (Inr x, s') \<and> Q x s')"

lemma succeeds_glue:
  "succeeds m s (\<lambda>x s'. succeeds (f x) s' Q) \<Longrightarrow> succeeds (andThen m f) s Q"
  "Q x s \<Longrightarrow> succeeds (give x) s Q" "succeeds n s Q \<Longrightarrow> succeeds (on_error n g) s Q" "Q x s \<Longrightarrow> succeeds (pass (Inr x)) s Q"
  by (auto simp: succeeds_def andThen_def give_def on_error_def pass_def)

lemma succeeds_io: "succeeds m k Q \<Longrightarrow> succeeds (io m) k Q" and succeeds_refuse: "b \<Longrightarrow> Q' () k \<Longrightarrow> succeeds (refuse_unless b t) k Q'"
  by (auto simp: succeeds_def io_def refuse_unless_def check_def)

lemma succeeds_result: "succeeds m s (\<lambda>x s'. Q (Inr x) s') \<Longrightarrow> succeeds (result_of m) s Q"
  by (auto simp: succeeds_def result_of_def)

text \<open>From here on no call fails, and the entries of the disk are \<open>m\<close>.\<close>

definition calm :: "os \<Rightarrow> (file_path \<Rightarrow> file_node option) \<Rightarrow> disk \<Rightarrow> bool" where
  "calm os m k = ((\<forall>i \<ge> dk_calls k. os i = None) \<and> \<not> dk_halted k \<and> dk_now k = m)"

lemma calm_looks:
  assumes "calm os m k" "\<And>k'. calm os m k' \<Longrightarrow> Q x k'"
  shows "m p = Some (File c b) \<Longrightarrow> x = True \<Longrightarrow> succeeds (regular_or_missing os p) k Q" "m p = None \<Longrightarrow> x = False \<Longrightarrow> succeeds (regular_or_missing os p) k Q"
  using assms by (auto simp: succeeds_def calm_def calls glue)

lemma calm_Lstat: "calm os m k \<Longrightarrow> m p = Some v \<Longrightarrow> (\<And>k'. calm os m k' \<Longrightarrow> Q v k') \<Longrightarrow> succeeds (Lstat os p) k Q"
  and calm_Read: "calm os m k \<Longrightarrow> m p = Some (File c b) \<Longrightarrow> (\<And>k'. calm os m k' \<Longrightarrow> Q' c k') \<Longrightarrow> succeeds (ReadFile os p) k Q'"
  by (auto simp: succeeds_def calm_def calls glue)

lemma calm_writes:
  "calm os m k \<Longrightarrow> (\<And>k'. calm os (m(p \<mapsto> File c False)) k' \<Longrightarrow> Q () k') \<Longrightarrow> succeeds (WriteFile os p c) k Q"
  "calm os m k \<Longrightarrow> m p = None \<Longrightarrow> (\<And>k'. calm os (m(p \<mapsto> Folder)) k' \<Longrightarrow> Q () k') \<Longrightarrow> succeeds (Mkdir os p) k Q"
  "calm os m k \<Longrightarrow> m p = Some (File c b) \<Longrightarrow> (\<And>k'. calm os (m(p \<mapsto> File c True)) k' \<Longrightarrow> Q () k') \<Longrightarrow> succeeds (SyncFile os p) k Q"
  "calm os m k \<Longrightarrow> (\<And>k'. calm os m k' \<Longrightarrow> Q () k') \<Longrightarrow> succeeds (SyncDir os d) k Q"
  "calm os m k \<Longrightarrow> m p = None \<Longrightarrow> (\<And>k'. calm os m k' \<Longrightarrow> Q () k') \<Longrightarrow> succeeds (RemoveIfThere os p) k Q"
  "calm os m k \<Longrightarrow> m p = Some v \<Longrightarrow> (\<And>k'. calm os (m(p := None, dst \<mapsto> v)) k' \<Longrightarrow> Q () k') \<Longrightarrow> succeeds (Rename os p dst) k Q"
  by (cases "dk_now k p"; simp add: succeeds_def calm_def calls glue)
    (simp add: succeeds_def calm_def calls glue)+

lemma calm_copy:
  assumes "calm os m k" "m src = Some (File c b)" "\<And>k'. calm os (m(dst \<mapsto> File c True)) k' \<Longrightarrow> Q () k'"
  shows "succeeds (copyFile os src dst) k Q"
proof -
  have sync: "succeeds (SyncFile os dst) k1 Q" if "calm os (m(dst \<mapsto> File c False)) k1" for k1
    by (rule calm_writes(3) [OF that fun_upd_same], simp only: fun_upd_upd, erule assms(3))
  have put: "succeeds (on_error (WriteFile os dst c) (\<lambda>_. Remove os dst)) k1 (\<lambda>x s'. succeeds (SyncFile os dst) s' Q)" if "calm os m k1" for k1
    by (rule succeeds_glue(3), rule calm_writes(1) [OF that], erule sync)
  show ?thesis
    unfolding copyFile_def copyFileContents_def
    by (rule succeeds_glue(1), rule succeeds_glue(1), rule calm_Read [OF assms(1,2)], erule put)
qed

lemma calm_side:
  assumes "calm (rh_os h) m k" "m side = None" "\<And>k'. calm (rh_os h) m k' \<Longrightarrow> Q False k'"
  shows "succeeds (preserve_side h side dst) k Q"
  unfolding preserve_side_def
  by (rule succeeds_glue(1), rule calm_looks(2) [OF assms(1) _ assms(2)]) (auto intro: succeeds_glue assms(3))

lemma calm_manifest:
  assumes "calm (rh_os h) m k" "\<And>t k'. calm (rh_os h) (m(p \<mapsto> File t True)) k' \<Longrightarrow> Q () k'"
  shows "succeeds (writeEvidenceManifest h p em) k Q"
proof -
  have sync: "succeeds (io (SyncFile (rh_os h) p)) k1 Q" if "calm (rh_os h) (m(p \<mapsto> File t False)) k1" for t k1
    by (rule succeeds_io, rule calm_writes(3) [OF that fun_upd_same], simp only: fun_upd_upd, erule assms(2))
  show ?thesis
    unfolding writeEvidenceManifest_def
    by (rule succeeds_glue(1), rule succeeds_io, rule calm_writes(1) [OF assms(1)], erule sync)
qed

lemma calm_side_files:
  assumes "calm os m k" "m s = None" "\<And>k'. calm os m k' \<Longrightarrow> Q None k'"
  shows "succeeds (side_files_of os s) k Q"
  unfolding side_files_of_def
  by (rule succeeds_glue(1), rule calm_looks(2) [OF assms(1) _ assms(2)]) (auto intro: succeeds_glue assms(3))

lemma calm_snapshot:
  assumes "calm os m k" "m p = Some (File c b)" "m (wal_of p) = None" "m (shm_of p) = None" "\<And>k'. calm os m k' \<Longrightarrow> Q (c, None, None) k'"
  shows "succeeds (snapshot_files os p) k Q"
proof -
  have 4: "succeeds (andThen (side_files_of os (shm_of p)) (\<lambda>s. give (c, None, s))) k1 Q" if "calm os m k1" for k1
    by (rule succeeds_glue(1), rule calm_side_files [OF that assms(4)], rule succeeds_glue(2), erule assms(5))
  have 3: "succeeds (andThen (side_files_of os (wal_of p)) (\<lambda>w. andThen (side_files_of os (shm_of p)) (\<lambda>s. give (c, w, s)))) k1 Q" if "calm os m k1" for k1
    by (rule succeeds_glue(1), rule calm_side_files [OF that assms(3)], erule 4)
  have 2: "succeeds (andThen (io (ReadFile os p)) (\<lambda>c. andThen (side_files_of os (wal_of p)) (\<lambda>w. andThen (side_files_of os (shm_of p)) (\<lambda>s. give (c, w, s))))) k1 Q"
    if "calm os m k1" for k1
    by (rule succeeds_glue(1), rule succeeds_io, rule calm_Read [OF that assms(2)], erule 3)
  show ?thesis
    unfolding snapshot_files_def
    by (rule succeeds_glue(1), rule succeeds_io, rule calm_Lstat [OF assms(1,2)], rule succeeds_glue(1), rule succeeds_refuse, simp add: is_regular_def, erule 2)
qed

lemma calm_open:
  assumes "calm (rh_os h) m k" "m p = Some (File c b)" "m (wal_of p) = None" "m (shm_of p) = None" "rh_open h (c, None, None) = Inr x"
    "\<And>k'. calm (rh_os h) m k' \<Longrightarrow> Q (Inr (reader_of (fst x))) k'"
  shows "succeeds (read_snapshot h p) k Q"
proof -
  have pass: "succeeds (pass (map_sum RestoreText id (rh_open h (c, None, None)))) k1 (\<lambda>x s'. succeeds (give (case Inr x of Inl (_ :: restore_error) \<Rightarrow> Inl ''unreadable'' | Inr (l, c) \<Rightarrow> Inr (reader_of l))) s' Q)"
    if "calm (rh_os h) m k1" for k1
    using assms(6) [OF that] assms(5) by (auto simp: succeeds_def pass_def give_def split: prod.splits)
  show ?thesis
    unfolding read_snapshot_def openSnapshotCopy_def
    by (rule succeeds_glue(1), rule succeeds_result, rule succeeds_glue(1), rule calm_snapshot [OF assms(1-4)], erule pass)
qed

lemma calm_diagnosed:
  assumes "calm (rh_os h) m k" "m p = Some (File c b)" "m (wal_of p) = None" "m (shm_of p) = None" "rh_diagnose h (c, None, None) = Inr (''healthy'', r)"
    "\<And>x k'. calm (rh_os h) m k' \<Longrightarrow> Q x k'"
  shows "succeeds (diagnosed h p) k Q"
proof -
  have pass: "succeeds (andThen (pass (map_sum RestoreText id (rh_diagnose h (c, None, None)))) (\<lambda>(st, reason).
     andThen (refuse_unless (st = ''healthy'') ''restored ledger is not healthy'') (\<lambda>_.
     give (if reason = [] then st else reason)))) k1 Q"
    if "calm (rh_os h) m k1" for k1
    using assms(6) [OF that] assms(5) by (simp add: succeeds_def pass_def give_def andThen_def refuse_unless_def check_def)
  show ?thesis
    unfolding diagnosed_def
    by (rule succeeds_glue(1), rule calm_snapshot [OF assms(1-4)], erule pass)
qed

lemma calm_compared:
  assumes "calm (rh_os h) m k" "m p = Some (File c b)" "m (wal_of p) = None" "m (shm_of p) = None" "rh_open h (c, None, None) = Inr x"
    and "m q = Some (File c' b')" "m (wal_of q) = None" "m (shm_of q) = None" "rh_open h (c', None, None) = Inr x'"
    and "\<And>e k'. calm (rh_os h) m k' \<Longrightarrow> Q e k'"
  shows "succeeds (compared h p (Some q)) k Q"
proof -
  have two: "succeeds (andThen (read_snapshot h q) (\<lambda>b. give (evaluateExternalEffects r (PreservedLedger b)))) k1 Q" if "calm (rh_os h) m k1" for r k1
    by (rule succeeds_glue(1), rule calm_open [OF that assms(6-9)], rule succeeds_glue(2), erule assms(10))
  have one: "succeeds (andThen (result_of (Lstat (rh_os h) q)) (\<lambda>ra. if is_ok ra then andThen (read_snapshot h q) (\<lambda>b. give (evaluateExternalEffects r (PreservedLedger b)))
      else give (evaluateExternalEffects r LstatFailed))) k1 Q" if "calm (rh_os h) m k1" for r k1
    by (rule succeeds_glue(1), rule succeeds_result, rule calm_Lstat [OF that assms(6)]) (simp add: two)
  show ?thesis
    unfolding compared_def option.case
    by (rule succeeds_glue(1), rule calm_open [OF assms(1-5)], erule one)
qed

lemma calm_sha:
  assumes "calm os m k" "m p = Some (File c b)" "\<And>k'. calm os m k' \<Longrightarrow> Q (SHA256Bytes c) k'"
  shows "succeeds (shaFile os p) k Q"
  unfolding shaFile_def
  by (rule succeeds_glue(1), rule succeeds_io, rule calm_Read [OF assms(1,2)], rule succeeds_glue(2), erule assms(3))

lemma calm_preserve:
  assumes "calm (rh_os h) m k" "m live = Some (File c b)" "m (wal_of live) = None" "m (shm_of live) = None"
    and "wal_of live \<noteq> evidence_file h live ''ledger.db''" "shm_of live \<noteq> evidence_file h live ''ledger.db''"
    and "\<And>po t k'. calm (rh_os h) (m(evidence_file h live ''ledger.db'' \<mapsto> File c True, evidence_file h live ''evidence.json'' \<mapsto> File t True)) k'
         \<Longrightarrow> po_class po = ''quarantine'' \<Longrightarrow> Q po k'"
  shows "succeeds (preserve_files h live backup digest) k Q"
proof -
  let ?q = "evidence_file h live"
  let ?m1 = "m(?q ''ledger.db'' \<mapsto> File c True)"
  let ?sync = "\<lambda>po. andThen (io (SyncDir (rh_os h) (full_path (evidence_folder h live)))) (\<lambda>_. andThen (io (SyncDir (rh_os h) (fst live))) (\<lambda>_. give po))"
  have sync: "succeeds (?sync po) k1 Q" if "calm (rh_os h) (?m1(?q ''evidence.json'' \<mapsto> File t True)) k1" "po_class po = ''quarantine''" for po t k1
    by (rule succeeds_glue(1), rule succeeds_io, rule calm_writes(4) [OF that(1)], rule succeeds_glue(1), rule succeeds_io, erule calm_writes(4),
        rule succeeds_glue(2), erule assms(7), rule that(2))
  have manifest: "succeeds (andThen (writeEvidenceManifest h (?q ''evidence.json'') em) (\<lambda>_. ?sync po)) k1 Q"
    if "calm (rh_os h) ?m1 k1" "po_class po = ''quarantine''" for em po k1
    by (rule succeeds_glue(1), rule calm_manifest [OF that(1)], erule sync, rule that(2))
  have none: "?m1 (wal_of live) = None" "?m1 (shm_of live) = None" using assms(3-6) by simp_all
  show ?thesis
    unfolding preserve_files_def Let_def
    by (rule succeeds_glue(1), rule succeeds_io, rule calm_copy [OF assms(1,2)], rule succeeds_glue(1), erule calm_sha, rule fun_upd_same,
        rule succeeds_glue(1), erule calm_side, rule none, rule succeeds_glue(1), erule calm_side, rule none, erule manifest, simp)
qed

lemma calm_quarantine:
  assumes "calm (rh_os h) m k" "m live = Some (File c b)" "m (wal_of live) = None" "m (shm_of live) = None" "m (evidence_folder h live) = None"
    and "wal_of live \<notin> {evidence_folder h live, evidence_file h live ''ledger.db''}" "shm_of live \<notin> {evidence_folder h live, evidence_file h live ''ledger.db''}"
    and "\<And>po t k'. calm (rh_os h) (m(evidence_folder h live \<mapsto> Folder, evidence_file h live ''ledger.db'' \<mapsto> File c True, evidence_file h live ''evidence.json'' \<mapsto> File t True)) k'
         \<Longrightarrow> po_class po = ''quarantine'' \<Longrightarrow> Q po k'"
  shows "succeeds (quarantineOriginal h live backup digest) k Q"
proof -
  let ?m = "m(evidence_folder h live \<mapsto> Folder)"
  have at: "?m live = Some (File c b)" "?m (wal_of live) = None" "?m (shm_of live) = None" using assms(2-7) by auto
  have apart: "wal_of live \<noteq> evidence_file h live ''ledger.db''" "shm_of live \<noteq> evidence_file h live ''ledger.db''" using assms(6,7) by simp_all
  have keep: "succeeds (on_error (preserve_files h live backup digest)
      (\<lambda>_. RemoveAll (rh_os h) (evidence_folder h live) [''ledger.db'', ''ledger.db-wal'', ''ledger.db-shm'', ''evidence.json''])) k1 Q" if "calm (rh_os h) ?m k1" for k1
    by (rule succeeds_glue(3), rule calm_preserve [OF that at apart], erule assms(8), assumption)
  have make: "succeeds (andThen (io (Mkdir (rh_os h) (evidence_folder h live))) (\<lambda>_. on_error (preserve_files h live backup digest)
      (\<lambda>_. RemoveAll (rh_os h) (evidence_folder h live) [''ledger.db'', ''ledger.db-wal'', ''ledger.db-shm'', ''evidence.json'']))) k1 Q" if "calm (rh_os h) m k1" for k1
    by (rule succeeds_glue(1), rule succeeds_io, rule calm_writes(2) [OF that assms(5)], erule keep)
  show ?thesis
    unfolding quarantineOriginal_def
    by (rule succeeds_glue(1), rule calm_looks(1) [OF assms(1) _ assms(2) refl]) (simp add: make)
qed

text \<open>A run of the second part, with a side-file-free ledger and no optional backup.\<close>

lemma calm_publish:
  fixes h opts m c o'
  defines "live \<equiv> ro_live opts" and "s \<equiv> staging_path h (ro_live opts)" and "q \<equiv> evidence_file h (ro_live opts)" and "f \<equiv> evidence_folder h (ro_live opts)"
  defines "m' t \<equiv> (m(f \<mapsto> Folder, q ''ledger.db'' \<mapsto> File o' True, q ''evidence.json'' \<mapsto> File t True)) (s := None, live \<mapsto> File c True)"
  assumes calm: "calm (rh_os h) m k" and here: "m live = Some (File o' b)" "m s = Some (File c True)" and pre: "ro_pre opts = None"
    and none: "\<forall>p \<in> {wal_of live, shm_of live, f, wal_of (q ''ledger.db''), shm_of (q ''ledger.db'')}. m p = None"
    and apart: "distinct [live, wal_of live, shm_of live, f, q ''ledger.db'', wal_of (q ''ledger.db''), shm_of (q ''ledger.db''), q ''evidence.json'', s]"
    and host: "rh_diagnose h (c, None, None) = Inr (''healthy'', r)" "rh_open h (c, None, None) = Inr x" "rh_open h (o', None, None) = Inr x'"
  shows "succeeds (publish_restored h opts digest rep) k (\<lambda>rep' _. rq_applied rep')"
proof -
  let ?e = "\<lambda>t. m(f \<mapsto> Folder, q ''ledger.db'' \<mapsto> File o' True, q ''evidence.json'' \<mapsto> File t True)"
  let ?report = "\<lambda>po pre why e. rep\<lparr>rq_preserved := Some po, rq_pre := pre, rq_healthy := True, rq_verification := why, rq_applied := True, rq_effects := Some e\<rparr>"
  let ?compare = "\<lambda>po pre why. andThen (compared h live (if po_class po = ''none'' then None else Some (q ''ledger.db''))) (\<lambda>e. give (?report po pre why e))"
  let ?check = "\<lambda>po pre. andThen (diagnosed h live) (\<lambda>why. ?compare po pre why)"
  let ?move = "\<lambda>po pre. andThen (io (Rename (rh_os h) s live)) (\<lambda>_. andThen (io (SyncDir (rh_os h) (fst live))) (\<lambda>_. ?check po pre))"
  let ?rest = "\<lambda>po. andThen (preserveSemanticBackup h opts) (\<lambda>pre. andThen (removeLiveSidecars h live) (\<lambda>_. ?move po pre))"
  have moved: "m' t live = Some (File c True)" "m' t (wal_of live) = None" "m' t (shm_of live) = None" for t using none apart by (auto simp: m'_def)
  have kept: "m' t (q ''ledger.db'') = Some (File o' True)" "m' t (wal_of (q ''ledger.db'')) = None" "m' t (shm_of (q ''ledger.db'')) = None" for t
    using none apart by (auto simp: m'_def)
  have compare: "succeeds (?compare po pre why) k1 (\<lambda>rep' _. rq_applied rep')" if "calm (rh_os h) (m' t) k1" "po_class po = ''quarantine''" for po pre why t k1
    unfolding that(2)
    by (simp, rule succeeds_glue(1), rule calm_compared [OF that(1) moved host(2) kept host(3)], rule succeeds_glue(2), simp)
  have check: "succeeds (?check po pre) k1 (\<lambda>rep' _. rq_applied rep')" if "calm (rh_os h) (m' t) k1" "po_class po = ''quarantine''" for po pre t k1
    by (rule succeeds_glue(1), rule calm_diagnosed [OF that(1) moved host(1)], erule compare, rule that(2))
  have at: "?e t s = Some (File c True)" "?e t (wal_of live) = None" "?e t (shm_of live) = None" for t using here(2) none apart by auto
  have move: "succeeds (?move po pre) k1 (\<lambda>rep' _. rq_applied rep')" if "calm (rh_os h) (?e t) k1" "po_class po = ''quarantine''" for po pre t k1
    by (rule succeeds_glue(1), rule succeeds_io, rule calm_writes(6) [OF that(1) at(1)], rule succeeds_glue(1), rule succeeds_io, erule calm_writes(4),
        fold m'_def, erule check, rule that(2))
  have rest: "succeeds (?rest po) k1 (\<lambda>rep' _. rq_applied rep')" if "calm (rh_os h) (?e t) k1" "po_class po = ''quarantine''" for po t k1
    unfolding preserveSemanticBackup_def pre option.case removeLiveSidecars_def
    by (rule succeeds_glue(1), rule succeeds_glue(2), rule succeeds_glue(1), rule succeeds_glue(1), rule succeeds_io, rule calm_writes(5) [OF that(1) at(2)],
        rule succeeds_io, erule calm_writes(5), rule at(3), erule move, rule that(2))
  have names: "evidence_folder h live = f" "evidence_file h live = q" by (simp_all add: f_def q_def live_def)
  note preserve = calm_quarantine [where live = live and h = h, unfolded names]
  have free: "m (wal_of live) = None" "m (shm_of live) = None" "m f = None" "wal_of live \<notin> {f, q ''ledger.db''}" "shm_of live \<notin> {f, q ''ledger.db''}"
    using none apart by simp_all
  show ?thesis
    unfolding publish_restored_def Let_def
    unfolding s_def [symmetric] q_def [symmetric]
    unfolding live_def [symmetric]
    by (rule succeeds_glue(1), rule preserve [OF calm here(1) free], erule rest, assumption)
qed

end
