(* ===== verification/RestoreProperties.thy ===== *)
theory RestoreProperties
  imports RestoreRuns
begin

text \<open>
  What a restore keeps: the original ledger with its side files is never lost, whatever call fails and wherever the
  machine stops, and what is published is the verified backup.
\<close>

subsection \<open>What the steps leave alone\<close>

lemma keeps_lift: "ut.keeps P m \<Longrightarrow> ut.keeps P (io m)"
  by (simp add: ut.keeps_def io_def Let_def case_prod_unfold)

lemma keeps_cases:
  "(\<And>a b. ut.keeps P (f a b)) \<Longrightarrow> ut.keeps P (case x of (a, b) \<Rightarrow> f a b)"
  "(c \<Longrightarrow> ut.keeps P m) \<Longrightarrow> (\<not> c \<Longrightarrow> ut.keeps P m') \<Longrightarrow> ut.keeps P (if c then m else m')"
  "ut.keeps P m \<Longrightarrow> (\<And>a. y = Some a \<Longrightarrow> ut.keeps P (g a)) \<Longrightarrow> ut.keeps P (case y of None \<Rightarrow> m | Some a \<Rightarrow> g a)"
  "(\<And>e. ut.keeps P (l e)) \<Longrightarrow> (\<And>a. ut.keeps P (g' a)) \<Longrightarrow> ut.keeps P (case z of Inl e \<Rightarrow> l e | Inr a \<Rightarrow> g' a)"
  "ut.keeps P n1 \<Longrightarrow> (\<And>e. ut.keeps P (n2 e)) \<Longrightarrow> (\<And>d e. ut.keeps P (n3 d e)) \<Longrightarrow>
     ut.keeps P (case e of NotExist \<Rightarrow> n1 | IoError t \<Rightarrow> n2 t | FaultError d t \<Rightarrow> n3 d t)"
  "(\<And>t b. ut.keeps P (q1 t b)) \<Longrightarrow> ut.keeps P q2 \<Longrightarrow> ut.keeps P q3 \<Longrightarrow>
     ut.keeps P (case node of File t b \<Rightarrow> q1 t b | Folder \<Rightarrow> q2 | Special \<Rightarrow> q3)"
  by (auto split: prod.splits option.splits sum.splits io_error.splits file_node.splits)

lemma keeps_choice: "(\<And>k. ut.keeps P (m (c k))) \<Longrightarrow> ut.keeps P (\<lambda>k. m (c k) k)"
  by (simp add: ut.keeps_def)

lemmas keeps_steps = keeps_io keeps_lift keeps_cases

lemma keeps_looks: "ut.keeps P (regular_or_missing os p)" "ut.keeps P (missing_or_found os p)" "ut.keeps P (shaFile os p)" "ut.keeps P (refuse_unless b t)"
  unfolding regular_or_missing_def missing_or_found_def shaFile_def refuse_unless_def by (intro keeps_steps)+

lemma keeps_snapshot: "ut.keeps P (snapshot_files os p)" "ut.keeps P (openSnapshotCopy h p)" "ut.keeps P (read_snapshot h p)"
  unfolding openSnapshotCopy_def read_snapshot_def snapshot_files_def side_files_of_def by (intro keeps_steps keeps_looks)+

lemma keeps_evidence: "ut.keeps P (restoreEvidenceProves os dir backup digest ns)"
proof (induction ns)
  case (Cons n ns)
  have step: "ut.keeps P (if b then restoreEvidenceProves os dir backup digest ns else
     andThen (io (ReadFile os (full_path (dir, n), ''evidence.json''))) (\<lambda>text.
            andThen (pass (fetch (Unmarshal dec_manifest text manifest0) (RestoreText ''restore evidence is malformed''))) (\<lambda>m.
            andThen (refuse_unless (em_version m = 1) ''restore evidence has unsupported version'') (\<lambda>_.
            andThen (refuse_unless (em_backup m \<noteq> []) ''restore evidence lacks a verified backup digest'') (\<lambda>_.
            andThen (io (Lstat os (full_path (dir, n), ''ledger.db''))) (\<lambda>_.
            if em_path m \<noteq> [] \<and> path_clean (em_path m) \<noteq> path_clean (full_path backup) then restoreEvidenceProves os dir backup digest ns
            else if EqualFold (em_backup m) digest then give True
            else restoreEvidenceProves os dir backup digest ns))))))" for b
    using Cons.IH by (intro keeps_steps keeps_looks)
  show ?case
    unfolding ut.keeps_def
  proof
    fix k
    show "untouched P k (snd (restoreEvidenceProves os dir backup digest (n # ns) k))"
      using ut.keepsD [OF step [of "\<not> (dk_now k (dir, n) = Some Folder \<and> has_prefix n evidence_prefix)"], of k]
      unfolding restoreEvidenceProves.simps by (simp only: if_distribR)
  qed
qed (simp add: ut.keeps_rules)

lemma keeps_checks:
  "ut.keeps P (same_as_live h live digest)" "ut.keeps P (verifyAuthoritativeProvenance h live backup digest)" "ut.keeps P (restore_guards h opts)"
  "ut.keeps P (diagnosed h live)" "ut.keeps P (compared h live before)"
  unfolding same_as_live_def verifyAuthoritativeProvenance_def catalogRecordFor_def readAuthoritativeCatalog_def restore_guards_def
    daemon_stopped_def diagnosed_def compared_def Let_def
  by (intro keeps_steps keeps_looks keeps_snapshot keeps_evidence)+

lemma keeps_copyFile: "dst \<notin> P \<Longrightarrow> ut.keeps P (copyFile os src dst)"
  unfolding copyFile_def copyFileContents_def by (intro keeps_steps)

lemma keeps_RemoveAll: "folder \<notin> P \<Longrightarrow> (\<forall>n \<in> set names. (full_path folder, n) \<notin> P) \<Longrightarrow> ut.keeps P (RemoveAll os folder names)"
proof -
  assume a: "folder \<notin> P" "\<forall>n \<in> set names. (full_path folder, n) \<notin> P"
  have "ut.keeps P (each (\<lambda>n _. RemoveIfThere os (full_path folder, n)) names ())"
    using a(2) by (induction names) (simp_all add: ut.keeps_give ut.keeps_andThen keeps_writes)
  with a(1) show ?thesis unfolding RemoveAll_def by (simp add: ut.keeps_andThen keeps_writes)
qed

text \<open>The private files of a restore in the directory of the ledger.\<close>

definition private_path :: "string \<Rightarrow> file_path \<Rightarrow> bool" where
  "private_path dir p = (fst p = dir \<and> has_prefix (snd p) restore_file \<or> has_prefix (fst p) (dir @ ''/'' @ restore_file))"

lemma has_prefix_append [simp]: "has_prefix (a @ b) a" "has_prefix (a @ b) (a @ c) = has_prefix b c"
  by (simp_all add: has_prefix_def)

lemma keeps_clean_one:
  assumes "\<forall>p \<in> P. \<not> private_path (fst live) p"
  shows "ut.keeps P (clean_one os live backup n)"
proof (cases "\<not> has_prefix n restore_file \<or> (fst live, n) = live \<or> (fst live, n) = backup")
  case True
  then show ?thesis by (simp add: clean_one_def ut.keeps_give)
next
  case False
  then have pre: "has_prefix n restore_file" by simp
  have out: "(fst live, n) \<notin> P" "\<forall>x \<in> set [''ledger.db'', ''ledger.db-wal'', ''ledger.db-shm'']. (full_path (fst live, n), x) \<notin> P"
    using assms pre by (force simp: private_path_def full_path_def has_prefix_def)+
  have step: "ut.keeps P (if b then io (RemoveAll os (fst live, n) [''ledger.db'', ''ledger.db-wal'', ''ledger.db-shm''])
                else if \<not> (has_suffix n ''.db'' \<or> contains n ''.tmp-'') then give ()
                else andThen (io (Lstat os (fst live, n))) (\<lambda>node. if is_regular node then io (RemoveIfThere os (fst live, n)) else give ()))" for b
    by (intro keeps_steps keeps_RemoveAll out)
  have eq: "clean_one os live backup n = (\<lambda>k. (if has_prefix n (restore_file @ ''semantic-'') \<and> dk_now k (fst live, n) = Some Folder
                then io (RemoveAll os (fst live, n) [''ledger.db'', ''ledger.db-wal'', ''ledger.db-shm''])
                else if \<not> (has_suffix n ''.db'' \<or> contains n ''.tmp-'') then give ()
                else andThen (io (Lstat os (fst live, n))) (\<lambda>node. if is_regular node then io (RemoveIfThere os (fst live, n)) else give ())) k)"
    using False by (auto simp: clean_one_def Let_def fun_eq_iff)
  show ?thesis unfolding eq by (rule keeps_choice [where m = "\<lambda>b. if b then _ else _", OF step])
qed

lemma keeps_clean: "(\<forall>p \<in> P. \<not> private_path (fst live) p) \<Longrightarrow> ut.keeps P (cleanAbandonedStaging h live backup)"
  unfolding cleanAbandonedStaging_def by (intro ut.keeps_each keeps_clean_one)

lemma private_staging:
  "private_path (fst live) (staging_path h live)" "private_path (fst live) (wal_of (staging_path h live))"
  "private_path (fst live) (shm_of (staging_path h live))" "private_path (fst live) (temp_of (staging_path h live) rnd)"
  by (simp_all add: private_path_def staging_path_def wal_of_def shm_of_def side_file_def temp_of_def)

lemma keeps_stage_backup:
  assumes "\<forall>p \<in> P. \<not> private_path (fst live) p"
  shows "ut.keeps P (stage_backup h (staging_path h live) backup digest)"
proof -
  have out: "staging_path h live \<notin> P" "temp_of (staging_path h live) (rh_random h) \<notin> P" using assms private_staging by blast+
  then have "ut.keeps P (ReplaceFileVia (rh_os h) (staging_path h live) (rh_random h) (\<lambda>tmp. copyFile (rh_os h) backup tmp))"
    by (intro keeps_ReplaceFileVia keeps_copyFile)
  then show ?thesis unfolding stage_backup_def by (intro keeps_steps keeps_looks)
qed

lemma keeps_foldSidecars: "(\<forall>p \<in> P. \<not> private_path (fst live) p) \<Longrightarrow> ut.keeps P (foldSidecars h (staging_path h live))"
  unfolding foldSidecars_def using private_staging [of live h] by (intro keeps_steps) blast+

lemma keeps_remove_staging: "(\<forall>p \<in> P. \<not> private_path (fst live) p) \<Longrightarrow> ut.keeps P (remove_staging h (staging_path h live))"
  unfolding remove_staging_def using private_staging [of live h] by (intro keeps_steps) blast+

lemma keeps_semantic:
  "(\<And>pre. ro_pre opts = Some pre \<Longrightarrow> pre \<notin> P \<and> temp_of pre (rh_random h) \<notin> P) \<Longrightarrow> ut.keeps P (preserveSemanticBackup h opts)"
  unfolding preserveSemanticBackup_def ReplaceFile_def by (intro keeps_steps keeps_looks keeps_snapshot keeps_ReplaceFileVia) auto

text \<open>The evidence of a restore.\<close>

definition evidence_paths :: "restore_host \<Rightarrow> file_path \<Rightarrow> file_path set" where
  "evidence_paths h live = insert (evidence_folder h live) (evidence_file h live ` {''ledger.db'', ''ledger.db-wal'', ''ledger.db-shm'', ''evidence.json''})"

lemma keeps_preserve_files:
  "P \<inter> evidence_paths h live = {} \<Longrightarrow> ut.keeps P (preserve_files h live backup digest)"
  unfolding preserve_files_def preserve_side_def writeEvidenceManifest_def Let_def
  by (intro keeps_steps keeps_looks keeps_copyFile) (auto simp: evidence_paths_def)

lemma keeps_quarantine:
  "P \<inter> evidence_paths h live = {} \<Longrightarrow> ut.keeps P (quarantineOriginal h live backup digest)"
  unfolding quarantineOriginal_def
  by (intro keeps_steps keeps_looks keeps_preserve_files keeps_RemoveAll) (auto simp: evidence_paths_def evidence_file_def)

subsection \<open>The original and its evidence\<close>

definition files_at :: "file_path \<Rightarrow> db_files \<Rightarrow> disk \<Rightarrow> bool" where
  "files_at live fs k = (dk_now k live = Some (File (fst fs) True) \<and> dk_now k (wal_of live) = map_option (\<lambda>x. File x True) (fst (snd fs))
     \<and> dk_now k (shm_of live) = map_option (\<lambda>x. File x True) (snd (snd fs)))"

definition live_paths :: "file_path \<Rightarrow> file_path set" where
  "live_paths live = {live, wal_of live, shm_of live}"

text \<open>The original \<open>fs\<close> is in place, or what opening it left, \<open>gs\<close>; a crash can bring back nothing else.\<close>

definition standing :: "file_path \<Rightarrow> db_files \<Rightarrow> db_files \<Rightarrow> disk \<Rightarrow> bool" where
  "standing live fs gs k = (files_at live gs k
     \<and> possible k live \<subseteq> {Some (fst fs), Some (fst gs)}
     \<and> possible k (wal_of live) \<subseteq> {fst (snd fs), fst (snd gs)} \<and> possible k (shm_of live) \<subseteq> {snd (snd fs), snd (snd gs)})"

lemma standing_untouched: "standing live fs gs k \<Longrightarrow> untouched (live_paths live) k k' \<Longrightarrow> standing live fs gs k'"
proof -
  assume a: "standing live fs gs k" and u: "untouched (live_paths live) k k'"
  have "dk_now k' p = dk_now k p \<and> possible k' p \<subseteq> possible k p" if "p \<in> live_paths live" for p
    using untouched_possible [OF u that] u that by (simp add: untouched_def)
  from this [of live] this [of "wal_of live"] this [of "shm_of live"] a show ?thesis
    by (simp add: standing_def files_at_def live_paths_def) (meson subset_trans)
qed

text \<open>After any crash the evidence directory is there with the bytes of \<open>gs\<close>.\<close>

definition evidence_holds :: "restore_host \<Rightarrow> file_path \<Rightarrow> db_files \<Rightarrow> disk \<Rightarrow> bool" where
  "evidence_holds h live gs k =
     (dk_now k (evidence_folder h live) = Some Folder \<and> (\<forall>n. (evidence_folder h live, n) \<notin> set (dk_old k))
      \<and> possible k (evidence_file h live ''ledger.db'') = {Some (fst gs)}
      \<and> (\<forall>x. fst (snd gs) = Some x \<longrightarrow> possible k (evidence_file h live ''ledger.db-wal'') = {Some x})
      \<and> (\<forall>x. snd (snd gs) = Some x \<longrightarrow> possible k (evidence_file h live ''ledger.db-shm'') = {Some x}))"

lemma possible_nonempty: "possible k p \<noteq> {}"
  using outcomes_nonempty by (simp add: possible_def)

lemma possible_same: "untouched P k k' \<Longrightarrow> p \<in> P \<Longrightarrow> possible k p = {x} \<Longrightarrow> possible k' p = {x}"
  using untouched_possible [of P k k' p] possible_nonempty [of k' p] by auto

lemma evidence_untouched:
  assumes "evidence_holds h live gs k" and u: "untouched (evidence_paths h live) k k'"
  shows "evidence_holds h live gs k'"
proof -
  have "dk_now k' (evidence_folder h live) = dk_now k (evidence_folder h live)"
      "\<forall>n. (evidence_folder h live, n) \<in> set (dk_old k') \<longrightarrow> (evidence_folder h live, n) \<in> set (dk_old k)"
    using u by (auto simp: untouched_def evidence_paths_def)
  with assms(1) possible_same [OF u] show ?thesis by (simp add: evidence_holds_def evidence_paths_def)
qed

subsection \<open>Reading and copying\<close>

lemma io_Inr [action_simps]: "io m k = (Inr x, k') \<longleftrightarrow> m k = (Inr x, k')"
  by (auto simp: io_def Let_def split: prod.splits sum.splits) (metis Inl_Inr_False id_apply map_sum.simps sum.exhaust)

lemma map_error_Inr [action_simps]: "map_sum f id r = Inr x \<longleftrightarrow> r = Inr x"
  by (cases r) auto

lemma refuse_Inr [action_simps]: "refuse_unless b t k = (Inr x, k') \<longleftrightarrow> b \<and> k' = k"
  by (simp add: refuse_unless_def check_Inr)

lemma ReadFile_Inr [action_simps]: "ReadFile os p k = (Inr c, k') \<longleftrightarrow> \<not> dk_halted k \<and> os (dk_calls k) = None \<and> (\<exists>b. dk_now k p = Some (File c b)) \<and> k' = k\<lparr>dk_calls := Suc (dk_calls k)\<rparr>"
  by (auto simp: ReadFile_def action_simps split: option.splits file_node.splits)

lemma regular_found: "regular_or_missing os p k = (Inr found, k') \<Longrightarrow> found \<longleftrightarrow> dk_now k p \<noteq> None"
  by (auto simp: regular_or_missing_def Lstat_def syscall_def andThen_def result_of_def fetch_def is_regular_def give_def fail_def Let_def
      split: option.splits fault.splits if_splits file_node.splits sum.splits io_error.splits)

lemma copyFile_Inr:
  assumes "copyFile os src dst k = (Inr u, k')"
  shows "\<exists>c b. dk_now k src = Some (File c b) \<and> dk_now k' dst = Some (File c True)"
proof -
  obtain c k1 k2 v where "ReadFile os src k = (Inr c, k1)" "WriteFile os dst c k1 = (Inr v, k2)" "SyncFile os dst k2 = (Inr u, k')"
    using assms by (auto simp: copyFile_def copyFileContents_def action_simps)
  with WriteFile_Inr [OF this(2)] show ?thesis by (auto simp: SyncFile_def action_simps)
qed

lemma untouched_now: "untouched P k k' \<Longrightarrow> p \<in> P \<Longrightarrow> dk_now k' p = dk_now k p"
  by (simp add: untouched_def)

lemma read_only:
  assumes "ut.keeps UNIV m" "m k = (r, k')"
  shows "dk_now k' = dk_now k"
  using ut.keeps_run [OF assms] by (intro ext) (simp only: untouched_def ball_UNIV)

lemma keeps_side_files: "ut.keeps P (side_files_of os p)"
  unfolding side_files_of_def by (intro keeps_steps keeps_looks)

lemma side_files_read:
  assumes "side_files_of os p k = (Inr w, k')" "dk_now k p = map_option (\<lambda>x. File x True) v"
  shows "w = v"
proof -
  obtain found k1 where f: "regular_or_missing os p k = (Inr found, k1)"
      and r: "(if found then andThen (io (ReadFile os p)) (\<lambda>c. give (Some c)) else give None) k1 = (Inr w, k')"
    using assms(1) by (auto simp: side_files_of_def andThen_Inr)
  have "dk_now k1 p = dk_now k p" using read_only [OF keeps_looks(1) f] by simp
  with r regular_found [OF f] assms(2) show ?thesis by (cases v) (auto simp: action_simps)
qed

lemma snapshot_read:
  assumes "snapshot_files os live k = (Inr fs, k')" "files_at live gs k"
  shows "fs = gs"
proof -
  obtain n k1 k2 k3 k4 c w s where steps: "Lstat os live k = (Inr n, k1)" "ReadFile os live k1 = (Inr c, k2)"
      "side_files_of os (wal_of live) k2 = (Inr w, k3)" "side_files_of os (shm_of live) k3 = (Inr s, k4)" and fs: "fs = (c, w, s)"
    using assms(1) by (auto simp: snapshot_files_def action_simps)
  have u1: "dk_now k1 = dk_now k" "dk_now k2 = dk_now k1" "dk_now k3 = dk_now k2"
    using read_only [OF keeps_calls(1) steps(1)] read_only [OF keeps_calls(2) steps(2)] read_only [OF keeps_side_files steps(3)] by simp_all
  have "w = fst (snd gs)" using side_files_read [OF steps(3)] assms(2) u1 by (simp add: files_at_def)
  moreover have "s = snd (snd gs)" using side_files_read [OF steps(4)] assms(2) u1 by (simp add: files_at_def)
  moreover have "c = fst gs" using steps(2) assms(2) u1 by (auto simp: action_simps files_at_def)
  ultimately show ?thesis using fs by simp
qed

subsection \<open>The steps up to the publication\<close>

lemma wal_shm [simp]: "wal_of p \<noteq> p" "shm_of p \<noteq> p" "wal_of p \<noteq> shm_of p" "p \<noteq> wal_of p" "p \<noteq> shm_of p" "shm_of p \<noteq> wal_of p"
  by (cases p, simp add: wal_of_def shm_of_def side_file_def)+

lemma sqlite_leaves_standing: "standing live fs fs k \<Longrightarrow> standing live fs gs (sqlite_leaves live gs k)"
proof -
  assume a: "standing live fs fs k"
  obtain c w s where gs: "gs = (c, w, s)" by (cases gs)
  have "outcomes (map_option (\<lambda>x. File x True) v) = {v}" for v by (cases v) auto
  with a show ?thesis
    by (auto simp: gs sqlite_leaves_def standing_def files_at_def possible_fresh possible_other Let_def) (auto simp: set_entry_def)
qed

lemma staleness_standing:
  assumes "staleness_check h live l k = (r, k')" "standing live fs fs k"
  shows "standing live fs fs k' \<or> standing live fs (rh_left h fs) k'"
proof -
  let ?open = "\<lambda>x. pass (map_sum RestoreText id (rh_open h x)) :: (ledger \<times> control) restoring"
  obtain r1 k1 where f: "missing_or_found (rh_os h) live k = (r1, k1)" by fastforce
  obtain r2 k2 where s: "snapshot_files (rh_os h) live k1 = (r2, k2)" by fastforce
  have st: "standing live fs fs k1" "standing live fs fs k2"
    using standing_untouched assms(2) ut.keeps_run [OF keeps_looks(2) f] ut.keeps_run [OF keeps_snapshot(1) s] by blast+
  have "r2 = Inr x \<Longrightarrow> x = fs" for x using snapshot_read s st(1) by (auto simp: standing_def)
  then have "k' \<in> {k1, k2, sqlite_leaves live (rh_left h fs) k2}"
    using assms(1) f s by (cases r1; cases r2; cases "rh_open h fs")
      (auto simp: staleness_check_def andThen_def give_def pass_def refuse_unless_def check_def split: if_splits prod.splits)
  with st sqlite_leaves_standing [OF st(2), of "rh_left h fs"] show ?thesis by blast
qed

subsection \<open>The quarantine\<close>

lemma evidence_files_differ [simp]:
  "evidence_file h live a = evidence_file h live b \<longleftrightarrow> a = b" "evidence_file h live a \<noteq> evidence_folder h live" "evidence_folder h live \<noteq> evidence_file h live a"
  by (auto simp: evidence_file_def evidence_folder_def full_path_def)

lemma live_apart: "snd live = ''ledger.db'' \<Longrightarrow> live_paths live \<inter> evidence_paths h live = {}"
  by (cases live) (auto simp: live_paths_def wal_of_def shm_of_def side_file_def evidence_paths_def evidence_file_def evidence_folder_def full_path_def evidence_prefix_def)

text \<open>What a step of the copying leaves of the files copied before.\<close>

definition synced :: "disk \<Rightarrow> file_path \<Rightarrow> string option \<Rightarrow> bool" where
  "synced k p v = (\<forall>x. v = Some x \<longrightarrow> dk_now k p = Some (File x True))"

lemma synced_untouched: "untouched P k k' \<Longrightarrow> p \<in> P \<Longrightarrow> synced k p v \<Longrightarrow> synced k' p v"
  by (auto simp: untouched_def synced_def)

lemma preserve_side_synced:
  assumes "preserve_side h side dst k = (Inr b, k')" "dk_now k side = map_option (\<lambda>x. File x True) v" "dst \<noteq> side"
  shows "synced k' dst v"
proof -
  obtain found k1 where f: "regular_or_missing (rh_os h) side k = (Inr found, k1)"
      and r: "(if found then andThen (io (copyFile (rh_os h) side dst)) (\<lambda>_. give True) else give False) k1 = (Inr b, k')"
    using assms(1) by (auto simp: preserve_side_def andThen_Inr)
  have now: "dk_now k1 = dk_now k" using read_only [OF keeps_looks(1) f] .
  show ?thesis
  proof (cases v)
    case (Some x)
    then have "found" using regular_found [OF f] assms(2) by simp
    then obtain u where "copyFile (rh_os h) side dst k1 = (Inr u, k')" using r by (auto simp: action_simps)
    from copyFile_Inr [OF this] now assms(2) Some show ?thesis by (auto simp: synced_def)
  qed (simp add: synced_def)
qed

lemma SyncDir_synced: "SyncDir os (fst p) k = (Inr u, k') \<Longrightarrow> synced k p (Some x) \<Longrightarrow> possible k' p = {Some x}"
  using SyncDir_Inr [of os p k u k'] by (auto simp: synced_def)

lemma SyncDir_folder: "SyncDir os (fst p) k = (Inr u, k') \<Longrightarrow> dk_now k' = dk_now k \<and> (\<forall>n. (p, n) \<notin> set (dk_old k'))"
  by (auto simp: SyncDir_def action_simps)

lemma preserve_files_hold:
  assumes "preserve_files h live backup digest k = (Inr po, k')" and "files_at live gs k" and "snd live = ''ledger.db''"
    and "dk_now k (evidence_folder h live) = Some Folder"
  shows "evidence_holds h live gs k'"
proof -
  let ?q = "evidence_file h live"
  let ?f = "evidence_folder h live"
  have apart: "live_paths live \<inter> evidence_paths h live = {}" by (rule live_apart [OF assms(3)])
  have side: "ut.keeps P (preserve_side h s d)" if "d \<notin> P" for P s d
    using that unfolding preserve_side_def by (intro keeps_steps keeps_looks keeps_copyFile)
  have man: "ut.keeps P (writeEvidenceManifest h d m)" if "d \<notin> P" for P d m
    using that unfolding writeEvidenceManifest_def by (intro keeps_steps)
  obtain u1 k1 sha k2 wal k3 shm k4 m u5 k5 u6 k6 u7 where steps:
      "copyFile (rh_os h) live (?q ''ledger.db'') k = (Inr u1, k1)" "shaFile (rh_os h) (?q ''ledger.db'') k1 = (Inr sha, k2)"
      "preserve_side h (wal_of live) (?q ''ledger.db-wal'') k2 = (Inr wal, k3)" "preserve_side h (shm_of live) (?q ''ledger.db-shm'') k3 = (Inr shm, k4)"
      "writeEvidenceManifest h (?q ''evidence.json'') m k4 = (Inr u5, k5)" "SyncDir (rh_os h) (full_path ?f) k5 = (Inr u6, k6)"
      "SyncDir (rh_os h) (fst live) k6 = (Inr u7, k')"
    using assms(1) unfolding preserve_files_def Let_def by (auto simp: action_simps)
  have evidence_dir: "fst live = fst ?f" by (simp add: evidence_folder_def)
  have live_now: "wal_of live \<notin> {?q n}" "shm_of live \<notin> {?q n}" "live \<notin> {?q n}" if "n \<in> {''ledger.db'', ''ledger.db-wal'', ''ledger.db-shm'', ''evidence.json''}" for n
    using apart that by (auto simp: live_paths_def evidence_paths_def)
  let ?A = "- {?q ''ledger.db''}" and ?B = "- {?q ''ledger.db-wal''}" and ?C = "- {?q ''ledger.db-shm''}" and ?D = "- {?q ''evidence.json''}"
  have u: "untouched ?A k k1" "untouched UNIV k1 k2" "untouched ?B k2 k3" "untouched ?C k3 k4" "untouched ?D k4 k5" "untouched UNIV k5 k6" "untouched UNIV k6 k'"
    using ut.keeps_run [OF keeps_copyFile steps(1)] ut.keeps_run [OF keeps_looks(3) steps(2)] ut.keeps_run [OF side steps(3)]
      ut.keeps_run [OF side steps(4)] ut.keeps_run [OF man steps(5)] ut.keeps_run [OF keeps_calls(4) steps(6)] ut.keeps_run [OF keeps_calls(4) steps(7)]
    by simp_all
  have sides: "dk_now k2 (wal_of live) = map_option (\<lambda>x. File x True) (fst (snd gs))" "dk_now k3 (shm_of live) = map_option (\<lambda>x. File x True) (snd (snd gs))"
    using untouched_now [OF u(1), of "wal_of live"] untouched_now [OF u(1), of "shm_of live"] untouched_now [OF u(2) UNIV_I]
      untouched_now [OF u(3), of "shm_of live"] assms(2) live_now by (simp_all add: files_at_def)
  have one: "synced k1 (?q ''ledger.db'') (Some (fst gs))"
    using copyFile_Inr [OF steps(1)] assms(2) by (auto simp: synced_def files_at_def)
  have two: "synced k3 (?q ''ledger.db-wal'') (fst (snd gs))" 
    by (rule preserve_side_synced [OF steps(3) sides(1)]) (use live_now(1) [of "''ledger.db-wal''"] in simp)
  have three: "synced k4 (?q ''ledger.db-shm'') (snd (snd gs))" 
    by (rule preserve_side_synced [OF steps(4) sides(2)]) (use live_now(2) [of "''ledger.db-shm''"] in simp)
  have "synced k5 (?q ''ledger.db'') (Some (fst gs))"
    by (rule synced_untouched [OF u(5)], simp, rule synced_untouched [OF u(4)], simp, rule synced_untouched [OF u(3)], simp, rule synced_untouched [OF u(2)], simp, rule one)
  moreover have "synced k5 (?q ''ledger.db-wal'') (fst (snd gs))"
    by (rule synced_untouched [OF u(5)], simp, rule synced_untouched [OF u(4)], simp, rule two)
  moreover have "synced k5 (?q ''ledger.db-shm'') (snd (snd gs))" by (rule synced_untouched [OF u(5)], simp, rule three)
  moreover have settle: "synced k5 (?q n) (Some x) \<Longrightarrow> possible k6 (?q n) = {Some x}" for n x
    using SyncDir_synced [of "rh_os h" "?q n" k5 u6 k6 x] steps(6) by (simp add: evidence_file_def)
  ultimately have held: "possible k' (?q ''ledger.db'') = {Some (fst gs)}" "fst (snd gs) = Some x \<Longrightarrow> possible k' (?q ''ledger.db-wal'') = {Some x}"
      "snd (snd gs) = Some x \<Longrightarrow> possible k' (?q ''ledger.db-shm'') = {Some x}" for x
    using settle possible_same [OF u(7) UNIV_I] by simp_all
  have "dk_now k5 ?f = dk_now k ?f"
    using untouched_now [OF u(1), of ?f] untouched_now [OF u(2) UNIV_I, of ?f] untouched_now [OF u(3), of ?f] untouched_now [OF u(4), of ?f]
      untouched_now [OF u(5), of ?f] by simp
  then have "dk_now k' ?f = Some Folder" "\<forall>n. (?f, n) \<notin> set (dk_old k')"
    using assms(4) SyncDir_folder [of "rh_os h" ?f, OF steps(7) [unfolded evidence_dir]] read_only [OF keeps_calls(4) steps(6)] by simp_all
  with held show ?thesis by (simp add: evidence_holds_def)
qed

lemma Mkdir_Inr: "Mkdir os p k = (Inr u, k') \<Longrightarrow> dk_now k' p = Some Folder"
  by (auto simp: Mkdir_def action_simps set_entry_def split: if_splits)

lemma quarantine_holds:
  assumes "quarantineOriginal h live backup digest k = (Inr po, k')" "files_at live gs k" "snd live = ''ledger.db''"
  shows "evidence_holds h live gs k'"
proof -
  let ?P = "live_paths live"
  obtain found k1 where f: "regular_or_missing (rh_os h) live k = (Inr found, k1)"
    using assms(1) by (auto simp: quarantineOriginal_def andThen_Inr)
  have "found" using regular_found [OF f] assms(2) by (simp add: files_at_def)
  then obtain u k2 where m: "Mkdir (rh_os h) (evidence_folder h live) k1 = (Inr u, k2)" and p: "preserve_files h live backup digest k2 = (Inr po, k')"
    using assms(1) f by (auto simp: quarantineOriginal_def action_simps)
  have "evidence_folder h live \<notin> ?P" using live_apart [OF assms(3), of h] by (auto simp: evidence_paths_def)
  then have "untouched ?P k1 k2" by (rule ut.keeps_run [OF keeps_writes(5) m])
  moreover have "untouched ?P k k1" by (rule ut.keeps_run [OF keeps_looks(1) f])
  ultimately have "files_at live gs k2" using assms(2) by (simp add: untouched_def files_at_def live_paths_def)
  from preserve_files_hold [OF p this assms(3) Mkdir_Inr [OF m]] show ?thesis .
qed

text \<open>The path of the optional semantic backup is none of the files of the restore.\<close>

definition apart_pre :: "restore_host \<Rightarrow> restore_options \<Rightarrow> bool" where
  "apart_pre h opts = (\<forall>pre. ro_pre opts = Some pre \<longrightarrow>
     (\<forall>p \<in> {pre, temp_of pre (rh_random h)}. p \<notin> evidence_paths h (ro_live opts) \<and> \<not> private_path (fst (ro_live opts)) p))"

lemma evidence_not_private: "\<forall>p \<in> evidence_paths h live. \<not> private_path (fst live) p"
  by (auto simp: evidence_paths_def private_path_def evidence_file_def evidence_folder_def full_path_def has_prefix_def restore_file_def evidence_prefix_def)

lemma live_not_private: "snd live = ''ledger.db'' \<Longrightarrow> \<forall>p \<in> live_paths live. \<not> private_path (fst live) p"
  by (auto simp: live_paths_def private_path_def wal_of_def shm_of_def side_file_def has_prefix_def restore_file_def)

lemma publish_safe:
  assumes "publish_restored h opts digest rep k = (r, k')" and st: "standing (ro_live opts) fs gs k"
    and name: "snd (ro_live opts) = ''ledger.db''" and pre: "apart_pre h opts"
  shows "standing (ro_live opts) fs gs k' \<or> evidence_holds h (ro_live opts) gs k'"
proof -
  let ?live = "ro_live opts" and ?E = "evidence_paths h (ro_live opts)"
  obtain rq kq where q: "quarantineOriginal h ?live (ro_backup opts) digest k = (rq, kq)" by fastforce
  show ?thesis
  proof (cases rq)
    case (Inl e)
    then have "k' = kq" using assms(1) q by (simp add: publish_restored_def Let_def andThen_def)
    moreover have "untouched (live_paths ?live) k kq" using live_apart [OF name] by (intro ut.keeps_run [OF keeps_quarantine q]) auto
    ultimately show ?thesis using standing_untouched [OF st] by blast
  next
    case (Inr po)
    define rest where "rest = (andThen (preserveSemanticBackup h opts) (\<lambda>pre.
      andThen (removeLiveSidecars h ?live) (\<lambda>_.
      andThen (io (Rename (rh_os h) (staging_path h ?live) ?live)) (\<lambda>_.
      andThen (io (SyncDir (rh_os h) (fst ?live))) (\<lambda>_.
      andThen (diagnosed h ?live) (\<lambda>why.
      andThen (compared h ?live (if po_class po = ''none'' then None else Some (evidence_file h ?live ''ledger.db''))) (\<lambda>e.
      give (rep\<lparr>rq_preserved := Some po, rq_pre := pre, rq_healthy := True, rq_verification := why, rq_applied := True, rq_effects := Some e\<rparr>))))))))"
    have out: "wal_of ?live \<notin> ?E" "shm_of ?live \<notin> ?E" "?live \<notin> ?E" "staging_path h ?live \<notin> ?E"
      using live_apart [OF name, of h] evidence_not_private [of h ?live] private_staging(1) [of ?live h] by (auto simp: live_paths_def)
    have "ut.keeps ?E (preserveSemanticBackup h opts)" using pre by (intro keeps_semantic) (auto simp: apart_pre_def)
    then have "ut.keeps ?E rest" unfolding rest_def removeLiveSidecars_def by (intro keeps_steps keeps_checks out)
    moreover have "rest kq = (r, k')" using assms(1) q Inr by (simp add: publish_restored_def Let_def andThen_def rest_def)
    ultimately have "untouched ?E kq k'" by (rule ut.keeps_run)
    moreover have "evidence_holds h ?live gs kq" using quarantine_holds [OF _ _ name] q Inr st by (simp add: standing_def)
    ultimately show ?thesis using evidence_untouched by blast
  qed
qed

subsection \<open>The original is never lost\<close>

definition kept :: "restore_host \<Rightarrow> file_path \<Rightarrow> db_files \<Rightarrow> disk \<Rightarrow> bool" where
  "kept h live fs k = (\<exists>gs \<in> {fs, rh_left h fs}. standing live fs gs k \<or> evidence_holds h live gs k)"

lemma then_safe:
  assumes "andThen m f k = (r, k')" "standing live fs gs k" "ut.keeps (live_paths live) m"
    and "\<And>k. standing live fs gs k \<Longrightarrow> Q k" and "\<And>x k r k'. f x k = (r, k') \<Longrightarrow> standing live fs gs k \<Longrightarrow> Q k'"
  shows "Q k'"
proof -
  obtain r1 k1 where m: "m k = (r1, k1)" by fastforce
  have st: "standing live fs gs k1" by (rule standing_untouched [OF assms(2) ut.keeps_run [OF assms(3) m]])
  show ?thesis
  proof (cases r1)
    case (Inl e)
    then have "k' = k1" using assms(1) m by (simp add: andThen_def)
    with assms(4) [OF st] show ?thesis by simp
  next
    case (Inr x)
    then have "f x k1 = (r, k')" using assms(1) m by (simp add: andThen_def)
    from assms(5) [OF this st] show ?thesis .
  qed
qed

lemma staged_safe:
  assumes "andThen (foldSidecars h (staging_path h (ro_live opts))) (\<lambda>_. publish_restored h opts digest rep) k = (r, k')"
    and "standing (ro_live opts) fs gs k" "gs \<in> {fs, rh_left h fs}" "snd (ro_live opts) = ''ledger.db''" "apart_pre h opts"
  shows "kept h (ro_live opts) fs k'"
proof (rule then_safe [OF assms(1,2) keeps_foldSidecars [OF live_not_private [OF assms(4)]]])
  show "standing (ro_live opts) fs gs k \<Longrightarrow> kept h (ro_live opts) fs k" for k using assms(3) unfolding kept_def by blast
  show "publish_restored h opts digest rep k = (r, k') \<Longrightarrow> standing (ro_live opts) fs gs k \<Longrightarrow> kept h (ro_live opts) fs k'" for k r k'
    using publish_safe [of h opts digest rep k r k' fs gs] assms(3,4,5) unfolding kept_def by blast
qed

lemma after_staging_safe:
  assumes "after_staging h opts digest k = (r, k')"
    and st: "standing (ro_live opts) fs fs k" and name: "snd (ro_live opts) = ''ledger.db''" and pre: "apart_pre h opts"
  shows "kept h (ro_live opts) fs k'"
proof -
  let ?live = "ro_live opts"
  have k0: "standing ?live fs fs k \<Longrightarrow> kept h ?live fs k" for k unfolding kept_def by blast
  have last: "kept h ?live fs k2"
    if m: "andThen (if ro_stale opts then give () else staleness_check h ?live l) (\<lambda>_.
             andThen (foldSidecars h (staging_path h ?live)) (\<lambda>_. publish_restored h opts digest rep)) k1 = (r1, k2)" "standing ?live fs fs k1" for l rep k1 r1 k2
  proof -
    obtain rs ks where s: "(if ro_stale opts then give () else staleness_check h ?live l) k1 = (rs, ks)" by fastforce
    have "\<exists>gs \<in> {fs, rh_left h fs}. standing ?live fs gs ks"
      using s m(2) staleness_standing [of h ?live l k1 rs ks fs] by (auto simp: give_def split: if_splits)
    then obtain gs where gs: "gs \<in> {fs, rh_left h fs}" "standing ?live fs gs ks" by blast
    show ?thesis
    proof (cases rs)
      case (Inl e)
      then have "k2 = ks" using m(1) s by (simp add: andThen_def)
      with gs show ?thesis unfolding kept_def by blast
    next
      case (Inr u)
      then have "andThen (foldSidecars h (staging_path h ?live)) (\<lambda>_. publish_restored h opts digest rep) ks = (r1, k2)"
        using m(1) s by (simp add: andThen_def)
      from staged_safe [OF this gs(2,1) name pre] show ?thesis .
    qed
  qed
  let ?last = "\<lambda>l. andThen (if ro_stale opts then give () else staleness_check h ?live l) (\<lambda>_.
             andThen (foldSidecars h (staging_path h ?live)) (\<lambda>_. publish_restored h opts digest (fresh_report digest)))"
  have already: "ut.keeps P (already_restored h ?live rep)" for P rep
    unfolding already_restored_def by (intro keeps_steps keeps_checks)
  have d1: "kept h ?live fs k2" if "(if same then already_restored h ?live (fresh_report digest) else ?last l) k1 = (r1, k2)" "standing ?live fs fs k1" for same l k1 r1 k2
    using that last [of l "fresh_report digest" k1 r1 k2] k0 standing_untouched [OF that(2) ut.keeps_run [OF already]] by (cases same) simp_all
  have d2: "kept h ?live fs k2" if "(if \<not> ro_apply opts then give (fresh_report digest) else andThen (same_as_live h ?live digest)
      (\<lambda>same. if same then already_restored h ?live (fresh_report digest) else ?last l)) k1 = (r1, k2)" "standing ?live fs fs k1" for l k1 r1 k2
  proof (cases "ro_apply opts")
    case True
    then have "andThen (same_as_live h ?live digest) (\<lambda>same. if same then already_restored h ?live (fresh_report digest) else ?last l) k1 = (r1, k2)"
      using that(1) by simp
    from then_safe [OF this that(2) keeps_checks(1) k0 d1] show ?thesis .
  next
    case False
    with that k0 show ?thesis by (simp add: give_def)
  qed
  have d3: "kept h ?live fs k2" if "andThen (verifyAuthoritativeProvenance h ?live (ro_backup opts) digest) (\<lambda>_. if \<not> ro_apply opts then give (fresh_report digest)
      else andThen (same_as_live h ?live digest) (\<lambda>same. if same then already_restored h ?live (fresh_report digest) else ?last l)) k1 = (r1, k2)"
      "standing ?live fs fs k1" for l k1 r1 k2
    by (rule then_safe [OF that keeps_checks(2) k0 d2])
  show ?thesis
    using assms(1) unfolding after_staging_def Let_def
  proof (rule then_safe [OF _ st keeps_stage_backup [OF live_not_private [OF name]] k0])
    fix x :: "ledger \<times> control" and k1 r1 k2
    assume a: "(case x of (l, ctl) \<Rightarrow> andThen (verifyAuthoritativeProvenance h ?live (ro_backup opts) digest) (\<lambda>_. if \<not> ro_apply opts then give (fresh_report digest)
      else andThen (same_as_live h ?live digest) (\<lambda>same. if same then already_restored h ?live (fresh_report digest) else ?last l))) k1 = (r1, k2)" "standing ?live fs fs k1"
    show "kept h ?live fs k2" using a by (cases x) (auto intro: d3)
  qed
qed

lemma kept_untouched:
  "kept h live fs k \<Longrightarrow> untouched (live_paths live \<union> evidence_paths h live) k k' \<Longrightarrow> kept h live fs k'"
  using standing_untouched [of live fs _ k k'] evidence_untouched [of h live _ k k'] untouched_mono [of "live_paths live \<union> evidence_paths h live" k k']
  unfolding kept_def by (meson Un_upper1 Un_upper2)

text \<open>C15. A restore never loses the original ledger: whatever call fails, and wherever the machine stops and comes back, either the
  live ledger with its side files is the original (or what opening it for the comparison left), or a complete,
  durable copy of them lies in the evidence directory.\<close>

theorem original_never_lost:
  assumes "RunRestore h opts k = (r, k')"
    and "standing (ro_live opts) fs fs k" and "snd (ro_live opts) = ''ledger.db''" and "apart_pre h opts"
  shows "kept h (ro_live opts) fs k'"
proof -
  let ?live = "ro_live opts"
  have k0: "standing ?live fs fs k \<Longrightarrow> kept h ?live fs k" for k unfolding kept_def by blast
  note hidden = live_not_private [OF assms(3)]
  have clean: "ut.keeps (live_paths ?live) (if ro_apply opts then cleanAbandonedStaging h ?live (ro_backup opts) else give ())"
    using keeps_clean [OF hidden] by (simp add: ut.keeps_give)
  have rest: "kept h ?live fs k2"
    if "cleaning (after_staging h opts digest) (remove_staging h (staging_path h ?live)) k1 = (r1, k2)" "standing ?live fs fs k1" for digest k1 r1 k2
  proof -
    obtain ra ka where a: "after_staging h opts digest k1 = (ra, ka)" by fastforce
    have "\<forall>p \<in> live_paths ?live \<union> evidence_paths h ?live. \<not> private_path (fst ?live) p" using hidden evidence_not_private by blast
    from ut.keepsD [OF keeps_remove_staging [OF this], of ka] that(1) a
    have "untouched (live_paths ?live \<union> evidence_paths h ?live) ka k2" by (auto simp: cleaning_def Let_def)
    with after_staging_safe [OF a that(2) assms(3,4)] show ?thesis by (rule kept_untouched)
  qed
  have two: "kept h ?live fs k2" if "andThen (if ro_apply opts then cleanAbandonedStaging h ?live (ro_backup opts) else give ())
      (\<lambda>_. cleaning (after_staging h opts digest) (remove_staging h (staging_path h ?live))) k1 = (r1, k2)" "standing ?live fs fs k1" for digest k1 r1 k2
    by (rule then_safe [OF that clean k0 rest])
  show ?thesis
    using assms(1) unfolding RunRestore_def
    by (rule then_safe [OF _ assms(2) keeps_checks(3) k0 two])
qed

definition restore_host0 :: restore_host where
  "restore_host0 = \<lparr>rh_os = (\<lambda>n. if n = 40 then Some (Halts 1) else None), rh_canonical = (\<lambda>p. p), rh_resolved = (\<lambda>_. []), rh_names = [],
     rh_open = (\<lambda>_. Inr (empty_ledger, empty_control)), rh_integrity = (\<lambda>_. None), rh_left = (\<lambda>fs. fs), rh_fold = Inr, rh_semantic = (\<lambda>_. None),
     rh_diagnose = (\<lambda>_. Inr (''healthy'', [])), rh_lock = Inl ''no lock'', rh_order = id, rh_env = env0, rh_random = ''x''\<rparr>"

definition restore0 :: restore_options where
  "restore0 = \<lparr>ro_live = (''/d'', ''ledger.db''), ro_backup = (''/d'', ''b.db''), ro_expected = ''00'', ro_socket = None, ro_lock = None, ro_pre = None,
     ro_apply = True, ro_stale = True, ro_confirm = restore_confirmation\<rparr>"

definition disk1 :: disk where
  "disk1 = \<lparr>dk_now = [(''/d'', ''ledger.db'') \<mapsto> File ''old'' True, (''/d'', ''ledger.db-wal'') \<mapsto> File ''log'' True, (''/d'', ''b.db'') \<mapsto> File ''new'' True],
     dk_old = [], dk_calls = 0, dk_halted = False\<rparr>"

theorem original_never_lost_witness:
  "kept restore_host0 (''/d'', ''ledger.db'') (''old'', Some ''log'', None) (snd (RunRestore restore_host0 restore0 disk1))"
proof -
  obtain r k' where r: "RunRestore restore_host0 restore0 disk1 = (r, k')" by fastforce
  have "standing (ro_live restore0) (''old'', Some ''log'', None) (''old'', Some ''log'', None) disk1"
    by (simp add: standing_def files_at_def possible_def disk1_def restore0_def wal_of_def shm_of_def side_file_def)
  from original_never_lost [OF r this] show ?thesis using r by (simp add: restore0_def apart_pre_def)
qed

subsection \<open>What is published\<close>

lemma Rename_Inr:
  "Rename os src dst k = (Inr u, k') \<Longrightarrow> dk_now k src = Some (File c True) \<Longrightarrow> dk_now k' dst = Some (File c True)"
  by (auto simp: Rename_def action_simps set_entry_def split: option.splits)

lemma foldSidecars_Inr:
  assumes "foldSidecars h p k = (Inr u, k')"
  shows "\<exists>c c' b. dk_now k p = Some (File c b) \<and> rh_fold h c = Inr c' \<and> dk_now k' p = Some (File c' True)"
proof -
  obtain c k1 c' k2 k3 v where st: "ReadFile (rh_os h) p k = (Inr c, k1)" "rh_fold h c = Inr c'" "WriteFile (rh_os h) p c' k1 = (Inr v, k2)"
      and k3: "k3 = snd (Remove (rh_os h) (shm_of p) (snd (Remove (rh_os h) (wal_of p) k2)))" "SyncFile (rh_os h) p k3 = (Inr u, k')"
    using assms by (auto simp: foldSidecars_def action_simps)
  have "ut.keeps {p} (Remove (rh_os h) (shm_of p))" "ut.keeps {p} (Remove (rh_os h) (wal_of p))" by (simp_all add: keeps_writes)
  then have "untouched {p} k2 k3" unfolding k3 by (meson ut.keepsD ut.trans)
  then have "dk_now k3 p = Some (File c' False)" using WriteFile_Inr [OF st(3)] by (simp add: untouched_def)
  with st k3(2) show ?thesis by (auto simp: SyncFile_def action_simps)
qed

text \<open>The staged bytes carry the digest, and what they hold passed the audit.\<close>

definition verified_bytes :: "restore_host \<Rightarrow> string \<Rightarrow> string \<Rightarrow> bool" where
  "verified_bytes h digest c = (EqualFold (SHA256Bytes c) digest \<and> rh_integrity h (c, None, None) = None
     \<and> (\<exists>l ctl rep. rh_open h (c, None, None) = Inr (l, ctl) \<and> snd (VerifyEventChains l)
          \<and> Audit (rh_order h) None (rh_env h) l ctl = Inr rep \<and> rp_healthy rep))"

lemma stage_backup_Inr:
  assumes "stage_backup h staging backup digest k = (Inr (l, ctl), k')"
  shows "\<exists>c b. dk_now k' staging = Some (File c b) \<and> verified_bytes h digest c \<and> rh_open h (c, None, None) = Inr (l, ctl)"
  using assms by (auto simp: stage_backup_def action_simps verified_bytes_def split: prod.splits)

lemma keeps_staleness: "P \<inter> live_paths live = {} \<Longrightarrow> ut.keeps P (staleness_check h live l)"
proof -
  assume P: "P \<inter> live_paths live = {}"
  have "untouched P k (sqlite_leaves live fs k)" for fs k
    using P by (cases fs) (simp add: sqlite_leaves_def live_paths_def Let_def)
  then have "ut.keeps P (\<lambda>k. if dk_halted k then (Inl (RestoreText ''halted''), k) else (Inr (), sqlite_leaves live fs k))" for fs
    by (simp add: ut.keeps_def)
  then show ?thesis unfolding staleness_check_def by (intro keeps_steps keeps_looks keeps_snapshot)
qed

lemma staleness_Inr:
  assumes "staleness_check h live l k = (Inr u, k')" "standing live fs fs k"
  shows "\<exists>l' ctl'. rh_open h fs = Inr (l', ctl') \<and> backupCoversLive l l'"
proof -
  obtain found k1 where f: "missing_or_found (rh_os h) live k = (Inr found, k1)"
    using assms(1) by (auto simp: staleness_check_def andThen_Inr)
  have now: "dk_now k live \<noteq> None" "files_at live fs k1"
    using assms(2) read_only [OF keeps_looks(2) f] by (auto simp: standing_def files_at_def)
  have "found" using f now(1)
    by (auto simp: missing_or_found_def Lstat_def syscall_def andThen_def result_of_def fetch_def give_def fail_def Let_def
      split: option.splits fault.splits if_splits sum.splits io_error.splits)
  then obtain fs' k2 l' ctl' where "snapshot_files (rh_os h) live k1 = (Inr fs', k2)" "rh_open h fs' = Inr (l', ctl')" "backupCoversLive l l'"
    using assms(1) f by (auto simp: staleness_check_def action_simps split: prod.splits)
  with snapshot_read [OF this(1) now(2)] show ?thesis by blast
qed

lemma publish_Inr:
  assumes "publish_restored h opts digest rep k = (Inr rep', k')" and "dk_now k (staging_path h (ro_live opts)) = Some (File c True)"
    and name: "snd (ro_live opts) = ''ledger.db''" and pre: "apart_pre h opts"
  shows "possible k' (ro_live opts) = {Some c} \<and> rq_sha rep' = rq_sha rep"
proof -
  let ?live = "ro_live opts"
  let ?s = "staging_path h ?live"
  obtain po k1 b k2 u k3 k4 u5 k5 why k6 e where st: "quarantineOriginal h ?live (ro_backup opts) digest k = (Inr po, k1)"
      "preserveSemanticBackup h opts k1 = (Inr b, k2)" "removeLiveSidecars h ?live k2 = (Inr u, k3)" "Rename (rh_os h) ?s ?live k3 = (Inr (), k4)"
      "SyncDir (rh_os h) (fst ?live) k4 = (Inr u5, k5)" "diagnosed h ?live k5 = (Inr why, k6)"
      "compared h ?live (if po_class po = ''none'' then None else Some (evidence_file h ?live ''ledger.db'')) k6 = (Inr e, k')"
      "rq_sha rep' = rq_sha rep"
    using assms(1) unfolding publish_restored_def Let_def by (auto simp: action_simps)
  have out: "?s \<notin> evidence_paths h ?live" "?s \<notin> live_paths ?live"
    using evidence_not_private live_not_private [OF name] private_staging(1) [of ?live h] by blast+
  have "ut.keeps {?s} (preserveSemanticBackup h opts)"
    using pre private_staging(1) [of ?live h] by (intro keeps_semantic) (auto simp: apart_pre_def)
  moreover have "ut.keeps {?s} (removeLiveSidecars h ?live)"
    unfolding removeLiveSidecars_def using out by (intro keeps_steps) (auto simp: live_paths_def)
  moreover have "ut.keeps {?s} (quarantineOriginal h ?live (ro_backup opts) digest)" using out by (intro keeps_quarantine) simp
  ultimately have "dk_now k3 ?s = Some (File c True)"
    using ut.keeps_run st(1-3) assms(2) by (metis (no_types, lifting) singletonI untouched_now)
  then have "dk_now k4 ?live = Some (File c True)" by (rule Rename_Inr [OF st(4)])
  then have "possible k5 ?live = {Some c}" using SyncDir_Inr [OF st(5)] by simp
  from possible_same [OF ut.keeps_run [OF keeps_checks(4) st(6)] UNIV_I this] have "possible k6 ?live = {Some c}" .
  from possible_same [OF ut.keeps_run [OF keeps_checks(5) st(7)] UNIV_I this] have "possible k' ?live = {Some c}" .
  with st(8) show ?thesis by simp
qed

lemma guards_Inr:
  assumes "restore_guards h opts k = (Inr digest, k')" "ro_apply opts"
  shows "EqualFold (ro_expected opts) digest \<and> ro_confirm opts = restore_confirmation
     \<and> withinRoot h (fst (ro_live opts)) (full_path (ro_backup opts))"
proof -
  have "(ro_expected opts = [] \<or> EqualFold (ro_expected opts) digest) \<and> \<not> (ro_apply opts \<and> ro_expected opts = [])
      \<and> \<not> (ro_apply opts \<and> ro_confirm opts \<noteq> restore_confirmation) \<and> withinRoot h (fst (ro_live opts)) (full_path (ro_backup opts))"
    using assms(1) unfolding restore_guards_def Let_def
    by (simp only: andThen_Inr refuse_Inr give_Inr) (elim exE conjE, simp only: simp_thms)
  with assms(2) show ?thesis by (elim conjE disjE) simp_all
qed

lemma after_staging_Inr:
  assumes "after_staging h opts digest k = (Inr rep, k')" "rq_applied rep"
    and st: "standing (ro_live opts) fs fs k" and name: "snd (ro_live opts) = ''ledger.db''" and pre: "apart_pre h opts"
  shows "\<exists>c c'. verified_bytes h digest c \<and> rh_fold h c = Inr c' \<and> possible k' (ro_live opts) = {Some c'} \<and> rq_sha rep = digest \<and> ro_apply opts
     \<and> (\<not> ro_stale opts \<longrightarrow> (\<exists>l ctl l' ctl'. rh_open h (c, None, None) = Inr (l, ctl) \<and> rh_open h fs = Inr (l', ctl') \<and> backupCoversLive l l'))"
proof -
  let ?live = "ro_live opts"
  let ?s = "staging_path h ?live"
  have app: "ro_apply opts"
    using assms(1,2) by (cases "ro_apply opts") (auto simp: after_staging_def fresh_report_def Let_def action_simps split: prod.splits)
  obtain l ctl ka kb same kc where stage: "stage_backup h ?s (ro_backup opts) digest k = (Inr (l, ctl), ka)"
      and prov: "verifyAuthoritativeProvenance h ?live (ro_backup opts) digest ka = (Inr (), kb)" and same: "same_as_live h ?live digest kb = (Inr same, kc)"
      and last: "(if same then already_restored h ?live (fresh_report digest)
        else andThen (if ro_stale opts then give () else staleness_check h ?live l) (\<lambda>_.
             andThen (foldSidecars h ?s) (\<lambda>_. publish_restored h opts digest (fresh_report digest)))) kc = (Inr rep, k')"
    using assms(1) app unfolding after_staging_def Let_def by (auto simp: andThen_Inr split: prod.splits)
  have ns: "\<not> same" using last assms(2) by (auto simp: already_restored_def fresh_report_def action_simps)
  then obtain kd ke where stale: "(if ro_stale opts then give () else staleness_check h ?live l) kc = (Inr (), kd)"
      and fold: "foldSidecars h ?s kd = (Inr (), ke)" and pub: "publish_restored h opts digest (fresh_report digest) ke = (Inr rep, k')"
    using last by (auto simp: andThen_Inr)
  obtain c b where c: "dk_now ka ?s = Some (File c b)" "verified_bytes h digest c" "rh_open h (c, None, None) = Inr (l, ctl)"
    using stage_backup_Inr [OF stage] by blast
  have out: "?s \<notin> live_paths ?live" using live_not_private [OF name] private_staging(1) [of ?live h] by blast
  have keep: "ut.keeps {?s} (if ro_stale opts then give () else staleness_check h ?live l)" using out by (simp add: ut.keeps_give keeps_staleness)
  have "dk_now kd ?s = Some (File c b)"
    using untouched_now [OF ut.keeps_run [OF keep stale]] read_only [OF keeps_checks(2) prov] read_only [OF keeps_checks(1) same] c(1) by simp
  then obtain c' where c': "rh_fold h c = Inr c'" "dk_now ke ?s = Some (File c' True)" using foldSidecars_Inr [OF fold] by auto
  have live: "standing ?live fs fs kc"
    using standing_untouched [OF standing_untouched [OF standing_untouched [OF st ut.keeps_run [OF keeps_stage_backup [OF live_not_private [OF name]] stage]]
      ut.keeps_run [OF keeps_checks(2) prov]] ut.keeps_run [OF keeps_checks(1) same]] .
  from publish_Inr [OF pub c'(2) name pre] c c' app staleness_Inr [OF _ live] stale show ?thesis
    by (auto simp: fresh_report_def)
qed

text \<open>C16. What a restore reports as applied is the verified backup, to stay: the confirmation was exact, the backup lies in the data
  root and its bytes have the digest the operator gave; they passed the integrity check, the audit and the chain
  verification; after any crash the live ledger is exactly those bytes with their side files folded; and unless
  the operator allowed it, no event chain of the replaced ledger is longer than in the backup.\<close>

theorem restored_is_verified_backup:
  assumes "RunRestore h opts k = (Inr rep, k')" and "rq_applied rep"
    and "standing (ro_live opts) fs fs k" and "snd (ro_live opts) = ''ledger.db''" and "apart_pre h opts"
  shows "ro_confirm opts = restore_confirmation \<and> EqualFold (ro_expected opts) (rq_sha rep)
     \<and> withinRoot h (fst (ro_live opts)) (full_path (ro_backup opts))
     \<and> (\<exists>c c'. verified_bytes h (rq_sha rep) c \<and> rh_fold h c = Inr c' \<and> possible k' (ro_live opts) = {Some c'}
          \<and> (\<not> ro_stale opts \<longrightarrow> (\<exists>l ctl l' ctl'. rh_open h (c, None, None) = Inr (l, ctl) \<and> rh_open h fs = Inr (l', ctl') \<and> backupCoversLive l l')))"
proof -
  let ?live = "ro_live opts"
  note hidden = live_not_private [OF assms(4)]
  obtain digest kg kc ka where g: "restore_guards h opts k = (Inr digest, kg)"
      and cl: "(if ro_apply opts then cleanAbandonedStaging h ?live (ro_backup opts) else give ()) kg = (Inr (), kc)"
      and a: "after_staging h opts digest kc = (Inr rep, ka)" and k': "k' = snd (remove_staging h (staging_path h ?live) ka)"
    using assms(1) by (auto simp: RunRestore_def action_simps)
  have clean: "ut.keeps (live_paths ?live) (if ro_apply opts then cleanAbandonedStaging h ?live (ro_backup opts) else give ())"
    using keeps_clean [OF hidden] by (simp add: ut.keeps_give)
  have st: "standing ?live fs fs kc"
    using standing_untouched [OF standing_untouched [OF assms(3) ut.keeps_run [OF keeps_checks(3) g]] ut.keeps_run [OF clean cl]] .
  obtain c c' where c: "verified_bytes h digest c" "rh_fold h c = Inr c'" "possible ka ?live = {Some c'}" "rq_sha rep = digest" "ro_apply opts"
      "\<not> ro_stale opts \<longrightarrow> (\<exists>l ctl l' ctl'. rh_open h (c, None, None) = Inr (l, ctl) \<and> rh_open h fs = Inr (l', ctl') \<and> backupCoversLive l l')"
    using after_staging_Inr [OF a assms(2) st assms(4,5)] by blast
  have "untouched (live_paths ?live) ka k'" unfolding k' by (rule ut.keepsD [OF keeps_remove_staging [OF hidden]])
  then have "possible k' ?live = {Some c'}" by (rule possible_same) (simp_all add: live_paths_def c(3))
  with c guards_Inr [OF g c(5)] show ?thesis by blast
qed

text \<open>A restore that succeeds: the staleness is waived, one call of the second comparison fails, the rest is calm.\<close>

definition catalogued :: backup_row where
  "catalogued = \<lparr>bk_id = ''b'', bk_path = ''/d/b.db'', bk_sha = SHA256Bytes ''new'', bk_size = 3, bk_created = 0\<rparr>"

definition restore_host1 :: restore_host where
  "restore_host1 = restore_host0\<lparr>rh_os := (\<lambda>i. if i = 19 then Some (Fails ''EIO'' 0) else None),
     rh_open := (\<lambda>_. Inr (empty_ledger, empty_control\<lparr>backups := [catalogued]\<rparr>))\<rparr>"

definition restore1 :: restore_options where
  "restore1 = restore0\<lparr>ro_expected := SHA256Bytes ''new''\<rparr>"

definition disk2 :: disk where
  "disk2 = \<lparr>dk_now = [(''/d'', ''ledger.db'') \<mapsto> File ''old'' True, (''/d'', ''b.db'') \<mapsto> File ''new'' True], dk_old = [], dk_calls = 0, dk_halted = False\<rparr>"

lemmas host1 = restore_host1_def restore1_def restore_host0_def restore0_def

lemma run1_guards: "restore_guards restore_host1 restore1 disk2 = (Inr (SHA256Bytes ''new''), disk2\<lparr>dk_calls := 3\<rparr>)"
  by (simp add: restore_guards_def daemon_stopped_def withinRoot_def path_rel_def path_clean_def components_def dotdot_def has_prefix_def calls glue paths host1 disk2_def)


definition staged1 :: file_path where "staged1 = staging_path restore_host1 (''/d'', ''ledger.db'')"

lemma staged1: "staged1 = (''/d'', ''.ledger-restore-staged_0.db'')"
  by (simp add: staged1_def staging_path_def restore_file_def host1 NewID_def env0_def show_nat.simps) code_simp

lemma run1_audit: "\<exists>rep. Audit id None env0 empty_ledger (empty_control\<lparr>backups := [catalogued]\<rparr>) = Inr rep \<and> rp_healthy rep"
  by (simp add: Audit_def env0_def Let_def chain_findings_of_def query_findings_def tx_findings_def effect_findings_def auditDependencyCycles_def
    VerifyEventChains_def ordered_events_def VerifyAuthorizationDecisionChain_def VerifyTransactionAccessChain_def empty_ledger_def empty_control_def)

lemma run1_stage:
  "\<exists>k. stage_backup restore_host1 staged1 (''/d'', ''b.db'') (SHA256Bytes ''new'') (disk2\<lparr>dk_calls := 3\<rparr>) = (Inr (empty_ledger, empty_control\<lparr>backups := [catalogued]\<rparr>), k)
    \<and> dk_calls k = 13 \<and> \<not> dk_halted k \<and> dk_now k = (dk_now disk2)(staged1 \<mapsto> File ''new'' True)"
  using run1_audit
  by (auto simp: stage_backup_def staged1 ReplaceFileVia_def copyFile_def copyFileContents_def calls glue paths host1 disk2_def fun_eq_iff
    VerifyEventChains_def ordered_events_def empty_ledger_def)


definition at_call :: "nat \<Rightarrow> string \<Rightarrow> disk \<Rightarrow> bool" where
  "at_call n staged k = (dk_calls k = n \<and> \<not> dk_halted k \<and> dk_now k = (dk_now disk2)(staged1 \<mapsto> File staged True))"

lemma run1_prov: "at_call 13 c k \<Longrightarrow> \<exists>k'. verifyAuthoritativeProvenance restore_host1 (''/d'', ''ledger.db'') (''/d'', ''b.db'') (SHA256Bytes ''new'') k = (Inr (), k') \<and> at_call 19 c k'"
  by (simp add: verifyAuthoritativeProvenance_def same_as_live_def catalogRecordFor_def readAuthoritativeCatalog_def openSnapshotCopy_def snapshot_files_def side_files_of_def
    Backups_def catalogued_def empty_control_def at_call_def staged1 calls glue paths host1 disk2_def)

lemma run1_same: "at_call 19 c k \<Longrightarrow> \<exists>k'. same_as_live restore_host1 (''/d'', ''ledger.db'') (SHA256Bytes ''new'') k = (Inr False, k') \<and> at_call 20 c k'"
  by (simp add: same_as_live_def at_call_def staged1 calls glue paths host1 disk2_def)

lemma run1_fold: "at_call 20 c k \<Longrightarrow> \<exists>k'. foldSidecars restore_host1 staged1 k = (Inr (), k') \<and> at_call 25 c k'"
  by (simp add: foldSidecars_def at_call_def staged1 calls glue paths host1 disk2_def fun_eq_iff)

lemma evidence1: "evidence_folder restore_host1 (''/d'', ''ledger.db'') = (''/d'', ''ledger-restore-evidence-q_1'')"
  by (simp add: evidence_folder_def evidence_prefix_def host1 NewID_def env0_def show_nat.simps) code_simp

lemma run1_paths:
  "staging_path restore_host1 (''/d'', ''ledger.db'') = (''/d'', ''.ledger-restore-staged_0.db'')"
  "evidence_file restore_host1 (''/d'', ''ledger.db'') n = (''/d/ledger-restore-evidence-q_1'', n)"
  using staged1 by (simp_all add: staged1_def evidence_file_def evidence1 full_path_def)

lemma run1_values:
  "ro_live restore1 = (''/d'', ''ledger.db'')" "ro_pre restore1 = None" "rh_diagnose restore_host1 fs = Inr (''healthy'', [])"
  "rh_open restore_host1 fs = Inr (empty_ledger, empty_control\<lparr>backups := [catalogued]\<rparr>)"
  by (simp_all add: host1)

lemma run1_publish:
  assumes "at_call 25 ''new'' k"
  shows "succeeds (publish_restored restore_host1 restore1 digest rep) k (\<lambda>rep' _. rq_applied rep')"
proof (rule calm_publish [where c = "''new''" and o' = "''old''" and b = True and x = "(empty_ledger, empty_control\<lparr>backups := [catalogued]\<rparr>)"
      and x' = "(empty_ledger, empty_control\<lparr>backups := [catalogued]\<rparr>)" and r = "[]"])
  show "calm (rh_os restore_host1) ((dk_now disk2)(staged1 \<mapsto> File ''new'' True)) k"
    using assms by (auto simp: at_call_def calm_def restore_host1_def)
qed (simp_all add: staged1 run1_paths evidence1 run1_values disk2_def paths)

lemma run1: "\<exists>rep k'. RunRestore restore_host1 restore1 disk2 = (Inr rep, k') \<and> rq_applied rep"
proof -
  let ?live = "(''/d'', ''ledger.db'')"
  have opts: "ro_live restore1 = ?live" "ro_backup restore1 = (''/d'', ''b.db'')" "ro_apply restore1" "ro_stale restore1" "rh_names restore_host1 = []"
    by (simp_all add: host1)
  obtain ka where a: "stage_backup restore_host1 staged1 (''/d'', ''b.db'') (SHA256Bytes ''new'') (disk2\<lparr>dk_calls := 3\<rparr>)
      = (Inr (empty_ledger, empty_control\<lparr>backups := [catalogued]\<rparr>), ka)" "at_call 13 ''new'' ka"
    using run1_stage by (auto simp: at_call_def)
  obtain kb where b: "verifyAuthoritativeProvenance restore_host1 ?live (''/d'', ''b.db'') (SHA256Bytes ''new'') ka = (Inr (), kb)" "at_call 19 ''new'' kb"
    using run1_prov [OF a(2)] by blast
  obtain kc where c: "same_as_live restore_host1 ?live (SHA256Bytes ''new'') kb = (Inr False, kc)" "at_call 20 ''new'' kc"
    using run1_same [OF b(2)] by blast
  obtain kd where d: "foldSidecars restore_host1 staged1 kc = (Inr (), kd)" "at_call 25 ''new'' kd"
    using run1_fold [OF c(2)] by blast
  obtain rep ke where e: "publish_restored restore_host1 restore1 (SHA256Bytes ''new'') (fresh_report (SHA256Bytes ''new'')) kd = (Inr rep, ke)" "rq_applied rep"
    using run1_publish [OF d(2), of "SHA256Bytes ''new''" "fresh_report (SHA256Bytes ''new'')"] unfolding succeeds_def by blast
  have "after_staging restore_host1 restore1 (SHA256Bytes ''new'') (disk2\<lparr>dk_calls := 3\<rparr>) = (Inr rep, ke)"
    using a(1) b(1) c(1) d(1) e(1) by (simp add: after_staging_def Let_def opts staged1_def [symmetric] andThen_def give_def)
  with e(2) show ?thesis
    using run1_guards by (auto simp: RunRestore_def andThen_def opts cleanAbandonedStaging_def give_def cleaning_def Let_def)
qed

theorem restored_is_verified_backup_witness:
  "\<exists>rep k' c. RunRestore restore_host1 restore1 disk2 = (Inr rep, k') \<and> verified_bytes restore_host1 (rq_sha rep) c \<and> possible k' (''/d'', ''ledger.db'') = {Some c}"
proof -
  obtain rep k' where r: "RunRestore restore_host1 restore1 disk2 = (Inr rep, k')" "rq_applied rep" using run1 by blast
  have "standing (ro_live restore1) (''old'', None, None) (''old'', None, None) disk2"
    by (simp add: standing_def files_at_def possible_def disk2_def restore1_def restore0_def wal_of_def shm_of_def side_file_def)
  from restored_is_verified_backup [OF r this] show ?thesis
    using r(1) by (auto simp: host1 apart_pre_def)
qed

end
