(* ===== verification/Spec2Isabelle.thy ===== *)
theory Spec2Isabelle
  imports Replay LedgerControlProperties OperatorApproval OperatorTrailProperties ApiGuardsProperties VerificationOrder AppOutcome Egress PolicySim LedgerAudit Housekeeping DurableFiles RestoreReconcile RestoreProperties
begin

text \<open>
  FutureDiff is a daemon through which software agents change repositories and outside systems in transactions.  An
  agent works in a private worktree; the daemon seals its patch, verifies it, lets an operator approve the exact
  material, and only then publishes a reference and the external effects (a branch, a draft pull request, a message).
  Everything durable is in one SQLite ledger.  This development models the Go sources of the daemon from the ledger up
  to the guards of its API, and the tools that repair it.

  \<^bold>\<open>Conventions.\<close>  A Go function that returns a value and an error is a function into a sum with the error on the left;
  \<open>(nil, nil)\<close> is an option.  A method that changes state takes the state and returns it.  Code that runs in steps and may
  stop half-way is an action (\<open>Actions\<close>): a failure keeps the steps before it, as in the sources.  Strings are lists of
  bytes.  Times are nanoseconds; \<open>ts\<close> is the text of \<open>RFC3339Nano\<close>, in which the ledger stores and compares them.
  Row identifiers and the clock come from the record \<open>env\<close>, which also says whether the commit of a database transaction
  fails.  Go's order of running through a map is an argument wherever a result could depend on it.

  \<^bold>\<open>Theories and sources.\<close>

  Foundations.  \<open>Prelude\<close>: error sums, tables with a key (locale \<open>keyed_table\<close>), lists.  \<open>Actions\<close>: actions and the locale
  \<open>step_relation\<close>, which carries a relation between states through their combinators.  \<open>Sha256\<close>, \<open>Json\<close>, \<open>JsonDecode\<close>,
  \<open>Base64\<close>, \<open>GoTime\<close>, \<open>GoUrl\<close>: the parts of Go's library on which digests, signatures and destinations rest.
  \<open>HashChain\<close>: hash-linked logs (locales \<open>hash_chain\<close>, \<open>sequenced_chain\<close>), interpreted for the events, the access events,
  the authorization decisions, the API log and the operator trail.

  The ledger, \<open>internal/domain\<close> and \<open>internal/ledger\<close>.  \<open>Domain\<close>: the data model and the transition table.  \<open>LedgerDb\<close>: the
  tables as the record \<open>ledger\<close>, and \<open>WithTx\<close>.  \<open>LedgerRepository\<close> (\<open>repository.go\<close>), \<open>LedgerEffects\<close>
  (\<open>external_effects.go\<close>), \<open>LedgerTenant\<close> (\<open>tenant.go\<close>), \<open>LedgerEvents\<close> (\<open>event_chain.go\<close>), \<open>LedgerControl\<close>
  (\<open>authorization.go\<close>, \<open>api_requests.go\<close>, \<open>lifecycle.go\<close>), \<open>LedgerAudit\<close> (\<open>audit.go\<close>), \<open>Quota\<close> (\<open>internal/quota\<close>).
  \<open>LedgerRun\<close> names every operation (\<open>ledger_op\<close>) and says which ledgers are reachable.  \<open>LedgerWrites\<close>,
  \<open>LedgerInvariants\<close>, \<open>LedgerStates\<close>, \<open>LedgerTables\<close>, \<open>LedgerBinding\<close> and \<open>LedgerReceipts\<close> prove the invariants over them,
  by single-table writes and the locale \<open>ledger_invariant\<close>; \<open>LedgerProperties\<close> and \<open>LedgerControlProperties\<close> hold the results.
  \<open>Replay\<close> is \<open>internal/replay\<close>.

  The outside of a transaction.  \<open>Staging\<close> (\<open>internal/staging\<close>), \<open>RepoAdmission\<close> (\<open>internal/repoadmission\<close>), \<open>RuntimeOci\<close>
  (\<open>internal/runtimeoci\<close>), \<open>Verification\<close> and \<open>VerificationOrder\<close> (\<open>internal/verification\<close>), \<open>PolicySim\<close>
  (\<open>internal/policysim\<close>), \<open>Credentials\<close> (\<open>internal/credentials\<close>), \<open>Egress\<close> (\<open>internal/egress\<close>), \<open>GithubBranch\<close>,
  \<open>GithubDraft\<close>, \<open>SlackOutbox\<close> (\<open>internal/adapters\<close>).

  The service, \<open>internal/app\<close>.  \<open>AppState\<close>: its state, with requests of others interleaved before every call of the
  ledger and with failures of any of them.  \<open>AppService\<close>, \<open>AppEffects\<close>, \<open>AppCommit\<close>: its methods.  \<open>AppTrace\<close>: the locales
  \<open>plain_steps\<close>, \<open>service_steps\<close>, \<open>service_relation\<close> and \<open>writing_relation\<close>, which carry a relation through every method;
  \<open>AppProperties\<close> and \<open>AppOutcome\<close> interpret them and state what the service guarantees.  \<open>Housekeeping\<close>:
  \<open>internal/transactionexpiry\<close> and \<open>internal/idempotencygc\<close>.

  The operators and the API.  \<open>OperatorApproval\<close> (\<open>internal/operatorapproval\<close>, \<open>internal/capability\<close>), \<open>OperatorTrail\<close> and
  \<open>OperatorTrailProperties\<close> (\<open>internal/operatoraudit\<close>), \<open>Authorization\<close> (\<open>internal/apicontract\<close>,
  \<open>internal/authorization\<close>), \<open>Maintenance\<close> (\<open>internal/maintenance\<close>, \<open>internal/drain\<close>), \<open>ApiGuards\<close> and
  \<open>ApiGuardsProperties\<close> (the guards of \<open>internal/api\<close>, \<open>internal/peerauth\<close>).

  Backup and restore.  \<open>DurableFiles\<close>: disks that survive crashes, \<open>internal/durablewrite\<close> and the backups of
  \<open>internal/ledger/maintenance.go\<close>.  \<open>RestoreReconcile\<close>, \<open>Restore\<close>, \<open>RestoreRuns\<close>, \<open>RestoreProperties\<close>:
  \<open>internal/ledgerrestore\<close>.

  \<^bold>\<open>What is shown.\<close>  For the ledger: operations are atomic, up to a failing read of what was committed; statuses move
  along the transition table (a verification takes two of its steps at once); a stored approval is the
  digest of the present material; a commit needs that approval and ends only with every effect committed; an effect has
  a durable intent before and a receipt after; stale fencing tokens are refused; the chains verify after any operations
  and failures and show tampering up to a collision of SHA-256, which the theorem exhibits; replaying the events gives
  the stored rows.  For the service, under any interleaving and failures: its ledger is one of a run of ledger
  operations; a provider is written to only after a status query that did not find the effect, and only after the repository
  reference is recorded; a reported success is a committed transaction that went through the start on the stored approval,
  the reference and the final mark in this order; and a commit that was started does not stay committing.  For the guards,
  on requests that match the contract: no handler without a granting role, or a verified unused capability; a repeated
  request is answered from its record as long as that is not collected.  For operators: quorums,
  single use of capabilities, and when the trail verifies.  For the surroundings: the command line of the sandbox, plain
  repositories, bounded output, the order of checks and its termination, the simulation of a run up to the secret scan, the requests
  that leave and the addresses they go to (not in a forbidden range; the code forbids fewer than all ranges that are not routable).
  For backup and restore: a durable replacement is atomic under any crash; a backup is what its catalog row says; the
  original ledger is never lost; a reported restore is the verified backup; automatic resumption means that nothing
  was dispatched, by the restored ledger and, where the preserved one is found, by that too.

  Most theorems hold in any environment; where the code needs something, the statement says it: texts in ASCII or
  without control characters where a digest of JSON is inverted, queries that are answered, handlers that leave the
  table of requests alone.  A witness that would need two SHA-256 values to differ names the texts that would collide instead of
  computing them.

  \<^bold>\<open>Bounds and fuel.\<close>  The parser of JSON runs on fuel, the length of the text; every call consumes a character, so it is
  enough.  The cycle search of the audit runs to \<open>depth_bound\<close>, more than the nodes of the graph, and a path without
  repetition is no longer; \<open>cycle_search_exact\<close> shows that the search is exact.  The rounds of the check order each
  take a check or end.  All other recursion is structural.  Words of 32 bits are used for SHA-256 and of 64 bits
  for the durations that wrap in the housekeeping jobs.

  \<^bold>\<open>Parameters.\<close>  Ed25519 (with the law that a signature of a key pair verifies), the decoding of compact capabilities, the HTTP
  router, git, HTTP and DNS, the container process with its files, the secret scanner, environment variables and
  random identifiers.  The statements of the ledger are written out over the tables; of SQLite itself, a commit may fail, and the
  restore takes as parameters what opening, folding, checking and diagnosing a database file yields.  A call of the file
  system may fail, after part of its writing, or be the one during which the machine stops.

  \<^bold>\<open>Not modelled.\<close>  Permission bits, file locks and the daemon lock (a flock whose file may be unlinked and created
  again between opening and locking), the command line and the terminal, the HTTP handlers behind the guards, the MCP
  bridge, the encryption of evidence, diagnosis of damaged database files, retention of files, the rate limiter (floating-point
  arithmetic), reports for display (effect graph, timeline, difference summary, service levels) and the tools for
  building, releasing and certifying: they are input and output, calls of libraries, or read-only views.
\<close>

end
